(* ===== verification/Prelude.thy ===== *)
theory Prelude
  imports
    Complex_Main
    "HOL-Library.AList"
    "HOL-Library.Multiset"
    "HOL-Library.Char_ord"
    "HOL-Library.List_Lexorder"
    "HOL-Library.Product_Lexorder"
begin

text \<open>
  The Python vocabulary that every component shares: dynamic values, exceptions as the left
  summand of a result, insertion-ordered dictionaries as association lists, slices, stable
  sorting and bounded logs. Text is a list of characters (code points below 256); a finite
  float is the rational number it denotes, so that rounding is not modelled; the clock is an
  argument of every operation that reads it.
\<close>

section \<open>Values, exceptions and results\<close>

type_synonym pyfloat = rat

datatype pyval =
    PNone
  | PBool bool
  | PInt int
  | PFloat pyfloat
  | PStr string
  | PList "pyval list"
  | PDict "(string \<times> pyval) list"
  | PObj string

text \<open>\<open>PObj s\<close> is any other object, known by its \<open>str()\<close>.\<close>

text \<open>An exception is its class name and its message, the parts that handlers report.\<close>

datatype exc = Exc (exc_type: string) (exc_msg: string)

type_synonym 'a result = "exc + 'a"

fun truthy :: "pyval \<Rightarrow> bool" where
  "truthy PNone = False"
| "truthy (PBool b) = b"
| "truthy (PInt i) = (i \<noteq> 0)"
| "truthy (PFloat x) = (x \<noteq> 0)"
| "truthy (PStr s) = (s \<noteq> [])"
| "truthy (PList xs) = (xs \<noteq> [])"
| "truthy (PDict d) = (d \<noteq> [])"
| "truthy (PObj s) = True"

text \<open>
  \<open>==\<close> on values: numbers by value (a bool counts as a number), dictionaries whatever the order of
  their entries.
\<close>

fun py_number :: "pyval \<Rightarrow> pyfloat option" where
  "py_number (PBool b) = Some (if b then 1 else 0)"
| "py_number (PInt i) = Some (of_int i)"
| "py_number (PFloat x) = Some x"
| "py_number _ = None"

lemma size_in_list: "x \<in> set xs \<Longrightarrow> f x \<le> size_list f xs"
  by (induction xs) auto

lemma size_in_dict: "(k, v) \<in> set d \<Longrightarrow> f v \<le> size_list (size_prod (\<lambda>_. 0) f) d"
  by (induction d) auto

lemma size_in_zip: "(a, b) \<in> set (zip xs ys) \<Longrightarrow> f a \<le> size_list f xs"
  by (metis set_zip_leftD size_in_list)

function py_eq :: "pyval \<Rightarrow> pyval \<Rightarrow> bool" where
  "py_eq x y =
     (case (x, y) of
        (PList xs, PList ys) \<Rightarrow>
          length xs = length ys \<and> list_all (\<lambda>(a, b). py_eq a b) (zip xs ys)
      | (PDict d, PDict e) \<Rightarrow>
          length d = length e \<and>
          list_all (\<lambda>(k, v). case map_of e k of None \<Rightarrow> False | Some w \<Rightarrow> py_eq v w) d
      | _ \<Rightarrow>
          (case (py_number x, py_number y) of
             (Some a, Some b) \<Rightarrow> a = b
           | _ \<Rightarrow> x = y))"
  by pat_completeness auto
termination
  by (relation "measure (\<lambda>(x, y). size x)")
    (auto simp: less_Suc_eq_le intro: size_in_zip size_in_dict)

declare py_eq.simps [simp del]

text \<open>\<open>x or y\<close> on values: the first when it is truthy, else the second.\<close>

definition py_or :: "pyval \<Rightarrow> pyval \<Rightarrow> pyval" where
  "py_or x y = (if truthy x then x else y)"

text \<open>An optional string as a Python value, and back where the value is a string or None.\<close>

fun of_ostr :: "string option \<Rightarrow> pyval" where
  "of_ostr None = PNone"
| "of_ostr (Some s) = PStr s"

fun to_ostr :: "pyval \<Rightarrow> string option" where
  "to_ostr (PStr s) = Some s"
| "to_ostr _ = None"

lemma to_of_ostr [simp]: "to_ostr (of_ostr x) = x"
  by (cases x) auto

section \<open>Insertion-ordered dictionaries\<close>

text \<open>
  A Python dict keeps the order in which its keys were first inserted; storing to a present key
  keeps its position. That is an association list under the library's \<^const>\<open>AList.update\<close> and
  \<^const>\<open>AList.delete\<close>.
\<close>

type_synonym ('k, 'v) dict = "('k \<times> 'v) list"
type_synonym 'v sdict = "(string, 'v) dict"

abbreviation dget :: "('k, 'v) dict \<Rightarrow> 'k \<Rightarrow> 'v option" where
  "dget \<equiv> map_of"

abbreviation dput :: "'k \<Rightarrow> 'v \<Rightarrow> ('k, 'v) dict \<Rightarrow> ('k, 'v) dict" where
  "dput \<equiv> AList.update"

abbreviation ddel :: "'k \<Rightarrow> ('k, 'v) dict \<Rightarrow> ('k, 'v) dict" where
  "ddel \<equiv> AList.delete"

abbreviation dkeys :: "('k, 'v) dict \<Rightarrow> 'k list" where
  "dkeys d \<equiv> map fst d"

abbreviation dvals :: "('k, 'v) dict \<Rightarrow> 'v list" where
  "dvals d \<equiv> map snd d"

definition dgetd :: "('k, 'v) dict \<Rightarrow> 'k \<Rightarrow> 'v \<Rightarrow> 'v" where
  "dgetd d k v = (case dget d k of None \<Rightarrow> v | Some x \<Rightarrow> x)"

text \<open>\<open>d.update(e)\<close>, also \<open>{**d, **e}\<close>: the entries of the second, in order.\<close>

definition dmerge :: "('k, 'v) dict \<Rightarrow> ('k, 'v) dict \<Rightarrow> ('k, 'v) dict" where
  "dmerge d e = foldl (\<lambda>acc (k, v). dput k v acc) d e"

definition dict_wf :: "('k, 'v) dict \<Rightarrow> bool" where
  "dict_wf d \<longleftrightarrow> distinct (dkeys d)"

named_theorems wf_intro \<open>preservation of the dictionaries' key-uniqueness\<close>

lemma dict_wf_Nil [simp, wf_intro]: "dict_wf []"
  by (simp add: dict_wf_def)

lemma dict_wf_put [wf_intro]: "dict_wf d \<Longrightarrow> dict_wf (dput k v d)"
  by (simp add: dict_wf_def distinct_update)

lemma dict_wf_del [wf_intro]: "dict_wf d \<Longrightarrow> dict_wf (ddel k d)"
  by (simp add: dict_wf_def distinct_delete)

lemma dget_put [simp]: "dget (dput k v d) k' = (if k' = k then Some v else dget d k')"
  by (simp add: update_conv)

lemma dget_del [simp]: "dget (ddel k d) k' = (if k' = k then None else dget d k')"
  by (simp add: delete_conv)

lemma dkeys_put [simp]: "fst ` set (dput k v d) = insert k (fst ` set d)"
  using dom_update [of k v d] by (simp add: dom_map_of_conv_image_fst)

lemma dkeys_del [simp]: "fst ` set (ddel k d) = fst ` set d - {k}"
proof -
  have "dom (dget (ddel k d)) = dom (dget d) - {k}"
    by (auto simp: dom_def)
  then show ?thesis by (simp add: dom_map_of_conv_image_fst)
qed

lemma set_ddel: "set (ddel k d) = {x \<in> set d. fst x \<noteq> k}"
  by (auto simp: AList.delete_eq)

lemma list_all_dput: "list_all P d \<Longrightarrow> P (k, v) \<Longrightarrow> list_all P (dput k v d)"
  by (induction d) auto

lemma list_all_del: "list_all P d \<Longrightarrow> list_all P (ddel k d)"
  by (auto simp: list_all_iff AList.delete_eq)

lemma dget_iff_in: "dict_wf d \<Longrightarrow> dget d k = Some v \<longleftrightarrow> (k, v) \<in> set d"
  unfolding dict_wf_def by (rule map_of_eq_Some_iff)

lemma dget_None_iff: "dget d k = None \<longleftrightarrow> k \<notin> set (dkeys d)"
  by (simp add: map_of_eq_None_iff)

lemma dget_Some_in: "dget d k = Some v \<Longrightarrow> (k, v) \<in> set d"
  by (rule map_of_SomeD)

lemma dvals_put_subset: "set (dvals (dput k v d)) \<subseteq> insert v (set (dvals d))"
  by (induction d) auto

lemma dvals_del_subset: "set (dvals (ddel k d)) \<subseteq> set (dvals d)"
  by (induction d) (auto simp: AList.delete_eq)

lemma dput_fresh: "k \<notin> set (dkeys d) \<Longrightarrow> dput k v d = d @ [(k, v)]"
  by (induction d) auto

lemma length_dput: "length (dput k v d) = (if k \<in> set (dkeys d) then length d else Suc (length d))"
  by (induction d) auto

lemma dict_wf_append: "dict_wf (d @ [(k, v)]) \<longleftrightarrow> dict_wf d \<and> k \<notin> set (dkeys d)"
  by (auto simp: dict_wf_def)

lemma dict_wf_filter [wf_intro]: "dict_wf d \<Longrightarrow> dict_wf (filter P d)"
  by (simp add: dict_wf_def distinct_map_filter)

lemma dget_filter: "dict_wf d \<Longrightarrow> dget (filter P d) k =
    (case dget d k of None \<Rightarrow> None | Some v \<Rightarrow> if P (k, v) then Some v else None)"
  by (induction d) (auto simp: dict_wf_def map_of_eq_None_iff split: option.splits if_splits
      dest: dget_Some_in intro: rev_image_eqI)

lemma dget_dmerge: "dget (dmerge d e) k = (case dget (rev e) k of None \<Rightarrow> dget d k | Some v \<Rightarrow> Some v)"
proof (induction e rule: rev_induct)
  case Nil
  then show ?case by (simp add: dmerge_def)
next
  case (snoc x e)
  then show ?case by (cases x) (simp add: dmerge_def)
qed

lemma dict_wf_dmerge [wf_intro]: "dict_wf d \<Longrightarrow> dict_wf (dmerge d e)"
  by (induction e arbitrary: d) (auto simp: dmerge_def intro: wf_intro)

text \<open>A change to the value of one present key, as an assignment to a field of a stored object.\<close>

lemma dmerge_fresh: "distinct (dkeys d @ dkeys fs) \<Longrightarrow> dmerge d fs = d @ fs"
  by (induction fs arbitrary: d) (auto simp: dmerge_def dput_fresh)

definition dmodify :: "'k \<Rightarrow> ('v \<Rightarrow> 'v) \<Rightarrow> ('k, 'v) dict \<Rightarrow> ('k, 'v) dict" where
  "dmodify k f d = (case dget d k of None \<Rightarrow> d | Some v \<Rightarrow> dput k (f v) d)"

lemma dget_modify [simp]:
  "dget (dmodify k f d) k' = (if k' = k then map_option f (dget d k) else dget d k')"
  by (simp add: dmodify_def split: option.splits)

lemma dict_wf_modify [wf_intro]: "dict_wf d \<Longrightarrow> dict_wf (dmodify k f d)"
  by (simp add: dmodify_def dict_wf_put split: option.splits)

lemma dkeys_put_present: "k \<in> set (dkeys d) \<Longrightarrow> dkeys (dput k v d) = dkeys d"
  by (induction d) auto

lemma dkeys_modify [simp]: "dkeys (dmodify k f d) = dkeys d"
proof (cases "dget d k")
  case (Some v)
  then have "k \<in> set (dkeys d)"
    by (metis dget_None_iff option.distinct(1))
  with Some show ?thesis by (simp add: dmodify_def dkeys_put_present)
qed (simp add: dmodify_def)

lemma dkeys_modify_set [simp]: "fst ` set (dmodify k f d) = fst ` set d"
  by (metis dkeys_modify list.set_map)

section \<open>Slices, stable sorting\<close>

text \<open>\<open>xs[-n:]\<close>: the last \<open>n\<close> elements; for \<open>n = 0\<close> Python gives the whole list.\<close>

definition slice_last :: "int \<Rightarrow> 'a list \<Rightarrow> 'a list" where
  "slice_last n xs = (if 0 < n then drop (length xs - nat n) xs else drop (nat (- n)) xs)"

text \<open>\<open>xs[:n]\<close>: the first \<open>n\<close> elements, a negative \<open>n\<close> counting from the end.\<close>

definition slice_first :: "int \<Rightarrow> 'a list \<Rightarrow> 'a list" where
  "slice_first n xs = (if 0 \<le> n then take (nat n) xs else take (nat (int (length xs) + n)) xs)"

lemma length_slice_last: "0 < n \<Longrightarrow> length (slice_last n xs) = min (length xs) (nat n)"
  by (auto simp: slice_last_def)

lemma set_slice_last: "set (slice_last n xs) \<subseteq> set xs"
  by (auto simp: slice_last_def dest: in_set_dropD)

lemma length_slice_first: "0 \<le> n \<Longrightarrow> length (slice_first n xs) = min (length xs) (nat n)"
  by (auto simp: slice_first_def)

lemma set_slice_first: "set (slice_first n xs) \<subseteq> set xs"
  by (auto simp: slice_first_def dest: in_set_takeD)

text \<open>
  \<open>sort(key=f, reverse=True)\<close> keeps the order of equal elements; CPython reverses, sorts stably
  and reverses again.
\<close>

definition sort_desc :: "('a \<Rightarrow> 'k::linorder) \<Rightarrow> 'a list \<Rightarrow> 'a list" where
  "sort_desc f xs = rev (sort_key f (rev xs))"

lemma set_sort_desc [simp]: "set (sort_desc f xs) = set xs"
  by (simp add: sort_desc_def)

lemma mset_sort_desc [simp]: "mset (sort_desc f xs) = mset xs"
  by (simp add: sort_desc_def)

lemma length_sort_desc [simp]: "length (sort_desc f xs) = length xs"
  by (simp add: sort_desc_def)

lemma sort_desc_Nil [simp]: "sort_desc f [] = []"
  by (simp add: sort_desc_def)

lemma sort_desc_sorted: "sorted_wrt (\<lambda>x y. f y \<le> f x) (sort_desc f xs)"
proof -
  have "sorted (map f (sort_key f (rev xs)))" by (rule sorted_sort_key)
  then have "sorted_wrt (\<lambda>x y. f x \<le> f y) (sort_key f (rev xs))"
    by (simp add: sorted_wrt_map)
  then show ?thesis by (simp add: sort_desc_def sorted_wrt_rev)
qed

text \<open>A prefix of the sorted list holds the best: what is left out is nowhere better.\<close>

lemma sort_desc_top:
  assumes "x \<in> set xs" and "x \<notin> set (take n (sort_desc f xs))" and "y \<in> set (take n (sort_desc f xs))"
  shows "f x \<le> f y"
proof -
  have "x \<in> set (sort_desc f xs)" using assms(1) by simp
  then have "x \<in> set (drop n (sort_desc f xs))" using assms(2) by (metis Un_iff append_take_drop_id set_append)
  moreover have "sorted_wrt (\<lambda>x y. f y \<le> f x) (take n (sort_desc f xs) @ drop n (sort_desc f xs))"
    using sort_desc_sorted [of f xs] by simp
  ultimately show ?thesis using assms(3) by (auto simp: sorted_wrt_append simp del: append_take_drop_id)
qed

section \<open>Interfaces: stores and bounded logs\<close>

text \<open>
  The contract of a key/value store as its clients use it: what a lookup returns after a write
  or a deletion, under the store's invariant.
\<close>

locale kv_store =
  fixes lookup :: "'s \<Rightarrow> 'k \<Rightarrow> 'v option"
    and store :: "'k \<Rightarrow> 'v \<Rightarrow> 's \<Rightarrow> 's"
    and erase :: "'k \<Rightarrow> 's \<Rightarrow> 's"
    and inv :: "'s \<Rightarrow> bool"
  assumes lookup_store: "inv s \<Longrightarrow> lookup (store k v s) k' = (if k' = k then Some v else lookup s k')"
    and lookup_erase: "inv s \<Longrightarrow> lookup (erase k s) k' = (if k' = k then None else lookup s k')"
    and inv_store: "inv s \<Longrightarrow> inv (store k v s)"
    and inv_erase: "inv s \<Longrightarrow> inv (erase k s)"
begin

lemma overwrite: "inv s \<Longrightarrow> lookup (store k w (store k v s)) = lookup (store k w s)"
  by (rule ext) (simp add: lookup_store inv_store)

lemma store_erase: "inv s \<Longrightarrow> lookup (erase k (store k v s)) = lookup (erase k s)"
  by (rule ext) (simp add: lookup_store lookup_erase inv_store)

lemma store_commute:
  "inv s \<Longrightarrow> k \<noteq> j \<Longrightarrow> lookup (store k v (store j w s)) = lookup (store j w (store k v s))"
  by (rule ext) (simp add: lookup_store inv_store)

lemma stores_unrelated:
  "inv s \<Longrightarrow> k \<notin> fst ` set ws \<Longrightarrow> lookup (fold (\<lambda>(j, w). store j w) ws s) k = lookup s k"
  by (induction ws arbitrary: s) (auto simp: lookup_store inv_store)

end

interpretation dict: kv_store dget dput ddel dict_wf
  by unfold_locales (auto intro: wf_intro)

text \<open>
  The contract of a capped log: an append keeps the newest entries only. Its clients learn the
  exact contents after any run of appends, and the bound.
\<close>

locale bounded_log =
  fixes capacity :: nat
    and push :: "'a \<Rightarrow> 's \<Rightarrow> 's"
    and entries :: "'s \<Rightarrow> 'a list"
  assumes entries_push:
    "entries (push x s) = drop (Suc (length (entries s)) - capacity) (entries s @ [x])"
begin

lemma length_push: "length (entries (push x s)) \<le> capacity"
  by (simp add: entries_push)

lemma push_within: "length (entries s) < capacity \<Longrightarrow> entries (push x s) = entries s @ [x]"
  by (simp add: entries_push)

lemma newest_last: "0 < capacity \<Longrightarrow> entries (push x s) \<noteq> [] \<and> last (entries (push x s)) = x"
  by (simp add: entries_push)

lemma entries_pushes:
  "length (entries s) \<le> capacity \<Longrightarrow>
   entries (fold push xs s) =
     drop (length (entries s) + length xs - capacity) (entries s @ xs)"
proof (induction xs arbitrary: s)
  case Nil
  then show ?case by simp
next
  case (Cons x xs)
  let ?n = "length (entries s)"
  have "entries (fold push xs (push x s)) =
      drop (length (entries (push x s)) + length xs - capacity) (entries (push x s) @ xs)"
    by (rule Cons.IH) (rule length_push)
  also have "\<dots> = drop (?n + length (x # xs) - capacity) (entries s @ x # xs)"
  proof (cases "?n < capacity")
    case True
    then show ?thesis by (simp add: push_within)
  next
    case False
    with Cons.prems have "?n = capacity" by simp
    then show ?thesis
      by (simp add: entries_push) (cases "entries s", auto simp: drop_Cons')
  qed
  finally show ?case by simp
qed

lemma length_pushes: "xs \<noteq> [] \<Longrightarrow> length (entries (fold push xs s)) \<le> capacity"
  by (cases xs rule: rev_cases) (auto simp: length_push)

end

text \<open>\<open>deque.append\<close> with a \<open>maxlen\<close>.\<close>

definition deque_push :: "nat \<Rightarrow> 'a \<Rightarrow> 'a list \<Rightarrow> 'a list" where
  "deque_push cap x xs = drop (Suc (length xs) - cap) (xs @ [x])"

interpretation deque: bounded_log cap "deque_push cap" "\<lambda>xs. xs" for cap
  by unfold_locales (simp add: deque_push_def)

lemma slice_last_push:
  "0 < n \<Longrightarrow> slice_last n (xs @ [x]) = drop (Suc (length xs) - nat n) (xs @ [x])"
  by (simp add: slice_last_def)

end
