(* ===== verification/Py_String.thy ===== *)
theory Py_String
  imports Prelude
begin

text \<open>
  The string operations of Python that the program uses, on lists of characters: case folding,
  stripping, splitting, searching, integer parsing and printing, and POSIX path arithmetic
  (\<open>posixpath.join\<close>, \<open>normpath\<close>, \<open>abspath\<close> with the working directory as an argument).
\<close>

section \<open>Characters\<close>

definition code :: "char \<Rightarrow> nat" where
  "code c = of_char c"

definition is_space :: "char \<Rightarrow> bool" where
  "is_space c = (let n = code c in (9 \<le> n \<and> n \<le> 13) \<or> (28 \<le> n \<and> n \<le> 32) \<or> n = 133 \<or> n = 160)"

definition is_digit :: "char \<Rightarrow> bool" where
  "is_digit c = (let n = code c in 48 \<le> n \<and> n \<le> 57)"

definition is_alpha :: "char \<Rightarrow> bool" where
  "is_alpha c = (let n = code c in (65 \<le> n \<and> n \<le> 90) \<or> (97 \<le> n \<and> n \<le> 122))"

definition is_alnum :: "char \<Rightarrow> bool" where
  "is_alnum c = (is_digit c \<or> is_alpha c)"

definition lower_char :: "char \<Rightarrow> char" where
  "lower_char c = (let n = code c in
     if (65 \<le> n \<and> n \<le> 90) \<or> (192 \<le> n \<and> n \<le> 222 \<and> n \<noteq> 215) then char_of (n + 32) else c)"

definition upper_char :: "char \<Rightarrow> char" where
  "upper_char c = (let n = code c in
     if (97 \<le> n \<and> n \<le> 122) \<or> (224 \<le> n \<and> n \<le> 254 \<and> n \<noteq> 247) then char_of (n - 32) else c)"

definition str_lower :: "string \<Rightarrow> string" where
  "str_lower s = map lower_char s"

definition str_upper :: "string \<Rightarrow> string" where
  "str_upper s = map upper_char s"

lemmas char_defs = code_def is_space_def is_digit_def is_alpha_def is_alnum_def
  lower_char_def upper_char_def

lemma code_char_of: "n < 256 \<Longrightarrow> code (char_of n) = n"
  by (simp add: code_def)

lemma code_inj: "code c = code d \<longleftrightarrow> c = d"
  by (simp add: code_def)

lemma digit_not_space: "is_digit c \<Longrightarrow> \<not> is_space c"
  by (auto simp: char_defs Let_def)

lemma alpha_not_space: "is_alpha c \<Longrightarrow> \<not> is_space c"
  by (auto simp: char_defs Let_def)

section \<open>Stripping, splitting, searching\<close>

definition lstrip_chars :: "(char \<Rightarrow> bool) \<Rightarrow> string \<Rightarrow> string" where
  "lstrip_chars p s = dropWhile p s"

definition rstrip_chars :: "(char \<Rightarrow> bool) \<Rightarrow> string \<Rightarrow> string" where
  "rstrip_chars p s = rev (dropWhile p (rev s))"

definition strip_chars :: "(char \<Rightarrow> bool) \<Rightarrow> string \<Rightarrow> string" where
  "strip_chars p s = rstrip_chars p (lstrip_chars p s)"

definition str_strip :: "string \<Rightarrow> string" where
  "str_strip s = strip_chars is_space s"

definition startswith :: "string \<Rightarrow> string \<Rightarrow> bool" where
  "startswith s p = (take (length p) s = p)"

definition endswith :: "string \<Rightarrow> string \<Rightarrow> bool" where
  "endswith s p = startswith (rev s) (rev p)"

fun contains :: "string \<Rightarrow> string \<Rightarrow> bool" where
  "contains [] p = (p = [])"
| "contains (c # s) p = (startswith (c # s) p \<or> contains s p)"

text \<open>\<open>s.partition(c)\<close> for a one-character separator: head, whether it was found, rest.\<close>

definition partition_char :: "char \<Rightarrow> string \<Rightarrow> string \<times> bool \<times> string" where
  "partition_char c s = (takeWhile (\<lambda>x. x \<noteq> c) s, c \<in> set s, tl (dropWhile (\<lambda>x. x \<noteq> c) s))"

text \<open>\<open>s.split(c)\<close>: always at least one field.\<close>

fun split_char :: "char \<Rightarrow> string \<Rightarrow> string list" where
  "split_char c [] = [[]]"
| "split_char c (x # s) =
     (if x = c then [] # split_char c s
      else (case split_char c s of [] \<Rightarrow> [[x]] | f # fs \<Rightarrow> (x # f) # fs))"

fun join_str :: "string \<Rightarrow> string list \<Rightarrow> string" where
  "join_str sep [] = []"
| "join_str sep [s] = s"
| "join_str sep (s # t # ts) = s @ sep @ join_str sep (t # ts)"

text \<open>\<open>s.split()\<close>: the maximal runs of characters that are not whitespace.\<close>

definition str_words :: "string \<Rightarrow> string list" where
  "str_words s = filter (\<lambda>w. w \<noteq> []) (foldr
     (\<lambda>c acc. if is_space c then [] # acc else (case acc of [] \<Rightarrow> [[c]] | w # ws \<Rightarrow> (c # w) # ws))
     s [[]])"

lemma startswith_append [simp]: "startswith (p @ s) p"
  by (simp add: startswith_def)

lemma startswith_iff: "startswith s p \<longleftrightarrow> (\<exists>t. s = p @ t)"
proof
  assume "startswith s p"
  then have "s = p @ drop (length p) s"
    unfolding startswith_def by (metis append_take_drop_id)
  then show "\<exists>t. s = p @ t" by blast
qed (auto simp: startswith_def)

lemma startswith_Nil [simp]: "startswith s []"
  by (simp add: startswith_def)

lemma endswith_iff: "endswith s p \<longleftrightarrow> (\<exists>t. s = t @ p)"
  unfolding endswith_def startswith_iff by (metis rev_append rev_rev_ident)

lemma contains_iff: "contains s p \<longleftrightarrow> (\<exists>a b. s = a @ p @ b)"
proof (induction s)
  case Nil
  then show ?case by auto
next
  case (Cons c s)
  have "(\<exists>a b. c # s = a @ p @ b) \<longleftrightarrow> (\<exists>b. c # s = p @ b) \<or> (\<exists>a b. s = a @ p @ b)"
    by (auto simp: Cons_eq_append_conv)
  then show ?case using Cons by (simp add: startswith_iff)
qed

lemma partition_char_append: "c \<notin> set h \<Longrightarrow> partition_char c (h @ c # r) = (h, True, r)"
  by (induction h) (auto simp: partition_char_def)

lemma partition_char_none: "c \<notin> set s \<Longrightarrow> partition_char c s = (s, False, [])"
  by (induction s) (auto simp: partition_char_def)

lemma partition_char_found:
  assumes "c \<in> set s" and "partition_char c s = (h, b, r)"
  shows "b \<and> s = h @ c # r \<and> c \<notin> set h"
proof -
  from assms(1) obtain h' r' where "s = h' @ c # r'" "c \<notin> set h'"
    by (metis split_list_first)
  with assms(2) show ?thesis by (simp add: partition_char_append)
qed

lemma split_char_not_Nil [simp]: "split_char c s \<noteq> []"
  by (induction s) (auto split: list.splits)

lemma split_char_join: "join_str [c] (split_char c s) = s"
proof (induction s)
  case (Cons x s)
  show ?case
  proof (cases "split_char c s")
    case (Cons f fs)
    with Cons.IH show ?thesis by (cases fs) auto
  qed simp
qed simp

lemma split_char_fields: "f \<in> set (split_char c s) \<Longrightarrow> c \<notin> set f"
  by (induction s arbitrary: f) (auto split: list.splits if_splits)

lemma split_char_free: "c \<notin> set f \<Longrightarrow> split_char c f = [f]"
  by (induction f) auto

lemma split_char_append: "c \<notin> set f \<Longrightarrow> split_char c (f @ c # s) = f # split_char c s"
  by (induction f) auto

lemma join_split_char:
  "fs \<noteq> [] \<Longrightarrow> \<forall>f\<in>set fs. c \<notin> set f \<Longrightarrow> split_char c (join_str [c] fs) = fs"
  by (induction "[c]" fs rule: join_str.induct) (auto simp: split_char_free split_char_append)

lemma set_lstrip: "set (lstrip_chars p s) \<subseteq> set s"
  unfolding lstrip_chars_def by (meson set_dropWhileD subsetI)

lemma set_rstrip: "set (rstrip_chars p s) \<subseteq> set s"
  unfolding rstrip_chars_def by (metis set_dropWhileD set_rev subsetI)

lemma set_strip: "set (str_strip s) \<subseteq> set s"
  unfolding str_strip_def strip_chars_def using set_lstrip set_rstrip by (meson subset_trans)

lemma strip_chars_id:
  "s \<noteq> [] \<Longrightarrow> \<not> p (hd s) \<Longrightarrow> \<not> p (last s) \<Longrightarrow> strip_chars p s = s"
proof -
  assume s: "s \<noteq> []" "\<not> p (hd s)" "\<not> p (last s)"
  then have l: "dropWhile p s = s" by (cases s) auto
  from s have "dropWhile p (rev s) = rev s" by (cases "rev s") (auto simp: last_rev [symmetric] rev_swap)
  with l show ?thesis by (simp add: strip_chars_def lstrip_chars_def rstrip_chars_def)
qed

lemma strip_chars_clean: "\<forall>c\<in>set s. \<not> p c \<Longrightarrow> strip_chars p s = s"
proof (cases "s = []")
  case False
  moreover assume "\<forall>c\<in>set s. \<not> p c"
  ultimately show ?thesis by (intro strip_chars_id) auto
qed (simp add: strip_chars_def lstrip_chars_def rstrip_chars_def)

section \<open>Numbers as text\<close>

definition digit_char :: "nat \<Rightarrow> char" where
  "digit_char d = char_of (48 + d)"

fun str_of_nat :: "nat \<Rightarrow> string" where
  "str_of_nat n = (if n < 10 then [digit_char n] else str_of_nat (n div 10) @ [digit_char (n mod 10)])"

declare str_of_nat.simps [simp del]

definition str_of_int :: "int \<Rightarrow> string" where
  "str_of_int i = (if i < 0 then ''-'' @ str_of_nat (nat (- i)) else str_of_nat (nat i))"

definition digits_val :: "string \<Rightarrow> nat" where
  "digits_val ds = foldl (\<lambda>n c. 10 * n + (code c - 48)) 0 ds"

text \<open>
  \<open>int(s)\<close>: surrounding whitespace, an optional sign, digits with single underscores between
  them. The first argument says whether the previous character was a digit.
\<close>

fun digits_under :: "bool \<Rightarrow> string \<Rightarrow> string option" where
  "digits_under prev [] = (if prev then Some [] else None)"
| "digits_under prev (c # s) =
     (if is_digit c then map_option ((#) c) (digits_under True s)
      else if c = CHR ''_'' \<and> prev then digits_under False s
      else None)"

definition py_int_of :: "string \<Rightarrow> int option" where
  "py_int_of s = (let t = str_strip s in
     case t of
       [] \<Rightarrow> None
     | c # r \<Rightarrow>
         if c = CHR ''-'' then map_option (\<lambda>ds. - int (digits_val ds)) (digits_under False r)
         else if c = CHR ''+'' then map_option (\<lambda>ds. int (digits_val ds)) (digits_under False r)
         else map_option (\<lambda>ds. int (digits_val ds)) (digits_under False t))"

lemma is_digit_digit_char: "d < 10 \<Longrightarrow> is_digit (digit_char d)"
  by (simp add: is_digit_def digit_char_def code_char_of)

lemma code_digit_char: "d < 10 \<Longrightarrow> code (digit_char d) = 48 + d"
  by (simp add: digit_char_def code_char_of)

lemma str_of_nat_digits: "\<forall>c\<in>set (str_of_nat n). is_digit c"
proof (induction n rule: str_of_nat.induct)
  case (1 n)
  then show ?case
    by (subst str_of_nat.simps) (auto simp: is_digit_digit_char)
qed

lemma str_of_nat_not_Nil [simp]: "str_of_nat n \<noteq> []"
  by (subst str_of_nat.simps) simp

lemma digits_val_snoc: "digits_val (ds @ [c]) = 10 * digits_val ds + (code c - 48)"
  by (simp add: digits_val_def)

lemma digits_val_str_of_nat: "digits_val (str_of_nat n) = n"
proof (induction n rule: str_of_nat.induct)
  case (1 n)
  show ?case
  proof (cases "n < 10")
    case True
    then show ?thesis
      by (subst str_of_nat.simps) (simp add: digits_val_def code_digit_char)
  next
    case False
    then have "digits_val (str_of_nat (n div 10)) = n div 10" using 1 by simp
    with False show ?thesis
      by (subst str_of_nat.simps) (simp add: digits_val_snoc code_digit_char)
  qed
qed

lemma digits_under_plain:
  "\<forall>c\<in>set ds. is_digit c \<Longrightarrow> ds \<noteq> [] \<or> prev \<Longrightarrow> digits_under prev ds = Some ds"
  by (induction ds arbitrary: prev) auto

lemma digit_neq_sign: "is_digit c \<Longrightarrow> c \<noteq> CHR ''-'' \<and> c \<noteq> CHR ''+'' \<and> c \<noteq> CHR ''_''"
  by (auto simp: is_digit_def code_def Let_def)

lemma py_int_of_str_of_nat: "py_int_of (str_of_nat n) = Some (int n)"
proof -
  let ?s = "str_of_nat n"
  have d: "\<forall>c\<in>set ?s. is_digit c" by (rule str_of_nat_digits)
  then have s: "str_strip ?s = ?s"
    unfolding str_strip_def by (intro strip_chars_clean) (auto dest: digit_not_space)
  obtain c r where cr: "?s = c # r" by (cases ?s) auto
  with d have "is_digit c" by simp
  then have ne: "c \<noteq> CHR ''-''" "c \<noteq> CHR ''+''" by (auto dest: digit_neq_sign)
  have "digits_under False ?s = Some ?s" using d by (intro digits_under_plain) auto
  then show ?thesis
    using s cr ne digits_val_str_of_nat [of n] by (auto simp: py_int_of_def Let_def)
qed

section \<open>POSIX paths\<close>

text \<open>\<open>os.path.join(a, b)\<close>.\<close>

definition path_join :: "string \<Rightarrow> string \<Rightarrow> string" where
  "path_join a b =
     (if startswith b ''/'' then b
      else if a = [] \<or> endswith a ''/'' then a @ b
      else a @ ''/'' @ b)"

text \<open>
  \<open>os.path.normpath\<close>: empty and \<open>.\<close> components dropped, \<open>..\<close> removing the component before
  it. Two leading slashes stay two, as POSIX allows; three or more count as one.
\<close>

fun norm_step :: "bool \<Rightarrow> string list \<Rightarrow> string \<Rightarrow> string list" where
  "norm_step rooted acc c =
     (if c = [] \<or> c = ''.'' then acc
      else if c \<noteq> ''..'' then acc @ [c]
      else if acc = [] then (if rooted then [] else [c])
      else if last acc = ''..'' then acc @ [c]
      else butlast acc)"

definition initial_slashes :: "string \<Rightarrow> nat" where
  "initial_slashes p =
     (if startswith p ''///'' then 1 else if startswith p ''//'' then 2
      else if startswith p ''/'' then 1 else 0)"

definition norm_comps :: "string \<Rightarrow> string list" where
  "norm_comps p = foldl (norm_step (0 < initial_slashes p)) [] (split_char CHR ''/'' p)"

definition normpath :: "string \<Rightarrow> string" where
  "normpath p =
     (let q = replicate (initial_slashes p) CHR ''/'' @ join_str ''/'' (norm_comps p)
      in if q = [] then ''.'' else q)"

text \<open>\<open>os.path.abspath\<close>; the first argument is the process's working directory.\<close>

definition abspath :: "string \<Rightarrow> string \<Rightarrow> string" where
  "abspath cwd p = normpath (if startswith p ''/'' then p else path_join cwd p)"

definition path_dirname :: "string \<Rightarrow> string" where
  "path_dirname p =
     (let h = rev (dropWhile (\<lambda>c. c \<noteq> CHR ''/'') (rev p));
          t = rstrip_chars (\<lambda>c. c = CHR ''/'') h
      in if t = [] then h else t)"

definition path_basename :: "string \<Rightarrow> string" where
  "path_basename p = rev (takeWhile (\<lambda>c. c \<noteq> CHR ''/'') (rev p))"

text \<open>The components of a rooted, normalised path contain neither dots nor slashes.\<close>

definition clean_comp :: "string \<Rightarrow> bool" where
  "clean_comp c \<longleftrightarrow> c \<noteq> [] \<and> c \<noteq> ''.'' \<and> c \<noteq> ''..'' \<and> CHR ''/'' \<notin> set c"

lemma norm_step_clean:
  assumes "\<forall>c\<in>set acc. clean_comp c" and "CHR ''/'' \<notin> set f"
  shows "\<forall>c\<in>set (norm_step True acc f). clean_comp c"
proof (cases "acc = []")
  case True
  with assms show ?thesis by (auto simp: clean_comp_def)
next
  case False
  then have "clean_comp (last acc)" using assms(1) last_in_set by blast
  with assms False show ?thesis by (auto simp: clean_comp_def dest: in_set_butlastD)
qed

lemma norm_comps_clean:
  assumes "startswith p ''/''"
  shows "\<forall>c\<in>set (norm_comps p). clean_comp c"
proof -
  have rooted: "0 < initial_slashes p" using assms by (simp add: initial_slashes_def)
  have "\<forall>c\<in>set (foldl (norm_step True) acc fs). clean_comp c"
    if "\<forall>c\<in>set acc. clean_comp c" and "\<forall>f\<in>set fs. CHR ''/'' \<notin> set f" for acc fs
    using that
  proof (induction fs arbitrary: acc)
    case (Cons f fs)
    then show ?case using norm_step_clean [of acc f] by (simp del: norm_step.simps)
  qed simp
  from this [of "[]" "split_char CHR ''/'' p"] show ?thesis
    by (auto simp: norm_comps_def rooted dest: split_char_fields)
qed

lemma normpath_rooted: "startswith p ''/'' \<Longrightarrow> startswith (normpath p) ''/''"
  by (auto simp: normpath_def initial_slashes_def startswith_def Let_def)

end
