(* ===== verification/Permissions.thy ===== *)
theory Permissions
  imports Py_String
begin

text \<open>
  \<open>buster/kernel/permissions.py\<close>: the policy store and the enforcement point. Rules are kept in
  the order they were added; an evaluator is a function of action, scope and context that may
  raise. The persist hook is outside the store: \<open>perm_saved\<close> logs the representations handed to
  it, newest last (its exceptions are swallowed by \<open>_notify\<close>). Log output is not modelled.
\<close>

section \<open>Rules, decisions and the store\<close>

record perm_rule =
  pr_action :: string
  pr_allow :: bool
  pr_scope :: "string option"
  pr_note :: string

record perm_decision =
  pd_action :: string
  pd_allowed :: bool
  pd_reason :: string
  pd_source :: string

text \<open>A persisted row: None where the key is missing (or, for the scope, null).\<close>

record perm_row =
  row_action :: "string option"
  row_allow :: "pyval option"
  row_scope :: "string option"
  row_note :: "string option"

type_synonym py_context = "pyval sdict"
type_synonym evaluator = "string \<Rightarrow> string option \<Rightarrow> py_context \<Rightarrow> pyval result"

record permissions =
  perm_rules :: "perm_rule list"
  perm_evaluators :: "evaluator list"
  perm_hooked :: bool
  perm_saved :: "perm_row list list"

definition new_permissions :: "bool \<Rightarrow> permissions" where
  "new_permissions hooked =
     \<lparr>perm_rules = [], perm_evaluators = [], perm_hooked = hooked, perm_saved = []\<rparr>"

definition rule_to_row :: "perm_rule \<Rightarrow> perm_row" where
  "rule_to_row r = \<lparr>row_action = Some (pr_action r), row_allow = Some (PBool (pr_allow r)),
     row_scope = pr_scope r, row_note = Some (pr_note r)\<rparr>"

definition row_to_rule :: "perm_row \<Rightarrow> perm_rule" where
  "row_to_rule w = \<lparr>
     pr_action = (case row_action w of None \<Rightarrow> [] | Some a \<Rightarrow> a),
     pr_allow = (case row_allow w of None \<Rightarrow> False | Some v \<Rightarrow> truthy v),
     pr_scope = row_scope w,
     pr_note = (case row_note w of None \<Rightarrow> [] | Some n \<Rightarrow> n)\<rparr>"

definition to_rules :: "permissions \<Rightarrow> perm_row list" where
  "to_rules p = map rule_to_row (perm_rules p)"

definition from_rules :: "perm_row list \<Rightarrow> permissions \<Rightarrow> permissions" where
  "from_rules rows p = p\<lparr>perm_rules := map row_to_rule rows\<rparr>"

definition perm_notify :: "permissions \<Rightarrow> permissions" where
  "perm_notify p = (if perm_hooked p then p\<lparr>perm_saved := perm_saved p @ [to_rules p]\<rparr> else p)"

definition grant :: "string \<Rightarrow> string option \<Rightarrow> string \<Rightarrow> permissions \<Rightarrow> permissions" where
  "grant action scope note p = perm_notify (p\<lparr>perm_rules := perm_rules p @
     [\<lparr>pr_action = action, pr_allow = True, pr_scope = scope, pr_note = note\<rparr>]\<rparr>)"

definition deny :: "string \<Rightarrow> string option \<Rightarrow> string \<Rightarrow> permissions \<Rightarrow> permissions" where
  "deny action scope note p = perm_notify (p\<lparr>perm_rules := perm_rules p @
     [\<lparr>pr_action = action, pr_allow = False, pr_scope = scope, pr_note = note\<rparr>]\<rparr>)"

definition register_evaluator :: "evaluator \<Rightarrow> permissions \<Rightarrow> permissions" where
  "register_evaluator e p = p\<lparr>perm_evaluators := perm_evaluators p @ [e]\<rparr>"

definition perm_clear :: "permissions \<Rightarrow> permissions" where
  "perm_clear p = perm_notify (p\<lparr>perm_rules := [], perm_evaluators := []\<rparr>)"

section \<open>The gate\<close>

definition rule_applies :: "string option \<Rightarrow> perm_rule \<Rightarrow> bool" where
  "rule_applies scope r =
     (case pr_scope r of None \<Rightarrow> True | Some rs \<Rightarrow> rs = [] \<or> scope = Some rs)"

definition rule_matches :: "permissions \<Rightarrow> string \<Rightarrow> string option \<Rightarrow> perm_rule list" where
  "rule_matches p action scope =
     filter (\<lambda>r. pr_action r = action \<and> rule_applies scope r) (perm_rules p)"

fun run_evaluators ::
  "evaluator list \<Rightarrow> string \<Rightarrow> string option \<Rightarrow> py_context \<Rightarrow> perm_decision" where
  "run_evaluators [] action scope ctx = \<lparr>pd_action = action, pd_allowed = False,
     pd_reason = ''denied by default'', pd_source = ''default''\<rparr>"
| "run_evaluators (e # es) action scope ctx =
     (case e action scope ctx of
        Inl _ \<Rightarrow> run_evaluators es action scope ctx
      | Inr v \<Rightarrow>
          if v = PBool True then \<lparr>pd_action = action, pd_allowed = True,
            pd_reason = ''evaluator approved'', pd_source = ''evaluator''\<rparr>
          else if v = PBool False then \<lparr>pd_action = action, pd_allowed = False,
            pd_reason = ''evaluator denied'', pd_source = ''evaluator''\<rparr>
          else run_evaluators es action scope ctx)"

definition perm_check ::
  "permissions \<Rightarrow> string \<Rightarrow> string option \<Rightarrow> py_context \<Rightarrow> perm_decision" where
  "perm_check p action scope ctx =
     (let ms = rule_matches p action scope in
      case find (\<lambda>r. \<not> pr_allow r) ms of
        Some r \<Rightarrow> \<lparr>pd_action = action, pd_allowed = False, pd_reason = pr_note r, pd_source = ''policy''\<rparr>
      | None \<Rightarrow>
          (case find pr_allow ms of
             Some r \<Rightarrow> \<lparr>pd_action = action, pd_allowed = True, pd_reason = pr_note r, pd_source = ''policy''\<rparr>
           | None \<Rightarrow> run_evaluators (perm_evaluators p) action scope ctx))"

definition denied_message :: "string \<Rightarrow> string \<Rightarrow> string" where
  "denied_message action reason = ''Permission denied for action '' @ [CHR 0x27] @ action @ [CHR 0x27] @ '': '' @ reason"

definition perm_require ::
  "permissions \<Rightarrow> string \<Rightarrow> string option \<Rightarrow> py_context \<Rightarrow> unit result" where
  "perm_require p action scope ctx =
     (let d = perm_check p action scope ctx in
      if \<not> pd_allowed d then Inl (Exc ''PermissionDenied'' (denied_message action (pd_reason d)))
      else Inr ())"

section \<open>What the gate decides\<close>

definition policy_denies :: "permissions \<Rightarrow> string \<Rightarrow> string option \<Rightarrow> bool" where
  "policy_denies p action scope \<longleftrightarrow>
     (\<exists>r\<in>set (perm_rules p). pr_action r = action \<and> rule_applies scope r \<and> \<not> pr_allow r)"

definition policy_grants :: "permissions \<Rightarrow> string \<Rightarrow> string option \<Rightarrow> bool" where
  "policy_grants p action scope \<longleftrightarrow>
     (\<exists>r\<in>set (perm_rules p). pr_action r = action \<and> rule_applies scope r \<and> pr_allow r)"

lemma perm_simps [simp]:
  "perm_rules (perm_notify p) = perm_rules p"
  "perm_evaluators (perm_notify p) = perm_evaluators p"
  "perm_rules (grant a s n p) = perm_rules p @ [\<lparr>pr_action = a, pr_allow = True, pr_scope = s, pr_note = n\<rparr>]"
  "perm_rules (deny a s n p) = perm_rules p @ [\<lparr>pr_action = a, pr_allow = False, pr_scope = s, pr_note = n\<rparr>]"
  "perm_rules (register_evaluator e p) = perm_rules p"
  "perm_evaluators (grant a s n p) = perm_evaluators p"
  "perm_evaluators (deny a s n p) = perm_evaluators p"
  "perm_rules (perm_clear p) = []"
  "perm_evaluators (perm_clear p) = []"
  by (simp_all add: perm_notify_def grant_def deny_def register_evaluator_def perm_clear_def)

lemma find_deny_None:
  "find (\<lambda>r. \<not> pr_allow r) (rule_matches p a s) = None \<longleftrightarrow> \<not> policy_denies p a s"
  by (auto simp: find_None_iff rule_matches_def policy_denies_def)

lemma find_grant_None: "find pr_allow (rule_matches p a s) = None \<longleftrightarrow> \<not> policy_grants p a s"
  by (auto simp: find_None_iff rule_matches_def policy_grants_def)

lemma check_denied: "policy_denies p a s \<Longrightarrow> \<not> pd_allowed (perm_check p a s ctx)"
  using find_deny_None [of p a s] by (auto simp: perm_check_def Let_def split: option.splits)

lemma check_granted:
  "\<not> policy_denies p a s \<Longrightarrow> policy_grants p a s \<Longrightarrow> pd_allowed (perm_check p a s ctx)"
  using find_deny_None [of p a s] find_grant_None [of p a s]
  by (auto simp: perm_check_def Let_def split: option.splits)

lemma check_silent:
  "\<not> policy_denies p a s \<Longrightarrow> \<not> policy_grants p a s \<Longrightarrow>
   perm_check p a s ctx = run_evaluators (perm_evaluators p) a s ctx"
  using find_deny_None [of p a s] find_grant_None [of p a s]
  by (auto simp: perm_check_def Let_def split: option.splits)

lemma check_cong:
  "perm_rules p = perm_rules q \<Longrightarrow> perm_evaluators p = perm_evaluators q \<Longrightarrow>
   perm_check p a s ctx = perm_check q a s ctx"
  by (simp only: perm_check_def rule_matches_def)

lemmas check_cases = check_denied check_granted check_silent


lemma no_evaluators_deny: "\<not> pd_allowed (run_evaluators [] a s ctx)"
  by simp

text \<open>An evaluator that raises or abstains is skipped.\<close>

lemma evaluators_skip:
  "e a s ctx = Inl x \<or> (\<exists>v. e a s ctx = Inr v \<and> v \<noteq> PBool True \<and> v \<noteq> PBool False) \<Longrightarrow>
   run_evaluators (e # es) a s ctx = run_evaluators es a s ctx"
  by (auto split: sum.splits)

text \<open>
  The refusal that \<open>require\<close> raises is exactly a negative verdict, with the deciding reason in
  its message.
\<close>

lemma require_raises:
  "(case perm_require p a s ctx of
      Inl e \<Rightarrow> \<not> pd_allowed (perm_check p a s ctx) \<and> exc_type e = ''PermissionDenied''
    | Inr _ \<Rightarrow> pd_allowed (perm_check p a s ctx))"
  by (simp add: perm_require_def Let_def)

section \<open>Persistence\<close>

lemma row_rule_roundtrip [simp]: "row_to_rule (rule_to_row r) = r"
  by (simp add: row_to_rule_def rule_to_row_def)

lemma rows_roundtrip: "map row_to_rule (to_rules p) = perm_rules p"
  by (simp add: to_rules_def comp_def)

text \<open>The representation the hook saw last is the current rule set.\<close>

lemma grant_saves: "perm_hooked p \<Longrightarrow> last (perm_saved (grant a s n p)) = to_rules (grant a s n p)"
  by (simp add: grant_def perm_notify_def to_rules_def)

lemma deny_saves: "perm_hooked p \<Longrightarrow> last (perm_saved (deny a s n p)) = to_rules (deny a s n p)"
  by (simp add: deny_def perm_notify_def to_rules_def)

text \<open>
  A decision survives a restart: a store that loads the rules another one hands to its persist
  hook answers every query on rules as the saved one does.
\<close>

lemma persisted_rules_roundtrip:
  assumes "perm_hooked p" and "perm_evaluators q = perm_evaluators p"
  shows "perm_check (from_rules (last (perm_saved (grant a s n p))) q) act scope ctx =
           perm_check (grant a s n p) act scope ctx"
proof -
  have "perm_rules (from_rules (last (perm_saved (grant a s n p))) q) = perm_rules (grant a s n p)"
    by (simp add: grant_saves assms(1) from_rules_def rows_roundtrip del: perm_simps)
  moreover have "perm_evaluators (from_rules rows q) = perm_evaluators (grant a s n p)" for rows
    using assms(2) by (simp add: from_rules_def)
  ultimately show ?thesis by (rule check_cong)
qed

theorem persisted_rules_roundtrip_witness:
  "perm_check (from_rules (last (perm_saved (grant ''fs.read'' None [] (new_permissions True))))
       (new_permissions True)) ''fs.read'' None [] =
     perm_check (grant ''fs.read'' None [] (new_permissions True)) ''fs.read'' None []"
  by (rule persisted_rules_roundtrip) (simp_all add: new_permissions_def)

section \<open>A denial is sticky\<close>

text \<open>
  The contract between a policy store and the code that drives it: some states block an action,
  a blocked action is never allowed, and the driver's operations keep it blocked.
\<close>

locale deny_gate =
  fixes allows :: "'p \<Rightarrow> 'a \<Rightarrow> bool"
    and blocked :: "'p \<Rightarrow> 'a \<Rightarrow> bool"
    and deny_op :: "'a \<Rightarrow> 'p \<Rightarrow> 'p"
    and apply_op :: "'op \<Rightarrow> 'p \<Rightarrow> 'p"
  assumes blocked_not_allowed: "blocked p a \<Longrightarrow> \<not> allows p a"
    and deny_blocks: "blocked (deny_op a p) a"
    and op_keeps_blocked: "blocked p a \<Longrightarrow> blocked (apply_op x p) a"
begin

lemma ops_keep_blocked: "blocked p a \<Longrightarrow> blocked (fold apply_op xs p) a"
  by (induction xs arbitrary: p) (auto intro: op_keeps_blocked)

lemma denied_forever: "\<not> allows (fold apply_op xs (deny_op a p)) a"
  by (intro blocked_not_allowed ops_keep_blocked deny_blocks)

end

datatype perm_op =
    GrantOp string "string option" string
  | DenyOp string "string option" string
  | EvaluatorOp evaluator

fun apply_perm_op :: "perm_op \<Rightarrow> permissions \<Rightarrow> permissions" where
  "apply_perm_op (GrantOp a s n) p = grant a s n p"
| "apply_perm_op (DenyOp a s n) p = deny a s n p"
| "apply_perm_op (EvaluatorOp e) p = register_evaluator e p"

definition deny_everywhere :: "permissions \<Rightarrow> string \<Rightarrow> bool" where
  "deny_everywhere p a \<longleftrightarrow> (\<exists>r\<in>set (perm_rules p). pr_action r = a \<and> \<not> pr_allow r \<and>
     (pr_scope r = None \<or> pr_scope r = Some []))"

lemma deny_everywhere_denies: "deny_everywhere p a \<Longrightarrow> policy_denies p a s"
  by (auto simp: deny_everywhere_def policy_denies_def rule_applies_def split: option.splits)

lemma deny_everywhere_mono:
  "deny_everywhere p a \<Longrightarrow> set (perm_rules p) \<subseteq> set (perm_rules q) \<Longrightarrow> deny_everywhere q a"
  by (auto simp: deny_everywhere_def)

interpretation sticky: deny_gate
  "\<lambda>p a. \<exists>s ctx. pd_allowed (perm_check p a s ctx)" deny_everywhere
  "\<lambda>a p. deny a None n p" apply_perm_op for n
proof unfold_locales
  fix p a
  assume "deny_everywhere p a"
  then show "\<not> (\<exists>s ctx. pd_allowed (perm_check p a s ctx))"
    using check_denied deny_everywhere_denies by blast
next
  fix p a
  show "deny_everywhere (deny a None n p) a"
    by (auto simp: deny_everywhere_def)
next
  fix p a x
  assume "deny_everywhere p a"
  then show "deny_everywhere (apply_perm_op x p) a"
    by (rule deny_everywhere_mono) (cases x; auto)
qed

text \<open>
  An unscoped denial is final: no later run of grants, denials and evaluator registrations
  makes the gate allow the action again, under any scope and context.
\<close>

lemma denial_survives_grants:
  "\<not> pd_allowed (perm_check (fold apply_perm_op ops (deny a None n p)) a s ctx)"
  using sticky.denied_forever [of ops a n p] by blast

end
