(* ===== verification/Security.thy ===== *)
theory Security
  imports Permissions
begin

text \<open>
  \<open>buster/security/\<close>: the execution context built from a caller's inputs, the elevation manager,
  and the delete protection. \<open>re.compile\<close> of a user-written \<open>re:\<close> pattern is a parameter (a
  match predicate on pattern and path); the patterns the code builds itself are modelled by what
  they match. The working directory of \<open>os.path.abspath\<close> is an argument.
\<close>

section \<open>Execution context\<close>

record security_context =
  sc_actor :: pyval
  sc_scope :: pyval
  sc_elevated :: bool
  sc_source :: pyval
  sc_metadata :: py_context

record execution_context =
  ec_action :: string
  ec_security :: security_context
  ec_workspace :: pyval
  ec_agent :: pyval
  ec_extra :: py_context

definition from_inputs ::
  "string \<Rightarrow> string option \<Rightarrow> string \<Rightarrow> string \<Rightarrow> py_context \<Rightarrow> execution_context" where
  "from_inputs action scope actor source ctx = \<lparr>
     ec_action = action,
     ec_security = \<lparr>
       sc_actor = py_or (dgetd ctx ''actor'' PNone) (PStr actor),
       sc_scope = py_or (of_ostr scope) (dgetd ctx ''scope'' PNone),
       sc_elevated = truthy (dgetd ctx ''elevated'' (PBool False)),
       sc_source = py_or (dgetd ctx ''source'' PNone) (PStr source),
       sc_metadata = ctx\<rparr>,
     ec_workspace = dgetd ctx ''workspace'' PNone,
     ec_agent = dgetd ctx ''agent'' PNone,
     ec_extra = filter (\<lambda>(k, v). k \<noteq> ''scope'' \<and> k \<noteq> ''elevated'') ctx\<rparr>"

definition ec_as_dict :: "execution_context \<Rightarrow> py_context" where
  "ec_as_dict e = [
     (''action'', PStr (ec_action e)),
     (''actor'', sc_actor (ec_security e)),
     (''scope'', sc_scope (ec_security e)),
     (''elevated'', PBool (sc_elevated (ec_security e))),
     (''source'', sc_source (ec_security e)),
     (''workspace'', ec_workspace e),
     (''agent'', ec_agent e)]"

lemma ec_as_dict_wf [wf_intro]: "dict_wf (ec_as_dict e)"
  by (simp add: dict_wf_def ec_as_dict_def)

lemma from_inputs_actor_truthy: "actor \<noteq> [] \<Longrightarrow> truthy (sc_actor (ec_security (from_inputs a s actor src ctx)))"
  by (simp add: from_inputs_def py_or_def)

section \<open>Elevation\<close>

type_synonym approval = "string \<Rightarrow> py_context \<Rightarrow> pyval result"

record elevation_manager =
  em_sensitive :: "string list"
  em_approval :: "approval option"

definition sensitive_default :: "string list" where
  "sensitive_default = [''fs.delete'', ''config.set'', ''permission.grant'', ''permission.deny'',
     ''process.kill'']"

definition new_elevation :: "string list option \<Rightarrow> approval option \<Rightarrow> elevation_manager" where
  "new_elevation sensitive approval = \<lparr>
     em_sensitive = (case sensitive of None \<Rightarrow> sensitive_default | Some s \<Rightarrow> remdups s),
     em_approval = approval\<rparr>"

definition requires_elevation :: "elevation_manager \<Rightarrow> string \<Rightarrow> bool" where
  "requires_elevation m action \<longleftrightarrow> action \<in> set (em_sensitive m)"

definition mark_sensitive :: "string \<Rightarrow> bool \<Rightarrow> elevation_manager \<Rightarrow> elevation_manager" where
  "mark_sensitive action sensitive m = m\<lparr>em_sensitive :=
     (if sensitive then List.insert action (em_sensitive m) else removeAll action (em_sensitive m))\<rparr>"

definition approve :: "elevation_manager \<Rightarrow> string \<Rightarrow> py_context \<Rightarrow> bool" where
  "approve m action ctx =
     (case em_approval m of
        None \<Rightarrow> False
      | Some f \<Rightarrow> (case f action ctx of Inl _ \<Rightarrow> False | Inr v \<Rightarrow> truthy v))"

definition approve_scripted :: "string list \<Rightarrow> approval" where
  "approve_scripted allowed = (\<lambda>action ctx. Inr (PBool (action \<in> set allowed)))"

lemma approve_denied_by_default: "em_approval m = None \<Longrightarrow> \<not> approve m a ctx"
  by (simp add: approve_def)

lemma approve_scripted_iff:
  "em_approval m = Some (approve_scripted l) \<Longrightarrow> approve m a ctx \<longleftrightarrow> a \<in> set l"
  by (simp add: approve_def approve_scripted_def)

lemma requires_after_mark:
  "requires_elevation (mark_sensitive a b m) c \<longleftrightarrow> (if c = a then b else requires_elevation m c)"
  by (auto simp: requires_elevation_def mark_sensitive_def)

section \<open>Delete protection\<close>

datatype path_pattern =
    RePattern string
  | PrefixPattern string
  | ExactPattern string

record delete_protection =
  dp_patterns :: "string list"
  dp_compiled :: "path_pattern list"

definition compile_pattern :: "string \<Rightarrow> string \<Rightarrow> path_pattern" where
  "compile_pattern cwd p =
     (if startswith p ''re:'' then RePattern (drop 3 p)
      else if endswith p ''/'' then PrefixPattern (abspath cwd (butlast p) @ ''/'')
      else ExactPattern (abspath cwd p))"

text \<open>
  \<open>re.match\<close> on the compiled pattern: the escaped prefix at the start, and for a plain path also
  the end of the text (\<open>$\<close> also matches before a final newline) or a separator.
\<close>

fun pattern_matches :: "(string \<Rightarrow> string \<Rightarrow> bool) \<Rightarrow> path_pattern \<Rightarrow> string \<Rightarrow> bool" where
  "pattern_matches re_match (RePattern r) path = re_match r path"
| "pattern_matches re_match (PrefixPattern pre) path = startswith path pre"
| "pattern_matches re_match (ExactPattern q) path =
     (startswith path q \<and>
      (let rest = drop (length q) path in rest = [] \<or> rest = [CHR 0x0A] \<or> startswith rest ''/''))"

definition new_protection :: "string \<Rightarrow> string list \<Rightarrow> delete_protection" where
  "new_protection cwd ps = \<lparr>dp_patterns = ps, dp_compiled = map (compile_pattern cwd) ps\<rparr>"

definition protect :: "string \<Rightarrow> string \<Rightarrow> delete_protection \<Rightarrow> delete_protection" where
  "protect cwd p d = \<lparr>dp_patterns = dp_patterns d @ [p],
     dp_compiled = dp_compiled d @ [compile_pattern cwd p]\<rparr>"

definition is_protected ::
  "(string \<Rightarrow> string \<Rightarrow> bool) \<Rightarrow> string \<Rightarrow> delete_protection \<Rightarrow> string \<Rightarrow> bool" where
  "is_protected re_match cwd d path =
     list_ex (\<lambda>c. pattern_matches re_match c (abspath cwd path)) (dp_compiled d)"

definition ensure_allowed ::
  "(string \<Rightarrow> string \<Rightarrow> bool) \<Rightarrow> string \<Rightarrow> delete_protection \<Rightarrow> string option \<Rightarrow> unit result" where
  "ensure_allowed re_match cwd d path =
     (case path of
        None \<Rightarrow> Inr ()
      | Some p \<Rightarrow>
          if is_protected re_match cwd d p
          then Inl (Exc ''ProtectedPathError'' (''Path is protected from destruction: '' @ abspath cwd p))
          else Inr ())"

text \<open>The default patterns the kernel installs (\<open>Kernel._default_protected\<close>).\<close>

definition default_protected :: "string \<Rightarrow> string list" where
  "default_protected install = [
     rstrip_chars (\<lambda>c. c = CHR ''/'') install @ ''/'',
     path_join install ''config'',
     path_join install ''memory'',
     path_join install ''logs'',
     path_join install ''state'']"

lemma protect_protected_mono:
  "is_protected m cwd d path \<Longrightarrow> is_protected m cwd (protect cwd p d) path"
  by (simp add: is_protected_def protect_def)

lemma pattern_exact_matches_self: "pattern_matches m (ExactPattern q) (q @ ''/'' @ r)"
  by (simp add: startswith_def)

lemma plain_pattern_covers:
  assumes "p \<in> set ps" and "\<not> startswith p ''re:''" and "\<not> endswith p ''/''"
    and "abspath cwd path = abspath cwd p \<or> startswith (abspath cwd path) (abspath cwd p @ ''/'')"
  shows "is_protected m cwd (new_protection cwd ps) path"
proof -
  have "compile_pattern cwd p = ExactPattern (abspath cwd p)"
    using assms(2,3) by (simp add: compile_pattern_def)
  moreover have "pattern_matches m (ExactPattern (abspath cwd p)) (abspath cwd path)"
    using assms(4) by (auto simp: startswith_iff Let_def)
  ultimately show ?thesis
    using assms(1) by (auto simp: is_protected_def new_protection_def list_ex_iff intro!: bexI [of _ p])
qed

text \<open>
  C4. A plain path pattern protects the path itself and everything below it, however the deletion
  names it: what counts is the absolute, normalised path.
\<close>

theorem plain_pattern_protects:
  assumes "p \<in> set ps" and "\<not> startswith p ''re:''" and "\<not> endswith p ''/''"
    and "abspath cwd path = abspath cwd p \<or> startswith (abspath cwd path) (abspath cwd p @ ''/'')"
  shows "is_protected m cwd (new_protection cwd ps) path"
  by (rule plain_pattern_covers [OF assms])

theorem plain_pattern_protects_witness:
  "is_protected (\<lambda>_ _. False) ''/root'' (new_protection ''/root'' [''/var/lib'']) ''/var/tmp/../lib/x''"
  by (rule plain_pattern_protects [of "''/var/lib''"]) code_simp+

text \<open>
  The kernel's default protection does not cover the install directory itself: its first
  pattern ends in a slash, which matches only paths strictly below, so a recursive delete of the
  install root is let through while each file below it is refused.
\<close>

lemma install_root_unprotected:
  "\<not> is_protected m ''/'' (new_protection ''/'' (default_protected ''/var/lib/buster'')) ''/var/lib/buster'' \<and>
   is_protected m ''/'' (new_protection ''/'' (default_protected ''/var/lib/buster'')) ''/var/lib/buster/memory''"
  by (simp add: is_protected_def new_protection_def default_protected_def) code_simp

end
