(* ===== verification/Scheduler.thy ===== *)
theory Scheduler
  imports Py_String
begin

text \<open>
  \<open>buster/kernel/scheduler.py\<close>. Job objects are shared by the heap, the \<open>_jobs\<close> dictionary and
  the callers, so they live in an object store \<open>sch_objs\<close>; the heap holds the ordering tuples and
  \<open>sch_index\<close> the keys of \<open>_jobs\<close>. A \<open>heapq\<close> list is kept as the sorted list of its entries: the
  code only reads the least one, pops it, and pushes. Each call of \<open>start\<close> adds a worker thread;
  a worker's position between two lock sections is its program counter, and the step relation
  interleaves the workers with the public operations, one critical section at a time. The job
  function is an opaque reference; whether it raises is an input of the step that runs it.
\<close>

section \<open>Jobs and the heap\<close>

datatype job_status = Pending | Running | Completed | Cancelled | Failed

record 'f job =
  job_name :: string
  job_func :: 'f
  job_run_at :: pyfloat
  job_interval :: "pyfloat option"
  job_priority :: int
  job_status :: job_status
  job_id :: string
  job_error :: "exc option"

definition job_periodic :: "'f job \<Rightarrow> bool" where
  "job_periodic j = (case job_interval j of None \<Rightarrow> False | Some d \<Rightarrow> 0 < d)"

text \<open>The tuples compare as Python tuples do; the unique id decides before the job is reached.\<close>

datatype heap_entry = HeapEntry (he_at: pyfloat) (he_prio: int) (he_id: string)

definition he_tuple :: "heap_entry \<Rightarrow> pyfloat \<times> int \<times> string" where
  "he_tuple e = (he_at e, he_prio e, he_id e)"

lemma he_tuple_inj: "he_tuple x = he_tuple y \<longleftrightarrow> x = y"
  by (cases x; cases y) (simp add: he_tuple_def)

instantiation heap_entry :: linorder
begin

definition less_eq_heap_entry :: "heap_entry \<Rightarrow> heap_entry \<Rightarrow> bool" where
  "less_eq_heap_entry x y \<longleftrightarrow> he_tuple x \<le> he_tuple y"

definition less_heap_entry :: "heap_entry \<Rightarrow> heap_entry \<Rightarrow> bool" where
  "less_heap_entry x y \<longleftrightarrow> he_tuple x < he_tuple y"

instance
  by standard (auto simp: less_eq_heap_entry_def less_heap_entry_def less_le_not_le
      dest: antisym simp: he_tuple_inj intro: order_trans)

end

lemma heap_entry_le_at: "x \<le> y \<Longrightarrow> he_at x \<le> he_at y"
  by (auto simp: less_eq_heap_entry_def he_tuple_def less_eq_prod_def)

text \<open>What the scheduler needs of \<open>heapq\<close>: a multiset of entries whose head is a least one.\<close>

locale min_queue =
  fixes qpush :: "'a::linorder \<Rightarrow> 'q \<Rightarrow> 'q"
    and qitems :: "'q \<Rightarrow> 'a list"
    and qok :: "'q \<Rightarrow> bool"
  assumes push_items: "qok q \<Longrightarrow> mset (qitems (qpush x q)) = add_mset x (mset (qitems q))"
    and push_ok: "qok q \<Longrightarrow> qok (qpush x q)"
    and head_least: "qok q \<Longrightarrow> qitems q = y # ys \<Longrightarrow> z \<in> set ys \<Longrightarrow> y \<le> z"
begin

lemma pushes_ok: "qok q \<Longrightarrow> qok (fold qpush xs q)"
  by (induction xs arbitrary: q) (auto intro: push_ok)

lemma pushes_items: "qok q \<Longrightarrow> mset (qitems (fold qpush xs q)) = mset xs + mset (qitems q)"
  by (induction xs arbitrary: q) (auto simp: push_items push_ok)

lemma head_after_pushes:
  "qok q \<Longrightarrow> qitems (fold qpush xs q) = y # ys \<Longrightarrow> x \<in> set xs \<union> set (qitems q) \<Longrightarrow> y \<le> x"
proof -
  assume q: "qok q" and eq: "qitems (fold qpush xs q) = y # ys" and x: "x \<in> set xs \<union> set (qitems q)"
  have "x \<in># mset xs + mset (qitems q)" using x by auto
  then have "x \<in> set (y # ys)" using pushes_items [OF q, of xs] eq by (metis set_mset_mset)
  then show ?thesis using head_least [OF pushes_ok [OF q] eq] by auto
qed

end

interpretation hq: min_queue insort "\<lambda>q. q" sorted
  by unfold_locales (auto simp: sorted_insort)

section \<open>The scheduler's operations\<close>

datatype worker =
    WTop | WExec | WPopped string | WChecked string | WRunning string | WDone string | WExit

record 'f scheduler =
  sch_heap :: "heap_entry list"
  sch_objs :: "'f job sdict"
  sch_index :: "string list"
  sch_running :: bool
  sch_workers :: "worker list"

definition new_scheduler :: "'f scheduler" where
  "new_scheduler = \<lparr>sch_heap = [], sch_objs = [], sch_index = [], sch_running = False, sch_workers = []\<rparr>"

definition sch_start :: "'f scheduler \<Rightarrow> 'f scheduler" where
  "sch_start s = (if sch_running s then s
     else s\<lparr>sch_running := True, sch_workers := sch_workers s @ [WTop]\<rparr>)"

definition sch_stop :: "'f scheduler \<Rightarrow> 'f scheduler" where
  "sch_stop s = (if \<not> sch_running s then s else s\<lparr>sch_running := False\<rparr>)"

definition index_add :: "string \<Rightarrow> string list \<Rightarrow> string list" where
  "index_add k ks = (if k \<in> set ks then ks else ks @ [k])"

definition entry_of :: "'f job \<Rightarrow> heap_entry" where
  "entry_of j = HeapEntry (job_run_at j) (job_priority j) (job_id j)"

definition sch_push :: "'f job \<Rightarrow> 'f scheduler \<Rightarrow> 'f scheduler" where
  "sch_push j s = s\<lparr>
     sch_heap := insort (entry_of j) (sch_heap s),
     sch_objs := dput (job_id j) j (sch_objs s),
     sch_index := index_add (job_id j) (sch_index s)\<rparr>"

definition new_job ::
  "pyfloat \<Rightarrow> string \<Rightarrow> string \<Rightarrow> 'f \<Rightarrow> pyfloat \<Rightarrow> pyfloat option \<Rightarrow> int \<Rightarrow> 'f job" where
  "new_job now uid name func delay every priority = \<lparr>job_name = name, job_func = func,
     job_run_at = now + max 0 delay, job_interval = every, job_priority = priority,
     job_status = Pending, job_id = uid, job_error = None\<rparr>"

definition sch_schedule ::
  "pyfloat \<Rightarrow> string \<Rightarrow> string \<Rightarrow> 'f \<Rightarrow> pyfloat \<Rightarrow> pyfloat option \<Rightarrow> int \<Rightarrow> 'f scheduler \<Rightarrow>
   'f job \<times> 'f scheduler" where
  "sch_schedule now uid name func delay every priority s =
     (let j = new_job now uid name func delay every priority in (j, sch_push j s))"

definition sch_get :: "string \<Rightarrow> 'f scheduler \<Rightarrow> 'f job option" where
  "sch_get k s = (if k \<in> set (sch_index s) then dget (sch_objs s) k else None)"

definition set_status :: "string \<Rightarrow> job_status \<Rightarrow> 'f scheduler \<Rightarrow> 'f scheduler" where
  "set_status k st s = s\<lparr>sch_objs := dmodify k (\<lambda>j. j\<lparr>job_status := st\<rparr>) (sch_objs s)\<rparr>"

definition sch_cancel :: "string \<Rightarrow> 'f scheduler \<Rightarrow> bool \<times> 'f scheduler" where
  "sch_cancel k s =
     (case sch_get k s of
        None \<Rightarrow> (False, s)
      | Some j \<Rightarrow> if job_status j \<noteq> Pending then (False, s) else (True, set_status k Cancelled s))"

definition sch_remove :: "string \<Rightarrow> 'f scheduler \<Rightarrow> 'f job option \<times> 'f scheduler" where
  "sch_remove k s = (sch_get k s, s\<lparr>sch_index := removeAll k (sch_index s)\<rparr>)"

definition sch_list_jobs :: "job_status option \<Rightarrow> 'f scheduler \<Rightarrow> 'f job list" where
  "sch_list_jobs status s =
     (let jobs = List.map_filter (dget (sch_objs s)) (sch_index s);
          kept = (case status of None \<Rightarrow> jobs | Some st \<Rightarrow> filter (\<lambda>j. job_status j = st) jobs)
      in sort_key job_run_at kept)"

section \<open>The worker thread\<close>

definition status_of :: "'f scheduler \<Rightarrow> string \<Rightarrow> job_status option" where
  "status_of s k = map_option job_status (dget (sch_objs s) k)"

text \<open>The head of the loop: drop the entries whose job is not pending, and unregister their jobs.\<close>

fun purge :: "(string \<Rightarrow> job_status option) \<Rightarrow> heap_entry list \<Rightarrow> string list \<Rightarrow>
    heap_entry list \<times> string list" where
  "purge st [] idx = ([], idx)"
| "purge st (e # h) idx =
     (if st (he_id e) \<noteq> Some Pending then purge st h (removeAll (he_id e) idx) else (e # h, idx))"

definition worker_top :: "pyfloat \<Rightarrow> 'f scheduler \<Rightarrow> worker \<times> 'f scheduler" where
  "worker_top now s =
     (if \<not> sch_running s then (WExit, s)
      else (let (h, idx) = purge (status_of s) (sch_heap s) (sch_index s);
                s' = s\<lparr>sch_heap := h, sch_index := idx\<rparr>
            in (case h of
                  [] \<Rightarrow> (WTop, s')
                | e # _ \<Rightarrow> if 0 < he_at e - now then (WTop, s') else (WExec, s'))))"

definition worker_pop :: "'f scheduler \<Rightarrow> worker \<times> 'f scheduler" where
  "worker_pop s =
     (case sch_heap s of [] \<Rightarrow> (WTop, s) | e # h \<Rightarrow> (WPopped (he_id e), s\<lparr>sch_heap := h\<rparr>))"

definition worker_check :: "string \<Rightarrow> 'f scheduler \<Rightarrow> worker \<times> 'f scheduler" where
  "worker_check k s = (if status_of s k \<noteq> Some Pending then (WTop, s) else (WChecked k, s))"

definition worker_begin :: "string \<Rightarrow> 'f scheduler \<Rightarrow> worker \<times> 'f scheduler" where
  "worker_begin k s = (WRunning k, set_status k Running s)"

definition worker_finish :: "exc option \<Rightarrow> string \<Rightarrow> 'f scheduler \<Rightarrow> worker \<times> 'f scheduler" where
  "worker_finish outcome k s = (WDone k,
     (case outcome of
        None \<Rightarrow> set_status k Completed s
      | Some e \<Rightarrow> s\<lparr>sch_objs := dmodify k (\<lambda>j. j\<lparr>job_error := Some e, job_status := Failed\<rparr>) (sch_objs s)\<rparr>))"

definition rearm_job :: "pyfloat \<Rightarrow> pyfloat \<Rightarrow> 'f job \<Rightarrow> 'f job" where
  "rearm_job now d j = j\<lparr>job_run_at := now + d, job_status := Pending, job_error := None\<rparr>"

definition worker_rearm :: "pyfloat \<Rightarrow> string \<Rightarrow> 'f scheduler \<Rightarrow> worker \<times> 'f scheduler" where
  "worker_rearm now k s =
     (case dget (sch_objs s) k of
        None \<Rightarrow> (WTop, s)
      | Some j \<Rightarrow>
          if job_periodic j \<and> job_status j \<noteq> Cancelled
          then (WTop, sch_push (rearm_job now (the (job_interval j)) j) s)
          else (WTop, s))"

fun worker_step :: "pyfloat \<Rightarrow> exc option \<Rightarrow> worker \<Rightarrow> 'f scheduler \<Rightarrow> worker \<times> 'f scheduler" where
  "worker_step now oc WTop s = worker_top now s"
| "worker_step now oc WExec s = worker_pop s"
| "worker_step now oc (WPopped k) s = worker_check k s"
| "worker_step now oc (WChecked k) s = worker_begin k s"
| "worker_step now oc (WRunning k) s = worker_finish oc k s"
| "worker_step now oc (WDone k) s = worker_rearm now k s"
| "worker_step now oc WExit s = (WExit, s)"

text \<open>\<open>_execute\<close> without interference: the worker steps from the pop to the end of the job.\<close>

definition sch_execute :: "pyfloat \<Rightarrow> exc option \<Rightarrow> 'f scheduler \<Rightarrow> 'f scheduler" where
  "sch_execute now oc s =
     (case worker_pop s of
        (WPopped k, s1) \<Rightarrow>
          (case worker_check k s1 of
             (WChecked _, s2) \<Rightarrow>
               snd (worker_rearm now k (snd (worker_finish oc k (snd (worker_begin k s2)))))
           | (_, s2) \<Rightarrow> s2)
      | (_, s1) \<Rightarrow> s1)"

section \<open>Interleaving\<close>

datatype sch_event =
    EvScheduled string | EvCancelled string | EvOther | EvBegin string

fun worker_event :: "worker \<Rightarrow> sch_event" where
  "worker_event (WChecked k) = EvBegin k"
| "worker_event _ = EvOther"

inductive sched_step :: "'f scheduler \<Rightarrow> sch_event \<Rightarrow> 'f scheduler \<Rightarrow> bool" where
  st_schedule: "uid \<notin> set (dkeys (sch_objs s)) \<Longrightarrow>
     sch_schedule now uid name func delay every prio s = (j, s') \<Longrightarrow> sched_step s (EvScheduled uid) s'"
| st_cancel: "sch_cancel k s = (True, s') \<Longrightarrow> sched_step s (EvCancelled k) s'"
| st_remove: "sched_step s EvOther (snd (sch_remove k s))"
| st_start: "sched_step s EvOther (sch_start s)"
| st_stop: "sched_step s EvOther (sch_stop s)"
| st_worker: "i < length (sch_workers s) \<Longrightarrow>
     worker_step now oc (sch_workers s ! i) s = (w, s') \<Longrightarrow>
     sched_step s (worker_event (sch_workers s ! i)) (s'\<lparr>sch_workers := (sch_workers s)[i := w]\<rparr>)"

inductive sched_reach :: "'f scheduler \<Rightarrow> bool" where
  reach_new: "sched_reach new_scheduler"
| reach_step: "sched_reach s \<Longrightarrow> sched_step s ev t \<Longrightarrow> sched_reach t"

inductive sched_run :: "'f scheduler \<Rightarrow> sch_event list \<Rightarrow> 'f scheduler \<Rightarrow> bool" where
  run_nil: "sched_run s [] s"
| run_cons: "sched_step s ev t \<Longrightarrow> sched_run t evs u \<Longrightarrow> sched_run s (ev # evs) u"

section \<open>The invariant\<close>

fun holds :: "worker \<Rightarrow> string option" where
  "holds (WPopped k) = Some k"
| "holds (WChecked k) = Some k"
| "holds (WRunning k) = Some k"
| "holds (WDone k) = Some k"
| "holds _ = None"

definition heap_ids :: "'f scheduler \<Rightarrow> string set" where
  "heap_ids s = he_id ` set (sch_heap s)"

definition known :: "'f scheduler \<Rightarrow> string set" where
  "known s = set (dkeys (sch_objs s))"

fun pc_status_ok :: "'f scheduler \<Rightarrow> worker \<Rightarrow> bool" where
  "pc_status_ok s (WChecked k) = (status_of s k = Some Pending \<or> status_of s k = Some Cancelled)"
| "pc_status_ok s (WRunning k) = (status_of s k = Some Running)"
| "pc_status_ok s (WDone k) = (status_of s k = Some Completed \<or> status_of s k = Some Failed)"
| "pc_status_ok s _ = True"

definition heap_inv :: "'f scheduler \<Rightarrow> bool" where
  "heap_inv s \<longleftrightarrow> sorted (sch_heap s) \<and> distinct (map he_id (sch_heap s)) \<and>
     heap_ids s \<subseteq> known s \<and> set (sch_index s) \<subseteq> known s \<and>
     (\<forall>k j. dget (sch_objs s) k = Some j \<longrightarrow> job_id j = k)"

definition own_inv :: "'f scheduler \<Rightarrow> bool" where
  "own_inv s \<longleftrightarrow> (\<forall>i<length (sch_workers s). \<forall>k. holds (sch_workers s ! i) = Some k \<longrightarrow>
     k \<in> known s \<and> k \<notin> heap_ids s \<and>
     (\<forall>j<length (sch_workers s). holds (sch_workers s ! j) = Some k \<longrightarrow> j = i))"

definition status_inv :: "'f scheduler \<Rightarrow> bool" where
  "status_inv s \<longleftrightarrow> (\<forall>i<length (sch_workers s). pc_status_ok s (sch_workers s ! i)) \<and>
     (\<forall>k. status_of s k = Some Running \<longrightarrow> WRunning k \<in> set (sch_workers s))"

definition sched_inv :: "'f scheduler \<Rightarrow> bool" where
  "sched_inv s \<longleftrightarrow> heap_inv s \<and> own_inv s \<and> status_inv s"

lemma set_index_add [simp]: "set (index_add k ks) = insert k (set ks)"
  by (auto simp: index_add_def)

lemma set_status_simps [simp]:
  "sch_heap (set_status k st s) = sch_heap s"
  "sch_index (set_status k st s) = sch_index s"
  "sch_workers (set_status k st s) = sch_workers s"
  "heap_ids (set_status k st s) = heap_ids s"
  "known (set_status k st s) = known s"
  by (simp_all add: set_status_def heap_ids_def known_def)

lemma status_of_set [simp]:
  "status_of (set_status k st s) k' = (if k' = k then map_option (\<lambda>_. st) (status_of s k) else status_of s k')"
  by (cases "dget (sch_objs s) k") (auto simp: status_of_def set_status_def)

lemma status_of_known: "status_of s k \<noteq> None \<longleftrightarrow> k \<in> known s"
  by (simp add: status_of_def known_def map_of_eq_None_iff)

lemma sch_push_simps [simp]:
  "set (sch_heap (sch_push j s)) = insert (entry_of j) (set (sch_heap s))"
  "set (sch_index (sch_push j s)) = insert (job_id j) (set (sch_index s))"
  "sch_workers (sch_push j s) = sch_workers s"
  "known (sch_push j s) = insert (job_id j) (known s)"
  "heap_ids (sch_push j s) = insert (job_id j) (heap_ids s)"
  by (auto simp: sch_push_def known_def heap_ids_def entry_of_def set_insort_key)

lemma status_of_push [simp]:
  "status_of (sch_push j s) k = (if k = job_id j then Some (job_status j) else status_of s k)"
  by (simp add: status_of_def sch_push_def)

lemma heap_inv_push: "heap_inv s \<Longrightarrow> job_id j \<notin> heap_ids s \<Longrightarrow> heap_inv (sch_push j s)"
proof -
  assume s: "heap_inv s" and j: "job_id j \<notin> heap_ids s"
  have "mset (map he_id (insort (entry_of j) (sch_heap s))) = add_mset (job_id j) (mset (map he_id (sch_heap s)))"
    by (simp add: entry_of_def)
  then have "distinct (map he_id (insort (entry_of j) (sch_heap s))) \<longleftrightarrow>
      distinct (job_id j # map he_id (sch_heap s))"
    by (intro mset_eq_imp_distinct_iff) simp
  with s j have "distinct (map he_id (sch_heap (sch_push j s)))"
    by (simp add: sch_push_def heap_inv_def heap_ids_def)
  moreover have "sorted (sch_heap (sch_push j s))"
    using s by (simp add: sch_push_def heap_inv_def sorted_insort)
  moreover have "heap_ids (sch_push j s) \<subseteq> known (sch_push j s)"
    "set (sch_index (sch_push j s)) \<subseteq> known (sch_push j s)"
    using s by (auto simp: heap_inv_def)
  moreover have "\<forall>k i. dget (sch_objs (sch_push j s)) k = Some i \<longrightarrow> job_id i = k"
    using s by (simp add: sch_push_def heap_inv_def)
  ultimately show ?thesis by (simp add: heap_inv_def)
qed

lemma heap_inv_set_status: "heap_inv s \<Longrightarrow> heap_inv (set_status k st s)"
  by (auto simp: heap_inv_def) (auto simp: set_status_def split: if_splits)

lemma purge_suffix: "purge st h idx = (h', idx') \<Longrightarrow> \<exists>pre. h = pre @ h'"
  by (induction st h idx rule: purge.induct) (auto split: if_splits)

lemma purge_head: "purge st h idx = (e # h', idx') \<Longrightarrow> st (he_id e) = Some Pending"
  by (induction st h idx rule: purge.induct) (auto split: if_splits)

lemma purge_index: "purge st h idx = (h', idx') \<Longrightarrow> set idx' \<subseteq> set idx"
  by (induction st h idx rule: purge.induct) (auto split: if_splits)

lemma heap_inv_sub:
  "heap_inv s \<Longrightarrow> \<exists>pre. sch_heap s = pre @ h \<Longrightarrow> set idx \<subseteq> set (sch_index s) \<Longrightarrow>
   heap_inv (s\<lparr>sch_heap := h, sch_index := idx\<rparr>)"
  by (auto simp: heap_inv_def heap_ids_def known_def sorted_append)

text \<open>Moving worker \<open>i\<close> to a counter that holds nothing, or what it held before.\<close>

lemma own_inv_move:
  assumes "own_inv s" and "i < length (sch_workers s)"
    and "holds w = None \<or> holds w = holds (sch_workers s ! i)"
    and "known s \<subseteq> known t" and "\<And>k. holds w = Some k \<or> (\<exists>j<length (sch_workers s). j \<noteq> i \<and> holds (sch_workers s ! j) = Some k) \<Longrightarrow> k \<in> heap_ids t \<Longrightarrow> k \<in> heap_ids s"
    and "sch_workers t = (sch_workers s)[i := w]"
  shows "own_inv t"
  unfolding own_inv_def
proof (intro allI impI)
  fix j k
  assume j: "j < length (sch_workers t)" and h: "holds (sch_workers t ! j) = Some k"
  have orig: "j' < length (sch_workers s) \<and> holds (sch_workers s ! j') = Some k"
    if "j' < length (sch_workers t)" "holds (sch_workers t ! j') = Some k" for j'
    using that assms(2,3,6) by (cases "j' = i") auto
  have js: "j < length (sch_workers s)" and hs: "holds (sch_workers s ! j) = Some k"
    using orig [OF j h] by auto
  then have "k \<in> known s" and n: "k \<notin> heap_ids s"
    and u: "\<forall>j'<length (sch_workers s). holds (sch_workers s ! j') = Some k \<longrightarrow> j' = j"
    using assms(1) by (auto simp: own_inv_def)
  moreover have "holds w = Some k \<or> (\<exists>j<length (sch_workers s). j \<noteq> i \<and> holds (sch_workers s ! j) = Some k)"
    using h hs js assms(2,6) by (cases "j = i") auto
  then have "k \<notin> heap_ids t" using assms(5) n by blast
  moreover have "\<forall>j'<length (sch_workers t). holds (sch_workers t ! j') = Some k \<longrightarrow> j' = j"
    using orig u by blast
  ultimately show "k \<in> known t \<and> k \<notin> heap_ids t \<and>
      (\<forall>j'<length (sch_workers t). holds (sch_workers t ! j') = Some k \<longrightarrow> j' = j)"
    using assms(4) by blast
qed

lemma own_inv_cong:
  "own_inv s \<Longrightarrow> sch_workers t = sch_workers s \<Longrightarrow> known s \<subseteq> known t \<Longrightarrow>
   heap_ids t \<inter> known s \<subseteq> heap_ids s \<Longrightarrow> own_inv t"
  unfolding own_inv_def by (simp only:) blast

lemma pc_status_cong:
  "(\<And>k. holds w = Some k \<Longrightarrow> status_of t k = status_of s k) \<Longrightarrow> pc_status_ok t w = pc_status_ok s w"
  by (cases w) auto

lemma status_inv_cong:
  "status_inv s \<Longrightarrow> sch_workers t = sch_workers s \<Longrightarrow> (\<And>k. status_of t k = status_of s k) \<Longrightarrow> status_inv t"
  unfolding status_inv_def using pc_status_cong [of _ t s] by simp

text \<open>A worker moves on and the statuses change at most for the job it holds.\<close>

lemma status_inv_move:
  assumes s: "status_inv s" and own: "own_inv s" and i: "i < length (sch_workers s)"
    and t: "sch_workers t = (sch_workers s)[i := w]" and ok: "pc_status_ok t w"
    and other: "\<And>k. holds (sch_workers s ! i) \<noteq> Some k \<Longrightarrow> status_of t k = status_of s k"
    and run: "\<And>k. holds (sch_workers s ! i) = Some k \<Longrightarrow> status_of t k = Some Running \<Longrightarrow> w = WRunning k"
  shows "status_inv t"
proof -
  have "pc_status_ok t (sch_workers t ! j)" if j: "j < length (sch_workers t)" for j
  proof (cases "j = i")
    case True
    with ok t i show ?thesis by simp
  next
    case False
    have js: "j < length (sch_workers s)" and e: "sch_workers t ! j = sch_workers s ! j"
      using j t False by auto
    have "holds (sch_workers s ! i) \<noteq> Some k" if "holds (sch_workers s ! j) = Some k" for k
      using own i js that False unfolding own_inv_def by metis
    then have "pc_status_ok t (sch_workers s ! j) = pc_status_ok s (sch_workers s ! j)"
      by (intro pc_status_cong other) auto
    with s js e show ?thesis by (simp add: status_inv_def)
  qed
  moreover have "WRunning k \<in> set (sch_workers t)" if k: "status_of t k = Some Running" for k
  proof (cases "holds (sch_workers s ! i) = Some k")
    case True
    from run [OF True k] have "sch_workers t ! i = WRunning k" using t i by simp
    moreover have "i < length (sch_workers t)" using t i by simp
    ultimately show ?thesis by (metis nth_mem)
  next
    case False
    with k other have "WRunning k \<in> set (sch_workers s)" using s by (simp add: status_inv_def)
    then obtain j where j: "j < length (sch_workers s)" "sch_workers s ! j = WRunning k"
      by (auto simp: in_set_conv_nth)
    with False have "j \<noteq> i" by auto
    with j t show ?thesis by (metis length_list_update nth_list_update_neq nth_mem)
  qed
  ultimately show ?thesis by (simp add: status_inv_def)
qed

lemma held_known: "own_inv s \<Longrightarrow> i < length (sch_workers s) \<Longrightarrow> holds (sch_workers s ! i) = Some k \<Longrightarrow> k \<in> known s"
  by (simp add: own_inv_def)

lemma held_not_queued: "own_inv s \<Longrightarrow> i < length (sch_workers s) \<Longrightarrow> holds (sch_workers s ! i) = Some k \<Longrightarrow> k \<notin> heap_ids s"
  by (simp add: own_inv_def)

lemma sched_inv_new: "sched_inv new_scheduler"
  by (simp add: sched_inv_def heap_inv_def own_inv_def status_inv_def new_scheduler_def heap_ids_def
      known_def status_of_def)

lemma sched_inv_push_fresh:
  assumes s: "sched_inv s" and fresh: "job_id j \<notin> known s" and pend: "job_status j = Pending"
  shows "sched_inv (sch_push j s)"
proof -
  have h: "heap_inv s" and o: "own_inv s" and st: "status_inv s" using s by (auto simp: sched_inv_def)
  have "job_id j \<notin> heap_ids s" using h fresh by (auto simp: heap_inv_def)
  with h have "heap_inv (sch_push j s)" by (rule heap_inv_push)
  moreover have "own_inv (sch_push j s)"
    using o fresh by (intro own_inv_cong [OF o]) auto
  moreover have "status_inv (sch_push j s)"
  proof -
    have "pc_status_ok (sch_push j s) (sch_workers s ! i) = pc_status_ok s (sch_workers s ! i)"
      if "i < length (sch_workers s)" for i
      using held_known [OF o that] fresh by (intro pc_status_cong) auto
    with st pend show ?thesis by (auto simp: status_inv_def)
  qed
  ultimately show ?thesis by (simp add: sched_inv_def)
qed

lemma sched_inv_cancel:
  assumes s: "sched_inv s" and c: "sch_cancel k s = (True, t)"
  shows "sched_inv t"
proof -
  have h: "heap_inv s" and o: "own_inv s" and st: "status_inv s" using s by (auto simp: sched_inv_def)
  from c have t: "t = set_status k Cancelled s" and p: "status_of s k = Some Pending"
    by (auto simp: sch_cancel_def sch_get_def status_of_def split: option.splits if_splits)
  have "heap_inv t" using h t by (simp add: heap_inv_set_status)
  moreover have "own_inv t" using t by (intro own_inv_cong [OF o]) auto
  moreover have "status_inv t"
  proof -
    have "pc_status_ok t w" if "pc_status_ok s w" for w
      using that p t by (cases w) auto
    with st t p show ?thesis by (auto simp: status_inv_def)
  qed
  ultimately show ?thesis by (simp add: sched_inv_def)
qed

lemma worker_step_workers: "worker_step now oc w s = (w', t) \<Longrightarrow> sch_workers t = sch_workers s"
  by (cases w) (auto simp: worker_top_def worker_pop_def worker_check_def worker_begin_def
      worker_finish_def worker_rearm_def Let_def split: if_splits list.splits option.splits prod.splits)

text \<open>
  One lemma for a worker step that leaves the store alone, with the heap and the index shrinking.
\<close>

lemma sched_inv_quiet:
  assumes s: "sched_inv s" and i: "i < length (sch_workers s)"
    and hold: "holds w = None \<or> holds w = holds (sch_workers s ! i)"
    and keep: "\<And>k. sch_workers s ! i = WRunning k \<Longrightarrow> w = WRunning k"
    and pc: "pc_status_ok s w"
    and t: "t = s\<lparr>sch_heap := h, sch_index := idx, sch_workers := (sch_workers s)[i := w]\<rparr>"
    and h: "\<exists>pre. sch_heap s = pre @ h" and idx: "set idx \<subseteq> set (sch_index s)"
  shows "sched_inv t"
proof -
  have hi: "heap_inv s" and o: "own_inv s" and st: "status_inv s" using s by (auto simp: sched_inv_def)
  have sto: "status_of t k = status_of s k" for k by (simp add: t status_of_def)
  have "heap_inv (s\<lparr>sch_heap := h, sch_index := idx\<rparr>)" by (rule heap_inv_sub [OF hi h idx])
  then have "heap_inv t" by (simp add: t heap_inv_def heap_ids_def known_def)
  moreover have "heap_ids t \<subseteq> heap_ids s" using h by (auto simp: t heap_ids_def)
  then have "own_inv t"
    by (intro own_inv_move [OF o i hold]) (auto simp: t known_def)
  moreover have "status_inv t"
  proof (rule status_inv_move [OF st o i])
    show "sch_workers t = (sch_workers s)[i := w]" by (simp add: t)
    show "pc_status_ok t w" using pc pc_status_cong [of w t s] sto by simp
    fix k assume k: "holds (sch_workers s ! i) = Some k" and r: "status_of t k = Some Running"
    have "WRunning k \<in> set (sch_workers s)" using st r sto by (simp add: status_inv_def)
    then obtain j where j: "j < length (sch_workers s)" "sch_workers s ! j = WRunning k"
      by (auto simp: in_set_conv_nth)
    then have "holds (sch_workers s ! j) = Some k" by simp
    then have "j = i" using o i j(1) k unfolding own_inv_def by metis
    with j keep show "w = WRunning k" by simp
  qed (simp add: sto)
  ultimately show ?thesis by (simp add: sched_inv_def)
qed

lemma sched_inv_top:
  assumes s: "sched_inv s" and i: "i < length (sch_workers s)" and w: "sch_workers s ! i = WTop"
    and st: "worker_top now s = (w', t)"
  shows "sched_inv (t\<lparr>sch_workers := (sch_workers s)[i := w']\<rparr>)"
proof -
  obtain h idx where p: "purge (status_of s) (sch_heap s) (sch_index s) = (h, idx)" by fastforce
  have w': "holds w' = None" "pc_status_ok s w'"
    using st p by (auto simp: worker_top_def Let_def split: if_splits list.splits)
  show ?thesis
  proof (cases "sch_running s")
    case True
    then have "t = s\<lparr>sch_heap := h, sch_index := idx\<rparr>"
      using st p by (auto simp: worker_top_def Let_def split: if_splits list.splits)
    then show ?thesis
      using w' w purge_suffix [OF p] purge_index [OF p] by (intro sched_inv_quiet [OF s i, where w = w']) auto
  next
    case False
    then have "t = s" using st by (simp add: worker_top_def)
    then show ?thesis using w' w by (intro sched_inv_quiet [OF s i, where w = w' and h = "sch_heap s" and idx = "sch_index s"]) auto
  qed
qed

text \<open>The pop hands the head of the heap to the worker.\<close>

lemma sched_inv_pop:
  assumes s: "sched_inv s" and i: "i < length (sch_workers s)" and w: "sch_workers s ! i = WExec"
    and st: "worker_pop s = (w', t)"
  shows "sched_inv (t\<lparr>sch_workers := (sch_workers s)[i := w']\<rparr>)"
proof (cases "sch_heap s")
  case Nil
  then have "w' = WTop" "t = s" using st by (auto simp: worker_pop_def)
  then show ?thesis using w by (intro sched_inv_quiet [OF s i, where w = WTop and h = "sch_heap s" and idx = "sch_index s"]) auto
next
  case (Cons e h)
  let ?t = "t\<lparr>sch_workers := (sch_workers s)[i := w']\<rparr>" and ?k = "he_id e"
  have eq: "w' = WPopped ?k" "t = s\<lparr>sch_heap := h\<rparr>" using st Cons by (auto simp: worker_pop_def)
  have hi: "heap_inv s" and o: "own_inv s" and si: "status_inv s" using s by (auto simp: sched_inv_def)
  have ids: "heap_ids s = insert ?k (he_id ` set h)" "heap_ids ?t = he_id ` set h"
    "?k \<notin> he_id ` set h" "?k \<in> known s" "known ?t = known s"
    using hi Cons eq by (auto simp: heap_inv_def heap_ids_def known_def)
  have "heap_inv (s\<lparr>sch_heap := h, sch_index := sch_index s\<rparr>)"
    using Cons by (intro heap_inv_sub [OF hi]) (auto intro: exI [of _ "[e]"])
  then have "heap_inv ?t" using eq by (simp add: heap_inv_def heap_ids_def known_def)
  moreover have "own_inv ?t"
    unfolding own_inv_def
  proof (intro allI impI)
    fix j k
    assume j: "j < length (sch_workers ?t)" and h: "holds (sch_workers ?t ! j) = Some k"
    have "holds (sch_workers s ! j') \<noteq> Some ?k" if "j' < length (sch_workers s)" for j'
      using held_not_queued [OF o that] ids(1) by auto
    then show "k \<in> known ?t \<and> k \<notin> heap_ids ?t \<and>
        (\<forall>j'<length (sch_workers ?t). holds (sch_workers ?t ! j') = Some k \<longrightarrow> j' = j)"
      using o j h eq ids w i unfolding own_inv_def
      by (cases "j = i") (auto simp: nth_list_update)
  qed
  moreover have "status_inv ?t"
  proof (rule status_inv_move [OF si o i])
    show "sch_workers ?t = (sch_workers s)[i := w']" by simp
  qed (auto simp: eq w status_of_def)
  ultimately show ?thesis by (simp add: sched_inv_def)
qed

lemma sched_inv_check:
  assumes s: "sched_inv s" and i: "i < length (sch_workers s)" and w: "sch_workers s ! i = WPopped k"
    and st: "worker_check k s = (w', t)"
  shows "sched_inv (t\<lparr>sch_workers := (sch_workers s)[i := w']\<rparr>)"
proof -
  have "t = s" and "w' = WTop \<or> (w' = WChecked k \<and> status_of s k = Some Pending)"
    using st by (auto simp: worker_check_def split: if_splits)
  then show ?thesis
    using w by (intro sched_inv_quiet [OF s i, where w = w' and h = "sch_heap s" and idx = "sch_index s"]) auto
qed

text \<open>A step that writes the status of the job the worker holds.\<close>

lemma sched_inv_write:
  assumes s: "sched_inv s" and i: "i < length (sch_workers s)" and k: "holds (sch_workers s ! i) = Some k"
    and w': "holds w' = Some k" and t: "sch_workers t = (sch_workers s)[i := w']"
    and heap: "sch_heap t = sch_heap s" "sch_index t = sch_index s" "known t = known s"
      "heap_inv t"
    and other: "\<And>k'. k' \<noteq> k \<Longrightarrow> status_of t k' = status_of s k'"
    and ok: "pc_status_ok t w'" and run: "status_of t k = Some Running \<Longrightarrow> w' = WRunning k"
  shows "sched_inv t"
proof -
  have o: "own_inv s" and si: "status_inv s" using s by (auto simp: sched_inv_def)
  have "own_inv t"
    using k w' heap t by (intro own_inv_move [OF o i, where w = w']) (auto simp: heap_ids_def)
  moreover have "status_inv t"
    using other ok run k t by (intro status_inv_move [OF si o i, where w = w']) auto
  ultimately show ?thesis using heap by (simp add: sched_inv_def)
qed

lemma known_simps [simp]:
  "known (s\<lparr>sch_workers := ws\<rparr>) = known s"
  "status_of (s\<lparr>sch_workers := ws\<rparr>) k = status_of s k"
  "heap_inv (s\<lparr>sch_workers := ws\<rparr>) = heap_inv s"
  by (simp_all add: known_def status_of_def heap_inv_def heap_ids_def)

lemma sched_inv_begin:
  assumes s: "sched_inv s" and i: "i < length (sch_workers s)" and w: "sch_workers s ! i = WChecked k"
    and st: "worker_begin k s = (w', t)"
  shows "sched_inv (t\<lparr>sch_workers := (sch_workers s)[i := w']\<rparr>)"
proof -
  have eq: "w' = WRunning k" "t = set_status k Running s" using st by (auto simp: worker_begin_def)
  have kn: "status_of s k \<noteq> None"
    using s i w held_known status_of_known by (fastforce simp: sched_inv_def)
  show ?thesis
    using s w eq kn by (intro sched_inv_write [OF s i, where k = k and w' = w'])
      (auto simp: sched_inv_def heap_inv_set_status)
qed

lemma status_of_error [simp]:
  "status_of (s\<lparr>sch_objs := dmodify k (\<lambda>j. j\<lparr>job_error := e, job_status := st\<rparr>) (sch_objs s)\<rparr>) k' =
     (if k' = k then map_option (\<lambda>_. st) (status_of s k) else status_of s k')"
  by (cases "dget (sch_objs s) k") (auto simp: status_of_def)

lemma heap_inv_error:
  "heap_inv s \<Longrightarrow>
   heap_inv (s\<lparr>sch_objs := dmodify k (\<lambda>j. j\<lparr>job_error := e, job_status := st\<rparr>) (sch_objs s)\<rparr>)"
  by (auto simp: heap_inv_def heap_ids_def known_def split: if_splits)

lemma sched_inv_finish:
  assumes s: "sched_inv s" and i: "i < length (sch_workers s)" and w: "sch_workers s ! i = WRunning k"
    and st: "worker_finish oc k s = (w', t)"
  shows "sched_inv (t\<lparr>sch_workers := (sch_workers s)[i := w']\<rparr>)"
proof -
  have kn: "status_of s k \<noteq> None"
    using s i w held_known status_of_known by (fastforce simp: sched_inv_def)
  show ?thesis
  proof (cases oc)
    case None
    then have eq: "w' = WDone k" "t = set_status k Completed s" using st by (auto simp: worker_finish_def)
    show ?thesis
      using s w eq kn by (intro sched_inv_write [OF s i, where k = k and w' = w'])
        (auto simp: sched_inv_def heap_inv_set_status)
  next
    case (Some e)
    then have eq: "w' = WDone k"
      "t = s\<lparr>sch_objs := dmodify k (\<lambda>j. j\<lparr>job_error := Some e, job_status := Failed\<rparr>) (sch_objs s)\<rparr>"
      using st by (auto simp: worker_finish_def)
    show ?thesis
      using s w eq kn heap_inv_error [of s k Failed "Some e"]
      by (intro sched_inv_write [OF s i, where k = k and w' = w']) (auto simp: sched_inv_def known_def)
  qed
qed

lemma sched_inv_rearm:
  assumes s: "sched_inv s" and i: "i < length (sch_workers s)" and w: "sch_workers s ! i = WDone k"
    and st: "worker_rearm now k s = (w', t)"
  shows "sched_inv (t\<lparr>sch_workers := (sch_workers s)[i := w']\<rparr>)" (is "sched_inv ?t")
proof (cases "t = s")
  case True
  have "w' = WTop" using st by (auto simp: worker_rearm_def split: option.splits if_splits)
  with True w show ?thesis
    by (intro sched_inv_quiet [OF s i, where w = w' and h = "sch_heap s" and idx = "sch_index s"]) auto
next
  case False
  then obtain j where j: "dget (sch_objs s) k = Some j" and w': "w' = WTop"
    and t: "t = sch_push (rearm_job now (the (job_interval j)) j) s"
    using st by (auto simp: worker_rearm_def split: option.splits if_splits)
  let ?j = "rearm_job now (the (job_interval j)) j"
  have hi: "heap_inv s" and o: "own_inv s" and si: "status_inv s" using s by (auto simp: sched_inv_def)
  have id: "job_id ?j = k" using hi j by (simp add: heap_inv_def rearm_job_def)
  have nq: "k \<notin> heap_ids s" and kn: "k \<in> known s"
    using held_not_queued [OF o i] held_known [OF o i] w by auto
  have "heap_inv ?t" using heap_inv_push [OF hi, of ?j] nq id t by simp
  moreover have "own_inv ?t"
  proof -
    have "k' \<noteq> k" if "\<exists>j<length (sch_workers s). j \<noteq> i \<and> holds (sch_workers s ! j) = Some k'" for k'
      using o i w that unfolding own_inv_def by (metis holds.simps(4))
    then show ?thesis
      using w' id t kn by (intro own_inv_move [OF o i, where w = w']) (auto simp: heap_ids_def entry_of_def)
  qed
  moreover have "status_inv ?t"
    using w w' id t by (intro status_inv_move [OF si o i, where w = w']) (auto simp: rearm_job_def)
  ultimately show ?thesis by (simp add: sched_inv_def)
qed

lemmas sched_inv_ops = sched_inv_top sched_inv_pop sched_inv_check sched_inv_begin
  sched_inv_finish sched_inv_rearm

lemma sched_inv_worker:
  assumes s: "sched_inv s" and i: "i < length (sch_workers s)"
    and st: "worker_step now oc (sch_workers s ! i) s = (w', t)"
  shows "sched_inv (t\<lparr>sch_workers := (sch_workers s)[i := w']\<rparr>)"
proof (cases "sch_workers s ! i")
  case WExit
  then have "w' = WExit" "t = s" using st by auto
  then show ?thesis using WExit
    by (intro sched_inv_quiet [OF s i, where w = w' and h = "sch_heap s" and idx = "sch_index s"]) auto
qed (use s i st in \<open>auto intro: sched_inv_ops\<close>)

lemma frame_simps [simp]:
  "known (s\<lparr>sch_running := b\<rparr>) = known s" "known (s\<lparr>sch_index := idx\<rparr>) = known s"
  "heap_ids (s\<lparr>sch_running := b\<rparr>) = heap_ids s" "heap_ids (s\<lparr>sch_index := idx\<rparr>) = heap_ids s"
  "heap_ids (s\<lparr>sch_workers := ws\<rparr>) = heap_ids s"
  "status_of (s\<lparr>sch_running := b\<rparr>) k = status_of s k"
  "status_of (s\<lparr>sch_index := idx\<rparr>) k = status_of s k"
  "status_of (s\<lparr>sch_heap := h\<rparr>) k = status_of s k"
  by (simp_all add: known_def heap_ids_def status_of_def)

lemma pc_frame [simp]:
  "pc_status_ok (s\<lparr>sch_running := b\<rparr>) w = pc_status_ok s w"
  "pc_status_ok (s\<lparr>sch_index := idx\<rparr>) w = pc_status_ok s w"
  "pc_status_ok (s\<lparr>sch_workers := ws\<rparr>) w = pc_status_ok s w"
  by (rule pc_status_cong; simp)+

lemma sched_inv_idle:
  assumes s: "sched_inv s"
  shows "sched_inv (snd (sch_remove k s))" "sched_inv (sch_start s)" "sched_inv (sch_stop s)"
proof -
  have r: "sched_inv (s\<lparr>sch_running := b\<rparr>)" for b
    using s by (simp add: sched_inv_def heap_inv_def own_inv_def status_inv_def)
  then show "sched_inv (sch_stop s)" using s by (simp add: sch_stop_def)
  show "sched_inv (snd (sch_remove k s))"
    using s by (auto simp: sch_remove_def sched_inv_def own_inv_def status_inv_def heap_inv_def)
  have "sched_inv (s\<lparr>sch_workers := sch_workers s @ [WTop]\<rparr>)" if s: "sched_inv s" for s :: "'a scheduler"
  proof -
    have "holds ((sch_workers s @ [WTop]) ! j) = Some k \<Longrightarrow> j < length (sch_workers s)"
      if "j < Suc (length (sch_workers s))" for j k
      using that by (cases "j = length (sch_workers s)") (auto simp: nth_append)
    then have "own_inv (s\<lparr>sch_workers := sch_workers s @ [WTop]\<rparr>)"
      using s by (auto simp: sched_inv_def own_inv_def nth_append)
    moreover have "status_inv (s\<lparr>sch_workers := sch_workers s @ [WTop]\<rparr>)"
      using s by (auto simp: sched_inv_def status_inv_def nth_append)
    ultimately show ?thesis using s by (simp add: sched_inv_def)
  qed
  from this [OF r [of True]] show "sched_inv (sch_start s)" using s by (simp add: sch_start_def)
qed

lemma sched_inv_step: "sched_step s ev t \<Longrightarrow> sched_inv s \<Longrightarrow> sched_inv t"
proof (induction rule: sched_step.induct)
  case (st_schedule uid s now name func delay every prio j s')
  then show ?case
    by (auto simp: sch_schedule_def Let_def new_job_def known_def intro!: sched_inv_push_fresh)
qed (auto intro: sched_inv_cancel sched_inv_idle sched_inv_worker)

lemma sched_reach_inv: "sched_reach s \<Longrightarrow> sched_inv s"
  by (induction rule: sched_reach.induct) (auto intro: sched_inv_new sched_inv_step)

section \<open>Properties\<close>

text \<open>
  C2. However the public operations and any number of worker threads interleave, no job is in the
  hands of two workers: a job popped, checked, running or just finished by one worker is neither
  queued nor held by another. In particular no job function ever runs twice at the same time.
\<close>

theorem exclusive_execution:
  assumes "sched_reach s" and "i < length (sch_workers s)" and "j < length (sch_workers s)"
    and "sch_workers s ! i = WRunning k" and "holds (sch_workers s ! j) = Some k"
  shows "i = j \<and> k \<notin> heap_ids s \<and> status_of s k = Some Running"
proof -
  have inv: "own_inv s" "status_inv s" using sched_reach_inv [OF assms(1)] by (auto simp: sched_inv_def)
  have "holds (sch_workers s ! i) = Some k" using assms(4) by simp
  then have "k \<notin> heap_ids s" "j = i" using inv(1) assms(2,3,5) unfolding own_inv_def by metis+
  moreover have "pc_status_ok s (sch_workers s ! i)" using inv(2) assms(2) by (simp add: status_inv_def)
  ultimately show ?thesis using assms(4) by simp
qed

text \<open>A cancelled job that no worker has already checked stays cancelled and never begins.\<close>

definition dead :: "'f scheduler \<Rightarrow> string \<Rightarrow> bool" where
  "dead s k \<longleftrightarrow> status_of s k = Some Cancelled \<and> WChecked k \<notin> set (sch_workers s)"

lemma worker_step_dead:
  assumes inv: "sched_inv s" and d: "dead s k" and i: "i < length (sch_workers s)"
    and st: "worker_step now oc (sch_workers s ! i) s = (w', t)"
  shows "dead (t\<lparr>sch_workers := (sch_workers s)[i := w']\<rparr>) k \<and> sch_workers s ! i \<noteq> WChecked k"
proof -
  have pc: "pc_status_ok s (sch_workers s ! i)" and hi: "heap_inv s"
    using inv i by (auto simp: sched_inv_def status_inv_def)
  have nc: "sch_workers s ! i \<noteq> WChecked k" using d nth_mem [OF i] by (auto simp: dead_def)
  have "status_of t k = Some Cancelled \<and> w' \<noteq> WChecked k"
  proof (cases "sch_workers s ! i")
    case (WDone k')
    with pc d have "k' \<noteq> k" by (auto simp: dead_def)
    with WDone d st hi show ?thesis
      by (auto simp: dead_def worker_rearm_def rearm_job_def heap_inv_def split: option.splits if_splits)
  next
    case WTop
    with d st show ?thesis
      by (auto simp: dead_def worker_top_def Let_def split: if_splits list.splits prod.splits)
  qed (use d st pc nc in \<open>auto simp: dead_def worker_pop_def worker_check_def worker_begin_def
        worker_finish_def split: if_splits list.splits option.splits\<close>)
  then show ?thesis
    using d nc set_update_subset_insert [of "sch_workers s" i w'] by (auto simp: dead_def)
qed

lemma step_dead:
  "sched_step s ev t \<Longrightarrow> sched_inv s \<Longrightarrow> dead s k \<Longrightarrow> dead t k \<and> ev \<noteq> EvBegin k"
proof (induction rule: sched_step.induct)
  case (st_schedule uid s now name func delay every prio j s')
  then have "uid \<noteq> k" by (auto simp: dead_def status_of_def map_of_eq_None_iff [symmetric])
  with st_schedule show ?case by (auto simp: dead_def sch_schedule_def Let_def new_job_def)
next
  case (st_cancel k' s s')
  then show ?case
    by (auto simp: dead_def sch_cancel_def sch_get_def split: option.splits if_splits)
next
  case (st_remove s k')
  then show ?case by (simp add: dead_def sch_remove_def)
next
  case (st_start s)
  then show ?case by (auto simp: dead_def sch_start_def)
next
  case (st_stop s)
  then show ?case by (auto simp: dead_def sch_stop_def)
next
  case (st_worker i s now oc w s')
  then show ?case
    using worker_step_dead [of s k i now oc w s'] by (cases "sch_workers s ! i") auto
qed

text \<open>
  C3. Cancellation is effective: from any reachable state in which a job is cancelled and no worker
  stands between its status check and its start, no execution ever begins that job again.
\<close>

theorem cancelled_never_begins:
  assumes "sched_run s evs t" and "sched_reach s" and "dead s k"
  shows "EvBegin k \<notin> set evs"
proof -
  have "sched_run s evs t \<Longrightarrow> sched_inv s \<Longrightarrow> dead s k \<Longrightarrow> EvBegin k \<notin> set evs"
  proof (induction rule: sched_run.induct)
    case (run_cons s ev t evs u)
    then show ?case using step_dead [OF run_cons.hyps(1)] sched_inv_step by auto
  qed simp
  then show ?thesis using assms sched_reach_inv by blast
qed

text \<open>A concrete scheduler with one job, for the traces below.\<close>

definition demo_job :: "pyfloat option \<Rightarrow> job_status \<Rightarrow> unit job" where
  "demo_job every st = \<lparr>job_name = ''n'', job_func = (), job_run_at = 0, job_interval = every,
     job_priority = 0, job_status = st, job_id = ''a'', job_error = None\<rparr>"

definition demo :: "worker list \<Rightarrow> heap_entry list \<Rightarrow> string list \<Rightarrow> job_status \<Rightarrow> unit scheduler" where
  "demo ws h idx st = \<lparr>sch_heap = h, sch_objs = [(''a'', demo_job None st)], sch_index = idx,
     sch_running = True, sch_workers = ws\<rparr>"

lemma reach_worker:
  "sched_reach s \<Longrightarrow> i < length (sch_workers s) \<Longrightarrow> worker_step now oc (sch_workers s ! i) s = (w, t) \<Longrightarrow>
   u = t\<lparr>sch_workers := (sch_workers s)[i := w]\<rparr> \<Longrightarrow> sched_reach u"
  using reach_step st_worker by metis

lemma demo_start: "sched_reach (demo [WTop] [HeapEntry 0 0 ''a''] [''a''] Pending)"
proof -
  let ?s = "sch_push (demo_job None Pending) new_scheduler"
  have "sch_schedule 0 ''a'' ''n'' () 0 None 0 new_scheduler = (demo_job None Pending, ?s)"
    by (simp add: sch_schedule_def new_job_def demo_job_def Let_def)
  then have "sched_step new_scheduler (EvScheduled ''a'') ?s"
    by (intro st_schedule) (auto simp: new_scheduler_def)
  then have "sched_reach (sch_start ?s)"
    using reach_new reach_step st_start by blast
  moreover have "sch_start ?s = demo [WTop] [HeapEntry 0 0 ''a''] [''a''] Pending"
    by (simp add: sch_start_def sch_push_def new_scheduler_def demo_def demo_job_def entry_of_def index_add_def)
  ultimately show ?thesis by simp
qed

lemma demo_status [simp]: "status_of (demo ws h idx st) ''a'' = Some st"
  by (simp add: demo_def status_of_def demo_job_def)

lemma demo_exec: "sched_reach (demo [WExec] [HeapEntry 0 0 ''a''] [''a''] Pending)"
  by (rule reach_worker [OF demo_start, of 0 0 None WExec])
    (auto simp: worker_top_def Let_def demo_def status_of_def demo_job_def)

lemma demo_popped: "sched_reach (demo [WPopped ''a''] [] [''a''] Pending)"
  by (rule reach_worker [OF demo_exec, of 0 0 None "WPopped ''a''"]) (auto simp: worker_pop_def demo_def)

lemma demo_checked: "sched_reach (demo [WChecked ''a''] [] [''a''] Pending)"
  by (rule reach_worker [OF demo_popped, of 0 0 None "WChecked ''a''"])
    (auto simp: worker_check_def demo_def status_of_def demo_job_def)

lemma demo_begin:
  "sched_step (demo [WChecked ''a''] h idx st) (EvBegin ''a'') (demo [WRunning ''a''] h idx Running)"
proof -
  have "sched_step (demo [WChecked ''a''] h idx st) (worker_event (WChecked ''a''))
      (demo [WRunning ''a''] h idx Running)"
    using st_worker [of 0 "demo [WChecked ''a''] h idx st" 0 None "WRunning ''a''"
        "set_status ''a'' Running (demo [WChecked ''a''] h idx st)"]
    by (simp add: worker_begin_def demo_def set_status_def dmodify_def demo_job_def)
  then show ?thesis by simp
qed

theorem cancelled_never_begins_witness:
  "EvBegin ''a'' \<notin> set [EvOther :: sch_event]"
proof -
  let ?s = "demo [WTop] [HeapEntry 0 0 ''a''] [''a''] Cancelled"
  have "sch_cancel ''a'' (demo [WTop] [HeapEntry 0 0 ''a''] [''a''] Pending) = (True, ?s)"
    by (simp add: sch_cancel_def sch_get_def demo_def demo_job_def set_status_def dmodify_def)
  then have r: "sched_reach ?s" by (rule reach_step [OF demo_start st_cancel])
  have "sched_run ?s [EvOther] (sch_stop ?s)" by (rule run_cons [OF st_stop run_nil])
  moreover have "dead ?s ''a''" by (simp add: dead_def) (simp add: demo_def)
  ultimately show ?thesis using cancelled_never_begins [OF _ r] by blast
qed

theorem exclusive_execution_witness:
  "(0::nat) = 0 \<and> ''a'' \<notin> heap_ids (demo [WRunning ''a''] [] [''a''] Running) \<and>
   status_of (demo [WRunning ''a''] [] [''a''] Running) ''a'' = Some Running"
proof -
  have "sched_reach (demo [WRunning ''a''] [] [''a''] Running)"
    by (rule reach_step [OF demo_checked demo_begin])
  then show ?thesis by (rule exclusive_execution) (simp_all add: demo_def)
qed

text \<open>
  The status check and the start of a job are two separate steps outside the lock, so a cancel
  can fall between them: it reports success and the job begins all the same.
\<close>

lemma cancel_race:
  "\<exists>s t u. sched_reach s \<and> sch_cancel ''a'' (s :: unit scheduler) = (True, t) \<and>
     sched_step t (EvBegin ''a'') u"
proof -
  have "sch_cancel ''a'' (demo [WChecked ''a''] [] [''a''] Pending) =
      (True, demo [WChecked ''a''] [] [''a''] Cancelled)"
    by (simp add: sch_cancel_def sch_get_def demo_def demo_job_def set_status_def dmodify_def)
  with demo_checked demo_begin show ?thesis by blast
qed

text \<open>
  \<open>remove\<close> only unregisters: a pending job that was removed is still in the heap, so the worker
  pops it and begins it, although no lookup, listing or cancel can reach it any more.
\<close>

lemma removed_job_still_begins:
  "\<exists>s j t evs u. sched_reach s \<and> sch_remove ''a'' (s :: unit scheduler) = (Some j, t) \<and>
     sch_get ''a'' t = None \<and> sch_cancel ''a'' t = (False, t) \<and>
     sched_run t evs u \<and> EvBegin ''a'' \<in> set evs"
proof -
  let ?d = "\<lambda>ws h. demo ws h [] Pending" and ?h = "[HeapEntry 0 0 ''a'']"
  let ?s = "demo [WTop] ?h [''a''] Pending"
  have rm: "sch_remove ''a'' ?s = (Some (demo_job None Pending), ?d [WTop] ?h)"
    by (simp add: sch_remove_def sch_get_def demo_def)
  have w: "sched_step (?d [x] h) EvOther (?d [y] h')"
    if "worker_step 0 None x (?d [x] h) = (y, ?d [x] h')" "worker_event x = EvOther" for x y h h'
    using st_worker [of 0 "?d [x] h" 0 None y "?d [x] h'"] that by (simp add: demo_def)
  have 1: "sched_step (?d [WTop] ?h) EvOther (?d [WExec] ?h)"
    by (rule w) (auto simp: worker_top_def Let_def demo_def status_of_def demo_job_def)
  have 2: "sched_step (?d [WExec] ?h) EvOther (?d [WPopped ''a''] [])"
    by (rule w) (auto simp: worker_pop_def demo_def)
  have 3: "sched_step (?d [WPopped ''a''] []) EvOther (?d [WChecked ''a''] [])"
    by (rule w) (auto simp: worker_check_def demo_def status_of_def demo_job_def)
  have "sched_run (?d [WTop] ?h) [EvOther, EvOther, EvOther, EvBegin ''a''] (demo [WRunning ''a''] [] [] Running)"
    by (rule run_cons [OF 1], rule run_cons [OF 2], rule run_cons [OF 3], rule run_cons [OF demo_begin],
        rule run_nil)
  moreover have "sch_get ''a'' (?d [WTop] ?h) = None" "sch_cancel ''a'' (?d [WTop] ?h) = (False, ?d [WTop] ?h)"
    by (simp_all add: sch_get_def sch_cancel_def demo_def)
  ultimately show ?thesis using demo_start rm by (intro exI conjI) (assumption | simp)+
qed

text \<open>
  What one undisturbed \<open>_execute\<close> does in a reachable state with a pending job at the head of
  the heap: the entry is a least one; a one-shot job ends completed or failed and leaves the queue;
  a periodic job is pending again, its error cleared, and queued one interval after now.
\<close>

lemma execute_head:
  assumes reach: "sched_reach s" and heap: "sch_heap s = e # h" and k: "he_id e = k"
    and j: "dget (sch_objs s) k = Some j" and pend: "job_status j = Pending"
    and t: "t = sch_execute now oc s"
  shows "(\<forall>x\<in>set h. e \<le> x) \<and>
    (if job_periodic j
     then (\<exists>j'. dget (sch_objs t) k = Some j' \<and> job_status j' = Pending \<and> job_error j' = None) \<and>
       HeapEntry (now + the (job_interval j)) (job_priority j) k \<in> set (sch_heap t)
     else status_of t k = Some (case oc of None \<Rightarrow> Completed | Some _ \<Rightarrow> Failed) \<and> k \<notin> heap_ids t)"
proof -
  have hi: "heap_inv s" using sched_reach_inv [OF reach] by (simp add: sched_inv_def)
  have id: "job_id j = k" using hi j by (simp add: heap_inv_def)
  have least: "\<forall>x\<in>set h. e \<le> x" and nq: "k \<notin> he_id ` set h"
    using hi heap k by (auto simp: heap_inv_def)
  let ?s = "s\<lparr>sch_heap := h\<rparr>" and ?st = "case oc of None \<Rightarrow> Completed | Some _ \<Rightarrow> Failed"
  let ?j = "(case oc of None \<Rightarrow> j\<lparr>job_status := Completed\<rparr> | Some e \<Rightarrow> j\<lparr>job_status := Failed, job_error := Some e\<rparr>)"
  let ?u = "snd (worker_finish oc k (snd (worker_begin k ?s)))"
  have ex: "t = snd (worker_rearm now k ?u)"
    using heap k j pend
    by (simp add: t sch_execute_def worker_pop_def worker_check_def status_of_def)
  have u: "dget (sch_objs ?u) k = Some ?j" "sch_heap ?u = h" "known ?u = known s"
    using j by (auto simp: worker_finish_def worker_begin_def set_status_def known_def split: option.splits)
  have pj: "job_periodic ?j = job_periodic j" "job_interval ?j = job_interval j"
    "job_priority ?j = job_priority j" "job_id ?j = k" "job_status ?j = ?st" "?st \<noteq> Cancelled"
    using id by (auto simp: job_periodic_def split: option.splits)
  show ?thesis
  proof (cases "job_periodic j")
    case True
    then have "t = sch_push (rearm_job now (the (job_interval j)) ?j) ?u"
      using ex u pj by (simp add: worker_rearm_def)
    with True pj least show ?thesis
      by (simp add: sch_push_def rearm_job_def entry_of_def set_insort_key)
  next
    case False
    then have "t = ?u" using ex u pj by (simp add: worker_rearm_def)
    with False u pj least nq show ?thesis by (simp add: status_of_def heap_ids_def)
  qed
qed

theorem execute_head_witness:
  "status_of (sch_execute 5 None (demo [WTop] [HeapEntry 0 0 ''a''] [''a''] Pending)) ''a'' = Some Completed"
proof -
  let ?s = "demo [WTop] [HeapEntry 0 0 ''a''] [''a''] Pending"
  have "\<not> job_periodic (demo_job None Pending)" by (simp add: job_periodic_def demo_job_def)
  moreover have "dget (sch_objs ?s) ''a'' = Some (demo_job None Pending)"
    "job_status (demo_job None Pending) = Pending" "sch_heap ?s = [HeapEntry 0 0 ''a'']"
    by (simp_all add: demo_def demo_job_def)
  ultimately show ?thesis
    using execute_head [OF demo_start, of "HeapEntry 0 0 ''a''" "[]" "''a''" "demo_job None Pending"
        "sch_execute 5 None ?s" 5 None] by simp
qed

end
