(* ===== verification/Event_Router.thy ===== *)
theory Event_Router
  imports Py_String
begin

text \<open>
  \<open>buster/kernel/event_router.py\<close>. A handler is a reference \<open>'h\<close> with equality; what it raises is a
  parameter. Each call of \<open>start\<close> on a stopped router creates a dispatch thread; its program counter
  distinguishes the top of the loop from the delivery of one event to the handlers it captured.
  \<open>er_log\<close> records the deliveries, oldest first.
\<close>

section \<open>State and operations\<close>

record event =
  ev_type :: string
  ev_payload :: "pyval sdict"

datatype 'h loop_pc = LTop | LDeliver "'h list" "pyval sdict" | LExit

record 'h router =
  er_subs :: "'h list sdict"
  er_queue :: "event option list"
  er_running :: bool
  er_loops :: "'h loop_pc list"
  er_log :: "('h \<times> pyval sdict) list"

definition new_router :: "'h router" where
  "new_router = \<lparr>er_subs = [], er_queue = [], er_running = False, er_loops = [], er_log = []\<rparr>"

definition er_start :: "'h router \<Rightarrow> 'h router" where
  "er_start r = (if er_running r then r
     else r\<lparr>er_running := True, er_loops := er_loops r @ [LTop]\<rparr>)"

definition er_stop :: "'h router \<Rightarrow> 'h router" where
  "er_stop r = (if \<not> er_running r then r
     else r\<lparr>er_running := False, er_queue := er_queue r @ [None]\<rparr>)"

definition subscribers :: "'h router \<Rightarrow> string \<Rightarrow> 'h list" where
  "subscribers r t = dgetd (er_subs r) t []"

definition subscribe :: "string \<Rightarrow> 'h \<Rightarrow> 'h router \<Rightarrow> 'h router" where
  "subscribe t h r = r\<lparr>er_subs := dput t (subscribers r t @ [h]) (er_subs r)\<rparr>"

definition unsubscribe :: "string \<Rightarrow> 'h \<Rightarrow> 'h router \<Rightarrow> 'h router" where
  "unsubscribe t h r =
     (if h \<in> set (subscribers r t) then r\<lparr>er_subs := dput t (remove1 h (subscribers r t)) (er_subs r)\<rparr>
      else r)"

definition emit :: "string \<Rightarrow> pyval sdict option \<Rightarrow> 'h router \<Rightarrow> 'h router" where
  "emit t payload r =
     (if \<not> er_running r then r
      else r\<lparr>er_queue := er_queue r @
        [Some \<lparr>ev_type = t, ev_payload = (case payload of None \<Rightarrow> [] | Some p \<Rightarrow> p)\<rparr>]\<rparr>)"

text \<open>The handlers in order, each called once; what they raise is collected.\<close>

fun call_all :: "('h \<Rightarrow> pyval sdict \<Rightarrow> exc option) \<Rightarrow> 'h list \<Rightarrow> pyval sdict \<Rightarrow>
    exc list \<Rightarrow> 'h router \<Rightarrow> exc list \<times> 'h router" where
  "call_all raises [] p errs r = (errs, r)"
| "call_all raises (h # hs) p errs r =
     (let r' = r\<lparr>er_log := er_log r @ [(h, p)]\<rparr> in
      case raises h p of
        None \<Rightarrow> call_all raises hs p errs r'
      | Some e \<Rightarrow> call_all raises hs p (errs @ [e]) r')"

definition emit_sync :: "('h \<Rightarrow> pyval sdict \<Rightarrow> exc option) \<Rightarrow> string \<Rightarrow> pyval sdict option \<Rightarrow>
    'h router \<Rightarrow> exc list \<times> 'h router" where
  "emit_sync raises t payload r =
     call_all raises (subscribers r t) (case payload of None \<Rightarrow> [] | Some p \<Rightarrow> p) [] r"

text \<open>One step of a dispatch thread; an exception of a handler is logged and swallowed.\<close>

fun loop_step :: "'h loop_pc \<Rightarrow> 'h router \<Rightarrow> 'h loop_pc \<times> 'h router" where
  "loop_step LTop r =
     (if \<not> er_running r then (LExit, r)
      else (case er_queue r of
          [] \<Rightarrow> (LTop, r)
        | None # q \<Rightarrow> (LExit, r\<lparr>er_queue := q\<rparr>)
        | Some ev # q \<Rightarrow> (LDeliver (subscribers r (ev_type ev)) (ev_payload ev), r\<lparr>er_queue := q\<rparr>)))"
| "loop_step (LDeliver [] p) r = (LTop, r)"
| "loop_step (LDeliver (h # hs) p) r = (LDeliver hs p, r\<lparr>er_log := er_log r @ [(h, p)]\<rparr>)"
| "loop_step LExit r = (LExit, r)"

inductive router_step :: "'h router \<Rightarrow> 'h router \<Rightarrow> bool" where
  rs_start: "router_step r (er_start r)"
| rs_stop: "router_step r (er_stop r)"
| rs_subscribe: "router_step r (subscribe t h r)"
| rs_unsubscribe: "router_step r (unsubscribe t h r)"
| rs_emit: "router_step r (emit t p r)"
| rs_sync: "emit_sync raises t p r = (errs, r') \<Longrightarrow> router_step r r'"
| rs_loop: "i < length (er_loops r) \<Longrightarrow> loop_step (er_loops r ! i) r = (pc, r') \<Longrightarrow>
     router_step r (r'\<lparr>er_loops := (er_loops r)[i := pc]\<rparr>)"

inductive router_reach :: "'h router \<Rightarrow> bool" where
  rr_new: "router_reach new_router"
| rr_step: "router_reach r \<Longrightarrow> router_step r r' \<Longrightarrow> router_reach r'"

section \<open>Subscriptions and synchronous dispatch\<close>

lemma subscribers_subscribe:
  "subscribers (subscribe t h r) t' = (if t' = t then subscribers r t @ [h] else subscribers r t')"
  by (simp add: subscribers_def subscribe_def dgetd_def)

lemma subscribers_unsubscribe:
  "subscribers (unsubscribe t h r) t' = (if t' = t then remove1 h (subscribers r t) else subscribers r t')"
  by (simp add: subscribers_def unsubscribe_def dgetd_def remove1_idem)

lemma call_all_eq:
  "call_all raises hs p errs r =
     (errs @ List.map_filter (\<lambda>h. raises h p) hs, r\<lparr>er_log := er_log r @ map (\<lambda>h. (h, p)) hs\<rparr>)"
  by (induction hs arbitrary: errs r) (auto simp: Let_def List.map_filter_def split: option.splits)

text \<open>
  A synchronous dispatch calls every subscriber of the event exactly once, in subscription
  order, whatever the others raise, and returns the exceptions raised, in that order.
\<close>

lemma emit_sync_calls_all:
  "emit_sync raises t (Some p) r =
     (List.map_filter (\<lambda>h. raises h p) (subscribers r t),
      r\<lparr>er_log := er_log r @ map (\<lambda>h. (h, p)) (subscribers r t)\<rparr>)"
  by (simp add: emit_sync_def call_all_eq)

section \<open>The dispatch thread\<close>

text \<open>A run of one thread with nobody else moving.\<close>

fun loop_run :: "nat \<Rightarrow> 'h loop_pc \<Rightarrow> 'h router \<Rightarrow> 'h loop_pc \<times> 'h router" where
  "loop_run 0 pc r = (pc, r)"
| "loop_run (Suc n) pc r = (case loop_step pc r of (pc', r') \<Rightarrow> loop_run n pc' r')"

lemma loop_run_add: "loop_run (m + n) pc r = (case loop_run m pc r of (pc', r') \<Rightarrow> loop_run n pc' r')"
  by (induction m arbitrary: pc r) (auto split: prod.splits)

lemma loop_deliver:
  "loop_run (Suc (length hs)) (LDeliver hs p) r =
     (LTop, r\<lparr>er_log := er_log r @ map (\<lambda>h. (h, p)) hs\<rparr>)"
  by (induction hs arbitrary: r) auto

definition deliveries :: "'h router \<Rightarrow> event \<Rightarrow> ('h \<times> pyval sdict) list" where
  "deliveries r ev = map (\<lambda>h. (h, ev_payload ev)) (subscribers r (ev_type ev))"

text \<open>
  First in, first out: left alone, the dispatch thread of a running router empties a queue of
  events and delivers them in the order they were emitted, each to all its subscribers.
\<close>

lemma dispatch_fifo:
  assumes "er_running r" and "er_queue r = map Some evs"
  shows "\<exists>n. loop_run n LTop r =
    (LTop, r\<lparr>er_queue := [], er_log := er_log r @ concat (map (deliveries r) evs)\<rparr>)"
  using assms
proof (induction evs arbitrary: r)
  case Nil
  then have "loop_run 0 LTop r = (LTop, r\<lparr>er_queue := [], er_log := er_log r @ concat (map (deliveries r) [])\<rparr>)"
    by simp
  then show ?case by blast
next
  case (Cons ev evs)
  let ?hs = "subscribers r (ev_type ev)" and ?q = "r\<lparr>er_queue := map Some evs\<rparr>"
  let ?r = "?q\<lparr>er_log := er_log r @ deliveries r ev\<rparr>"
  have one: "loop_run (Suc (Suc (length ?hs))) LTop r = (LTop, ?r)"
    using Cons.prems loop_deliver [of ?hs "ev_payload ev" ?q] by (simp add: deliveries_def)
  have same: "deliveries ?r = deliveries r"
    by (rule ext) (simp add: deliveries_def subscribers_def)
  obtain n where "loop_run n LTop ?r =
      (LTop, ?r\<lparr>er_queue := [], er_log := er_log ?r @ concat (map (deliveries ?r) evs)\<rparr>)"
    using Cons.IH [of ?r] Cons.prems by auto
  then have "loop_run (Suc (Suc (length ?hs)) + n) LTop r =
      (LTop, r\<lparr>er_queue := [], er_log := er_log r @ concat (map (deliveries r) (ev # evs))\<rparr>)"
    by (simp only: loop_run_add one same) simp
  then show ?case by blast
qed

theorem dispatch_fifo_witness:
  "\<exists>n. loop_run n LTop (emit ''t'' None (er_start (subscribe ''t'' (7::nat) new_router))) =
    (LTop, (er_start (subscribe ''t'' 7 new_router))\<lparr>er_queue := [], er_log := [(7, [])]\<rparr>)"
proof -
  let ?r = "emit ''t'' None (er_start (subscribe ''t'' (7::nat) new_router))"
  let ?e = "\<lparr>ev_type = ''t'', ev_payload = []\<rparr>"
  have r: "er_running ?r" "er_queue ?r = map Some [?e]"
    by (simp_all add: emit_def er_start_def subscribe_def new_router_def)
  show ?thesis
    using dispatch_fifo [OF r]
    by (simp add: emit_def er_start_def subscribe_def new_router_def deliveries_def subscribers_def dgetd_def)
qed

text \<open>
  Stopping does not drain: with events still queued, the stopped router's thread exits at the
  top of its loop, and neither the queue nor the delivery log changes.
\<close>

lemma stop_abandons_queue:
  assumes "er_running r"
  shows "loop_step LTop (er_stop r) = (LExit, er_stop r) \<and>
    er_queue (er_stop r) = er_queue r @ [None] \<and> er_log (er_stop r) = er_log r"
  using assms by (simp add: er_stop_def)

theorem stop_abandons_queue_witness:
  "er_queue (er_stop (emit ''t'' None (er_start (new_router :: nat router)))) =
     [Some \<lparr>ev_type = ''t'', ev_payload = []\<rparr>, None]"
proof -
  have "er_running (emit ''t'' None (er_start (new_router :: nat router)))"
    by (simp add: emit_def er_start_def new_router_def)
  from stop_abandons_queue [OF this] show ?thesis
    by (simp add: emit_def er_start_def new_router_def)
qed

section \<open>A restarted router can be deaf\<close>

text \<open>All threads gone although the router says it runs.\<close>

definition deaf :: "'h router \<Rightarrow> bool" where
  "deaf r \<longleftrightarrow> er_running r \<and> (\<forall>pc\<in>set (er_loops r). pc = LExit)"

lemma restart_deaf:
  "\<exists>r. router_reach r \<and> deaf (r :: nat router)"
proof -
  let ?a = "er_stop (er_start (new_router :: nat router))"
  let ?b = "?a\<lparr>er_loops := (er_loops ?a)[0 := LExit]\<rparr>"
  have "router_reach ?a" by (rule rr_step [OF rr_step [OF rr_new rs_start] rs_stop])
  then have "router_reach ?b"
    by (rule rr_step, intro rs_loop) (auto simp: er_stop_def er_start_def new_router_def)
  then have c: "router_reach (er_start ?b)" by (rule rr_step [OF _ rs_start])
  let ?c = "er_start ?b"
  let ?d = "(?c\<lparr>er_queue := []\<rparr>)\<lparr>er_loops := (er_loops ?c)[1 := LExit]\<rparr>"
  from c have "router_reach ?d"
    by (rule rr_step, intro rs_loop) (auto simp: er_stop_def er_start_def new_router_def)
  moreover have "deaf ?d"
    by (simp add: deaf_def er_stop_def er_start_def new_router_def)
  ultimately show ?thesis by blast
qed

text \<open>
  The sentinel that a stop leaves behind kills the next dispatch thread: a router can be stopped
  and started into a reachable state in which it reports running, accepts events, and has no live
  dispatch thread, so that no further emit is ever dispatched unless somebody stops it again.
\<close>

lemma restarted_router_deaf:
  "\<exists>r. router_reach (r :: nat router) \<and> deaf r \<and> er_start r = r \<and>
     list_all (\<lambda>pc. loop_step pc r = (LExit, r)) (er_loops r) \<and>
     (\<forall>t p. deaf (emit t p r) \<and> length (er_queue (emit t p r)) = Suc (length (er_queue r)))"
proof -
  obtain r where r: "router_reach (r :: nat router)" "deaf r" using restart_deaf by blast
  then have "er_start r = r" "list_all (\<lambda>pc. loop_step pc r = (LExit, r)) (er_loops r)"
    "\<forall>t p. deaf (emit t p r) \<and> length (er_queue (emit t p r)) = Suc (length (er_queue r))"
    by (auto simp: deaf_def er_start_def emit_def list_all_iff)
  with r show ?thesis by blast
qed

end
