(* ===== verification/Json.thy ===== *)
theory Json
  imports Py_String
begin

text \<open>
  Rendering of values: \<open>str\<close>, \<open>repr\<close> and \<open>json.dumps\<close> (with \<open>ensure_ascii\<close>, default separators, and
  with \<open>indent=2\<close>), and the parsing of scalars that the shell uses. The shortest decimal text of a
  float is an argument \<open>sf\<close>. An infinite or undefined float is an opaque object.
\<close>

section \<open>str and repr\<close>

definition hex_char :: "nat \<Rightarrow> char" where
  "hex_char d = (if d < 10 then char_of (48 + d) else char_of (87 + d))"

definition hex2 :: "nat \<Rightarrow> string" where
  "hex2 n = [hex_char (n div 16 mod 16), hex_char (n mod 16)]"

definition repr_char :: "char \<Rightarrow> char \<Rightarrow> string" where
  "repr_char q c =
     (let n = code c in
      if c = q \<or> c = CHR 0x5C then [CHR 0x5C, c]
      else if n = 10 then [CHR 0x5C, CHR ''n'']
      else if n = 13 then [CHR 0x5C, CHR ''r'']
      else if n = 9 then [CHR 0x5C, CHR ''t'']
      else if n < 32 \<or> (127 \<le> n \<and> n \<le> 160) \<or> n = 173 then [CHR 0x5C, CHR ''x''] @ hex2 n
      else [c])"

definition repr_str :: "string \<Rightarrow> string" where
  "repr_str s =
     (let q = (if CHR 0x27 \<in> set s \<and> CHR 0x22 \<notin> set s then CHR 0x22 else CHR 0x27)
      in [q] @ concat (map (repr_char q) s) @ [q])"

fun py_repr :: "(pyfloat \<Rightarrow> string) \<Rightarrow> pyval \<Rightarrow> string" where
  "py_repr sf PNone = ''None''"
| "py_repr sf (PBool b) = (if b then ''True'' else ''False'')"
| "py_repr sf (PInt i) = str_of_int i"
| "py_repr sf (PFloat x) = sf x"
| "py_repr sf (PStr s) = repr_str s"
| "py_repr sf (PList xs) = ''['' @ join_str '', '' (map (py_repr sf) xs) @ '']''"
| "py_repr sf (PDict d) = ''{'' @ join_str '', '' (map (\<lambda>(k, v). repr_str k @ '': '' @ py_repr sf v) d) @ ''}''"
| "py_repr sf (PObj s) = s"

fun py_str :: "(pyfloat \<Rightarrow> string) \<Rightarrow> pyval \<Rightarrow> string" where
  "py_str sf (PStr s) = s"
| "py_str sf v = py_repr sf v"

section \<open>json.dumps\<close>

text \<open>Encodable without a \<open>default\<close> hook: no opaque object anywhere inside.\<close>

fun json_ok :: "pyval \<Rightarrow> bool" where
  "json_ok (PDict d) = list_all (\<lambda>(k, v). json_ok v) d"
| "json_ok (PList xs) = list_all json_ok xs"
| "json_ok (PObj s) = False"
| "json_ok v = True"

definition json_char :: "char \<Rightarrow> string" where
  "json_char c =
     (let n = code c in
      if c = CHR 0x22 \<or> c = CHR 0x5C then [CHR 0x5C, c]
      else if n = 10 then [CHR 0x5C, CHR ''n'']
      else if n = 13 then [CHR 0x5C, CHR ''r'']
      else if n = 9 then [CHR 0x5C, CHR ''t'']
      else if n = 8 then [CHR 0x5C, CHR ''b'']
      else if n = 12 then [CHR 0x5C, CHR ''f'']
      else if 32 \<le> n \<and> n \<le> 126 then [c]
      else [CHR 0x5C, CHR ''u'', CHR ''0'', CHR ''0''] @ hex2 n)"

definition json_str :: "string \<Rightarrow> string" where
  "json_str s = [CHR 0x22] @ concat (map json_char s) @ [CHR 0x22]"

text \<open>\<open>json.dumps(v, default=str)\<close>.\<close>

fun json_dumps :: "(pyfloat \<Rightarrow> string) \<Rightarrow> pyval \<Rightarrow> string" where
  "json_dumps sf PNone = ''null''"
| "json_dumps sf (PBool b) = (if b then ''true'' else ''false'')"
| "json_dumps sf (PInt i) = str_of_int i"
| "json_dumps sf (PFloat x) = sf x"
| "json_dumps sf (PStr s) = json_str s"
| "json_dumps sf (PObj s) = json_str s"
| "json_dumps sf (PList xs) = ''['' @ join_str '', '' (map (json_dumps sf) xs) @ '']''"
| "json_dumps sf (PDict d) = ''{'' @ join_str '', '' (map (\<lambda>(k, v). json_str k @ '': '' @ json_dumps sf v) d) @ ''}''"

text \<open>\<open>json.dumps(v, default=str, indent=2)\<close> at a nesting depth.\<close>

definition json_nl :: "nat \<Rightarrow> string" where
  "json_nl depth = CHR 0x0A # replicate (2 * depth) (CHR '' '')"

fun json_indent :: "(pyfloat \<Rightarrow> string) \<Rightarrow> nat \<Rightarrow> pyval \<Rightarrow> string" where
  "json_indent sf n (PList xs) =
     (if xs = [] then ''[]''
      else ''['' @ json_nl (Suc n) @ join_str ('','' @ json_nl (Suc n)) (map (json_indent sf (Suc n)) xs)
        @ json_nl n @ '']'')"
| "json_indent sf n (PDict d) =
     (if d = [] then ''{}''
      else ''{'' @ json_nl (Suc n) @
        join_str ('','' @ json_nl (Suc n)) (map (\<lambda>(k, v). json_str k @ '': '' @ json_indent sf (Suc n) v) d)
        @ json_nl n @ ''}'')"
| "json_indent sf n v = json_dumps sf v"

text \<open>No raw line break, quote or control character survives in an encoded string.\<close>

lemma json_char_plain: "c' \<in> set (json_char c) \<Longrightarrow> 32 \<le> code c' \<and> code c' \<le> 126"
proof -
  have hx: "48 \<le> code (hex_char d) \<and> code (hex_char d) \<le> 102" if "d < 16" for d
    using that by (auto simp: hex_char_def code_char_of)
  assume "c' \<in> set (json_char c)"
  then show ?thesis
    using hx [of "code c div 16 mod 16"] hx [of "code c mod 16"]
    by (auto simp: json_char_def hex2_def Let_def code_def split: if_splits)
qed

lemma json_str_one_line: "CHR 0x0A \<notin> set (json_str s)"
  using json_char_plain [of "CHR 0x0A"] by (auto simp: json_str_def code_def)

section \<open>Files written with json.dump\<close>

datatype 'a disk = Absent | Unreadable | Stored 'a

text \<open>
  \<open>open(path, "w")\<close> truncates before \<open>json.dump\<close> encodes: a value that cannot be encoded raises
  TypeError and leaves a file that does not parse; a write that fails leaves the old file.
\<close>

definition json_type_error :: exc where
  "json_type_error = Exc ''TypeError'' ''Object is not JSON serializable''"

definition write_json :: "bool \<Rightarrow> ('a \<Rightarrow> bool) \<Rightarrow> 'a \<Rightarrow> 'a disk \<Rightarrow> unit result \<times> 'a disk" where
  "write_json ok encodable x d =
     (if \<not> ok then (Inl (Exc ''OSError'' ''write failed''), d)
      else if encodable x then (Inr (), Stored x)
      else (Inl json_type_error, Unreadable))"

definition read_json :: "'a \<Rightarrow> 'a disk \<Rightarrow> 'a" where
  "read_json dflt d = (case d of Stored x \<Rightarrow> x | _ \<Rightarrow> dflt)"

lemma write_read: "encodable x \<Longrightarrow> read_json e (snd (write_json True encodable x d)) = x"
  by (simp add: write_json_def read_json_def)

section \<open>Scalars from text\<close>

definition frac_digits :: "string \<Rightarrow> string option" where
  "frac_digits s = (if s = [] then Some [] else digits_under False s)"

text \<open>The unsigned decimal forms of \<open>float()\<close>: \<open>12\<close>, \<open>1.5\<close>, \<open>.5\<close>, \<open>1.\<close>, each with an exponent.\<close>

definition mantissa_of :: "string \<Rightarrow> pyfloat option" where
  "mantissa_of s =
     (let (a, dot, b) = partition_char (CHR ''.'') s in
      if a = [] \<and> b = [] then None
      else (case (frac_digits a, frac_digits b) of
              (Some ds, Some es) \<Rightarrow> Some (of_nat (digits_val (ds @ es)) / 10 ^ length es)
            | _ \<Rightarrow> None))"

definition exponent_of :: "string \<Rightarrow> int option" where
  "exponent_of s =
     (case s of
        [] \<Rightarrow> None
      | c # r \<Rightarrow>
          if c = CHR ''-'' then map_option (\<lambda>ds. - int (digits_val ds)) (digits_under False r)
          else if c = CHR ''+'' then map_option (\<lambda>ds. int (digits_val ds)) (digits_under False r)
          else map_option (\<lambda>ds. int (digits_val ds)) (digits_under False s))"

definition scale10 :: "pyfloat \<Rightarrow> int \<Rightarrow> pyfloat" where
  "scale10 x e = (if 0 \<le> e then x * 10 ^ nat e else x / 10 ^ nat (- e))"

definition unsigned_float :: "string \<Rightarrow> pyval option" where
  "unsigned_float s =
     (let l = str_lower s in
      if l = ''inf'' \<or> l = ''infinity'' then Some (PObj ''inf'')
      else if l = ''nan'' then Some (PObj ''nan'')
      else (let (m, e, x) = partition_char (CHR ''e'') l in
            if e then (case (mantissa_of m, exponent_of x) of
                         (Some v, Some k) \<Rightarrow> Some (PFloat (scale10 v k))
                       | _ \<Rightarrow> None)
            else map_option PFloat (mantissa_of m)))"

definition negate_float :: "pyval \<Rightarrow> pyval" where
  "negate_float v = (case v of PFloat x \<Rightarrow> PFloat (- x)
     | PObj s \<Rightarrow> if s = ''inf'' then PObj ''-inf'' else PObj s | _ \<Rightarrow> v)"

definition py_float_of :: "string \<Rightarrow> pyval option" where
  "py_float_of s =
     (case str_strip s of
        [] \<Rightarrow> None
      | c # r \<Rightarrow>
          if c = CHR ''-'' then map_option negate_float (unsigned_float r)
          else if c = CHR ''+'' then unsigned_float r
          else unsigned_float (c # r))"

end
