(* ===== verification/World_Model.thy ===== *)
theory World_Model
  imports Json
begin

text \<open>
  \<open>buster/kernel/world_model.py\<close>, \<open>agent_manager.py\<close> and \<open>audit.py\<close>: the registries around the
  kernel. Events sent to the router are collected in \<open>*_out\<close>, oldest first; the router itself is
  the theory \<open>Event_Router\<close>. The clock and fresh identifiers are arguments.
\<close>

section \<open>World model\<close>

fun serializable :: "pyval \<Rightarrow> pyval" where
  "serializable (PDict d) = PDict (map (\<lambda>(k, v). (k, serializable v)) d)"
| "serializable (PList xs) = PList (map serializable xs)"
| "serializable (PObj s) = PStr s"
| "serializable v = v"

lemma serializable_json_ok: "json_ok (serializable v)"
  by (induction v rule: serializable.induct) (auto simp: list_all_iff)

lemma serializable_id: "json_ok v \<Longrightarrow> serializable v = v"
  by (induction v rule: serializable.induct) (auto simp: list_all_iff intro!: map_idI)

record component_state =
  cs_name :: string
  cs_status :: string
  cs_started :: "pyfloat option"
  cs_metadata :: "pyval sdict"

record observed_fact =
  of_value :: pyval
  of_source :: string
  of_provenance :: string
  of_ts :: pyfloat

record inferred_fact =
  if_value :: pyval
  if_confidence :: pyfloat
  if_source :: string
  if_ts :: pyfloat

record entity =
  en_id :: string
  en_kind :: string
  en_attrs :: "pyval sdict"
  en_created :: pyfloat
  en_updated :: pyfloat

record world_event =
  we_ts :: pyfloat
  we_type :: string
  we_detail :: "pyval sdict"

record world_snapshot =
  ws_version :: nat
  ws_updated :: "pyfloat option"
  ws_facts :: "pyval sdict"
  ws_observed :: "observed_fact sdict"
  ws_inferred :: "inferred_fact sdict"
  ws_entities :: "entity list"
  ws_events :: "world_event list"
  ws_components :: "component_state list"

record world =
  wm_facts :: "pyval sdict"
  wm_observed :: "observed_fact sdict"
  wm_inferred :: "inferred_fact sdict"
  wm_components :: "component_state sdict"
  wm_entities :: "entity sdict"
  wm_events :: "world_event list"
  wm_limit :: nat
  wm_version :: nat
  wm_updated :: "pyfloat option"
  wm_routed :: bool
  wm_out :: "(string \<times> world_snapshot) list"

definition new_world :: "bool \<Rightarrow> nat \<Rightarrow> world" where
  "new_world routed limit = \<lparr>wm_facts = [], wm_observed = [], wm_inferred = [], wm_components = [],
     wm_entities = [], wm_events = [], wm_limit = limit, wm_version = 0, wm_updated = None,
     wm_routed = routed, wm_out = []\<rparr>"

definition recent_events :: "int \<Rightarrow> string list option \<Rightarrow> world \<Rightarrow> world_event list" where
  "recent_events limit kinds w =
     slice_last limit (case kinds of
        None \<Rightarrow> wm_events w
      | Some ks \<Rightarrow> if ks = [] then wm_events w else filter (\<lambda>e. we_type e \<in> set ks) (wm_events w))"

definition wm_entities_of :: "string option \<Rightarrow> world \<Rightarrow> entity list" where
  "wm_entities_of kind w =
     filter (\<lambda>e. case kind of None \<Rightarrow> True | Some k \<Rightarrow> en_kind e = k) (dvals (wm_entities w))"

definition wm_snapshot :: "world \<Rightarrow> world_snapshot" where
  "wm_snapshot w = \<lparr>ws_version = wm_version w, ws_updated = wm_updated w, ws_facts = wm_facts w,
     ws_observed = wm_observed w, ws_inferred = wm_inferred w, ws_entities = wm_entities_of None w,
     ws_events = recent_events 20 None w, ws_components = dvals (wm_components w)\<rparr>"

definition wm_bump :: "pyfloat \<Rightarrow> string \<Rightarrow> world \<Rightarrow> world" where
  "wm_bump now ev w =
     (let w' = w\<lparr>wm_version := Suc (wm_version w), wm_updated := Some now\<rparr>
      in if wm_routed w' then w'\<lparr>wm_out := wm_out w' @ [(ev, wm_snapshot w')]\<rparr> else w')"

definition set_fact :: "pyfloat \<Rightarrow> string \<Rightarrow> pyval \<Rightarrow> world \<Rightarrow> world" where
  "set_fact now k v w = wm_bump now (''fact.set.'' @ k) (w\<lparr>wm_facts := dput k v (wm_facts w)\<rparr>)"

definition get_fact :: "string \<Rightarrow> pyval \<Rightarrow> world \<Rightarrow> pyval" where
  "get_fact k dflt w = dgetd (wm_facts w) k dflt"

definition observe :: "pyfloat \<Rightarrow> string \<Rightarrow> pyval \<Rightarrow> string \<Rightarrow> string \<Rightarrow> world \<Rightarrow> world" where
  "observe now k v source provenance w = set_fact now k v (w\<lparr>wm_observed := dput k
     \<lparr>of_value = serializable v, of_source = source, of_provenance = provenance, of_ts = now\<rparr>
     (wm_observed w)\<rparr>)"

definition infer :: "pyfloat \<Rightarrow> string \<Rightarrow> pyval \<Rightarrow> pyfloat \<Rightarrow> string \<Rightarrow> world \<Rightarrow> world" where
  "infer now k v confidence source w = set_fact now k v (w\<lparr>wm_inferred := dput k
     \<lparr>if_value = serializable v, if_confidence = min (max confidence 0) 1, if_source = source,
      if_ts = now\<rparr> (wm_inferred w)\<rparr>)"

definition forget_inferred :: "string \<Rightarrow> world \<Rightarrow> world" where
  "forget_inferred k w = w\<lparr>wm_inferred := ddel k (wm_inferred w)\<rparr>"

definition add_entity :: "pyfloat \<Rightarrow> string \<Rightarrow> string \<Rightarrow> pyval sdict \<Rightarrow> world \<Rightarrow> world" where
  "add_entity now eid kind attrs w =
     wm_bump now (''entity.'' @ eid) (w\<lparr>wm_entities :=
       (case dget (wm_entities w) eid of
          None \<Rightarrow> dput eid \<lparr>en_id = eid, en_kind = kind, en_attrs = attrs, en_created = now,
            en_updated = now\<rparr> (wm_entities w)
        | Some e \<Rightarrow> dput eid (e\<lparr>en_attrs := dmerge (en_attrs e) attrs, en_updated := now\<rparr>)
            (wm_entities w))\<rparr>)"

definition same_event :: "world_event \<Rightarrow> world_event \<Rightarrow> bool" where
  "same_event x y \<longleftrightarrow> we_type x = we_type y \<and> py_eq (PDict (we_detail x)) (PDict (we_detail y))"

definition record_event :: "pyfloat \<Rightarrow> string \<Rightarrow> pyval sdict \<Rightarrow> world \<Rightarrow> world" where
  "record_event now ty detail w =
     (let entry = \<lparr>we_ts = now, we_type = ty, we_detail = detail\<rparr>
      in if wm_events w \<noteq> [] \<and> same_event (last (wm_events w)) entry then w
         else wm_bump now (''event.'' @ ty) (w\<lparr>wm_events := deque_push (wm_limit w) entry (wm_events w)\<rparr>))"

definition register_component :: "pyfloat \<Rightarrow> string \<Rightarrow> pyval sdict \<Rightarrow> world \<Rightarrow> component_state \<times> world" where
  "register_component now name metadata w =
     (let c = \<lparr>cs_name = name, cs_status = ''stopped'', cs_started = None, cs_metadata = metadata\<rparr>
      in (c, wm_bump now (''component.registered.'' @ name) (w\<lparr>wm_components := dput name c (wm_components w)\<rparr>)))"

definition component_status :: "pyfloat \<Rightarrow> string \<Rightarrow> string \<Rightarrow> pyval sdict \<Rightarrow> world \<Rightarrow> world" where
  "component_status now name status metadata w =
     (let c = dgetd (wm_components w) name
            \<lparr>cs_name = name, cs_status = ''stopped'', cs_started = None, cs_metadata = []\<rparr>;
          c' = c\<lparr>cs_status := status,
                 cs_started := (case cs_started c of None \<Rightarrow> Some now | Some t \<Rightarrow> Some t),
                 cs_metadata := dmerge (cs_metadata c) metadata\<rparr>
      in wm_bump now (''component.status.'' @ name) (w\<lparr>wm_components := dput name c' (wm_components w)\<rparr>))"

datatype world_op =
    SetFact string pyval | Observe string pyval string string | Infer string pyval pyfloat string
  | ForgetInferred string | AddEntity string string "pyval sdict"
  | RecordEvent string "pyval sdict" | RegisterComponent string "pyval sdict"
  | ComponentStatus string string "pyval sdict"

fun world_step :: "pyfloat \<times> world_op \<Rightarrow> world \<Rightarrow> world" where
  "world_step (now, SetFact k v) w = set_fact now k v w"
| "world_step (now, Observe k v s p) w = observe now k v s p w"
| "world_step (now, Infer k v c s) w = infer now k v c s w"
| "world_step (now, ForgetInferred k) w = forget_inferred k w"
| "world_step (now, AddEntity e k a) w = add_entity now e k a w"
| "world_step (now, RecordEvent t d) w = record_event now t d w"
| "world_step (now, RegisterComponent n m) w = snd (register_component now n m w)"
| "world_step (now, ComponentStatus n s m) w = component_status now n s m w"

subsection \<open>Invariant\<close>

fun no_adjacent :: "('a \<Rightarrow> 'a \<Rightarrow> bool) \<Rightarrow> 'a list \<Rightarrow> bool" where
  "no_adjacent R (x # y # xs) = (\<not> R x y \<and> no_adjacent R (y # xs))"
| "no_adjacent R _ = True"

lemma no_adjacent_drop: "no_adjacent R xs \<Longrightarrow> no_adjacent R (drop n xs)"
proof (induction R xs arbitrary: n rule: no_adjacent.induct)
  case (1 R x y xs)
  then show ?case by (cases n) auto
qed (auto simp: drop_Cons')

lemma no_adjacent_snoc:
  "no_adjacent R xs \<Longrightarrow> xs = [] \<or> \<not> R (last xs) x \<Longrightarrow> no_adjacent R (xs @ [x])"
  by (induction R xs rule: no_adjacent.induct) auto

definition world_inv :: "world \<Rightarrow> bool" where
  "world_inv w \<longleftrightarrow> length (wm_events w) \<le> wm_limit w \<and> no_adjacent same_event (wm_events w) \<and>
     list_all (\<lambda>(k, f). 0 \<le> if_confidence f \<and> if_confidence f \<le> 1) (wm_inferred w) \<and>
     dict_wf (wm_facts w) \<and> dict_wf (wm_observed w) \<and> dict_wf (wm_inferred w) \<and>
     dict_wf (wm_entities w) \<and> dict_wf (wm_components w) \<and>
     set (dkeys (wm_observed w)) \<union> set (dkeys (wm_inferred w)) \<subseteq> set (dkeys (wm_facts w))"

lemma wm_bump_simps [simp]:
  "wm_facts (wm_bump now ev w) = wm_facts w" "wm_observed (wm_bump now ev w) = wm_observed w"
  "wm_inferred (wm_bump now ev w) = wm_inferred w" "wm_components (wm_bump now ev w) = wm_components w"
  "wm_entities (wm_bump now ev w) = wm_entities w" "wm_events (wm_bump now ev w) = wm_events w"
  "wm_limit (wm_bump now ev w) = wm_limit w" "wm_version (wm_bump now ev w) = Suc (wm_version w)"
  "wm_routed (wm_bump now ev w) = wm_routed w"
  by (simp_all add: wm_bump_def Let_def)

lemma world_inv_bump [simp]: "world_inv (wm_bump now ev w) = world_inv w"
  by (simp add: world_inv_def)

lemma list_all_put: "list_all (\<lambda>(k, v). P v) d \<Longrightarrow> P v \<Longrightarrow> list_all (\<lambda>(k, v). P v) (dput k v d)"
  by (induction d) auto

lemma dput_keys_subset: "set (dkeys d) \<subseteq> set (dkeys e) \<Longrightarrow> set (dkeys (dput k v d)) \<subseteq> set (dkeys (dput k u e))"
  by auto

lemma no_adjacent_deque:
  "no_adjacent R xs \<Longrightarrow> xs = [] \<or> \<not> R (last xs) x \<Longrightarrow> no_adjacent R (deque_push cap x xs)"
  unfolding deque_push_def by (intro no_adjacent_drop no_adjacent_snoc)

lemma world_inv_step: "world_inv w \<Longrightarrow> world_inv (world_step (now, op) w)"
proof (cases op)
  case (Infer k v c s)
  moreover assume w: "world_inv w"
  moreover have "list_all (\<lambda>(k, f). 0 \<le> if_confidence f \<and> if_confidence f \<le> 1)
      (dput k \<lparr>if_value = serializable v, if_confidence = min (max c 0) 1, if_source = s, if_ts = now\<rparr>
        (wm_inferred w))"
    using w by (intro list_all_put [where P = "\<lambda>f. 0 \<le> if_confidence f \<and> if_confidence f \<le> 1"])
      (auto simp: world_inv_def)
  ultimately show ?thesis
    by (auto simp: world_inv_def infer_def set_fact_def intro: wf_intro)
next
  case (RecordEvent t d)
  assume w: "world_inv w"
  show ?thesis
    using w RecordEvent deque.length_push [of _ _ "wm_events w"]
    by (auto simp: world_inv_def record_event_def Let_def intro: no_adjacent_deque)
next
  case (ForgetInferred k)
  assume w: "world_inv w"
  then show ?thesis
    using ForgetInferred by (auto simp: world_inv_def forget_inferred_def intro: wf_intro list_all_del)
qed (auto simp: world_inv_def set_fact_def observe_def add_entity_def register_component_def
    component_status_def Let_def intro: wf_intro split: option.splits)


text \<open>Every change is versioned: the version counts the bumps, and a routed model emits one event each.\<close>

lemma version_counts_out:
  "wm_routed w \<Longrightarrow> length (wm_out w) = wm_version w \<Longrightarrow>
   length (wm_out (world_step x w)) = wm_version (world_step x w) \<and> wm_routed (world_step x w)"
  by (cases x; cases "snd x") (auto simp: set_fact_def observe_def infer_def forget_inferred_def
      add_entity_def record_event_def register_component_def component_status_def wm_bump_def Let_def)

section \<open>Agent manager\<close>

record agent_info =
  ag_id :: string
  ag_name :: string
  ag_status :: string
  ag_meta :: "pyval sdict"

record agent_manager =
  am_agents :: "agent_info sdict"
  am_out :: "(string \<times> pyval sdict) list"

definition new_agents :: agent_manager where
  "new_agents = \<lparr>am_agents = [], am_out = []\<rparr>"

definition am_emit :: "string \<Rightarrow> pyval sdict \<Rightarrow> agent_manager \<Rightarrow> agent_manager" where
  "am_emit t p m = m\<lparr>am_out := am_out m @ [(t, p)]\<rparr>"

definition spawn :: "string \<Rightarrow> string \<Rightarrow> pyval sdict \<Rightarrow> agent_manager \<Rightarrow> agent_info \<times> agent_manager" where
  "spawn uid name meta m =
     (let a = \<lparr>ag_id = uid, ag_name = name, ag_status = ''spawning'', ag_meta = meta\<rparr>
      in (a, am_emit ''agent.spawned'' [(''agent'', PStr uid), (''name'', PStr name)]
               (m\<lparr>am_agents := dput uid a (am_agents m)\<rparr>)))"

definition am_get :: "string \<Rightarrow> agent_manager \<Rightarrow> agent_info result" where
  "am_get k m =
     (case dget (am_agents m) k of
        None \<Rightarrow> Inl (Exc ''AgentNotFoundError'' (''Unknown agent id '' @ [CHR 0x27] @ k @ [CHR 0x27]))
      | Some a \<Rightarrow> Inr a)"

definition am_set_status :: "string \<Rightarrow> string \<Rightarrow> agent_manager \<Rightarrow> agent_manager" where
  "am_set_status k st m = m\<lparr>am_agents := dmodify k (\<lambda>a. a\<lparr>ag_status := st\<rparr>) (am_agents m)\<rparr>"

definition am_activate :: "string \<Rightarrow> agent_manager \<Rightarrow> agent_manager result" where
  "am_activate k m =
     (case am_get k m of
        Inl e \<Rightarrow> Inl e
      | Inr a \<Rightarrow> Inr (am_emit ''agent.started'' [(''agent'', PStr k)] (am_set_status k ''active'' m)))"

definition am_stop :: "string \<Rightarrow> agent_manager \<Rightarrow> agent_manager result" where
  "am_stop k m =
     (case am_get k m of
        Inl e \<Rightarrow> Inl e
      | Inr a \<Rightarrow> Inr (am_emit ''agent.stopped'' [(''agent'', PStr k)] (am_set_status k ''stopped'' m)))"

definition am_fail :: "string \<Rightarrow> string \<Rightarrow> agent_manager \<Rightarrow> agent_manager result" where
  "am_fail k reason m =
     (case am_get k m of
        Inl e \<Rightarrow> Inl e
      | Inr a \<Rightarrow> Inr (am_emit ''agent.failed'' [(''agent'', PStr k), (''reason'', PStr reason)]
          (m\<lparr>am_agents := dmodify k (\<lambda>a. a\<lparr>ag_status := ''failed'',
              ag_meta := dput ''failure_reason'' (PStr reason) (ag_meta a)\<rparr>) (am_agents m)\<rparr>)))"

definition am_destroy :: "string \<Rightarrow> agent_manager \<Rightarrow> agent_manager" where
  "am_destroy k m = m\<lparr>am_agents := ddel k (am_agents m)\<rparr>"

definition list_agents :: "string option \<Rightarrow> agent_manager \<Rightarrow> agent_info list" where
  "list_agents status m =
     filter (\<lambda>a. case status of None \<Rightarrow> True | Some s \<Rightarrow> ag_status a = s) (dvals (am_agents m))"

definition stop_if_live :: "agent_info \<Rightarrow> agent_manager \<Rightarrow> agent_manager" where
  "stop_if_live a m =
     (if ag_status a = ''spawning'' \<or> ag_status a = ''active'' then
        (case am_stop (ag_id a) m of Inl _ \<Rightarrow> m | Inr m' \<Rightarrow> m')
      else m)"

definition shutdown_all :: "agent_manager \<Rightarrow> agent_manager" where
  "shutdown_all m = fold stop_if_live (list_agents None m) m"

definition agents_inv :: "agent_manager \<Rightarrow> bool" where
  "agents_inv m \<longleftrightarrow> dict_wf (am_agents m) \<and> (\<forall>k a. dget (am_agents m) k = Some a \<longrightarrow> ag_id a = k)"

definition live :: "agent_info \<Rightarrow> bool" where
  "live a \<longleftrightarrow> ag_status a = ''spawning'' \<or> ag_status a = ''active''"

lemma agents_inv_ops [wf_intro]:
  "agents_inv m \<Longrightarrow> agents_inv (snd (spawn uid name meta m))"
  "agents_inv m \<Longrightarrow> agents_inv (am_set_status k st m)"
  "agents_inv m \<Longrightarrow> agents_inv (am_destroy k m)"
  by (auto simp: agents_inv_def spawn_def am_emit_def am_set_status_def am_destroy_def Let_def
      intro: wf_intro split: if_splits)

lemma stop_if_live_agents:
  "ag_id a = k \<Longrightarrow> dget (am_agents (stop_if_live a m)) j =
     (if j = k \<and> live a then map_option (\<lambda>b. b\<lparr>ag_status := ''stopped''\<rparr>) (dget (am_agents m) j)
      else dget (am_agents m) j)"
  by (auto simp: stop_if_live_def live_def am_stop_def am_get_def am_set_status_def am_emit_def
      split: option.splits)

lemma shutdown_fold:
  assumes "\<And>a. a \<in> set as \<Longrightarrow> dget (am_agents m0) (ag_id a) = Some a"
    and "\<And>k. dget (am_agents m) k = dget (am_agents m0) k \<or>
      (\<exists>b. dget (am_agents m) k = Some b \<and> ag_status b = ''stopped'')"
    and "\<And>k b. dget (am_agents m) k = Some b \<Longrightarrow> live b \<Longrightarrow> b \<in> set as \<and> ag_id b = k"
  shows "dget (am_agents (fold stop_if_live as m)) k = Some b \<Longrightarrow> \<not> live b"
  using assms
proof (induction as arbitrary: m)
  case Nil
  then show ?case by fastforce
next
  case (Cons a as)
  let ?m = "stop_if_live a m"
  show ?case
  proof (rule Cons.IH [of ?m])
    show "dget (am_agents (fold stop_if_live as ?m)) k = Some b" using Cons.prems(1) by simp
    show "dget (am_agents m0) (ag_id c) = Some c" if "c \<in> set as" for c
      using Cons.prems(2) that by simp
    show "dget (am_agents ?m) j = dget (am_agents m0) j \<or>
        (\<exists>b. dget (am_agents ?m) j = Some b \<and> ag_status b = ''stopped'')" for j
      using Cons.prems(3) [of j] Cons.prems(2) [of a]
      by (auto simp: stop_if_live_agents [OF refl])
    show "c \<in> set as \<and> ag_id c = j" if c: "dget (am_agents ?m) j = Some c" "live c" for j c
    proof -
      have nl: "\<not> live (d\<lparr>ag_status := ''stopped''\<rparr>)" for d by (simp add: live_def)
      have cm: "dget (am_agents m) j = Some c" and ne: "\<not> (j = ag_id a \<and> live a)"
        using c nl by (auto simp: stop_if_live_agents [OF refl] split: if_splits)
      then show ?thesis using Cons.prems(4) [OF cm c(2)] c(2) by auto
    qed
  qed
qed

text \<open>
  After \<open>shutdown_all\<close> no agent is spawning or active.
\<close>

lemma shutdown_stops_all:
  assumes "agents_inv m" and "dget (am_agents (shutdown_all m)) k = Some b"
  shows "ag_status b \<noteq> ''spawning'' \<and> ag_status b \<noteq> ''active''"
proof -
  have as: "list_agents None m = dvals (am_agents m)" by (simp add: list_agents_def)
  have in_dict: "dget (am_agents m) (ag_id a) = Some a" if "a \<in> set (dvals (am_agents m))" for a
    using that assms(1) by (auto simp: agents_inv_def dget_iff_in)
  have "\<not> live b"
  proof (rule shutdown_fold [of "dvals (am_agents m)" m m])
    show "dget (am_agents (fold stop_if_live (dvals (am_agents m)) m)) k = Some b"
      using assms(2) by (simp add: shutdown_all_def as)
    fix j c assume "dget (am_agents m) j = Some c" "live c"
    then show "c \<in> set (dvals (am_agents m)) \<and> ag_id c = j"
      using assms(1) by (force simp: agents_inv_def dest: dget_Some_in)
  qed (use in_dict in auto)
  then show ?thesis by (simp add: live_def)
qed

theorem shutdown_stops_all_witness:
  "ag_status (the (dget (am_agents (shutdown_all (snd (spawn ''x'' ''n'' [] new_agents)))) ''x''))
     \<noteq> ''active''"
proof -
  let ?m = "snd (spawn ''x'' ''n'' [] new_agents)"
  let ?b = "\<lparr>ag_id = ''x'', ag_name = ''n'', ag_status = ''stopped'', ag_meta = []\<rparr>"
  have "agents_inv ?m" by (intro agents_inv_ops) (simp add: agents_inv_def new_agents_def)
  moreover have "dget (am_agents (shutdown_all ?m)) ''x'' = Some ?b"
    by (simp add: shutdown_all_def list_agents_def spawn_def am_emit_def new_agents_def
        stop_if_live_def am_stop_def am_get_def am_set_status_def dmodify_def Let_def)
  ultimately show ?thesis using shutdown_stops_all [of ?m "''x''" ?b] by simp
qed

section \<open>Audit trail\<close>

text \<open>
  The log file as its lines (a line that is not JSON is None), the rotated files by the second in
  which they were rotated. Which of the two file operations succeed is an input; the size of a file
  in bytes is the sum of the encoded sizes of its lines.
\<close>

record audit_entry =
  ae_ts :: pyfloat
  ae_action :: string
  ae_actor :: pyval
  ae_detail :: "pyval sdict"

record audit =
  au_file :: "audit_entry option list option"
  au_rotated :: "(int, audit_entry option list) dict"
  au_max :: nat

definition new_audit :: audit where
  "new_audit = \<lparr>au_file = None, au_rotated = [], au_max = 10 * 1024 * 1024\<rparr>"

definition au_size :: "(audit_entry option \<Rightarrow> nat) \<Rightarrow> audit_entry option list \<Rightarrow> nat" where
  "au_size enc ls = sum_list (map enc ls)"

definition au_rotate :: "bool \<Rightarrow> pyfloat \<Rightarrow> audit \<Rightarrow> audit" where
  "au_rotate ok now a =
     (case au_file a of
        None \<Rightarrow> a
      | Some ls \<Rightarrow> if ok then a\<lparr>au_file := None, au_rotated := dput \<lfloor>now\<rfloor> ls (au_rotated a)\<rparr> else a)"

definition au_record :: "(audit_entry option \<Rightarrow> nat) \<Rightarrow> bool \<Rightarrow> bool \<Rightarrow> pyfloat \<Rightarrow>
    string \<Rightarrow> pyval \<Rightarrow> pyval sdict \<Rightarrow> audit \<Rightarrow> audit" where
  "au_record enc rot_ok write_ok now action actor detail a =
     (let e = \<lparr>ae_ts = now, ae_action = action, ae_actor = actor, ae_detail = detail\<rparr>;
          a' = (case au_file a of
                  None \<Rightarrow> a
                | Some ls \<Rightarrow> if au_max a < au_size enc ls then au_rotate rot_ok now a else a)
      in if write_ok
         then a'\<lparr>au_file := Some ((case au_file a' of None \<Rightarrow> [] | Some ls \<Rightarrow> ls) @ [Some e])\<rparr>
         else a')"

definition au_tail :: "int \<Rightarrow> audit \<Rightarrow> audit_entry list" where
  "au_tail limit a =
     (case au_file a of None \<Rightarrow> [] | Some ls \<Rightarrow> slice_last limit (List.map_filter (\<lambda>x. x) ls))"

text \<open>Everything on disk, oldest rotation first.\<close>

definition au_trail :: "audit \<Rightarrow> audit_entry option list" where
  "au_trail a = concat (dvals (au_rotated a)) @ (case au_file a of None \<Rightarrow> [] | Some ls \<Rightarrow> ls)"

text \<open>
  The trail is append-only across rotations: a record whose write succeeds adds its entry at the
  end of everything on disk and loses nothing, provided no earlier rotation happened in the same
  second (whose file the rotation would overwrite).
\<close>

lemma audit_append_only:
  assumes "\<lfloor>now\<rfloor> \<notin> set (dkeys (au_rotated a))"
  shows "au_trail (au_record enc rot_ok True now action actor detail a) =
    au_trail a @ [Some \<lparr>ae_ts = now, ae_action = action, ae_actor = actor, ae_detail = detail\<rparr>]"
  using assms
  by (auto simp: au_trail_def au_record_def au_rotate_def Let_def dput_fresh split: option.splits)

theorem audit_append_only_witness:
  "au_trail (au_record (\<lambda>_. 1) True True 3 ''a'' PNone [] new_audit) =
    [Some \<lparr>ae_ts = 3, ae_action = ''a'', ae_actor = PNone, ae_detail = []\<rparr>]"
  using audit_append_only [of 3 new_audit "\<lambda>_. 1" True "''a''" PNone "[]"]
  by (simp add: new_audit_def au_trail_def)

text \<open>
  Two rotations in the same second share a file name, so the second replaces the first rotated
  file and the entries in it are gone from disk.
\<close>

lemma audit_same_second_loss:
  "\<exists>a e. Some e \<in> set (au_trail a) \<and>
     Some e \<notin> set (au_trail (au_record (\<lambda>_. 20000000) True True 7 ''x'' PNone [] a))"
proof -
  let ?e = "\<lparr>ae_ts = 7, ae_action = ''first'', ae_actor = PNone, ae_detail = []\<rparr>"
  let ?f = "\<lparr>ae_ts = 7, ae_action = ''second'', ae_actor = PNone, ae_detail = []\<rparr>"
  let ?a = "new_audit\<lparr>au_rotated := [(7, [Some ?e])], au_file := Some [Some ?f]\<rparr>"
  have "Some ?e \<in> set (au_trail ?a) \<and>
      Some ?e \<notin> set (au_trail (au_record (\<lambda>_. 20000000) True True 7 ''x'' PNone [] ?a))"
    by (simp add: au_trail_def au_record_def au_rotate_def au_size_def new_audit_def Let_def)
  then show ?thesis by blast
qed

end
