(* ===== verification/Capabilities.thy ===== *)
theory Capabilities
  imports Security Scheduler
begin

text \<open>
  \<open>buster/capabilities/base.py\<close>, \<open>registry.py\<close> and \<open>adapters.py\<close>: capabilities, their
  registration, and the dispatch lifecycle that mediates every call. A capability's \<open>invoke\<close> acts on
  a state of any type (files, processes, the network) and may raise. The registry's view of its
  kernel is a record of the parts that dispatch reads. Events sent to a running router and audit
  records are collected, oldest first; what the approval callback records itself is not in them.
\<close>

section \<open>Results, contexts, capabilities\<close>

record cap_result =
  cr_success :: bool
  cr_data :: pyval
  cr_error :: "string option"

definition cr_ok :: "pyval \<Rightarrow> cap_result" where
  "cr_ok data = \<lparr>cr_success = True, cr_data = data, cr_error = None\<rparr>"

definition cr_fail :: "string \<Rightarrow> cap_result" where
  "cr_fail e = \<lparr>cr_success = False, cr_data = PNone, cr_error = Some e\<rparr>"

record cap_context =
  cc_action :: string
  cc_scope :: "string option"
  cc_extra :: py_context
  cc_execution :: "execution_context option"

definition cc_actor :: "cap_context \<Rightarrow> pyval" where
  "cc_actor c = sc_actor (ec_security
     (case cc_execution c of
        None \<Rightarrow> from_inputs (cc_action c) None ''user'' ''cli'' []
      | Some e \<Rightarrow> e))"

record kernel_view =
  kv_perms :: permissions
  kv_elev :: elevation_manager
  kv_router_running :: bool

text \<open>What \<open>invoke\<close> returns: a CapabilityResult, or any other value.\<close>

datatype cap_return = RetResult cap_result | RetValue pyval

type_synonym 's invoker = "kernel_view option \<Rightarrow> cap_context \<Rightarrow> 's \<Rightarrow> cap_return result \<times> 's"

record 's capability =
  cap_name :: string
  cap_actions :: "string list"
  cap_invoke :: "'s invoker"
  cap_close :: "'s \<Rightarrow> unit result \<times> 's"

definition coerce_return :: "cap_return \<Rightarrow> cap_result" where
  "coerce_return r = (case r of RetResult c \<Rightarrow> c | RetValue v \<Rightarrow> cr_ok v)"

text \<open>\<open>PermissionedCapability.invoke\<close>: the kernel's gate first, \<open>invoke_permitted\<close> only behind it.\<close>

definition permissioned_invoke :: "(cap_context \<Rightarrow> 's \<Rightarrow> cap_return result \<times> 's) \<Rightarrow> 's invoker" where
  "permissioned_invoke permitted kv ctx s =
     (case kv of
        None \<Rightarrow> (Inr (RetResult (cr_fail ''No kernel bound to capability'')), s)
      | Some k \<Rightarrow>
          (case perm_require (kv_perms k) (cc_action ctx) (cc_scope ctx)
                  (dmerge [(''actor'', cc_actor ctx)] (cc_extra ctx)) of
             Inl e \<Rightarrow> (Inr (RetResult (cr_fail (exc_msg e))), s)
           | Inr _ \<Rightarrow> permitted ctx s))"

definition function_invoke :: "(cap_context \<Rightarrow> 's \<Rightarrow> cap_return result \<times> 's) \<Rightarrow> 's invoker" where
  "function_invoke handler kv ctx s =
     (case handler ctx s of
        (Inl e, s') \<Rightarrow> (Inl e, s')
      | (Inr r, s') \<Rightarrow> (Inr (RetResult (coerce_return r)), s'))"

definition legacy_request :: "cap_context \<Rightarrow> py_context" where
  "legacy_request ctx = [
     (''action'', PStr (cc_action ctx)),
     (''params'', PDict (cc_extra ctx)),
     (''context'', PDict (case cc_execution ctx of None \<Rightarrow> [] | Some e \<Rightarrow> ec_as_dict e))]"

definition legacy_outcome :: "pyval \<Rightarrow> cap_result" where
  "legacy_outcome v =
     (case v of
        PDict d \<Rightarrow>
          (case dget d ''success'' of
             Some ok \<Rightarrow> \<lparr>cr_success = truthy ok, cr_data = dgetd d ''data'' PNone,
                         cr_error = to_ostr (dgetd d ''error'' PNone)\<rparr>
           | None \<Rightarrow> cr_ok v)
      | _ \<Rightarrow> cr_ok v)"

definition legacy_invoke :: "(py_context \<Rightarrow> 's \<Rightarrow> pyval result \<times> 's) sdict \<Rightarrow> 's invoker" where
  "legacy_invoke router kv ctx s =
     (case dget router (cc_action ctx) of
        None \<Rightarrow> (Inr (RetResult (cr_fail
          (''No legacy handler for '' @ [CHR 0x27] @ cc_action ctx @ [CHR 0x27]))), s)
      | Some h \<Rightarrow>
          (case h (legacy_request ctx) s of
             (Inl e, s') \<Rightarrow> (Inr (RetResult (cr_fail (''Legacy handler raised: '' @ exc_msg e))), s')
           | (Inr v, s') \<Rightarrow> (Inr (RetResult (legacy_outcome v)), s')))"

lemma legacy_never_raises: "\<exists>c. fst (legacy_invoke router k ctx s) = Inr (RetResult c)"
  by (auto simp: legacy_invoke_def split: option.splits prod.splits sum.splits)

section \<open>Registry\<close>

record 's registry =
  rg_caps :: "'s capability sdict"
  rg_owner :: "string sdict"
  rg_kernel :: "kernel_view option"
  rg_events :: "(string \<times> pyval sdict) list"
  rg_audit :: "(string \<times> pyval \<times> pyval sdict) list"

definition new_registry :: "kernel_view option \<Rightarrow> 's registry" where
  "new_registry k = \<lparr>rg_caps = [], rg_owner = [], rg_kernel = k, rg_events = [], rg_audit = []\<rparr>"

definition rg_emit :: "string \<Rightarrow> pyval sdict \<Rightarrow> 's registry \<Rightarrow> 's registry" where
  "rg_emit t p r =
     (case rg_kernel r of
        Some k \<Rightarrow> if kv_router_running k then r\<lparr>rg_events := rg_events r @ [(t, p)]\<rparr> else r
      | None \<Rightarrow> r)"

definition rg_audit_rec ::
  "string \<Rightarrow> string \<Rightarrow> execution_context \<Rightarrow> pyval sdict \<Rightarrow> 's registry \<Rightarrow> 's registry" where
  "rg_audit_rec kind action e detail r =
     (case rg_kernel r of
        Some k \<Rightarrow> r\<lparr>rg_audit := rg_audit r @ [(kind, sc_actor (ec_security e),
           dmerge [(''action'', PStr action), (''scope'', sc_scope (ec_security e))] detail)]\<rparr>
      | None \<Rightarrow> r)"

definition rg_register :: "'s capability \<Rightarrow> 's registry \<Rightarrow> 's registry result" where
  "rg_register c r =
     (if cap_name c \<in> set (dkeys (rg_caps r))
      then Inl (Exc ''ValueError'' (''Capability '' @ [CHR 0x27] @ cap_name c @ [CHR 0x27] @ '' already registered''))
      else Inr (rg_emit ''capability.registered''
             [(''name'', PStr (cap_name c)), (''actions'', PList (map PStr (cap_actions c)))]
             (r\<lparr>rg_caps := dput (cap_name c) c (rg_caps r),
                rg_owner := fold (\<lambda>a. dput a (cap_name c)) (cap_actions c) (rg_owner r)\<rparr>)))"

definition rg_unregister :: "string \<Rightarrow> 's registry \<Rightarrow> 's \<Rightarrow> unit result \<times> 's registry \<times> 's" where
  "rg_unregister name r s =
     (case dget (rg_caps r) name of
        None \<Rightarrow> (Inl (Exc ''CapabilityNotFoundError''
                  (''Unknown capability '' @ [CHR 0x27] @ name @ [CHR 0x27])), r, s)
      | Some c \<Rightarrow>
          (let r' = r\<lparr>rg_caps := ddel name (rg_caps r),
                      rg_owner := filter (\<lambda>(a, owner). owner \<noteq> name) (rg_owner r)\<rparr>;
               (res, s') = cap_close c s
           in (res, r', s')))"

definition find_capability :: "'s registry \<Rightarrow> string \<Rightarrow> 's capability option" where
  "find_capability r action =
     (case dget (rg_owner r) action of
        None \<Rightarrow> None
      | Some owner \<Rightarrow> if owner = [] then None else dget (rg_caps r) owner)"

definition finish_success ::
  "string \<Rightarrow> 's capability \<Rightarrow> cap_result \<Rightarrow> execution_context \<Rightarrow> 's registry \<Rightarrow> cap_result \<times> 's registry" where
  "finish_success action c result e r =
     (result, rg_audit_rec ''capability.succeeded'' action e [(''time_ms'', PNone)]
        (rg_emit ''capability.succeeded'' [(''action'', PStr action), (''capability'', PStr (cap_name c))] r))"

definition finish_failure ::
  "string \<Rightarrow> 's capability \<Rightarrow> string \<Rightarrow> execution_context \<Rightarrow> 's registry \<Rightarrow> cap_result \<times> 's registry" where
  "finish_failure action c error e r =
     (\<lparr>cr_success = False, cr_data = PNone, cr_error = Some error\<rparr>,
      rg_audit_rec ''capability.failed'' action e [(''error'', PStr error)]
        (rg_emit ''capability.failed''
           [(''action'', PStr action), (''capability'', PStr (cap_name c)), (''error'', PStr error)] r))"

definition gating_context :: "execution_context \<Rightarrow> py_context \<Rightarrow> py_context" where
  "gating_context e extra = dmerge (ec_as_dict e) extra"

text \<open>The permission gate of a call: None lets it through, Some error refuses it.\<close>

definition call_gate :: "'s registry \<Rightarrow> string \<Rightarrow> string option \<Rightarrow> py_context \<Rightarrow> execution_context \<Rightarrow> string option" where
  "call_gate r action scope extra e =
     (case rg_kernel r of
        None \<Rightarrow> None
      | Some k \<Rightarrow>
          (let d = perm_check (kv_perms k) action scope (gating_context e extra) in
           if pd_allowed d then None
           else if requires_elevation (kv_elev k) action \<and> approve (kv_elev k) action (ec_as_dict e) then None
           else Some (denied_message action (pd_reason d))))"

definition invoke_and_finish ::
  "string \<Rightarrow> 's capability \<Rightarrow> cap_context \<Rightarrow> execution_context \<Rightarrow> 's registry \<Rightarrow> 's \<Rightarrow> cap_result \<times> 's registry \<times> 's" where
  "invoke_and_finish action c ctx e r s =
     (case cap_invoke c (rg_kernel r) ctx s of
        (Inl x, s') \<Rightarrow> (let (res, r') = finish_failure action c (exc_type x @ '': '' @ exc_msg x) e r in (res, r', s'))
      | (Inr ret, s') \<Rightarrow>
          (let result = coerce_return ret;
               (res, r') = (if cr_success result then finish_success action c result e r
                 else finish_failure action c
                   (case cr_error result of Some m \<Rightarrow> if m = [] then ''capability failed'' else m
                                          | None \<Rightarrow> ''capability failed'') e r)
           in (res, r', s')))"

definition cap_call ::
  "string \<Rightarrow> string option \<Rightarrow> py_context \<Rightarrow> py_context \<Rightarrow> 's registry \<Rightarrow> 's \<Rightarrow> cap_result \<times> 's registry \<times> 's" where
  "cap_call action scope extra context r s =
     (case find_capability r action of
        None \<Rightarrow> (cr_fail (''No capability provides action '' @ [CHR 0x27] @ action @ [CHR 0x27]), r, s)
      | Some c \<Rightarrow>
          (let e = from_inputs action scope ''user'' ''cli'' context;
               r1 = rg_emit ''capability.calling'' (dmerge [(''action'', PStr action)] (ec_as_dict e)) r
           in case call_gate r1 action scope extra e of
                Some error \<Rightarrow> (let (res, r2) = finish_failure action c error e r1 in (res, r2, s))
              | None \<Rightarrow> invoke_and_finish action c
                  \<lparr>cc_action = action, cc_scope = scope, cc_extra = extra, cc_execution = Some e\<rparr> e r1 s))"

definition run_async ::
  "pyfloat \<Rightarrow> string \<Rightarrow> string \<Rightarrow> string option \<Rightarrow> py_context \<Rightarrow> py_context \<Rightarrow> 's registry \<Rightarrow>
   ('s registry \<Rightarrow> 's \<Rightarrow> cap_result \<times> 's registry \<times> 's) scheduler \<Rightarrow>
   ('s registry \<Rightarrow> 's \<Rightarrow> cap_result \<times> 's registry \<times> 's) scheduler result" where
  "run_async now uid action scope extra context r sch =
     (case rg_kernel r of
        None \<Rightarrow> Inl (Exc ''CapabilityNotFoundError'' ''Registry not bound to a kernel; cannot schedule'')
      | Some k \<Rightarrow> Inr (snd (sch_schedule now uid (''cap.'' @ action)
          (cap_call action scope extra context) 0 None 0 sch)))"

definition list_capabilities :: "'s registry \<Rightarrow> string list" where
  "list_capabilities r = sort (dkeys (rg_caps r))"

definition list_actions :: "'s registry \<Rightarrow> string list" where
  "list_actions r = sort (dkeys (rg_owner r))"

definition rg_shutdown :: "'s registry \<Rightarrow> 's \<Rightarrow> 's registry \<times> 's" where
  "rg_shutdown r s =
     (r\<lparr>rg_caps := [], rg_owner := []\<rparr>, fold (\<lambda>c s. snd (cap_close c s)) (dvals (rg_caps r)) s)"

section \<open>What dispatch guarantees\<close>

definition reg_inv :: "'s registry \<Rightarrow> bool" where
  "reg_inv r \<longleftrightarrow> dict_wf (rg_caps r) \<and> dict_wf (rg_owner r) \<and>
     list_all (\<lambda>(a, owner). owner \<in> set (dkeys (rg_caps r))) (rg_owner r) \<and>
     list_all (\<lambda>(n, c). cap_name c = n) (rg_caps r)"

lemma rg_log_simps [simp]:
  "rg_caps (rg_emit t p r) = rg_caps r" "rg_owner (rg_emit t p r) = rg_owner r"
  "rg_kernel (rg_emit t p r) = rg_kernel r" "rg_audit (rg_emit t p r) = rg_audit r"
  "rg_caps (rg_audit_rec k a e d r) = rg_caps r" "rg_owner (rg_audit_rec k a e d r) = rg_owner r"
  "rg_kernel (rg_audit_rec k a e d r) = rg_kernel r" "rg_events (rg_audit_rec k a e d r) = rg_events r"
  by (auto simp: rg_emit_def rg_audit_rec_def split: option.splits)

lemma rg_emit_running:
  "rg_kernel r = Some k \<Longrightarrow> kv_router_running k \<Longrightarrow> rg_events (rg_emit t p r) = rg_events r @ [(t, p)]"
  by (simp add: rg_emit_def)

lemma rg_audit_bound:
  "rg_kernel r = Some k \<Longrightarrow> rg_audit (rg_audit_rec kind a e d r) = rg_audit r @
     [(kind, sc_actor (ec_security e), dmerge [(''action'', PStr a), (''scope'', sc_scope (ec_security e))] d)]"
  by (simp add: rg_audit_rec_def)

lemma reg_inv_emit [simp]: "reg_inv (rg_emit t p r) = reg_inv r"
  by (simp add: reg_inv_def)

lemma reg_inv_cong:
  "rg_caps r' = rg_caps r \<Longrightarrow> rg_owner r' = rg_owner r \<Longrightarrow> reg_inv r' = reg_inv r"
  by (simp add: reg_inv_def)

lemma fold_owner:
  "list_all (\<lambda>(a, owner). owner \<in> S) d \<Longrightarrow> n \<in> S \<Longrightarrow> dict_wf d \<Longrightarrow>
   list_all (\<lambda>(a, owner). owner \<in> S) (fold (\<lambda>a. dput a n) as d) \<and> dict_wf (fold (\<lambda>a. dput a n) as d)"
  by (induction as arbitrary: d) (auto intro: list_all_dput wf_intro)

lemma reg_inv_new [simp]: "reg_inv (new_registry k)"
  by (simp add: reg_inv_def new_registry_def)

lemma reg_inv_register:
  assumes "reg_inv r" and "rg_register c r = Inr r'"
  shows "reg_inv r'"
proof -
  have fresh: "cap_name c \<notin> set (dkeys (rg_caps r))"
    using assms(2) by (auto simp: rg_register_def split: if_splits)
  let ?S = "insert (cap_name c) (set (dkeys (rg_caps r)))"
  have own: "list_all (\<lambda>(a, owner). owner \<in> ?S) (rg_owner r)"
    using assms(1) by (auto simp: reg_inv_def list_all_iff)
  have "list_all (\<lambda>(a, owner). owner \<in> ?S) (fold (\<lambda>a. dput a (cap_name c)) (cap_actions c) (rg_owner r)) \<and>
      dict_wf (fold (\<lambda>a. dput a (cap_name c)) (cap_actions c) (rg_owner r))"
    using assms(1) by (intro fold_owner own) (auto simp: reg_inv_def)
  moreover have "r' = rg_emit ''capability.registered''
      [(''name'', PStr (cap_name c)), (''actions'', PList (map PStr (cap_actions c)))]
      (r\<lparr>rg_caps := dput (cap_name c) c (rg_caps r),
         rg_owner := fold (\<lambda>a. dput a (cap_name c)) (cap_actions c) (rg_owner r)\<rparr>)"
    using assms(2) fresh by (simp add: rg_register_def)
  ultimately show ?thesis
    using assms(1) by (auto simp: reg_inv_def intro: wf_intro list_all_dput)
qed

lemma reg_inv_unregister: "reg_inv r \<Longrightarrow> reg_inv (fst (snd (rg_unregister n r s)))"
  by (auto simp: rg_unregister_def reg_inv_def intro: wf_intro list_all_del
      split: option.splits prod.splits) (auto simp: list_all_iff)

lemma call_registry:
  "rg_caps (fst (snd (cap_call a sc x ctx r s))) = rg_caps r"
  "rg_owner (fst (snd (cap_call a sc x ctx r s))) = rg_owner r"
  "rg_kernel (fst (snd (cap_call a sc x ctx r s))) = rg_kernel r"
  by (auto simp: cap_call_def invoke_and_finish_def finish_failure_def finish_success_def Let_def
      split: option.splits prod.splits sum.splits if_splits)

text \<open>Under the invariant an action found in the owner map always has its capability.\<close>

lemma reg_inv_find:
  assumes "reg_inv r" and "dget (rg_owner r) a = Some n" and "n \<noteq> []"
  shows "\<exists>c. find_capability r a = Some c \<and> cap_name c = n"
proof -
  have "(a, n) \<in> set (rg_owner r)" using assms(2) by (rule dget_Some_in)
  then have "n \<in> set (dkeys (rg_caps r))" using assms(1) by (auto simp: reg_inv_def list_all_iff)
  then obtain c where c: "dget (rg_caps r) n = Some c"
    by (cases "dget (rg_caps r) n") (auto simp: dget_None_iff)
  moreover have "cap_name c = n"
    using dget_Some_in [OF c] assms(1) by (auto simp: reg_inv_def list_all_iff)
  ultimately show ?thesis using assms by (simp add: find_capability_def)
qed

definition refused :: "'s registry \<Rightarrow> string \<Rightarrow> string option \<Rightarrow> py_context \<Rightarrow> py_context \<Rightarrow> bool" where
  "refused r a sc x ctx =
     (case rg_kernel r of
        None \<Rightarrow> False
      | Some k \<Rightarrow>
          (let e = from_inputs a sc ''user'' ''cli'' ctx in
           \<not> pd_allowed (perm_check (kv_perms k) a sc (gating_context e x)) \<and>
           \<not> (requires_elevation (kv_elev k) a \<and> approve (kv_elev k) a (ec_as_dict e))))"

lemma call_gate_refused:
  "call_gate (rg_emit t p r) a sc x (from_inputs a sc ''user'' ''cli'' ctx) \<noteq> None \<longleftrightarrow> refused r a sc x ctx"
  by (auto simp: call_gate_def refused_def Let_def split: option.splits)

lemma call_refused:
  assumes "refused r a sc x ctx"
  shows "snd (snd (cap_call a sc x ctx r s)) = s \<and> \<not> cr_success (fst (cap_call a sc x ctx r s))"
proof (cases "find_capability r a")
  case None
  then show ?thesis by (simp add: cap_call_def cr_fail_def)
next
  case (Some c)
  let ?e = "from_inputs a sc ''user'' ''cli'' ctx"
  obtain error where "call_gate (rg_emit ''capability.calling''
      (dmerge [(''action'', PStr a)] (ec_as_dict ?e)) r) a sc x ?e = Some error"
    using assms call_gate_refused by fastforce
  with Some show ?thesis by (simp add: cap_call_def finish_failure_def Let_def)
qed

text \<open>
  C6. Complete mediation: when the permission gate refuses an action and no elevation is approved for
  it, the call fails and the capability is not invoked at all: the world it acts on is unchanged.
\<close>

theorem call_mediated:
  assumes "refused r a sc x ctx"
  shows "snd (snd (cap_call a sc x ctx r s)) = s \<and> \<not> cr_success (fst (cap_call a sc x ctx r s))"
  by (rule call_refused [OF assms])

definition guarded_registry :: "nat registry" where
  "guarded_registry = new_registry (Some \<lparr>kv_perms = new_permissions False,
     kv_elev = new_elevation None None, kv_router_running = True\<rparr>)"

definition counting_capability :: "nat capability" where
  "counting_capability = \<lparr>cap_name = ''filesystem'', cap_actions = [''fs.read''],
     cap_invoke = function_invoke (\<lambda>ctx n. (Inr (RetValue (PInt 1)), Suc n)),
     cap_close = (\<lambda>n. (Inr (), n))\<rparr>"

lemma counting_simps [simp]:
  "cap_name counting_capability = ''filesystem''" "cap_actions counting_capability = [''fs.read'']"
  "cap_invoke counting_capability = function_invoke (\<lambda>ctx n. (Inr (RetValue (PInt 1)), Suc n))"
  "cap_close counting_capability = (\<lambda>n. (Inr (), n))"
  by (simp_all add: counting_capability_def)

lemma guarded_refuses:
  "refused (guarded_registry\<lparr>rg_caps := c, rg_owner := oo\<rparr>) ''fs.read'' None [] []"
  by (simp add: refused_def guarded_registry_def new_registry_def new_permissions_def perm_check_def
      rule_matches_def requires_elevation_def new_elevation_def sensitive_default_def Let_def)

lemma guarded_view: "rg_kernel guarded_registry = Some \<lparr>kv_perms = new_permissions False,
     kv_elev = new_elevation None None, kv_router_running = True\<rparr>"
  by (simp add: guarded_registry_def new_registry_def)

theorem call_mediated_witness:
  "snd (snd (cap_call ''fs.read'' None [] []
     (guarded_registry\<lparr>rg_caps := [(''filesystem'', counting_capability)],
        rg_owner := [(''fs.read'', ''filesystem'')]\<rparr>) 5)) = 5"
  using call_mediated [OF guarded_refuses, of _ _ 5] by simp

definition outcome_event :: "cap_result \<Rightarrow> string" where
  "outcome_event res = (if cr_success res then ''capability.succeeded'' else ''capability.failed'')"

lemma finish_log:
  assumes "rg_kernel r = Some k" and "kv_router_running k"
  shows "\<exists>q d. rg_events (snd (finish_failure a c m e r)) = rg_events r @ [(outcome_event (fst (finish_failure a c m e r)), q)] \<and>
      rg_audit (snd (finish_failure a c m e r)) = rg_audit r @
        [(outcome_event (fst (finish_failure a c m e r)), sc_actor (ec_security e), d)]"
    and "cr_success res \<Longrightarrow>
      \<exists>q d. rg_events (snd (finish_success a c res e r)) = rg_events r @ [(outcome_event res, q)] \<and>
      rg_audit (snd (finish_success a c res e r)) = rg_audit r @ [(outcome_event res, sc_actor (ec_security e), d)]"
    and "fst (finish_success a c res e r) = res"
  using assms by (auto simp: finish_failure_def finish_success_def outcome_event_def rg_emit_running
      rg_audit_bound)

lemma invoke_and_finish_log:
  assumes "rg_kernel r = Some k" and "kv_router_running k"
  shows "\<exists>q d. rg_events (fst (snd (invoke_and_finish a c ctx e r s))) =
        rg_events r @ [(outcome_event (fst (invoke_and_finish a c ctx e r s)), q)] \<and>
      rg_audit (fst (snd (invoke_and_finish a c ctx e r s))) = rg_audit r @
        [(outcome_event (fst (invoke_and_finish a c ctx e r s)), sc_actor (ec_security e), d)]"
  using finish_log [OF assms]
  by (simp add: invoke_and_finish_def Let_def split_beta split: sum.splits option.splits)


definition serving_registry :: "nat registry" where
  "serving_registry = guarded_registry\<lparr>rg_caps := [(''filesystem'', counting_capability)],
     rg_owner := [(''fs.read'', ''filesystem'')]\<rparr>"


text \<open>
  Behind \<open>PermissionedCapability\<close> a deny rule is final: no approved elevation and nothing the
  caller puts into the context or the extra arguments makes \<open>invoke_permitted\<close> run.
\<close>

lemma permissioned_denial_final:
  assumes "rg_kernel r = Some k" and "policy_denies (kv_perms k) a sc"
    and "find_capability r a = Some c" and "cap_invoke c = permissioned_invoke permitted"
  shows "snd (snd (cap_call a sc x ctx r s)) = s \<and> \<not> cr_success (fst (cap_call a sc x ctx r s))"
  using assms check_denied [OF assms(2)]
  by (auto simp: cap_call_def invoke_and_finish_def permissioned_invoke_def perm_require_def
      coerce_return_def cr_fail_def finish_failure_def Let_def split: option.splits)

definition denying_registry :: "nat registry" where
  "denying_registry = (new_registry (Some \<lparr>kv_perms = deny ''fs.delete'' None ''never'' (new_permissions False),
     kv_elev = new_elevation None (Some (approve_scripted [''fs.delete''])), kv_router_running = True\<rparr>))
     \<lparr>rg_owner := [(''fs.delete'', ''filesystem'')]\<rparr>"

lemma denying_registry_simps [simp]:
  "rg_owner denying_registry = [(''fs.delete'', ''filesystem'')]"
  "rg_kernel denying_registry = Some \<lparr>kv_perms = deny ''fs.delete'' None ''never'' (new_permissions False),
     kv_elev = new_elevation None (Some (approve_scripted [''fs.delete''])), kv_router_running = True\<rparr>"
  by (simp_all add: denying_registry_def new_registry_def)

lemma denying_policy: "policy_denies (deny ''fs.delete'' None ''never'' (new_permissions False)) ''fs.delete'' None"
  by (simp add: policy_denies_def rule_applies_def new_permissions_def)

theorem permissioned_denial_final_witness:
  "snd (snd (cap_call ''fs.delete'' None [] [] (denying_registry\<lparr>rg_caps := [(''filesystem'',
     counting_capability\<lparr>cap_invoke := permissioned_invoke (\<lambda>ctx n. (Inr (RetValue PNone), Suc n))\<rparr>)]\<rparr>) 5)) = 5"
proof -
  let ?p = "\<lambda>(ctx::cap_context) n. (Inr (RetValue PNone), Suc n)"
  let ?c = "counting_capability\<lparr>cap_invoke := permissioned_invoke ?p\<rparr>"
  let ?r = "denying_registry\<lparr>rg_caps := [(''filesystem'', ?c)]\<rparr>"
  have "find_capability ?r ''fs.delete'' = Some ?c" by (simp add: find_capability_def)
  then show ?thesis
    using permissioned_denial_final [of ?r "the (rg_kernel ?r)" "''fs.delete''" None ?c ?p "[]" "[]" 5]
      denying_policy by simp
qed

text \<open>
  For every other capability an explicit deny rule is not final: an elevation approved for a
  sensitive action lets the denied call through to the capability.
\<close>

lemma elevation_overrides_deny:
  "\<exists>(r::nat registry) k c. rg_kernel r = Some k \<and> policy_denies (kv_perms k) ''fs.delete'' None \<and>
     find_capability r ''fs.delete'' = Some c \<and>
     cr_success (fst (cap_call ''fs.delete'' None [] [] r 5)) \<and>
     snd (snd (cap_call ''fs.delete'' None [] [] r 5)) = Suc 5"
proof -
  let ?r = "denying_registry\<lparr>rg_caps := [(''filesystem'', counting_capability)]\<rparr>"
  have g: "call_gate (rg_emit t p ?r) ''fs.delete'' None [] (from_inputs ''fs.delete'' None ''user'' ''cli'' []) = None" for t p
    by (simp add: call_gate_def requires_elevation_def new_elevation_def sensitive_default_def
        approve_def approve_scripted_def Let_def)
  have f: "find_capability ?r ''fs.delete'' = Some counting_capability"
    by (simp add: find_capability_def)
  have "snd (snd (cap_call ''fs.delete'' None [] [] ?r 5)) = Suc 5 \<and>
      cr_success (fst (cap_call ''fs.delete'' None [] [] ?r 5))"
    by (simp add: cap_call_def f g invoke_and_finish_def function_invoke_def
        coerce_return_def cr_ok_def finish_success_def Let_def)
  with f denying_policy show ?thesis
    by (intro exI [of _ ?r] exI [of _ "the (rg_kernel ?r)"] exI [of _ counting_capability]) simp
qed

text \<open>
  The extra arguments of a call are merged over the execution context before the evaluators see
  it, so a caller can present any actor and any elevation flag to them, whatever the execution
  context (and the audit record) says.
\<close>

lemma extra_overrides_identity:
  "dget (gating_context (from_inputs a sc ''user'' ''cli'' ctx) [(''actor'', v), (''elevated'', PBool True)]) ''actor'' = Some v \<and>
   dget (gating_context (from_inputs a sc ''user'' ''cli'' ctx) [(''actor'', v), (''elevated'', PBool True)]) ''elevated'' = Some (PBool True)"
  by (simp add: gating_context_def dget_dmerge)

subsection \<open>Registration\<close>

datatype 's reg_op = RegisterOp "'s capability" | UnregisterOp string | ShutdownOp
  | CallOp string "string option" py_context py_context

fun reg_step :: "'s reg_op \<Rightarrow> 's registry \<times> 's \<Rightarrow> 's registry \<times> 's" where
  "reg_step (RegisterOp c) (r, s) = (case rg_register c r of Inl _ \<Rightarrow> (r, s) | Inr r' \<Rightarrow> (r', s))"
| "reg_step (UnregisterOp n) (r, s) = snd (rg_unregister n r s)"
| "reg_step ShutdownOp (r, s) = rg_shutdown r s"
| "reg_step (CallOp a sc x ctx) (r, s) = snd (cap_call a sc x ctx r s)"

lemma reg_inv_step: "reg_inv (fst rs) \<Longrightarrow> reg_inv (fst (reg_step op rs))"
proof (cases rs)
  case (Pair r s)
  assume "reg_inv (fst rs)"
  with Pair have r: "reg_inv r" by simp
  show ?thesis
  proof (cases op)
    case (RegisterOp c)
    then show ?thesis using r Pair by (auto split: sum.splits intro: reg_inv_register)
  next
    case (UnregisterOp n)
    then show ?thesis using r Pair reg_inv_unregister [OF r] by simp
  next
    case ShutdownOp
    then show ?thesis using Pair by (simp add: rg_shutdown_def reg_inv_def)
  next
    case (CallOp a sc x ctx)
    then show ?thesis using r Pair by (simp add: reg_inv_cong [OF call_registry(1,2)])
  qed
qed

lemma reg_inv_fold: "reg_inv (fst rs) \<Longrightarrow> reg_inv (fst (fold reg_step ops rs))"
proof (induction ops arbitrary: rs)
  case (Cons op ops)
  then show ?case by (simp add: reg_inv_step del: reg_step.simps)
qed simp

text \<open>
  After any sequence of registrations, removals, shutdowns and calls, every action of the owner
  map is served: its owner is registered under that very name.
\<close>

lemma actions_always_served:
  "reg_inv (fst (fold reg_step ops (new_registry k, s)))"
  by (rule reg_inv_fold) simp

text \<open>
  A second capability may take an action over; unregistering it then leaves the action without an
  owner although the first capability, which still declares it, is registered.
\<close>

lemma takeover_orphans_action:
  "\<exists>(r::nat registry) c. dget (rg_caps r) ''filesystem'' = Some c \<and> ''fs.read'' \<in> set (cap_actions c) \<and>
     find_capability r ''fs.read'' = None \<and> reg_inv r"
proof -
  let ?other = "counting_capability\<lparr>cap_name := ''other''\<rparr>"
  define r where "r = fst (fold reg_step [RegisterOp counting_capability, RegisterOp ?other,
      UnregisterOp ''other''] (new_registry None, 0 :: nat))"
  have "rg_caps r = [(''filesystem'', counting_capability)] \<and> rg_owner r = []"
    by (simp add: r_def rg_register_def new_registry_def rg_emit_def rg_unregister_def)
  moreover have "reg_inv r" unfolding r_def by (rule reg_inv_fold) simp
  ultimately show ?thesis
    by (intro exI [of _ r] exI [of _ counting_capability]) (simp add: find_capability_def)
qed

end
