(* ===== verification/Memory.thy ===== *)
theory Memory
  imports Json
begin

text \<open>
  \<open>buster/memory/\<close>: the key/value store with expiry, the capped experience log, the knowledge store
  with confidences, and the reflection engine that distils experiences into knowledge. Files are
  modelled by what the next process would read; whether a write succeeds is an input.
\<close>

section \<open>Key/value memory with expiry\<close>

record mem_entry =
  me_value :: pyval
  me_expires :: "pyfloat option"

record memory =
  mem_data :: "mem_entry sdict"
  mem_disk :: "mem_entry sdict disk"

definition mem_entry_ok :: "mem_entry \<Rightarrow> bool" where
  "mem_entry_ok e = json_ok (me_value e)"

definition data_ok :: "mem_entry sdict \<Rightarrow> bool" where
  "data_ok d = list_all (\<lambda>(k, e). mem_entry_ok e) d"

definition mem_load :: "mem_entry sdict disk \<Rightarrow> memory" where
  "mem_load d = \<lparr>mem_data = read_json [] d, mem_disk = d\<rparr>"

text \<open>\<open>_save\<close> swallows an OSError only.\<close>

definition mem_save :: "bool \<Rightarrow> memory \<Rightarrow> unit result \<times> memory" where
  "mem_save ok m =
     (let (r, d) = write_json ok data_ok (mem_data m) (mem_disk m);
          r' = (case r of Inl e \<Rightarrow> if exc_type e = ''OSError'' then Inr () else Inl e | Inr u \<Rightarrow> Inr u)
      in (r', m\<lparr>mem_disk := d\<rparr>))"

definition mem_put :: "bool \<Rightarrow> pyfloat \<Rightarrow> string \<Rightarrow> pyval \<Rightarrow> pyfloat option \<Rightarrow> memory \<Rightarrow> unit result \<times> memory" where
  "mem_put ok now k v ttl m = mem_save ok (m\<lparr>mem_data :=
     dput k \<lparr>me_value = v, me_expires = map_option (\<lambda>t. now + t) ttl\<rparr> (mem_data m)\<rparr>)"

definition expired :: "pyfloat \<Rightarrow> mem_entry \<Rightarrow> bool" where
  "expired now e = (case me_expires e of None \<Rightarrow> False | Some t \<Rightarrow> t < now)"

definition mem_get :: "bool \<Rightarrow> pyfloat \<Rightarrow> string \<Rightarrow> pyval \<Rightarrow> memory \<Rightarrow> pyval result \<times> memory" where
  "mem_get ok now k dflt m =
     (case dget (mem_data m) k of
        None \<Rightarrow> (Inr dflt, m)
      | Some e \<Rightarrow>
          if expired now e then
            (let (r, m') = mem_save ok (m\<lparr>mem_data := ddel k (mem_data m)\<rparr>)
             in ((case r of Inl x \<Rightarrow> Inl x | Inr _ \<Rightarrow> Inr dflt), m'))
          else (Inr (me_value e), m))"

definition mem_delete :: "bool \<Rightarrow> string \<Rightarrow> memory \<Rightarrow> bool result \<times> memory" where
  "mem_delete ok k m =
     (case dget (mem_data m) k of
        None \<Rightarrow> (Inr False, m)
      | Some _ \<Rightarrow>
          (let (r, m') = mem_save ok (m\<lparr>mem_data := ddel k (mem_data m)\<rparr>)
           in ((case r of Inl x \<Rightarrow> Inl x | Inr _ \<Rightarrow> Inr True), m')))"

definition mem_keys :: "pyfloat \<Rightarrow> memory \<Rightarrow> string list" where
  "mem_keys now m = dkeys (filter (\<lambda>(k, e). \<not> expired now e) (mem_data m))"

definition prune_expired :: "bool \<Rightarrow> pyfloat \<Rightarrow> memory \<Rightarrow> nat result \<times> memory" where
  "prune_expired ok now m =
     (let gone = dkeys (filter (\<lambda>(k, e). expired now e) (mem_data m));
          m1 = m\<lparr>mem_data := fold ddel gone (mem_data m)\<rparr>
      in if gone = [] then (Inr 0, m1)
         else (let (r, m2) = mem_save ok m1
               in ((case r of Inl x \<Rightarrow> Inl x | Inr _ \<Rightarrow> Inr (length gone)), m2)))"

definition mem_clear :: "bool \<Rightarrow> memory \<Rightarrow> unit result \<times> memory" where
  "mem_clear ok m = mem_save ok (m\<lparr>mem_data := []\<rparr>)"

lemma mem_save_data [simp]: "mem_data (snd (mem_save ok m)) = mem_data m"
  by (simp add: mem_save_def Let_def split_beta)

lemma mem_save_ok:
  "data_ok (mem_data m) \<Longrightarrow> mem_save True m = (Inr (), m\<lparr>mem_disk := Stored (mem_data m)\<rparr>)"
  by (simp add: mem_save_def write_json_def)

text \<open>What \<open>get\<close> finds at a given time, as a store: the laws of a key/value store hold of it.\<close>

definition mem_inv :: "memory \<Rightarrow> bool" where
  "mem_inv m = dict_wf (mem_data m)"

definition mem_lookup :: "pyfloat \<Rightarrow> memory \<Rightarrow> string \<Rightarrow> pyval option" where
  "mem_lookup now m k =
     (case dget (mem_data m) k of
        None \<Rightarrow> None
      | Some e \<Rightarrow> if expired now e then None else Some (me_value e))"

lemma mem_put_data: "mem_data (snd (mem_put ok now k v ttl m)) =
    dput k \<lparr>me_value = v, me_expires = map_option (\<lambda>t. now + t) ttl\<rparr> (mem_data m)"
  by (simp add: mem_put_def)

lemma mem_delete_lookup: "mem_lookup now (snd (mem_delete ok k m)) j =
    (if j = k then None else mem_lookup now m j)"
  by (auto simp: mem_delete_def mem_lookup_def Let_def split_beta split: option.splits)

interpretation ttl: kv_store "mem_lookup now" "\<lambda>k v m. snd (mem_put ok now k v None m)"
    "\<lambda>k m. snd (mem_delete ok k m)" mem_inv for now ok
proof unfold_locales
  fix m :: memory and k v and j
  show "mem_lookup now (snd (mem_put ok now k v None m)) j = (if j = k then Some v else mem_lookup now m j)"
    by (simp add: mem_lookup_def mem_put_data expired_def)
  show "mem_lookup now (snd (mem_delete ok k m)) j = (if j = k then None else mem_lookup now m j)"
    by (rule mem_delete_lookup)
  assume "mem_inv m"
  then show "mem_inv (snd (mem_put ok now k v None m))" "mem_inv (snd (mem_delete ok k m))"
    by (auto simp: mem_inv_def mem_put_data mem_delete_def Let_def split_beta intro: wf_intro
        split: option.splits)
qed

lemma get_is_lookup:
  "data_ok (mem_data m) \<Longrightarrow> fst (mem_get True now k dflt m) =
     Inr (case mem_lookup now m k of None \<Rightarrow> dflt | Some v \<Rightarrow> v)"
proof -
  assume d: "data_ok (mem_data m)"
  then have "data_ok (ddel k (mem_data m))" by (simp add: data_ok_def list_all_del)
  with d show ?thesis
    by (auto simp: mem_get_def mem_lookup_def mem_save_ok Let_def split: option.splits)
qed

lemma mem_lookup_put:
  "mem_lookup now' (snd (mem_put ok now k v ttl m)) j =
     (if j = k then (case ttl of None \<Rightarrow> Some v | Some t \<Rightarrow> if now + t < now' then None else Some v)
      else mem_lookup now' m j)"
  by (auto simp: mem_lookup_def mem_put_data expired_def split: option.splits)



text \<open>
  Storing a value that JSON cannot encode raises, keeps the value in memory, and has already
  truncated the file: the next process starts empty, whatever was stored before, and every later
  save fails in the same way until the key is deleted.
\<close>

lemma unencodable_put_destroys_file:
  assumes "\<not> json_ok v"
  shows "isl (fst (mem_put True now k v ttl m)) \<and>
    mem_data (mem_load (mem_disk (snd (mem_put True now k v ttl m)))) = [] \<and>
    isl (fst (mem_save True (snd (mem_put True now k v ttl m))))"
proof -
  have "(k, \<lparr>me_value = v, me_expires = x\<rparr>) \<in> set (dput k \<lparr>me_value = v, me_expires = x\<rparr> d)" for x d
    by (rule dget_Some_in) simp
  then have "\<not> data_ok (dput k \<lparr>me_value = v, me_expires = x\<rparr> d)" for x d
    using assms by (fastforce simp: data_ok_def mem_entry_ok_def list_all_iff)
  then show ?thesis
    by (simp add: mem_put_def mem_save_def write_json_def mem_load_def read_json_def json_type_error_def)
qed

theorem unencodable_put_destroys_file_witness:
  "mem_data (mem_load (mem_disk (snd (mem_put True 0 ''s'' (PObj ''set()'') None
     \<lparr>mem_data = [(''k'', \<lparr>me_value = PInt 1, me_expires = None\<rparr>)],
      mem_disk = Stored [(''k'', \<lparr>me_value = PInt 1, me_expires = None\<rparr>)]\<rparr>)))) = []"
  using unencodable_put_destroys_file [of "PObj ''set()''" 0 "''s''" None
    "\<lparr>mem_data = [(''k'', \<lparr>me_value = PInt 1, me_expires = None\<rparr>)],
      mem_disk = Stored [(''k'', \<lparr>me_value = PInt 1, me_expires = None\<rparr>)]\<rparr>"] by simp

text \<open>Pruning removes exactly the expired entries.\<close>

lemma dget_fold_del: "dget (fold ddel ks d) k = (if k \<in> set ks then None else dget d k)"
  by (induction ks arbitrary: d) auto

lemma prune_lookup:
  assumes "mem_inv m"
  shows "mem_lookup now (snd (prune_expired ok now m)) k = mem_lookup now m k"
proof -
  let ?gone = "dkeys (filter (\<lambda>(k, e). expired now e) (mem_data m))"
  have gone: "k \<in> set ?gone \<longleftrightarrow> (\<exists>e. dget (mem_data m) k = Some e \<and> expired now e)"
    using assms by (auto simp: mem_inv_def dget_iff_in intro: rev_image_eqI)
  have "mem_data (snd (prune_expired ok now m)) = fold ddel ?gone (mem_data m)"
    by (simp add: prune_expired_def Let_def split_beta)
  then show ?thesis
    using gone by (auto simp: mem_lookup_def dget_fold_del split: option.splits)
qed

section \<open>Experience log\<close>

text \<open>A line of the log is a record, or None where it does not parse; blank lines are ignored.\<close>

type_synonym exp_row = "pyval sdict"

record experience =
  ex_file :: "exp_row option list option"
  ex_capacity :: int

definition new_experience :: "int \<Rightarrow> experience" where
  "new_experience capacity = \<lparr>ex_file = None, ex_capacity = capacity\<rparr>"

definition ex_lines :: "experience \<Rightarrow> exp_row option list" where
  "ex_lines x = (case ex_file x of None \<Rightarrow> [] | Some ls \<Rightarrow> ls)"

definition ex_trim :: "experience \<Rightarrow> experience" where
  "ex_trim x = (if int (length (ex_lines x)) \<le> ex_capacity x then x
     else x\<lparr>ex_file := Some (slice_last (ex_capacity x) (ex_lines x))\<rparr>)"

definition ex_record :: "pyfloat \<Rightarrow> exp_row \<Rightarrow> experience \<Rightarrow> unit result \<times> experience" where
  "ex_record now entry x =
     (let row = dmerge [(''ts'', PFloat now)] entry;
          x1 = x\<lparr>ex_file := Some (ex_lines x)\<rparr>
      in if json_ok (PDict row) then (Inr (), ex_trim (x1\<lparr>ex_file := Some (ex_lines x1 @ [Some row])\<rparr>))
         else (Inl json_type_error, x1))"

definition ex_recall :: "int option \<Rightarrow> experience \<Rightarrow> exp_row list result" where
  "ex_recall limit x =
     (if None \<in> set (ex_lines x) then Inl (Exc ''JSONDecodeError'' ''Expecting value'')
      else (let es = map the (ex_lines x)
            in Inr (case limit of None \<Rightarrow> es | Some n \<Rightarrow> slice_last n es)))"

definition ex_count :: "experience \<Rightarrow> nat" where
  "ex_count x = length (ex_lines x)"

definition ex_clear :: "bool \<Rightarrow> experience \<Rightarrow> experience" where
  "ex_clear ok x = (if ok then x\<lparr>ex_file := None\<rparr> else x)"

text \<open>\<open>collections.Counter\<close> in order of first occurrence; \<open>most_common\<close> is stable.\<close>

fun counter :: "'a list \<Rightarrow> ('a \<times> nat) list" where
  "counter [] = []"
| "counter (x # xs) = (x, Suc (count_list xs x)) # filter (\<lambda>(y, n). y \<noteq> x) (counter xs)"

definition most_common :: "nat \<Rightarrow> 'a list \<Rightarrow> ('a \<times> nat) list" where
  "most_common n xs = take n (sort_desc snd (counter xs))"

definition bucket :: "(pyfloat \<Rightarrow> string) \<Rightarrow> pyval \<Rightarrow> string" where
  "bucket sf v = take 60 (py_str sf (py_or v (PStr [])))"

text \<open>\<open>round(x, k)\<close>: to the nearest multiple of \<open>1 / 10 ^ k\<close>, a tie to the even one.\<close>

definition py_round :: "nat \<Rightarrow> pyfloat \<Rightarrow> pyfloat" where
  "py_round k x =
     (let y = x * 10 ^ k; lo = \<lfloor>y\<rfloor>; d = y - of_int lo;
          n = (if d < 1 / 2 then lo else if 1 / 2 < d then lo + 1 else if even lo then lo else lo + 1)
      in of_int n / 10 ^ k)"

record exp_stats =
  st_total :: nat
  st_done :: nat
  st_failed :: nat
  st_success_rate :: "pyfloat option"
  st_top_goals :: "(string \<times> nat) list"
  st_top_failures :: "(string \<times> nat) list"

definition ex_stats :: "(pyfloat \<Rightarrow> string) \<Rightarrow> experience \<Rightarrow> exp_stats result" where
  "ex_stats sf x =
     (case ex_recall None x of
        Inl e \<Rightarrow> Inl e
      | Inr es \<Rightarrow>
          (let total = length es;
               status = (\<lambda>e. dgetd e ''status'' PNone);
               d = count_list (map status es) (PStr ''done'');
               f = count_list (map status es) (PStr ''failed'')
           in Inr (if total = 0
             then \<lparr>st_total = 0, st_done = 0, st_failed = 0, st_success_rate = None, st_top_goals = [], st_top_failures = []\<rparr>
             else \<lparr>st_total = total, st_done = d, st_failed = f,
               st_success_rate = Some (py_round 3 (of_nat d / of_nat total)),
               st_top_goals = most_common 8 (map (\<lambda>e. bucket sf (dgetd e ''target'' PNone)) es),
               st_top_failures = most_common 8 (map (\<lambda>e. bucket sf (dgetd e ''error'' PNone))
                 (filter (\<lambda>e. status e = PStr ''failed'') es))\<rparr>)))"

lemma ex_lines_record:
  assumes "json_ok (PDict (dmerge [(''ts'', PFloat now)] entry))" and "0 < ex_capacity x"
  shows "ex_lines (snd (ex_record now entry x)) =
    drop (Suc (length (ex_lines x)) - nat (ex_capacity x)) (ex_lines x @ [Some (dmerge [(''ts'', PFloat now)] entry)])"
  using assms by (auto simp: ex_record_def ex_trim_def ex_lines_def slice_last_push Let_def)

lemma ex_capacity_record [simp]: "ex_capacity (snd (ex_record now entry x)) = ex_capacity x"
  by (simp add: ex_record_def ex_trim_def Let_def)

text \<open>The log on disk, record by record, as a capped log.\<close>

definition ex_append :: "int \<Rightarrow> exp_row option \<Rightarrow> exp_row option list \<Rightarrow> exp_row option list" where
  "ex_append cap row ls = drop (Suc (length ls) - nat cap) (ls @ [row])"

interpretation xlog: bounded_log "nat cap" "ex_append cap" "\<lambda>ls. ls" for cap
  by unfold_locales (simp add: ex_append_def)

definition ex_record_all :: "(pyfloat \<times> exp_row) list \<Rightarrow> experience \<Rightarrow> experience" where
  "ex_record_all es x = fold (\<lambda>(t, e) x. snd (ex_record t e x)) es x"

lemma ex_record_all_lines:
  "0 < ex_capacity x \<Longrightarrow>
   list_all (\<lambda>(t, e). json_ok (PDict (dmerge [(''ts'', PFloat t)] e))) es \<Longrightarrow>
   ex_lines (ex_record_all es x) =
     fold (ex_append (ex_capacity x)) (map (\<lambda>(t, e). Some (dmerge [(''ts'', PFloat t)] e)) es) (ex_lines x)"
proof (induction es arbitrary: x)
  case (Cons y es)
  obtain t e where y: "y = (t, e)" by (cases y)
  have "ex_lines (snd (ex_record t e x)) = ex_append (ex_capacity x) (Some (dmerge [(''ts'', PFloat t)] e)) (ex_lines x)"
    using Cons.prems y by (simp add: ex_lines_record ex_append_def)
  then show ?case
    using Cons.IH [of "snd (ex_record t e x)"] Cons.prems y by (simp add: ex_record_all_def)
qed (simp add: ex_record_all_def)

text \<open>
  Whatever is recorded, the log holds exactly the newest records up to its capacity (2,000 unless
  configured), oldest first, each with its time stamp, so it never grows beyond the capacity.
\<close>

lemma experience_keeps_newest:
  assumes "0 < cap" and "list_all (\<lambda>(t, e). json_ok (PDict (dmerge [(''ts'', PFloat t)] e))) es"
  shows "ex_recall None (ex_record_all es (new_experience cap)) =
    Inr (drop (length es - nat cap) (map (\<lambda>(t, e). dmerge [(''ts'', PFloat t)] e) es))"
proof -
  let ?x = "new_experience cap" and ?rows = "map (\<lambda>(t, e). dmerge [(''ts'', PFloat t)] e) es"
  have "ex_lines (ex_record_all es ?x) = drop (length es - nat cap) (map (\<lambda>(t, e). Some (dmerge [(''ts'', PFloat t)] e)) es)"
    using ex_record_all_lines [of ?x es] assms xlog.entries_pushes [of "[]" cap]
    by (simp add: new_experience_def ex_lines_def)
  moreover have "map (\<lambda>(t, e). Some (dmerge [(''ts'', PFloat t)] e)) es = map Some ?rows"
    by auto
  ultimately have "ex_lines (ex_record_all es ?x) = map Some (drop (length es - nat cap) ?rows)"
    by (simp only: drop_map)
  then show ?thesis by (auto simp: ex_recall_def drop_map comp_def)
qed

theorem experience_keeps_newest_witness:
  "ex_recall None (ex_record_all [(1, []), (2, []), (3, [])] (new_experience 2)) =
    Inr [[(''ts'', PFloat 2)], [(''ts'', PFloat 3)]]"
  using experience_keeps_newest [of 2 "[(1, []), (2, []), (3, [])]"] by (simp add: dmerge_def)

section \<open>Knowledge\<close>

record knowledge_entry =
  kn_key :: string
  kn_value :: pyval
  kn_source :: string
  kn_confidence :: pyfloat
  kn_created :: pyfloat
  kn_updated :: pyfloat

record knowledge =
  kn_entries :: "knowledge_entry sdict"
  kn_disk :: "knowledge_entry list disk"

definition kn_save :: "bool \<Rightarrow> knowledge \<Rightarrow> unit result \<times> knowledge" where
  "kn_save ok s =
     (let (r, d) = write_json ok (list_all (\<lambda>e. json_ok (kn_value e))) (dvals (kn_entries s)) (kn_disk s)
      in (r, s\<lparr>kn_disk := d\<rparr>))"

definition kn_load :: "knowledge_entry list disk \<Rightarrow> knowledge" where
  "kn_load d = \<lparr>kn_entries = foldl (\<lambda>acc e. dput (kn_key e) e acc) [] (read_json [] d), kn_disk = d\<rparr>"

definition learn_entry :: "pyfloat \<Rightarrow> string \<Rightarrow> pyval \<Rightarrow> string \<Rightarrow> pyfloat \<Rightarrow>
    knowledge_entry sdict \<Rightarrow> knowledge_entry sdict" where
  "learn_entry now k v source confidence es =
     (let fresh = dput k \<lparr>kn_key = k, kn_value = v, kn_source = source, kn_confidence = confidence,
            kn_created = now, kn_updated = now\<rparr> es
      in case dget es k of
           None \<Rightarrow> fresh
         | Some old \<Rightarrow> if kn_confidence old \<le> confidence then fresh else es)"

definition kn_learn :: "bool \<Rightarrow> pyfloat \<Rightarrow> string \<Rightarrow> pyval \<Rightarrow> string \<Rightarrow> pyfloat \<Rightarrow> knowledge \<Rightarrow>
    unit result \<times> knowledge" where
  "kn_learn ok now k v source confidence s =
     kn_save ok (s\<lparr>kn_entries := learn_entry now k v source confidence (kn_entries s)\<rparr>)"

definition kn_recall :: "string \<Rightarrow> pyval \<Rightarrow> knowledge \<Rightarrow> pyval" where
  "kn_recall k dflt s = (case dget (kn_entries s) k of None \<Rightarrow> dflt | Some e \<Rightarrow> kn_value e)"

definition kn_keys :: "knowledge \<Rightarrow> string list" where
  "kn_keys s = sort (dkeys (kn_entries s))"

definition kn_search :: "string \<Rightarrow> int option \<Rightarrow> knowledge \<Rightarrow> knowledge_entry list" where
  "kn_search prefix limit s =
     (let ms = sort_desc kn_updated (filter (\<lambda>e. startswith (kn_key e) prefix) (dvals (kn_entries s)))
      in case limit of None \<Rightarrow> ms | Some n \<Rightarrow> slice_first n ms)"

definition kn_clear :: "bool \<Rightarrow> knowledge \<Rightarrow> unit result \<times> knowledge" where
  "kn_clear ok s = kn_save ok (s\<lparr>kn_entries := []\<rparr>)"

lemma kn_save_entries [simp]: "kn_entries (snd (kn_save ok s)) = kn_entries s"
  by (simp add: kn_save_def Let_def split_beta)

text \<open>The confidence known for a key, -1 below every confidence when there is none.\<close>

definition conf_of :: "string \<Rightarrow> knowledge_entry sdict \<Rightarrow> pyfloat option" where
  "conf_of k es = map_option kn_confidence (dget es k)"

record lesson =
  le_now :: pyfloat
  le_key :: string
  le_value :: pyval
  le_source :: string
  le_conf :: pyfloat

definition teach :: "lesson \<Rightarrow> knowledge_entry sdict \<Rightarrow> knowledge_entry sdict" where
  "teach l = learn_entry (le_now l) (le_key l) (le_value l) (le_source l) (le_conf l)"

definition entry_of_lesson :: "lesson \<Rightarrow> knowledge_entry" where
  "entry_of_lesson l = \<lparr>kn_key = le_key l, kn_value = le_value l, kn_source = le_source l,
     kn_confidence = le_conf l, kn_created = le_now l, kn_updated = le_now l\<rparr>"

lemma dget_teach: "dget (teach l es) k =
    (if k = le_key l \<and> (case dget es k of None \<Rightarrow> True | Some o' \<Rightarrow> kn_confidence o' \<le> le_conf l)
     then Some (entry_of_lesson l) else dget es k)"
  by (auto simp: teach_def learn_entry_def entry_of_lesson_def Let_def split: option.splits)

text \<open>
  After any sequence of lessons, a key that was taught holds the last lesson among those of the
  highest confidence for that key: a weaker lesson never displaces a stronger one, an equal one does.
\<close>

lemma knowledge_keeps_strongest:
  assumes "k \<in> set (map le_key ls)"
  shows "\<exists>pre l post. ls = pre @ l # post \<and> le_key l = k \<and>
    dget (fold teach ls []) k = Some (entry_of_lesson l) \<and>
    list_all (\<lambda>x. le_key x = k \<longrightarrow> le_conf x \<le> le_conf l) pre \<and>
    list_all (\<lambda>x. le_key x = k \<longrightarrow> le_conf x < le_conf l) post"
  using assms
proof (induction ls rule: rev_induct)
  case (snoc x ls)
  have none: "dget (fold teach ls []) k = None" if "k \<notin> set (map le_key ls)"
    using that by (induction ls rule: rev_induct) (auto simp: dget_teach)
  show ?case
  proof (cases "k \<in> set (map le_key ls)")
    case False
    with snoc.prems none show ?thesis
      by - (rule exI [of _ ls], rule exI [of _ x], rule exI [of _ "[]"],
        auto simp: dget_teach list_all_iff, metis imageI)
  next
    case True
    then obtain pre l post where l: "ls = pre @ l # post" "le_key l = k"
      "dget (fold teach ls []) k = Some (entry_of_lesson l)"
      "list_all (\<lambda>x. le_key x = k \<longrightarrow> le_conf x \<le> le_conf l) pre"
      "list_all (\<lambda>x. le_key x = k \<longrightarrow> le_conf x < le_conf l) post"
      using snoc.IH by blast
    have conf: "kn_confidence (entry_of_lesson l) = le_conf l" by (simp add: entry_of_lesson_def)
    show ?thesis
    proof (cases "le_key x = k \<and> le_conf l \<le> le_conf x")
      case True
      then show ?thesis
        using l conf by - (rule exI [of _ ls], rule exI [of _ x], rule exI [of _ "[]"],
          fastforce simp: dget_teach list_all_iff)
    next
      case False
      then show ?thesis
        using l conf by - (rule exI [of _ pre], rule exI [of _ l], rule exI [of _ "post @ [x]"],
          auto simp: dget_teach)
    qed
  qed
qed simp

theorem knowledge_keeps_strongest_witness:
  "\<exists>pre l post. [\<lparr>le_now = 1, le_key = ''k'', le_value = PInt 1, le_source = ''a'', le_conf = 1 / 2\<rparr>,
      \<lparr>le_now = 2, le_key = ''k'', le_value = PInt 2, le_source = ''b'', le_conf = 1 / 4\<rparr>] = pre @ l # post \<and>
    le_key l = ''k'' \<and> dget (fold teach [\<lparr>le_now = 1, le_key = ''k'', le_value = PInt 1, le_source = ''a'', le_conf = 1 / 2\<rparr>,
      \<lparr>le_now = 2, le_key = ''k'', le_value = PInt 2, le_source = ''b'', le_conf = 1 / 4\<rparr>] []) ''k'' = Some (entry_of_lesson l) \<and>
    list_all (\<lambda>x. le_key x = ''k'' \<longrightarrow> le_conf x \<le> le_conf l) pre \<and>
    list_all (\<lambda>x. le_key x = ''k'' \<longrightarrow> le_conf x < le_conf l) post"
  by (rule knowledge_keeps_strongest) simp

section \<open>Reflection\<close>

type_synonym hook = "exp_row \<Rightarrow> pyval sdict option result"

definition str_slice :: "nat \<Rightarrow> pyval \<Rightarrow> string result" where
  "str_slice n v = (case v of PStr s \<Rightarrow> Inr (take n s)
     | _ \<Rightarrow> Inl (Exc ''TypeError'' ''object is not subscriptable''))"

definition learning :: "string \<Rightarrow> pyval \<Rightarrow> string \<Rightarrow> pyfloat \<Rightarrow> pyval sdict" where
  "learning k v source confidence =
     [(''key'', PStr k), (''value'', v), (''source'', PStr source), (''confidence'', PFloat confidence)]"

definition target_learning :: "string \<Rightarrow> exp_row \<Rightarrow> pyval \<Rightarrow> string \<Rightarrow> pyfloat \<Rightarrow> pyval sdict option result" where
  "target_learning prefix e v source confidence =
     (case str_slice 60 (dgetd e ''target'' PNone) of
        Inl x \<Rightarrow> Inl x
      | Inr t \<Rightarrow> Inr (Some (learning (prefix @ t) v source confidence)))"

definition reflect_failures :: hook where
  "reflect_failures e =
     (if dgetd e ''status'' PNone = PStr ''failed'' \<and> truthy (dgetd e ''target'' PNone)
      then target_learning ''avoid_repeat:'' e (dgetd e ''error'' (PStr ''unknown failure''))
             ''reflection:failures'' (6 / 10)
      else Inr None)"

definition reflect_targets :: hook where
  "reflect_targets e =
     (if truthy (dgetd e ''target'' PNone)
      then target_learning ''goal_seen:'' e (dgetd e ''status'' (PStr ''unknown'')) ''reflection:targets'' (3 / 10)
      else Inr None)"

definition reflect_winning_patterns :: hook where
  "reflect_winning_patterns e =
     (if dgetd e ''status'' PNone = PStr ''done'' \<and> truthy (dgetd e ''target'' PNone)
      then target_learning ''pattern:'' e (PStr ''done'') ''reflection:patterns'' (6 / 10)
      else Inr None)"

definition reflect_agent_usage :: "(pyfloat \<Rightarrow> string) \<Rightarrow> hook" where
  "reflect_agent_usage sf e =
     (if truthy (dgetd e ''agent'' PNone) \<and> dgetd e ''status'' PNone = PStr ''done''
      then (case str_slice 80 (dgetd e ''target'' (PStr [])) of
              Inl x \<Rightarrow> Inl x
            | Inr t \<Rightarrow> Inr (Some (learning (''agent_working:'' @ py_str sf (dgetd e ''agent'' PNone))
                (PStr t) ''reflection:agents'' (4 / 10))))
      else Inr None)"

definition default_hooks :: "(pyfloat \<Rightarrow> string) \<Rightarrow> hook list" where
  "default_hooks sf = [reflect_failures, reflect_targets, reflect_winning_patterns, reflect_agent_usage sf]"

text \<open>
  The engine writes into a knowledge store, if it has one; the default hooks' learnings have a
  string key, a string source and a numeric confidence.
\<close>

definition apply_learning :: "bool \<Rightarrow> pyfloat \<Rightarrow> pyval sdict \<Rightarrow> knowledge \<Rightarrow> unit result \<times> knowledge" where
  "apply_learning ok now d s =
     (case dget d ''key'' of
        Some (PStr k) \<Rightarrow> kn_learn ok now k (dgetd d ''value'' PNone)
          (case dgetd d ''source'' (PStr ''reflection'') of PStr x \<Rightarrow> x | _ \<Rightarrow> [])
          (case dgetd d ''confidence'' (PFloat (4 / 10)) of PFloat c \<Rightarrow> c | _ \<Rightarrow> 0) s
      | _ \<Rightarrow> (Inr (), s))"

fun run_hooks :: "bool \<Rightarrow> pyfloat \<Rightarrow> hook list \<Rightarrow> exp_row \<Rightarrow> knowledge \<Rightarrow> unit result \<times> knowledge" where
  "run_hooks ok now [] e s = (Inr (), s)"
| "run_hooks ok now (h # hs) e s =
     (case h e of
        Inr (Some d) \<Rightarrow>
          (case apply_learning ok now d s of
             (Inl x, s') \<Rightarrow> (Inl x, s')
           | (Inr _, s') \<Rightarrow> run_hooks ok now hs e s')
      | _ \<Rightarrow> run_hooks ok now hs e s)"

definition on_experience :: "bool \<Rightarrow> pyfloat \<Rightarrow> hook list \<Rightarrow> exp_row \<Rightarrow> knowledge option \<Rightarrow>
    unit result \<times> knowledge option" where
  "on_experience ok now hooks e ks =
     (case ks of None \<Rightarrow> (Inr (), None)
      | Some s \<Rightarrow> (let (r, s') = run_hooks ok now hooks e s in (r, Some s')))"

fun reflect_batch :: "bool \<Rightarrow> pyfloat \<Rightarrow> hook list \<Rightarrow> exp_row list \<Rightarrow> knowledge option \<Rightarrow>
    unit result \<times> knowledge option" where
  "reflect_batch ok now hooks [] ks = (Inr (), ks)"
| "reflect_batch ok now hooks (e # es) ks =
     (case on_experience ok now hooks e ks of
        (Inl x, ks') \<Rightarrow> (Inl x, ks')
      | (Inr _, ks') \<Rightarrow> reflect_batch ok now hooks es ks')"

definition known_count :: "knowledge option \<Rightarrow> int" where
  "known_count ks = (case ks of None \<Rightarrow> 0 | Some s \<Rightarrow> int (length (kn_keys s)))"

definition reflect :: "bool \<Rightarrow> pyfloat \<Rightarrow> hook list \<Rightarrow> exp_row list \<Rightarrow> knowledge option \<Rightarrow>
    int result \<times> knowledge option" where
  "reflect ok now hooks es ks =
     (case reflect_batch ok now hooks es ks of
        (Inl x, ks') \<Rightarrow> (Inl x, ks')
      | (Inr _, ks') \<Rightarrow> (Inr (known_count ks' - known_count ks), ks'))"

text \<open>Reflection never forgets: keys only grow and confidences never fall.\<close>

definition kn_le :: "knowledge_entry sdict \<Rightarrow> knowledge_entry sdict \<Rightarrow> bool" where
  "kn_le d e \<longleftrightarrow> (\<forall>k x. dget d k = Some x \<longrightarrow> (\<exists>y. dget e k = Some y \<and> kn_confidence x \<le> kn_confidence y))"

lemma kn_le_refl [simp]: "kn_le d d"
  by (simp add: kn_le_def)

lemma kn_le_trans: "kn_le a b \<Longrightarrow> kn_le b c \<Longrightarrow> kn_le a c"
  by (fastforce simp: kn_le_def)

lemma kn_le_learn: "kn_le d (learn_entry now k v s c d)"
  by (auto simp: kn_le_def learn_entry_def Let_def split: option.splits)

lemma kn_le_apply: "kn_le (kn_entries s) (kn_entries (snd (apply_learning ok now d s)))"
  by (auto simp: apply_learning_def kn_learn_def kn_le_learn split: option.splits pyval.splits)

lemma kn_le_hooks: "kn_le (kn_entries s) (kn_entries (snd (run_hooks ok now hs e s)))"
proof (induction hs arbitrary: s)
  case (Cons h hs)
  have "kn_le (kn_entries s) (kn_entries s')" if "apply_learning ok now d s = (r, s')" for d r s'
    using kn_le_apply [of s ok now d] that by simp
  then show ?case
    using Cons.IH by (auto split: sum.splits option.splits prod.splits) (blast intro: kn_le_trans)
qed simp

lemma reflection_keeps_knowledge:
  "kn_le (kn_entries s) (kn_entries (the (snd (reflect_batch ok now hooks es (Some s))))) \<and>
   snd (reflect_batch ok now hooks es (Some s)) \<noteq> None"
proof (induction es arbitrary: s)
  case (Cons e es)
  obtain r s' where h: "run_hooks ok now hooks e s = (r, s')" by fastforce
  then have "kn_le (kn_entries s) (kn_entries s')" using kn_le_hooks [of s ok now hooks e] by simp
  then show ?case
    using Cons.IH [of s'] h by (auto simp: on_experience_def split: sum.splits intro: kn_le_trans)
qed simp

text \<open>
  A goal that failed once keeps its "avoid" lesson although the same goal succeeded later: both
  lessons are known at once, with the same confidence.
\<close>

lemma failure_outlives_success:
  "let s = the (snd (reflect True 5 (default_hooks (\<lambda>_. [])) [
       [(''status'', PStr ''failed''), (''target'', PStr ''g'')],
       [(''status'', PStr ''done''), (''target'', PStr ''g'')]]
       (Some \<lparr>kn_entries = [], kn_disk = Absent\<rparr>)))
   in conf_of ''avoid_repeat:g'' (kn_entries s) = Some (6 / 10) \<and>
      conf_of ''pattern:g'' (kn_entries s) = Some (6 / 10)"
  by (simp add: reflect_def default_hooks_def on_experience_def reflect_failures_def reflect_targets_def
      reflect_winning_patterns_def reflect_agent_usage_def target_learning_def str_slice_def learning_def
      dgetd_def apply_learning_def kn_learn_def kn_save_def write_json_def learn_entry_def conf_of_def Let_def)

end
