(* ===== verification/Config.thy ===== *)
theory Config
  imports Json
begin

text \<open>
  \<open>buster/install.py\<close> (the one authority on where an install lives), \<open>buster/config.py\<close> (the JSON
  configuration), \<open>buster/bootstrap.py\<close> (the offline phase) and \<open>buster/workspace/manager.py\<close>. The
  process environment (home directories, working directory, \<open>BUSTER_INSTALL\<close>, the readable JSON
  files) is a record; every path is POSIX.
\<close>

section \<open>Install path resolution\<close>

record py_env =
  env_home :: string
  env_user_home :: "string \<Rightarrow> string option"
  env_cwd :: string
  env_install :: "string option"
  env_json :: "string \<Rightarrow> pyval disk"

definition expanduser :: "py_env \<Rightarrow> string \<Rightarrow> string" where
  "expanduser env p =
     (if \<not> startswith p ''~'' then p
      else (let user = takeWhile (\<lambda>c. c \<noteq> CHR ''/'') (tl p);
                rest = dropWhile (\<lambda>c. c \<noteq> CHR ''/'') (tl p)
            in case (if user = [] then Some (env_home env) else env_user_home env user) of
                 None \<Rightarrow> p
               | Some h \<Rightarrow> (let r = rstrip_chars (\<lambda>c. c = CHR ''/'') h @ rest
                            in if r = [] then ''/'' else r)))"

definition py_abspath :: "py_env \<Rightarrow> string \<Rightarrow> string" where
  "py_abspath env p = abspath (env_cwd env) p"

definition system_config :: string where "system_config = ''/etc/buster/config.json''"

definition default_user_install :: "py_env \<Rightarrow> string" where
  "default_user_install env = expanduser env ''~/.buster''"

definition user_config :: "py_env \<Rightarrow> string" where
  "user_config env = path_join (path_join (default_user_install env) ''config'') ''config.json''"

text \<open>
  The \<open>install_path\<close> a JSON file names, None when the file is absent or unreadable or names none. A file
  whose top level is not an object has no \<open>get\<close>: the AttributeError is not caught.
\<close>

definition config_install_path :: "py_env \<Rightarrow> (pyfloat \<Rightarrow> string) \<Rightarrow> string \<Rightarrow> string option result" where
  "config_install_path env sf path =
     (case env_json env path of
        Stored (PDict d) \<Rightarrow>
          (let v = dgetd d ''install_path'' PNone
           in if truthy v then
                (let q = expanduser env (py_str sf v)
                 in Inr (Some (if startswith q ''/'' then q else path_join (path_dirname path) q)))
              else Inr None)
      | Stored _ \<Rightarrow> Inl (Exc ''AttributeError'' ''object has no attribute get'')
      | _ \<Rightarrow> Inr None)"

definition explicit_path :: "string option \<Rightarrow> string option" where
  "explicit_path p = (case p of None \<Rightarrow> None | Some s \<Rightarrow> if s = [] then None else Some s)"

definition resolve_install_path :: "py_env \<Rightarrow> (pyfloat \<Rightarrow> string) \<Rightarrow> string option \<Rightarrow> string result" where
  "resolve_install_path env sf explicit =
     (case explicit_path explicit of
        Some p \<Rightarrow> Inr (py_abspath env (expanduser env p))
      | None \<Rightarrow>
          (case explicit_path (env_install env) of
             Some p \<Rightarrow> Inr (py_abspath env (expanduser env p))
           | None \<Rightarrow>
               (case config_install_path env sf system_config of
                  Inl e \<Rightarrow> Inl e
                | Inr (Some p) \<Rightarrow> Inr (py_abspath env p)
                | Inr None \<Rightarrow>
                    (case config_install_path env sf (user_config env) of
                       Inl e \<Rightarrow> Inl e
                     | Inr (Some p) \<Rightarrow> Inr (py_abspath env p)
                     | Inr None \<Rightarrow> Inr (py_abspath env (default_user_install env))))))"

definition default_config_path :: "py_env \<Rightarrow> (pyfloat \<Rightarrow> string) \<Rightarrow> string option \<Rightarrow> string result" where
  "default_config_path env sf config_path =
     (case explicit_path config_path of
        Some p \<Rightarrow> Inr (py_abspath env (expanduser env p))
      | None \<Rightarrow>
          (case resolve_install_path env sf None of
             Inl e \<Rightarrow> Inl e
           | Inr p \<Rightarrow> Inr (path_join (path_join p ''config'') ''config.json'')))"

definition install_from_config_path :: "py_env \<Rightarrow> string \<Rightarrow> string" where
  "install_from_config_path env config_path =
     (let path = py_abspath env (expanduser env config_path); parent = path_dirname path
      in if str_lower (path_basename parent) = ''config'' then path_dirname parent else parent)"

definition canonical_path :: "py_env \<Rightarrow> string \<Rightarrow> string" where
  "canonical_path env p =
     (let q = rstrip_chars (\<lambda>c. c = CHR ''/'') (py_abspath env (expanduser env p))
      in if q = [] then ''/'' else q)"

section \<open>Configuration store\<close>

record config =
  cf_path :: string
  cf_install :: string
  cf_data :: "pyval sdict"
  cf_disk :: "pyval sdict disk"

definition dict_json_ok :: "pyval sdict \<Rightarrow> bool" where
  "dict_json_ok d = json_ok (PDict d)"

definition default_config :: "string \<Rightarrow> pyval sdict" where
  "default_config install = [
     (''logging_level'', PStr ''INFO''), (''ai_providers'', PDict []), (''permissions'', PDict []),
     (''capabilities'', PDict []), (''install_path'', PStr install)]"

definition cf_save :: "bool \<Rightarrow> config \<Rightarrow> unit result \<times> config" where
  "cf_save ok c =
     (let c1 = c\<lparr>cf_data := dput ''install_path'' (PStr (cf_install c)) (cf_data c)\<rparr>;
          (r, d) = write_json ok dict_json_ok (cf_data c1) (cf_disk c1)
      in (r, c1\<lparr>cf_disk := d\<rparr>))"

definition cf_load :: "bool \<Rightarrow> config \<Rightarrow> unit result \<times> config" where
  "cf_load ok c =
     (case cf_disk c of
        Absent \<Rightarrow> cf_save ok (c\<lparr>cf_data := default_config (cf_install c)\<rparr>)
      | Unreadable \<Rightarrow> (Inl (Exc ''ConfigError'' ''Failed to load config''), c)
      | Stored d \<Rightarrow> (Inr (), c\<lparr>cf_data := d\<rparr>))"

text \<open>\<open>Config.__init__\<close>, given what the selected file holds.\<close>

definition selected_install :: "py_env \<Rightarrow> (pyfloat \<Rightarrow> string) \<Rightarrow> string option \<Rightarrow> string option \<Rightarrow> string \<Rightarrow>
    string option result" where
  "selected_install env sf config_path install_path path =
     (case explicit_path config_path of
        None \<Rightarrow> Inr install_path
      | Some _ \<Rightarrow>
          (case explicit_path install_path of
             Some p \<Rightarrow> Inr (Some p)
           | None \<Rightarrow>
               if path = system_config then map_sum id Some (resolve_install_path env sf None)
               else Inr (Some (install_from_config_path env path))))"

definition cf_init :: "bool \<Rightarrow> py_env \<Rightarrow> (pyfloat \<Rightarrow> string) \<Rightarrow> string option \<Rightarrow> string option \<Rightarrow>
    (string \<Rightarrow> pyval sdict disk) \<Rightarrow> config result" where
  "cf_init ok env sf config_path install_path files =
     (case default_config_path env sf config_path of
        Inl e \<Rightarrow> Inl e
      | Inr path \<Rightarrow>
          (case selected_install env sf config_path install_path path of
             Inl e \<Rightarrow> Inl e
           | Inr selected \<Rightarrow>
               (case resolve_install_path env sf selected of
                  Inl e \<Rightarrow> Inl e
                | Inr install \<Rightarrow>
                    (case cf_load ok \<lparr>cf_path = path, cf_install = install, cf_data = [], cf_disk = files path\<rparr> of
                       (Inl e, c) \<Rightarrow> Inl e
                     | (Inr _, c) \<Rightarrow>
                         (let stored = dgetd (cf_data c) ''install_path'' PNone;
                              c1 = c\<lparr>cf_data := dput ''install_path'' (PStr install) (cf_data c)\<rparr>
                          in if cf_disk c1 = Absent \<or> stored \<noteq> PStr install
                             then (case cf_save ok c1 of (Inl e, _) \<Rightarrow> Inl e | (Inr _, c2) \<Rightarrow> Inr c2)
                             else Inr c1)))))"

definition cf_get :: "string \<Rightarrow> pyval \<Rightarrow> config \<Rightarrow> pyval" where
  "cf_get k dflt c = dgetd (cf_data c) k dflt"

definition cf_set :: "bool \<Rightarrow> string \<Rightarrow> pyval \<Rightarrow> config \<Rightarrow> unit result \<times> config" where
  "cf_set ok k v c =
     cf_save ok (c\<lparr>cf_data := dput k (if k = ''install_path'' then PStr (cf_install c) else v) (cf_data c)\<rparr>)"

fun nest_get :: "string list \<Rightarrow> pyval \<Rightarrow> pyval \<Rightarrow> pyval" where
  "nest_get [] dflt node = node"
| "nest_get (p # ps) dflt node =
     (case node of
        PDict d \<Rightarrow> (case dget d p of None \<Rightarrow> dflt | Some v \<Rightarrow> nest_get ps dflt v)
      | _ \<Rightarrow> dflt)"

definition get_nested :: "string \<Rightarrow> pyval \<Rightarrow> config \<Rightarrow> pyval" where
  "get_nested key dflt c = nest_get (split_char CHR ''.'' key) dflt (PDict (cf_data c))"

text \<open>
  Assignment along a path. An intermediate node that is not a dictionary has no \<open>setdefault\<close>; the
  nodes created before the exception stay.
\<close>

fun nest_set :: "string list \<Rightarrow> pyval \<Rightarrow> pyval \<Rightarrow> unit result \<times> pyval" where
  "nest_set [] v node = (Inr (), node)"
| "nest_set [k] v node =
     (case node of
        PDict d \<Rightarrow> (Inr (), PDict (dput k v d))
      | _ \<Rightarrow> (Inl (Exc ''TypeError'' ''object does not support item assignment''), node))"
| "nest_set (k # j # ks) v node =
     (case node of
        PDict d \<Rightarrow>
          (let (r, child) = nest_set (j # ks) v (dgetd d k (PDict [])) in (r, PDict (dput k child d)))
      | _ \<Rightarrow> (Inl (Exc ''AttributeError'' ''object has no attribute setdefault''), node))"

definition set_nested :: "bool \<Rightarrow> string \<Rightarrow> pyval \<Rightarrow> config \<Rightarrow> unit result \<times> config" where
  "set_nested ok key v c =
     (let parts = split_char CHR ''.'' key;
          v' = (if hd parts = ''install_path'' then PStr (cf_install c) else v)
      in case nest_set parts v' (PDict (cf_data c)) of
           (Inl e, PDict d) \<Rightarrow> (Inl e, c\<lparr>cf_data := d\<rparr>)
         | (Inr _, PDict d) \<Rightarrow> cf_save ok (c\<lparr>cf_data := d\<rparr>)
         | (r, _) \<Rightarrow> (r, c))"

lemma nest_set_dict: "\<exists>r d'. nest_set ks v (PDict d) = (r, PDict d')"
  by (cases "(ks, v, PDict d)" rule: nest_set.cases) (auto simp: split_beta)

lemma nest_get_set:
  "ks \<noteq> [] \<Longrightarrow> nest_set ks v node = (Inr u, node') \<Longrightarrow> nest_get ks dflt node' = v"
proof (induction ks v node arbitrary: node' rule: nest_set.induct)
  case (3 k j ks v node)
  then show ?case by (auto simp: Let_def split: pyval.splits prod.splits)
qed (auto split: pyval.splits)

text \<open>A path is unrelated to another when they part at some component.\<close>

fun unrelated :: "string list \<Rightarrow> string list \<Rightarrow> bool" where
  "unrelated (a # as) (b # bs) = (a \<noteq> b \<or> unrelated as bs)"
| "unrelated _ _ = False"

lemma nest_get_other:
  "unrelated js ks \<Longrightarrow> nest_get js dflt (snd (nest_set ks v node)) = nest_get js dflt node"
proof (induction ks v node arbitrary: js rule: nest_set.induct)
  case (2 k v node)
  then show ?case by (cases js) (auto split: pyval.splits)
next
  case (3 k j ks v node)
  obtain i is' where js: "js = i # is'" using "3.prems" by (cases js) auto
  show ?case
  proof (cases node)
    case (PDict d)
    obtain r child where c: "nest_set (j # ks) v (dgetd d k (PDict [])) = (r, child)" by fastforce
    show ?thesis
    proof (cases "i = k")
      case True
      then have u: "unrelated is' (j # ks)" using "3.prems" js by simp
      have "nest_get is' dflt child = nest_get is' dflt (dgetd d k (PDict []))"
        using "3.IH" [OF PDict u] c by simp
      moreover have "nest_get is' dflt (PDict []) = dflt" using u by (cases is') auto
      ultimately show ?thesis
        using PDict c js True by (auto simp: dgetd_def split: option.splits)
    next
      case False
      then show ?thesis using PDict c js by simp
    qed
  qed (use js in auto)
qed auto

lemma cf_save_data [simp]: "cf_data (snd (cf_save ok c)) = dput ''install_path'' (PStr (cf_install c)) (cf_data c)"
  by (simp add: cf_save_def Let_def split_beta)

lemma cf_save_install [simp]: "cf_install (snd (cf_save ok c)) = cf_install c"
  by (simp add: cf_save_def Let_def split_beta)

lemma cf_saved:
  "cf_save ok c = (r, c') \<Longrightarrow> cf_install c' = cf_install c \<and>
     cf_data c' = dput ''install_path'' (PStr (cf_install c)) (cf_data c)"
  using cf_save_data [of ok c] cf_save_install [of ok c] by auto

lemma cf_save_stored:
  "fst (cf_save ok c) = Inr u \<Longrightarrow> cf_disk (snd (cf_save ok c)) = Stored (cf_data (snd (cf_save ok c)))"
  by (auto simp: cf_save_def write_json_def Let_def split: if_splits)

text \<open>
  A nested setting that was stored without an error is read back as stored, from memory and from
  the file by the next process, and every setting on an unrelated path reads as before. (The path
  \<open>install_path\<close> is reserved.)
\<close>

lemma nested_put_get:
  assumes "fst (set_nested ok key v c) = Inr u"
    and "hd (split_char CHR ''.'' key) \<noteq> ''install_path''"
    and "unrelated (split_char CHR ''.'' key') (split_char CHR ''.'' key)"
    and "unrelated (split_char CHR ''.'' key') [''install_path'']"
  shows "get_nested key dflt (snd (set_nested ok key v c)) = v \<and>
    get_nested key' dflt (snd (set_nested ok key v c)) = get_nested key' dflt c \<and>
    cf_disk (snd (set_nested ok key v c)) = Stored (cf_data (snd (set_nested ok key v c)))"
proof -
  let ?p = "split_char CHR ''.'' key" and ?q = "split_char CHR ''.'' key'"
  obtain r d where n: "nest_set ?p v (PDict (cf_data c)) = (r, PDict d)"
    using nest_set_dict by blast
  with assms(1,2) have r: "r = Inr ()"
    by (cases r) (auto simp: set_nested_def Let_def)
  have s: "set_nested ok key v c = cf_save ok (c\<lparr>cf_data := d\<rparr>)"
    using n r assms(2) by (simp add: set_nested_def Let_def)
  let ?d = "dput ''install_path'' (PStr (cf_install c)) d"
  have ip: "snd (nest_set [''install_path''] w (PDict d)) = PDict (dput ''install_path'' w d)" for w by simp
  have "nest_get ?p dflt (PDict d) = v"
    using nest_get_set [of ?p v "PDict (cf_data c)" "()" "PDict d"] n r by simp
  moreover have "unrelated ?p [''install_path'']"
    using assms(2) by (cases ?p) auto
  ultimately have a: "nest_get ?p dflt (PDict ?d) = v"
    using nest_get_other [of ?p "[''install_path'']" dflt "PStr (cf_install c)" "PDict d"] by simp
  have "nest_get ?q dflt (PDict d) = nest_get ?q dflt (PDict (cf_data c))"
    using nest_get_other [OF assms(3), of dflt v "PDict (cf_data c)"] n by simp
  then have b: "nest_get ?q dflt (PDict ?d) = nest_get ?q dflt (PDict (cf_data c))"
    using nest_get_other [OF assms(4), of dflt "PStr (cf_install c)" "PDict d"] by simp
  show ?thesis
    using a b assms(1) s cf_save_stored [of ok "c\<lparr>cf_data := d\<rparr>"] by (auto simp: get_nested_def)
qed

theorem nested_put_get_witness:
  "get_nested ''gui.port'' PNone (snd (set_nested True ''gui.port'' (PInt 8080)
     \<lparr>cf_path = ''/b/config.json'', cf_install = ''/b'', cf_data = [], cf_disk = Absent\<rparr>)) = PInt 8080"
  using nested_put_get [of True "''gui.port''" "PInt 8080"
     "\<lparr>cf_path = ''/b/config.json'', cf_install = ''/b'', cf_data = [], cf_disk = Absent\<rparr>" "()" "''a''" PNone]
  by (simp add: set_nested_def cf_save_def write_json_def dict_json_ok_def dgetd_def Let_def)

text \<open>
  Nothing a caller sets moves the install path: after any successful update the configuration names
  the install path it was opened with.
\<close>

lemma set_install_pinned:
  "dget (cf_data (snd (cf_set ok k v c))) ''install_path'' = Some (PStr (cf_install c))"
  by (simp add: cf_set_def)

lemma set_nested_install_pinned:
  assumes "fst (set_nested ok k v c) = Inr u"
  shows "dget (cf_data (snd (set_nested ok k v c))) ''install_path'' = Some (PStr (cf_install c))"
proof -
  let ?v = "if hd (split_char CHR ''.'' k) = ''install_path'' then PStr (cf_install c) else v"
  obtain r d where n: "nest_set (split_char CHR ''.'' k) ?v (PDict (cf_data c)) = (r, PDict d)"
    using nest_set_dict by blast
  with assms have "r = Inr ()" by (cases r) (auto simp: set_nested_def Let_def)
  with n show ?thesis by (simp add: set_nested_def Let_def)
qed

section \<open>Offline bootstrap\<close>

definition subdirs :: "string list" where
  "subdirs = [''config'', ''cache'', ''logs'', ''state'', ''memory'', ''models'', ''agents'', ''packages'',
     ''workspaces'', ''backups'']"

text \<open>The directories and files that exist, by path; making a directory makes its parents.\<close>

record layout =
  ly_dirs :: "string list"
  ly_files :: "string sdict"

definition layout_dir :: "string \<Rightarrow> layout \<Rightarrow> layout" where
  "layout_dir p l = l\<lparr>ly_dirs := List.insert p (ly_dirs l)\<rparr>"

record boot_summary =
  bs_version :: string
  bs_install :: string
  bs_first_run :: bool
  bs_created :: "string list"
  bs_config_written :: bool

definition missing_subdirs :: "string \<Rightarrow> layout \<Rightarrow> string list" where
  "missing_subdirs install l = filter (\<lambda>s. path_join install s \<notin> set (ly_dirs l)) subdirs"

definition bootstrap_marker :: "string \<Rightarrow> string" where
  "bootstrap_marker install = path_join (path_join install ''state'') ''bootstrapped''"

definition bootstrap_offline :: "py_env \<Rightarrow> (pyfloat \<Rightarrow> string) \<Rightarrow> string \<Rightarrow> string option \<Rightarrow>
    config \<times> layout \<Rightarrow> boot_summary result \<times> config \<times> layout" where
  "bootstrap_offline env sf version install_path cl =
     (let (c, l) = cl;
          explicit = (case explicit_path install_path of
             Some p \<Rightarrow> Some p | None \<Rightarrow> to_ostr (cf_get ''install_path'' PNone c))
      in case resolve_install_path env sf explicit of
           Inl e \<Rightarrow> (Inl e, c, l)
         | Inr install \<Rightarrow>
             (case (if cf_get ''install_path'' PNone c \<noteq> PStr install then cf_save True (c\<lparr>cf_install := install\<rparr>)
                    else (Inr (), c)) of
                (Inl e, c1) \<Rightarrow> (Inl e, c1, l)
              | (Inr _, c1) \<Rightarrow>
                  (let created = missing_subdirs install l;
                       l1 = fold (\<lambda>s. layout_dir (path_join install s)) created l;
                       written = (cf_disk c1 = Absent)
                   in case (if written then cf_save True c1 else (Inr (), c1)) of
                        (Inl e, c2) \<Rightarrow> (Inl e, c2, l1)
                      | (Inr _, c2) \<Rightarrow>
                          (let marker = bootstrap_marker install;
                               first = (dget (ly_files l1) marker = None);
                               l2 = (if first then (layout_dir (path_dirname marker) l1)\<lparr>ly_files :=
                                       dput marker (version @ [CHR 0x0A]) (ly_files l1)\<rparr> else l1)
                           in (Inr \<lparr>bs_version = version, bs_install = install, bs_first_run = first,
                                 bs_created = created, bs_config_written = written\<rparr>, c2, l2)))))"

lemma make_dirs_in: "set (ly_dirs (fold (\<lambda>s. layout_dir (f s)) ss l)) = set (ly_dirs l) \<union> f ` set ss"
  by (induction ss arbitrary: l) (auto simp: layout_dir_def)

lemma make_dirs_files [simp]: "ly_files (fold (\<lambda>s. layout_dir (f s)) ss l) = ly_files l"
  by (induction ss arbitrary: l) (auto simp: layout_dir_def)

lemma subdirs_all: "set (ly_dirs l) \<supseteq> path_join i ` set subdirs \<Longrightarrow> missing_subdirs i l = []"
  by (auto simp: missing_subdirs_def filter_empty_conv)

lemma subdirs_made: "path_join i ` set subdirs \<subseteq>
    set (ly_dirs (fold (\<lambda>s. layout_dir (path_join i s)) (missing_subdirs i l) l))"
  by (auto simp: make_dirs_in missing_subdirs_def)

text \<open>
  Offline bootstrap is idempotent: running it again on what a run left behind creates nothing,
  changes neither the configuration nor the files, and does not report a first run. (The
  configuration names the install path it was opened with, as \<open>Config.__init__\<close> makes it.)
\<close>

lemma bootstrap_idempotent:
  assumes "bootstrap_offline env sf v (Some p) (c, l) = (Inr s, c', l')" and "p \<noteq> []"
    and "cf_get ''install_path'' PNone c = PStr (cf_install c)"
  shows "bootstrap_offline env sf v (Some p) (c', l') =
    (Inr \<lparr>bs_version = v, bs_install = bs_install s, bs_first_run = False, bs_created = [],
       bs_config_written = False\<rparr>, c', l')"
proof -
  let ?i = "py_abspath env (expanduser env p)"
  have res: "resolve_install_path env sf (Some p) = Inr ?i"
    using assms(2) by (simp add: resolve_install_path_def explicit_path_def)
  obtain u c1 where c1: "(if cf_get ''install_path'' PNone c \<noteq> PStr ?i then cf_save True (c\<lparr>cf_install := ?i\<rparr>)
      else (Inr (), c)) = (Inr u, c1)"
    using assms by (auto simp: bootstrap_offline_def res explicit_path_def split: prod.splits sum.splits)
  obtain u' c2 where c2: "(if cf_disk c1 = Absent then cf_save True c1 else (Inr (), c1)) = (Inr u', c2)"
    using assms c1 by (auto simp: bootstrap_offline_def res explicit_path_def Let_def split: prod.splits sum.splits)
  let ?l1 = "fold (\<lambda>s. layout_dir (path_join ?i s)) (missing_subdirs ?i l) l"
  have eq: "c' = c2" "bs_install s = ?i"
    "l' = (if dget (ly_files ?l1) (bootstrap_marker ?i) = None
       then (layout_dir (path_dirname (bootstrap_marker ?i)) ?l1)\<lparr>ly_files :=
         dput (bootstrap_marker ?i) (v @ [CHR 0x0A]) (ly_files ?l1)\<rparr> else ?l1)"
    using assms c1 c2 by (auto simp: bootstrap_offline_def res explicit_path_def Let_def)
  have c1': "cf_get ''install_path'' PNone c1 = PStr ?i" "cf_install c1 = ?i"
    using c1 assms(3) by (auto simp: cf_get_def dgetd_def dest!: cf_saved split: if_splits)
  have c2': "cf_get ''install_path'' PNone c2 = PStr ?i" "cf_disk c2 \<noteq> Absent"
    using c2 c1' cf_save_stored [of True c1]
    by (auto simp: cf_get_def dgetd_def dest: cf_saved split: if_splits)
  have "path_join ?i ` set subdirs \<subseteq> set (ly_dirs l')"
    using subdirs_made [of ?i l] eq(3) by (auto simp: layout_dir_def)
  then have "missing_subdirs ?i l' = []" by (rule subdirs_all)
  moreover have "dget (ly_files l') (bootstrap_marker ?i) \<noteq> None"
    by (simp add: eq(3))
  ultimately have l': "missing_subdirs ?i l' = []" "dget (ly_files l') (bootstrap_marker ?i) \<noteq> None"
    by simp_all
  then show ?thesis
    using c2' eq(1,2) assms(2) by (auto simp: bootstrap_offline_def res explicit_path_def Let_def)
qed

definition demo_env :: py_env where
  "demo_env = \<lparr>env_home = ''/h'', env_user_home = (\<lambda>_. None), env_cwd = ''/w'', env_install = None,
     env_json = (\<lambda>_. Absent)\<rparr>"

definition demo_config :: config where
  "demo_config = \<lparr>cf_path = ''/b/config/config.json'', cf_install = ''/b'',
     cf_data = [(''install_path'', PStr ''/b'')], cf_disk = Absent\<rparr>"

theorem bootstrap_idempotent_witness:
  "let (r, c, l) = bootstrap_offline demo_env (\<lambda>_. []) ''1'' (Some ''/b'') (demo_config, \<lparr>ly_dirs = [], ly_files = []\<rparr>)
   in \<exists>s. fst (bootstrap_offline demo_env (\<lambda>_. []) ''1'' (Some ''/b'') (c, l)) = Inr s \<and> \<not> bs_first_run s"
proof -
  let ?b = "bootstrap_offline demo_env (\<lambda>_. []) ''1'' (Some ''/b'')"
  obtain r c l where b: "?b (demo_config, \<lparr>ly_dirs = [], ly_files = []\<rparr>) = (r, c, l)"
    by (metis surj_pair)
  have "isl r = False"
    using b by (auto simp: bootstrap_offline_def resolve_install_path_def explicit_path_def demo_config_def
        cf_get_def dgetd_def cf_save_def write_json_def dict_json_ok_def Let_def split: if_splits)
  then obtain s where r: "r = Inr s" by (cases r) auto
  have d: "cf_get ''install_path'' PNone demo_config = PStr (cf_install demo_config)"
    by (simp add: demo_config_def cf_get_def dgetd_def)
  show ?thesis
    using bootstrap_idempotent [OF b [unfolded r] _ d] b by simp
qed

section \<open>Workspaces\<close>

text \<open>
  A workspace is its id and root; the files of all workspaces are one dictionary from absolute path
  to contents. Symbolic links are not resolved by the code and not modelled.
\<close>

record workspace =
  wk_id :: string
  wk_root :: string

definition new_workspace :: "py_env \<Rightarrow> string \<Rightarrow> string \<Rightarrow> workspace" where
  "new_workspace env wid dir = \<lparr>wk_id = wid, wk_root = py_abspath env dir\<rparr>"

definition ws_resolve :: "py_env \<Rightarrow> workspace \<Rightarrow> string \<Rightarrow> string result" where
  "ws_resolve env w rel =
     (let candidate = py_abspath env (path_join (wk_root w) rel)
      in if candidate \<noteq> wk_root w \<and> \<not> startswith candidate (wk_root w @ ''/'')
         then Inl (Exc ''WorkspaceError'' (''Path escapes workspace: '' @ rel))
         else Inr candidate)"

definition ws_write :: "py_env \<Rightarrow> workspace \<Rightarrow> string \<Rightarrow> string \<Rightarrow> string sdict \<Rightarrow> string result \<times> string sdict" where
  "ws_write env w rel content files =
     (case ws_resolve env w rel of
        Inl e \<Rightarrow> (Inl e, files)
      | Inr target \<Rightarrow> (Inr target, dput target content files))"

definition ws_read :: "py_env \<Rightarrow> workspace \<Rightarrow> string \<Rightarrow> string sdict \<Rightarrow> string result" where
  "ws_read env w rel files =
     (case ws_resolve env w rel of
        Inl e \<Rightarrow> Inl e
      | Inr target \<Rightarrow>
          (case dget files target of None \<Rightarrow> Inl (Exc ''FileNotFoundError'' target) | Some s \<Rightarrow> Inr s))"

definition ws_remove :: "py_env \<Rightarrow> workspace \<Rightarrow> string \<Rightarrow> string sdict \<Rightarrow> unit result \<times> string sdict" where
  "ws_remove env w rel files =
     (case ws_resolve env w rel of
        Inl e \<Rightarrow> (Inl e, files)
      | Inr target \<Rightarrow>
          (case dget files target of
             None \<Rightarrow> (Inl (Exc ''FileNotFoundError'' target), files)
           | Some _ \<Rightarrow> (Inr (), ddel target files)))"

definition ws_list_files :: "workspace \<Rightarrow> string sdict \<Rightarrow> string list" where
  "ws_list_files w files =
     sort (map (drop (Suc (length (wk_root w)))) (filter (\<lambda>p. startswith p (wk_root w @ ''/'')) (dkeys files)))"

record workspace_manager =
  wsm_base :: string
  wsm_spaces :: "workspace sdict"

definition wsm_create :: "py_env \<Rightarrow> string \<Rightarrow> string \<Rightarrow> workspace_manager \<Rightarrow> workspace \<times> workspace_manager" where
  "wsm_create env uid name m =
     (let wid = (if name = [] then ''ws'' else name) @ ''-'' @ take 8 uid;
          w = new_workspace env wid (path_join (wsm_base m) wid)
      in (w, m\<lparr>wsm_spaces := dput wid w (wsm_spaces m)\<rparr>))"

definition wsm_get :: "string \<Rightarrow> workspace_manager \<Rightarrow> workspace result" where
  "wsm_get wid m =
     (case dget (wsm_spaces m) wid of
        None \<Rightarrow> Inl (Exc ''WorkspaceError'' (''Unknown workspace '' @ [CHR 0x27] @ wid @ [CHR 0x27]))
      | Some w \<Rightarrow> Inr w)"

definition wsm_list :: "workspace_manager \<Rightarrow> string list" where
  "wsm_list m = sort (dkeys (wsm_spaces m))"

definition wsm_destroy :: "string \<Rightarrow> workspace_manager \<Rightarrow> string sdict \<Rightarrow>
    unit result \<times> workspace_manager \<times> string sdict" where
  "wsm_destroy wid m files =
     (case wsm_get wid m of
        Inl e \<Rightarrow> (Inl e, m, files)
      | Inr w \<Rightarrow> (Inr (), m\<lparr>wsm_spaces := ddel wid (wsm_spaces m)\<rparr>,
          filter (\<lambda>(p, s). \<not> (p = wk_root w \<or> startswith p (wk_root w @ ''/''))) files))"

lemma split_char_cat: "split_char c (a @ c # b) = split_char c a @ split_char c b"
proof (induction a)
  case (Cons x a)
  then show ?case by (auto split: list.splits)
qed simp

lemma normpath_fields:
  assumes "startswith p ''/''"
  shows "\<exists>pre. (pre = [] \<or> pre = [[]]) \<and> split_char CHR ''/'' (normpath p) =
    [] # pre @ (if norm_comps p = [] then [[]] else norm_comps p)"
proof -
  let ?cs = "norm_comps p"
  have clean: "CHR ''/'' \<notin> set c" if "c \<in> set ?cs" for c
    using norm_comps_clean [OF assms] that by (simp add: clean_comp_def)
  have sj: "split_char CHR ''/'' (join_str ''/'' ?cs) = (if ?cs = [] then [[]] else ?cs)"
    using join_split_char [of ?cs "CHR ''/''"] clean by simp
  consider "initial_slashes p = 1" | "initial_slashes p = 2"
    using assms by (fastforce simp: initial_slashes_def split: if_splits)
  then show ?thesis
  proof cases
    case 1
    then have "normpath p = CHR ''/'' # join_str ''/'' ?cs" by (simp add: normpath_def)
    then show ?thesis using sj by (intro exI [of _ "[]"]) simp
  next
    case 2
    then have "normpath p = CHR ''/'' # CHR ''/'' # join_str ''/'' ?cs"
      by (simp add: normpath_def numeral_2_eq_2)
    then show ?thesis using sj by (intro exI [of _ "[[]]"]) simp
  qed
qed

lemma split_char_single: "split_char c s = [a] \<Longrightarrow> a = s"
  using split_char_join [of c s] by simp

text \<open>
  C9. Workspace containment: a path that \<open>resolve\<close> accepts is the workspace root itself, or lies
  strictly below it, with no empty, dot or dot-dot component on the way, so no relative spelling
  leaves the workspace (for a root other than \<open>/\<close>).
\<close>

theorem workspace_contained:
  assumes "startswith (env_cwd env) ''/''" and "ws_resolve env (new_workspace env wid dir) rel = Inr t"
    and "py_abspath env dir \<noteq> ''/''"
  shows "t = py_abspath env dir \<or>
    (\<exists>rest. t = py_abspath env dir @ ''/'' @ rest \<and> list_all clean_comp (split_char CHR ''/'' rest))"
proof (cases "t = py_abspath env dir")
  case False
  let ?r = "py_abspath env dir" and ?q = "path_join (py_abspath env dir) rel"
  have abs_root: "startswith (py_abspath env x) ''/''" for x
  proof -
    have "startswith (path_join (env_cwd env) x) ''/''" if "\<not> startswith x ''/''"
      using assms(1) that by (auto simp: path_join_def startswith_iff)
    then show ?thesis by (auto simp: py_abspath_def abspath_def intro: normpath_rooted)
  qed
  obtain rest where t: "t = ?r @ ''/'' @ rest"
    using assms(2) False by (auto simp: ws_resolve_def new_workspace_def Let_def startswith_iff split: if_splits)
  let ?u = "if startswith ?q ''/'' then ?q else path_join (env_cwd env) ?q"
  have qr: "startswith ?q ''/''"
    using abs_root [of dir] by (auto simp: path_join_def startswith_iff)
  have tn: "t = normpath ?q"
    using assms(2) qr by (auto simp: ws_resolve_def new_workspace_def py_abspath_def abspath_def Let_def split: if_splits)
  obtain r' where r': "?r = CHR ''/'' # r'" using abs_root [of dir] by (auto simp: startswith_iff)
  have "split_char CHR ''/'' t = split_char CHR ''/'' ?r @ split_char CHR ''/'' rest"
    using split_char_cat [of "CHR ''/''" ?r rest] t by simp
  moreover have "split_char CHR ''/'' ?r = [] # split_char CHR ''/'' r'" using r' by simp
  ultimately have fields: "split_char CHR ''/'' (normpath ?q) = [] # split_char CHR ''/'' r' @ split_char CHR ''/'' rest"
    using tn by simp
  obtain pre where pre: "pre = [] \<or> pre = [[]]"
    "split_char CHR ''/'' (normpath ?q) = [] # pre @ (if norm_comps ?q = [] then [[]] else norm_comps ?q)"
    using normpath_fields [OF qr] by blast
  obtain a as where a: "split_char CHR ''/'' r' = a # as" by (cases "split_char CHR ''/'' r'") auto
  obtain b bs where b: "split_char CHR ''/'' rest = b # bs" by (cases "split_char CHR ''/'' rest") auto
  have ne: "as = [] \<Longrightarrow> a \<noteq> []"
    using split_char_single [of "CHR ''/''" r' a] a r' assms(3) by auto
  have "set (split_char CHR ''/'' rest) \<subseteq> set (norm_comps ?q)"
  proof -
    have "as @ b # bs = norm_comps ?q \<or> a # as @ b # bs = norm_comps ?q"
      using pre fields a b ne by (auto simp: append_eq_Cons_conv split: if_splits)
    then have "set (as @ b # bs) \<subseteq> set (norm_comps ?q)" by (metis list.set_intros(2) order_refl subsetI)
    with b show ?thesis by auto
  qed
  then have "list_all clean_comp (split_char CHR ''/'' rest)"
    using norm_comps_clean [OF qr] by (auto simp: list_all_iff)
  with t show ?thesis by blast
qed simp

theorem workspace_contained_witness:
  "\<exists>rest. ''/b/a'' = py_abspath demo_env ''/b'' @ ''/'' @ rest \<and> list_all clean_comp (split_char CHR ''/'' rest)"
  using workspace_contained [of demo_env "''w''" "''/b''" "''x/../a''" "''/b/a''"]
  by (simp add: demo_env_def startswith_def ws_resolve_def new_workspace_def py_abspath_def abspath_def
      normpath_def norm_comps_def initial_slashes_def path_join_def endswith_def Let_def)

text \<open>
  The manager does not check the name of a workspace: a name with dot-dot components puts the
  workspace outside the manager's base directory, and destroying it deletes the files there.
\<close>

lemma workspace_name_escapes:
  "\<exists>name files. let (w, m) = wsm_create demo_env ''0123456789'' name \<lparr>wsm_base = ''/b'', wsm_spaces = []\<rparr>
     in \<not> startswith (wk_root w) ''/b/'' \<and>
        dget files ''/etc/x-01234567/passwd'' = Some ''root'' \<and>
        dget (snd (snd (wsm_destroy (wk_id w) m files))) ''/etc/x-01234567/passwd'' = None"
  by (rule exI [of _ "''../etc/x''"], rule exI [of _ "[(''/etc/x-01234567/passwd'', ''root'')]"])
    (simp add: wsm_create_def new_workspace_def demo_env_def startswith_def py_abspath_def abspath_def
      normpath_def norm_comps_def initial_slashes_def path_join_def endswith_def wsm_destroy_def wsm_get_def Let_def)

end
