(* ===== verification/Shell.thy ===== *)
theory Shell
  imports Capabilities Memory World_Model
begin

text \<open>
  \<open>buster/shell/\<close>: the command parser, structured results, the command registry and the built-in
  commands that act on the kernel's permissions, capabilities, jobs, memory and logs. A session acts
  on a record of the kernel parts it uses; formatting of times and floats is an argument.
\<close>

section \<open>Parser\<close>

definition dquote :: char where "dquote = CHR 0x22"
definition squote :: char where "squote = CHR 0x27"

definition is_quote :: "char \<Rightarrow> bool" where
  "is_quote c \<longleftrightarrow> c = dquote \<or> c = squote"

record command =
  cmd_name :: string
  cmd_args :: "string list"
  cmd_options :: "pyval sdict"

definition cmd_option :: "command \<Rightarrow> string \<Rightarrow> pyval \<Rightarrow> pyval" where
  "cmd_option c k dflt = dgetd (cmd_options c) k dflt"

text \<open>The loop of \<open>tokenize\<close>: the open quote, the buffer and the rest of the line.\<close>

fun tokens_from :: "char option \<Rightarrow> string \<Rightarrow> string \<Rightarrow> string list" where
  "tokens_from q buf [] = (if buf = [] then [] else [buf])"
| "tokens_from (Some q) buf (c # s) = tokens_from (if c = q then None else Some q) (buf @ [c]) s"
| "tokens_from None buf (c # s) =
     (if is_quote c then tokens_from (Some c) (buf @ [c]) s
      else if is_space c then
        (if buf = [] then tokens_from None [] s else buf # tokens_from None [] s)
      else tokens_from None (buf @ [c]) s)"

definition tokenize :: "string \<Rightarrow> string list" where
  "tokenize line = tokens_from None [] line"

definition strip_assign :: "char \<Rightarrow> string \<Rightarrow> string option" where
  "strip_assign q token =
     (if q \<in> set token then
        (let (key, eq, rest) = partition_char (CHR ''='') token
         in if eq \<and> startswith rest [q] \<and> endswith rest [q]
            then Some (key @ ''='' @ butlast (tl rest)) else None)
      else None)"

definition strip_outer_quotes :: "string \<Rightarrow> string" where
  "strip_outer_quotes token =
     (if 2 \<le> length token \<and> is_quote (hd token) \<and> last token = hd token
      then butlast (tl token)
      else (case strip_assign dquote token of
              Some t \<Rightarrow> t
            | None \<Rightarrow> (case strip_assign squote token of Some t \<Rightarrow> t | None \<Rightarrow> token)))"

definition coerce :: "string \<Rightarrow> pyval" where
  "coerce v =
     (let l = str_lower v in
      if l = ''true'' \<or> l = ''false'' then PBool (l = ''true'')
      else (case py_int_of v of
              Some i \<Rightarrow> PInt i
            | None \<Rightarrow> (case py_float_of v of Some x \<Rightarrow> x | None \<Rightarrow> PStr v)))"

fun parse_tokens :: "string list \<Rightarrow> string list \<Rightarrow> pyval sdict \<Rightarrow> string list \<times> pyval sdict" where
  "parse_tokens [] args opts = (args, opts)"
| "parse_tokens (t # ts) args opts =
     (if startswith t ''--'' \<and> CHR ''='' \<in> set t then
        (let (key, _, v) = partition_char (CHR ''='') (drop 2 t)
         in parse_tokens ts args (dput key (coerce v) opts))
      else if startswith t ''--'' then
        (case ts of
           u # us \<Rightarrow>
             if \<not> startswith u ''--'' then parse_tokens us args (dput (drop 2 t) (coerce u) opts)
             else parse_tokens ts args (dput (drop 2 t) (PBool True) opts)
         | [] \<Rightarrow> parse_tokens ts args (dput (drop 2 t) (PBool True) opts))
      else if startswith t ''-'' \<and> length t = 2 then
        parse_tokens ts args (dput (tl t) (PBool True) opts)
      else parse_tokens ts (args @ [t]) opts)"

definition parse :: "string \<Rightarrow> command option" where
  "parse line =
     (let l = str_strip line in
      if l = [] then None
      else (case map strip_outer_quotes (tokenize l) of
              [] \<Rightarrow> None
            | name # ts \<Rightarrow>
                (let (args, opts) = parse_tokens ts [] []
                 in Some \<lparr>cmd_name = name, cmd_args = args, cmd_options = opts\<rparr>)))"

text \<open>A plain word: no whitespace, no quotes, not empty.\<close>

definition plain_word :: "string \<Rightarrow> bool" where
  "plain_word w \<longleftrightarrow> w \<noteq> [] \<and> (\<forall>c\<in>set w. \<not> is_space c \<and> \<not> is_quote c)"

definition plain_arg :: "string \<Rightarrow> bool" where
  "plain_arg w \<longleftrightarrow> plain_word w \<and> hd w \<noteq> CHR ''-''"

lemma tokens_word:
  "\<forall>c\<in>set w. \<not> is_space c \<and> \<not> is_quote c \<Longrightarrow>
   tokens_from None buf (w @ s) = tokens_from None (buf @ w) s"
  by (induction w arbitrary: buf) auto

lemma tokens_quoted:
  "q \<notin> set v \<Longrightarrow> tokens_from (Some q) buf (v @ q # s) = tokens_from None (buf @ v @ [q]) s"
  by (induction v arbitrary: buf) auto

lemma space_is_space [simp]: "is_space (CHR '' '')" "\<not> is_quote (CHR '' '')"
  by (simp_all add: is_space_def code_def is_quote_def dquote_def squote_def)

lemma tokens_word_space:
  "plain_word w \<Longrightarrow> tokens_from None [] (w @ CHR '' '' # s) = w # tokens_from None [] s"
  by (simp add: plain_word_def tokens_word)

lemma tokenize_join:
  "list_all plain_word ws \<Longrightarrow> tokenize (join_str '' '' ws) = ws"
proof (induction ws)
  case (Cons w ws)
  then have w: "plain_word w" and ws: "tokenize (join_str '' '' ws) = ws" by simp_all
  show ?case
  proof (cases ws)
    case Nil
    then show ?thesis using w tokens_word [of w "[]" "[]"] by (simp add: tokenize_def plain_word_def)
  next
    case (Cons v vs)
    then show ?thesis
      using w ws tokens_word_space [of w "join_str '' '' ws"] by (simp add: tokenize_def)
  qed
qed (simp add: tokenize_def)

lemma strip_plain: "plain_word w \<Longrightarrow> strip_outer_quotes w = w"
proof -
  assume w: "plain_word w"
  then have "\<not> is_quote (hd w)" "dquote \<notin> set w" "squote \<notin> set w"
    by (auto simp: plain_word_def is_quote_def)
  then show ?thesis by (simp add: strip_outer_quotes_def strip_assign_def)
qed

lemma plain_arg_no_option: "plain_arg w \<Longrightarrow> \<not> startswith w ''-'' \<and> \<not> startswith w ''--''"
  by (cases w) (auto simp: plain_arg_def plain_word_def startswith_def)

lemma parse_plain_args: "list_all plain_arg ws \<Longrightarrow> parse_tokens ws args opts = (args @ ws, opts)"
  by (induction ws arbitrary: args) (auto simp: plain_arg_no_option)

lemma strip_line:
  assumes "l \<noteq> []" and "\<not> is_space (hd l)" and "\<not> is_space (last l)"
  shows "str_strip l = l"
  using assms by (auto simp: str_strip_def intro!: strip_chars_id)

definition assign_line :: "string \<Rightarrow> string \<Rightarrow> string \<Rightarrow> string" where
  "assign_line a k v = ''run '' @ a @ '' '' @ k @ ''='' @ [dquote] @ v @ [dquote]"

text \<open>
  A quoted assignment survives the shell's parser: in \<open>run a k="v"\<close> the value may be any text
  without a double quote, spaces, equals signs and leading dashes included, and reaches the command
  as the argument \<open>k=v\<close>.
\<close>

lemma quoted_value_parsed:
  assumes "plain_arg a" and "plain_arg k" and "CHR ''='' \<notin> set k" and "dquote \<notin> set v"
  shows "parse (assign_line a k v) = Some \<lparr>cmd_name = ''run'', cmd_args = [a, k @ ''='' @ v], cmd_options = []\<rparr>"
proof -
  let ?tok = "k @ CHR ''='' # dquote # v @ [dquote]"
  have kw: "\<forall>c\<in>set (k @ ''=''). \<not> is_space c \<and> \<not> is_quote c"
    using assms(2) by (auto simp: plain_arg_def plain_word_def is_quote_def dquote_def squote_def is_space_def code_def)
  have dq: "is_quote dquote" by (simp add: is_quote_def)
  have sp: "\<not> is_space dquote" by (simp add: dquote_def is_space_def code_def)
  have run: "plain_arg ''run''"
    by (simp add: plain_arg_def plain_word_def is_quote_def dquote_def squote_def is_space_def code_def)
  have "tokens_from None [] ((k @ ''='') @ dquote # v @ [dquote]) = [?tok]"
    using tokens_word [OF kw, of "[]"] tokens_quoted [OF assms(4), of "k @ CHR ''='' # [dquote]" "[]"] dq
    by simp
  then have toks: "tokenize (assign_line a k v) = [''run'', a, ?tok]"
    using tokens_word_space [of "''run''" "a @ CHR '' '' # ?tok"] tokens_word_space [of a ?tok] run assms(1)
    by (simp add: tokenize_def assign_line_def plain_arg_def)
  have strip_tok: "strip_outer_quotes ?tok = k @ ''='' @ v"
  proof -
    have "\<not> is_quote (hd ?tok)" using assms(2) by (cases k) (auto simp: plain_arg_def plain_word_def)
    moreover have "partition_char (CHR ''='') ?tok = (k, True, dquote # v @ [dquote])"
      using partition_char_append [OF assms(3), of "dquote # v @ [dquote]"] by simp
    then have "strip_assign dquote ?tok = Some (k @ ''='' @ v)"
      by (simp add: strip_assign_def startswith_def endswith_def)
    ultimately show ?thesis by (simp add: strip_outer_quotes_def)
  qed
  have line: "str_strip (assign_line a k v) = assign_line a k v"
    using sp by (intro strip_line) (auto simp: assign_line_def is_space_def code_def)
  obtain x xs where k: "k = x # xs" "x \<noteq> CHR ''-''"
    using assms(2) by (cases k) (auto simp: plain_arg_def plain_word_def)
  have "parse_tokens [a, k @ ''='' @ v] [] [] = ([a, k @ ''='' @ v], [])"
    using plain_arg_no_option [OF assms(1)] k by (simp add: startswith_def)
  moreover have "assign_line a k v \<noteq> []" by (simp add: assign_line_def)
  moreover have "map strip_outer_quotes (tokenize (assign_line a k v)) = [''run'', a, k @ ''='' @ v]"
    using run assms(1) strip_tok by (simp add: toks strip_plain plain_arg_def)
  ultimately show ?thesis by (simp add: parse_def line Let_def)
qed

theorem quoted_value_parsed_witness:
  "parse (assign_line ''fs.write'' ''content'' ''hello = --world'') =
    Some \<lparr>cmd_name = ''run'', cmd_args = [''fs.write'', ''content=hello = --world''], cmd_options = []\<rparr>"
  using quoted_value_parsed [of "''fs.write''" "''content''" "''hello = --world''"]
  by (simp add: plain_arg_def plain_word_def is_quote_def dquote_def squote_def is_space_def code_def)

lemma coerce_int: "coerce (str_of_nat n) = PInt (int n)"
proof -
  obtain d ds where d: "str_of_nat n = d # ds" "is_digit d"
    using str_of_nat_digits [of n] by (cases "str_of_nat n") auto
  have "lower_char d = d" using d(2) by (auto simp: char_defs Let_def)
  then have "str_lower (str_of_nat n) \<noteq> ''true'' \<and> str_lower (str_of_nat n) \<noteq> ''false''"
    using d by (auto simp: str_lower_def is_digit_def code_def)
  then show ?thesis by (simp add: coerce_def py_int_of_str_of_nat)
qed

section \<open>Structured results\<close>

record sresult =
  sr_ok :: bool
  sr_command :: string
  sr_data :: pyval
  sr_error :: "string option"
  sr_title :: "string option"

definition sr_success :: "string \<Rightarrow> pyval \<Rightarrow> sresult" where
  "sr_success c d = \<lparr>sr_ok = True, sr_command = c, sr_data = d, sr_error = None, sr_title = None\<rparr>"

definition sr_failure :: "string \<Rightarrow> string \<Rightarrow> sresult" where
  "sr_failure c e = \<lparr>sr_ok = False, sr_command = c, sr_data = PNone, sr_error = Some e, sr_title = None\<rparr>"

definition format_item :: "(pyfloat \<Rightarrow> string) \<Rightarrow> pyval \<Rightarrow> string" where
  "format_item sf v =
     (case v of
        PDict d \<Rightarrow> join_str '' '' (map (\<lambda>(k, x). k @ ''='' @ py_str sf x)
                     (filter (\<lambda>(k, x). \<not> startswith k ''_'') d))
      | _ \<Rightarrow> py_str sf v)"

definition sr_render :: "(pyfloat \<Rightarrow> string) \<Rightarrow> sresult \<Rightarrow> string" where
  "sr_render sf r =
     (let title = (case sr_title r of None \<Rightarrow> [] | Some t \<Rightarrow> if t = [] then [] else [t]);
          body = (if sr_ok r then
                    (case sr_data r of
                       PNone \<Rightarrow> [''OK'']
                     | PStr s \<Rightarrow> [s]
                     | PList xs \<Rightarrow> map (format_item sf) xs
                     | v \<Rightarrow> [format_item sf v])
                  else [''ERROR: '' @ (case sr_error r of None \<Rightarrow> ''None'' | Some e \<Rightarrow> e)])
      in join_str [CHR 0x0A] (title @ body))"

section \<open>Command registry\<close>

type_synonym 'k handler = "command \<Rightarrow> 'k \<Rightarrow> sresult result \<times> 'k"

record 'k command_spec =
  cs_cmd :: string
  cs_handler :: "'k handler"
  cs_help :: string

record 'k commands =
  cm_specs :: "'k command_spec sdict"
  cm_aliases :: "string sdict"

definition cm_register :: "string \<Rightarrow> 'k handler \<Rightarrow> string \<Rightarrow> 'k commands \<Rightarrow> 'k commands" where
  "cm_register n h help m = m\<lparr>cm_specs := dput n \<lparr>cs_cmd = n, cs_handler = h, cs_help = help\<rparr> (cm_specs m)\<rparr>"

definition cm_alias :: "string \<Rightarrow> string \<Rightarrow> 'k commands \<Rightarrow> 'k commands" where
  "cm_alias a t m = m\<lparr>cm_aliases := dput a t (cm_aliases m)\<rparr>"

definition cm_has :: "string \<Rightarrow> 'k commands \<Rightarrow> bool" where
  "cm_has n m \<longleftrightarrow> n \<in> set (dkeys (cm_specs m)) \<or> n \<in> set (dkeys (cm_aliases m))"

definition cm_resolve :: "string \<Rightarrow> 'k commands \<Rightarrow> 'k command_spec option" where
  "cm_resolve n m = dget (cm_specs m) (dgetd (cm_aliases m) n n)"

definition cm_dispatch :: "'k commands \<Rightarrow> command \<Rightarrow> 'k \<Rightarrow> sresult \<times> 'k" where
  "cm_dispatch m c k =
     (case cm_resolve (cmd_name c) m of
        None \<Rightarrow> (sr_failure (cmd_name c) (''unknown command '' @ [squote] @ cmd_name c @ [squote]), k)
      | Some spec \<Rightarrow>
          (case cs_handler spec c k of
             (Inl e, k') \<Rightarrow> (sr_failure (cmd_name c) (exc_type e @ '': '' @ exc_msg e), k')
           | (Inr r, k') \<Rightarrow> (r, k')))"

definition cm_names :: "'k commands \<Rightarrow> string list" where
  "cm_names m = sort (dkeys (cm_specs m))"

section \<open>Session\<close>

type_synonym 's call_closure = "'s registry \<Rightarrow> 's \<Rightarrow> cap_result \<times> 's registry \<times> 's"

text \<open>The parts of a running kernel that the commands use, and the world its capabilities act on.\<close>

record 's kernel_state =
  ks_state :: string
  ks_version :: string
  ks_registry :: "'s registry"
  ks_world :: 's
  ks_scheduler :: "'s call_closure scheduler"
  ks_agents :: agent_manager
  ks_providers :: "string list"
  ks_memory :: memory
  ks_experience :: experience
  ks_knowledge :: knowledge
  ks_audit :: audit

record 's session =
  se_kernel :: "'s kernel_state option"
  se_running :: bool

text \<open>What the commands read from outside: clock, fresh id, float and time formatting, disk health.\<close>

record shell_env =
  sv_now :: pyfloat
  sv_uid :: string
  sv_float :: "pyfloat \<Rightarrow> string"
  sv_time :: "pyfloat \<Rightarrow> string"
  sv_write_ok :: bool

definition ljust :: "nat \<Rightarrow> string \<Rightarrow> string" where
  "ljust n s = s @ replicate (n - length s) (CHR '' '')"

definition lines_of :: "string list \<Rightarrow> pyval" where
  "lines_of ls = PStr (join_str [CHR 0x0A] ls)"

definition with_kernel :: "string \<Rightarrow> ('s kernel_state \<Rightarrow> sresult result \<times> 's kernel_state) \<Rightarrow> 's session \<Rightarrow>
    sresult result \<times> 's session" where
  "with_kernel name f se =
     (case se_kernel se of
        None \<Rightarrow> (Inr (sr_failure name ''no kernel bound''), se)
      | Some k \<Rightarrow> (let (r, k') = f k in (r, se\<lparr>se_kernel := Some k'\<rparr>)))"

definition job_status_text :: "job_status \<Rightarrow> string" where
  "job_status_text s = (case s of Pending \<Rightarrow> ''pending'' | Running \<Rightarrow> ''running''
     | Completed \<Rightarrow> ''completed'' | Failed \<Rightarrow> ''failed'' | Cancelled \<Rightarrow> ''cancelled'')"

definition kernel_status :: "'s kernel_state \<Rightarrow> pyval sdict" where
  "kernel_status k = [
     (''state'', PStr (ks_state k)), (''version'', PStr (ks_version k)),
     (''event_router_running'', PBool (case rg_kernel (ks_registry k) of None \<Rightarrow> False | Some v \<Rightarrow> kv_router_running v)),
     (''scheduler_running'', PBool (sch_running (ks_scheduler k))),
     (''capabilities'', PList (map PStr (list_capabilities (ks_registry k)))),
     (''ai_providers'', PList (map PStr (ks_providers k))),
     (''agents'', PList (map (\<lambda>a. PStr (ag_name a)) (list_agents None (ks_agents k)))),
     (''jobs'', PList (map (\<lambda>j. PDict [(''name'', PStr (job_name j)),
        (''status'', PStr (job_status_text (job_status j)))]) (sch_list_jobs None (ks_scheduler k))))]"

definition cmd_status :: "shell_env \<Rightarrow> 's session handler" where
  "cmd_status sv c = with_kernel ''status'' (\<lambda>k.
     (Inr (sr_success ''status'' (lines_of ([replicate 30 (CHR ''=''), ''Kernel'', replicate 30 (CHR ''='')] @
        map (\<lambda>(key, v). ljust 24 key @ '' '' @ py_str (sv_float sv) v) (kernel_status k)))), k))"

definition cmd_version :: "string \<Rightarrow> 's session handler" where
  "cmd_version version c se = (Inr (sr_success ''version'' (PStr version)), se)"

definition cmd_echo :: "'s session handler" where
  "cmd_echo c se = (Inr (sr_success ''echo'' (PStr (join_str '' '' (cmd_args c)))), se)"

definition cmd_exit :: "'s session handler" where
  "cmd_exit c se = (Inr (sr_success ''exit'' (PStr ''bye.'')), se\<lparr>se_running := False\<rparr>)"

definition cmd_caps :: "'s session handler" where
  "cmd_caps c = with_kernel ''caps'' (\<lambda>k.
     (Inr (sr_success ''caps'' (lines_of ([''Capabilities:''] @ map (\<lambda>n. ''  '' @ n) (list_capabilities (ks_registry k))
        @ [''Actions:''] @ map (\<lambda>a. ''  '' @ a) (list_actions (ks_registry k))))), k))"

definition parse_scalar :: "string \<Rightarrow> pyval" where
  "parse_scalar v =
     (let l = str_lower v in
      if l = ''true'' \<or> l = ''false'' then PBool (l = ''true'')
      else (case py_int_of v of
              Some i \<Rightarrow> PInt i
            | None \<Rightarrow> (case py_float_of v of Some x \<Rightarrow> x | None \<Rightarrow> PStr v)))"

definition run_params :: "string list \<Rightarrow> pyval sdict" where
  "run_params args = foldl (\<lambda>d arg. if CHR ''='' \<in> set arg then
       (let (key, _, v) = partition_char (CHR ''='') arg in dput key (parse_scalar v) d) else d) [] args"

text \<open>\<open>json.dumps(value, default=str)\<close> is \<open>json_dumps\<close>.\<close>

definition fast_stringify :: "(pyfloat \<Rightarrow> string) \<Rightarrow> pyval \<Rightarrow> string" where
  "fast_stringify sf v =
     (case v of
        PDict d \<Rightarrow>
          (case dget d ''stdout'' of
             Some (PStr s) \<Rightarrow> rstrip_chars (\<lambda>c. c = CHR 0x0A) s
           | _ \<Rightarrow> join_str [CHR 0x0A] (map (\<lambda>(k, x). k @ ''='' @
               (case x of PDict _ \<Rightarrow> json_dumps sf x | PList _ \<Rightarrow> json_dumps sf x | _ \<Rightarrow> py_str sf x)) d))
      | PList xs \<Rightarrow> join_str [CHR 0x0A] (map (py_str sf) xs)
      | _ \<Rightarrow> py_str sf v)"

definition shell_context :: py_context where
  "shell_context = [(''actor'', PStr ''shell''), (''source'', PStr ''shell'')]"

definition cmd_run :: "shell_env \<Rightarrow> 's session handler" where
  "cmd_run sv c = with_kernel ''run'' (\<lambda>k.
     (case cmd_args c of
        [] \<Rightarrow> (Inr (sr_failure ''run'' ''usage: run <action> [k=v ...]''), k)
      | action # rest \<Rightarrow>
          (let params = run_params rest in
           if truthy (cmd_option c ''async'' PNone) then
             (case run_async (sv_now sv) (sv_uid sv) action None params shell_context
                     (ks_registry k) (ks_scheduler k) of
                Inl e \<Rightarrow> (Inl e, k)
              | Inr sch \<Rightarrow> (Inr (sr_success ''run'' (PStr (''scheduled job '' @ take 8 (sv_uid sv) @
                  '' ('' @ ''cap.'' @ action @ '')''))), k\<lparr>ks_scheduler := sch\<rparr>))
           else
             (let (res, r, w) = cap_call action None params shell_context (ks_registry k) (ks_world k);
                  k' = k\<lparr>ks_registry := r, ks_world := w\<rparr>
              in if \<not> cr_success res then
                   (Inr (sr_failure action (case cr_error res of Some e \<Rightarrow> if e = [] then ''capability failed'' else e
                      | None \<Rightarrow> ''capability failed'')), k')
                 else if rest = [] then (Inr (sr_success action (PStr (fast_stringify (sv_float sv) (cr_data res)))), k')
                 else (Inr (sr_success action (PStr (if cr_data res \<noteq> PNone
                      then json_indent (sv_float sv) 0 (cr_data res) else ''OK''))), k')))))"

definition update_perms :: "(permissions \<Rightarrow> permissions) \<Rightarrow> 's kernel_state \<Rightarrow> 's kernel_state" where
  "update_perms f k = k\<lparr>ks_registry := (ks_registry k)\<lparr>rg_kernel :=
     map_option (\<lambda>v. v\<lparr>kv_perms := f (kv_perms v)\<rparr>) (rg_kernel (ks_registry k))\<rparr>\<rparr>"

definition cmd_grant :: "'s session handler" where
  "cmd_grant c = with_kernel ''grant'' (\<lambda>k.
     (case cmd_args c of
        [] \<Rightarrow> (Inr (sr_failure ''grant'' ''usage: grant <action>''), k)
      | action # _ \<Rightarrow> (Inr (sr_success ''grant'' (PStr (''granted: '' @ action))),
          update_perms (grant action None ''granted via shell'') k)))"

definition cmd_deny :: "'s session handler" where
  "cmd_deny c = with_kernel ''deny'' (\<lambda>k.
     (case cmd_args c of
        [] \<Rightarrow> (Inr (sr_failure ''deny'' ''usage: deny <action>''), k)
      | action # _ \<Rightarrow> (Inr (sr_success ''deny'' (PStr (''denied: '' @ action))),
          update_perms (deny action None ''denied via shell'') k)))"

definition cmd_eval :: "shell_env \<Rightarrow> 's session handler" where
  "cmd_eval sv c = with_kernel ''eval'' (\<lambda>k.
     (let (res, r, w) = cap_call ''python.eval'' None [(''code'', PStr (join_str '' '' (cmd_args c)))]
            [(''actor'', PStr ''shell'')] (ks_registry k) (ks_world k);
          k' = k\<lparr>ks_registry := r, ks_world := w\<rparr>
      in if \<not> cr_success res then
           (Inr (sr_failure ''eval'' (case cr_error res of Some e \<Rightarrow> if e = [] then ''eval failed'' else e
              | None \<Rightarrow> ''eval failed'')), k')
         else (Inr (sr_success ''eval'' (PStr (json_dumps (sv_float sv) (cr_data res)))), k')))"

definition job_line :: "'f job \<Rightarrow> string" where
  "job_line j = ljust 10 (take 8 (job_id j)) @ '' '' @ ljust 10 (job_status_text (job_status j)) @ '' '' @
     ljust 28 (job_name j) @ '' '' @ (if job_periodic j then ''periodic'' else ''one-shot'')"

definition list_jobs_result :: "'s kernel_state \<Rightarrow> sresult" where
  "list_jobs_result k =
     (let jobs = sch_list_jobs None (ks_scheduler k) in
      if jobs = [] then sr_success ''jobs'' (PStr ''no jobs'')
      else (sr_success ''jobs'' (lines_of (map job_line jobs)))\<lparr>sr_title := Some ''Scheduler jobs:''\<rparr>)"

definition cmd_jobs :: "'s session handler" where
  "cmd_jobs c = with_kernel ''jobs'' (\<lambda>k.
     (case cmd_args c of
        sub # rest \<Rightarrow>
          if sub = ''cancel'' then
            (case rest of
               [] \<Rightarrow> (Inr (sr_failure ''jobs'' ''usage: jobs cancel <id>''), k)
             | jid # _ \<Rightarrow>
                 (let (ok, sch) = sch_cancel jid (ks_scheduler k)
                  in (Inr (if ok then sr_success ''jobs'' (PStr (''cancelled '' @ jid))
                           else sr_failure ''jobs'' (''no pending job '' @ jid)), k\<lparr>ks_scheduler := sch\<rparr>)))
          else (Inr (list_jobs_result k), k)
      | [] \<Rightarrow> (Inr (list_jobs_result k), k)))"

definition key_list :: "string list \<Rightarrow> pyval" where
  "key_list ks = (let t = join_str [CHR 0x0A] ks in PStr (if t = [] then ''(empty)'' else t))"

definition cmd_mem :: "shell_env \<Rightarrow> 's session handler" where
  "cmd_mem sv c = with_kernel ''mem'' (\<lambda>k.
     (case cmd_args c of
        [] \<Rightarrow> (Inr (sr_success ''mem'' (key_list (mem_keys (sv_now sv) (ks_memory k)))), k)
      | sub # rest \<Rightarrow>
          if sub = ''put'' then
            (case rest of
               [] \<Rightarrow> (Inl (Exc ''IndexError'' ''list index out of range''), k)
             | key # vs \<Rightarrow>
                 (case mem_put (sv_write_ok sv) (sv_now sv) key (PStr (join_str '' '' vs)) None (ks_memory k) of
                    (Inl e, m) \<Rightarrow> (Inl e, k\<lparr>ks_memory := m\<rparr>)
                  | (Inr _, m) \<Rightarrow> (Inr (sr_success ''mem'' (PStr (''saved: '' @ key))), k\<lparr>ks_memory := m\<rparr>)))
          else
            (case mem_get (sv_write_ok sv) (sv_now sv) sub PNone (ks_memory k) of
               (Inl e, m) \<Rightarrow> (Inl e, k\<lparr>ks_memory := m\<rparr>)
             | (Inr v, m) \<Rightarrow> (Inr (sr_success ''mem'' (PStr (py_str (sv_float sv) v))), k\<lparr>ks_memory := m\<rparr>))))"

text \<open>A slice bound given as an option: a bool counts as 0 or 1, text and floats raise.\<close>

definition slice_bound :: "pyval \<Rightarrow> int result" where
  "slice_bound v =
     (case v of
        PInt i \<Rightarrow> Inr i
      | PBool b \<Rightarrow> Inr (if b then 1 else 0)
      | _ \<Rightarrow> Inl (Exc ''TypeError'' ''slice indices must be integers or None or have an __index__ method''))"

text \<open>The same under a unary minus, which text does not have.\<close>

definition negated_bound :: "pyval \<Rightarrow> int result" where
  "negated_bound v =
     (case v of
        PStr s \<Rightarrow> Inl (Exc ''TypeError'' (''bad operand type for unary -: '' @ [squote] @ ''str'' @ [squote]))
      | _ \<Rightarrow> slice_bound v)"

definition audit_line :: "shell_env \<Rightarrow> audit_entry \<Rightarrow> string" where
  "audit_line sv e = sv_time sv (ae_ts e) @ '' '' @ ljust 28 (ae_action e) @ '' actor='' @ py_str (sv_float sv) (ae_actor e)"

definition cmd_audit :: "shell_env \<Rightarrow> 's session handler" where
  "cmd_audit sv c = with_kernel ''audit'' (\<lambda>k.
     (case negated_bound (cmd_option c ''limit'' (PInt 10)) of
        Inl e \<Rightarrow> (if au_file (ks_audit k) = None then
             (Inr ((sr_success ''audit'' (PStr ''(empty)''))\<lparr>sr_title := Some ''Audit tail:''\<rparr>), k) else (Inl e, k))
      | Inr n \<Rightarrow>
          (let ls = map (audit_line sv) (au_tail n (ks_audit k))
           in (Inr ((sr_success ''audit'' (key_list ls))\<lparr>sr_title := Some ''Audit tail:''\<rparr>), k))))"

definition cmd_learn :: "shell_env \<Rightarrow> 's session handler" where
  "cmd_learn sv c se =
     (case se_kernel se of
        None \<Rightarrow> (Inr (sr_failure ''learn'' ''no memory subsystem bound''), se)
      | Some k \<Rightarrow>
          (case slice_bound (cmd_option c ''limit'' (PInt 20)) of
             Inl e \<Rightarrow> (Inl e, se)
           | Inr n \<Rightarrow>
               (let es = kn_search (case cmd_args c of [] \<Rightarrow> [] | p # _ \<Rightarrow> p) (Some n) (ks_knowledge k)
                in if es = [] then (Inr (sr_success ''learn'' (PStr ''(no knowledge)'')), se)
                   else (Inr (sr_success ''learn'' (lines_of (map (\<lambda>e. kn_key e @ '': '' @
                       py_str (sv_float sv) (kn_value e)) es))), se))))"

definition stats_lines :: "shell_env \<Rightarrow> exp_stats \<Rightarrow> string list" where
  "stats_lines sv s =
     [''total='' @ str_of_nat (st_total s) @ '' done='' @ str_of_nat (st_done s) @ '' failed='' @ str_of_nat (st_failed s) @
      '' success_rate='' @ (case st_success_rate s of None \<Rightarrow> ''None'' | Some x \<Rightarrow> sv_float sv x)] @
     (if st_top_goals s = [] then []
      else ''top goals:'' # map (\<lambda>(g, n). ''  '' @ take 50 g @ '': '' @ str_of_nat n) (st_top_goals s))"

definition cmd_exp :: "shell_env \<Rightarrow> 's session handler" where
  "cmd_exp sv c se =
     (case se_kernel se of
        None \<Rightarrow> (Inr (sr_failure ''exp'' ''no memory subsystem bound''), se)
      | Some k \<Rightarrow>
          (case ex_stats (sv_float sv) (ks_experience k) of
             Inl e \<Rightarrow> (Inl e, se)
           | Inr s \<Rightarrow> (Inr (sr_success ''exp'' (lines_of (stats_lines sv s))), se)))"

definition help_lines :: "'k commands \<Rightarrow> string list" where
  "help_lines m = map (\<lambda>n. ljust 10 n @ '' '' @ (case cm_resolve n m of None \<Rightarrow> [] | Some s \<Rightarrow> cs_help s)) (cm_names m)"

text \<open>The command table; \<open>help\<close> renders the table it is in.\<close>

definition base_commands :: "shell_env \<Rightarrow> string \<Rightarrow> 's session commands" where
  "base_commands sv version =
     cm_register ''exp'' (cmd_exp sv) ''show experience statistics''
     (cm_register ''learn'' (cmd_learn sv) ''show learned knowledge: learn [prefix]''
     (cm_register ''audit'' (cmd_audit sv) ''show recent audit tail''
     (cm_register ''mem'' (cmd_mem sv) (''show persistent memory; '' @ [squote] @ ''mem put <k> <v>'' @ [squote])
     (cm_register ''jobs'' cmd_jobs (''list scheduler jobs; '' @ [squote] @ ''jobs cancel <id>'' @ [squote])
     (cm_register ''eval'' (cmd_eval sv) ''evaluate python through the python capability''
     (cm_register ''deny'' cmd_deny ''deny permission: deny <action>''
     (cm_register ''grant'' cmd_grant ''grant permission: grant <action>''
     (cm_register ''caps'' cmd_caps ''list registered capabilities/actions''
     (cm_register ''run'' (cmd_run sv) ''invoke a capability action: run <action> [k=v ...]''
     (cm_register ''quit'' cmd_exit ''leave the shell''
     (cm_register ''exit'' cmd_exit ''leave the shell''
     (cm_register ''echo'' cmd_echo ''echo arguments back''
     (cm_register ''status'' (cmd_status sv) ''kernel/runtime status''
     (cm_register ''version'' (cmd_version version) ''print Buster version''
       \<lparr>cm_specs = [], cm_aliases = [(''?'', ''help'')]\<rparr>))))))))))))))"

definition cmd_help :: "'s session commands \<Rightarrow> 's session handler" where
  "cmd_help m c se = (Inr ((sr_success ''help'' (lines_of (help_lines m)))\<lparr>sr_title := Some ''Commands:''\<rparr>), se)"

definition shell_commands :: "shell_env \<Rightarrow> string \<Rightarrow> 's session commands" where
  "shell_commands sv version =
     (let m = base_commands sv version; names = cm_register ''help'' (cmd_help m) ''show this help'' m
      in cm_register ''help'' (cmd_help names) ''show this help'' m)"

definition run_one :: "'s session commands \<Rightarrow> string \<Rightarrow> 's session \<Rightarrow> sresult \<times> 's session" where
  "run_one m line se =
     (case parse line of
        None \<Rightarrow> (sr_success [] (PStr []), se)
      | Some c \<Rightarrow>
          if cmd_name c = ''exit'' \<or> cmd_name c = ''quit''
          then (sr_success ''exit'' (PStr ''bye.''), se\<lparr>se_running := False\<rparr>)
          else cm_dispatch m c se)"

text \<open>The loop over the given input lines; the outputs are collected.\<close>

fun repl_loop :: "(pyfloat \<Rightarrow> string) \<Rightarrow> 's session commands \<Rightarrow> string list \<Rightarrow> 's session \<Rightarrow>
    string list \<times> 's session" where
  "repl_loop sf m [] se = ([], se)"
| "repl_loop sf m (line # ls) se =
     (if \<not> se_running se then ([], se)
      else if str_strip line = [] then repl_loop sf m ls se
      else (let (r, se') = run_one m (str_strip line) se;
                out = (if sr_render sf r = [] then [] else [sr_render sf r])
            in if sr_command r = ''exit'' \<and> sr_ok r then (out, se')
               else (let (outs, se'') = repl_loop sf m ls se' in (out @ outs, se''))))"

definition repl :: "(pyfloat \<Rightarrow> string) \<Rightarrow> string \<Rightarrow> 's session commands \<Rightarrow> string list \<Rightarrow> 's session \<Rightarrow>
    nat \<times> string list \<times> 's session" where
  "repl sf version m ls se =
     (let (outs, se') = repl_loop sf m ls (se\<lparr>se_running := True\<rparr>)
      in (0, (''Buster OS '' @ version @ '' - type '' @ [squote] @ ''help'' @ [squote] @ '' for commands.'') # outs,
          se'\<lparr>se_running := False\<rparr>))"

subsection \<open>What a session guarantees\<close>

lemma shell_lookup:
  "cm_resolve ''run'' (shell_commands sv version) = Some \<lparr>cs_cmd = ''run'', cs_handler = cmd_run sv,
     cs_help = ''invoke a capability action: run <action> [k=v ...]''\<rparr>"
  "cm_resolve ''deny'' (shell_commands sv version) = Some \<lparr>cs_cmd = ''deny'', cs_handler = cmd_deny,
     cs_help = ''deny permission: deny <action>''\<rparr>"
  by (simp_all add: shell_commands_def base_commands_def cm_register_def cm_resolve_def dgetd_def Let_def)

definition bound_perms :: "'s kernel_state \<Rightarrow> permissions option" where
  "bound_perms k = map_option kv_perms (rg_kernel (ks_registry k))"

lemma refused_when_denied:
  "rg_kernel r = Some v \<Longrightarrow> policy_denies (kv_perms v) a sc \<Longrightarrow> \<not> requires_elevation (kv_elev v) a \<Longrightarrow>
   refused r a sc x ctx"
  by (simp add: refused_def check_denied Let_def)

lemma cmd_run_denied:
  assumes "se_kernel se = Some k" and "rg_kernel (ks_registry k) = Some v"
    and "policy_denies (kv_perms v) a None" and "\<not> requires_elevation (kv_elev v) a"
    and "cmd_args c = a # rest"
  shows "\<exists>k'. se_kernel (snd (cmd_run sv c se)) = Some k' \<and> ks_world k' = ks_world k"
proof -
  obtain res r w where call: "cap_call a None (run_params rest) shell_context (ks_registry k) (ks_world k) = (res, r, w)"
    by (metis surj_pair)
  have "w = ks_world k" "\<not> cr_success res"
    using call_refused [OF refused_when_denied [OF assms(2-4)], of "run_params rest" shell_context "ks_world k"] call
    by simp_all
  then show ?thesis
    using assms(1,5) call by (auto simp: cmd_run_def with_kernel_def Let_def split: sum.splits)
qed

lemma run_line:
  "parse l = Some \<lparr>cmd_name = ''run'', cmd_args = as, cmd_options = opts\<rparr> \<Longrightarrow>
   snd (run_one (shell_commands sv ver) l se) =
     snd (cmd_run sv \<lparr>cmd_name = ''run'', cmd_args = as, cmd_options = opts\<rparr> se)"
  by (simp add: run_one_def cm_dispatch_def shell_lookup split: prod.splits sum.splits)

lemma update_perms_denies:
  "rg_kernel (ks_registry k) = Some v \<Longrightarrow>
   rg_kernel (ks_registry (update_perms f k)) = Some (v\<lparr>kv_perms := f (kv_perms v)\<rparr>)"
  by (simp add: update_perms_def)

text \<open>
  A denial typed at the shell takes effect at once and covers every later \<open>run\<close> of that action: after
  the line \<open>deny a\<close>, a line that parses as \<open>run a ...\<close>, whatever its arguments and options, leaves the
  world that the capabilities act on unchanged (for an action that is not subject to elevation).
\<close>

lemma denied_at_shell_never_runs:
  assumes "se_kernel se = Some k" and "rg_kernel (ks_registry k) = Some v"
    and "\<not> requires_elevation (kv_elev v) a"
    and "parse l = Some \<lparr>cmd_name = ''deny'', cmd_args = a # ys, cmd_options = o1\<rparr>"
    and "parse l' = Some \<lparr>cmd_name = ''run'', cmd_args = a # rest, cmd_options = o2\<rparr>"
  shows "map_option ks_world (se_kernel (snd (run_one (shell_commands sv ver) l'
      (snd (run_one (shell_commands sv ver) l se))))) = Some (ks_world k)"
proof -
  let ?k = "update_perms (deny a None ''denied via shell'') k"
  let ?v = "v\<lparr>kv_perms := deny a None ''denied via shell'' (kv_perms v)\<rparr>"
  have one: "snd (run_one (shell_commands sv ver) l se) = se\<lparr>se_kernel := Some ?k\<rparr>"
    using assms(1,4) by (simp add: run_one_def cm_dispatch_def shell_lookup cmd_deny_def with_kernel_def)
  have kv: "rg_kernel (ks_registry ?k) = Some ?v" using assms(2) by (rule update_perms_denies)
  have den: "policy_denies (kv_perms ?v) a None" by (simp add: policy_denies_def rule_applies_def)
  have w: "ks_world ?k = ks_world k" by (simp add: update_perms_def)
  have "\<exists>k'. se_kernel (snd (cmd_run sv \<lparr>cmd_name = ''run'', cmd_args = a # rest, cmd_options = o2\<rparr>
      (se\<lparr>se_kernel := Some ?k\<rparr>))) = Some k' \<and> ks_world k' = ks_world ?k"
    using assms(3) by (intro cmd_run_denied [OF _ kv den]) simp_all
  then show ?thesis
    using w by (auto simp: one run_line [OF assms(5)])
qed

definition demo_kernel :: "nat kernel_state" where
  "demo_kernel = \<lparr>ks_state = ''running'', ks_version = ''1'', ks_registry = serving_registry, ks_world = 5,
     ks_scheduler = new_scheduler, ks_agents = new_agents, ks_providers = [],
     ks_memory = \<lparr>mem_data = [], mem_disk = Absent\<rparr>, ks_experience = new_experience 2000,
     ks_knowledge = \<lparr>kn_entries = [], kn_disk = Absent\<rparr>, ks_audit = new_audit\<rparr>"

lemma plain_literals:
  "plain_word ''deny''" "plain_word ''run''" "plain_arg ''fs.read''" "plain_arg ''path=x''"
  by (simp_all add: plain_arg_def plain_word_def is_quote_def dquote_def squote_def is_space_def code_def)

lemma parse_words:
  assumes "list_all plain_word ws" and "ws = name # args" and "list_all plain_arg args"
    and "\<not> is_space (hd (join_str '' '' ws))" and "\<not> is_space (last (join_str '' '' ws))"
    and "join_str '' '' ws \<noteq> []"
  shows "parse (join_str '' '' ws) = Some \<lparr>cmd_name = name, cmd_args = args, cmd_options = []\<rparr>"
proof -
  have "map strip_outer_quotes ws = ws"
    using assms(1) by (intro map_idI) (auto simp: strip_plain list_all_iff)
  then show ?thesis
    using assms tokenize_join [OF assms(1)] parse_plain_args [OF assms(3), of "[]" "[]"]
    by (simp add: parse_def strip_line)
qed

definition demo_shell_env :: shell_env where
  "demo_shell_env = \<lparr>sv_now = 0, sv_uid = ''0123456789'', sv_float = (\<lambda>x. ''0.0''), sv_time = (\<lambda>x. ''now''),
     sv_write_ok = True\<rparr>"

theorem denied_at_shell_never_runs_witness:
  "map_option ks_world (se_kernel (snd (run_one (shell_commands demo_shell_env ''1'') ''run fs.read path=x''
      (snd (run_one (shell_commands demo_shell_env ''1'') ''deny fs.read'' \<lparr>se_kernel = Some demo_kernel, se_running = True\<rparr>))))) = Some 5"
proof -
  have a: "parse ''deny fs.read'' = Some \<lparr>cmd_name = ''deny'', cmd_args = [''fs.read''], cmd_options = []\<rparr>"
    using parse_words [of "[''deny'', ''fs.read'']" "''deny''" "[''fs.read'']"] plain_literals
    by (simp add: plain_arg_def is_space_def code_def)
  have b: "parse ''run fs.read path=x'' = Some \<lparr>cmd_name = ''run'', cmd_args = [''fs.read'', ''path=x''], cmd_options = []\<rparr>"
    using parse_words [of "[''run'', ''fs.read'', ''path=x'']" "''run''" "[''fs.read'', ''path=x'']"] plain_literals
    by (simp add: plain_arg_def is_space_def code_def)
  have k: "rg_kernel (ks_registry demo_kernel) = Some \<lparr>kv_perms = new_permissions False,
      kv_elev = new_elevation None None, kv_router_running = True\<rparr>"
    by (simp add: demo_kernel_def serving_registry_def guarded_view)
  show ?thesis
    using denied_at_shell_never_runs [OF _ k _ a b, of "\<lparr>se_kernel = Some demo_kernel, se_running = True\<rparr>" demo_shell_env "''1''"]
    by (simp add: demo_kernel_def requires_elevation_def new_elevation_def sensitive_default_def)
qed

end
