(* ===== verification/Runtime_Lock.thy ===== *)
theory Runtime_Lock
  imports Prelude
begin

text \<open>
  The runtime lock of \<open>buster/runtime.py\<close>: \<open>RuntimeLock.acquire\<close>, \<open>release\<close> and \<open>is_online\<close>, and the
  way \<open>RuntimeServer.close\<close> releases. The lock is a file; a process that opened it keeps writing to
  its inode even after the path is removed, so paths and inodes are apart. Every system call is one
  step; any number of processes interleave, and any of them may die between two steps. \<open>acquire_run\<close>
  is the same code undisturbed.
\<close>

section \<open>File, processes, steps\<close>

type_synonym pid = nat
type_synonym inode = nat

datatype content = Blank | Payload pid

text \<open>
  Where a process is: \<open>LTry n\<close> is about to create the file with \<open>n\<close> attempts left, \<open>LLook\<close> reads it after
  FileExistsError, \<open>LSweep\<close> removes a stale one, \<open>LFill\<close> writes its payload to the inode it created;
  \<open>LClosing\<close> stands between the two releases of \<open>close\<close>.
\<close>

datatype lock_pc = LIdle | LTry nat | LLook nat | LSweep nat | LFill inode | LHeld | LClosing | LRefused

record lock_sys =
  lk_path :: "inode option"
  lk_content :: "inode \<Rightarrow> content"
  lk_next :: inode
  lk_pc :: "pid \<Rightarrow> lock_pc"
  lk_alive :: "pid \<Rightarrow> bool"

definition init_lock :: lock_sys where
  "init_lock = \<lparr>lk_path = None, lk_content = (\<lambda>_. Blank), lk_next = 0, lk_pc = (\<lambda>_. LIdle),
     lk_alive = (\<lambda>_. True)\<rparr>"

text \<open>\<open>_read_json(path)\<close>: the pid in the file, None when it is absent or not yet written.\<close>

definition lock_read :: "lock_sys \<Rightarrow> pid option" where
  "lock_read s = (case lk_path s of None \<Rightarrow> None
     | Some i \<Rightarrow> (case lk_content s i of Blank \<Rightarrow> None | Payload q \<Rightarrow> Some q))"

definition is_online :: "lock_sys \<Rightarrow> bool" where
  "is_online s = (case lock_read s of None \<Rightarrow> False | Some q \<Rightarrow> lk_alive s q)"

definition goto :: "pid \<Rightarrow> lock_pc \<Rightarrow> lock_sys \<Rightarrow> lock_sys" where
  "goto p pc s = s\<lparr>lk_pc := (lk_pc s)(p := pc)\<rparr>"

definition after_failed_try :: "nat \<Rightarrow> lock_pc" where
  "after_failed_try n = (if n \<le> 1 then LRefused else LTry (n - 1))"

text \<open>One system call of the process \<open>p\<close>.\<close>

definition acquire_step :: "pid \<Rightarrow> lock_sys \<Rightarrow> lock_sys" where
  "acquire_step p s =
     (case lk_pc s p of
        LTry n \<Rightarrow>
          (case lk_path s of
             None \<Rightarrow> goto p (LFill (lk_next s)) (s\<lparr>lk_path := Some (lk_next s),
               lk_content := (lk_content s)(lk_next s := Blank), lk_next := Suc (lk_next s)\<rparr>)
           | Some _ \<Rightarrow> goto p (LLook n) s)
      | LLook n \<Rightarrow> if is_online s then goto p LRefused s else goto p (LSweep n) s
      | LSweep n \<Rightarrow> goto p (after_failed_try n) (s\<lparr>lk_path := None\<rparr>)
      | LFill i \<Rightarrow> goto p LHeld (s\<lparr>lk_content := (lk_content s)(i := Payload p)\<rparr>)
      | _ \<Rightarrow> s)"

definition release_path :: "lock_sys \<Rightarrow> lock_sys" where
  "release_path s = s\<lparr>lk_path := None\<rparr>"

inductive lock_step :: "lock_sys \<Rightarrow> lock_sys \<Rightarrow> bool" where
  begin_acquire: "lk_alive s p \<Longrightarrow> lk_pc s p = LIdle \<Longrightarrow> lock_step s (goto p (LTry 2) s)"
| call: "lk_alive s p \<Longrightarrow> lk_pc s p \<in> {LTry n, LLook n, LSweep n, LFill i} \<Longrightarrow> lock_step s (acquire_step p s)"
| stop_kernel: "lk_alive s p \<Longrightarrow> lk_pc s p = LHeld \<Longrightarrow> lock_step s (goto p LClosing (release_path s))"
| close_again: "lk_alive s p \<Longrightarrow> lk_pc s p = LClosing \<Longrightarrow> lock_step s (goto p LIdle (release_path s))"
| die: "lock_step s (s\<lparr>lk_alive := (lk_alive s)(p := False)\<rparr>)"

text \<open>
  Two processes are live holders: their \<open>acquire\<close> returned True and they have not started to close.
\<close>

definition live_holder :: "lock_sys \<Rightarrow> pid \<Rightarrow> bool" where
  "live_holder s p \<longleftrightarrow> lk_alive s p \<and> lk_pc s p = LHeld"

section \<open>One process undisturbed\<close>

fun run_steps :: "nat \<Rightarrow> pid \<Rightarrow> lock_sys \<Rightarrow> lock_sys" where
  "run_steps 0 p s = s"
| "run_steps (Suc k) p s = run_steps k p (acquire_step p s)"

text \<open>\<open>acquire()\<close> from start to return: at most six system calls.\<close>

definition acquire_run :: "pid \<Rightarrow> lock_sys \<Rightarrow> lock_sys" where
  "acquire_run p s = run_steps 6 p (goto p (LTry 2) s)"

lemma goto_simps [simp]:
  "lk_path (goto p pc s) = lk_path s" "lk_content (goto p pc s) = lk_content s"
  "lk_next (goto p pc s) = lk_next s" "lk_alive (goto p pc s) = lk_alive s"
  "lk_pc (goto p pc s) q = (if q = p then pc else lk_pc s q)"
  by (simp_all add: goto_def)

lemma online_goto [simp]: "is_online (goto p pc s) = is_online s" "lock_read (goto p pc s) = lock_read s"
  by (auto simp: is_online_def lock_read_def split: option.splits content.splits)

lemma read_alive [simp]: "lock_read (s\<lparr>lk_alive := f\<rparr>) = lock_read s"
  by (auto simp: lock_read_def split: option.splits)

lemma run_six: "run_steps 6 p s =
    acquire_step p (acquire_step p (acquire_step p (acquire_step p (acquire_step p (acquire_step p s)))))"
  by (simp add: numeral_eq_Suc)

lemma goto_goto [simp]: "goto p a (goto p b s) = goto p a s"
  by (simp add: goto_def)

lemma step_done [simp]: "acquire_step p (goto p LHeld s) = goto p LHeld s"
    "acquire_step p (goto p LRefused s) = goto p LRefused s"
  by (simp_all add: acquire_step_def)

text \<open>The three outcomes of an undisturbed acquire: refused, fresh file, stale file replaced.\<close>

lemma acquire_try_taken: "lk_path s = Some i \<Longrightarrow> acquire_step p (goto p (LTry n) s) = goto p (LLook n) s"
  by (simp add: acquire_step_def)

lemma acquire_online:
  assumes "is_online s"
  shows "acquire_run p s = goto p LRefused s"
proof -
  obtain i where i: "lk_path s = Some i"
    using assms by (auto simp: is_online_def lock_read_def split: option.splits)
  have "acquire_step p (goto p (LLook 2) s) = goto p LRefused s"
    using assms by (simp add: acquire_step_def)
  then show ?thesis by (simp add: acquire_run_def run_six acquire_try_taken [OF i])
qed

definition take_fresh :: "pid \<Rightarrow> lock_sys \<Rightarrow> lock_sys" where
  "take_fresh p s = goto p LHeld (s\<lparr>lk_path := Some (lk_next s),
     lk_next := Suc (lk_next s), lk_content := (lk_content s)(lk_next s := Payload p)\<rparr>)"

lemma acquire_fill: "acquire_step p (goto p (LFill i) s) = goto p LHeld (s\<lparr>lk_content := (lk_content s)(i := Payload p)\<rparr>)"
  by (simp add: acquire_step_def goto_def)

lemma acquire_try_free: "lk_path s = None \<Longrightarrow> acquire_step p (goto p (LTry n) s) =
    goto p (LFill (lk_next s)) (s\<lparr>lk_path := Some (lk_next s),
      lk_content := (lk_content s)(lk_next s := Blank), lk_next := Suc (lk_next s)\<rparr>)"
  by (simp add: acquire_step_def goto_def)

lemma acquire_free: "lk_path s = None \<Longrightarrow> acquire_run p s = take_fresh p s"
  by (simp add: acquire_run_def run_six acquire_try_free acquire_fill take_fresh_def)

lemma acquire_stale:
  assumes "lk_path s = Some i" and "\<not> is_online s"
  shows "acquire_run p s = take_fresh p (s\<lparr>lk_path := None\<rparr>)"
proof -
  have a: "acquire_step p (goto p (LTry 2) s) = goto p (LLook 2) s"
    by (rule acquire_try_taken [OF assms(1)])
  have b: "acquire_step p (goto p (LLook 2) s) = goto p (LSweep 2) s"
    using assms(2) by (simp add: acquire_step_def)
  have c: "acquire_step p (goto p (LSweep 2) s) = goto p (LTry 1) (s\<lparr>lk_path := None\<rparr>)"
    by (simp add: acquire_step_def after_failed_try_def goto_def)
  show ?thesis
    by (simp add: acquire_run_def run_six a b c acquire_try_free acquire_fill take_fresh_def)
qed

lemma acquire_offline: "\<not> is_online s \<Longrightarrow> acquire_run p s = take_fresh p s"
  by (cases "lk_path s") (auto simp: acquire_free acquire_stale take_fresh_def goto_def)

lemma take_fresh_simps [simp]:
  "lk_pc (take_fresh p s) q = (if q = p then LHeld else lk_pc s q)"
  "lk_alive (take_fresh p s) = lk_alive s" "lock_read (take_fresh p s) = Some p"
  by (simp_all add: take_fresh_def lock_read_def goto_def)

text \<open>
  Undisturbed, \<open>acquire\<close> returns within six system calls, and returns True exactly when no live
  process is named in the lock file; it then is the process named there, whatever stale or
  half-written file it found, and otherwise it leaves the file alone.
\<close>

lemma acquire_decides:
  "lk_pc (acquire_run p s) p = (if is_online s then LRefused else LHeld) \<and>
   lock_read (acquire_run p s) = (if is_online s then lock_read s else Some p)"
  by (cases "is_online s") (simp_all add: acquire_online acquire_offline)

section \<open>Exclusion without interleaving\<close>

text \<open>
  The runs in which every \<open>acquire\<close> and every \<open>close\<close> completes before another process moves; crashes
  may come at any time between them.
\<close>

inductive calm_step :: "lock_sys \<Rightarrow> lock_sys \<Rightarrow> bool" where
  calm_acquire: "lk_alive s p \<Longrightarrow> lk_pc s p = LIdle \<Longrightarrow> calm_step s (acquire_run p s)"
| calm_close: "lk_alive s p \<Longrightarrow> lk_pc s p = LHeld \<Longrightarrow> calm_step s (goto p LIdle (release_path s))"
| calm_retry: "lk_pc s p = LRefused \<Longrightarrow> calm_step s (goto p LIdle s)"
| calm_die: "calm_step s (s\<lparr>lk_alive := (lk_alive s)(p := False)\<rparr>)"

definition calm_inv :: "lock_sys \<Rightarrow> bool" where
  "calm_inv s \<longleftrightarrow> (\<forall>p. live_holder s p \<longrightarrow> lock_read s = Some p)"

lemma calm_inv_step: "calm_step s t \<Longrightarrow> calm_inv s \<Longrightarrow> calm_inv t"
proof (induction rule: calm_step.induct)
  case (calm_acquire s p)
  show ?case
  proof (cases "is_online s")
    case True
    with calm_acquire show ?thesis by (simp add: acquire_online calm_inv_def live_holder_def)
  next
    case False
    then have "\<not> live_holder s q" for q
      using calm_acquire.prems by (auto simp: calm_inv_def is_online_def live_holder_def)
    with False calm_acquire show ?thesis
      by (auto simp: acquire_offline calm_inv_def live_holder_def)
  qed
next
  case (calm_close s p)
  then have "q = p" if "live_holder s q" for q
    using that unfolding calm_inv_def live_holder_def by (metis option.inject)
  then show ?case by (auto simp: calm_inv_def live_holder_def release_path_def)
next
  case (calm_retry s p)
  then show ?case by (auto simp: calm_inv_def live_holder_def)
next
  case (calm_die s p)
  then show ?case by (auto simp: calm_inv_def live_holder_def)
qed


lemma init_offline [simp]: "\<not> is_online init_lock"
  by (simp add: is_online_def lock_read_def init_lock_def)


section \<open>Races\<close>

definition lock_reach :: "lock_sys \<Rightarrow> bool" where
  "lock_reach s = lock_step\<^sup>*\<^sup>* init_lock s"

fun lock_move :: "lock_sys \<Rightarrow> pid \<Rightarrow> lock_sys option" where
  "lock_move s p =
     (if \<not> lk_alive s p then None
      else (case lk_pc s p of
              LIdle \<Rightarrow> Some (goto p (LTry 2) s)
            | LHeld \<Rightarrow> Some (goto p LClosing (release_path s))
            | LClosing \<Rightarrow> Some (goto p LIdle (release_path s))
            | LRefused \<Rightarrow> None
            | _ \<Rightarrow> Some (acquire_step p s)))"

fun lock_moves :: "pid list \<Rightarrow> lock_sys \<Rightarrow> lock_sys option" where
  "lock_moves [] s = Some s"
| "lock_moves (p # ps) s = (case lock_move s p of None \<Rightarrow> None | Some t \<Rightarrow> lock_moves ps t)"

lemma lock_move_step: "lock_move s p = Some t \<Longrightarrow> lock_step s t"
  by (auto split: if_splits lock_pc.splits intro: lock_step.intros)

lemma lock_moves_reach: "lock_moves ps s = Some t \<Longrightarrow> lock_step\<^sup>*\<^sup>* s t"
proof (induction ps arbitrary: s)
  case (Cons p ps)
  then obtain u where u: "lock_move s p = Some u" "lock_moves ps u = Some t"
    by (auto simp del: lock_move.simps split: option.splits)
  then show ?case using lock_move_step [OF u(1)] Cons.IH by (meson converse_rtranclp_into_rtranclp)
qed simp

text \<open>
  The lock is not exclusive under interleaving. A process that reads the file after another one
  created it and before it wrote its payload takes it for stale, removes it and creates its own: both
  \<open>acquire\<close> calls return True and both runtimes live.
\<close>

lemma two_live_runtimes:
  "\<exists>s. lock_reach s \<and> live_holder s 1 \<and> live_holder s 2"
proof -
  let ?run = "[1, 1, 2, 2, 2, 2, 2, 2, 1] :: pid list"
  obtain s where s: "lock_moves ?run init_lock = Some s" "live_holder s 1" "live_holder s 2"
    by (simp add: init_lock_def goto_def acquire_step_def is_online_def lock_read_def
        after_failed_try_def live_holder_def)
  then show ?thesis using lock_moves_reach [of ?run init_lock s] by (auto simp: lock_reach_def)
qed

text \<open>
  Closing removes the lock file twice, whoever owns it: a runtime that starts between the two
  removals loses its lock while it runs, and a third one can start beside it, even when no two
  \<open>acquire\<close> calls overlap.
\<close>

lemma close_removes_successor_lock:
  "\<exists>s t u. lock_reach s \<and> lk_pc s 1 = LClosing \<and> t = acquire_run 2 s \<and> live_holder t 2 \<and>
     lock_step t u \<and> live_holder u 2 \<and> \<not> is_online u \<and>
     live_holder (acquire_run 3 u) 2 \<and> live_holder (acquire_run 3 u) 3"
proof -
  let ?run = "[1, 1, 1, 1] :: pid list"
  obtain s where s: "lock_moves ?run init_lock = Some s" and pc: "lk_pc s 1 = LClosing"
    and path: "lk_path s = None" and alive: "lk_alive s = (\<lambda>_. True)"
    by (simp add: init_lock_def goto_def acquire_step_def release_path_def)
  let ?t = "acquire_run 2 s"
  let ?u = "goto 1 LIdle (release_path ?t)"
  have off: "\<not> is_online s" using path by (simp add: is_online_def lock_read_def)
  have t: "live_holder ?t 2" "lk_pc ?t 1 = LClosing" "lk_alive ?t = (\<lambda>_. True)"
    using off pc alive by (simp_all add: acquire_offline live_holder_def)
  have "lock_step ?t ?u" using t by (intro close_again) simp_all
  moreover have u: "live_holder ?u 2" "\<not> is_online ?u"
    using t by (simp_all add: live_holder_def release_path_def is_online_def lock_read_def)
  moreover have "live_holder (acquire_run 3 ?u) 2 \<and> live_holder (acquire_run 3 ?u) 3"
    using t u by (simp add: acquire_offline live_holder_def release_path_def)
  moreover have "lock_reach s" using lock_moves_reach [OF s] by (simp add: lock_reach_def)
  ultimately show ?thesis using pc t by blast
qed

end
