(* ===== verification/Runtime.thy ===== *)
theory Runtime
  imports Shell
begin

text \<open>
  The RPC side of \<open>buster/runtime.py\<close>: the server's operations on its one kernel, the request and
  response files, the service catalogue, the waiting client and the remote facade. The operations
  that belong to the intelligence, planning and perception layers, and messages whose fields have a
  type the operation does not expect, are left to a parameter \<open>other\<close>. The lock itself is the theory
  \<open>Runtime_Lock\<close>.
\<close>

section \<open>Messages and responses\<close>

type_synonym message = "pyval sdict"

fun rpc_serialize :: "pyval \<Rightarrow> pyval" where
  "rpc_serialize (PDict d) = PDict (map (\<lambda>(k, v). (k, rpc_serialize v)) d)"
| "rpc_serialize (PList xs) = PList (map rpc_serialize xs)"
| "rpc_serialize (PObj s) = PStr s"
| "rpc_serialize v = v"

definition rpc_ok :: "pyval \<Rightarrow> pyval \<Rightarrow> message" where
  "rpc_ok op d = [(''op'', op), (''ok'', PBool True), (''data'', d)]"

definition rpc_error :: "pyval \<Rightarrow> string \<Rightarrow> message" where
  "rpc_error op e = [(''op'', op), (''ok'', PBool False), (''error'', PStr e)]"

definition rpc_raised :: "pyval \<Rightarrow> exc \<Rightarrow> message" where
  "rpc_raised op e = rpc_error op (exc_type e @ '': '' @ exc_msg e)"

definition msg_text :: "message \<Rightarrow> string \<Rightarrow> string option" where
  "msg_text m k = to_ostr (dgetd m k PNone)"

text \<open>\<open>message.get(k) or {}\<close> where that is a dictionary.\<close>

definition msg_dict :: "message \<Rightarrow> string \<Rightarrow> pyval sdict option" where
  "msg_dict m k = (let v = dgetd m k PNone in
     if \<not> truthy v then Some [] else (case v of PDict d \<Rightarrow> Some d | _ \<Rightarrow> None))"

record 's server =
  rs_kernel :: "'s kernel_state"
  rs_install :: string
  rs_running :: bool

type_synonym 's op_handler = "shell_env \<Rightarrow> message \<Rightarrow> 's server \<Rightarrow> message \<times> 's server"

definition on_kernel :: "('s kernel_state \<Rightarrow> 's kernel_state) \<Rightarrow> 's server \<Rightarrow> 's server" where
  "on_kernel f s = s\<lparr>rs_kernel := f (rs_kernel s)\<rparr>"

section \<open>Service catalogue\<close>

datatype 'f service =
    KernelService string string bool
  | AgentService agent_info
  | JobService "'f job"

definition service_name :: "'f service \<Rightarrow> string" where
  "service_name r = (case r of KernelService n _ _ \<Rightarrow> n | AgentService a \<Rightarrow> ag_name a | JobService j \<Rightarrow> job_name j)"

definition job_service_row :: "'f job \<Rightarrow> pyval" where
  "job_service_row j = PDict [(''name'', PStr (job_name j)), (''kind'', PStr ''job''),
     (''state'', PStr (job_status_text (job_status j))), (''periodic'', PBool (job_periodic j)),
     (''id'', PStr (job_id j))]"

definition running_text :: "bool \<Rightarrow> string" where
  "running_text b = (if b then ''running'' else ''stopped'')"

definition service_row :: "'f service \<Rightarrow> pyval" where
  "service_row r = (case r of
     KernelService n d running \<Rightarrow> PDict [(''name'', PStr n), (''kind'', PStr ''kernel''),
       (''description'', PStr d), (''state'', PStr (running_text running))]
   | AgentService a \<Rightarrow> PDict [(''name'', PStr (ag_name a)), (''kind'', PStr ''agent''),
       (''state'', PStr (ag_status a)), (''agent_id'', PStr (ag_id a))]
   | JobService j \<Rightarrow> job_service_row j)"

definition router_running :: "'s kernel_state \<Rightarrow> bool" where
  "router_running k = (case rg_kernel (ks_registry k) of None \<Rightarrow> False | Some v \<Rightarrow> kv_router_running v)"

definition rpc_services :: "'s kernel_state \<Rightarrow> 's call_closure service list" where
  "rpc_services k =
     [KernelService ''event-router'' ''single event bus'' (router_running k),
      KernelService ''scheduler'' ''single job scheduler'' (sch_running (ks_scheduler k))]
     @ map AgentService (list_agents None (ks_agents k))
     @ map JobService (sch_list_jobs None (ks_scheduler k))"

definition rpc_service_control :: "'s op_handler" where
  "rpc_service_control sv m s =
     (let op = dgetd m ''op'' PNone; k = rs_kernel s in
      case msg_text m ''name'' of
        None \<Rightarrow> (rpc_error op (''service '' @ [squote] @ ''name'' @ [squote] @ '' required''), s)
      | Some name \<Rightarrow>
          if name = [] then (rpc_error op (''service '' @ [squote] @ ''name'' @ [squote] @ '' required''), s)
          else
            (case find (\<lambda>r. service_name r = name) (rpc_services k) of
               None \<Rightarrow> (rpc_error op (''unknown service '' @ [squote] @ name @ [squote]), s)
             | Some (KernelService n d running) \<Rightarrow>
                 (rpc_ok op (PDict [(''name'', PStr name), (''kind'', PStr ''kernel''),
                    (''state'', PStr (running_text running)),
                    (''detail'', PStr ''kernel-managed; starts and stops with the runtime''),
                    (''changed'', PBool False), (''was_running'', PBool running)]), s)
             | Some (AgentService a) \<Rightarrow>
                 if ag_status a = ''active'' \<and> op = PStr ''service_start'' then
                   (rpc_ok op (PDict [(''name'', PStr name), (''kind'', PStr ''agent''),
                      (''state'', PStr (ag_status a)), (''changed'', PBool False)]), s)
                 else
                   (case am_activate (ag_id a) (ks_agents k) of
                      Inl e \<Rightarrow> (rpc_raised op e, s)
                    | Inr am \<Rightarrow> (rpc_ok op (PDict [(''name'', PStr name), (''kind'', PStr ''agent''),
                        (''state'', PStr ''active''), (''changed'', PBool True)]),
                        s\<lparr>rs_kernel := k\<lparr>ks_agents := am\<rparr>\<rparr>))
             | Some (JobService j) \<Rightarrow>
                 (case sch_get (job_id j) (ks_scheduler k) of
                    None \<Rightarrow> (rpc_error op (''service '' @ [squote] @ name @ [squote] @ '' vanished''), s)
                  | Some job \<Rightarrow>
                      (case job_interval job of
                         None \<Rightarrow> (rpc_ok op (PDict [(''name'', PStr name), (''kind'', PStr ''job''),
                           (''state'', PStr (job_status_text (job_status job))), (''changed'', PBool False),
                           (''detail'', PStr ''one-shot job; state reported, not restarted'')]), s)
                       | Some d \<Rightarrow>
                           (let (rearm, sch) = sch_schedule (sv_now sv) (sv_uid sv) (job_name job) (job_func job)
                                  0 (Some d) (job_priority job) (ks_scheduler k)
                            in (rpc_ok op (PDict [(''name'', PStr name), (''kind'', PStr ''job''),
                                  (''state'', PStr (job_status_text (job_status rearm))), (''changed'', PBool True),
                                  (''id'', PStr (job_id rearm))]),
                                s\<lparr>rs_kernel := k\<lparr>ks_scheduler := sch\<rparr>\<rparr>))))))"

section \<open>Operations\<close>

definition rpc_call :: "'s op_handler \<Rightarrow> 's op_handler" where
  "rpc_call other sv m s =
     (case (msg_text m ''action'', msg_dict m ''extra'', msg_dict m ''context'') of
        (Some a, Some x, Some ctx) \<Rightarrow>
          (let k = rs_kernel s; (res, r, w) = cap_call a None x ctx (ks_registry k) (ks_world k)
           in (rpc_ok (PStr ''call'') (PDict [(''success'', PBool (cr_success res)),
                 (''data'', rpc_serialize (cr_data res)), (''error'', of_ostr (cr_error res))]),
               s\<lparr>rs_kernel := k\<lparr>ks_registry := r, ks_world := w\<rparr>\<rparr>))
      | _ \<Rightarrow> other sv m s)"

definition rpc_run_async :: "'s op_handler \<Rightarrow> 's op_handler" where
  "rpc_run_async other sv m s =
     (case (msg_text m ''action'', msg_dict m ''extra'', msg_dict m ''context'') of
        (Some a, Some x, Some ctx) \<Rightarrow>
          (let k = rs_kernel s in
           case run_async (sv_now sv) (sv_uid sv) a None x ctx (ks_registry k) (ks_scheduler k) of
             Inl e \<Rightarrow> (rpc_raised (PStr ''run_async'') e, s)
           | Inr sch \<Rightarrow> (rpc_ok (PStr ''run_async'') (PDict [(''id'', PStr (sv_uid sv)),
               (''name'', PStr (''cap.'' @ a))]), s\<lparr>rs_kernel := k\<lparr>ks_scheduler := sch\<rparr>\<rparr>))
      | _ \<Rightarrow> other sv m s)"

definition memory_snapshot :: "shell_env \<Rightarrow> 's kernel_state \<Rightarrow> pyval" where
  "memory_snapshot sv k = PDict [
     (''store_keys'', PList (map PStr (mem_keys (sv_now sv) (ks_memory k)))),
     (''experience_count'', PInt (int (ex_count (ks_experience k)))),
     (''knowledge_keys'', PList (map PStr (kn_keys (ks_knowledge k))))]"

definition rpc_grant :: "'s op_handler \<Rightarrow> 's op_handler" where
  "rpc_grant other sv m s =
     (case msg_text m ''action'' of
        Some a \<Rightarrow> (rpc_ok (PStr ''grant'') (PStr a), on_kernel (update_perms (grant a None ''granted over runtime'')) s)
      | None \<Rightarrow> other sv m s)"

definition rpc_deny :: "'s op_handler \<Rightarrow> 's op_handler" where
  "rpc_deny other sv m s =
     (case msg_text m ''action'' of
        Some a \<Rightarrow> (rpc_ok (PStr ''deny'') (PStr a), on_kernel (update_perms (deny a None ''denied over runtime'')) s)
      | None \<Rightarrow> other sv m s)"

definition job_row :: "'f job \<Rightarrow> pyval" where
  "job_row j = PDict [(''id'', PStr (job_id j)), (''name'', PStr (job_name j)),
     (''status'', PStr (job_status_text (job_status j))), (''periodic'', PBool (job_periodic j))]"

definition rpc_jobs_cancel :: "'s op_handler \<Rightarrow> 's op_handler" where
  "rpc_jobs_cancel other sv m s =
     (case dgetd m ''id'' (PStr []) of
        PStr jid \<Rightarrow>
          (let (ok, sch) = sch_cancel jid (ks_scheduler (rs_kernel s))
           in ([(''op'', PStr ''jobs_cancel''), (''ok'', PBool ok), (''data'', dgetd m ''id'' PNone),
                (''error'', if ok then PNone else PStr ''no pending job'')],
               on_kernel (\<lambda>k. k\<lparr>ks_scheduler := sch\<rparr>) s))
      | _ \<Rightarrow> other sv m s)"

definition rpc_mem_put :: "'s op_handler \<Rightarrow> 's op_handler" where
  "rpc_mem_put other sv m s =
     (case msg_text m ''key'' of
        Some key \<Rightarrow>
          (let (r, mem) = mem_put (sv_write_ok sv) (sv_now sv) key (dgetd m ''value'' PNone) None
                 (ks_memory (rs_kernel s)); s' = on_kernel (\<lambda>k. k\<lparr>ks_memory := mem\<rparr>) s
           in case r of Inl e \<Rightarrow> (rpc_raised (PStr ''mem_put'') e, s')
              | Inr _ \<Rightarrow> (rpc_ok (PStr ''mem_put'') (PStr key), s'))
      | None \<Rightarrow> other sv m s)"

definition rpc_mem_get :: "'s op_handler \<Rightarrow> 's op_handler" where
  "rpc_mem_get other sv m s =
     (case msg_text m ''key'' of
        Some key \<Rightarrow>
          (let (r, mem) = mem_get (sv_write_ok sv) (sv_now sv) key PNone (ks_memory (rs_kernel s));
               s' = on_kernel (\<lambda>k. k\<lparr>ks_memory := mem\<rparr>) s
           in case r of Inl e \<Rightarrow> (rpc_raised (PStr ''mem_get'') e, s')
              | Inr v \<Rightarrow> (rpc_ok (PStr ''mem_get'') v, s'))
      | None \<Rightarrow> other sv m s)"

definition audit_row :: "audit_entry \<Rightarrow> pyval" where
  "audit_row e = PDict [(''ts'', PFloat (ae_ts e)), (''action'', PStr (ae_action e)),
     (''actor'', ae_actor e), (''detail'', PDict (ae_detail e))]"

definition rpc_audit :: "'s op_handler" where
  "rpc_audit sv m s =
     (let op = PStr ''audit'' in
      case negated_bound (dgetd m ''limit'' (PInt 10)) of
        Inl e \<Rightarrow> (if au_file (ks_audit (rs_kernel s)) = None then rpc_ok op (PList []) else rpc_raised op e, s)
      | Inr n \<Rightarrow> (rpc_ok op (rpc_serialize (PList (map audit_row (au_tail n (ks_audit (rs_kernel s)))))), s))"

definition perm_row_value :: "perm_row \<Rightarrow> pyval" where
  "perm_row_value r = PDict [(''action'', of_ostr (row_action r)),
     (''allow'', case row_allow r of None \<Rightarrow> PNone | Some v \<Rightarrow> v),
     (''scope'', of_ostr (row_scope r)), (''note'', of_ostr (row_note r))]"

definition rpc_permissions_list :: "'s op_handler" where
  "rpc_permissions_list sv m s =
     (case rg_kernel (ks_registry (rs_kernel s)) of
        None \<Rightarrow> (rpc_ok (PStr ''permissions_list'') (PDict [(''rules'', PList []), (''elevation_sensitive'', PList [])]), s)
      | Some v \<Rightarrow> (rpc_ok (PStr ''permissions_list'') (PDict [
          (''rules'', PList (map perm_row_value (to_rules (kv_perms v)))),
          (''elevation_sensitive'', PList (map PStr (sort (em_sensitive (kv_elev v)))))]), s))"

definition rpc_update_info :: "'s op_handler" where
  "rpc_update_info sv m s = (rpc_ok (PStr ''update_info'') (PDict [
     (''buster_version'', PStr (ks_version (rs_kernel s))), (''runtime_state'', PStr (ks_state (rs_kernel s))),
     (''install_path'', PStr (rs_install s)), (''updater_available'', PBool False),
     (''updater_note'', PStr ''update installs are handled by the bootstrap/update machinery, not the UI'')]), s)"

definition left_out :: "string list" where
  "left_out = [''sensors'', ''intel'', ''goal'', ''reflect'', ''consolidate'', ''process_goal'', ''activity'', ''plan'']"

definition rpc :: "'s op_handler \<Rightarrow> 's op_handler" where
  "rpc other sv m s =
     (let op = dgetd m ''op'' PNone; k = rs_kernel s in
      if op = PStr ''call'' then rpc_call other sv m s
      else if op = PStr ''run_async'' then rpc_run_async other sv m s
      else if op = PStr ''status'' then
        (rpc_ok op (rpc_serialize (PDict (dput ''memory'' (memory_snapshot sv k) (kernel_status k)))), s)
      else if op = PStr ''caps'' then
        (rpc_ok op (PDict [(''capabilities'', PList (map PStr (list_capabilities (ks_registry k)))),
           (''actions'', PList (map PStr (list_actions (ks_registry k))))]), s)
      else if op = PStr ''grant'' then rpc_grant other sv m s
      else if op = PStr ''deny'' then rpc_deny other sv m s
      else if op = PStr ''jobs'' then (rpc_ok op (PList (map job_row (sch_list_jobs None (ks_scheduler k)))), s)
      else if op = PStr ''jobs_cancel'' then rpc_jobs_cancel other sv m s
      else if op = PStr ''mem_put'' then rpc_mem_put other sv m s
      else if op = PStr ''mem_get'' then rpc_mem_get other sv m s
      else if op = PStr ''mem_keys'' then (rpc_ok op (PList (map PStr (mem_keys (sv_now sv) (ks_memory k)))), s)
      else if op = PStr ''audit'' then rpc_audit sv m s
      else if op = PStr ''permissions_list'' then rpc_permissions_list sv m s
      else if op = PStr ''update_info'' then rpc_update_info sv m s
      else if op = PStr ''services'' then
        (rpc_ok op (PDict [(''services'', PList (map service_row (rpc_services k)))]), s)
      else if op = PStr ''service_start'' \<or> op = PStr ''service_restart'' then rpc_service_control sv m s
      else if op = PStr ''shutdown'' then (rpc_ok op (PStr ''stopping''), s\<lparr>rs_running := False\<rparr>)
      else if op \<in> PStr ` set left_out then other sv m s
      else (rpc_error op (''unknown op '' @ [squote] @ py_str (sv_float sv) op @ [squote]), s))"

section \<open>Request files\<close>

text \<open>A request file is what it parses to and its modification time; the responses by their path.\<close>

record 's daemon =
  dm_server :: "'s server"
  dm_in :: "(pyval disk \<times> pyfloat) sdict"
  dm_out :: "message sdict"

definition read_request :: "pyval disk \<Rightarrow> pyval option" where
  "read_request c = (case c of Stored v \<Rightarrow> if v = PNone then None else Some v | _ \<Rightarrow> None)"

definition request_ttl :: pyfloat where "request_ttl = 60"

definition drop_request :: "string \<Rightarrow> 's daemon \<Rightarrow> 's daemon" where
  "drop_request n d = d\<lparr>dm_in := ddel n (dm_in d)\<rparr>"

definition response_path :: "(pyfloat \<Rightarrow> string) \<Rightarrow> string \<Rightarrow> pyval \<Rightarrow> string" where
  "response_path sf out_dir rid = path_join out_dir (py_str sf rid @ ''.json'')"

definition dispatch_request :: "'s op_handler \<Rightarrow> shell_env \<Rightarrow> string \<Rightarrow> message \<Rightarrow> string \<Rightarrow> 's daemon \<Rightarrow> 's daemon" where
  "dispatch_request other sv out_dir m name d =
     (let rid = dgetd m ''id'' PNone;
          (response, s) = rpc other sv m (dm_server d);
          d1 = d\<lparr>dm_server := s\<rparr>;
          d2 = (if truthy rid then d1\<lparr>dm_out :=
                  dput (response_path (sv_float sv) out_dir rid) (dmerge response [(''reply_to'', rid)]) (dm_out d1)\<rparr>
                else d1)
      in drop_request name d2)"

text \<open>The body of the loop over the directory's names; a request that is not an object has no \<open>get\<close>.\<close>

fun process_files :: "'s op_handler \<Rightarrow> shell_env \<Rightarrow> string \<Rightarrow> string list \<Rightarrow> 's daemon \<Rightarrow> exc option \<times> 's daemon" where
  "process_files other sv out_dir [] d = (None, d)"
| "process_files other sv out_dir (n # ns) d =
     (if \<not> endswith n ''.json'' then process_files other sv out_dir ns d
      else (case dget (dm_in d) n of
              None \<Rightarrow> process_files other sv out_dir ns d
            | Some (content, mtime) \<Rightarrow>
                (case read_request content of
                   None \<Rightarrow> process_files other sv out_dir ns
                     (if request_ttl < sv_now sv - mtime then drop_request n d else d)
                 | Some (PDict m) \<Rightarrow> process_files other sv out_dir ns (dispatch_request other sv out_dir m n d)
                 | Some v \<Rightarrow> (Some (Exc ''AttributeError'' ''object has no attribute get''), d))))"

definition process_pending :: "'s op_handler \<Rightarrow> shell_env \<Rightarrow> string \<Rightarrow> 's daemon \<Rightarrow> exc option \<times> 's daemon" where
  "process_pending other sv out_dir d = process_files other sv out_dir (dkeys (dm_in d)) d"

text \<open>The serve loop, round by round, with the files that arrive before each round.\<close>

fun serve :: "'s op_handler \<Rightarrow> shell_env \<Rightarrow> string \<Rightarrow> (pyval disk \<times> pyfloat) sdict list \<Rightarrow> 's daemon \<Rightarrow>
    exc option \<times> 's daemon" where
  "serve other sv out_dir [] d = (None, d)"
| "serve other sv out_dir (new # rounds) d =
     (if \<not> rs_running (dm_server d) then (None, d)
      else (case process_pending other sv out_dir (d\<lparr>dm_in := dmerge (dm_in d) new\<rparr>) of
              (Some e, d') \<Rightarrow> (Some e, d')
            | (None, d') \<Rightarrow> serve other sv out_dir rounds d'))"

definition heartbeat :: "nat \<Rightarrow> shell_env \<Rightarrow> 's server \<Rightarrow> pyval sdict" where
  "heartbeat pid sv s = dput ''ts'' (PFloat (sv_now sv)) (dput ''pid'' (PInt (int pid)) (kernel_status (rs_kernel s)))"

section \<open>Client\<close>

text \<open>
  The client's wait: what it sees at each poll is the time and the response file's contents. None
  where the given polls end before the client returns.
\<close>

definition request_message :: "string \<Rightarrow> string \<Rightarrow> pyval sdict \<Rightarrow> message" where
  "request_message op rid payload = dmerge [(''op'', PStr op), (''id'', PStr rid)] payload"

fun await_reply :: "(pyfloat \<Rightarrow> string) \<Rightarrow> string \<Rightarrow> pyfloat \<Rightarrow> pyfloat \<Rightarrow> (pyfloat \<times> message option) list \<Rightarrow>
    message result option" where
  "await_reply sf op timeout deadline [] = None"
| "await_reply sf op timeout deadline ((now, seen) # polls) =
     (if now < deadline then
        (case seen of
           Some response \<Rightarrow> Some (if truthy (dgetd response ''ok'' PNone) then Inr response
             else Inl (Exc ''RuntimeRpcError'' (py_str sf (dgetd response ''error'' (PStr ''rpc failed'')))))
         | None \<Rightarrow> await_reply sf op timeout deadline polls)
      else Some (Inl (Exc ''RuntimeRpcError''
        (''RPC '' @ [squote] @ op @ [squote] @ '' timed out after '' @ sf timeout @ ''s''))))"

definition client_rpc :: "(pyfloat \<Rightarrow> string) \<Rightarrow> bool \<Rightarrow> string \<Rightarrow> pyfloat \<Rightarrow> pyfloat \<Rightarrow>
    (pyfloat \<times> message option) list \<Rightarrow> message result option" where
  "client_rpc sf online op timeout now polls =
     (if \<not> online then Some (Inl (Exc ''RuntimeOfflineError'' ''No Buster runtime is online''))
      else await_reply sf op timeout (now + timeout) polls)"

lemma await_returns:
  "\<exists>(t, r)\<in>set polls. deadline \<le> t \<Longrightarrow> await_reply sf op timeout deadline polls \<noteq> None"
proof (induction polls)
  case (Cons x polls)
  then show ?case by (cases x) (auto split: option.splits)
qed simp

definition runtime_ready :: "message result \<Rightarrow> bool" where
  "runtime_ready r =
     (case r of
        Inl _ \<Rightarrow> False
      | Inr response \<Rightarrow> (case dgetd response ''data'' PNone of
          PDict d \<Rightarrow> dgetd d ''state'' PNone = PStr ''running'' | _ \<Rightarrow> False))"

text \<open>The waits: each poll is the time and what the probe says then, the last probe of \<open>wait_online\<close> apart.\<close>

fun wait_offline :: "pyfloat \<Rightarrow> (pyfloat \<times> bool) list \<Rightarrow> bool option" where
  "wait_offline deadline [] = None"
| "wait_offline deadline ((now, online) # polls) =
     (if now < deadline then (if \<not> online then Some True else wait_offline deadline polls) else Some False)"

fun wait_online :: "pyfloat \<Rightarrow> bool \<Rightarrow> (pyfloat \<times> bool) list \<Rightarrow> bool option" where
  "wait_online deadline final [] = None"
| "wait_online deadline final ((now, ready) # polls) =
     (if now < deadline then (if ready then Some True else wait_online deadline final polls) else Some final)"

section \<open>Remote facade\<close>

text \<open>The facade sends one message per method through the client's \<open>rpc\<close>.\<close>

definition op_message :: "string \<Rightarrow> pyval sdict \<Rightarrow> message" where
  "op_message op payload = (''op'', PStr op) # payload"

definition remote_call :: "string \<Rightarrow> string option \<Rightarrow> pyval \<Rightarrow> pyval \<Rightarrow> message" where
  "remote_call action scope extra context =
     op_message ''call'' [(''action'', PStr action), (''extra'', extra), (''context'', context)]"

definition remote_run_async :: "string \<Rightarrow> string option \<Rightarrow> pyval \<Rightarrow> pyval \<Rightarrow> message" where
  "remote_run_async action scope extra context =
     op_message ''run_async'' [(''action'', PStr action), (''extra'', extra), (''context'', context)]"

definition remote_grant :: "string \<Rightarrow> string option \<Rightarrow> string \<Rightarrow> message" where
  "remote_grant action scope note = op_message ''grant'' [(''action'', PStr action)]"

definition remote_deny :: "string \<Rightarrow> string option \<Rightarrow> string \<Rightarrow> message" where
  "remote_deny action scope note = op_message ''deny'' [(''action'', PStr action)]"

definition remote_cancel :: "string \<Rightarrow> message" where
  "remote_cancel jid = op_message ''jobs_cancel'' [(''id'', PStr jid)]"

definition remote_cancelled :: "message result \<Rightarrow> bool result" where
  "remote_cancelled r = (case r of Inl e \<Rightarrow> Inl e
     | Inr resp \<Rightarrow> Inr (truthy (dgetd resp ''ok'' PNone) \<and> truthy (dgetd resp ''data'' PNone)))"

definition remote_store_get :: "message result \<Rightarrow> pyval \<Rightarrow> pyval result" where
  "remote_store_get r dflt =
     (case r of
        Inr resp \<Rightarrow> (case dget resp ''data'' of Some v \<Rightarrow> Inr v | None \<Rightarrow> Inl (Exc ''KeyError'' ''data''))
      | Inl e \<Rightarrow> if exc_type e = ''RuntimeOfflineError'' \<or> exc_type e = ''RuntimeRpcError'' then Inr dflt else Inl e)"

definition remote_job :: "pyval sdict \<Rightarrow> (string \<times> string \<times> string \<times> bool) result" where
  "remote_job row =
     (case (dget row ''id'', dget row ''name'') of
        (Some (PStr i), Some (PStr n)) \<Rightarrow>
          Inr (i, n, (case dgetd row ''status'' (PStr ''pending'') of PStr t \<Rightarrow> t | _ \<Rightarrow> []),
               truthy (dgetd row ''periodic'' (PBool False)))
      | _ \<Rightarrow> Inl (Exc ''KeyError'' ''id''))"

section \<open>Permissions over RPC\<close>

definition server_perms :: "'s server \<Rightarrow> permissions option" where
  "server_perms s = map_option kv_perms (rg_kernel (ks_registry (rs_kernel s)))"

lemma perms_update [simp]: "server_perms (on_kernel (update_perms f) s) = map_option f (server_perms s)"
  by (cases "rg_kernel (ks_registry (rs_kernel s))") (simp_all add: server_perms_def on_kernel_def update_perms_def)

lemma perms_other_fields [simp]:
  "server_perms (on_kernel (\<lambda>k. k\<lparr>ks_scheduler := x\<rparr>) s) = server_perms s"
  "server_perms (on_kernel (\<lambda>k. k\<lparr>ks_memory := y\<rparr>) s) = server_perms s"
  "server_perms (s\<lparr>rs_kernel := (rs_kernel s)\<lparr>ks_scheduler := x\<rparr>\<rparr>) = server_perms s"
  "server_perms (s\<lparr>rs_kernel := (rs_kernel s)\<lparr>ks_agents := z\<rparr>\<rparr>) = server_perms s"
  "server_perms (s\<lparr>rs_running := b\<rparr>) = server_perms s"
  by (simp_all add: server_perms_def on_kernel_def)

definition keeps_perms :: "'s op_handler \<Rightarrow> bool" where
  "keeps_perms h \<longleftrightarrow> (\<forall>sv m s. server_perms (snd (h sv m s)) = server_perms s)"

lemma rpc_call_perms: "keeps_perms other \<Longrightarrow> server_perms (snd (rpc_call other sv m s)) = server_perms s"
proof -
  assume o: "keeps_perms other"
  have "rg_kernel (fst (snd (cap_call a None x ctx (ks_registry (rs_kernel s)) (ks_world (rs_kernel s))))) =
      rg_kernel (ks_registry (rs_kernel s))" for a x ctx by (rule call_registry)
  with o show ?thesis
    by (auto simp: rpc_call_def keeps_perms_def server_perms_def Let_def split_beta split: option.splits)
qed

lemma service_control_perms: "server_perms (snd (rpc_service_control sv m s)) = server_perms s"
  by (auto simp: rpc_service_control_def Let_def split_beta split: option.splits service.splits sum.splits)

lemma rpc_perms:
  assumes "keeps_perms other" and "server_perms s = Some p"
  shows "\<exists>q. server_perms (snd (rpc other sv m s)) = Some q \<and> set (perm_rules p) \<subseteq> set (perm_rules q)"
proof -
  have o: "server_perms (snd (other sv m s)) = Some p"
    using assms by (simp add: keeps_perms_def)
  have simple: "server_perms (snd (rpc_run_async other sv m s)) = Some p"
    "server_perms (snd (rpc_jobs_cancel other sv m s)) = Some p"
    "server_perms (snd (rpc_mem_put other sv m s)) = Some p"
    "server_perms (snd (rpc_mem_get other sv m s)) = Some p"
    "server_perms (snd (rpc_audit sv m s)) = Some p"
    "server_perms (snd (rpc_permissions_list sv m s)) = Some p"
    "server_perms (snd (rpc_update_info sv m s)) = Some p"
    using o assms(2) by (auto simp: rpc_run_async_def rpc_jobs_cancel_def rpc_mem_put_def rpc_mem_get_def
        rpc_audit_def rpc_permissions_list_def rpc_update_info_def Let_def split_beta
        split: option.splits sum.splits pyval.splits)
  have "\<exists>q. server_perms (snd (rpc_grant other sv m s)) = Some q \<and> set (perm_rules p) \<subseteq> set (perm_rules q)"
    "\<exists>q. server_perms (snd (rpc_deny other sv m s)) = Some q \<and> set (perm_rules p) \<subseteq> set (perm_rules q)"
    using o assms(2) by (auto simp: rpc_grant_def rpc_deny_def split: option.splits)
  with simple o show ?thesis
    using assms rpc_call_perms [OF assms(1), of sv m s] service_control_perms [of sv m s]
    by (simp add: rpc_def Let_def)
qed

lemma rpc_deny_message:
  "server_perms s = Some p \<Longrightarrow>
   server_perms (snd (rpc other sv (remote_deny a sc n) s)) = Some (deny a None ''denied over runtime'' p)"
  by (simp add: rpc_def rpc_deny_def remote_deny_def op_message_def msg_text_def dgetd_def Let_def)

lemma rpc_run_perms:
  "keeps_perms other \<Longrightarrow> server_perms s = Some p \<Longrightarrow> deny_everywhere p a \<Longrightarrow>
   \<exists>q. server_perms (fold (\<lambda>m s. snd (rpc other sv m s)) ms s) = Some q \<and> deny_everywhere q a"
proof (induction ms arbitrary: s p)
  case (Cons m ms)
  obtain q where q: "server_perms (snd (rpc other sv m s)) = Some q" "set (perm_rules p) \<subseteq> set (perm_rules q)"
    using rpc_perms [OF Cons.prems(1,2)] by blast
  then show ?case
    using Cons.IH [OF Cons.prems(1) q(1) deny_everywhere_mono [OF Cons.prems(3) q(2)]] by simp
qed auto


definition demo_server :: "nat server" where
  "demo_server = \<lparr>rs_kernel = demo_kernel, rs_install = ''/b'', rs_running = True\<rparr>"

definition refuse_op :: "'s op_handler" where
  "refuse_op sv m s = (rpc_error (dgetd m ''op'' PNone) ''not available'', s)"

lemma demo_perms: "server_perms demo_server = Some (new_permissions False)"
  by (simp add: server_perms_def demo_server_def demo_kernel_def serving_registry_def guarded_view)

lemma refuse_keeps: "keeps_perms refuse_op"
  by (simp add: keeps_perms_def refuse_op_def)


text \<open>
  The remote facade drops the scope: a grant requested for one scope only reaches the kernel as a
  grant for every scope.
\<close>

lemma remote_grant_widens:
  assumes "server_perms s = Some p" and "\<not> policy_denies p a sc'"
  shows "\<exists>q. server_perms (snd (rpc other sv (remote_grant a (Some sc) n) s)) = Some q \<and>
    pd_allowed (perm_check q a sc' ctx)"
proof -
  let ?q = "grant a None ''granted over runtime'' p"
  have "server_perms (snd (rpc other sv (remote_grant a (Some sc) n) s)) = Some ?q"
    using assms(1) by (simp add: rpc_def rpc_grant_def remote_grant_def op_message_def msg_text_def dgetd_def Let_def)
  moreover have "pd_allowed (perm_check ?q a sc' ctx)"
    using assms(2) by (intro check_granted) (auto simp: policy_denies_def policy_grants_def rule_applies_def)
  ultimately show ?thesis by blast
qed

theorem remote_grant_widens_witness:
  "\<exists>q. server_perms (snd (rpc refuse_op demo_shell_env (remote_grant ''fs.write'' (Some ''/tmp'') []) demo_server)) = Some q \<and>
     pd_allowed (perm_check q ''fs.write'' (Some ''/etc'') [])"
  by (rule remote_grant_widens [OF demo_perms]) (simp add: policy_denies_def new_permissions_def)

section \<open>Requests\<close>

text \<open>A request with an object in it is answered under its id and its file removed.\<close>

lemma process_one:
  assumes "endswith n ''.json''" and "dget (dm_in d) n = Some (Stored (PDict m), t)"
  shows "process_files other sv out_dir (n # ns) d =
    process_files other sv out_dir ns (dispatch_request other sv out_dir m n d)"
  using assms by (simp add: read_request_def)

definition readable :: "string \<times> (pyval disk \<times> pyfloat) \<Rightarrow> bool" where
  "readable f = (case f of (n, c, t) \<Rightarrow> (case read_request c of Some (PDict m) \<Rightarrow> True | _ \<Rightarrow> False))"

lemma dispatch_in [simp]: "dm_in (dispatch_request other sv out_dir m n d) = ddel n (dm_in d)"
  by (simp add: dispatch_request_def drop_request_def Let_def split_beta)

lemma process_readable:
  "list_all readable (dm_in d) \<Longrightarrow> fst (process_files other sv out_dir ns d) = None \<and>
   dm_in (snd (process_files other sv out_dir ns d)) =
     filter (\<lambda>f. \<not> (fst f \<in> set ns \<and> endswith (fst f) ''.json'')) (dm_in d)"
proof (induction ns arbitrary: d)
  case (Cons n ns)
  show ?case
  proof (cases "endswith n ''.json'' \<and> dget (dm_in d) n \<noteq> None")
    case False
    have eq: "process_files other sv out_dir (n # ns) d = process_files other sv out_dir ns d"
      using False by (cases "dget (dm_in d) n") auto
    have "filter (\<lambda>f. \<not> (fst f \<in> set (n # ns) \<and> endswith (fst f) ''.json'')) (dm_in d) =
        filter (\<lambda>f. \<not> (fst f \<in> set ns \<and> endswith (fst f) ''.json'')) (dm_in d)"
      using False by (intro filter_cong) (auto simp: map_of_eq_None_iff)
    with Cons.IH [OF Cons.prems] eq show ?thesis by simp
  next
    case True
    then obtain c t where ct: "dget (dm_in d) n = Some (c, t)" by auto
    then have "readable (n, c, t)" using Cons.prems by (auto simp: list_all_iff dest: dget_Some_in)
    then obtain m where m: "read_request c = Some (PDict m)"
      by (auto simp: readable_def split: option.splits pyval.splits)
    let ?d = "dispatch_request other sv out_dir m n d"
    have eq: "process_files other sv out_dir (n # ns) d = process_files other sv out_dir ns ?d"
      using True ct m by simp
    have "list_all readable (dm_in ?d)" using Cons.prems by (simp add: list_all_del)
    then have IH: "fst (process_files other sv out_dir ns ?d) = None \<and>
        dm_in (snd (process_files other sv out_dir ns ?d)) =
          filter (\<lambda>f. \<not> (fst f \<in> set ns \<and> endswith (fst f) ''.json'')) (ddel n (dm_in d))"
      using Cons.IH [of ?d] by simp
    have "filter (\<lambda>f. \<not> (fst f \<in> set ns \<and> endswith (fst f) ''.json'')) (ddel n (dm_in d)) =
        filter (\<lambda>f. \<not> (fst f \<in> set (n # ns) \<and> endswith (fst f) ''.json'')) (dm_in d)"
      using True by (auto simp: AList.delete_eq intro!: filter_cong)
    with IH show ?thesis unfolding eq by simp
  qed
qed simp


definition demo_daemon :: "nat daemon" where
  "demo_daemon = \<lparr>dm_server = demo_server,
     dm_in = [(''a.json'', Stored (PDict (request_message ''caps'' ''a'' [])), 0), (''b.tmp'', Stored (PDict []), 0)],
     dm_out = []\<rparr>"


text \<open>
  A request file that holds a JSON list raises out of the serve loop: the daemon stops serving, and no later round is processed.
\<close>

lemma malformed_request_stops_daemon:
  assumes "endswith n ''.json''" and "rs_running (dm_server d)" and "dm_in d = []"
  shows "fst (serve other sv out_dir ([(n, Stored (PList xs), t)] # rounds) d) =
      Some (Exc ''AttributeError'' ''object has no attribute get'') \<and>
    dm_server (snd (serve other sv out_dir ([(n, Stored (PList xs), t)] # rounds) d)) = dm_server d"
  using assms by (simp add: process_pending_def dmerge_def read_request_def)

theorem malformed_request_stops_daemon_witness:
  "fst (serve refuse_op demo_shell_env ''/out'' [[(''x.json'', Stored (PList []), 0)]]
     (demo_daemon\<lparr>dm_in := []\<rparr>)) = Some (Exc ''AttributeError'' ''object has no attribute get'')"
  using malformed_request_stops_daemon [of "''x.json''" "demo_daemon\<lparr>dm_in := []\<rparr>" refuse_op
      demo_shell_env "''/out''" "[]" 0 "[]"]
  by (simp add: demo_daemon_def demo_server_def endswith_def startswith_def)

text \<open>
  The client that gave up relies on the daemon to sweep its request; but a readable request is
  executed however old it is, only unreadable ones are swept.
\<close>

lemma stale_request_executed:
  "process_files other sv out_dir [n] (d\<lparr>dm_in := [(n, Stored (PDict m), t)]\<rparr>) =
     (if endswith n ''.json''
      then (None, dispatch_request other sv out_dir m n (d\<lparr>dm_in := [(n, Stored (PDict m), t)]\<rparr>))
      else (None, d\<lparr>dm_in := [(n, Stored (PDict m), t)]\<rparr>))"
  by (simp add: read_request_def)

section \<open>Service control\<close>

definition same_but_services :: "'s server \<Rightarrow> 's server \<Rightarrow> bool" where
  "same_but_services s t \<longleftrightarrow>
     ks_registry (rs_kernel t) = ks_registry (rs_kernel s) \<and> ks_world (rs_kernel t) = ks_world (rs_kernel s) \<and>
     ks_memory (rs_kernel t) = ks_memory (rs_kernel s) \<and> ks_audit (rs_kernel t) = ks_audit (rs_kernel s) \<and>
     dkeys (am_agents (ks_agents (rs_kernel t))) = dkeys (am_agents (ks_agents (rs_kernel s))) \<and>
     rs_running t = rs_running s"

lemma activate_keys: "am_activate k m = Inr m' \<Longrightarrow> dkeys (am_agents m') = dkeys (am_agents m)"
  by (auto simp: am_activate_def am_emit_def am_set_status_def split: sum.splits)

lemma service_control_frame: "same_but_services s (snd (rpc_service_control sv m s))"
  by (auto simp: same_but_services_def rpc_service_control_def Let_def split_beta activate_keys
      split: option.splits service.splits sum.splits)

lemma sch_get_in: "sch_get k s = Some j \<Longrightarrow> j \<in> set (dvals (sch_objs s))"
  by (force simp: sch_get_def split: if_splits dest: dget_Some_in)

lemma schedule_funcs:
  "job_func ` set (dvals (sch_objs (snd (sch_schedule now uid name f delay every prio s))))
     \<subseteq> insert f (job_func ` set (dvals (sch_objs s)))"
proof -
  let ?j = "new_job now uid name f delay every prio"
  have "sch_objs (snd (sch_schedule now uid name f delay every prio s)) = dput (job_id ?j) ?j (sch_objs s)"
    by (simp add: sch_schedule_def sch_push_def Let_def)
  then have "set (dvals (sch_objs (snd (sch_schedule now uid name f delay every prio s))))
      \<subseteq> insert ?j (set (dvals (sch_objs s)))"
    by (simp only: dvals_put_subset)
  moreover have "job_func ?j = f" by (simp add: new_job_def)
  ultimately show ?thesis by (auto 0 3)
qed

lemma service_control_scheduler:
  "ks_scheduler (rs_kernel (snd (rpc_service_control sv m s))) = ks_scheduler (rs_kernel s) \<or>
   (\<exists>k j d. sch_get k (ks_scheduler (rs_kernel s)) = Some j \<and>
      ks_scheduler (rs_kernel (snd (rpc_service_control sv m s))) =
        snd (sch_schedule (sv_now sv) (sv_uid sv) (job_name j) (job_func j) 0 (Some d) (job_priority j)
          (ks_scheduler (rs_kernel s))))"
proof (cases "case msg_text m ''name'' of None \<Rightarrow> None | Some n \<Rightarrow> if n = [] then None
    else find (\<lambda>r. service_name r = n) (rpc_services (rs_kernel s))")
  case None
  then show ?thesis by (auto simp: rpc_service_control_def Let_def split: option.splits if_splits)
next
  case (Some row)
  then obtain n where n: "msg_text m ''name'' = Some n" "n \<noteq> []"
    "find (\<lambda>r. service_name r = n) (rpc_services (rs_kernel s)) = Some row"
    by (auto split: option.splits if_splits)
  show ?thesis
  proof (cases row)
    case (JobService j)
    show ?thesis
    proof (cases "sch_get (job_id j) (ks_scheduler (rs_kernel s))")
      case None
      then show ?thesis using n JobService by (simp add: rpc_service_control_def Let_def)
    next
      case (Some job)
      then show ?thesis
        using n JobService
        by (cases "job_interval job") (auto simp: rpc_service_control_def Let_def split_beta)
    qed
  qed (use n in \<open>auto simp: rpc_service_control_def Let_def split: sum.splits\<close>)
qed

lemma service_control_funcs:
  "job_func ` set (dvals (sch_objs (ks_scheduler (rs_kernel (snd (rpc_service_control sv m s))))))
     \<subseteq> job_func ` set (dvals (sch_objs (ks_scheduler (rs_kernel s))))"
proof -
  have "job_func ` set (dvals (sch_objs (snd (sch_schedule now uid name (job_func j) delay every prio sch))))
      \<subseteq> job_func ` set (dvals (sch_objs sch))" if "sch_get k sch = Some j" for now uid name j delay every prio sch k
    using schedule_funcs [of now uid name "job_func j" delay every prio sch] sch_get_in [OF that] by blast
  then show ?thesis using service_control_scheduler [of sv m s] by (metis order_refl)
qed

text \<open>
  Service control runs no code of the caller: whatever the message says, it leaves capabilities,
  permissions, the world, memory and the audit log as they are, adds no agent, and every function the
  scheduler holds afterwards is one it held before.
\<close>

lemma service_control_confined:
  "same_but_services s (snd (rpc_service_control sv m s)) \<and>
   job_func ` set (dvals (sch_objs (ks_scheduler (rs_kernel (snd (rpc_service_control sv m s))))))
     \<subseteq> job_func ` set (dvals (sch_objs (ks_scheduler (rs_kernel s))))"
  by (rule conjI [OF service_control_frame service_control_funcs])

end
