(* ===== verification/Resolver.thy ===== *)
theory Resolver
  imports Py_String
begin

text \<open>
  \<open>buster/osbuild/packages.py\<close> and \<open>resolver.py\<close>: the Packages index, Debian version comparison as the
  code does it, version constraints, and the closure of a seed set of packages. The two regular
  expressions of the code are written out as the functions they denote.
\<close>

section \<open>Package records\<close>

record package_record =
  pk_package :: string
  pk_version :: string
  pk_architecture :: string
  pk_section :: string
  pk_depends :: string
  pk_pre_depends :: string
  pk_provides :: string
  pk_filename :: string
  pk_size :: int
  pk_md5sum :: string
  pk_sha256 :: string
  pk_priority :: string
  pk_essential :: bool

definition until_char :: "char \<Rightarrow> string \<Rightarrow> string" where
  "until_char c s = takeWhile (\<lambda>x. x \<noteq> c) s"

definition provides_names :: "package_record \<Rightarrow> string list" where
  "provides_names r = filter (\<lambda>n. n \<noteq> []) (map (\<lambda>chunk.
     str_strip (until_char (CHR ''('') (until_char (CHR '' '') (str_strip chunk))))
     (split_char (CHR '','') (pk_provides r)))"

definition norm_deps :: "string \<Rightarrow> string list" where
  "norm_deps s = filter (\<lambda>d. d \<noteq> []) (map str_strip (split_char (CHR '','') s))"

definition record_from_stanza :: "string sdict \<Rightarrow> package_record result" where
  "record_from_stanza st =
     (let size = dgetd st ''Size'' ''0'';
          pre = dgetd st ''Pre-Depends'' []
      in case (if size = [] then Some 0 else py_int_of size) of
           None \<Rightarrow> Inl (Exc ''ValueError'' (''invalid literal for int() with base 10: '' @ [CHR 0x27] @ size @ [CHR 0x27]))
         | Some n \<Rightarrow> Inr \<lparr>
             pk_package = dgetd st ''Package'' [],
             pk_version = dgetd st ''Version'' ''0'',
             pk_architecture = dgetd st ''Architecture'' ''all'',
             pk_section = dgetd st ''Section'' [],
             pk_depends = join_str '', '' (norm_deps (dgetd st ''Depends'' []) @ norm_deps pre),
             pk_pre_depends = pre,
             pk_provides = dgetd st ''Provides'' [],
             pk_filename = dgetd st ''Filename'' [],
             pk_size = n,
             pk_md5sum = dgetd st ''MD5sum'' [],
             pk_sha256 = dgetd st ''SHA256'' [],
             pk_priority = dgetd st ''Priority'' ''optional'',
             pk_essential = startswith (str_lower (dgetd st ''Essential'' ''no'')) ''yes''\<rparr>)"

text \<open>\<open>str.splitlines\<close>: no empty field after a final line break; CR LF is one break.\<close>

definition is_break :: "char \<Rightarrow> bool" where
  "is_break c = (let n = code c in (10 \<le> n \<and> n \<le> 13) \<or> (28 \<le> n \<and> n \<le> 30) \<or> n = 133)"

fun split_lines :: "string \<Rightarrow> string \<Rightarrow> string list" where
  "split_lines buf [] = (if buf = [] then [] else [buf])"
| "split_lines buf (c # s) =
     (if c = CHR 0x0D then (case s of
          d # t \<Rightarrow> if d = CHR 0x0A then buf # split_lines [] t else buf # split_lines [] s
        | [] \<Rightarrow> [buf])
      else if is_break c then buf # split_lines [] s
      else split_lines (buf @ [c]) s)"

definition splitlines :: "string \<Rightarrow> string list" where
  "splitlines s = split_lines [] s"

record index_state =
  ix_records :: "package_record list"
  ix_stanza :: "string sdict"
  ix_field :: "string option"

definition flush_stanza :: "index_state \<Rightarrow> index_state result" where
  "flush_stanza s =
     (if dgetd (ix_stanza s) ''Package'' [] \<noteq> [] then
        (case record_from_stanza (ix_stanza s) of
           Inl e \<Rightarrow> Inl e
         | Inr r \<Rightarrow> Inr (s\<lparr>ix_records := ix_records s @ [r], ix_stanza := []\<rparr>))
      else Inr (s\<lparr>ix_stanza := []\<rparr>))"

definition index_line :: "string \<Rightarrow> index_state \<Rightarrow> index_state result" where
  "index_line raw s =
     (let line = rstrip_chars (\<lambda>c. c = CHR 0x0D) raw in
      case line of
        [] \<Rightarrow> map_sum id (\<lambda>s. s\<lparr>ix_field := None\<rparr>) (flush_stanza s)
      | c # _ \<Rightarrow>
          if c = CHR '' '' \<or> c = CHR 0x09 then
            (case ix_field s of
               None \<Rightarrow> Inr s
             | Some f \<Rightarrow> if f = [] then Inr s
                 else Inr (s\<lparr>ix_stanza := dmodify f (\<lambda>v. v @ '' '' @ str_strip line) (ix_stanza s)\<rparr>))
          else if CHR '':'' \<in> set line then
            (let (field, _, value) = partition_char (CHR '':'') line; key = str_strip field
             in Inr (s\<lparr>ix_field := Some key, ix_stanza := dput key (str_strip value) (ix_stanza s)\<rparr>))
          else Inr (s\<lparr>ix_field := None\<rparr>))"

fun index_lines :: "string list \<Rightarrow> index_state \<Rightarrow> index_state result" where
  "index_lines [] s = Inr s"
| "index_lines (l # ls) s = (case index_line l s of Inl e \<Rightarrow> Inl e | Inr s' \<Rightarrow> index_lines ls s')"

definition parse_packages :: "string \<Rightarrow> package_record list result" where
  "parse_packages txt =
     (case index_lines (splitlines txt) \<lparr>ix_records = [], ix_stanza = [], ix_field = None\<rparr> of
        Inl e \<Rightarrow> Inl e
      | Inr s \<Rightarrow> map_sum id ix_records (flush_stanza s))"

text \<open>Every record comes from a stanza with a non-empty package name.\<close>

lemma record_name: "record_from_stanza st = Inr r \<Longrightarrow> pk_package r = dgetd st ''Package'' []"
  by (auto simp: record_from_stanza_def Let_def split: option.splits)

definition named :: "index_state \<Rightarrow> bool" where
  "named s = list_all (\<lambda>r. pk_package r \<noteq> []) (ix_records s)"

lemma named_flush: "named s \<Longrightarrow> flush_stanza s = Inr t \<Longrightarrow> named t"
  by (auto simp: named_def flush_stanza_def record_name split: if_splits sum.splits)

lemma named_line: "named s \<Longrightarrow> index_line l s = Inr t \<Longrightarrow> named t"
proof (cases "flush_stanza s")
  case (Inr u)
  assume "named s" "index_line l s = Inr t"
  then show ?thesis using Inr named_flush [of s u]
    by (auto simp: index_line_def named_def Let_def split: list.splits if_splits option.splits prod.splits)
qed (auto simp: index_line_def named_def Let_def split: list.splits if_splits option.splits prod.splits)

lemma named_lines: "named s \<Longrightarrow> index_lines ls s = Inr t \<Longrightarrow> named t"
  by (induction ls arbitrary: s) (auto split: sum.splits dest: named_line)

lemma parsed_named: "parse_packages txt = Inr rs \<Longrightarrow> list_all (\<lambda>r. pk_package r \<noteq> []) rs"
  by (auto simp: parse_packages_def map_sum_def named_def split: sum.splits
      dest!: named_lines [rotated] named_flush [rotated])

section \<open>Version comparison\<close>

definition split_version :: "string \<Rightarrow> string \<times> string" where
  "split_version v =
     (if CHR '':'' \<in> set v then
        (let (epoch, _, rest) = partition_char (CHR '':'') v
         in case py_int_of epoch of Some _ \<Rightarrow> (epoch, rest) | None \<Rightarrow> (''0'', v))
      else (''0'', v))"

text \<open>\<open>findall("[0-9]+|[a-zA-Z]+|[.+~-]")\<close>: runs of digits, runs of letters, single separators.\<close>

definition is_sep :: "char \<Rightarrow> bool" where
  "is_sep c \<longleftrightarrow> c = CHR ''.'' \<or> c = CHR ''+'' \<or> c = CHR ''~'' \<or> c = CHR ''-''"

function pieces :: "string \<Rightarrow> string list" where
  "pieces [] = []"
| "pieces (c # s) =
     (if is_digit c then (c # takeWhile is_digit s) # pieces (dropWhile is_digit s)
      else if is_alpha c then (c # takeWhile is_alpha s) # pieces (dropWhile is_alpha s)
      else if is_sep c then [c] # pieces s
      else pieces s)"
  by pat_completeness auto
termination
  by (relation "measure length") (auto simp: less_Suc_eq_le length_dropWhile_le)

definition all_digits :: "string \<Rightarrow> bool" where
  "all_digits s \<longleftrightarrow> s \<noteq> [] \<and> list_all is_digit s"

definition cmp_part :: "string \<Rightarrow> string \<Rightarrow> int" where
  "cmp_part a b =
     (if all_digits a \<and> all_digits b then
        (if length a \<noteq> length b then (if length a > length b then 1 else -1)
         else if a \<noteq> b then (if a > b then 1 else -1) else 0)
      else if all_digits a then 1
      else if all_digits b then -1
      else if a \<noteq> b then (if a > b then 1 else -1) else 0)"

fun cmp_pieces :: "string list \<Rightarrow> string list \<Rightarrow> int" where
  "cmp_pieces [] [] = 0"
| "cmp_pieces [] (b # bs) = -1"
| "cmp_pieces (a # as) [] = 1"
| "cmp_pieces (a # as) (b # bs) = (let c = cmp_part a b in if c \<noteq> 0 then c else cmp_pieces as bs)"

definition cmp_component :: "string \<Rightarrow> string \<Rightarrow> int" where
  "cmp_component a b = cmp_pieces (pieces a) (pieces b)"

definition epoch_num :: "string \<Rightarrow> int" where
  "epoch_num e = the (py_int_of e)"

definition vercmp :: "string \<Rightarrow> string \<Rightarrow> int" where
  "vercmp a b =
     (let (ae, ar) = split_version a; (be, br) = split_version b in
      if ae \<noteq> be then (if epoch_num ae < epoch_num be then -1 else 1)
      else (let (au, _, ad) = partition_char (CHR ''-'') ar; (bu, _, bd) = partition_char (CHR ''-'') br;
                r = cmp_component au bu
            in if r \<noteq> 0 then r else cmp_component ad bd))"

text \<open>
  The reference: a piece is keyed by whether it is a number, its number of digits, and its text; a
  component by the list of its keys; a version by epoch, upstream part and revision. Comparison is
  the library's lexicographic order.
\<close>

definition piece_key :: "string \<Rightarrow> bool \<times> nat \<times> string" where
  "piece_key p = (all_digits p, if all_digits p then length p else 0, p)"

definition component_key :: "string \<Rightarrow> (bool \<times> nat \<times> string) list" where
  "component_key s = map piece_key (pieces s)"

definition version_key :: "string \<Rightarrow> int \<times> (bool \<times> nat \<times> string) list \<times> (bool \<times> nat \<times> string) list" where
  "version_key v =
     (let (e, r) = split_version v; (u, _, d) = partition_char (CHR ''-'') r
      in (epoch_num e, component_key u, component_key d))"

definition order_sign :: "'a::linorder \<Rightarrow> 'a \<Rightarrow> int" where
  "order_sign x y = (if x < y then -1 else if x = y then 0 else 1)"

lemma order_sign_simps [simp]: "order_sign x x = 0" "order_sign x y = 0 \<longleftrightarrow> x = y"
  by (auto simp: order_sign_def)

lemma cmp_part_sign: "cmp_part a b = order_sign (piece_key a) (piece_key b)"
  by (auto simp: cmp_part_def order_sign_def piece_key_def)

lemma cmp_pieces_sign: "cmp_pieces as bs = order_sign (map piece_key as) (map piece_key bs)"
proof (induction as bs rule: cmp_pieces.induct)
  case (4 a as b bs)
  then show ?case by (auto simp: cmp_part_sign order_sign_def Let_def)
qed (auto simp: order_sign_def)

lemma cmp_component_sign: "cmp_component a b = order_sign (component_key a) (component_key b)"
  by (simp add: cmp_component_def component_key_def cmp_pieces_sign)

text \<open>Two versions whose epochs are the same number spell it the same way.\<close>

definition same_spelling :: "string \<Rightarrow> string \<Rightarrow> bool" where
  "same_spelling a b \<longleftrightarrow>
     (epoch_num (fst (split_version a)) = epoch_num (fst (split_version b)) \<longrightarrow>
      fst (split_version a) = fst (split_version b))"

lemma vercmp_sign:
  assumes "same_spelling a b"
  shows "vercmp a b = order_sign (version_key a) (version_key b)"
proof -
  obtain ae ar where a: "split_version a = (ae, ar)" by fastforce
  obtain be br where b: "split_version b = (be, br)" by fastforce
  obtain au x ad where u: "partition_char (CHR ''-'') ar = (au, x, ad)" by (metis surj_pair)
  obtain bu y bd where v: "partition_char (CHR ''-'') br = (bu, y, bd)" by (metis surj_pair)
  show ?thesis
  proof (cases "ae = be")
    case True
    then show ?thesis
      by (auto simp: vercmp_def version_key_def a b u v cmp_component_sign order_sign_def Let_def)
  next
    case False
    then have "epoch_num ae \<noteq> epoch_num be" using assms a b by (auto simp: same_spelling_def)
    with False show ?thesis
      by (auto simp: vercmp_def version_key_def a b u v order_sign_def Let_def)
  qed
qed

text \<open>
  C13. \<open>vercmp\<close> is the lexicographic comparison of epoch, upstream pieces and revision pieces, hence a
  total order up to equal keys, for versions that spell equal epochs alike: numbers compare by value
  when they have no leading zeros, and a number is greater than text.
\<close>

theorem vercmp_is_lexicographic:
  assumes "same_spelling a b"
  shows "vercmp a b = order_sign (version_key a) (version_key b)"
  by (rule vercmp_sign [OF assms])

lemma vercmp_antisym: "same_spelling a b \<Longrightarrow> vercmp b a = - vercmp a b"
proof -
  assume s: "same_spelling a b"
  then have "same_spelling b a" by (auto simp: same_spelling_def)
  with s show ?thesis
    unfolding vercmp_sign [OF s] by (simp add: vercmp_sign order_sign_def not_less_iff_gr_or_eq)
qed

definition demo_versions :: "string list" where
  "demo_versions = [''1.10-1'', ''1.9-2'', ''2:0.5'']"

lemma piece_chars [simp]:
  "is_digit (CHR ''0'')" "is_digit (CHR ''1'')" "is_digit (CHR ''9'')" "\<not> is_digit (CHR ''.'')" "\<not> is_digit (CHR ''-'')"
  "\<not> is_alpha (CHR ''.'')" "\<not> is_digit (CHR ''~'')" "\<not> is_alpha (CHR ''~'')" "\<not> is_digit (CHR ''r'')" "is_alpha (CHR ''r'')"
  "is_alpha (CHR ''c'')" "\<not> is_digit (CHR ''c'')" "is_sep (CHR ''.'')" "is_sep (CHR ''~'')" "is_sep (CHR ''-'')"
  by (simp_all add: char_defs is_sep_def Let_def)

theorem vercmp_is_lexicographic_witness:
  "vercmp ''1.10'' ''1.9'' = order_sign (version_key ''1.10'') (version_key ''1.9'') \<and> vercmp ''1.10'' ''1.9'' = 1"
  using vercmp_is_lexicographic [of "''1.10''" "''1.9''"]
  by (simp add: same_spelling_def split_version_def vercmp_def partition_char_def cmp_component_def cmp_part_def
      all_digits_def Let_def)

text \<open>
  The order is not Debian's: a pre-release marked with a tilde, which Debian sorts before the
  release, is greater than the release here.
\<close>

lemma tilde_sorts_after_release: "vercmp ''1.0~rc1'' ''1.0'' = 1"
  by (simp add: split_version_def vercmp_def partition_char_def cmp_component_def cmp_part_def
      all_digits_def Let_def)

section \<open>Constraints\<close>

record constraint =
  co_name :: string
  co_operator :: string
  co_version :: string

definition satisfied_by :: "constraint \<Rightarrow> string \<Rightarrow> bool" where
  "satisfied_by c v =
     (if co_operator c = [] then True
      else (let r = vercmp v (co_version c); op = co_operator c in
            if op = ''<'' then r < 0 else if op = ''<='' then r \<le> 0 else if op = ''='' then r = 0
            else if op = ''>='' then r \<ge> 0 else if op = ''>'' then r > 0 else if op = ''!='' then r \<noteq> 0
            else True))"

definition is_name_char :: "char \<Rightarrow> bool" where
  "is_name_char c \<longleftrightarrow> is_alnum c \<or> c \<in> set ''+._-''"

definition is_arch_char :: "char \<Rightarrow> bool" where
  "is_arch_char c \<longleftrightarrow> is_alnum c \<or> c \<in> set ''_-''"

text \<open>After the operator: blanks, a version up to the parenthesis (at least one character), the parenthesis.\<close>

definition match_version :: "string \<Rightarrow> string \<Rightarrow> (string \<times> string) option" where
  "match_version op s =
     (let body = until_char (CHR '')'') s
      in if CHR '')'' \<in> set s \<and> body \<noteq> [] then Some (op, str_strip body) else None)"

definition first_some :: "('a \<Rightarrow> 'b option) \<Rightarrow> 'a list \<Rightarrow> 'b option" where
  "first_some f xs = foldr (\<lambda>x acc. case f x of Some y \<Rightarrow> Some y | None \<Rightarrow> acc) xs None"

text \<open>The alternation tries the operators in this order and backtracks to the next on failure.\<close>

definition match_constraint :: "string \<Rightarrow> (string \<times> string) option" where
  "match_constraint s =
     (case dropWhile is_space s of
        c # r \<Rightarrow>
          if c = CHR ''('' then
            first_some (\<lambda>op. if startswith r op then match_version op (drop (length op) r) else None)
              [''<='', ''<'', ''>='', ''>'', ''='', ''!='']
          else None
      | [] \<Rightarrow> None)"

definition skip_arch :: "string \<Rightarrow> string" where
  "skip_arch s =
     (case s of
        c # r \<Rightarrow> if c = CHR '':'' \<and> takeWhile is_arch_char r \<noteq> [] then dropWhile is_arch_char r else s
      | [] \<Rightarrow> [])"

definition parse_alternative :: "string \<Rightarrow> constraint" where
  "parse_alternative a =
     (let name = takeWhile is_name_char a in
      if name = [] then \<lparr>co_name = a, co_operator = [], co_version = []\<rparr>
      else (case match_constraint (skip_arch (dropWhile is_name_char a)) of
              None \<Rightarrow> \<lparr>co_name = name, co_operator = [], co_version = []\<rparr>
            | Some (op, v) \<Rightarrow> \<lparr>co_name = name, co_operator = op, co_version = v\<rparr>))"

definition parse_depends :: "string \<Rightarrow> constraint list list" where
  "parse_depends field =
     map (\<lambda>g. map parse_alternative (filter (\<lambda>a. a \<noteq> []) (map str_strip (split_char (CHR ''|'') g))))
       (norm_deps field)"

section \<open>Dependency closure\<close>

record resolver =
  rv_candidates :: "package_record list sdict"
  rv_providers :: "package_record list sdict"

definition add_to :: "string \<Rightarrow> 'a \<Rightarrow> 'a list sdict \<Rightarrow> 'a list sdict" where
  "add_to k x d = dput k (dgetd d k [] @ [x]) d"

definition new_resolver :: "package_record list \<Rightarrow> string \<Rightarrow> resolver" where
  "new_resolver records arch = foldl (\<lambda>rv r.
     if pk_architecture r \<noteq> arch \<and> pk_architecture r \<noteq> ''all'' then rv
     else rv\<lparr>rv_candidates := add_to (pk_package r) r (rv_candidates rv),
             rv_providers := foldl (\<lambda>d v. add_to v r d) (rv_providers rv) (provides_names r)\<rparr>)
     \<lparr>rv_candidates = [], rv_providers = []\<rparr> records"

definition available :: "resolver \<Rightarrow> string \<Rightarrow> bool" where
  "available rv name \<longleftrightarrow> name \<in> set (dkeys (rv_candidates rv)) \<or> name \<in> set (dkeys (rv_providers rv))"

definition pick :: "resolver \<Rightarrow> string \<Rightarrow> package_record option" where
  "pick rv name =
     (case dgetd (rv_candidates rv) name [] of
        c # cs \<Rightarrow> Some (hd (sort_desc pk_version (c # cs)))
      | [] \<Rightarrow> find (\<lambda>r. pk_package r \<in> set (dkeys (rv_candidates rv))) (dgetd (rv_providers rv) name []))"

definition satisfied_by_chosen :: "package_record sdict \<Rightarrow> constraint \<Rightarrow> bool" where
  "satisfied_by_chosen chosen alt =
     (case dget chosen (co_name alt) of
        None \<Rightarrow> False
      | Some r \<Rightarrow> if co_operator alt \<noteq> [] then satisfied_by alt (pk_version r) else True)"

text \<open>The first alternative of a group that has a candidate which meets its constraint.\<close>

definition workable :: "resolver \<Rightarrow> constraint list \<Rightarrow> package_record option" where
  "workable rv g = first_some (\<lambda>alt.
     case pick rv (co_name alt) of
       None \<Rightarrow> None
     | Some r \<Rightarrow> if co_operator alt \<noteq> [] \<and> \<not> satisfied_by alt (pk_version r) then None else Some r) g"

definition enqueue_group :: "resolver \<Rightarrow> package_record sdict \<Rightarrow> constraint list \<Rightarrow>
    string list \<times> string list \<Rightarrow> string list \<times> string list" where
  "enqueue_group rv chosen g qs =
     (let (queue, queued) = qs in
      if list_ex (satisfied_by_chosen chosen) g then (queue, queued)
      else (case workable rv g of
              None \<Rightarrow> (queue, queued)
            | Some r \<Rightarrow>
                if pk_package r \<notin> set (dkeys chosen) \<and> pk_package r \<notin> set queued
                then (queue @ [pk_package r], pk_package r # queued) else (queue, queued)))"

text \<open>
  The names that the loop may still queue: packages with a candidate that were not queued. Every
  iteration takes one name off the queue and queues only such names, which bounds the loop.
\<close>

definition unqueued :: "resolver \<Rightarrow> string list \<Rightarrow> string set" where
  "unqueued rv queued = (pk_package ` (\<Union>rs\<in>set (dvals (rv_candidates rv)) \<union> set (dvals (rv_providers rv)). set rs))
     - set queued"

lemma finite_unqueued [simp]: "finite (unqueued rv q)"
  by (auto simp: unqueued_def)

lemma first_some_in: "first_some f xs = Some y \<Longrightarrow> \<exists>x\<in>set xs. f x = Some y"
  by (induction xs) (auto simp: first_some_def split: option.splits)

lemma first_some_None: "first_some f xs = None \<longleftrightarrow> (\<forall>x\<in>set xs. f x = None)"
  by (induction xs) (auto simp: first_some_def split: option.splits)

lemma dgetd_in: "x \<in> set (dgetd d k []) \<Longrightarrow> \<exists>xs\<in>set (dvals d). x \<in> set xs"
  by (cases "dget d k") (force simp: dgetd_def dest: dget_Some_in)+

lemma pick_in: "pick rv n = Some r \<Longrightarrow>
    r \<in> set (dgetd (rv_candidates rv) n []) \<or> r \<in> set (dgetd (rv_providers rv) n [])"
proof (cases "dgetd (rv_candidates rv) n []")
  case (Cons c cs)
  assume "pick rv n = Some r"
  with Cons have "r = hd (sort_desc pk_version (c # cs))" by (simp add: pick_def)
  moreover have "sort_desc pk_version (c # cs) \<noteq> []" by (metis length_sort_desc list.size(3) list.simps(3) length_0_conv)
  ultimately show ?thesis using Cons hd_in_set [of "sort_desc pk_version (c # cs)"] by simp
qed (auto simp: pick_def find_Some_iff dest: nth_mem)

lemma workable_unqueued: "workable rv g = Some r \<Longrightarrow> pk_package r \<notin> set q \<Longrightarrow> pk_package r \<in> unqueued rv q"
proof -
  assume "workable rv g = Some r" "pk_package r \<notin> set q"
  moreover then obtain n where "pick rv n = Some r"
    by (auto simp: workable_def split: option.splits if_splits dest!: first_some_in)
  ultimately show ?thesis by (fastforce simp: unqueued_def dest: pick_in dgetd_in)
qed

lemma enqueue_cases:
  assumes "enqueue_group rv chosen g (queue, queued) = (queue', queued')"
  shows "(queue' = queue \<and> queued' = queued) \<or>
    (\<exists>r. workable rv g = Some r \<and> pk_package r \<notin> set queued \<and> queue' = queue @ [pk_package r] \<and>
       queued' = pk_package r # queued)"
proof (cases "list_ex (satisfied_by_chosen chosen) g")
  case True
  with assms show ?thesis by (simp add: enqueue_group_def)
next
  case False
  then show ?thesis using assms
    by (cases "workable rv g") (auto simp add: enqueue_group_def split: if_splits)
qed

lemma enqueue_measure:
  "enqueue_group rv chosen g (queue, queued) = (queue', queued') \<Longrightarrow>
   card (unqueued rv queued') + length queue' \<le> card (unqueued rv queued) + length queue"
proof -
  assume e: "enqueue_group rv chosen g (queue, queued) = (queue', queued')"
  consider "queue' = queue" "queued' = queued"
    | r where "workable rv g = Some r" "pk_package r \<notin> set queued" "queue' = queue @ [pk_package r]"
      "queued' = pk_package r # queued"
    using enqueue_cases [OF e] by blast
  then show ?thesis
  proof cases
    case (2 r)
    have in_u: "pk_package r \<in> unqueued rv queued" by (rule workable_unqueued [OF 2(1,2)])
    have "unqueued rv queued' = unqueued rv queued - {pk_package r}"
      using 2(4) by (auto simp: unqueued_def)
    then have "card (unqueued rv queued') = card (unqueued rv queued) - 1"
      using in_u by (simp add: card_Diff_singleton)
    moreover have "0 < card (unqueued rv queued)" using in_u card_gt_0_iff by fastforce
    ultimately show ?thesis using 2(3) by simp
  qed simp
qed

lemma enqueue_all_measure:
  "fold (enqueue_group rv chosen) gs (queue, queued) = (queue', queued') \<Longrightarrow>
   card (unqueued rv queued') + length queue' \<le> card (unqueued rv queued) + length queue"
proof (induction gs arbitrary: queue queued)
  case (Cons g gs)
  obtain q1 d1 where g: "enqueue_group rv chosen g (queue, queued) = (q1, d1)" by fastforce
  with Cons have "card (unqueued rv queued') + length queue' \<le> card (unqueued rv d1) + length q1" by simp
  with enqueue_measure [OF g] show ?case by simp
qed simp

function resolve_loop :: "resolver \<Rightarrow> string list \<Rightarrow> string list \<Rightarrow> package_record sdict \<Rightarrow> package_record list \<Rightarrow>
    package_record list result" where
  "resolve_loop rv [] queued chosen order = Inr order"
| "resolve_loop rv (name # queue) queued chosen order =
     (case pick rv name of
        None \<Rightarrow> Inl (Exc ''KeyError'' (''cannot satisfy dependency: '' @ name))
      | Some r \<Rightarrow>
          if pk_package r \<in> set (dkeys chosen) then resolve_loop rv queue queued chosen order
          else (let chosen' = dput (pk_package r) r chosen;
                    (queue', queued') = fold (enqueue_group rv chosen') (parse_depends (pk_depends r)) (queue, queued)
                in resolve_loop rv queue' queued' chosen' (order @ [r])))"
  by pat_completeness auto
termination
proof (relation "measure (\<lambda>(rv, queue, queued, chosen, order). card (unqueued rv queued) + length queue)")
  fix rv queue queued chosen order r chosen' p queue' queued' and name :: string
  assume "chosen' = dput (pk_package r) r chosen"
    "p = fold (enqueue_group rv chosen') (parse_depends (pk_depends r)) (queue, queued)"
    "(queue', queued') = p"
  then have "card (unqueued rv queued') + length queue' \<le> card (unqueued rv queued) + length queue"
    by (intro enqueue_all_measure) simp
  then show "((rv, queue', queued', chosen', order @ [r]), rv, name # queue, queued, chosen, order)
      \<in> measure (\<lambda>(rv, queue, queued, chosen, order). card (unqueued rv queued) + length queue)"
    by simp
qed simp_all

definition resolve :: "resolver \<Rightarrow> string list \<Rightarrow> package_record list result" where
  "resolve rv seeds = resolve_loop rv seeds (remdups seeds) [] []"


subsection \<open>What the closure guarantees\<close>

definition fits :: "package_record list \<Rightarrow> string \<Rightarrow> package_record \<Rightarrow> bool" where
  "fits records arch r \<longleftrightarrow> r \<in> set records \<and> (pk_architecture r = arch \<or> pk_architecture r = ''all'')"

definition resolver_wf :: "(package_record \<Rightarrow> bool) \<Rightarrow> resolver \<Rightarrow> bool" where
  "resolver_wf P rv \<longleftrightarrow>
     (\<forall>k rs. dget (rv_candidates rv) k = Some rs \<longrightarrow> rs \<noteq> [] \<and> (\<forall>r\<in>set rs. pk_package r = k \<and> P r)) \<and>
     (\<forall>k rs. dget (rv_providers rv) k = Some rs \<longrightarrow> (\<forall>r\<in>set rs. P r))"

lemma dget_add_to: "dget (add_to k x d) j = (if j = k then Some (dgetd d k [] @ [x]) else dget d j)"
  by (simp add: add_to_def)

lemma dgetd_elem: "x \<in> set (dgetd d k []) \<Longrightarrow> \<exists>xs. dget d k = Some xs \<and> x \<in> set xs"
  by (cases "dget d k") (simp_all add: dgetd_def)

lemma add_providers:
  "P r \<Longrightarrow> \<forall>k rs. dget d k = Some rs \<longrightarrow> (\<forall>x\<in>set rs. P x) \<Longrightarrow>
   \<forall>k rs. dget (foldl (\<lambda>d v. add_to v r d) d vs) k = Some rs \<longrightarrow> (\<forall>x\<in>set rs. P x)"
proof (induction vs arbitrary: d)
  case (Cons v vs)
  have "\<forall>k rs. dget (add_to v r d) k = Some rs \<longrightarrow> (\<forall>x\<in>set rs. P x)"
    using Cons.prems(1,2) by (auto simp: dget_add_to dest!: dgetd_elem split: if_splits)
  then show ?case using Cons.IH [of "add_to v r d"] Cons.prems(1) by simp
qed simp

lemma resolver_wfI:
  "\<forall>k rs. dget c k = Some rs \<longrightarrow> rs \<noteq> [] \<and> (\<forall>r\<in>set rs. pk_package r = k \<and> P r) \<Longrightarrow>
   \<forall>k rs. dget p k = Some rs \<longrightarrow> (\<forall>r\<in>set rs. P r) \<Longrightarrow>
   resolver_wf P (rv\<lparr>rv_candidates := c, rv_providers := p\<rparr>)"
  by (simp add: resolver_wf_def)

lemma new_resolver_wf: "resolver_wf (fits records arch) (new_resolver records arch)"
proof -
  let ?step = "\<lambda>rv r. if pk_architecture r \<noteq> arch \<and> pk_architecture r \<noteq> ''all'' then rv
     else rv\<lparr>rv_candidates := add_to (pk_package r) r (rv_candidates rv),
             rv_providers := foldl (\<lambda>d v. add_to v r d) (rv_providers rv) (provides_names r)\<rparr>"
  have step: "resolver_wf (fits records arch) (?step rv r)"
    if "resolver_wf (fits records arch) rv" "r \<in> set records" for rv r
  proof (cases "pk_architecture r \<noteq> arch \<and> pk_architecture r \<noteq> ''all''")
    case False
    then have r: "fits records arch r" using that(2) by (auto simp: fits_def)
    have w: "\<forall>k rs. dget (rv_candidates rv) k = Some rs \<longrightarrow>
        rs \<noteq> [] \<and> (\<forall>r\<in>set rs. pk_package r = k \<and> fits records arch r)"
      "\<forall>k rs. dget (rv_providers rv) k = Some rs \<longrightarrow> (\<forall>r\<in>set rs. fits records arch r)"
      using that(1) by (simp_all add: resolver_wf_def)
    have c: "\<forall>k rs. dget (add_to (pk_package r) r (rv_candidates rv)) k = Some rs \<longrightarrow>
        rs \<noteq> [] \<and> (\<forall>x\<in>set rs. pk_package x = k \<and> fits records arch x)"
      using w(1) r by (auto simp: dget_add_to dest!: dgetd_elem split: if_splits)
    have "?step rv r = rv\<lparr>rv_candidates := add_to (pk_package r) r (rv_candidates rv),
        rv_providers := foldl (\<lambda>d v. add_to v r d) (rv_providers rv) (provides_names r)\<rparr>"
      using False by auto
    then show ?thesis using resolver_wfI [OF c add_providers [where P = "fits records arch", OF r w(2)]] by simp
  qed (use that in auto)
  have "set xs \<subseteq> set records \<Longrightarrow> resolver_wf (fits records arch) (foldl ?step \<lparr>rv_candidates = [], rv_providers = []\<rparr> xs)" for xs
  proof (induction xs rule: rev_induct)
    case Nil
    then show ?case by (simp add: resolver_wf_def)
  next
    case (snoc x xs)
    then show ?case using step [of "foldl ?step \<lparr>rv_candidates = [], rv_providers = []\<rparr> xs" x] by simp
  qed
  from this [of records] show ?thesis by (simp add: new_resolver_def)
qed

lemma pick_wf: "resolver_wf P rv \<Longrightarrow> pick rv n = Some r \<Longrightarrow>
    P r \<and> (\<exists>r'. pick rv (pk_package r) = Some r' \<and> pk_package r' = pk_package r)"
proof -
  assume w: "resolver_wf P rv" and p: "pick rv n = Some r"
  have cand: "\<exists>x. pick rv k = Some x \<and> pk_package x = k \<and> P x" if "k \<in> set (dkeys (rv_candidates rv))" for k
  proof -
    from that obtain rs where rs: "dget (rv_candidates rv) k = Some rs"
      by (metis dget_None_iff option.exhaust)
    then obtain c cs where c: "rs = c # cs" "\<forall>x\<in>set rs. pk_package x = k \<and> P x"
      using w by (cases rs) (auto simp: resolver_wf_def)
    have "sort_desc pk_version rs \<noteq> []" using c by (metis length_0_conv length_sort_desc list.distinct(1))
    then have "hd (sort_desc pk_version rs) \<in> set rs" by (metis hd_in_set set_sort_desc)
    then have "pk_package (hd (sort_desc pk_version rs)) = k \<and> P (hd (sort_desc pk_version rs))"
      using c(2) by blast
    then show ?thesis using c(1) rs by (simp add: pick_def dgetd_def)
  qed
  show ?thesis
  proof (cases "n \<in> set (dkeys (rv_candidates rv))")
    case True
    with cand [of n] p show ?thesis by auto
  next
    case False
    then have "dget (rv_candidates rv) n = None" by (simp add: dget_None_iff)
    then have f: "find (\<lambda>r. pk_package r \<in> set (dkeys (rv_candidates rv))) (dgetd (rv_providers rv) n []) = Some r"
      using p by (simp add: pick_def dgetd_def)
    then have r: "pk_package r \<in> set (dkeys (rv_candidates rv))" "r \<in> set (dgetd (rv_providers rv) n [])"
      by (auto simp: find_Some_iff)
    have "P r" using dgetd_elem [OF r(2)] w by (auto simp: resolver_wf_def)
    with cand [OF r(1)] show ?thesis by auto
  qed
qed

text \<open>A group is met by the chosen set, or cannot be met, or its choice is among the given names.\<close>

definition met :: "resolver \<Rightarrow> package_record sdict \<Rightarrow> string set \<Rightarrow> constraint list \<Rightarrow> bool" where
  "met rv chosen names g \<longleftrightarrow> list_ex (satisfied_by_chosen chosen) g \<or>
     (case workable rv g of None \<Rightarrow> True | Some r \<Rightarrow> pk_package r \<in> names)"

definition chosen_of :: "package_record list \<Rightarrow> package_record sdict" where
  "chosen_of order = map (\<lambda>r. (pk_package r, r)) order"

lemma chosen_keys [simp]: "dkeys (chosen_of order) = map pk_package order"
  by (simp add: chosen_of_def comp_def)

lemma chosen_snoc: "pk_package r \<notin> set (map pk_package order) \<Longrightarrow>
    dput (pk_package r) r (chosen_of order) = chosen_of (order @ [r])"
  using dput_fresh [of "pk_package r" "chosen_of order" r] by (simp add: chosen_of_def comp_def)

lemma satisfied_mono: "satisfied_by_chosen (chosen_of order) alt \<Longrightarrow>
    pk_package r \<notin> set (map pk_package order) \<Longrightarrow> satisfied_by_chosen (chosen_of (order @ [r])) alt"
  unfolding chosen_snoc [symmetric]
  by (auto simp: satisfied_by_chosen_def split: option.splits if_splits) (metis chosen_keys dget_None_iff list.set_map option.distinct(1))+

lemma met_mono: "met rv (chosen_of order) A g \<Longrightarrow> A \<subseteq> B \<Longrightarrow>
    pk_package r \<notin> set (map pk_package order) \<Longrightarrow> met rv (chosen_of (order @ [r])) B g"
  using satisfied_mono by (fastforce simp: met_def list_ex_iff split: option.splits)

lemma enqueue_all:
  "fold (enqueue_group rv chosen) gs (queue, queued) = (queue', queued') \<Longrightarrow>
   set queue \<subseteq> set queue' \<and> set queued \<subseteq> set queued' \<and> set queued' \<subseteq> set queued \<union> set queue' \<and>
   (\<forall>g\<in>set gs. met rv chosen (set (dkeys chosen) \<union> set queued') g)"
proof (induction gs arbitrary: queue queued)
  case (Cons g gs)
  obtain q1 d1 where g: "enqueue_group rv chosen g (queue, queued) = (q1, d1)" by fastforce
  have one: "set queue \<subseteq> set q1 \<and> set queued \<subseteq> set d1 \<and> set d1 \<subseteq> set queued \<union> set q1"
    using enqueue_cases [OF g] by auto
  have m: "met rv chosen (set (dkeys chosen) \<union> set d1) g"
    using g by (auto simp: enqueue_group_def met_def split: if_splits option.splits)
  have IH: "set q1 \<subseteq> set queue' \<and> set d1 \<subseteq> set queued' \<and> set queued' \<subseteq> set d1 \<union> set queue' \<and>
     (\<forall>g\<in>set gs. met rv chosen (set (dkeys chosen) \<union> set queued') g)"
    using Cons.IH [of q1 d1] Cons.prems g by simp
  have "met rv chosen (set (dkeys chosen) \<union> set queued') g"
    using m IH by (auto simp: met_def split: option.splits)
  with one IH show ?case by auto
qed auto

definition loop_inv :: "resolver \<Rightarrow> string list \<Rightarrow> string list \<Rightarrow> package_record list \<Rightarrow> bool" where
  "loop_inv rv queue queued order \<longleftrightarrow> distinct (map pk_package order) \<and>
     (\<forall>n\<in>set queued. n \<in> set queue \<or> (\<exists>r. pick rv n = Some r \<and> pk_package r \<in> pk_package ` set order)) \<and>
     (\<forall>r\<in>set order. \<forall>g\<in>set (parse_depends (pk_depends r)).
        met rv (chosen_of order) (pk_package ` set order \<union> set queued) g)"

definition closed_under :: "resolver \<Rightarrow> string list \<Rightarrow> package_record list \<Rightarrow> bool" where
  "closed_under rv names order \<longleftrightarrow> distinct (map pk_package order) \<and>
     (\<forall>n\<in>set names. \<exists>r. pick rv n = Some r \<and> pk_package r \<in> pk_package ` set order) \<and>
     (\<forall>r\<in>set order. \<forall>g\<in>set (parse_depends (pk_depends r)). met rv (chosen_of order) (pk_package ` set order) g)"

lemma resolve_loop_closed:
  "resolver_wf P rv \<Longrightarrow> chosen = chosen_of order \<Longrightarrow> loop_inv rv queue queued order \<Longrightarrow>
   list_all P order \<Longrightarrow> resolve_loop rv queue queued chosen order = Inr res \<Longrightarrow>
   list_all P res \<and> (\<exists>names. set queued \<subseteq> set names \<and> closed_under rv names res)"
proof (induction rv queue queued chosen order rule: resolve_loop.induct)
  case (1 rv queued chosen order)
  have "met rv (chosen_of order) (pk_package ` set order) g"
    if "met rv (chosen_of order) (pk_package ` set order \<union> set queued) g" for g
  proof (cases "workable rv g")
    case (Some w)
    then obtain n where "pick rv n = Some w"
      by (auto simp: workable_def split: option.splits if_splits dest!: first_some_in)
    then obtain w' where "pick rv (pk_package w) = Some w'" "pk_package w' = pk_package w"
      using pick_wf [OF "1.prems"(1)] by blast
    then show ?thesis using that "1.prems"(3) Some by (auto simp: met_def loop_inv_def)
  qed (simp add: met_def)
  with 1 show ?case by (auto simp: loop_inv_def closed_under_def intro!: exI [of _ queued])
next
  case (2 rv name queue queued chosen order)
  obtain r where r: "pick rv name = Some r" using "2.prems"(5) by (auto split: option.splits)
  show ?case
  proof (cases "pk_package r \<in> set (dkeys chosen)")
    case True
    then have "loop_inv rv queue queued order"
      using "2.prems"(2,3) r by (auto simp: loop_inv_def)
    then show ?thesis using "2.IH"(1) [OF r True] "2.prems" r True by simp
  next
    case False
    let ?chosen = "dput (pk_package r) r chosen"
    obtain q d where qd: "fold (enqueue_group rv ?chosen) (parse_depends (pk_depends r)) (queue, queued) = (q, d)"
      by fastforce
    have fresh: "pk_package r \<notin> set (map pk_package order)" using False "2.prems"(2) by simp
    have ch: "?chosen = chosen_of (order @ [r])" using chosen_snoc [OF fresh] "2.prems"(2) by simp
    have e: "set queue \<subseteq> set q" "set queued \<subseteq> set d" "set d \<subseteq> set queued \<union> set q"
      "\<forall>g\<in>set (parse_depends (pk_depends r)). met rv ?chosen (set (dkeys ?chosen) \<union> set d) g"
      using enqueue_all [OF qd] by auto
    have old: "met rv (chosen_of (order @ [r])) (pk_package ` set (order @ [r]) \<union> set d) g"
      if "x \<in> set order" "g \<in> set (parse_depends (pk_depends x))" for x g
      using "2.prems"(3) that e(2) by (intro met_mono [OF _ _ fresh]) (auto simp: loop_inv_def)
    have new: "met rv (chosen_of (order @ [r])) (pk_package ` set (order @ [r]) \<union> set d) g"
      if "g \<in> set (parse_depends (pk_depends r))" for g
    proof -
      have "set (dkeys ?chosen) = pk_package ` set (order @ [r])" unfolding ch by simp
      with e(4) that show ?thesis unfolding ch by auto
    qed
    have queued_ok: "n \<in> set q \<or> (\<exists>r'. pick rv n = Some r' \<and> pk_package r' \<in> pk_package ` set (order @ [r]))"
      if "n \<in> set d" for n
    proof (cases "n \<in> set queued")
      case True
      then have "n = name \<or> n \<in> set queue \<or> (\<exists>r. pick rv n = Some r \<and> pk_package r \<in> pk_package ` set order)"
        using "2.prems"(3) by (auto simp: loop_inv_def)
      then show ?thesis using r e(1) by auto
    qed (use that e(3) in auto)
    have "distinct (map pk_package (order @ [r]))"
      using "2.prems"(3) fresh by (simp add: loop_inv_def)
    moreover have "\<forall>x\<in>set (order @ [r]). \<forall>g\<in>set (parse_depends (pk_depends x)).
        met rv (chosen_of (order @ [r])) (pk_package ` set (order @ [r]) \<union> set d) g"
      using old new by simp
    ultimately have "loop_inv rv q d (order @ [r])"
      unfolding loop_inv_def using queued_ok by blast
    moreover have "P r" using pick_wf [OF "2.prems"(1) r] by simp
    moreover have "resolve_loop rv q d ?chosen (order @ [r]) = Inr res"
      using "2.prems"(5) r False qd by simp
    ultimately have "list_all P res \<and> (\<exists>names. set d \<subseteq> set names \<and> closed_under rv names res)"
      using "2.IH"(2) [OF r False refl qd [symmetric] refl "2.prems"(1) ch] "2.prems"(4) by simp
    with e(2) show ?thesis by (meson subset_trans)
  qed
qed


definition demo_package :: "string \<Rightarrow> string \<Rightarrow> string \<Rightarrow> package_record" where
  "demo_package n v deps = \<lparr>pk_package = n, pk_version = v, pk_architecture = ''all'', pk_section = [],
     pk_depends = deps, pk_pre_depends = [], pk_provides = [], pk_filename = [], pk_size = 0,
     pk_md5sum = [], pk_sha256 = [], pk_priority = [], pk_essential = False\<rparr>"

lemma demo_package_simps [simp]:
  "pk_package (demo_package n v d) = n" "pk_version (demo_package n v d) = v"
  "pk_depends (demo_package n v d) = d" "pk_architecture (demo_package n v d) = ''all''"
  "provides_names (demo_package n v d) = []"
  by (simp_all add: demo_package_def provides_names_def until_char_def str_strip_def strip_chars_def
      rstrip_chars_def lstrip_chars_def)


text \<open>
  Candidates are ranked by comparing version strings as text, not with \<open>vercmp\<close>: of 1.9 and 1.10 the
  resolver picks 1.9, which \<open>vercmp\<close> knows to be older.
\<close>

lemma pick_ignores_version_order:
  "\<exists>records r newer. pick (new_resolver records ''arm64'') ''a'' = Some r \<and> newer \<in> set records \<and>
     pk_package newer = ''a'' \<and> vercmp (pk_version r) (pk_version newer) = -1"
proof -
  let ?old = "demo_package ''a'' ''1.9'' []" and ?new = "demo_package ''a'' ''1.10'' []"
  have "pick (new_resolver [?old, ?new] ''arm64'') ''a'' = Some ?old"
    by (simp add: new_resolver_def add_to_def dgetd_def pick_def sort_desc_def)
  moreover have "vercmp ''1.9'' ''1.10'' = -1"
    by (simp add: split_version_def vercmp_def partition_char_def cmp_component_def cmp_part_def
        all_digits_def Let_def)
  ultimately show ?thesis
    by (intro exI [of _ "[?old, ?new]"] exI [of _ ?old] exI [of _ ?new]) simp
qed

text \<open>A dependency that nothing in the index satisfies is skipped without an error.\<close>

lemma parse_missing: "parse_depends ''libmissing'' = [[\<lparr>co_name = ''libmissing'', co_operator = [], co_version = []\<rparr>]]"
  by (simp add: parse_depends_def norm_deps_def str_strip_def strip_chars_def rstrip_chars_def lstrip_chars_def
      is_space_def code_def parse_alternative_def is_name_char_def is_alnum_def is_alpha_def is_digit_def
      match_constraint_def skip_arch_def)

lemma missing_dependency_skipped:
  "resolve (new_resolver [demo_package ''a'' ''1'' ''libmissing''] ''arm64'') [''a''] =
     Inr [demo_package ''a'' ''1'' ''libmissing'']"
proof -
  let ?a = "demo_package ''a'' ''1'' ''libmissing''"
  let ?rv = "\<lparr>rv_candidates = [(''a'', [?a])], rv_providers = []\<rparr>"
  have rv: "new_resolver [?a] ''arm64'' = ?rv" by (simp add: new_resolver_def add_to_def dgetd_def)
  have p: "pick ?rv ''a'' = Some ?a" "pick ?rv ''libmissing'' = None"
    by (simp_all add: pick_def dgetd_def sort_desc_def)
  have e: "enqueue_group ?rv [(''a'', ?a)] [\<lparr>co_name = ''libmissing'', co_operator = [], co_version = []\<rparr>] ([], [''a'']) = ([], [''a''])"
    by (simp add: enqueue_group_def satisfied_by_chosen_def workable_def first_some_def p)
  show ?thesis by (simp add: resolve_def rv p parse_missing e)
qed

end
