(* ===== verification/Exec.thy ===== *)
theory Exec
  imports Runtime
begin

text \<open>
  \<open>buster/exec.py\<close>: the closed command surface offered to the host bridge. The client's \<open>rpc\<close> is a
  state-passing function of the environment record, so that "never reaches the runtime" is that the
  state is the same; the diagnostics of \<open>health\<close>, the heartbeat file and the resolved install path
  are fields of it. Documents are kept as dictionaries in insertion order; printing sorts their keys.
\<close>

section \<open>Vocabulary and grammar\<close>

definition read_verbs :: "string list" where
  "read_verbs = [''status'', ''services'', ''capabilities'', ''health'', ''ping'']"

definition service_verbs :: "string list" where
  "service_verbs = [''service-start'', ''service-restart'', ''service-status'']"

definition read_views :: "string list" where
  "read_views = [''goals'', ''memory'', ''attention'', ''activity'', ''device'', ''settings'', ''jobs'']"

definition service_char :: "char \<Rightarrow> bool" where
  "service_char c \<longleftrightarrow> is_alnum c \<or> c = CHR ''_'' \<or> c = CHR ''.'' \<or> c = CHR ''-''"

definition is_valid_service_name :: "string \<Rightarrow> bool" where
  "is_valid_service_name name \<longleftrightarrow> 1 \<le> length name \<and> length name \<le> 64 \<and>
     is_alnum (hd name) \<and> list_all service_char (tl name)"

section \<open>Environment and documents\<close>

type_synonym document = "pyval sdict"

record 's exec_env =
  xe_install :: "string result"
  xe_online :: bool
  xe_version :: string
  xe_heartbeat :: pyval
  xe_checks :: "pyval sdict list"
  xe_float :: "pyfloat \<Rightarrow> string"
  xe_rpc :: "string \<Rightarrow> pyval sdict \<Rightarrow> 's \<Rightarrow> message result \<times> 's"

record exec_out =
  xo_code :: nat
  xo_documents :: "document list"
  xo_usage :: "string option"

definition index_key :: "string \<Rightarrow> pyval \<Rightarrow> pyval result" where
  "index_key k v =
     (case v of
        PDict d \<Rightarrow> (case dget d k of None \<Rightarrow> Inl (Exc ''KeyError'' (repr_str k)) | Some x \<Rightarrow> Inr x)
      | _ \<Rightarrow> Inl (Exc ''TypeError'' ''object is not subscriptable''))"

definition rpc_data :: "'s exec_env \<Rightarrow> string \<Rightarrow> pyval sdict \<Rightarrow> 's \<Rightarrow> pyval result \<times> 's" where
  "rpc_data env op payload s =
     (case xe_rpc env op payload s of
        (Inl e, s') \<Rightarrow> (Inl e, s')
      | (Inr r, s') \<Rightarrow> (index_key ''data'' (PDict r), s'))"

definition exc_text :: "exc \<Rightarrow> string" where
  "exc_text e = exc_type e @ '': '' @ exc_msg e"

definition is_runtime_exc :: "exc \<Rightarrow> bool" where
  "is_runtime_exc e \<longleftrightarrow> exc_type e = ''RuntimeOfflineError'' \<or> exc_type e = ''RuntimeRpcError''"

definition offline_text :: string where
  "offline_text = ''runtime offline; run '' @ [squote] @ ''buster start'' @ [squote] @ '' first''"

definition doc_ping :: "'s exec_env \<Rightarrow> 's \<Rightarrow> document result \<times> 's" where
  "doc_ping env s = (Inr [(''verb'', PStr ''ping''), (''ok'', PBool True), (''pong'', PBool True),
     (''version'', PStr (xe_version env)), (''online'', PBool (xe_online env))], s)"

definition doc_status :: "'s exec_env \<Rightarrow> 's \<Rightarrow> document result \<times> 's" where
  "doc_status env s =
     (let head = [(''verb'', PStr ''status''), (''ok'', PBool True), (''online'', PBool (xe_online env)),
            (''version'', PStr (xe_version env))]
      in if \<not> xe_online env then (Inr (head @ [(''runtime'', PNone), (''heartbeat'', xe_heartbeat env)]), s)
         else (case rpc_data env ''status'' [] s of
                 (Inl e, s') \<Rightarrow> (Inl e, s')
               | (Inr d, s') \<Rightarrow> (Inr (head @ [(''runtime'', d)]), s')))"

definition service_rows :: "'s exec_env \<Rightarrow> 's \<Rightarrow> pyval result \<times> 's" where
  "service_rows env s =
     (case rpc_data env ''services'' [] s of
        (Inl e, s') \<Rightarrow> (Inl e, s')
      | (Inr d, s') \<Rightarrow> (index_key ''services'' d, s'))"

definition doc_services :: "'s exec_env \<Rightarrow> 's \<Rightarrow> document result \<times> 's" where
  "doc_services env s =
     (let head = [(''verb'', PStr ''services''), (''ok'', PBool True), (''online'', PBool (xe_online env)),
            (''version'', PStr (xe_version env))]
      in if \<not> xe_online env then (Inr (head @ [(''services'', PList [])]), s)
         else (case service_rows env s of
                 (Inl e, s') \<Rightarrow> (Inl e, s')
               | (Inr rows, s') \<Rightarrow> (Inr (head @ [(''services'', rows)]), s')))"

definition doc_capabilities :: "'s exec_env \<Rightarrow> 's \<Rightarrow> document result \<times> 's" where
  "doc_capabilities env s =
     (let head = [(''verb'', PStr ''capabilities''), (''ok'', PBool True), (''online'', PBool (xe_online env)),
            (''version'', PStr (xe_version env))]
      in if \<not> xe_online env then
           (Inr (head @ [(''capabilities'', PList []), (''actions'', PList []), (''error'', PStr ''runtime offline'')]), s)
         else (case rpc_data env ''caps'' [] s of
                 (Inl e, s') \<Rightarrow> (Inl e, s')
               | (Inr (PDict d), s') \<Rightarrow> (Inr (dmerge head d), s')
               | (Inr _, s') \<Rightarrow> (Inl (Exc ''TypeError'' ''object is not iterable''), s')))"

fun failed_checks :: "document list \<Rightarrow> nat result" where
  "failed_checks [] = Inr 0"
| "failed_checks (c # cs) =
     (case index_key ''ok'' (PDict c) of
        Inl e \<Rightarrow> Inl e
      | Inr v \<Rightarrow> (case failed_checks cs of Inl e \<Rightarrow> Inl e | Inr n \<Rightarrow> Inr ((if truthy v then 0 else 1) + n)))"

definition doc_health :: "'s exec_env \<Rightarrow> 's \<Rightarrow> document result \<times> 's" where
  "doc_health env s =
     (case failed_checks (xe_checks env) of
        Inl e \<Rightarrow> (Inl e, s)
      | Inr n \<Rightarrow> (Inr [(''verb'', PStr ''health''), (''ok'', PBool True), (''online'', PBool (xe_online env)),
          (''version'', PStr (xe_version env)), (''checks'', PList (map PDict (xe_checks env))),
          (''failed'', PInt (int n))], s))"

definition gui_url :: string where "gui_url = ''http://127.0.0.1:8468''"

definition doc_present :: "'s exec_env \<Rightarrow> string \<Rightarrow> 's \<Rightarrow> document result \<times> 's" where
  "doc_present env install s =
     (let doc = [(''verb'', PStr ''present''), (''ok'', PBool True), (''version'', PStr (xe_version env)),
            (''install_path'', PStr install), (''online'', PBool (xe_online env)), (''ready'', PBool False),
            (''url'', PNone), (''error'', PNone)]
      in if \<not> xe_online env then (Inr (dput ''error'' (PStr offline_text) doc), s)
         else (case rpc_data env ''status'' [] s of
                 (Inl e, s') \<Rightarrow> ((if is_runtime_exc e then Inr (dput ''error'' (PStr (exc_text e)) doc) else Inl e), s')
               | (Inr (PDict status), s') \<Rightarrow>
                   (let st = dgetd status ''state'' PNone; doc1 = dput ''runtime_state'' st doc
                    in if st \<noteq> PStr ''running''
                       then (Inr (dput ''error'' (PStr (''runtime state is '' @ py_repr (xe_float env) st)) doc1), s')
                       else (Inr (dput ''url'' (PStr gui_url) (dput ''ready'' (PBool True) doc1)), s'))
               | (Inr _, s') \<Rightarrow> (Inl (Exc ''AttributeError'' ''object has no attribute get''), s')))"

definition doc_deployment :: "'s exec_env \<Rightarrow> 's \<Rightarrow> document result \<times> 's" where
  "doc_deployment env s =
     (let doc = [(''verb'', PStr ''deployment''), (''ok'', PBool True), (''version'', PStr (xe_version env)),
            (''deploymentFormatVersion'', PStr ''1''), (''runtimeState'', PStr ''unknown''),
            (''bridgeContractVersion'', PStr ''11''), (''compatibility'', PStr ''unknown'')];
          failed = (\<lambda>m. doc @ [(''deployed'', PBool False), (''error'', PStr m)])
      in if \<not> xe_online env then (Inr (failed offline_text), s)
         else (case rpc_data env ''status'' [] s of
                 (Inl e, s') \<Rightarrow> ((if is_runtime_exc e then Inr (failed (exc_text e)) else Inl e), s')
               | (Inr (PDict status), s') \<Rightarrow>
                   (Inr (dput ''compatibility'' (PStr ''current'') (dput ''runtimeState''
                      (py_or (dgetd status ''state'' PNone) (PStr ''unknown'')) (doc @ [(''deployed'', PBool True)]))), s')
               | (Inr _, s') \<Rightarrow> (Inl (Exc ''AttributeError'' ''object has no attribute get''), s')))"

text \<open>\<open>RemoteKernel.intel_view\<close>: the data of the response, an empty object where it has none.\<close>

definition intel_view :: "'s exec_env \<Rightarrow> string \<Rightarrow> 's \<Rightarrow> pyval result \<times> 's" where
  "intel_view env section s =
     (case xe_rpc env ''intel'' [(''section'', PStr section)] s of
        (Inl e, s') \<Rightarrow> (Inl e, s')
      | (Inr r, s') \<Rightarrow> (Inr (dgetd r ''data'' (PDict [])), s'))"

definition doc_read :: "'s exec_env \<Rightarrow> string \<Rightarrow> 's \<Rightarrow> document result \<times> 's" where
  "doc_read env view s =
     (let failed = (\<lambda>m. [(''verb'', PStr ''read''), (''ok'', PBool False), (''view'', PStr view), (''error'', PStr m)])
      in if view \<notin> set read_views then
           (Inr [(''verb'', PStr ''read''), (''ok'', PBool False), (''error'', PStr (''unknown view: '' @ repr_str view)),
              (''available'', PList (map PStr read_views))], s)
         else if \<not> xe_online env then (Inr (failed offline_text), s)
         else (case intel_view env view s of
                 (Inl e, s') \<Rightarrow> ((if is_runtime_exc e then Inr (failed (exc_text e)) else Inl e), s')
               | (Inr d, s') \<Rightarrow> (Inr [(''verb'', PStr ''read''), (''ok'', PBool True), (''view'', PStr view),
                   (''schema'', PStr ''buster.view/1''), (''data'', d)], s')))"

definition read_doc :: "string \<Rightarrow> 's exec_env \<Rightarrow> string \<Rightarrow> 's \<Rightarrow> document result \<times> 's" where
  "read_doc verb env install s =
     (if verb = ''ping'' then doc_ping env s
      else if verb = ''status'' then doc_status env s
      else if verb = ''services'' then doc_services env s
      else if verb = ''capabilities'' then doc_capabilities env s
      else if verb = ''health'' then doc_health env s
      else if verb = ''present'' then doc_present env install s
      else doc_deployment env s)"

section \<open>Entry point\<close>

definition exec_usage :: "string \<Rightarrow> exec_out" where
  "exec_usage m = \<lparr>xo_code = 2, xo_documents = [], xo_usage = Some m\<rparr>"

definition exec_error :: "string \<Rightarrow> string \<Rightarrow> exec_out" where
  "exec_error verb m = \<lparr>xo_code = 1, xo_documents =
     [[(''verb'', PStr verb), (''ok'', PBool False), (''error'', PStr m)]], xo_usage = None\<rparr>"

definition exec_done :: "document \<Rightarrow> exec_out" where
  "exec_done d = \<lparr>xo_code = 0, xo_documents = [d], xo_usage = None\<rparr>"

text \<open>The row of a service name: \<open>next((r for r in rows if r["name"] == name), None)\<close>.\<close>

fun find_row :: "string \<Rightarrow> pyval list \<Rightarrow> pyval option result" where
  "find_row name [] = Inr None"
| "find_row name (r # rs) =
     (case index_key ''name'' r of
        Inl e \<Rightarrow> Inl e
      | Inr v \<Rightarrow> if v = PStr name then Inr (Some r) else find_row name rs)"

definition ctl_status :: "'s exec_env \<Rightarrow> string \<Rightarrow> string \<Rightarrow> 's \<Rightarrow> exec_out \<times> 's" where
  "ctl_status env verb name s =
     (case service_rows env s of
        (Inl e, s') \<Rightarrow> (exec_error verb (exc_text e), s')
      | (Inr (PList rows), s') \<Rightarrow>
          (case find_row name rows of
             Inl e \<Rightarrow> (exec_error verb (exc_text e), s')
           | Inr None \<Rightarrow> (exec_error verb (''unknown service '' @ [squote] @ name @ [squote]), s')
           | Inr (Some row) \<Rightarrow> (exec_done [(''verb'', PStr verb), (''ok'', PBool True), (''name'', PStr name),
               (''service'', row)], s'))
      | (Inr _, s') \<Rightarrow> (exec_error verb ''TypeError: object is not iterable'', s'))"

definition ctl_op :: "string \<Rightarrow> string" where
  "ctl_op verb = (if verb = ''service-start'' then ''service_start'' else ''service_restart'')"

text \<open>
  After the \<open>try\<close>, an answer without \<open>data\<close>, or whose \<open>data\<close> is no object, raises out of the program.
\<close>

definition ctl_service :: "'s exec_env \<Rightarrow> string \<Rightarrow> string \<Rightarrow> 's \<Rightarrow> exec_out result \<times> 's" where
  "ctl_service env verb name s =
     (case xe_install env of
        Inl e \<Rightarrow> (Inl e, s)
      | Inr install \<Rightarrow>
          if \<not> xe_online env then (Inr (exec_error verb offline_text), s)
          else if verb = ''service-status'' then (let (x, s') = ctl_status env verb name s in (Inr x, s'))
          else
            (case xe_rpc env (ctl_op verb) [(''name'', PStr name)] s of
               (Inl e, s') \<Rightarrow> (Inr (exec_error verb (exc_text e)), s')
             | (Inr r, s') \<Rightarrow>
                 if \<not> truthy (dgetd r ''ok'' PNone) then
                   (Inr (exec_error verb (py_str (xe_float env) (dgetd r ''error'' (PStr ''service op failed'')))), s')
                 else
                   (case index_key ''data'' (PDict r) of
                      Inl e \<Rightarrow> (Inl e, s')
                    | Inr (PDict d) \<Rightarrow> (Inr (exec_done (dmerge d [(''verb'', PStr verb), (''ok'', PBool True),
                        (''name'', PStr name)])), s')
                    | Inr _ \<Rightarrow> (Inl (Exc ''TypeError'' ''object is not iterable''), s'))))"

definition run_read :: "string \<Rightarrow> (string \<Rightarrow> 's \<Rightarrow> document result \<times> 's) \<Rightarrow> 's exec_env \<Rightarrow> 's \<Rightarrow> exec_out result \<times> 's" where
  "run_read verb f env s =
     (case xe_install env of
        Inl e \<Rightarrow> (Inr (exec_error verb (exc_text e)), s)
      | Inr install \<Rightarrow>
          (case f install s of
             (Inl e, s') \<Rightarrow> (Inr (exec_error verb (exc_text e)), s')
           | (Inr d, s') \<Rightarrow> (Inr (exec_done d), s')))"

definition exec_main :: "'s exec_env \<Rightarrow> string list \<Rightarrow> 's \<Rightarrow> exec_out result \<times> 's" where
  "exec_main env args s =
     (case args of
        [] \<Rightarrow> (Inr (exec_usage ''buster exec requires a supported operation''), s)
      | verb # rest \<Rightarrow>
          if verb \<in> set service_verbs then
            (case rest of
               [name] \<Rightarrow>
                 if \<not> is_valid_service_name name
                 then (Inr (exec_usage (''invalid service name: '' @ repr_str name)), s)
                 else ctl_service env verb name s
             | _ \<Rightarrow> (Inr (exec_usage (''buster '' @ verb @ '' requires exactly one service name'')), s))
          else if verb = ''read'' then
            (case rest of
               [view] \<Rightarrow>
                 if view \<notin> set read_views
                 then (Inr (exec_usage (''unknown view: '' @ repr_str view @ ''; expected one of '' @ join_str '', '' read_views)), s)
                 else run_read verb (\<lambda>_. doc_read env view) env s
             | _ \<Rightarrow> (Inr (exec_usage (''buster '' @ verb @ '' requires exactly one view'')), s))
          else if verb \<in> set read_verbs \<or> verb = ''present'' \<or> verb = ''deployment'' then
            (if rest \<noteq> [] then (Inr (exec_usage (''buster '' @ verb @ '' takes no arguments'')), s)
             else run_read verb (read_doc verb env) env s)
          else (Inr (exec_usage (''unknown exec operation: '' @ repr_str verb)), s))"

section \<open>What the surface admits\<close>

definition admitted :: "string list \<Rightarrow> bool" where
  "admitted args \<longleftrightarrow>
     (case args of
        [verb] \<Rightarrow> verb \<in> set read_verbs \<or> verb = ''present'' \<or> verb = ''deployment''
      | [verb, x] \<Rightarrow> verb \<in> set service_verbs \<and> is_valid_service_name x \<or> verb = ''read'' \<and> x \<in> set read_views
      | _ \<Rightarrow> False)"

lemma verbs_apart: "verb \<in> set service_verbs \<Longrightarrow> verb \<noteq> ''read'' \<and> verb \<notin> set read_verbs \<and> verb \<noteq> ''present'' \<and> verb \<noteq> ''deployment''"
  by (auto simp: service_verbs_def read_verbs_def)


definition closed_ops :: "string list" where
  "closed_ops = [''status'', ''services'', ''caps'', ''intel'', ''service_start'', ''service_restart'']"

text \<open>An environment that records the operation names of the calls it passes on.\<close>

definition traced :: "'s exec_env \<Rightarrow> (string list \<times> 's) exec_env" where
  "traced env = \<lparr>xe_install = xe_install env, xe_online = xe_online env, xe_version = xe_version env,
     xe_heartbeat = xe_heartbeat env, xe_checks = xe_checks env, xe_float = xe_float env,
     xe_rpc = (\<lambda>op payload (tr, s). let (r, s') = xe_rpc env op payload s in (r, (tr @ [op], s')))\<rparr>"

definition one_closed_call :: "string list \<Rightarrow> string list \<Rightarrow> bool" where
  "one_closed_call tr tr' \<longleftrightarrow> tr' = tr \<or> (\<exists>op\<in>set closed_ops. tr' = tr @ [op])"

lemma traced_simps [simp]:
  "xe_install (traced env) = xe_install env" "xe_online (traced env) = xe_online env"
  "xe_version (traced env) = xe_version env" "xe_heartbeat (traced env) = xe_heartbeat env"
  "xe_checks (traced env) = xe_checks env" "xe_float (traced env) = xe_float env"
  by (simp_all add: traced_def)

lemma traced_rpc: "fst (snd (xe_rpc (traced env) op payload (tr, s))) = tr @ [op]"
  by (simp add: traced_def Let_def split_beta)

lemma traced_data [simp]: "fst (snd (rpc_data (traced env) op payload (tr, s))) = tr @ [op]"
  using traced_rpc [of env op payload tr s]
  by (auto simp: rpc_data_def split: prod.splits sum.splits)

lemma traced_rows [simp]: "fst (snd (service_rows (traced env) (tr, s))) = tr @ [''services'']"
  using traced_data [of env "''services''" "[]" tr s]
  by (cases "rpc_data (traced env) ''services'' [] (tr, s)") (auto simp: service_rows_def split: sum.splits)

lemma one_call_data: "op \<in> set closed_ops \<Longrightarrow> rpc_data (traced env) op payload (tr, s) = (r, t) \<Longrightarrow>
    one_closed_call tr (fst t)"
  using traced_data [of env op payload tr s] by (auto simp: one_closed_call_def)

lemma one_call_rpc: "op \<in> set closed_ops \<Longrightarrow> xe_rpc (traced env) op payload (tr, s) = (r, t) \<Longrightarrow>
    one_closed_call tr (fst t)"
  using traced_rpc [of env op payload tr s] by (auto simp: one_closed_call_def)

lemma one_call_rows: "service_rows (traced env) (tr, s) = (r, t) \<Longrightarrow> one_closed_call tr (fst t)"
  using traced_rows [of env tr s] by (auto simp: one_closed_call_def closed_ops_def)

lemma no_call [simp]: "one_closed_call tr tr"
  by (simp add: one_closed_call_def)

lemma closed_members [simp]: "''status'' \<in> set closed_ops" "''caps'' \<in> set closed_ops" "''intel'' \<in> set closed_ops"
    "ctl_op verb \<in> set closed_ops"
  by (auto simp: closed_ops_def ctl_op_def)

lemma doc_ping_calls: "one_closed_call tr (fst (snd (doc_ping (traced env) (tr, s))))"
  by (simp add: doc_ping_def)

lemma doc_health_calls: "one_closed_call tr (fst (snd (doc_health (traced env) (tr, s))))"
  by (simp add: doc_health_def Let_def split: sum.splits)

lemma doc_status_calls: "one_closed_call tr (fst (snd (doc_status (traced env) (tr, s))))"
proof (cases "rpc_data (traced env) ''status'' [] (tr, s)" rule: prod.exhaust)
  case (Pair r t)
  with one_call_data [OF closed_members(1) Pair] show ?thesis by (simp add: doc_status_def Let_def split: sum.splits)
qed

lemma doc_services_calls: "one_closed_call tr (fst (snd (doc_services (traced env) (tr, s))))"
proof (cases "service_rows (traced env) (tr, s)" rule: prod.exhaust)
  case (Pair r t)
  with one_call_rows [OF Pair] show ?thesis by (simp add: doc_services_def Let_def split: sum.splits)
qed

lemma doc_capabilities_calls: "one_closed_call tr (fst (snd (doc_capabilities (traced env) (tr, s))))"
proof (cases "rpc_data (traced env) ''caps'' [] (tr, s)" rule: prod.exhaust)
  case (Pair r t)
  with one_call_data [OF closed_members(2) Pair] show ?thesis
    by (simp add: doc_capabilities_def Let_def split: sum.splits pyval.splits)
qed

lemma doc_present_calls: "one_closed_call tr (fst (snd (doc_present (traced env) install (tr, s))))"
proof (cases "rpc_data (traced env) ''status'' [] (tr, s)" rule: prod.exhaust)
  case (Pair r t)
  with one_call_data [OF closed_members(1) Pair] show ?thesis
    by (simp add: doc_present_def Let_def split: sum.splits pyval.splits)
qed

lemma doc_deployment_calls: "one_closed_call tr (fst (snd (doc_deployment (traced env) (tr, s))))"
proof (cases "rpc_data (traced env) ''status'' [] (tr, s)" rule: prod.exhaust)
  case (Pair r t)
  with one_call_data [OF closed_members(1) Pair] show ?thesis
    by (simp add: doc_deployment_def Let_def split: sum.splits pyval.splits)
qed

lemma read_doc_calls: "one_closed_call tr (fst (snd (read_doc verb (traced env) install (tr, s))))"
  by (simp add: read_doc_def doc_ping_calls doc_status_calls doc_services_calls doc_capabilities_calls
      doc_health_calls doc_present_calls doc_deployment_calls)

lemma doc_read_calls: "one_closed_call tr (fst (snd (doc_read (traced env) view (tr, s))))"
proof (cases "xe_rpc (traced env) ''intel'' [(''section'', PStr view)] (tr, s)" rule: prod.exhaust)
  case (Pair r t)
  with one_call_rpc [OF closed_members(3) Pair] show ?thesis
    by (simp add: doc_read_def intel_view_def Let_def split: sum.splits)
qed

lemma ctl_status_calls: "one_closed_call tr (fst (snd (ctl_status (traced env) verb name (tr, s))))"
proof (cases "service_rows (traced env) (tr, s)" rule: prod.exhaust)
  case (Pair r t)
  with one_call_rows [OF Pair] show ?thesis
    by (simp add: ctl_status_def split: sum.splits pyval.splits option.splits)
qed

lemma ctl_calls: "one_closed_call tr (fst (snd (ctl_service (traced env) verb name (tr, s))))"
proof (cases "xe_rpc (traced env) (ctl_op verb) [(''name'', PStr name)] (tr, s)" rule: prod.exhaust)
  case (Pair r t)
  with one_call_rpc [OF closed_members(4) Pair] show ?thesis
    by (simp add: ctl_service_def ctl_status_calls case_prod_unfold Let_def split: sum.splits pyval.splits)
qed

lemma run_read_calls:
  "(\<And>i. one_closed_call tr (fst (snd (f i (tr, s))))) \<Longrightarrow>
   one_closed_call tr (fst (snd (run_read verb f env (tr, s))))"
proof -
  assume "\<And>i. one_closed_call tr (fst (snd (f i (tr, s))))"
  then have "f i (tr, s) = (r, t) \<Longrightarrow> one_closed_call tr (fst t)" for i r t by (metis snd_conv)
  then show ?thesis by (auto simp: run_read_def split: sum.splits prod.splits)
qed

text \<open>
  Whatever the arguments are, one invocation sends the runtime at most one request, and its operation
  is one of status, services, caps, intel, service_start and service_restart: there is no path from
  an argument to any other operation.
\<close>

lemma exec_vocabulary_closed:
  "one_closed_call tr (fst (snd (exec_main (traced env) args (tr, s))))"
  unfolding exec_main_def
  by (auto split: list.splits intro: ctl_calls run_read_calls read_doc_calls doc_read_calls)

lemma run_read_document:
  "run_read verb f env s = (Inr out, s') \<Longrightarrow> length (xo_documents out) = 1 \<and> xo_code out < 2"
  by (auto simp: run_read_def exec_error_def exec_done_def split: sum.splits prod.splits)

lemma ctl_status_document: "length (xo_documents (fst (ctl_status env verb name s))) = 1 \<and>
    xo_code (fst (ctl_status env verb name s)) < 2"
  by (simp add: ctl_status_def exec_error_def exec_done_def split_beta split: sum.splits prod.splits option.splits pyval.splits)

lemma ctl_service_document:
  "ctl_service env verb name s = (Inr out, s') \<Longrightarrow> length (xo_documents out) = 1 \<and> xo_code out < 2"
  using ctl_status_document [of env verb name s]
  by (auto simp: ctl_service_def exec_error_def exec_done_def Let_def split_beta
      split: sum.splits prod.splits pyval.splits if_splits)

lemma admitted_cases:
  assumes "admitted args"
  obtains verb where "args = [verb]" "verb \<in> set read_verbs \<or> verb = ''present'' \<or> verb = ''deployment''"
    | verb x where "args = [verb, x]" "verb \<in> set service_verbs" "is_valid_service_name x"
    | x where "args = [''read'', x]" "x \<in> set read_views"
  using assms by (auto simp: admitted_def split: list.splits)

text \<open>
  C16. An admitted invocation that does not raise ends with exactly one document and exit code 0 or 1,
  whatever the runtime answers: never with the usage code, never silently, never with two documents.
\<close>

theorem admitted_one_document:
  assumes "admitted args" and "exec_main env args s = (Inr out, s')"
  shows "length (xo_documents out) = 1 \<and> xo_code out < 2"
proof (cases rule: admitted_cases [OF assms(1)])
  case (1 verb)
  then have "verb \<notin> set service_verbs" "verb \<noteq> ''read''" by (auto simp: read_verbs_def service_verbs_def)
  with 1 assms(2) have "run_read verb (read_doc verb env) env s = (Inr out, s')" by (simp add: exec_main_def)
  then show ?thesis by (rule run_read_document)
next
  case (2 verb x)
  with assms(2) have "ctl_service env verb x s = (Inr out, s')" by (simp add: exec_main_def)
  then show ?thesis by (rule ctl_service_document)
next
  case (3 x)
  with assms(2) have "run_read ''read'' (\<lambda>_. doc_read env x) env s = (Inr out, s')"
    by (simp add: exec_main_def service_verbs_def)
  then show ?thesis by (rule run_read_document)
qed

definition demo_env :: "nat exec_env" where
  "demo_env = \<lparr>xe_install = Inr ''/b'', xe_online = True, xe_version = ''1'', xe_heartbeat = PNone, xe_checks = [],
     xe_float = (\<lambda>_. ''0.0''), xe_rpc = (\<lambda>op p n. (Inr [(''ok'', PBool True), (''data'',
       PDict [(''services'', PList [PDict [(''name'', PStr ''scheduler'')]])])], n + 1))\<rparr>"


lemma demo_service_start:
  "exec_main demo_env [''service-start'', ''scheduler''] 0 =
     (Inr \<lparr>xo_code = 0, xo_documents = [[(''services'', PList [PDict [(''name'', PStr ''scheduler'')]]),
        (''verb'', PStr ''service-start''), (''ok'', PBool True), (''name'', PStr ''scheduler'')]], xo_usage = None\<rparr>, 1)"
  by code_simp

lemma admitted_one_document_witness:
  "length (xo_documents \<lparr>xo_code = 0, xo_documents = [[(''services'', PList [PDict [(''name'', PStr ''scheduler'')]]),
        (''verb'', PStr ''service-start''), (''ok'', PBool True), (''name'', PStr ''scheduler'')]], xo_usage = None\<rparr>) = 1 \<and>
   xo_code \<lparr>xo_code = 0, xo_documents = [[(''services'', PList [PDict [(''name'', PStr ''scheduler'')]]),
        (''verb'', PStr ''service-start''), (''ok'', PBool True), (''name'', PStr ''scheduler'')]], xo_usage = None\<rparr> < 2"
  by (rule admitted_one_document [OF _ demo_service_start])
    code_simp

text \<open>A read that the offline runtime refuses reports the failure in its document and still exits 0.\<close>

lemma offline_read_exits_zero:
  "\<not> xe_online env \<Longrightarrow> xe_install env = Inr i \<Longrightarrow>
   \<exists>d. exec_main env [''read'', ''goals''] s = (Inr \<lparr>xo_code = 0, xo_documents = [d], xo_usage = None\<rparr>, s) \<and>
     dget d ''ok'' = Some (PBool False)"
  by (simp add: exec_main_def service_verbs_def read_views_def run_read_def doc_read_def exec_done_def)

end
