(* ===== verification/Deb.thy ===== *)
theory Deb
  imports Resolver
begin

text \<open>
  \<open>buster/osbuild/deb.py\<close>: Debian archives. A blob is its bytes, a list of characters. Offsets are
  Python integers: a size field may read as a negative number, so a slice may count from the end and
  the loop of \<open>parse_ar\<close> may never end; it is a partial function whose value is then \<open>None\<close>. Text
  decoded from the blob is kept as its bytes, on which the decoder agrees for ASCII; a byte that the
  ASCII decoder replaces is the character 0xFF, no digit and no space either. Reading the (compressed)
  tar members is the parameter \<open>untar\<close>.
\<close>

section \<open>Slices\<close>

definition slice_index :: "nat \<Rightarrow> int \<Rightarrow> nat" where
  "slice_index n i = (if i < 0 then nat (max 0 (i + int n)) else min (nat i) n)"

definition py_slice :: "int \<Rightarrow> int \<Rightarrow> 'a list \<Rightarrow> 'a list" where
  "py_slice a b xs =
     (let lo = slice_index (length xs) a; hi = slice_index (length xs) b in take (hi - lo) (drop lo xs))"

lemma py_slice_nat: "0 \<le> a \<Longrightarrow> a \<le> b \<Longrightarrow> b \<le> int (length xs) \<Longrightarrow>
    py_slice a b xs = take (nat (b - a)) (drop (nat a) xs)"
  by (auto simp: py_slice_def slice_index_def Let_def min_def nat_diff_distrib)

lemma py_slice_append: "int (length p) = a \<Longrightarrow> int (length p) + int (length x) = b \<Longrightarrow> py_slice a b (p @ x @ s) = x"
  by (subst py_slice_nat) auto

section \<open>\<open>parse_ar\<close>\<close>

type_synonym bytes = string
type_synonym members = "(string \<times> bytes) list"

definition ar_magic :: bytes where
  "ar_magic = ''!<arch>'' @ [CHR 0x0A]"

definition ascii_replace :: "bytes \<Rightarrow> string" where
  "ascii_replace s = map (\<lambda>c. if code c < 128 then c else CHR 0xFF) s"

definition name_pad :: "char \<Rightarrow> bool" where
  "name_pad c \<longleftrightarrow> c = CHR '' '' \<or> c = CHR ''/''"

definition header_at :: "bytes \<Rightarrow> int \<Rightarrow> bytes" where
  "header_at data off = py_slice off (off + 60) data"

definition header_name :: "bytes \<Rightarrow> string" where
  "header_name h = rstrip_chars name_pad (take 16 h)"

definition header_size :: "bytes \<Rightarrow> int option" where
  "header_size h = py_int_of (str_strip (ascii_replace (take 10 (drop 48 h))))"

definition even_up :: "int \<Rightarrow> int" where
  "even_up i = (if i mod 2 = 0 then i else i + 1)"

partial_function (option) ar_loop :: "bytes \<Rightarrow> int \<Rightarrow> members \<Rightarrow> members option" where
  "ar_loop data off members =
     (if off + 60 \<le> int (length data) then
        (case header_size (header_at data off) of
           None \<Rightarrow> Some members
         | Some sz \<Rightarrow>
             if off + 60 > int (length data) \<or> off + 60 + sz > int (length data) then Some members
             else ar_loop data (even_up (off + 60 + sz))
                    (members @ [(header_name (header_at data off), py_slice (off + 60) (off + 60 + sz) data)]))
      else Some members)"

declare ar_loop.simps [code]

definition symbol_table :: "string \<times> bytes \<Rightarrow> bool" where
  "symbol_table m \<longleftrightarrow> startswith (fst m) ''//''"

definition parse_ar :: "bytes \<Rightarrow> members result option" where
  "parse_ar data =
     (if take 8 data \<noteq> ar_magic then Some (Inl (Exc ''ValueError'' ''not a valid ar archive''))
      else (case ar_loop data 8 [] of
              None \<Rightarrow> None
            | Some ms \<Rightarrow> Some (Inr (filter (\<lambda>m. \<not> symbol_table m) ms))))"

section \<open>When it returns\<close>

definition size_nonneg_at :: "bytes \<Rightarrow> nat \<Rightarrow> bool" where
  "size_nonneg_at data off = (case header_size (header_at data (int off)) of None \<Rightarrow> True | Some n \<Rightarrow> 0 \<le> n)"

text \<open>No 60-byte window of the blob has a negative number in its size field.\<close>

definition sizes_nonneg :: "bytes \<Rightarrow> bool" where
  "sizes_nonneg data = list_all (size_nonneg_at data) [0..<length data]"

lemma even_up_ge: "i \<le> even_up i"
  by (simp add: even_up_def)

lemma ar_loop_returns:
  assumes "sizes_nonneg data" and "0 \<le> off"
  shows "\<exists>ms. ar_loop data off acc = Some ms"
  using assms(2)
proof (induction "nat (int (length data) - off)" arbitrary: off acc rule: less_induct)
  case less
  show ?case
  proof (cases "off + 60 \<le> int (length data)")
    case True
    then have in_data: "nat off < length data" using less.prems by linarith
    show ?thesis
    proof (cases "header_size (header_at data off)")
      case None
      then show ?thesis by (subst ar_loop.simps) simp
    next
      case (Some sz)
      with assms(1) in_data less.prems have "0 \<le> sz"
        by (auto simp: sizes_nonneg_def list_all_iff size_nonneg_at_def dest!: bspec [of _ _ "nat off"])
      then have up: "off < even_up (off + 60 + sz)" "0 \<le> even_up (off + 60 + sz)"
        using even_up_ge [of "off + 60 + sz"] less.prems by linarith+
      then have "nat (int (length data) - even_up (off + 60 + sz)) < nat (int (length data) - off)"
        using True by linarith
      from less.hyps [OF this up(2)] have "\<exists>ms. ar_loop data (even_up (off + 60 + sz)) acc' = Some ms" for acc' .
      then show ?thesis using Some by (subst ar_loop.simps) simp
    qed
  qed (subst ar_loop.simps, simp)
qed



text \<open>The witness archive holds one member of size zero.\<close>

definition pad_to :: "nat \<Rightarrow> string \<Rightarrow> string" where
  "pad_to n s = s @ replicate (n - length s) CHR '' ''"

definition ar_header :: "string \<Rightarrow> string \<Rightarrow> bytes" where
  "ar_header name sz = pad_to 48 (pad_to 16 name) @ pad_to 10 sz @ [CHR 0x60, CHR 0x0A]"

definition demo_ar :: bytes where
  "demo_ar = ar_magic @ ar_header ''a'' ''0''"


text \<open>
  A size field may read as a negative number. One of minus sixty sends the loop back to the header it
  has just read, and it never returns.
\<close>

lemma negative_size_loops:
  assumes "off + 60 \<le> int (length data)" and "header_size (header_at data off) = Some (- 60)" and "even off"
  shows "ar_loop data off acc = None"
proof (rule ccontr)
  assume "ar_loop data off acc \<noteq> None"
  then obtain y where "ar_loop data off acc = Some y" by auto
  then have "\<not> (off + 60 \<le> int (length data) \<and> header_size (header_at data off) = Some (- 60) \<and> even off)"
  proof (rule ar_loop.raw_induct [where P = "\<lambda>data off acc y.
      \<not> (off + 60 \<le> int (length data) \<and> header_size (header_at data off) = Some (- 60) \<and> even off)", rotated])
    fix loop and data :: bytes and off acc y
    assume IH: "\<And>d i b y. loop d i b = Some y \<Longrightarrow>
        \<not> (i + 60 \<le> int (length d) \<and> header_size (header_at d i) = Some (- 60) \<and> even i)"
      and body: "(if off + 60 \<le> int (length data) then
        (case header_size (header_at data off) of
           None \<Rightarrow> Some acc
         | Some sz \<Rightarrow>
             if off + 60 > int (length data) \<or> off + 60 + sz > int (length data) then Some acc
             else loop data (even_up (off + 60 + sz))
                    (acc @ [(header_name (header_at data off), py_slice (off + 60) (off + 60 + sz) data)]))
        else Some acc) = Some y"
    show "\<not> (off + 60 \<le> int (length data) \<and> header_size (header_at data off) = Some (- 60) \<and> even off)"
    proof
      assume a: "off + 60 \<le> int (length data) \<and> header_size (header_at data off) = Some (- 60) \<and> even off"
      then have "even_up off = off" by (simp add: even_up_def even_iff_mod_2_eq_zero)
      with body a have "loop data off (acc @ [(header_name (header_at data off), py_slice (off + 60) off data)]) = Some y"
        by simp
      from IH [OF this] a show False by simp
    qed
  qed
  with assms show False by simp
qed

definition demo_bad_ar :: bytes where
  "demo_bad_ar = ar_magic @ ar_header ''data.tar'' ''-60''"

lemma parse_ar_diverges: "parse_ar demo_bad_ar = None"
proof -
  have "8 + 60 \<le> int (length demo_bad_ar)" "header_size (header_at demo_bad_ar 8) = Some (- 60)"
    "take 8 demo_bad_ar = ar_magic" by code_simp+
  then show ?thesis by (simp add: parse_ar_def negative_size_loops)
qed

section \<open>Round trip\<close>

text \<open>
  A reference writer: sixteen bytes of name, the time, owner and mode fields blank, ten bytes of size,
  the two magic bytes, the body and a newline after a body of odd length.
\<close>

definition ar_member :: "string \<times> bytes \<Rightarrow> bytes" where
  "ar_member m = (let (name, blob) = m in
     ar_header name (str_of_nat (length blob)) @ blob @ (if even (length blob) then [] else [CHR 0x0A]))"

definition ar_encode :: "members \<Rightarrow> bytes" where
  "ar_encode ms = ar_magic @ concat (map ar_member ms)"

definition fits_header :: "string \<times> bytes \<Rightarrow> bool" where
  "fits_header m \<longleftrightarrow> length (fst m) \<le> 16 \<and> (fst m = [] \<or> \<not> name_pad (last (fst m))) \<and>
     length (str_of_nat (length (snd m))) \<le> 10"

lemma length_pad [simp]: "length s \<le> n \<Longrightarrow> length (pad_to n s) = n"
  by (simp add: pad_to_def)

lemma rstrip_pad: "p CHR '' '' \<Longrightarrow> s = [] \<or> \<not> p (last s) \<Longrightarrow> rstrip_chars p (pad_to n s) = s"
  by (induction s rule: rev_induct) (auto simp: rstrip_chars_def pad_to_def dropWhile_append)

lemma header_fields:
  assumes "length name \<le> 16" and "length sz \<le> 10"
  shows "length (ar_header name sz) = 60" "take 16 (ar_header name sz) = pad_to 16 name"
    "take 10 (drop 48 (ar_header name sz)) = pad_to 10 sz"
  using assms by (simp_all add: ar_header_def) (simp add: pad_to_def)

lemma ascii_replace_id: "list_all (\<lambda>c. code c < 128) s \<Longrightarrow> ascii_replace s = s"
  by (induction s) (auto simp: ascii_replace_def)

lemma digit_ascii: "is_digit c \<Longrightarrow> code c < 128"
  by (simp add: is_digit_def Let_def)

lemma size_field: "header_size h = Some (int n)" if "take 10 (drop 48 h) = pad_to 10 (str_of_nat n)"
proof -
  let ?d = "str_of_nat n"
  have d: "\<forall>c\<in>set ?d. is_digit c" by (rule str_of_nat_digits)
  have "code CHR '' '' = 32" by (simp add: code_def)
  then have "ascii_replace (pad_to 10 ?d) = pad_to 10 ?d"
    using d by (intro ascii_replace_id) (auto simp: list_all_iff pad_to_def digit_ascii)
  moreover have "str_strip (pad_to 10 ?d) = ?d"
  proof -
    have hd: "\<not> is_space (hd ?d)" and la: "\<not> is_space (last ?d)"
      using d digit_not_space by (meson hd_in_set last_in_set str_of_nat_not_Nil)+
    have "lstrip_chars is_space (pad_to 10 ?d) = pad_to 10 ?d"
      using hd by (cases ?d) (auto simp: lstrip_chars_def pad_to_def)
    moreover have "is_space CHR '' ''" by (simp add: is_space_def code_def)
    ultimately show ?thesis using la by (simp add: str_strip_def strip_chars_def rstrip_pad)
  qed
  ultimately show ?thesis using that by (simp add: header_size_def py_int_of_str_of_nat)
qed

lemma ar_loop_encoded:
  assumes "list_all fits_header ms" and "even (length p)"
  shows "ar_loop (p @ concat (map ar_member ms)) (int (length p)) acc = Some (acc @ ms)"
  using assms
proof (induction ms arbitrary: p acc)
  case Nil
  then show ?case by (subst ar_loop.simps) simp
next
  case (Cons m ms)
  obtain name blob where m: "m = (name, blob)" by (cases m)
  let ?h = "ar_header name (str_of_nat (length blob))"
  let ?pad = "if even (length blob) then [] else [CHR 0x0A]"
  let ?rest = "concat (map ar_member ms)"
  let ?data = "p @ ?h @ blob @ ?pad @ ?rest"
  from Cons.prems m have f: "length name \<le> 16" "name = [] \<or> \<not> name_pad (last name)"
    "length (str_of_nat (length blob)) \<le> 10" by (simp_all add: fits_header_def)
  note hf = header_fields [OF f(1,3)]
  have h: "header_at ?data (int (length p)) = ?h"
    unfolding header_at_def by (rule py_slice_append) (simp_all add: hf)
  have sz: "header_size ?h = Some (int (length blob))" by (rule size_field [OF hf(3)])
  have nm: "header_name ?h = name" using f(2) by (simp add: header_name_def hf rstrip_pad name_pad_def)
  have body: "py_slice (int (length p) + 60) (int (length p) + 60 + int (length blob)) ?data = blob"
    using py_slice_append [of "p @ ?h" "int (length p) + 60" blob "int (length p) + 60 + int (length blob)" "?pad @ ?rest"]
    by (simp add: hf)
  let ?p = "p @ ?h @ blob @ ?pad"
  have ev: "even (length ?p)" using Cons.prems(2) by (simp add: hf)
  have nxt: "even_up (int (length p) + 60 + int (length blob)) = int (length ?p)"
    using Cons.prems(2) by (auto simp: even_up_def hf) presburger+
  have "ar_loop ?data (int (length p)) acc = ar_loop ?data (int (length ?p)) (acc @ [m])"
    by (subst ar_loop.simps) (simp add: h sz nm body nxt m hf)
  also have "\<dots> = Some ((acc @ [m]) @ ms)"
    using Cons.IH [of ?p "acc @ [m]"] Cons.prems(1) ev by simp
  finally show ?case by (simp add: m ar_member_def [of "(name, blob)"])
qed



section \<open>Control stanzas\<close>

definition control_line :: "string \<Rightarrow> string sdict \<times> string \<Rightarrow> string sdict \<times> string" where
  "control_line line st =
     (let (fields, current) = st in
      if str_strip line = [] then st
      else if (hd line = CHR '' '' \<or> hd line = CHR 0x09) \<and> current \<noteq> [] then
        (dmodify current (\<lambda>v. v @ '' '' @ str_strip line) fields, current)
      else if CHR '':'' \<in> set line then
        (let (key, _, v) = partition_char (CHR '':'') line
         in (dput (str_strip key) (str_strip v) fields, str_strip key))
      else st)"

text \<open>\<open>current\<close> starts as None; like the empty key it is false.\<close>

definition parse_control :: "string \<Rightarrow> string sdict" where
  "parse_control txt = fst (foldl (\<lambda>st line. control_line line st) ([], []) (splitlines txt))"

definition field_line :: "string \<times> string \<Rightarrow> string" where
  "field_line f = fst f @ '': '' @ snd f"

definition no_break :: "string \<Rightarrow> bool" where
  "no_break s = list_all (\<lambda>c. \<not> is_break c) s"

definition plain_field :: "string \<times> string \<Rightarrow> bool" where
  "plain_field f \<longleftrightarrow> fst f \<noteq> [] \<and> str_strip (fst f) = fst f \<and> str_strip (snd f) = snd f \<and>
     CHR '':'' \<notin> set (fst f) \<and> no_break (fst f) \<and> no_break (snd f)"

lemma break_chars: "is_break (CHR 0x0A)" "is_break (CHR 0x0D)" "\<not> is_break (CHR '' '')" "\<not> is_break (CHR '':'')"
  "is_space (CHR '' '')" "\<not> is_space (CHR '':'')"
  by (simp_all add: is_break_def is_space_def code_def)

lemma split_lines_plain: "no_break l \<Longrightarrow> split_lines buf (l @ CHR 0x0A # s) = (buf @ l) # split_lines [] s"
  by (induction l arbitrary: buf) (auto simp: no_break_def break_chars)

lemma splitlines_plain: "no_break l \<Longrightarrow> splitlines (l @ CHR 0x0A # s) = l # splitlines s"
  by (simp add: splitlines_def split_lines_plain)

lemma splitlines_lines:
  "list_all no_break ls \<Longrightarrow> splitlines (concat (map (\<lambda>l. l @ [CHR 0x0A]) ls)) = ls"
  by (induction ls) (auto simp: splitlines_plain, simp add: splitlines_def)

lemma strip_hd: "str_strip s = s \<Longrightarrow> s \<noteq> [] \<Longrightarrow> \<not> is_space (hd s)"
proof
  assume a: "str_strip s = s" "s \<noteq> []" "is_space (hd s)"
  then obtain c r where s: "s = c # r" "is_space c" by (cases s) auto
  have "length (str_strip s) \<le> length (dropWhile is_space r)"
    using s length_dropWhile_le [of is_space "rev (dropWhile is_space r)"]
    by (simp add: str_strip_def strip_chars_def rstrip_chars_def lstrip_chars_def)
  then show False using a(1) s(1) length_dropWhile_le [of is_space r] by simp
qed

lemma strip_space_Cons: "is_space c \<Longrightarrow> str_strip (c # s) = str_strip s"
  by (simp add: str_strip_def strip_chars_def lstrip_chars_def)

lemma strip_nonempty: "\<not> is_space c \<Longrightarrow> str_strip (c # s) \<noteq> []"
  by (simp add: str_strip_def strip_chars_def lstrip_chars_def rstrip_chars_def dropWhile_append)

lemma control_line_plain:
  assumes "plain_field f"
  shows "control_line (field_line f) (d, cur) = (dput (fst f) (snd f) d, fst f)"
proof -
  obtain k v where f: "f = (k, v)" by (cases f)
  from assms f obtain c r where k: "k = c # r" by (cases k) (auto simp: plain_field_def)
  from assms f k have c: "\<not> is_space c" using strip_hd [of k] by (simp add: plain_field_def)
  then have "c \<noteq> CHR '' ''" "c \<noteq> CHR 0x09" by (auto simp: is_space_def code_def)
  moreover have "partition_char (CHR '':'') (field_line f) = (k, True, CHR '' '' # v)"
    using assms f partition_char_append [of "CHR '':''" k "CHR '' '' # v"]
    by (simp add: field_line_def plain_field_def)
  moreover have "str_strip (CHR '' '' # v) = v"
    using assms f by (simp add: strip_space_Cons break_chars plain_field_def)
  ultimately show ?thesis
    using assms f k c by (simp add: control_line_def field_line_def strip_nonempty plain_field_def)
qed

lemma control_lines_plain:
  "list_all plain_field fs \<Longrightarrow>
   fst (foldl (\<lambda>st line. control_line line st) (d, cur) (map field_line fs)) = dmerge d fs"
  by (induction fs arbitrary: d cur) (auto simp: control_line_plain dmerge_def split_beta)

lemma field_line_no_break: "plain_field f \<Longrightarrow> no_break (field_line f)"
  by (auto simp: plain_field_def field_line_def no_break_def break_chars)

lemma control_line_blank: "control_line [] st = st"
  by (simp add: control_line_def str_strip_def strip_chars_def lstrip_chars_def rstrip_chars_def split_beta)

text \<open>One line per field, in order, is read back as the dictionary of the fields.\<close>

lemma parse_control_lines:
  assumes "list_all plain_field fs" and "dict_wf fs"
  shows "parse_control (concat (map (\<lambda>l. l @ [CHR 0x0A]) (map field_line fs))) = fs"
proof -
  have "list_all no_break (map field_line fs)"
    using assms(1) by (auto simp: list_all_iff field_line_no_break)
  then show ?thesis using assms control_lines_plain [OF assms(1), of "[]" "[]"] dmerge_fresh [of "[]" fs]
    by (simp add: parse_control_def splitlines_lines dict_wf_def del: map_map)
qed

section \<open>Package contents\<close>

datatype member_type = MFile | MDir | MSym | MLink | MOther

record tar_member =
  tm_name :: string
  tm_type :: member_type
  tm_mode :: int
  tm_linkname :: string
  tm_data :: bytes

record deb_content =
  dc_control :: "string sdict"
  dc_payload :: "string list"
  dc_conffiles :: "string list"
  dc_scripts :: "string sdict"

definition empty_content :: deb_content where
  "empty_content = \<lparr>dc_control = [], dc_payload = [], dc_conffiles = [], dc_scripts = []\<rparr>"

definition deb_names :: "deb_content \<Rightarrow> string list" where
  "deb_names c = dkeys (dc_control c)"

definition dot_slash :: "char \<Rightarrow> bool" where
  "dot_slash c \<longleftrightarrow> c = CHR ''.'' \<or> c = CHR ''/''"

definition clean_name :: "string \<Rightarrow> string" where
  "clean_name n = lstrip_chars dot_slash n"

definition nonblank_lines :: "string \<Rightarrow> string list" where
  "nonblank_lines s = filter (\<lambda>l. l \<noteq> []) (map str_strip (splitlines s))"

definition control_member :: "deb_content \<Rightarrow> tar_member \<Rightarrow> deb_content" where
  "control_member c m =
     (let clean = clean_name (tm_name m) in
      if tm_type m \<noteq> MFile then c
      else if clean = ''control'' then c\<lparr>dc_control := parse_control (tm_data m)\<rparr>
      else if clean = ''conffiles'' then c\<lparr>dc_conffiles := nonblank_lines (tm_data m)\<rparr>
      else if startswith clean ''md5sums'' then c
      else if clean \<in> {''preinst'', ''postinst'', ''prerm'', ''postrm'', ''config'', ''templates''}
      then c\<lparr>dc_scripts := dput clean (tm_data m) (dc_scripts c)\<rparr>
      else c)"

definition payload_member :: "deb_content \<Rightarrow> tar_member \<Rightarrow> deb_content" where
  "payload_member c m =
     (if tm_type m \<in> {MFile, MDir, MSym} \<and> tm_name m \<noteq> ''./''
      then c\<lparr>dc_payload := dc_payload c @ [clean_name (tm_name m)]\<rparr> else c)"

text \<open>The last member whose name begins so; \<open>elif\<close> keeps control and data apart.\<close>

definition last_named :: "string \<Rightarrow> members \<Rightarrow> bytes option" where
  "last_named p ms = foldl (\<lambda>acc m. if startswith (fst m) p then Some (snd m) else acc) None ms"

definition read_tar :: "(bytes \<Rightarrow> tar_member list result) \<Rightarrow> (deb_content \<Rightarrow> tar_member \<Rightarrow> deb_content) \<Rightarrow>
    bytes option \<Rightarrow> deb_content \<Rightarrow> deb_content result" where
  "read_tar untar f blob c =
     (case blob of None \<Rightarrow> Inr c
      | Some b \<Rightarrow> map_sum id (foldl f c) (untar b))"

definition extract_members :: "(bytes \<Rightarrow> tar_member list result) \<Rightarrow> members \<Rightarrow> deb_content result" where
  "extract_members untar ms =
     (case read_tar untar control_member (last_named ''control.tar'' ms) empty_content of
        Inl e \<Rightarrow> Inl e
      | Inr c \<Rightarrow> read_tar untar payload_member (last_named ''data.tar'' ms) c)"

definition deb_extract :: "(bytes \<Rightarrow> tar_member list result) \<Rightarrow> bytes \<Rightarrow> deb_content result option" where
  "deb_extract untar data =
     (case parse_ar data of
        None \<Rightarrow> None
      | Some (Inl e) \<Rightarrow> Some (Inl e)
      | Some (Inr ms) \<Rightarrow> Some (extract_members untar ms))"

definition data_tar :: "(bytes \<Rightarrow> tar_member list result) \<Rightarrow> bytes \<Rightarrow> tar_member list result option" where
  "data_tar untar data =
     (case parse_ar data of
        None \<Rightarrow> None
      | Some (Inl e) \<Rightarrow> Some (Inl e)
      | Some (Inr ms) \<Rightarrow>
          Some (case filter (\<lambda>m. startswith (fst m) ''data.tar'') ms of
                  [] \<Rightarrow> Inl (Exc ''ValueError'' ''no data.tar member in .deb'')
                | m # _ \<Rightarrow> untar (snd m)))"

text \<open>
  A package whose data archive is read twice differently: with two members named \<open>data.tar\<close> the file
  list is the last one's, and the payload that is installed the first one's.
\<close>

lemma payload_list_diverges:
  assumes "\<And>b. untar b = Inr [\<lparr>tm_name = b, tm_type = MFile, tm_mode = 420, tm_linkname = [], tm_data = []\<rparr>]"
  shows "\<exists>data c. deb_extract untar data = Some (Inr c) \<and> dc_payload c = [''b''] \<and>
     map_option (map_sum id (map tm_name)) (data_tar untar data) = Some (Inr [''a''])"
proof -
  let ?ms = "[(''data.tar'', ''a''), (''data.tar.gz'', ''b'')]"
  have "list_all fits_header ?ms" by code_simp
  then have "parse_ar (ar_encode ?ms) = Some (Inr (filter (\<lambda>m. \<not> symbol_table m) ?ms))"
    using ar_loop_encoded [of ?ms ar_magic "[]"] by (simp add: parse_ar_def ar_encode_def ar_magic_def)
  then have p: "parse_ar (ar_encode ?ms) = Some (Inr ?ms)" by (simp add: symbol_table_def startswith_def)
  have "deb_extract untar (ar_encode ?ms) = Some (Inr (empty_content\<lparr>dc_payload := [''b'']\<rparr>))"
    by (simp add: deb_extract_def p extract_members_def last_named_def startswith_def read_tar_def assms
        payload_member_def clean_name_def lstrip_chars_def dot_slash_def empty_content_def)
  moreover have "map_option (map_sum id (map tm_name)) (data_tar untar (ar_encode ?ms)) = Some (Inr [''a''])"
    by (simp add: data_tar_def p startswith_def assms)
  ultimately show ?thesis by fastforce
qed

end
