(* ===== verification/Targets.thy ===== *)
theory Targets
  imports Deb Json
begin

text \<open>
  The build targets and the checks of what was built: \<open>osbuild/elf.py\<close> (ELF headers),
  \<open>osbuild/architectures.py\<close> (the target registry), \<open>osbuild/apiclient.py\<close> (bounded retries) and
  \<open>osbuild/manifest.py\<close> (manifests and SHA256SUMS). The digest function is a parameter.
\<close>

section \<open>ELF headers\<close>

record elf_header =
  eh_class :: nat
  eh_big :: bool
  eh_machine :: nat

definition elf_magic :: bytes where
  "elf_magic = CHR 0x7F # ''ELF''"

text \<open>\<open>struct.unpack_from("<H")\<close> and \<open>(">H")\<close> at an offset.\<close>

definition u16_at :: "bool \<Rightarrow> bytes \<Rightarrow> nat \<Rightarrow> nat" where
  "u16_at big data i =
     (if big then 256 * code (data ! i) + code (data ! (i + 1)) else code (data ! i) + 256 * code (data ! (i + 1)))"

definition parse_elf :: "bytes \<Rightarrow> elf_header option" where
  "parse_elf data =
     (if length data < 20 \<or> take 4 data \<noteq> elf_magic then None
      else (let big = (code (data ! 5) = 2)
            in Some \<lparr>eh_class = code (data ! 4), eh_big = big, eh_machine = u16_at big data 18\<rparr>))"

definition eh_bits :: "elf_header \<Rightarrow> nat" where
  "eh_bits h = (if eh_class h = 1 then 32 else 64)"

definition elf_matches :: "elf_header \<Rightarrow> nat \<Rightarrow> nat \<Rightarrow> bool" where
  "elf_matches h machine cls \<longleftrightarrow> eh_machine h = machine \<and> eh_class h = cls"

text \<open>A reference header: identification, eleven bytes of the type field and padding, the machine.\<close>

definition elf_image :: "nat \<Rightarrow> bool \<Rightarrow> nat \<Rightarrow> bytes \<Rightarrow> bytes" where
  "elf_image cls big machine rest =
     elf_magic @ [char_of cls, if big then CHR 0x02 else CHR 0x01] @ replicate 12 (CHR 0x01) @
     (if big then [char_of (machine div 256), char_of (machine mod 256)]
      else [char_of (machine mod 256), char_of (machine div 256)]) @ rest"

lemma parse_elf_image:
  assumes "cls < 256" and "machine < 65536"
  shows "parse_elf (elf_image cls big machine rest) = Some \<lparr>eh_class = cls, eh_big = big, eh_machine = machine\<rparr>"
proof -
  have c: "code (char_of (machine div 256)) = machine div 256" "code (char_of machine) = machine mod 256"
    "code (char_of cls) = cls" "code (CHR 0x02) = 2" "code (CHR 0x01) = 1"
    using assms by (simp_all add: code_def)
  have r: "replicate 12 x = [x, x, x, x, x, x, x, x, x, x, x, x]" for x :: char
    by (simp add: numeral_eq_Suc)
  have m: "256 * (machine div 256) + machine mod 256 = machine" "machine mod 256 + 256 * (machine div 256) = machine"
    by simp_all
  show ?thesis unfolding parse_elf_def elf_image_def elf_magic_def u16_at_def r
    by (cases big) (simp_all add: c m Let_def)
qed

section \<open>Target architectures\<close>

record arch_meta =
  am_token :: string
  am_aliases :: "string list"
  am_machine :: string
  am_elf_machine :: nat
  am_elf_class :: nat
  am_triplet :: string
  am_loaders :: "string list"
  am_tier :: string

type_synonym arch_registry = "arch_meta sdict"

definition deb_lib_dir :: "arch_meta \<Rightarrow> string" where
  "deb_lib_dir a = ''usr/lib/'' @ am_triplet a"

definition meta_of :: "string \<Rightarrow> string list \<Rightarrow> string \<Rightarrow> nat \<Rightarrow> nat \<Rightarrow> string \<Rightarrow> string list \<Rightarrow> string \<Rightarrow> string \<times> arch_meta" where
  "meta_of tok al mach em ec tri lo tier = (tok, \<lparr>am_token = tok, am_aliases = al, am_machine = mach,
     am_elf_machine = em, am_elf_class = ec, am_triplet = tri, am_loaders = lo, am_tier = tier\<rparr>)"

definition arch_table :: arch_registry where
  "arch_table = [
     meta_of ''amd64'' [''x86_64''] ''x86_64'' 62 2 ''x86_64-linux-gnu'' [''ld-linux-x86-64.so.2''] ''enabled'',
     meta_of ''arm64'' [''aarch64''] ''aarch64'' 183 2 ''aarch64-linux-gnu'' [''ld-linux-aarch64.so.1''] ''enabled'',
     meta_of ''armhf'' [''armv7l'', ''armv7l-gnueabihf''] ''armv7l'' 40 2 ''arm-linux-gnueabihf'' [''ld-linux-armhf.so.3''] ''candidate'',
     meta_of ''armel'' [] ''armv5tel'' 40 2 ''arm-linux-gnueabi'' [''ld-linux.so.3''] ''candidate'',
     meta_of ''i386'' [''x86''] ''i686'' 3 1 ''i386-linux-gnu'' [''ld-linux.so.2''] ''candidate'',
     meta_of ''ppc64el'' [''ppc64le'', ''powerpc64le''] ''ppc64le'' 21 2 ''powerpc64le-linux-gnu'' [''ld64.so.2''] ''candidate'',
     meta_of ''s390x'' [] ''s390x'' 22 2 ''s390x-linux-gnu'' [''ld64.so.1''] ''candidate'',
     meta_of ''riscv64'' [] ''riscv64'' 243 2 ''riscv64-linux-gnu'' [''ld-linux-riscv64-lp64d.so.1''] ''candidate'',
     meta_of ''mips64el'' [] ''mips64el'' 8 2 ''mips64el-linux-gnuabi64'' [''ld-2.31.so''] ''candidate'']"

definition arch_lookup :: "arch_registry \<Rightarrow> string \<Rightarrow> arch_meta result" where
  "arch_lookup reg name =
     (let t = str_lower name in
      case dget reg t of
        Some m \<Rightarrow> Inr m
      | None \<Rightarrow> (case find (\<lambda>m. t \<in> set (am_aliases m)) (dvals reg) of
                   Some m \<Rightarrow> Inr m
                 | None \<Rightarrow> Inl (Exc ''KeyError'' (repr_str (''unsupported Buster OS architecture: '' @ t)))))"

definition arch_enabled :: "arch_registry \<Rightarrow> arch_meta list" where
  "arch_enabled reg = filter (\<lambda>m. am_tier m = ''enabled'') (dvals reg)"

definition arch_candidates :: "arch_registry \<Rightarrow> arch_meta list" where
  "arch_candidates reg = filter (\<lambda>m. am_tier m = ''candidate'') (dvals reg)"

definition arch_register :: "string \<Rightarrow> arch_meta \<Rightarrow> arch_registry \<Rightarrow> arch_registry" where
  "arch_register tok m reg = dput tok (m\<lparr>am_tier := ''enabled''\<rparr>) reg"

text \<open>\<open>machine\<close> is what \<open>platform.machine()\<close> answers.\<close>

definition autodetect_host :: "arch_registry \<Rightarrow> string \<Rightarrow> arch_meta result" where
  "autodetect_host reg machine =
     (let m = str_lower machine in
      arch_lookup reg (if m \<in> set (dkeys reg) then m
        else if m = ''aarch64'' \<or> m = ''arm64'' then ''arm64''
        else if m = ''x86_64'' \<or> m = ''amd64'' then ''amd64'' else m))"

lemma register_lookup:
  "str_lower tok = tok \<Longrightarrow> arch_lookup (arch_register tok m reg) tok = Inr (m\<lparr>am_tier := ''enabled''\<rparr>)"
  by (simp add: arch_lookup_def arch_register_def)

text \<open>Every token and alias of the table names one target only.\<close>

lemma arch_names_distinct: "distinct (concat (map (\<lambda>m. am_token m # am_aliases m) (dvals arch_table)))"
  by code_simp

text \<open>
  The table leaves the class of the two 32-bit ARM targets at the default, 64-bit: a genuine 32-bit
  ARM binary does not match its own target.
\<close>

lemma armhf_binary_mismatch:
  "\<exists>m h. arch_lookup arch_table ''armhf'' = Inr m \<and> parse_elf (elf_image 1 False 40 rest) = Some h \<and>
     \<not> elf_matches h (am_elf_machine m) (am_elf_class m)"
proof -
  have "\<exists>m. arch_lookup arch_table ''armhf'' = Inr m \<and> am_elf_class m = 2"
    by (simp add: arch_lookup_def arch_table_def meta_of_def str_lower_def lower_char_def code_def)
  then show ?thesis by (auto simp: parse_elf_image elf_matches_def)
qed

section \<open>Downloads\<close>

text \<open>\<open>attempts\<close> says what each request answers; only network errors are caught.\<close>

definition caught_fetch :: "exc \<Rightarrow> bool" where
  "caught_fetch e \<longleftrightarrow> exc_type e \<in> {''URLError'', ''HTTPError'', ''OSError'', ''TimeoutError''}"

fun fetch_tries :: "nat \<Rightarrow> (nat \<Rightarrow> bytes result) \<Rightarrow> nat \<Rightarrow> exc option \<Rightarrow> bytes result + exc option" where
  "fetch_tries 0 attempts i seen = Inr seen"
| "fetch_tries (Suc n) attempts i seen =
     (case attempts i of
        Inr b \<Rightarrow> Inl (Inr b)
      | Inl e \<Rightarrow> if caught_fetch e then fetch_tries n attempts (i + 1) (Some e) else Inl (Inl e))"

definition fetch_bytes :: "string \<Rightarrow> (nat \<Rightarrow> bytes result) \<Rightarrow> nat \<Rightarrow> bytes result" where
  "fetch_bytes url attempts retries =
     (case fetch_tries retries attempts 1 None of
        Inl r \<Rightarrow> r
      | Inr seen \<Rightarrow> Inl (Exc ''RuntimeError'' (''failed to fetch '' @ url @ '': '' @
          (case seen of None \<Rightarrow> ''None'' | Some e \<Rightarrow> exc_msg e))))"

lemma fetch_first_answer:
  assumes "j < n" and "attempts (i + j) = Inr b" and "\<And>k. k < j \<Longrightarrow> \<exists>e. attempts (i + k) = Inl e \<and> caught_fetch e"
  shows "fetch_tries n attempts i seen = Inl (Inr b)"
  using assms
proof (induction n arbitrary: i j seen)
  case (Suc n)
  show ?case
  proof (cases j)
    case 0
    with Suc.prems show ?thesis by simp
  next
    case (Suc m)
    from Suc.prems(3) [of 0] Suc obtain e where e: "attempts i = Inl e" "caught_fetch e" by auto
    have "fetch_tries n attempts (i + 1) (Some e) = Inl (Inr b)"
    proof (rule Suc.IH [of m])
      show "m < n" "attempts (i + 1 + m) = Inr b" using Suc.prems Suc by simp_all
      show "\<exists>e. attempts (i + 1 + k) = Inl e \<and> caught_fetch e" if "k < m" for k
        using Suc.prems(3) [of "Suc k"] that Suc by simp
    qed
    with e show ?thesis by simp
  qed
qed simp

section \<open>SHA256SUMS\<close>

text \<open>\<open>line.partition("  ")\<close>: head and rest around the first pair of spaces.\<close>

fun partition_two :: "string \<Rightarrow> string \<times> string" where
  "partition_two [] = ([], [])"
| "partition_two [c] = ([c], [])"
| "partition_two (c # d # s) =
     (if c = CHR '' '' \<and> d = CHR '' '' then ([], s)
      else (let (h, r) = partition_two (d # s) in (c # h, r)))"

definition sum_entry :: "string sdict \<Rightarrow> string \<Rightarrow> string sdict" where
  "sum_entry d line =
     (if str_strip line = [] then d
      else (let (digest, fname) = partition_two line in dput (str_strip fname) (str_strip digest) d))"

definition sum_entries :: "string \<Rightarrow> string sdict" where
  "sum_entries txt = foldl sum_entry [] (splitlines txt)"

definition sum_line :: "string \<times> string \<Rightarrow> string" where
  "sum_line e = snd e @ ''  '' @ fst e"

definition write_sums :: "string sdict \<Rightarrow> string" where
  "write_sums d = concat (map (\<lambda>k. sum_line (k, the (dget d k)) @ [CHR 0x0A]) (sort (remdups (dkeys d))))"

definition append_shasums :: "string option \<Rightarrow> string list \<Rightarrow> string" where
  "append_shasums file new =
     write_sums (sum_entries ((case file of Some t \<Rightarrow> t | None \<Rightarrow> []) @ [CHR 0x0A] @ join_str [CHR 0x0A] new))"

fun digest_files :: "(bytes \<Rightarrow> string) \<Rightarrow> (string \<Rightarrow> bytes result) \<Rightarrow> string list \<Rightarrow> string sdict \<Rightarrow> string sdict result" where
  "digest_files sha read [] d = Inr d"
| "digest_files sha read (n # ns) d =
     (case read n of Inl e \<Rightarrow> Inl e | Inr b \<Rightarrow> digest_files sha read ns (dput n (sha b) d))"

definition write_authoritative_shasums :: "(bytes \<Rightarrow> string) \<Rightarrow> (string \<Rightarrow> bytes result) \<Rightarrow> string list \<Rightarrow> string result" where
  "write_authoritative_shasums sha read files = map_sum id write_sums (digest_files sha read (sort files) [])"

subsection \<open>Merging\<close>

definition plain_sum :: "string \<times> string \<Rightarrow> bool" where
  "plain_sum e \<longleftrightarrow> snd e \<noteq> [] \<and> CHR '' '' \<notin> set (snd e) \<and> str_strip (snd e) = snd e \<and>
     str_strip (fst e) = fst e \<and> no_break (fst e) \<and> no_break (snd e)"

lemma partition_two_found: "CHR '' '' \<notin> set h \<Longrightarrow> partition_two (h @ ''  '' @ r) = (h, r)"
proof (induction h)
  case (Cons c h)
  then show ?case by (cases "h @ ''  '' @ r") auto
qed simp

lemma sum_entry_line: "plain_sum e \<Longrightarrow> sum_entry d (sum_line e) = dput (fst e) (snd e) d"
proof -
  assume p: "plain_sum e"
  obtain c r where s: "snd e = c # r" using p by (cases "snd e") (auto simp: plain_sum_def)
  then have "\<not> is_space c" using p strip_hd [of "snd e"] by (simp add: plain_sum_def)
  then have "str_strip (sum_line e) \<noteq> []" by (simp add: sum_line_def s strip_nonempty)
  moreover have "partition_two (sum_line e) = (snd e, fst e)"
    using p partition_two_found [of "snd e" "fst e"] by (simp add: sum_line_def plain_sum_def)
  ultimately show ?thesis using p by (simp add: sum_entry_def plain_sum_def)
qed

lemma sum_entries_lines: "list_all plain_sum es \<Longrightarrow> foldl sum_entry d (map sum_line es) = dmerge d es"
  by (induction es arbitrary: d) (auto simp: sum_entry_line dmerge_def split_beta)

lemma sum_line_no_break: "plain_sum e \<Longrightarrow> no_break (sum_line e)"
  by (auto simp: plain_sum_def sum_line_def no_break_def break_chars)

lemma sum_line_not_Nil: "sum_line e \<noteq> []"
  by (simp add: sum_line_def)

lemma split_lines_last: "no_break l \<Longrightarrow> buf @ l \<noteq> [] \<Longrightarrow> split_lines buf l = [buf @ l]"
  by (induction l arbitrary: buf) (auto simp: no_break_def break_chars)

lemma splitlines_join:
  "list_all no_break ls \<Longrightarrow> [] \<notin> set ls \<Longrightarrow> splitlines (join_str [CHR 0x0A] ls) = ls"
proof (induction ls)
  case (Cons s ls)
  then show ?case
    by (cases ls) (auto simp: splitlines_plain splitlines_def split_lines_last split_lines_plain)
qed (simp add: splitlines_def)

lemma splitlines_lines_append:
  "list_all no_break ls \<Longrightarrow> splitlines (concat (map (\<lambda>l. l @ [CHR 0x0A]) ls) @ s) = ls @ splitlines s"
  by (induction ls) (auto simp: splitlines_plain)

definition sums_rows :: "string sdict \<Rightarrow> string sdict" where
  "sums_rows d = map (\<lambda>k. (k, the (dget d k))) (sort (remdups (dkeys d)))"

lemma write_sums_rows: "write_sums d = concat (map (\<lambda>l. l @ [CHR 0x0A]) (map sum_line (sums_rows d)))"
  by (simp add: write_sums_def sums_rows_def comp_def)

lemma sums_rows_keys: "dkeys (sums_rows d) = sort (remdups (dkeys d))"
  by (simp add: sums_rows_def comp_def)

lemma sums_rows_wf: "dict_wf (sums_rows d)"
  by (simp add: dict_wf_def sums_rows_keys)

lemma dget_sums_rows: "dget (sums_rows d) k = dget d k"
proof (cases "k \<in> set (dkeys d)")
  case True
  then have "(k, the (dget d k)) \<in> set (sums_rows d)" by (auto simp: sums_rows_def)
  then have "dget (sums_rows d) k = Some (the (dget d k))" by (simp add: dget_iff_in sums_rows_wf)
  with True show ?thesis by (metis dget_None_iff option.collapse)
next
  case False
  then have "k \<notin> set (dkeys (sums_rows d))" by (simp add: sums_rows_keys)
  with False show ?thesis by (metis dget_None_iff)
qed

lemma sums_rows_plain: "list_all plain_sum d \<Longrightarrow> list_all plain_sum (sums_rows d)"
proof -
  assume p: "list_all plain_sum d"
  have "plain_sum (k, the (dget d k))" if "k \<in> set (dkeys d)" for k
  proof -
    from that obtain v where "dget d k = Some v" by (metis dget_None_iff option.exhaust)
    then show ?thesis using p dget_Some_in [of d k v] by (auto simp: list_all_iff)
  qed
  then show ?thesis by (auto simp: list_all_iff sums_rows_def)
qed

lemma dmerge_plain: "list_all plain_sum d \<Longrightarrow> list_all plain_sum es \<Longrightarrow> list_all plain_sum (dmerge d es)"
  by (induction es arbitrary: d) (auto simp: dmerge_def intro!: list_all_dput)

lemma append_sums:
  assumes "list_all plain_sum d" and "list_all plain_sum es"
  shows "append_shasums (Some (write_sums d)) (map sum_line es) = write_sums (dmerge (sums_rows d) es)"
proof -
  have "list_all no_break (map sum_line (sums_rows d))" "list_all no_break (map sum_line es)"
    using assms sums_rows_plain [OF assms(1)] by (auto simp: list_all_iff sum_line_no_break)
  moreover have "[] \<notin> set (map sum_line es)" using sum_line_not_Nil by (metis imageE set_map)
  ultimately have "splitlines (write_sums d @ [CHR 0x0A] @ join_str [CHR 0x0A] (map sum_line es)) =
      map sum_line (sums_rows d) @ [[]] @ map sum_line es"
    using splitlines_plain [of "[]"] by (simp add: write_sums_rows splitlines_lines_append splitlines_join no_break_def del: map_map)
  moreover have "sum_entry d' [] = d'" for d'
    by (simp add: sum_entry_def str_strip_def strip_chars_def lstrip_chars_def rstrip_chars_def)
  moreover have "dmerge [] (sums_rows d) = sums_rows d"
    using dmerge_fresh [of "[]" "sums_rows d"] sums_rows_wf [of d] by (simp add: dict_wf_def)
  ultimately show ?thesis
    by (simp add: append_shasums_def sum_entries_def sum_entries_lines sums_rows_plain assms)
qed

lemma read_sums: "list_all plain_sum d \<Longrightarrow> sum_entries (write_sums d) = sums_rows d"
proof -
  assume p: "list_all plain_sum d"
  have "list_all no_break (map sum_line (sums_rows d))"
    using sums_rows_plain [OF p] by (auto simp: list_all_iff sum_line_no_break)
  then show ?thesis
    using dmerge_fresh [of "[]" "sums_rows d"] sums_rows_wf [of d] sum_entries_lines [OF sums_rows_plain [OF p], of "[]"]
    by (simp add: sum_entries_def write_sums_rows splitlines_lines dict_wf_def del: map_map)
qed

section \<open>Manifests\<close>

definition row_name :: "pyval sdict \<Rightarrow> string result" where
  "row_name p =
     (case dget p ''name'' of
        None \<Rightarrow> Inl (Exc ''KeyError'' (repr_str ''name''))
      | Some (PStr n) \<Rightarrow> Inr n
      | Some _ \<Rightarrow> Inl (Exc ''TypeError'' ''names are text''))"

fun keyed_rows :: "pyval sdict list \<Rightarrow> (string \<times> pyval sdict) list result" where
  "keyed_rows [] = Inr []"
| "keyed_rows (p # ps) =
     (case row_name p of
        Inl e \<Rightarrow> Inl e
      | Inr n \<Rightarrow> map_sum id ((#) (n, p)) (keyed_rows ps))"

text \<open>The packages are an iterable; a one-shot one (a generator) is used up by the sort, then counted.\<close>

definition build_manifest :: "pyval sdict \<Rightarrow> bool \<Rightarrow> pyval sdict list \<Rightarrow> pyval sdict result" where
  "build_manifest facts one_shot packages =
     (case keyed_rows packages of
        Inl e \<Rightarrow> Inl e
      | Inr rows \<Rightarrow> Inr (dmerge facts
          [(''packages'', PList (map (PDict \<circ> snd) (sort_key fst rows))),
           (''package_count'', PInt (if one_shot then 0 else int (length packages)))]))"

definition manifest_facts :: "string \<Rightarrow> string \<Rightarrow> string \<Rightarrow> string \<Rightarrow> string \<Rightarrow> string \<Rightarrow> string \<Rightarrow> string \<Rightarrow> string \<Rightarrow> pyval sdict" where
  "manifest_facts version arch distro release mirror snapshot commit artifact_name artifact_sha =
     [(''artifact'', PStr ''Buster OS Linux distribution rootfs''), (''os'', PStr ''Buster OS''),
      (''version'', PStr version), (''architecture'', PStr arch), (''foundation'', PStr distro),
      (''distro_release'', PStr release), (''mirror'', PStr mirror), (''snapshot_date'', PStr snapshot),
      (''buster_commit'', PStr commit), (''artifact_file'', PStr artifact_name), (''artifact_sha256'', PStr artifact_sha)]"

definition manifest_item :: "(pyfloat \<Rightarrow> string) \<Rightarrow> pyval sdict \<Rightarrow> string \<Rightarrow> string result" where
  "manifest_item sf m k =
     (case dget m k of None \<Rightarrow> Inl (Exc ''KeyError'' (repr_str k)) | Some v \<Rightarrow> Inr (py_str sf v))"

text \<open>
  The manifest is written first; its digest and the artifact's go into SHA256SUMS. The result is the
  manifest with its digest and the new SHA256SUMS, beside the text of the manifest file.
\<close>

definition write_manifest_and_checksums :: "(pyfloat \<Rightarrow> string) \<Rightarrow> (bytes \<Rightarrow> string) \<Rightarrow> string \<Rightarrow> string option \<Rightarrow>
    pyval sdict \<Rightarrow> string option \<Rightarrow> (pyval sdict \<times> string) result \<times> string" where
  "write_manifest_and_checksums sf sha out_dir name manifest shas =
     (let path = (case name of Some p \<Rightarrow> if p = [] then path_join out_dir ''manifest.json'' else p
                             | None \<Rightarrow> path_join out_dir ''manifest.json'');
          m = ddel ''manifest_sha256'' manifest;
          file = json_indent sf 0 (PDict m);
          m' = dput ''manifest_sha256'' (PStr (sha file)) m
      in case manifest_item sf m' ''artifact_sha256'' of
           Inl e \<Rightarrow> (Inl e, file)
         | Inr asha \<Rightarrow>
             (case manifest_item sf m' ''artifact_file'' of
                Inl e \<Rightarrow> (Inl e, file)
              | Inr afile \<Rightarrow>
                  (Inr (m', append_shasums shas [asha @ ''  '' @ afile, sha file @ ''  '' @ path_basename path]), file)))"

lemma generator_counted_empty:
  "build_manifest f True ps = Inr m \<Longrightarrow> dget m ''package_count'' = Some (PInt 0)"
  by (auto simp: build_manifest_def dget_dmerge split: sum.splits)

text \<open>
  The checksum file vouches for what was written: after a manifest is written beside a SHA256SUMS of
  plain lines, the entry of the manifest is the digest of exactly the bytes in its file, the entry of
  the artifact is the digest the manifest states, and every other file's entry is the one it had.
\<close>

lemma manifest_checksummed:
  assumes "write_manifest_and_checksums sf sha out_dir (Some path) manifest (Some (write_sums d)) = (Inr (m, shas), file)"
    and "path \<noteq> []" and "list_all plain_sum d"
    and "dget manifest ''artifact_sha256'' = Some (PStr asha)" and "dget manifest ''artifact_file'' = Some (PStr afile)"
    and "plain_sum (afile, asha)" and "plain_sum (path_basename path, sha file)"
  shows "dget (sum_entries shas) k =
      (if k = path_basename path then Some (sha file) else if k = afile then Some asha else dget d k) \<and>
    dget m ''manifest_sha256'' = Some (PStr (sha file))"
proof -
  let ?es = "[(afile, asha), (path_basename path, sha file)]"
  have items: "shas = append_shasums (Some (write_sums d)) (map sum_line ?es) \<and>
      m = dput ''manifest_sha256'' (PStr (sha file)) (ddel ''manifest_sha256'' manifest)"
    using assms(1,2,4,5)
    by (auto simp: write_manifest_and_checksums_def manifest_item_def sum_line_def Let_def split: sum.splits option.splits)
  have es: "list_all plain_sum ?es" using assms by simp
  have "sum_entries shas = sums_rows (dmerge (sums_rows d) ?es)"
    using items append_sums [OF assms(3) es] read_sums [OF dmerge_plain [OF sums_rows_plain [OF assms(3)] es]] by simp
  then show ?thesis using items by (simp add: dget_sums_rows dget_dmerge)
qed

definition demo_manifest :: "pyval sdict" where
  "demo_manifest = [(''artifact_file'', PStr ''os.tar''), (''artifact_sha256'', PStr ''ab'')]"

lemma manifest_checksummed_witness:
  "dget (sum_entries (append_shasums (Some (write_sums [(''old'', ''00'')])) [''ab  os.tar'', ''cd  manifest.json''])) ''manifest.json'' =
     (if ''manifest.json'' = path_basename ''out/manifest.json'' then Some ''cd''
      else if ''manifest.json'' = ''os.tar'' then Some ''ab'' else dget [(''old'', ''00'')] ''manifest.json'') \<and>
   dget (dput ''manifest_sha256'' (PStr ''cd'') demo_manifest) ''manifest_sha256'' = Some (PStr ''cd'')"
proof (rule manifest_checksummed [of "\<lambda>_. []" "\<lambda>_. ''cd''" "''out''" "''out/manifest.json''" demo_manifest])
  show "write_manifest_and_checksums (\<lambda>_. []) (\<lambda>_. ''cd'') ''out'' (Some ''out/manifest.json'') demo_manifest
      (Some (write_sums [(''old'', ''00'')])) =
    (Inr (dput ''manifest_sha256'' (PStr ''cd'') demo_manifest,
       append_shasums (Some (write_sums [(''old'', ''00'')])) [''ab  os.tar'', ''cd  manifest.json'']),
     json_indent (\<lambda>_. []) 0 (PDict demo_manifest))"
    by (simp add: write_manifest_and_checksums_def manifest_item_def demo_manifest_def path_basename_def)
qed (code_simp | simp add: demo_manifest_def)+

end
