(* ===== verification/Rootfs.thy ===== *)
theory Rootfs
  imports Deb
begin

text \<open>
  \<open>buster/osbuild/rootfs.py\<close>, the tree under construction: the metadata overlay (\<open>modes\<close>, \<open>links\<close>,
  \<open>extra_members\<close>), the layout, the extraction of package payloads and the serialisation into a tar.
  The staging file system is a record of operations on a state of any type: the code relies on none of
  them (a host may refuse links, names and modes), so no law is assumed of them. At serialisation
  the staging tree is a value, as \<open>os.walk\<close> sees it. Host paths are POSIX paths.
\<close>

section \<open>Staging host and overlay\<close>

datatype node_kind = KDir | KFile | KSymlink | KHardlink

record rootfs =
  rf_root :: string
  rf_arch :: string
  rf_modes :: "(node_kind \<times> int) sdict"
  rf_links :: "(node_kind \<times> string) sdict"
  rf_extra :: "(string \<times> int \<times> bytes) list"

record 'h host =
  h_makedirs :: "string \<Rightarrow> 'h \<Rightarrow> exc option \<times> 'h"
  h_chmod :: "string \<Rightarrow> int \<Rightarrow> 'h \<Rightarrow> exc option \<times> 'h"
  h_lexists :: "string \<Rightarrow> 'h \<Rightarrow> bool"
  h_symlink :: "string \<Rightarrow> string \<Rightarrow> 'h \<Rightarrow> exc option \<times> 'h"
  h_unlink :: "string \<Rightarrow> 'h \<Rightarrow> exc option \<times> 'h"
  h_write :: "string \<Rightarrow> bytes \<Rightarrow> 'h \<Rightarrow> exc option \<times> 'h"
  h_read :: "string \<Rightarrow> 'h \<Rightarrow> bytes option"

definition os_error :: "exc \<Rightarrow> bool" where
  "os_error e \<longleftrightarrow> exc_type e \<in> {''OSError'', ''FileNotFoundError'', ''FileExistsError'', ''PermissionError'',
     ''NotADirectoryError'', ''IsADirectoryError''}"

definition s_imode :: "int \<Rightarrow> int" where
  "s_imode m = m mod 4096"

text \<open>Modes are written in octal in the code: 0755, 0644, 0777, 01777, 0700, 0640.\<close>

definition m755 :: int where "m755 = 493"
definition m644 :: int where "m644 = 420"
definition m777 :: int where "m777 = 511"

definition new_rootfs :: "string \<Rightarrow> string \<Rightarrow> string \<Rightarrow> rootfs" where
  "new_rootfs cwd r arch = \<lparr>rf_root = abspath cwd r, rf_arch = arch, rf_modes = [], rf_links = [], rf_extra = []\<rparr>"

definition is_slash :: "char \<Rightarrow> bool" where
  "is_slash c \<longleftrightarrow> c = CHR ''/''"

definition rf_path :: "rootfs \<Rightarrow> string \<Rightarrow> string result" where
  "rf_path rf rel =
     (let target = normpath (path_join (rf_root rf) (lstrip_chars is_slash rel)) in
      if target \<noteq> rf_root rf \<and> \<not> startswith target (rf_root rf @ ''/'')
      then Inl (Exc ''ValueError'' (''path escapes rootfs: '' @ rel)) else Inr target)"

definition rf_normalize :: "string \<Rightarrow> string" where
  "rf_normalize rel =
     (let parts = split_char (CHR ''/'') (strip_chars is_slash rel)
      in join_str ''/'' (if hd parts \<in> {''bin'', ''sbin'', ''lib'', ''lib64''} then ''usr'' # parts else parts))"

definition rf_record :: "string \<Rightarrow> node_kind \<Rightarrow> int \<Rightarrow> string \<Rightarrow> rootfs \<Rightarrow> rootfs" where
  "rf_record rel kind mode link rf =
     (let r = map (\<lambda>c. if c = CHR 0x5C then CHR ''/'' else c) (strip_chars is_slash rel); m = s_imode mode in
      if kind = KSymlink \<or> kind = KHardlink
      then rf\<lparr>rf_modes := dput r (kind, if kind = KSymlink then m777 else m) (rf_modes rf),
              rf_links := dput r (kind, link) (rf_links rf)\<rparr>
      else rf\<lparr>rf_modes := dput r (kind, m) (rf_modes rf)\<rparr>)"

type_synonym 'h build = "rootfs \<times> 'h"

definition rf_chmod :: "'h host \<Rightarrow> string \<Rightarrow> int \<Rightarrow> 'h build \<Rightarrow> unit result \<times> 'h build" where
  "rf_chmod hs rel mode b =
     (let (rf, h) = b in
      case rf_path rf rel of
        Inl e \<Rightarrow> (Inl e, b)
      | Inr p \<Rightarrow> (case h_chmod hs p (s_imode mode) h of
                    (Some e, h') \<Rightarrow> (if os_error e then Inr () else Inl e, (rf, h'))
                  | (None, h') \<Rightarrow> (Inr (), (rf, h'))))"

text \<open>A host operation whose exception propagates, and one whose \<open>OSError\<close> is ignored.\<close>

definition host_do :: "('h \<Rightarrow> exc option \<times> 'h) \<Rightarrow> 'h build \<Rightarrow> unit result \<times> 'h build" where
  "host_do f b = (let (rf, h) = b; (r, h') = f h in ((case r of None \<Rightarrow> Inr () | Some e \<Rightarrow> Inl e), (rf, h')))"

definition host_try :: "('h \<Rightarrow> exc option \<times> 'h) \<Rightarrow> 'h build \<Rightarrow> unit result \<times> 'h build" where
  "host_try f b = (let (rf, h) = b; (r, h') = f h in
     ((case r of None \<Rightarrow> Inr () | Some e \<Rightarrow> if os_error e then Inr () else Inl e), (rf, h')))"

definition rf_note :: "string \<Rightarrow> node_kind \<Rightarrow> int \<Rightarrow> string \<Rightarrow> 'h build \<Rightarrow> unit result \<times> 'h build" where
  "rf_note rel kind mode link b = (Inr (), (rf_record rel kind mode link (fst b), snd b))"

text \<open>Statements in sequence; the first exception ends it.\<close>

fun steps :: "('h build \<Rightarrow> unit result \<times> 'h build) list \<Rightarrow> 'h build \<Rightarrow> unit result \<times> 'h build" where
  "steps [] b = (Inr (), b)"
| "steps (f # fs) b = (case f b of (Inl e, b') \<Rightarrow> (Inl e, b') | (Inr _, b') \<Rightarrow> steps fs b')"

definition with_path :: "string \<Rightarrow> (string \<Rightarrow> 'h build \<Rightarrow> unit result \<times> 'h build) \<Rightarrow> 'h build \<Rightarrow> unit result \<times> 'h build" where
  "with_path rel f b = (case rf_path (fst b) rel of Inl e \<Rightarrow> (Inl e, b) | Inr p \<Rightarrow> f p b)"

section \<open>Layout\<close>

definition base_dirs :: "(string \<times> int) list" where
  "base_dirs = [(''etc'', m755), (''usr'', m755), (''usr/bin'', m755), (''usr/lib'', m755),
     (''usr/sbin'', m755), (''usr/share'', m755), (''opt'', m755), (''srv'', m755),
     (''var'', m755), (''var/lib'', m755), (''var/log'', m755), (''var/cache'', m755),
     (''var/tmp'', 1023), (''run'', m755), (''tmp'', 1023), (''home'', m755),
     (''root'', 448), (''media'', m755), (''mnt'', m755), (''dev'', m755),
     (''proc'', m755), (''sys'', m755), (''etc/apt'', m755), (''etc/apt/trusted.gpg.d'', m755),
     (''etc/profile.d'', m755), (''etc/logrotate.d'', m755),
     (''usr/local'', m755), (''usr/local/bin'', m755), (''usr/local/lib'', m755),
     (''dev/pts'', m755), (''dev/shm'', 1023)]"

definition merged_links :: "string \<Rightarrow> (string \<times> string) list" where
  "merged_links arch = [(''bin'', ''usr/bin''), (''sbin'', ''usr/sbin''), (''lib'', ''usr/lib'')] @
     (if arch = ''amd64'' then [(''lib64'', ''usr/lib64'')] else [])"

definition make_dir :: "'h host \<Rightarrow> string \<times> int \<Rightarrow> 'h build \<Rightarrow> unit result \<times> 'h build" where
  "make_dir hs d = (let (rel, mode) = d in
     steps [with_path rel (\<lambda>p. host_do (h_makedirs hs p)), rf_chmod hs rel mode, rf_note rel KDir mode []])"

definition make_link :: "'h host \<Rightarrow> string \<times> string \<Rightarrow> 'h build \<Rightarrow> unit result \<times> 'h build" where
  "make_link hs l = (let (link, target) = l in
     steps [rf_note link KSymlink m777 target,
       with_path link (\<lambda>p b.
         if h_lexists hs p (snd b) then (Inr (), b)
         else (case h_symlink hs target p (snd b) of
                 (None, h') \<Rightarrow> (Inr (), (fst b, h'))
               | (Some e, h') \<Rightarrow> if os_error e then host_do (h_makedirs hs p) (fst b, h') else (Inl e, (fst b, h'))))])"

definition build_layout :: "'h host \<Rightarrow> 'h build \<Rightarrow> unit result \<times> 'h build" where
  "build_layout hs b = steps (map (make_dir hs) base_dirs @ map (make_link hs) (merged_links (rf_arch (fst b)))) b"

section \<open>Package payloads\<close>

definition write_member :: "'h host \<Rightarrow> string \<Rightarrow> string \<Rightarrow> int \<Rightarrow> bytes \<Rightarrow> 'h build \<Rightarrow> unit result \<times> 'h build" where
  "write_member hs rel target mode data b =
     (case h_write hs target data (snd b) of
        (None, h') \<Rightarrow> rf_chmod hs rel mode (fst b, h')
      | (Some e, h') \<Rightarrow>
          if os_error e
          then (Inr (), ((fst b)\<lparr>rf_extra := rf_extra (fst b) @ [(''/'' @ rel, mode, data)]\<rparr>, h'))
          else (Inl e, (fst b, h')))"

text \<open>What one member adds to the list of installed paths, and its effect.\<close>

definition install_member :: "'h host \<Rightarrow> tar_member \<Rightarrow> 'h build \<Rightarrow> string list result \<times> 'h build" where
  "install_member hs m b =
     (let rel = rf_normalize (clean_name (tm_name m)); mode = s_imode (tm_mode m) in
      if rel = [] then (Inr [], b)
      else
        (case rf_path (fst b) rel of
           Inl e \<Rightarrow> (Inl e, b)
         | Inr target \<Rightarrow>
             (let (r, b') =
                (case tm_type m of
                   MDir \<Rightarrow> steps [host_do (h_makedirs hs target), rf_note rel KDir mode []] b
                 | MSym \<Rightarrow> steps [host_do (h_makedirs hs (path_dirname target)), rf_note rel KSymlink m777 (tm_linkname m),
                     (\<lambda>b. if h_lexists hs target (snd b) then host_try (h_unlink hs target) b else (Inr (), b)),
                     host_try (h_symlink hs (tm_linkname m) target)] b
                 | MLink \<Rightarrow> rf_note rel KHardlink m777 (tm_linkname m) b
                 | MFile \<Rightarrow> steps [host_do (h_makedirs hs (path_dirname target)), rf_note rel KFile mode [],
                     write_member hs rel target mode (tm_data m)] b
                 | MOther \<Rightarrow> (Inr (), b))
              in (map_sum id (\<lambda>_. if tm_type m = MOther then []
                    else if tm_type m = MDir then [''/'' @ rstrip_chars is_slash rel] else [''/'' @ rel]) r, b'))))"

fun install_payload :: "'h host \<Rightarrow> tar_member list \<Rightarrow> 'h build \<Rightarrow> string list result \<times> 'h build" where
  "install_payload hs [] b = (Inr [], b)"
| "install_payload hs (m # ms) b =
     (case install_member hs m b of
        (Inl e, b') \<Rightarrow> (Inl e, b')
      | (Inr xs, b') \<Rightarrow>
          (case install_payload hs ms b' of
             (Inl e, b'') \<Rightarrow> (Inl e, b'')
           | (Inr ys, b'') \<Rightarrow> (Inr (xs @ ys), b'')))"

section \<open>The overlay is a function of the payload\<close>

text \<open>
  The specification of \<open>install_payload\<close> as its module describes it: the overlay after it is the
  overlay before it with one record per member, read from the member alone.
\<close>

type_synonym overlay = "(node_kind \<times> int) sdict \<times> (node_kind \<times> string) sdict"

definition overlay_of :: "rootfs \<Rightarrow> overlay" where
  "overlay_of rf = (rf_modes rf, rf_links rf)"

definition spec_record :: "string \<Rightarrow> node_kind \<Rightarrow> int \<Rightarrow> string \<Rightarrow> overlay \<Rightarrow> overlay" where
  "spec_record rel kind mode link ov =
     (let r = map (\<lambda>c. if c = CHR 0x5C then CHR ''/'' else c) (strip_chars is_slash rel); (ms, ls) = ov in
      (dput r (kind, if kind = KSymlink then m777 else mode) ms,
       if kind = KSymlink \<or> kind = KHardlink then dput r (kind, link) ls else ls))"

definition spec_member :: "overlay \<Rightarrow> tar_member \<Rightarrow> overlay" where
  "spec_member ov m =
     (let rel = rf_normalize (clean_name (tm_name m)); mode = s_imode (tm_mode m) in
      if rel = [] then ov
      else (case tm_type m of
              MDir \<Rightarrow> spec_record rel KDir mode [] ov
            | MSym \<Rightarrow> spec_record rel KSymlink m777 (tm_linkname m) ov
            | MLink \<Rightarrow> spec_record rel KHardlink m777 (tm_linkname m) ov
            | MFile \<Rightarrow> spec_record rel KFile mode [] ov
            | MOther \<Rightarrow> ov))"

definition spec_paths :: "tar_member \<Rightarrow> string list" where
  "spec_paths m =
     (let rel = rf_normalize (clean_name (tm_name m)) in
      if rel = [] \<or> tm_type m = MOther then []
      else if tm_type m = MDir then [''/'' @ rstrip_chars is_slash rel] else [''/'' @ rel])"

lemma s_imode_idem [simp]: "s_imode (s_imode m) = s_imode m" "s_imode m777 = m777"
  by (simp_all add: s_imode_def m777_def)

lemma overlay_record [simp]:
  "overlay_of (rf_record rel kind mode link rf) = spec_record rel kind (s_imode mode) link (overlay_of rf)"
  by (auto simp: overlay_of_def rf_record_def spec_record_def Let_def)

lemma overlay_extra [simp]: "overlay_of (rf\<lparr>rf_extra := x\<rparr>) = overlay_of rf"
  by (simp add: overlay_of_def)

lemma overlay_chmod: "rf_chmod hs rel mode b = (r, b') \<Longrightarrow> overlay_of (fst b') = overlay_of (fst b)"
  by (auto simp: rf_chmod_def split: prod.splits sum.splits option.splits)

lemma overlay_host_do: "host_do f b = (r, b') \<Longrightarrow> overlay_of (fst b') = overlay_of (fst b)"
  by (auto simp: host_do_def split: prod.splits)

lemma overlay_host_try: "host_try f b = (r, b') \<Longrightarrow> overlay_of (fst b') = overlay_of (fst b)"
  by (auto simp: host_try_def split: prod.splits)

lemma overlay_note:
  "rf_note rel kind mode link b = (r, b') \<Longrightarrow>
   r = Inr () \<and> overlay_of (fst b') = spec_record rel kind (s_imode mode) link (overlay_of (fst b))"
  by (auto simp: rf_note_def)

lemma overlay_write: "write_member hs rel target mode data b = (r, b') \<Longrightarrow> overlay_of (fst b') = overlay_of (fst b)"
  by (auto simp: write_member_def split: prod.splits option.splits if_splits dest: overlay_chmod)

lemma overlay_unlink: "(if c then host_try f b else (Inr (), b)) = (r, b') \<Longrightarrow> overlay_of (fst b') = overlay_of (fst b)"
  by (auto split: if_splits dest: overlay_host_try)

lemmas overlay_dests = overlay_chmod overlay_host_do overlay_host_try overlay_note overlay_write overlay_unlink

text \<open>A sequence that ends without an exception is the composition of its statements.\<close>

lemma steps_ok: "steps (f # fs) b = (Inr (), b'') \<longleftrightarrow> (\<exists>b'. f b = (Inr (), b') \<and> steps fs b' = (Inr (), b''))"
  by (auto split: prod.splits sum.splits)

lemma steps_Nil_ok: "steps [] b = (Inr (), b'') \<longleftrightarrow> b'' = b"
  by auto

lemma member_refines:
  assumes "install_member hs m b = (Inr xs, b')"
  shows "overlay_of (fst b') = spec_member (overlay_of (fst b)) m \<and> xs = spec_paths m"
proof (cases "rf_normalize (clean_name (tm_name m)) = []")
  case True
  with assms show ?thesis by (simp add: install_member_def spec_member_def spec_paths_def)
next
  case False
  then obtain target where "rf_path (fst b) (rf_normalize (clean_name (tm_name m))) = Inr target"
    using assms by (auto simp: install_member_def Let_def split: sum.splits)
  with assms False show ?thesis
    by (cases "tm_type m")
      (auto simp: install_member_def spec_member_def spec_paths_def Let_def steps_ok steps_Nil_ok map_sum_def
        simp del: steps.simps split: prod.splits sum.splits dest!: overlay_dests)
qed


text \<open>A host that refuses every write and every link, as some build machines do.\<close>

definition refusing_host :: "nat host" where
  "refusing_host = \<lparr>h_makedirs = (\<lambda>p n. (None, n + 1)), h_chmod = (\<lambda>p m n. (Some (Exc ''PermissionError'' []), n)),
     h_lexists = (\<lambda>p n. False), h_symlink = (\<lambda>t p n. (Some (Exc ''OSError'' []), n)),
     h_unlink = (\<lambda>p n. (None, n)), h_write = (\<lambda>p d n. (Some (Exc ''OSError'' []), n)), h_read = (\<lambda>p n. None)\<rparr>"

definition demo_rootfs :: rootfs where
  "demo_rootfs = new_rootfs ''/'' ''/out/root'' ''arm64''"

definition demo_payload :: "tar_member list" where
  "demo_payload = [\<lparr>tm_name = ''./bin/sh'', tm_type = MFile, tm_mode = 33261, tm_linkname = [], tm_data = ''x''\<rparr>]"

lemma demo_install:
  "install_payload refusing_host demo_payload (demo_rootfs, 0) =
     (Inr [''/usr/bin/sh''], (demo_rootfs\<lparr>rf_modes := [(''usr/bin/sh'', (KFile, m755))],
        rf_extra := [(''/usr/bin/sh'', m755, ''x'')]\<rparr>, 1))"
  by code_simp


section \<open>Serialisation\<close>

text \<open>
  The staging tree as \<open>os.walk\<close> lists it: a link carries the content of the file it leads to, if it
  leads to one, and whether it leads to a directory (then it is among the directories, and is not
  descended into).
\<close>

datatype tree = TFile bytes | TDir "(string \<times> tree) list" | TLink "bytes option" bool

record tar_entry =
  te_name :: string
  te_kind :: node_kind
  te_mode :: int
  te_owner :: "int \<times> int"
  te_link :: string
  te_data :: bytes

definition emitted :: "tar_entry list \<Rightarrow> string set" where
  "emitted tar = set (map te_name tar)"

definition mode_or :: "int \<Rightarrow> int \<Rightarrow> int" where
  "mode_or mode fallback = s_imode (if mode = 0 then fallback else mode)"

definition mode_of :: "rootfs \<Rightarrow> string \<Rightarrow> int \<Rightarrow> int" where
  "mode_of rf rel fallback = (case dget (rf_modes rf) rel of None \<Rightarrow> fallback | Some (_, m) \<Rightarrow> m)"

definition add_dir :: "int \<times> int \<Rightarrow> string \<Rightarrow> int \<Rightarrow> tar_entry list \<Rightarrow> tar_entry list" where
  "add_dir own rel mode tar =
     (if rel = [] \<or> rel = ''.'' \<or> rel \<in> emitted tar then tar
      else tar @ [\<lparr>te_name = rstrip_chars is_slash rel, te_kind = KDir, te_mode = mode_or mode m755, te_owner = own,
        te_link = [], te_data = []\<rparr>])"

definition add_link :: "rootfs \<Rightarrow> int \<times> int \<Rightarrow> string \<Rightarrow> tar_entry list \<Rightarrow> tar_entry list" where
  "add_link rf own rel tar =
     (if rel \<in> emitted tar then tar
      else (let (kind, link) = (case dget (rf_links rf) rel of None \<Rightarrow> (KSymlink, []) | Some l \<Rightarrow> l)
            in tar @ [\<lparr>te_name = rel, te_kind = (if kind = KHardlink then KHardlink else KSymlink), te_mode = m777,
                te_owner = own, te_link = link, te_data = []\<rparr>]))"

definition add_file :: "rootfs \<Rightarrow> int \<times> int \<Rightarrow> string \<Rightarrow> bytes \<Rightarrow> tar_entry list \<Rightarrow> tar_entry list" where
  "add_file rf own rel data tar =
     (if rel \<in> emitted tar then tar
      else tar @ [\<lparr>te_name = rel, te_kind = KFile, te_mode = mode_or (mode_of rf rel m644) m644, te_owner = own,
        te_link = [], te_data = data\<rparr>])"

definition child_rel :: "string \<Rightarrow> string \<Rightarrow> string" where
  "child_rel rel name = (if rel \<noteq> [] then rel @ ''/'' @ name else name)"

definition is_dirlike :: "tree \<Rightarrow> bool" where
  "is_dirlike t = (case t of TDir _ \<Rightarrow> True | TLink _ d \<Rightarrow> d | TFile _ \<Rightarrow> False)"

definition recorded_link :: "rootfs \<Rightarrow> string \<Rightarrow> bool" where
  "recorded_link rf rel \<longleftrightarrow> rel \<in> set (dkeys (rf_links rf))"

definition pack_child_dir :: "rootfs \<Rightarrow> int \<times> int \<Rightarrow> string \<Rightarrow> tar_entry list \<Rightarrow> string \<times> tree \<Rightarrow> tar_entry list" where
  "pack_child_dir rf own rel tar kid =
     (let c = child_rel rel (fst kid) in
      if recorded_link rf c then add_link rf own c tar else add_dir own c (mode_of rf c m755) tar)"

fun pack_files :: "rootfs \<Rightarrow> int \<times> int \<Rightarrow> string \<Rightarrow> (string \<times> tree) list \<Rightarrow> tar_entry list \<Rightarrow> tar_entry list result" where
  "pack_files rf own rel [] tar = Inr tar"
| "pack_files rf own rel ((n, t) # ks) tar =
     (let c = child_rel rel n in
      if recorded_link rf c then pack_files rf own rel ks (add_link rf own c tar)
      else if c \<in> emitted tar then pack_files rf own rel ks tar
      else (case t of
              TFile data \<Rightarrow> pack_files rf own rel ks (add_file rf own c data tar)
            | TLink (Some data) _ \<Rightarrow> pack_files rf own rel ks (add_file rf own c data tar)
            | _ \<Rightarrow> Inl (Exc ''FileNotFoundError'' c)))"

definition pack_here :: "rootfs \<Rightarrow> int \<times> int \<Rightarrow> string \<Rightarrow> (string \<times> tree) list \<Rightarrow> tar_entry list \<Rightarrow> tar_entry list result" where
  "pack_here rf own rel kids tar =
     (let t1 = (if rel = [] then tar else add_dir own rel (mode_of rf rel m755) tar);
          t2 = foldl (pack_child_dir rf own rel) t1 (filter (\<lambda>k. is_dirlike (snd k)) kids)
      in pack_files rf own rel (filter (\<lambda>k. \<not> is_dirlike (snd k)) kids) t2)"

lemma kid_size: "(n, t) \<in> set ks \<Longrightarrow> size t < Suc (size_list (size_prod (\<lambda>_. 0) size) ks)"
  by (induction ks) auto

text \<open>\<open>os.walk\<close> top down: a directory, then its subdirectories in order of name.\<close>

function pack_walk :: "rootfs \<Rightarrow> int \<times> int \<Rightarrow> string \<Rightarrow> tree \<Rightarrow> tar_entry list \<Rightarrow> tar_entry list result" where
  "pack_walk rf own rel (TDir kids) tar =
     (case pack_here rf own rel (sort_key fst kids) tar of
        Inl e \<Rightarrow> Inl e
      | Inr tar' \<Rightarrow>
          foldl (\<lambda>acc k. case acc of Inl e \<Rightarrow> Inl e
                   | Inr tr \<Rightarrow> pack_walk rf own (child_rel rel (fst k)) (snd k) tr)
            (Inr tar') (filter (\<lambda>k. \<not> recorded_link rf (child_rel rel (fst k))) (sort_key fst kids)))"
| "pack_walk rf own rel (TFile d) tar = Inr tar"
| "pack_walk rf own rel (TLink d b) tar = Inr tar"
  by pat_completeness auto

termination
  by (relation "measure (\<lambda>(rf, own, rel, t, tar). size t)") (auto dest: kid_size)

definition pack_extra :: "int \<times> int \<Rightarrow> tar_entry list \<Rightarrow> string \<times> int \<times> bytes \<Rightarrow> tar_entry list" where
  "pack_extra own tar x =
     (let (name, mode, payload) = x; clean = lstrip_chars is_slash name in
      if clean \<in> emitted tar then tar
      else tar @ [\<lparr>te_name = clean, te_kind = KFile, te_mode = mode_or mode m644, te_owner = own, te_link = [],
        te_data = payload\<rparr>])"

definition pack_tree :: "rootfs \<Rightarrow> tree \<Rightarrow> int \<Rightarrow> int \<Rightarrow> tar_entry list result" where
  "pack_tree rf t uid gid =
     (case pack_walk rf (uid, gid) [] t [] of
        Inl e \<Rightarrow> Inl e
      | Inr tar \<Rightarrow> Inr (foldl (pack_extra (uid, gid))
          (foldl (\<lambda>tr rel. add_link rf (uid, gid) rel tr) tar (sort (remdups (dkeys (rf_links rf))))) (rf_extra rf)))"

section \<open>The tar agrees with the overlay\<close>

definition extra_entry :: "rootfs \<Rightarrow> tar_entry \<Rightarrow> bool" where
  "extra_entry rf e \<longleftrightarrow> (te_name e, te_mode e, te_data e) \<in>
     set (map (\<lambda>(n, m, d). (lstrip_chars is_slash n, mode_or m m644, d)) (rf_extra rf))"

definition entry_ok :: "rootfs \<Rightarrow> tar_entry \<Rightarrow> bool" where
  "entry_ok rf e =
     (case dget (rf_links rf) (te_name e) of
        Some (k, l) \<Rightarrow> te_kind e = (if k = KHardlink then KHardlink else KSymlink) \<and> te_link e = l \<and> te_mode e = m777
      | None \<Rightarrow> te_kind e = KDir \<and> te_mode e = mode_or (mode_of rf (te_name e) m755) m755 \<or>
          te_kind e = KFile \<and> (te_mode e = mode_or (mode_of rf (te_name e) m644) m644 \<or> extra_entry rf e))"

definition tar_ok :: "rootfs \<Rightarrow> tar_entry list \<Rightarrow> bool" where
  "tar_ok rf tar \<longleftrightarrow> distinct (map te_name tar) \<and> list_all (entry_ok rf) tar"

text \<open>Names of a directory's entries are not empty and hold no slash.\<close>

fun names_ok :: "tree \<Rightarrow> bool" where
  "names_ok (TDir kids) = list_all (\<lambda>(n, t). n \<noteq> [] \<and> CHR ''/'' \<notin> set n \<and> names_ok t) kids"
| "names_ok _ = True"

lemma tar_ok_Nil [simp]: "tar_ok rf []"
  by (simp add: tar_ok_def)

lemma tar_ok_snoc: "tar_ok rf tar \<Longrightarrow> te_name e \<notin> emitted tar \<Longrightarrow> entry_ok rf e \<Longrightarrow> tar_ok rf (tar @ [e])"
  by (simp add: tar_ok_def emitted_def)

lemma add_link_ok: "tar_ok rf tar \<Longrightarrow> recorded_link rf rel \<Longrightarrow> tar_ok rf (add_link rf own rel tar)"
proof -
  assume a: "tar_ok rf tar" "recorded_link rf rel"
  then obtain k l where "dget (rf_links rf) rel = Some (k, l)"
    unfolding recorded_link_def by (metis dget_None_iff option.exhaust surj_pair)
  with a show ?thesis by (auto simp: add_link_def entry_ok_def intro!: tar_ok_snoc)
qed

lemma unrecorded: "\<not> recorded_link rf rel \<Longrightarrow> dget (rf_links rf) rel = None"
  unfolding recorded_link_def by (metis dget_None_iff)

lemma add_dir_ok: "tar_ok rf tar \<Longrightarrow> \<not> recorded_link rf rel \<Longrightarrow> rstrip_chars is_slash rel = rel \<Longrightarrow>
    tar_ok rf (add_dir own rel (mode_of rf rel m755) tar)"
  by (auto simp: add_dir_def entry_ok_def unrecorded intro!: tar_ok_snoc)

lemma add_file_ok: "tar_ok rf tar \<Longrightarrow> \<not> recorded_link rf rel \<Longrightarrow> tar_ok rf (add_file rf own rel data tar)"
  by (auto simp: add_file_def entry_ok_def unrecorded intro!: tar_ok_snoc)

lemma child_name: "n \<noteq> [] \<Longrightarrow> CHR ''/'' \<notin> set n \<Longrightarrow> rstrip_chars is_slash (child_rel rel n) = child_rel rel n"
  by (cases n rule: rev_cases) (auto simp: rstrip_chars_def child_rel_def is_slash_def)

definition kids_ok :: "(string \<times> tree) list \<Rightarrow> bool" where
  "kids_ok kids = list_all (\<lambda>(n, t). n \<noteq> [] \<and> CHR ''/'' \<notin> set n \<and> names_ok t) kids"

lemma kids_ok_parts: "kids_ok kids \<Longrightarrow> kids_ok (filter P kids) \<and> kids_ok (sort_key f kids)"
  by (auto simp: kids_ok_def list_all_iff)

lemma pack_child_dir_ok:
  "tar_ok rf tar \<Longrightarrow> n \<noteq> [] \<Longrightarrow> CHR ''/'' \<notin> set n \<Longrightarrow> tar_ok rf (pack_child_dir rf own rel tar (n, t))"
  by (simp add: pack_child_dir_def Let_def add_link_ok add_dir_ok child_name)

lemma pack_dirs_ok: "tar_ok rf tar \<Longrightarrow> kids_ok kids \<Longrightarrow> tar_ok rf (foldl (pack_child_dir rf own rel) tar kids)"
  by (induction kids arbitrary: tar) (auto simp: kids_ok_def pack_child_dir_ok)

lemma pack_files_ok: "pack_files rf own rel ks tar = Inr tar' \<Longrightarrow> tar_ok rf tar \<Longrightarrow> tar_ok rf tar'"
  by (induction rf own rel ks tar arbitrary: tar' rule: pack_files.induct)
    (auto simp: Let_def add_link_ok add_file_ok split: if_splits tree.splits option.splits)

lemma pack_here_ok:
  assumes "pack_here rf own rel kids tar = Inr tar'" and "tar_ok rf tar" and "kids_ok kids"
    and "rel = [] \<or> \<not> recorded_link rf rel \<and> rstrip_chars is_slash rel = rel"
  shows "tar_ok rf tar'"
proof -
  have "tar_ok rf (if rel = [] then tar else add_dir own rel (mode_of rf rel m755) tar)"
    using assms by (auto intro: add_dir_ok)
  then have "tar_ok rf (foldl (pack_child_dir rf own rel)
      (if rel = [] then tar else add_dir own rel (mode_of rf rel m755) tar) (filter (\<lambda>k. is_dirlike (snd k)) kids))"
    using kids_ok_parts [OF assms(3)] by (intro pack_dirs_ok) auto
  then show ?thesis using assms(1) unfolding pack_here_def Let_def by (rule pack_files_ok [rotated])
qed

lemma fold_result_inv:
  assumes "foldl (\<lambda>acc k. case acc of Inl e \<Rightarrow> Inl e | Inr x \<Rightarrow> f k x) (Inr a) ks = Inr b" and "P a"
    and "\<And>k x y. k \<in> set ks \<Longrightarrow> P x \<Longrightarrow> f k x = Inr y \<Longrightarrow> P y"
  shows "P b"
  using assms
proof (induction ks arbitrary: a)
  case (Cons k ks)
  have stuck: "foldl (\<lambda>acc k. case acc of Inl e \<Rightarrow> Inl e | Inr x \<Rightarrow> f k x) (Inl e) ks = Inl e" for e
    by (induction ks) auto
  show ?case
  proof (cases "f k a")
    case (Inl e)
    with Cons.prems(1) stuck show ?thesis by simp
  next
    case (Inr y)
    show ?thesis
    proof (rule Cons.IH [of y])
      show "foldl (\<lambda>acc k. case acc of Inl e \<Rightarrow> Inl e | Inr x \<Rightarrow> f k x) (Inr y) ks = Inr b"
        using Cons.prems(1) Inr by simp
      show "P y" using Cons.prems(2,3) Inr by (meson list.set_intros(1))
      show "P y'" if "k' \<in> set ks" "P x" "f k' x = Inr y'" for k' x y'
        using Cons.prems(3) that by (meson list.set_intros(2))
    qed
  qed
qed simp

lemma pack_walk_ok:
  "pack_walk rf own rel t tar = Inr tar' \<Longrightarrow> tar_ok rf tar \<Longrightarrow> names_ok t \<Longrightarrow>
   rel = [] \<or> \<not> recorded_link rf rel \<and> rstrip_chars is_slash rel = rel \<Longrightarrow> tar_ok rf tar'"
proof (induction rf own rel t tar arbitrary: tar' rule: pack_walk.induct)
  case (1 rf own rel kids tar)
  let ?kids = "sort_key fst kids"
  from "1.prems"(3) have ok: "kids_ok kids" by (simp add: kids_ok_def)
  from "1.prems"(1) obtain here where here: "pack_here rf own rel ?kids tar = Inr here" by (auto split: sum.splits)
  have start: "tar_ok rf here" by (rule pack_here_ok [OF here "1.prems"(2) _ "1.prems"(4)]) (use kids_ok_parts [OF ok, of "\<lambda>_. True" fst] in simp)
  have run: "foldl (\<lambda>acc k. case acc of Inl e \<Rightarrow> Inl e | Inr tr \<Rightarrow> pack_walk rf own (child_rel rel (fst k)) (snd k) tr)
      (Inr here) (filter (\<lambda>k. \<not> recorded_link rf (child_rel rel (fst k))) ?kids) = Inr tar'"
    using "1.prems"(1) here by simp
  show ?case
  proof (rule fold_result_inv [OF run, of "tar_ok rf"])
    show "tar_ok rf here" by (rule start)
    fix k x y
    assume k: "k \<in> set (filter (\<lambda>k. \<not> recorded_link rf (child_rel rel (fst k))) ?kids)"
      and x: "tar_ok rf x" and y: "pack_walk rf own (child_rel rel (fst k)) (snd k) x = Inr y"
    then have "fst k \<noteq> []" "CHR ''/'' \<notin> set (fst k)" "names_ok (snd k)"
      using ok by (auto simp: kids_ok_def list_all_iff)
    then show "tar_ok rf y" using "1.IH" [OF here k _ y x] k child_name by auto
  qed
qed simp_all

lemma add_link_emitted: "emitted (add_link rf own rel tar) = insert rel (emitted tar)"
  by (simp add: add_link_def emitted_def split_beta insert_absorb)

lemma add_links:
  "tar_ok rf tar \<Longrightarrow> set rels \<subseteq> set (dkeys (rf_links rf)) \<Longrightarrow>
   tar_ok rf (foldl (\<lambda>tr rel. add_link rf own rel tr) tar rels) \<and>
   set rels \<union> emitted tar \<subseteq> emitted (foldl (\<lambda>tr rel. add_link rf own rel tr) tar rels)"
proof (induction rels arbitrary: tar)
  case (Cons r rels)
  then have "tar_ok rf (add_link rf own r tar)" by (simp add: add_link_ok recorded_link_def)
  with Cons show ?case by (fastforce simp: add_link_emitted)
qed simp

lemma add_extras:
  "tar_ok rf tar \<Longrightarrow> set xs \<subseteq> set (rf_extra rf) \<Longrightarrow> set (dkeys (rf_links rf)) \<subseteq> emitted tar \<Longrightarrow>
   tar_ok rf (foldl (pack_extra own) tar xs) \<and> emitted tar \<subseteq> emitted (foldl (pack_extra own) tar xs)"
proof (induction xs arbitrary: tar)
  case (Cons x xs)
  obtain n m d where x: "x = (n, m, d)" by (cases x)
  have "tar_ok rf (pack_extra own tar x)"
  proof (cases "lstrip_chars is_slash n \<in> emitted tar")
    case False
    then have "\<not> recorded_link rf (lstrip_chars is_slash n)" using Cons.prems(3) by (auto simp: recorded_link_def)
    moreover have "extra_entry rf \<lparr>te_name = lstrip_chars is_slash n, te_kind = KFile, te_mode = mode_or m m644,
        te_owner = own, te_link = [], te_data = d\<rparr>"
      using Cons.prems(2) x by (force simp: extra_entry_def)
    ultimately show ?thesis using False Cons.prems(1) x
      by (simp add: pack_extra_def Let_def entry_ok_def unrecorded tar_ok_snoc)
  qed (use Cons.prems x in \<open>simp add: pack_extra_def Let_def\<close>)
  moreover have "emitted tar \<subseteq> emitted (pack_extra own tar x)" using x by (auto simp: pack_extra_def emitted_def Let_def)
  ultimately show ?case using Cons.IH [of "pack_extra own tar x"] Cons.prems by auto
qed simp

lemma packed_tar_ok:
  assumes "pack_tree rf t uid gid = Inr tar" and "names_ok t"
  shows "distinct (map te_name tar) \<and> list_all (entry_ok rf) tar \<and>
    set (dkeys (rf_links rf)) \<subseteq> set (map te_name tar)"
proof -
  from assms(1) obtain w where w: "pack_walk rf (uid, gid) [] t [] = Inr w"
    and tar: "tar = foldl (pack_extra (uid, gid))
      (foldl (\<lambda>tr rel. add_link rf (uid, gid) rel tr) w (sort (remdups (dkeys (rf_links rf))))) (rf_extra rf)"
    by (auto simp: pack_tree_def split: sum.splits)
  have "tar_ok rf w" using pack_walk_ok [OF w] assms(2) by simp
  from add_links [OF this, of "sort (remdups (dkeys (rf_links rf)))" "(uid, gid)"]
  have l: "tar_ok rf (foldl (\<lambda>tr rel. add_link rf (uid, gid) rel tr) w (sort (remdups (dkeys (rf_links rf)))))"
    "set (dkeys (rf_links rf)) \<subseteq> emitted (foldl (\<lambda>tr rel. add_link rf (uid, gid) rel tr) w (sort (remdups (dkeys (rf_links rf)))))"
    by simp_all
  from add_extras [OF l(1) subset_refl l(2), of "(uid, gid)"] l(2) show ?thesis
    by (auto simp: tar tar_ok_def emitted_def)
qed


definition demo_staged :: rootfs where
  "demo_staged = demo_rootfs\<lparr>rf_modes := [(''usr'', (KDir, m755)), (''usr/sh'', (KFile, m755)), (''bin'', (KSymlink, m777))],
     rf_links := [(''bin'', (KSymlink, ''usr''))]\<rparr>"

definition demo_tree :: tree where
  "demo_tree = TDir [(''usr'', TDir [(''sh'', TFile ''x'')]), (''bin'', TDir [])]"


text \<open>
  A mode of zero is taken for a missing one: a file that its package ships without any permission is
  packed readable by everyone, and so is not the mode the overlay records.
\<close>

lemma mode_zero_widened:
  "dget (rf_modes rf) rel = Some (KFile, 0) \<Longrightarrow> rel \<notin> emitted tar \<Longrightarrow>
   te_mode (last (add_file rf own rel data tar)) = m644"
  by (simp add: add_file_def mode_of_def mode_or_def s_imode_def m644_def)

text \<open>
  A hard link keeps the name its package gave the target, which the payload's own path does not: the
  member \<open>./bin/b\<close>, linked to \<open>./bin/a\<close>, is recorded as \<open>usr/bin/b\<close> with the target \<open>./bin/a\<close>.
\<close>

lemma hardlink_target_not_normalised:
  "spec_member ov \<lparr>tm_name = ''./bin/b'', tm_type = MLink, tm_mode = 493, tm_linkname = ''./bin/a'', tm_data = []\<rparr> =
     spec_record ''usr/bin/b'' KHardlink m777 ''./bin/a'' ov"
proof -
  have "rf_normalize (clean_name ''./bin/b'') = ''usr/bin/b''" by code_simp
  then show ?thesis by (simp add: spec_member_def)
qed

end
