(* ===== verification/Os_Files.thy ===== *)
theory Os_Files
  imports Rootfs Json
begin

text \<open>
  \<open>osbuild/identity.py\<close> (the templates) and the writers of \<open>osbuild/rootfs.py\<close>: metadata files, account
  databases, the dpkg database, the identity files. Text is its UTF-8 bytes, so a dash outside ASCII
  is its three bytes. The staging host is the record of \<open>Rootfs\<close>.
\<close>

section \<open>Templates\<close>

definition text_lines :: "string list \<Rightarrow> string" where
  "text_lines ls = concat (map (\<lambda>l. l @ [CHR 0x0A]) ls)"

definition os_release :: "string \<Rightarrow> string \<Rightarrow> string" where
  "os_release version id_hint = text_lines [
     ''NAME='' @ [CHR 0x22] @ ''Buster OS'' @ [CHR 0x22],
     ''VERSION='' @ [CHR 0x22] @ version @ [CHR 0x22],
     ''ID='' @ id_hint,
     ''ID_LIKE=debian'',
     ''PRETTY_NAME='' @ [CHR 0x22] @ ''Buster OS '' @ version @ [CHR 0x22],
     ''HOME_URL='' @ [CHR 0x22] @ ''https://busteros.example'' @ [CHR 0x22],
     ''VERSION_ID='' @ [CHR 0x22] @ version @ [CHR 0x22],
     ''BUG_REPORT_URL='' @ [CHR 0x22] @ ''https://github.com/xbustcodex/AIOperator/issues'' @ [CHR 0x22]]"

definition issue_text :: "string \<Rightarrow> string" where
  "issue_text version = ''Buster OS '' @ version @ '' '' @ [CHR 0x5C] @ ''n '' @ [CHR 0x5C] @ ''l'' @ [CHR 0x5C] @ ''n''"

definition hosts_text :: "string \<Rightarrow> string" where
  "hosts_text hostname = text_lines [
     ''127.0.0.1'' @ [CHR 0x09] @ ''localhost'',
     ''127.0.1.1'' @ [CHR 0x09] @ hostname,
     [],
     ''# The following lines are desirable for IPv6 capable hosts'',
     ''::1     ip6-localhost ip6-loopback'',
     ''fe00::0 ip6-localnet'',
     ''ff00::0 ip6-mcastprefix'',
     ''ff02::1 ip6-allnodes'',
     ''ff02::2 ip6-allrouters'']"

definition nsswitch_conf :: "string" where
  "nsswitch_conf = text_lines [
     ''passwd:         files systemd'',
     ''group:          files systemd'',
     ''shadow:         files'',
     ''gshadow:        files'',
     [],
     ''hosts:          files dns'',
     ''networks:       files'',
     [],
     ''protocols:      db files'',
     ''services:       db files'',
     ''ethers:         files'',
     ''rpc:            db files'',
     [],
     ''netgroup:       nis'']"

definition apt_sources :: "string \<Rightarrow> string \<Rightarrow> string \<Rightarrow> string \<Rightarrow> string" where
  "apt_sources arch mirror suite security_mirror = text_lines [
     ''# Buster OS '' @ [CHR 0xE2] @ [CHR 0x80] @ [CHR 0x94] @ '' Debian '' @ suite @ '' sources (upstream Linux foundation).'',
     ''deb '' @ mirror @ '' '' @ suite @ '' main'',
     ''deb '' @ mirror @ '' '' @ suite @ ''-updates main'',
     ''deb '' @ security_mirror @ '' '' @ suite @ ''-security main'',
     ''# Uncomment contrib/non-free as needed by your deployment.'',
     ''# deb '' @ mirror @ '' '' @ suite @ '' contrib non-free'']"

definition fstab :: "string" where
  "fstab = text_lines [
     ''# Buster OS fstab '' @ [CHR 0xE2] @ [CHR 0x80] @ [CHR 0x94] @ '' your deployment adds partitions as appropriate.'',
     ''proc            /proc           proc    defaults                0       0'',
     ''sysfs           /sys            sysfs   defaults                0       0'',
     ''devpts          /dev/pts        devpts  gid=5,mode=620          0       0'',
     ''tmpfs           /run            tmpfs   defaults                0       0'',
     ''tmpfs           /dev/shm        tmpfs   mode=1777,nosuid,nodev  0       0'',
     ''tmpfs           /tmp            tmpfs   defaults                0       0'']"

definition buster_profile_sh :: "string" where
  "buster_profile_sh = text_lines [
     ''# Buster OS environment'',
     ''export PATH='' @ [CHR 0x22] @ ''$PATH:/opt/buster/bin'' @ [CHR 0x22]]"

definition systemd_unit :: "string" where
  "systemd_unit = text_lines [
     ''[Unit]'',
     ''Description=Buster OS runtime daemon'',
     ''After=network.target local-fs.target'',
     [],
     ''[Service]'',
     ''Type=simple'',
     ''EnvironmentFile=/etc/buster/buster.env'',
     ''Environment=PYTHONUNBUFFERED=1'',
     ''ExecStart=/usr/bin/python3 -m buster.cli daemon'',
     ''WorkingDirectory=/opt/buster/lib'',
     ''Restart=on-failure'',
     ''RestartSec=5'',
     [],
     ''[Install]'',
     ''WantedBy=multi-user.target'']"

definition sysvinit_script :: "string" where
  "sysvinit_script = text_lines [
     ''#!/bin/sh'',
     ''# Buster OS runtime daemon (sysvinit compatibility)'',
     ''case '' @ [CHR 0x22] @ ''$1'' @ [CHR 0x22] @ '' in'',
     ''  start)'',
     ''    [ -d /run/buster ] || mkdir -p /run/buster'',
     ''    if [ -f /run/buster/runtime.lock ]; then'',
     ''      echo '' @ [CHR 0x22] @ ''Buster already running'' @ [CHR 0x22],
     ''      exit 0'',
     ''    fi'',
     ''    start-stop-daemon --start --background --make-pidfile '' @ [CHR 0x5C],
     ''      --pidfile /run/buster/busterd.pid --startas /usr/bin/buster '' @ [CHR 0x5C],
     ''      -- start'',
     ''    ;;'',
     ''  stop)'',
     ''    /usr/bin/buster stop || true'',
     ''    ;;'',
     ''  status)'',
     ''    /usr/bin/buster status'',
     ''    ;;'',
     ''  *)'',
     ''        echo '' @ [CHR 0x22] @ ''Usage: /etc/init.d/buster {start|stop|status}'' @ [CHR 0x22],
     ''    exit 1'',
     ''    ;;'',
     ''esac'',
     ''exit 0'']"

definition passwd_rows :: "string list list" where
  "passwd_rows = [
     [''root'', ''x'', ''0'', ''0'', ''Buster OS superuser'', ''/root'', ''/bin/bash''],
     [''daemon'', ''x'', ''1'', ''1'', ''daemon'', ''/usr/sbin'', ''/usr/sbin/nologin''],
     [''bin'', ''x'', ''2'', ''2'', ''bin'', ''/bin'', ''/usr/sbin/nologin''],
     [''sys'', ''x'', ''3'', ''3'', ''sys'', ''/dev'', ''/usr/sbin/nologin''],
     [''sync'', ''x'', ''4'', ''65534'', ''sync'', ''/bin'', ''/bin/sync''],
     [''games'', ''x'', ''5'', ''60'', ''games'', ''/usr/games'', ''/usr/sbin/nologin''],
     [''man'', ''x'', ''6'', ''12'', ''man'', ''/var/cache/man'', ''/usr/sbin/nologin''],
     [''lp'', ''x'', ''7'', ''7'', ''lp'', ''/var/spool/lpd'', ''/usr/sbin/nologin''],
     [''mail'', ''x'', ''8'', ''8'', ''mail'', ''/var/mail'', ''/usr/sbin/nologin''],
     [''news'', ''x'', ''9'', ''9'', ''news'', ''/var/spool/news'', ''/usr/sbin/nologin''],
     [''uucp'', ''x'', ''10'', ''10'', ''uucp'', ''/var/spool/uucp'', ''/usr/sbin/nologin''],
     [''proxy'', ''x'', ''13'', ''13'', ''proxy'', ''/bin'', ''/usr/sbin/nologin''],
     [''www-data'', ''x'', ''33'', ''33'', ''www-data'', ''/var/www'', ''/usr/sbin/nologin''],
     [''backup'', ''x'', ''34'', ''34'', ''backup'', ''/var/backups'', ''/usr/sbin/nologin''],
     [''list'', ''x'', ''38'', ''38'', ''Mailing List Manager'', ''/var/list'', ''/usr/sbin/nologin''],
     [''irc'', ''x'', ''39'', ''39'', ''ircd'', ''/run/ircd'', ''/usr/sbin/nologin''],
     [''_apt'', ''x'', ''100'', ''65534'', [], ''/nonexistent'', ''/usr/sbin/nologin''],
     [''buster'', ''x'', ''1000'', ''1000'', ''Buster OS service user'', ''/home/buster'', ''/bin/bash'']]"

definition group_rows :: "string list list" where
  "group_rows = [
     [''root'', ''x'', ''0''],
     [''daemon'', ''x'', ''1''],
     [''bin'', ''x'', ''2''],
     [''sys'', ''x'', ''3''],
     [''adm'', ''x'', ''4''],
     [''tty'', ''x'', ''5''],
     [''disk'', ''x'', ''6''],
     [''lp'', ''x'', ''7''],
     [''mail'', ''x'', ''8''],
     [''news'', ''x'', ''9''],
     [''uucp'', ''x'', ''10''],
     [''man'', ''x'', ''12''],
     [''proxy'', ''x'', ''13''],
     [''kmem'', ''x'', ''15''],
     [''dialout'', ''x'', ''20''],
     [''fax'', ''x'', ''21''],
     [''voice'', ''x'', ''22''],
     [''cdrom'', ''x'', ''24''],
     [''floppy'', ''x'', ''25''],
     [''tape'', ''x'', ''26''],
     [''sudo'', ''x'', ''27''],
     [''audio'', ''x'', ''29''],
     [''dip'', ''x'', ''30''],
     [''www-data'', ''x'', ''33''],
     [''backup'', ''x'', ''34''],
     [''operator'', ''x'', ''37''],
     [''list'', ''x'', ''38''],
     [''irc'', ''x'', ''39''],
     [''src'', ''x'', ''40''],
     [''shadow'', ''x'', ''42''],
     [''utmp'', ''x'', ''43''],
     [''video'', ''x'', ''44''],
     [''sasl'', ''x'', ''45''],
     [''plugdev'', ''x'', ''46''],
     [''staff'', ''x'', ''50''],
     [''games'', ''x'', ''60''],
     [''users'', ''x'', ''100''],
     [''nogroup'', ''x'', ''65534''],
     [''buster'', ''x'', ''1000'']]"

definition json_doc :: "pyval sdict \<Rightarrow> string" where
  "json_doc d = json_indent (\<lambda>_. []) 0 (PDict d)"

definition buster_config_json :: "string \<Rightarrow> string \<Rightarrow> string" where
  "buster_config_json install_path log_dir = json_doc
     [(''logging_level'', PStr ''INFO''), (''ai_providers'', PDict []), (''permissions'', PDict []),
      (''capabilities'', PDict []), (''security'', PDict [(''elevation_allow'', PList [])]),
      (''install_path'', PStr install_path), (''log_dir'', PStr log_dir)]"

definition identity_json :: "string \<Rightarrow> string \<Rightarrow> string \<Rightarrow> string \<Rightarrow> string" where
  "identity_json version arch foundation foundation_version = json_doc
     [(''os'', PStr ''Buster OS''), (''version'', PStr version), (''architecture'', PStr arch),
      (''foundation'', PStr foundation), (''foundation_version'', PStr foundation_version), (''id'', PStr ''busteros'')]"

definition buster_daemon_python :: "string \<Rightarrow> string" where
  "buster_daemon_python install_path = text_lines [
     [],
     ''import sys'',
     ''sys.path.insert(0, '' @ [CHR 0x22] @ ''/opt/buster/lib'' @ [CHR 0x22] @ '')'',
     ''from buster.config import Config'',
     ''from buster.runtime import run_daemon'',
     ''import os'',
     ''config = Config(config_path='' @ [CHR 0x22] @ ''/etc/buster/config.json'' @ [CHR 0x22] @
       '', install_path='' @ repr_str install_path @ '')'',
     ''sys.exit(run_daemon('' @ repr_str install_path @ '', config=config))'']"

section \<open>Writers\<close>

definition write_metadata :: "'h host \<Rightarrow> string \<Rightarrow> bytes \<Rightarrow> int \<Rightarrow> 'h build \<Rightarrow> unit result \<times> 'h build" where
  "write_metadata hs rel data mode = with_path rel (\<lambda>target. steps
     [host_do (h_makedirs hs (path_dirname target)), host_do (h_write hs target data),
      rf_chmod hs rel mode, rf_note rel KFile mode []])"

definition make_dirs :: "'h host \<Rightarrow> string \<Rightarrow> 'h build \<Rightarrow> unit result \<times> 'h build" where
  "make_dirs hs rel = steps [with_path rel (\<lambda>p. host_do (h_makedirs hs p)), rf_note rel KDir m755 []]"

definition write_passwd :: "'h host \<Rightarrow> 'h build \<Rightarrow> unit result \<times> 'h build" where
  "write_passwd hs = write_metadata hs ''etc/passwd'' (text_lines (map (join_str '':'') passwd_rows)) m644"

definition write_group :: "'h host \<Rightarrow> 'h build \<Rightarrow> unit result \<times> 'h build" where
  "write_group hs = write_metadata hs ''etc/group'' (text_lines (map (join_str '':'') group_rows)) m644"

text \<open>A file read line by line: each line with its line feed (CR LF reads as one).\<close>

fun file_lines :: "string \<Rightarrow> string \<Rightarrow> string list" where
  "file_lines buf [] = (if buf = [] then [] else [buf])"
| "file_lines buf (c # s) =
     (if c = CHR 0x0A then (buf @ [CHR 0x0A]) # file_lines [] s
      else if c = CHR 0x0D then (case s of d # t \<Rightarrow> if d = CHR 0x0A then (buf @ [CHR 0x0A]) # file_lines [] t
               else (buf @ [CHR 0x0A]) # file_lines [] s | [] \<Rightarrow> [buf @ [CHR 0x0A]])
      else file_lines (buf @ [c]) s)"

definition locked_row :: "string \<Rightarrow> string list" where
  "locked_row name = [name, ''!'', [], [], [], [], [], [], []]"

definition shadow_seed :: "string list list" where
  "shadow_seed = [[''root'', ''!x'', ''19701'', ''0'', ''99999'', ''7'', [], [], []], locked_row ''daemon'']"

definition add_shadow :: "string list list \<Rightarrow> string \<Rightarrow> string list list" where
  "add_shadow rows line =
     (let name = hd (split_char (CHR '':'') line)
      in if name \<noteq> [] \<and> name \<notin> set (map hd rows) then rows @ [locked_row name] else rows)"

definition shadow_rows :: "bytes option \<Rightarrow> string list list" where
  "shadow_rows passwd =
     (case passwd of None \<Rightarrow> shadow_seed | Some t \<Rightarrow> foldl add_shadow shadow_seed (file_lines [] t))"

definition write_shadow :: "'h host \<Rightarrow> 'h build \<Rightarrow> unit result \<times> 'h build" where
  "write_shadow hs = with_path ''etc/passwd'' (\<lambda>r b.
     write_metadata hs ''etc/shadow'' (text_lines (map (join_str '':'') (shadow_rows (h_read hs r (snd b))))) 416 b)"

definition write_passwd_db :: "'h host \<Rightarrow> 'h build \<Rightarrow> unit result \<times> 'h build" where
  "write_passwd_db hs = steps [write_passwd hs, write_group hs, write_shadow hs]"

definition write_base_config :: "'h host \<Rightarrow> string \<Rightarrow> string \<Rightarrow> string \<Rightarrow> string \<Rightarrow> 'h build \<Rightarrow> unit result \<times> 'h build" where
  "write_base_config hs distro mirror security_mirror hostname b =
     steps (map (\<lambda>(rel, txt). write_metadata hs rel txt m644)
       [(''etc/hostname'', hostname @ [CHR 0x0A]), (''etc/hosts'', hosts_text hostname),
        (''etc/nsswitch.conf'', nsswitch_conf), (''etc/fstab'', fstab),
        (''etc/apt/sources.list'', apt_sources (rf_arch (fst b)) (rstrip_chars is_slash mirror) distro
           (rstrip_chars is_slash security_mirror)),
        (''etc/default/locale'', text_lines [''LANG=C.UTF-8'', ''LC_ALL=C.UTF-8'']),
        (''etc/timezone'', text_lines [''Etc/UTC'']),
        (''etc/environment'', text_lines [''PATH='' @ [CHR 0x22] @
           ''/usr/local/sbin:/usr/local/bin:/usr/sbin:/usr/bin:/sbin:/bin'' @ [CHR 0x22]]),
        (''etc/skel/.profile'', text_lines [''# Buster OS user profile''])]) b"

definition write_buster_services :: "'h host \<Rightarrow> 'h build \<Rightarrow> unit result \<times> 'h build" where
  "write_buster_services hs = steps
     [write_metadata hs ''etc/systemd/system/buster.service'' systemd_unit m644,
      write_metadata hs ''etc/init.d/buster'' sysvinit_script m755]"

definition system_log_dir :: string where
  "system_log_dir = ''/var/log/buster''"

definition write_buster_config :: "'h host \<Rightarrow> string \<Rightarrow> 'h build \<Rightarrow> unit result \<times> 'h build" where
  "write_buster_config hs install_path = steps
     [make_dirs hs ''etc/buster'',
      write_metadata hs ''etc/buster/config.json'' (buster_config_json install_path system_log_dir) m644,
      write_metadata hs ''etc/buster/buster.env'' (''BUSTER_INSTALL='' @ install_path @ [CHR 0x0A]) m644]"

definition write_buster_identity :: "'h host \<Rightarrow> string \<Rightarrow> 'h build \<Rightarrow> unit result \<times> 'h build" where
  "write_buster_identity hs version b = steps
     [make_dirs hs ''usr/share/buster'',
      write_metadata hs ''usr/share/buster/VERSION'' (version @ [CHR 0x0A]) m644,
      write_metadata hs ''usr/share/buster/identity.json'' (identity_json version (rf_arch (fst b)) ''debian'' ''bookworm'') m644] b"

definition link_or_copy :: "'h host \<Rightarrow> bytes \<Rightarrow> string \<Rightarrow> 'h build \<Rightarrow> unit result \<times> 'h build" where
  "link_or_copy hs data osrc b =
     (case h_symlink hs ''../usr/lib/os-release'' osrc (snd b) of
        (None, h') \<Rightarrow> rf_note ''etc/os-release'' KSymlink m777 ''../usr/lib/os-release'' (fst b, h')
      | (Some e, h') \<Rightarrow>
          if os_error e then steps [host_do (h_write hs osrc data), rf_note ''etc/os-release'' KFile m644 []] (fst b, h')
          else (Inl e, (fst b, h')))"

definition write_os_release :: "'h host \<Rightarrow> string \<Rightarrow> 'h build \<Rightarrow> unit result \<times> 'h build" where
  "write_os_release hs version = steps
     [with_path ''usr/lib/os-release'' (\<lambda>p. steps
        [host_do (h_makedirs hs (path_dirname p)), host_do (h_write hs p (os_release version ''busteros'')),
         rf_note ''usr/lib/os-release'' KFile m644 []]),
      with_path ''etc/os-release'' (\<lambda>p. steps
        [(\<lambda>b. if h_lexists hs p (snd b) then host_try (h_unlink hs p) b else (Inr (), b)),
         link_or_copy hs (os_release version ''busteros'') p]),
      write_metadata hs ''etc/issue'' (issue_text version) m644]"

section \<open>The dpkg database\<close>

definition dpkg_dirs :: "string list" where
  "dpkg_dirs = [''var/lib/dpkg/updates'', ''var/lib/dpkg/info'', ''var/lib/dpkg/parts'',
     ''var/lib/apt/lists/partial'', ''var/cache/apt/archives/partial'', ''var/lib/dpkg/triggers'']"

definition or_text :: "string \<Rightarrow> string \<Rightarrow> string" where
  "or_text s t = (if s = [] then t else s)"

text \<open>\<open>int(control.get("Installed-Size", "0") or 0)\<close>.\<close>

definition installed_size :: "string sdict \<Rightarrow> int result" where
  "installed_size control =
     (let s = dgetd control ''Installed-Size'' ''0'' in
      if s = [] then Inr 0
      else (case py_int_of s of
              Some i \<Rightarrow> Inr i
            | None \<Rightarrow> Inl (Exc ''ValueError'' (''invalid literal for int() with base 10: '' @ repr_str s))))"

definition stanza_fields :: "package_record \<Rightarrow> string sdict \<Rightarrow> int \<Rightarrow> string sdict" where
  "stanza_fields r control size_kb =
     [(''Package'', pk_package r), (''Version'', pk_version r), (''Architecture'', pk_architecture r),
      (''Status'', ''install ok installed''),
      (''Priority'', dgetd control ''Priority'' (or_text (pk_priority r) ''optional'')),
      (''Section'', dgetd control ''Section'' (pk_section r)),
      (''Installed-Size'', str_of_int size_kb),
      (''Maintainer'', dgetd control ''Maintainer'' ''unknown''),
      (''Description'', dgetd control ''Description'' (pk_package r))] @
     concat (map (\<lambda>k. if dgetd control k [] \<noteq> [] then [(k, dgetd control k [])] else [])
       [''Depends'', ''Pre-Depends'', ''Provides'', ''Multi-Arch''])"

definition status_stanza :: "package_record \<Rightarrow> string sdict \<Rightarrow> string result" where
  "status_stanza r control =
     map_sum id (\<lambda>n. join_str [CHR 0x0A] (map field_line (stanza_fields r control n) @ [[]]) @ [CHR 0x0A])
       (installed_size control)"

text \<open>Only the selected packages whose contents are known get a stanza.\<close>

definition with_content :: "package_record list \<Rightarrow> deb_content option sdict \<Rightarrow> (package_record \<times> deb_content) list" where
  "with_content selected contents =
     concat (map (\<lambda>r. case dgetd contents (pk_package r) None of None \<Rightarrow> [] | Some c \<Rightarrow> [(r, c)]) selected)"

fun status_text :: "(package_record \<times> deb_content) list \<Rightarrow> string result" where
  "status_text [] = Inr []"
| "status_text ((r, c) # rcs) =
     (case status_stanza r (dc_control c) of
        Inl e \<Rightarrow> Inl e
      | Inr s \<Rightarrow> map_sum id (\<lambda>t. s @ t) (status_text rcs))"

definition info_list :: "deb_content \<Rightarrow> string" where
  "info_list c = concat (map (\<lambda>p. ''/'' @ lstrip_chars is_slash p @ [CHR 0x0A]) (dc_payload c))"

definition write_info :: "'h host \<Rightarrow> package_record \<times> deb_content \<Rightarrow> 'h build \<Rightarrow> unit result \<times> 'h build" where
  "write_info hs rc = (let (r, c) = rc; base = ''var/lib/dpkg/info/'' @ pk_package r in
     with_path base (\<lambda>info. steps
       ([host_do (h_write hs (info @ ''.list'') (info_list c)), rf_note (base @ ''.list'') KFile m644 []] @
        (if dc_conffiles c = [] then []
         else [host_do (h_write hs (info @ ''.conffiles'') (join_str [CHR 0x0A] (dc_conffiles c) @ [CHR 0x0A])),
               rf_note (base @ ''.conffiles'') KFile m644 []]))))"

definition write_if_absent :: "'h host \<Rightarrow> string \<Rightarrow> 'h build \<Rightarrow> unit result \<times> 'h build" where
  "write_if_absent hs rel = with_path rel (\<lambda>p b.
     if h_lexists hs p (snd b) then (Inr (), b) else write_metadata hs rel [] m644 b)"

definition write_dpkg_state :: "'h host \<Rightarrow> package_record list \<Rightarrow> deb_content option sdict \<Rightarrow> 'h build \<Rightarrow> unit result \<times> 'h build" where
  "write_dpkg_state hs selected contents b =
     (let rcs = with_content selected contents in
      steps (map (make_dirs hs) dpkg_dirs @
        [write_metadata hs ''var/lib/dpkg/arch'' (rf_arch (fst b) @ [CHR 0x0A]) m644,
         write_if_absent hs ''var/lib/dpkg/diversions'', write_if_absent hs ''var/lib/dpkg/statoverride'',
         with_path ''var/lib/dpkg/status'' (\<lambda>p b.
           case status_text rcs of Inl e \<Rightarrow> (Inl e, b) | Inr t \<Rightarrow> host_do (h_write hs p t) b)] @
        map (write_info hs) rcs @ [rf_note ''var/lib/dpkg/status'' KFile m644 []]) b)"

section \<open>Every account is locked\<close>

definition locked :: "string list \<Rightarrow> bool" where
  "locked row \<longleftrightarrow> length row = 9 \<and> startswith (row ! 1) ''!''"

lemma add_shadow_inv:
  "distinct (map hd rows) \<Longrightarrow> list_all locked rows \<Longrightarrow>
   distinct (map hd (add_shadow rows l)) \<and> list_all locked (add_shadow rows l) \<and>
   set (map hd (add_shadow rows l)) = set (map hd rows) \<union> ({hd (split_char (CHR '':'') l)} - {[]})"
  by (auto simp: add_shadow_def Let_def locked_row_def locked_def startswith_def)

lemma add_shadows_inv:
  "distinct (map hd rows) \<Longrightarrow> list_all locked rows \<Longrightarrow>
   distinct (map hd (foldl add_shadow rows ls)) \<and> list_all locked (foldl add_shadow rows ls) \<and>
   set (map hd (foldl add_shadow rows ls)) =
     set (map hd rows) \<union> (set (map (\<lambda>l. hd (split_char (CHR '':'') l)) ls) - {[]})"
proof (induction ls arbitrary: rows)
  case (Cons l ls)
  from add_shadow_inv [OF Cons.prems, of l] Cons.IH [of "add_shadow rows l"] show ?case by auto
qed simp

text \<open>
  C21. Whatever password file is found, the shadow database names every account exactly once, and no
  account in it has a usable password.
\<close>

theorem shadow_locks_every_account:
  "distinct (map hd (shadow_rows (Some t))) \<and> list_all locked (shadow_rows (Some t)) \<and>
   set (map (\<lambda>l. hd (split_char (CHR '':'') l)) (file_lines [] t)) - {[]} \<subseteq> set (map hd (shadow_rows (Some t)))"
proof -
  have "distinct (map hd shadow_seed) \<and> list_all locked shadow_seed" by code_simp
  from add_shadows_inv [OF conjunct1 [OF this] conjunct2 [OF this], of "file_lines [] t"]
  show ?thesis by (auto simp: shadow_rows_def)
qed

lemma shipped_shadow: "map hd (shadow_rows (Some (text_lines (map (join_str '':'') passwd_rows)))) = map hd passwd_rows"
  by code_simp

section \<open>The status file is read back\<close>

definition plain_package :: "package_record \<times> deb_content \<Rightarrow> bool" where
  "plain_package rc \<longleftrightarrow> pk_package (fst rc) \<noteq> [] \<and>
     (case installed_size (dc_control (snd rc)) of
        Inl _ \<Rightarrow> False | Inr n \<Rightarrow> list_all plain_field (stanza_fields (fst rc) (dc_control (snd rc)) n))"

definition identity_of :: "package_record \<Rightarrow> string \<times> string \<times> string" where
  "identity_of r = (pk_package r, pk_version r, pk_architecture r)"

lemma rstrip_no_break: "no_break l \<Longrightarrow> rstrip_chars (\<lambda>c. c = CHR 0x0D) l = l"
proof (cases l rule: rev_cases)
  case (snoc ys y)
  moreover assume "no_break l"
  ultimately have "y \<noteq> CHR 0x0D" using break_chars(2) by (auto simp: no_break_def)
  with snoc show ?thesis by (simp add: rstrip_chars_def)
qed (simp add: rstrip_chars_def)

lemma index_line_plain:
  assumes "plain_field f"
  shows "index_line (field_line f) s =
    Inr (s\<lparr>ix_field := Some (fst f), ix_stanza := dput (fst f) (snd f) (ix_stanza s)\<rparr>)"
proof -
  obtain k v where f: "f = (k, v)" by (cases f)
  from assms f obtain c r where k: "k = c # r" by (cases k) (auto simp: plain_field_def)
  from assms f k have "\<not> is_space c" using strip_hd [of k] by (simp add: plain_field_def)
  then have c: "c \<noteq> CHR '' ''" "c \<noteq> CHR 0x09" by (auto simp: is_space_def code_def)
  have p: "partition_char (CHR '':'') (field_line f) = (k, True, CHR '' '' # v)"
    using assms f partition_char_append [of "CHR '':''" k "CHR '' '' # v"] by (simp add: field_line_def plain_field_def)
  have v: "str_strip (CHR '' '' # v) = v" "str_strip k = k"
    using assms f by (simp_all add: strip_space_Cons break_chars plain_field_def)
  have l: "rstrip_chars (\<lambda>c. c = CHR 0x0D) (field_line f) = field_line f"
    using assms by (intro rstrip_no_break field_line_no_break)
  have run: "index_line L s = Inr (s\<lparr>ix_field := Some k, ix_stanza := dput k v (ix_stanza s)\<rparr>)"
    if "L = c # rest" and "CHR '':'' \<in> set L" and "rstrip_chars (\<lambda>c. c = CHR 0x0D) L = L"
      and "partition_char (CHR '':'') L = (k, True, CHR '' '' # v)" for L rest
    using that(1,2) c v unfolding index_line_def Let_def that(3) that(4) by simp
  have "field_line f = c # r @ '': '' @ v" "CHR '':'' \<in> set (field_line f)"
    using f k by (simp_all add: field_line_def)
  from run [OF this l p] f show ?thesis by simp
qed

lemma index_lines_plain:
  "list_all plain_field fs \<Longrightarrow> fs \<noteq> [] \<Longrightarrow> index_lines (map field_line fs @ ls) s =
   index_lines ls (s\<lparr>ix_field := Some (fst (last fs)), ix_stanza := dmerge (ix_stanza s) fs\<rparr>)"
proof (induction fs arbitrary: s)
  case (Cons f fs)
  then show ?case by (cases "fs = []") (auto simp: index_line_plain dmerge_def split_beta)
qed simp

lemma stanza_fields_wf: "dict_wf (stanza_fields r c n)"
  by (simp add: dict_wf_def stanza_fields_def)

lemma stanza_lookup:
  "dget (stanza_fields r c n) ''Package'' = Some (pk_package r)"
  "dget (stanza_fields r c n) ''Version'' = Some (pk_version r)"
  "dget (stanza_fields r c n) ''Architecture'' = Some (pk_architecture r)"
  "dget (stanza_fields r c n) ''Size'' = None"
  by (simp_all add: stanza_fields_def)

lemma record_of_stanza:
  "\<exists>x. record_from_stanza (stanza_fields r c n) = Inr x \<and> identity_of x = identity_of r"
proof -
  have "py_int_of ''0'' = Some 0" by code_simp
  then show ?thesis by (simp add: record_from_stanza_def dgetd_def stanza_lookup identity_of_def Let_def)
qed

lemma index_stanza:
  assumes "list_all plain_field (stanza_fields r c n)" and "pk_package r \<noteq> []" and "ix_stanza s = []"
  shows "\<exists>x s'. index_lines (map field_line (stanza_fields r c n) @ [] # ls) s = index_lines ls s' \<and>
    ix_stanza s' = [] \<and> ix_records s' = ix_records s @ [x] \<and> identity_of x = identity_of r"
proof -
  let ?fs = "stanza_fields r c n"
  have ne: "?fs \<noteq> []" by (simp add: stanza_fields_def)
  have m: "dmerge [] ?fs = ?fs" using dmerge_fresh [of "[]" ?fs] stanza_fields_wf [of r c n] by (simp add: dict_wf_def)
  from record_of_stanza obtain x where x: "record_from_stanza ?fs = Inr x" "identity_of x = identity_of r" by blast
  let ?s = "s\<lparr>ix_field := Some (fst (last ?fs)), ix_stanza := ?fs\<rparr>"
  have "index_line [] ?s = Inr (?s\<lparr>ix_records := ix_records s @ [x], ix_stanza := [], ix_field := None\<rparr>)"
    using x assms(2) by (simp add: index_line_def rstrip_chars_def flush_stanza_def dgetd_def stanza_lookup)
  then show ?thesis using assms ne m x by (auto simp: index_lines_plain intro!: exI [of _ x])
qed

text \<open>The lines of one stanza, and of the whole file.\<close>

definition stanza_lines :: "package_record \<times> deb_content \<Rightarrow> string list" where
  "stanza_lines rc =
     (case installed_size (dc_control (snd rc)) of
        Inl _ \<Rightarrow> [] | Inr n \<Rightarrow> map field_line (stanza_fields (fst rc) (dc_control (snd rc)) n) @ [[]])"

lemma join_lines: "join_str [CHR 0x0A] (ls @ [[]]) = text_lines ls"
proof (induction ls)
  case (Cons l ls)
  then show ?case by (cases ls) (auto simp: text_lines_def)
qed (simp add: text_lines_def)

lemma text_lines_append: "text_lines (ls @ ms) = text_lines ls @ text_lines ms"
  by (simp add: text_lines_def)

lemma status_stanza_lines: "status_stanza r (dc_control c) = Inr s \<Longrightarrow> s = text_lines (stanza_lines (r, c))"
  by (auto simp: status_stanza_def stanza_lines_def join_lines text_lines_append map_sum_def split: sum.splits)
    (simp add: text_lines_def)

lemma status_text_lines: "status_text rcs = Inr t \<Longrightarrow> t = text_lines (concat (map stanza_lines rcs))"
proof (induction rcs arbitrary: t)
  case (Cons rc rcs)
  obtain r c where rc: "rc = (r, c)" by (cases rc)
  with Cons.prems obtain s u where "status_stanza r (dc_control c) = Inr s" "status_text rcs = Inr u" "t = s @ u"
    by (auto simp: map_sum_def split: sum.splits)
  with Cons.IH [of u] rc show ?case by (auto simp: status_stanza_lines text_lines_append)
qed (simp add: text_lines_def)

lemma plain_package_fields:
  assumes "plain_package rc"
  obtains n where "stanza_lines rc = map field_line (stanza_fields (fst rc) (dc_control (snd rc)) n) @ [[]]"
    and "list_all plain_field (stanza_fields (fst rc) (dc_control (snd rc)) n)" and "pk_package (fst rc) \<noteq> []"
  using assms by (auto simp: plain_package_def stanza_lines_def split: sum.splits)

lemma stanza_lines_no_break: "plain_package rc \<Longrightarrow> list_all no_break (stanza_lines rc)"
proof -
  assume "plain_package rc"
  then obtain n where n: "stanza_lines rc = map field_line (stanza_fields (fst rc) (dc_control (snd rc)) n) @ [[]]"
    "list_all plain_field (stanza_fields (fst rc) (dc_control (snd rc)) n)" by (rule plain_package_fields)
  have "no_break []" by (simp add: no_break_def)
  with n show ?thesis by (auto simp: list_all_iff field_line_no_break)
qed

lemma index_stanzas:
  "list_all plain_package rcs \<Longrightarrow> ix_stanza s = [] \<Longrightarrow>
   \<exists>rs s'. index_lines (concat (map stanza_lines rcs)) s = Inr s' \<and> ix_stanza s' = [] \<and>
     ix_records s' = ix_records s @ rs \<and> map identity_of rs = map (\<lambda>rc. identity_of (fst rc)) rcs"
proof (induction rcs arbitrary: s)
  case (Cons rc rcs)
  from Cons.prems(1) have rc: "plain_package rc" and rcs: "list_all plain_package rcs" by simp_all
  from rc obtain n where n: "stanza_lines rc = map field_line (stanza_fields (fst rc) (dc_control (snd rc)) n) @ [[]]"
    "list_all plain_field (stanza_fields (fst rc) (dc_control (snd rc)) n)" "pk_package (fst rc) \<noteq> []"
    by (rule plain_package_fields)
  from index_stanza [OF n(2,3) Cons.prems(2), of "concat (map stanza_lines rcs)"] obtain x s' where
    x: "index_lines (stanza_lines rc @ concat (map stanza_lines rcs)) s = index_lines (concat (map stanza_lines rcs)) s'"
      "ix_stanza s' = []" "ix_records s' = ix_records s @ [x]" "identity_of x = identity_of (fst rc)"
    by (auto simp: n(1))
  from Cons.IH [OF rcs x(2)] obtain rs t where
    "index_lines (concat (map stanza_lines rcs)) s' = Inr t" "ix_stanza t = []" "ix_records t = ix_records s' @ rs"
    "map identity_of rs = map (\<lambda>rc. identity_of (fst rc)) rcs" by blast
  with x show ?case by (auto intro!: exI [of _ "x # rs"])
qed simp

text \<open>
  C22. The dpkg database that the build writes is one the package index parser reads: the selected
  packages with known contents, in order, under their names, versions and architectures, when every
  field is one line without surrounding space.
\<close>

theorem status_database_roundtrip:
  assumes "status_text (with_content selected contents) = Inr t" and "list_all plain_package (with_content selected contents)"
  shows "\<exists>rs. parse_packages t = Inr rs \<and>
    map identity_of rs = map (\<lambda>rc. identity_of (fst rc)) (with_content selected contents)"
proof -
  let ?rcs = "with_content selected contents"
  have "list_all no_break (concat (map stanza_lines ?rcs))"
    using assms(2) stanza_lines_no_break by (auto simp: list_all_iff)
  then have lines: "splitlines t = concat (map stanza_lines ?rcs)"
    using status_text_lines [OF assms(1)] splitlines_lines by (simp add: text_lines_def)
  from index_stanzas [OF assms(2), of "\<lparr>ix_records = [], ix_stanza = [], ix_field = None\<rparr>"] obtain rs s where
    "index_lines (concat (map stanza_lines ?rcs)) \<lparr>ix_records = [], ix_stanza = [], ix_field = None\<rparr> = Inr s"
    "ix_stanza s = []" "ix_records s = rs" "map identity_of rs = map (\<lambda>rc. identity_of (fst rc)) ?rcs"
    by auto
  then show ?thesis by (auto simp: parse_packages_def lines flush_stanza_def dgetd_def)
qed

definition demo_record :: package_record where
  "demo_record = \<lparr>pk_package = ''dash'', pk_version = ''0.5-1'', pk_architecture = ''arm64'', pk_section = ''shells'',
     pk_depends = [], pk_pre_depends = [], pk_provides = [], pk_filename = [], pk_size = 0, pk_md5sum = [],
     pk_sha256 = [], pk_priority = ''required'', pk_essential = True\<rparr>"

definition demo_contents :: "deb_content option sdict" where
  "demo_contents = [(''dash'', Some (empty_content\<lparr>dc_control := [(''Installed-Size'', ''190''), (''Depends'', ''libc6'')]\<rparr>))]"

lemma demo_plain: "list_all plain_package (with_content [demo_record] demo_contents)"
  by code_simp

lemma status_database_roundtrip_witness:
  "\<exists>rs. map_sum id (\<lambda>t. parse_packages t) (status_text (with_content [demo_record] demo_contents)) = Inr (Inr rs) \<and>
     map identity_of rs = [(''dash'', ''0.5-1'', ''arm64'')]"
proof -
  have "isl (status_text (with_content [demo_record] demo_contents)) = False" by code_simp
  then obtain t where t: "status_text (with_content [demo_record] demo_contents) = Inr t"
    by (cases "status_text (with_content [demo_record] demo_contents)") auto
  have "map (\<lambda>rc. identity_of (fst rc)) (with_content [demo_record] demo_contents) = [(''dash'', ''0.5-1'', ''arm64'')]"
    by code_simp
  with status_database_roundtrip [OF t demo_plain] t show ?thesis by simp
qed

end
