(* ===== verification/Nervous.thy ===== *)
theory Nervous
  imports Json Py_String Scheduler
begin

text \<open>
  \<open>intelligence/nervous.py\<close> and \<open>intelligence/rhythm.py\<close>: how observations of the node become signals,
  how signals become the node's health, and how health and activity drive the cognitive rhythm. A
  snapshot is the part of the raw dictionary that \<open>evaluate\<close> reads; its readings are Python values.
  The clock is an argument; how floats are printed is a parameter; a memory figure that is no finite number counts as missing. Emitted events are collected in
  the order in which they are emitted, when the router runs.
\<close>

section \<open>Signals\<close>

record signal =
  sg_kind :: string
  sg_level :: string
  sg_message :: string
  sg_ts :: pyfloat
  sg_details :: "pyval sdict"

definition level_weight :: "int sdict" where
  "level_weight = [(''debug'', 0), (''ok'', 1), (''info'', 2), (''warning'', 3), (''critical'', 4)]"

definition urgency :: "signal \<Rightarrow> int" where
  "urgency s = dgetd level_weight (sg_level s) 0"

record nervous =
  nv_last_seen :: "(string \<times> string) sdict"
  nv_latest :: "signal sdict"
  nv_activity :: pyfloat
  nv_connectivity :: string
  nv_battery :: "pyfloat option"
  nv_idle_after :: pyfloat
  nv_sleep_after :: pyfloat

definition new_nervous :: "pyfloat \<Rightarrow> nervous" where
  "new_nervous now = \<lparr>nv_last_seen = [], nv_latest = [], nv_activity = now, nv_connectivity = ''unknown'',
     nv_battery = None, nv_idle_after = 300, nv_sleep_after = 1800\<rparr>"

definition touch :: "pyfloat \<Rightarrow> nervous \<Rightarrow> nervous" where
  "touch now nv = nv\<lparr>nv_activity := now\<rparr>"

definition activity_state :: "pyfloat \<Rightarrow> nervous \<Rightarrow> string" where
  "activity_state now nv =
     (let elapsed = now - nv_activity nv in
      if elapsed < nv_idle_after nv then ''active'' else if elapsed < nv_sleep_after nv then ''idle'' else ''sleep'')"

record snapshot =
  ob_battery :: "pyval sdict"
  ob_disk :: "pyval sdict"
  ob_resources :: "pyval sdict"
  ob_mem :: "pyval sdict"
  ob_network :: "pyval sdict"
  ob_device :: "pyval sdict"
  ob_capabilities :: "string list"
  ob_providers :: "pyval list"
  ob_jobs :: "pyval sdict list"
  ob_store_keys :: nat

record formats =
  fm_float :: "pyfloat \<Rightarrow> string"
  fm_fixed1 :: "pyfloat \<Rightarrow> string"

section \<open>Evaluation\<close>

definition reading :: "pyval sdict \<Rightarrow> string \<Rightarrow> pyval" where
  "reading d k = dgetd d k PNone"

text \<open>\<open>int(x)\<close> of a float drops the fraction.\<close>

definition py_trunc :: "pyfloat \<Rightarrow> int" where
  "py_trunc x = (if x < 0 then - \<lfloor>- x\<rfloor> else \<lfloor>x\<rfloor>)"

definition sig :: "string \<Rightarrow> string \<Rightarrow> string \<Rightarrow> pyfloat \<Rightarrow> pyval sdict \<Rightarrow> signal" where
  "sig kind level msg now details =
     \<lparr>sg_kind = kind, sg_level = level, sg_message = msg, sg_ts = now, sg_details = details\<rparr>"

definition battery_level :: "pyfloat \<Rightarrow> string" where
  "battery_level p = (if p < 10 then ''critical'' else if p < 20 then ''warning'' else ''ok'')"

definition battery_trend :: "pyfloat \<Rightarrow> pyfloat \<Rightarrow> nervous \<Rightarrow> signal list" where
  "battery_trend now p nv =
     (case nv_battery nv of
        None \<Rightarrow> []
      | Some q \<Rightarrow> if p < q - 5 then [sig ''battery'' ''info'' ''battery draining'' now [(''delta'', PFloat (q - p))]] else [])"

definition thermal_signals :: "formats \<Rightarrow> pyfloat \<Rightarrow> pyval \<Rightarrow> signal list" where
  "thermal_signals fm now t =
     (case py_number t of
        None \<Rightarrow> []
      | Some x \<Rightarrow> if 45 < x
          then [sig ''thermal'' ''warning'' (''battery temperature '' @ py_str (fm_float fm) t @ [CHR 0xB0, CHR ''C'']) now
                 [(''temp'', t)]] else [])"

definition battery_signals :: "formats \<Rightarrow> pyfloat \<Rightarrow> snapshot \<Rightarrow> nervous \<Rightarrow> signal list \<times> nervous" where
  "battery_signals fm now ob nv =
     (let pct = reading (ob_battery ob) ''percentage'' in
      case py_number pct of
        None \<Rightarrow> ([], nv)
      | Some p \<Rightarrow>
          (battery_trend now p nv @
             (if battery_level p \<noteq> ''ok'' \<or> nv_battery nv = None
              then [sig ''battery'' (battery_level p) (''battery at '' @ str_of_int (py_trunc p) @ ''%'') now [(''pct'', pct)]]
              else []) @
             thermal_signals fm now (reading (ob_battery ob) ''temperature''),
           nv\<lparr>nv_battery := Some p\<rparr>))"

definition storage_signals :: "pyfloat \<Rightarrow> snapshot \<Rightarrow> signal list" where
  "storage_signals now ob =
     (case py_number (reading (ob_disk ob) ''free_bytes'') of
        None \<Rightarrow> []
      | Some free \<Rightarrow>
          if free < 256 * 1024 * 1024 then [sig ''storage'' ''critical'' ''storage critically low'' now []]
          else if free < 1024 * 1024 * 1024 then [sig ''storage'' ''warning'' ''storage low'' now []] else [])"

fun is_py_int :: "pyval \<Rightarrow> bool" where
  "is_py_int (PInt _) = True"
| "is_py_int (PBool _) = True"
| "is_py_int _ = False"

definition cpu_signals :: "formats \<Rightarrow> pyfloat \<Rightarrow> snapshot \<Rightarrow> signal list" where
  "cpu_signals fm now ob =
     (let load = reading (ob_resources ob) ''load_1m''; cpus = reading (ob_resources ob) ''cpus'' in
      case (py_number load, py_number cpus) of
        (Some l, Some c) \<Rightarrow>
          if is_py_int cpus \<and> 0 < c \<and> c * 9 / 10 < l
          then [sig ''cpu'' ''warning'' (''high load '' @ fm_fixed1 fm l @ '' on '' @ py_str (fm_float fm) cpus @ '' cpu(s)'')
                 now [(''load'', load), (''cpus'', cpus)]] else []
      | _ \<Rightarrow> [])"

text \<open>\<open>text.replace("kB", "")\<close>, and a float read from it; a word-less text raises \<open>IndexError\<close>.\<close>

fun drop_kb :: "string \<Rightarrow> string" where
  "drop_kb [] = []"
| "drop_kb [c] = [c]"
| "drop_kb (c # d # s) = (if c = CHR ''k'' \<and> d = CHR ''B'' then drop_kb s else c # drop_kb (d # s))"

definition mem_kb :: "(pyfloat \<Rightarrow> string) \<Rightarrow> pyval \<Rightarrow> pyfloat option result" where
  "mem_kb sf v =
     (let finite = (\<lambda>s. case py_float_of s of Some (PFloat x) \<Rightarrow> Some x | _ \<Rightarrow> None) in
      if v = PNone then Inr None
      else (case py_number v of
              Some x \<Rightarrow> Inr (Some x)
            | None \<Rightarrow>
                (let t = str_strip (py_str sf v) in
                 if contains t ''kB'' then Inr (finite (str_strip (drop_kb t)))
                 else (case str_words t of
                         [] \<Rightarrow> Inl (Exc ''IndexError'' ''list index out of range'')
                       | w # _ \<Rightarrow> Inr (finite w)))))"

definition memory_signals :: "formats \<Rightarrow> pyfloat \<Rightarrow> snapshot \<Rightarrow> signal list result" where
  "memory_signals fm now ob =
     (case mem_kb (fm_float fm) (reading (ob_mem ob) ''MemAvailable'') of
        Inl e \<Rightarrow> Inl e
      | Inr available \<Rightarrow>
          (case mem_kb (fm_float fm) (reading (ob_mem ob) ''MemTotal'') of
             Inl e \<Rightarrow> Inl e
           | Inr all_kb \<Rightarrow> Inr (case (available, all_kb) of
                 (Some a, Some t) \<Rightarrow> if t \<noteq> 0 \<and> a < t / 10
                    then [sig ''memory'' ''critical'' ''low available memory'' now []] else []
               | _ \<Rightarrow> [])))"

definition network_signals :: "pyfloat \<Rightarrow> snapshot \<Rightarrow> nervous \<Rightarrow> signal list \<times> nervous" where
  "network_signals now ob nv =
     (if truthy (reading (ob_network ob) ''ips'') then ([], nv\<lparr>nv_connectivity := ''online''\<rparr>)
      else if nv_connectivity nv \<noteq> ''offline''
      then ([sig ''network'' ''info'' ''no usable network interface detected'' now []], nv\<lparr>nv_connectivity := ''offline''\<rparr>)
      else ([], nv))"

definition expected_core :: "string list" where
  "expected_core = [''filesystem'', ''shell'', ''android'', ''search'']"

definition repr_list :: "string list \<Rightarrow> string" where
  "repr_list xs = ''['' @ join_str '', '' (map repr_str xs) @ '']''"

definition capability_signals :: "pyfloat \<Rightarrow> snapshot \<Rightarrow> signal list" where
  "capability_signals now ob =
     (let missing = sort (filter (\<lambda>c. c \<notin> set (ob_capabilities ob)) expected_core) in
      if missing = [] then []
      else [sig ''capability'' ''warning'' (''core capabilities missing: '' @ repr_list missing) now
             [(''missing'', PList (map PStr missing))]])"

definition provider_signals :: "pyfloat \<Rightarrow> snapshot \<Rightarrow> signal list" where
  "provider_signals now ob =
     (if ob_providers ob = [] then [sig ''provider'' ''warning'' ''no AI providers registered'' now []] else [])"

definition job_signals :: "pyfloat \<Rightarrow> snapshot \<Rightarrow> signal list" where
  "job_signals now ob =
     (let failed = filter (\<lambda>j. dget j ''status'' = Some (PStr ''failed'')) (ob_jobs ob) in
      if failed = [] then []
      else [sig ''job'' ''warning'' (str_of_nat (length failed) @ '' failed job(s)'') now
             [(''jobs'', PList (map PDict failed))]])"

definition store_signals :: "pyfloat \<Rightarrow> snapshot \<Rightarrow> signal list" where
  "store_signals now ob =
     (if 2000 < ob_store_keys ob then [sig ''memory'' ''info'' ''memory store is large; consolidation due'' now []] else [])"

definition host_signals :: "formats \<Rightarrow> pyfloat \<Rightarrow> snapshot \<Rightarrow> signal list" where
  "host_signals fm now ob =
     (let host = reading (ob_device ob) ''host'' in
      if host \<notin> {PStr ''terminalp'', PStr ''termux'', PStr ''android-terminal''} \<and> host \<noteq> PNone
      then [sig ''host'' ''info'' (''running on non-phone host '' @ [CHR 0x27] @ py_str (fm_float fm) host @ [CHR 0x27]) now
             [(''host'', host)]] else [])"

definition evaluate :: "formats \<Rightarrow> pyfloat \<Rightarrow> snapshot \<Rightarrow> nervous \<Rightarrow> signal list result \<times> nervous" where
  "evaluate fm now ob nv =
     (let (battery, nv1) = battery_signals fm now ob nv in
      case memory_signals fm now ob of
        Inl e \<Rightarrow> (Inl e, nv1)
      | Inr mem \<Rightarrow>
          (let (net, nv2) = network_signals now ob nv1 in
           (Inr (battery @ storage_signals now ob @ cpu_signals fm now ob @ mem @ net @ capability_signals now ob @
              provider_signals now ob @ job_signals now ob @ store_signals now ob @ host_signals fm now ob), nv2)))"

section \<open>Novelty and health\<close>

type_synonym bus_event = "string \<times> pyval sdict"

definition heed_signal :: "signal list \<times> nervous \<Rightarrow> signal \<Rightarrow> signal list \<times> nervous" where
  "heed_signal st s =
     (let (surfaced, nv) = st; seen = (sg_level s, sg_message s);
          changed = (dget (nv_last_seen nv) (sg_kind s) \<noteq> Some seen);
          nv1 = (if changed then nv\<lparr>nv_last_seen := dput (sg_kind s) seen (nv_last_seen nv)\<rparr> else nv)
      in (if changed then surfaced @ [s] else surfaced, nv1\<lparr>nv_latest := dput (sg_kind s) s (nv_latest nv1)\<rparr>))"

definition signal_event :: "signal \<Rightarrow> bus_event" where
  "signal_event s = (''intel.signal'', [(''kind'', PStr (sg_kind s)), (''level'', PStr (sg_level s)),
     (''message'', PStr (sg_message s))])"

definition heed :: "formats \<Rightarrow> bool \<Rightarrow> pyfloat \<Rightarrow> snapshot \<Rightarrow> nervous \<Rightarrow> (signal list \<times> bus_event list) result \<times> nervous" where
  "heed fm router now ob nv =
     (case evaluate fm now ob nv of
        (Inl e, nv') \<Rightarrow> (Inl e, nv')
      | (Inr fresh, nv') \<Rightarrow>
          (let (surfaced, nv'') = foldl heed_signal ([], nv') fresh;
               events = map signal_event (filter (\<lambda>s. 2 \<le> urgency s) surfaced) @
                 [(''intel.heartbeat'', [(''ts'', PFloat now), (''activity'', PStr (activity_state now nv'')),
                    (''signals'', PInt (int (length (nv_latest nv''))))])]
           in (Inr (surfaced, if router then events else []), nv'')))"

record health_state =
  hs_overall :: string
  hs_warnings :: nat
  hs_critical :: nat
  hs_detail :: string

definition count_level :: "string \<Rightarrow> nervous \<Rightarrow> nat" where
  "count_level l nv = length (filter (\<lambda>s. sg_level s = l) (dvals (nv_latest nv)))"

definition health :: "nervous \<Rightarrow> health_state" where
  "health nv =
     (let w = count_level ''warning'' nv; c = count_level ''critical'' nv in
      if c \<noteq> 0 then \<lparr>hs_overall = ''critical'', hs_warnings = w, hs_critical = c, hs_detail = ''critical signals present''\<rparr>
      else if w \<noteq> 0 then \<lparr>hs_overall = ''attention'', hs_warnings = w, hs_critical = 0,
        hs_detail = str_of_nat w @ '' warning(s)''\<rparr>
      else \<lparr>hs_overall = ''healthy'', hs_warnings = 0, hs_critical = 0, hs_detail = ''nominal''\<rparr>)"

definition signal_rows :: "nervous \<Rightarrow> pyval list" where
  "signal_rows nv = map (\<lambda>s. PDict [(''kind'', PStr (sg_kind s)), (''level'', PStr (sg_level s)),
     (''message'', PStr (sg_message s)), (''ts'', PFloat (sg_ts s)), (''details'', PDict (sg_details s))]) (dvals (nv_latest nv))"

section \<open>Rhythm\<close>

datatype rhythm = Active | Background | Idle | Reflection | Maintenance | Constrained | Degraded | Recovery | Sleep

fun rhythm_value :: "rhythm \<Rightarrow> string" where
  "rhythm_value Active = ''active''" | "rhythm_value Background = ''background''" | "rhythm_value Idle = ''idle''"
| "rhythm_value Reflection = ''reflection''" | "rhythm_value Maintenance = ''maintenance''"
| "rhythm_value Constrained = ''constrained''" | "rhythm_value Degraded = ''degraded''"
| "rhythm_value Recovery = ''recovery''" | "rhythm_value Sleep = ''sleep''"

record cognitive =
  cg_current :: rhythm
  cg_maintenance :: pyfloat
  cg_reflection :: pyfloat
  cg_recovery :: pyfloat
  cg_maintenance_interval :: pyfloat
  cg_reflection_interval :: pyfloat

definition new_cognitive :: "pyfloat \<Rightarrow> cognitive" where
  "new_cognitive now = \<lparr>cg_current = Idle, cg_maintenance = now, cg_reflection = now, cg_recovery = 0,
     cg_maintenance_interval = 3600, cg_reflection_interval = 1800\<rparr>"

definition maintenance_due :: "pyfloat \<Rightarrow> cognitive \<Rightarrow> bool" where
  "maintenance_due now c \<longleftrightarrow> cg_maintenance_interval c \<le> now - cg_maintenance c"

definition reflection_due :: "pyfloat \<Rightarrow> cognitive \<Rightarrow> bool" where
  "reflection_due now c \<longleftrightarrow> cg_reflection_interval c \<le> now - cg_reflection c"

definition rhythm_target :: "pyfloat \<Rightarrow> string \<Rightarrow> string \<Rightarrow> nat \<Rightarrow> nat \<Rightarrow> cognitive \<Rightarrow> rhythm" where
  "rhythm_target now activity overall goals jobs c =
     (if overall = ''critical'' then Constrained
      else if overall = ''attention'' then Degraded
      else if activity = ''active'' \<or> 0 < goals then Active
      else if 0 < jobs then Background
      else if activity = ''sleep'' then Sleep
      else if maintenance_due now c then Maintenance
      else if reflection_due now c then Reflection else Idle)"

text \<open>The new mode and the event, if the mode changed and the router runs.\<close>

definition transition :: "bool \<Rightarrow> pyfloat \<Rightarrow> string \<Rightarrow> string \<Rightarrow> nat \<Rightarrow> nat \<Rightarrow> cognitive \<Rightarrow> (rhythm \<times> bus_event list) \<times> cognitive" where
  "transition router now activity overall goals jobs c =
     (let target = rhythm_target now activity overall goals jobs c;
          c1 = (if target = Active \<or> target = Background then c\<lparr>cg_maintenance := now, cg_reflection := now\<rparr> else c);
          (target', c2) =
            (if target \<noteq> Constrained \<and> cg_current c = Constrained
             then (if now - cg_recovery c1 < 60 then Idle else Recovery, c1\<lparr>cg_recovery := now\<rparr>)
             else (target, c1));
          events = (if target' \<noteq> cg_current c \<and> router then [(''rhythm.state'', [(''state'', PStr (rhythm_value target'))])] else [])
      in ((target', events), c2\<lparr>cg_current := target'\<rparr>))"

definition should_reflect :: "cognitive \<Rightarrow> bool" where
  "should_reflect c \<longleftrightarrow> cg_current c \<in> {Reflection, Idle, Active}"

definition should_consolidate :: "cognitive \<Rightarrow> bool" where
  "should_consolidate c \<longleftrightarrow> cg_current c \<in> {Maintenance, Recovery, Idle}"

definition should_maintain :: "cognitive \<Rightarrow> bool" where
  "should_maintain c \<longleftrightarrow> cg_current c = Maintenance"

definition rhythm_state :: "cognitive \<Rightarrow> pyval sdict" where
  "rhythm_state c = [(''state'', PStr (rhythm_value (cg_current c))), (''last_maintenance'', PFloat (cg_maintenance c)),
     (''last_reflection'', PFloat (cg_reflection c))]"

section \<open>Alarms that stay\<close>

text \<open>A run of observations, the raising ones included.\<close>

definition heed_all :: "formats \<Rightarrow> bool \<Rightarrow> (pyfloat \<times> snapshot) list \<Rightarrow> nervous \<Rightarrow> nervous" where
  "heed_all fm router obs nv = foldl (\<lambda>nv (now, ob). snd (heed fm router now ob nv)) nv obs"

lemma battery_latest [simp]: "nv_latest (snd (battery_signals fm now ob nv)) = nv_latest nv"
  by (simp add: battery_signals_def Let_def split: option.splits)

lemma network_latest [simp]: "nv_latest (snd (network_signals now ob nv)) = nv_latest nv"
  by (simp add: network_signals_def)

lemma evaluate_latest [simp]: "nv_latest (snd (evaluate fm now ob nv)) = nv_latest nv"
  by (simp add: evaluate_def Let_def case_prod_unfold split: sum.splits)

lemma heed_other_kinds:
  "list_all (\<lambda>s. sg_kind s \<noteq> k) fresh \<Longrightarrow>
   dget (nv_latest (snd (foldl heed_signal st fresh))) k = dget (nv_latest (snd st)) k"
  by (induction fresh arbitrary: st) (auto simp: heed_signal_def Let_def split_beta)

lemma sig_kind [simp]: "sg_kind (sig k l m now d) = k" "sg_level (sig k l m now d) = l"
  by (simp_all add: sig_def)

text \<open>Only the storage reading makes a signal of kind storage.\<close>

lemma other_signals_not_storage:
  "list_all (\<lambda>s. sg_kind s \<noteq> ''storage'') (fst (battery_signals fm now ob nv))"
  "list_all (\<lambda>s. sg_kind s \<noteq> ''storage'') (cpu_signals fm now ob)"
  "list_all (\<lambda>s. sg_kind s \<noteq> ''storage'') (fst (network_signals now ob nv))"
  "list_all (\<lambda>s. sg_kind s \<noteq> ''storage'') (capability_signals now ob)"
  "list_all (\<lambda>s. sg_kind s \<noteq> ''storage'') (provider_signals now ob)"
  "list_all (\<lambda>s. sg_kind s \<noteq> ''storage'') (job_signals now ob)"
  "list_all (\<lambda>s. sg_kind s \<noteq> ''storage'') (store_signals now ob)"
  "list_all (\<lambda>s. sg_kind s \<noteq> ''storage'') (host_signals fm now ob)"
  by (simp_all add: battery_signals_def battery_trend_def thermal_signals_def cpu_signals_def network_signals_def
      capability_signals_def provider_signals_def job_signals_def store_signals_def host_signals_def Let_def split: option.splits)

lemma memory_not_storage: "memory_signals fm now ob = Inr ms \<Longrightarrow> list_all (\<lambda>s. sg_kind s \<noteq> ''storage'') ms"
  by (auto simp: memory_signals_def split: sum.splits option.splits if_splits)

lemma evaluate_storage:
  "evaluate fm now ob nv = (Inr fresh, nv') \<Longrightarrow> storage_signals now ob = [] \<Longrightarrow>
   list_all (\<lambda>s. sg_kind s \<noteq> ''storage'') fresh"
  by (auto simp: evaluate_def Let_def case_prod_unfold other_signals_not_storage memory_not_storage split: sum.splits)

lemma heed_keeps_storage:
  assumes "storage_signals now ob = []"
  shows "dget (nv_latest (snd (heed fm router now ob nv))) ''storage'' = dget (nv_latest nv) ''storage''"
proof (cases "evaluate fm now ob nv" rule: prod.exhaust)
  case (Pair r nv')
  have l: "nv_latest nv' = nv_latest nv" using evaluate_latest [of fm now ob nv] Pair by simp
  show ?thesis
  proof (cases r)
    case (Inr fresh)
    with Pair assms have "list_all (\<lambda>s. sg_kind s \<noteq> ''storage'') fresh" using evaluate_storage by blast
    from heed_other_kinds [OF this, of "([], nv')"] Pair Inr l show ?thesis
      by (simp add: heed_def Let_def case_prod_unfold)
  qed (use Pair l in \<open>simp add: heed_def\<close>)
qed

lemma heed_all_keeps_storage:
  "list_all (\<lambda>(now, ob). storage_signals now ob = []) obs \<Longrightarrow>
   dget (nv_latest (heed_all fm router obs nv)) ''storage'' = dget (nv_latest nv) ''storage''"
  by (induction obs arbitrary: nv) (auto simp: heed_all_def heed_keeps_storage)

lemma critical_counted: "dget (nv_latest nv) k = Some s \<Longrightarrow> sg_level s = ''critical'' \<Longrightarrow> hs_overall (health nv) = ''critical''"
proof -
  assume a: "dget (nv_latest nv) k = Some s" "sg_level s = ''critical''"
  then have "s \<in> set (filter (\<lambda>s. sg_level s = ''critical'') (dvals (nv_latest nv)))"
    using dget_Some_in [OF a(1)] by force
  then have "count_level ''critical'' nv \<noteq> 0" unfolding count_level_def by (metis length_pos_if_in_set less_not_refl3)
  then show ?thesis by (simp add: health_def Let_def)
qed

text \<open>
  A storage alarm is never taken back: once it was raised as critical, any run of observations with
  space enough to raise no storage signal leaves the node's health critical, and the rhythm
  constrained whatever the activity, the goals and the jobs are.
\<close>

lemma storage_alarm_never_clears:
  assumes "dget (nv_latest nv) ''storage'' = Some s" and "sg_level s = ''critical''"
    and "list_all (\<lambda>(t, ob). storage_signals t ob = []) obs"
  shows "hs_overall (health (heed_all fm router obs nv)) = ''critical'' \<and>
    rhythm_target now activity (hs_overall (health (heed_all fm router obs nv))) goals jobs c = Constrained"
proof -
  have "hs_overall (health (heed_all fm router obs nv)) = ''critical''"
    using critical_counted [of "heed_all fm router obs nv" "''storage''" s] heed_all_keeps_storage [OF assms(3)] assms(1,2)
    by simp
  then show ?thesis by (simp add: rhythm_target_def)
qed

definition calm_snapshot :: "int \<Rightarrow> snapshot" where
  "calm_snapshot free = \<lparr>ob_battery = [], ob_disk = [(''free_bytes'', PInt free)], ob_resources = [], ob_mem = [],
     ob_network = [(''ips'', PList [PStr ''10.0.0.2''])], ob_device = [],
     ob_capabilities = expected_core, ob_providers = [PStr ''local''], ob_jobs = [], ob_store_keys = 0\<rparr>"

definition demo_formats :: formats where
  "demo_formats = \<lparr>fm_float = (\<lambda>_. ''0.0''), fm_fixed1 = (\<lambda>_. ''0.0'')\<rparr>"

definition full_disk :: nervous where
  "full_disk = snd (heed demo_formats True 0 (calm_snapshot 1000) (new_nervous 0))"

lemma storage_alarm_never_clears_witness:
  "hs_overall (health (heed_all demo_formats True [(10, calm_snapshot 4000000000)] full_disk)) = ''critical'' \<and>
   rhythm_target 20 ''idle'' (hs_overall (health (heed_all demo_formats True [(10, calm_snapshot 4000000000)] full_disk)))
     0 0 (new_cognitive 0) = Constrained"
proof (rule storage_alarm_never_clears)
  show "dget (nv_latest full_disk) ''storage'' = Some (sig ''storage'' ''critical'' ''storage critically low'' 0 [])"
    by code_simp
  show "list_all (\<lambda>(t, ob). storage_signals t ob = []) [(10, calm_snapshot 4000000000)]"
    by (simp add: storage_signals_def calm_snapshot_def reading_def dgetd_def)
qed simp

section \<open>The tick never rests\<close>

text \<open>\<open>CognitiveOrchestrator._active_job_count\<close>.\<close>

definition active_job_count :: "'f scheduler \<Rightarrow> nat" where
  "active_job_count s =
     length (filter (\<lambda>j. job_status j = Pending \<or> job_status j = Running) (sch_list_jobs None s))"

lemma running_counted: "j \<in> set (sch_list_jobs None s) \<Longrightarrow> job_status j = Running \<Longrightarrow> 0 < active_job_count s"
proof -
  assume "j \<in> set (sch_list_jobs None s)" "job_status j = Running"
  then have "j \<in> set (filter (\<lambda>j. job_status j = Pending \<or> job_status j = Running) (sch_list_jobs None s))" by simp
  then show ?thesis unfolding active_job_count_def by (metis length_pos_if_in_set)
qed

text \<open>
  While the tick runs as a job of the scheduler, it counts itself: the rhythm it chooses is never
  sleep, reflection or maintenance, and idle or recovery only when the node leaves a constrained
  mode. The maintenance and reflection opportunities that the intervals define never come.
\<close>

lemma tick_never_rests:
  assumes "j \<in> set (sch_list_jobs None s)" and "job_status j = Running"
  shows "fst (fst (transition router now activity overall goals (active_job_count s) c)) \<in>
    {Constrained, Degraded, Active, Background} \<union> (if cg_current c = Constrained then {Idle, Recovery} else {})"
  using running_counted [OF assms] by (simp add: transition_def rhythm_target_def Let_def)

definition tick_scheduler :: "nat scheduler" where
  "tick_scheduler = new_scheduler\<lparr>sch_objs := [(''a'', \<lparr>job_name = ''cognition.tick'', job_func = 0, job_run_at = 0,
     job_interval = Some 10, job_priority = 0, job_status = Running, job_id = ''a'', job_error = None\<rparr>)],
     sch_index := [''a'']\<rparr>"

lemma tick_never_rests_witness:
  "fst (fst (transition True 100000 ''sleep'' ''healthy'' 0 (active_job_count tick_scheduler) (new_cognitive 0))) \<in>
    {Constrained, Degraded, Active, Background} \<union> (if cg_current (new_cognitive 0) = Constrained then {Idle, Recovery} else {})"
proof (rule tick_never_rests)
  show "\<lparr>job_name = ''cognition.tick'', job_func = 0, job_run_at = 0, job_interval = Some 10, job_priority = 0,
      job_status = Running, job_id = ''a'', job_error = None\<rparr> \<in> set (sch_list_jobs None tick_scheduler)"
    by (simp add: sch_list_jobs_def tick_scheduler_def new_scheduler_def)
qed simp

end
