(* ===== verification/Attention.thy ===== *)
theory Attention
  imports Nervous
begin

text \<open>
  \<open>intelligence/attention.py\<close>: scoring and queueing of what deserves processing, and the part of
  \<open>CognitiveOrchestrator.tick\<close> (\<open>intelligence/orchestration.py\<close>) that leads from a snapshot to the queue.
  Scores are sums of multiples of one tenth, so \<open>round(score, 2)\<close> is the score itself.
\<close>

section \<open>Scores\<close>

record attention_note =
  an_kind :: string
  an_level :: string
  an_message :: string
  an_score :: pyfloat
  an_ts :: pyfloat
  an_details :: "pyval sdict"

record attention =
  at_queue :: "attention_note list"
  at_seen :: "string list"
  at_capacity :: int

definition new_attention :: "int \<Rightarrow> attention" where
  "new_attention capacity = \<lparr>at_queue = [], at_seen = [], at_capacity = capacity\<rparr>"

definition note_weights :: "pyfloat sdict" where
  "note_weights = [(''critical'', 4), (''warning'', 3), (''info'', 3 / 2), (''ok'', 1 / 2), (''debug'', 1 / 10)]"

definition goal_mentioned :: "string \<Rightarrow> string \<Rightarrow> bool" where
  "goal_mentioned needle goal \<longleftrightarrow> list_ex (contains needle) (str_words (str_lower goal))"

definition note_score :: "attention \<Rightarrow> string \<Rightarrow> string \<Rightarrow> string \<Rightarrow> string list \<Rightarrow> rhythm \<Rightarrow> pyfloat" where
  "note_score att kind level message goals mode =
     dgetd note_weights level (1 / 2) +
     (if message \<in> set (at_seen att) then 0 else 2) +
     (if list_ex (goal_mentioned (str_lower message)) goals then 1 else 0) +
     (if (kind = ''host'' \<or> kind = ''battery'') \<and> (level = ''info'' \<or> level = ''ok'') then - 2 else 0) +
     (if mode = Sleep then - 2 else if mode = Constrained then - 1 else 0)"

section \<open>The queue\<close>

definition note_event_out :: "attention_note \<Rightarrow> bus_event" where
  "note_event_out n = (''attention.note'', [(''kind'', PStr (an_kind n)), (''level'', PStr (an_level n)),
     (''message'', PStr (an_message n)), (''score'', PFloat (an_score n))])"

definition note_signal :: "bool \<Rightarrow> pyfloat \<Rightarrow> string \<Rightarrow> string \<Rightarrow> string \<Rightarrow> string list \<Rightarrow> rhythm \<Rightarrow> pyval sdict \<Rightarrow>
    attention \<Rightarrow> (attention_note option \<times> bus_event list) \<times> attention" where
  "note_signal router now kind level message goals mode details att =
     (let score = note_score att kind level message goals mode in
      if score < 3 / 2 then ((None, []), att)
      else (let n = \<lparr>an_kind = kind, an_level = level, an_message = message, an_score = score, an_ts = now, an_details = details\<rparr>;
                q = sort_desc an_score (at_queue att @ [n])
            in ((Some n, if router then [note_event_out n] else []),
                att\<lparr>at_seen := List.insert message (at_seen att),
                   at_queue := (if at_capacity att < int (length q) then slice_first (at_capacity att) q else q)\<rparr>)))"

definition note_event :: "bool \<Rightarrow> pyfloat \<Rightarrow> string \<Rightarrow> pyval sdict \<Rightarrow> attention \<Rightarrow> (attention_note option \<times> bus_event list) result \<times> attention" where
  "note_event router now etype payload att =
     (let level = (case dgetd payload ''level'' (PStr ''info'') of PStr l \<Rightarrow> l | _ \<Rightarrow> []);
          details = (case dgetd payload ''details'' PNone of PDict d \<Rightarrow> d | _ \<Rightarrow> [])
      in case py_or (dgetd payload ''message'' PNone) (PStr etype) of
           PStr m \<Rightarrow> (let (r, att') = note_signal router now etype level m [] Idle details att in (Inr r, att'))
         | _ \<Rightarrow> (Inl (Exc ''AttributeError'' ''object has no attribute lower''), att))"

definition at_peek :: "int \<Rightarrow> attention \<Rightarrow> attention_note list" where
  "at_peek limit att = slice_first limit (at_queue att)"

definition slice_from :: "int \<Rightarrow> 'a list \<Rightarrow> 'a list" where
  "slice_from n xs = drop (if 0 \<le> n then nat n else length xs - nat (- n)) xs"

definition at_consume :: "int \<Rightarrow> attention \<Rightarrow> attention_note list \<times> attention" where
  "at_consume limit att = (slice_first limit (at_queue att), att\<lparr>at_queue := slice_from limit (at_queue att)\<rparr>)"

definition at_clear :: "attention \<Rightarrow> attention" where
  "at_clear att = att\<lparr>at_queue := []\<rparr>"

definition at_state :: "attention \<Rightarrow> pyval sdict" where
  "at_state att = [(''pending'', PList (map (\<lambda>n. PDict [(''kind'', PStr (an_kind n)), (''level'', PStr (an_level n)),
     (''message'', PStr (an_message n)), (''score'', PFloat (an_score n)), (''ts'', PFloat (an_ts n))])
     (take 12 (at_queue att)))), (''capacity'', PInt (at_capacity att))]"

section \<open>One tick, from the snapshot to the queue\<close>

definition note_surfaced :: "bool \<Rightarrow> pyfloat \<Rightarrow> string list \<Rightarrow> rhythm \<Rightarrow> bus_event list \<times> attention \<Rightarrow> signal \<Rightarrow> bus_event list \<times> attention" where
  "note_surfaced router now goals mode st s =
     (let (evs, att) = st;
          ((_, new), att') = note_signal router now (sg_kind s) (sg_level s) (sg_message s) goals mode (sg_details s) att
      in (evs @ new, att'))"

record mind =
  mi_nervous :: nervous
  mi_rhythm :: cognitive
  mi_attention :: attention

definition tick_front :: "formats \<Rightarrow> bool \<Rightarrow> pyfloat \<Rightarrow> snapshot \<Rightarrow> string list \<Rightarrow> nat \<Rightarrow> mind \<Rightarrow> bus_event list result \<times> mind" where
  "tick_front fm router now ob goals jobs m =
     (case heed fm router now ob (mi_nervous m) of
        (Inl e, nv) \<Rightarrow> (Inl e, m\<lparr>mi_nervous := nv\<rparr>)
      | (Inr (surfaced, evs), nv) \<Rightarrow>
          (let ((mode, evs2), cg) = transition router now (activity_state now nv) (hs_overall (health nv)) (length goals) jobs (mi_rhythm m);
               (evs3, att) = foldl (note_surfaced router now goals mode) ([], mi_attention m) surfaced
           in (Inr (evs @ evs2 @ evs3), \<lparr>mi_nervous = nv, mi_rhythm = cg, mi_attention = att\<rparr>)))"

section \<open>The queue is bounded and in order\<close>

definition attention_ok :: "attention \<Rightarrow> bool" where
  "attention_ok att \<longleftrightarrow> sorted_wrt (\<lambda>x y. an_score y \<le> an_score x) (at_queue att) \<and>
     int (length (at_queue att)) \<le> at_capacity att \<and> list_all (\<lambda>n. 3 / 2 \<le> an_score n) (at_queue att)"

datatype attention_op =
    OpNote string string string "string list" rhythm "pyval sdict"
  | OpEvent string "pyval sdict"
  | OpConsume int
  | OpClear

fun run_attention :: "bool \<Rightarrow> pyfloat \<Rightarrow> attention_op \<Rightarrow> attention \<Rightarrow> attention" where
  "run_attention router now (OpNote k l m gs r d) att = snd (note_signal router now k l m gs r d att)"
| "run_attention router now (OpEvent e p) att = snd (note_event router now e p att)"
| "run_attention router now (OpConsume n) att = snd (at_consume n att)"
| "run_attention router now OpClear att = at_clear att"

lemma sorted_wrt_drop: "sorted_wrt P xs \<Longrightarrow> sorted_wrt P (drop n xs)"
  by (metis append_take_drop_id sorted_wrt_append)

lemma slice_first_take: "\<exists>k. slice_first n xs = take k xs"
  unfolding slice_first_def by (metis (full_types) take_all order_refl)

lemma note_signal_ok:
  assumes "attention_ok att" and "0 \<le> at_capacity att"
  shows "attention_ok (snd (note_signal router now k l m gs r d att)) \<and>
    at_capacity (snd (note_signal router now k l m gs r d att)) = at_capacity att"
proof (cases "note_score att k l m gs r < 3 / 2")
  case False
  let ?n = "\<lparr>an_kind = k, an_level = l, an_message = m, an_score = note_score att k l m gs r, an_ts = now, an_details = d\<rparr>"
  let ?q = "sort_desc an_score (at_queue att @ [?n])"
  have s: "sorted_wrt (\<lambda>x y. an_score y \<le> an_score x) ?q" by (rule sort_desc_sorted)
  have b: "list_all (\<lambda>n. 3 / 2 \<le> an_score n) ?q"
    using assms(1) False by (auto simp: attention_ok_def list_all_iff)
  obtain j where j: "slice_first (at_capacity att) ?q = take j ?q" using slice_first_take by blast
  have "sorted_wrt (\<lambda>x y. an_score y \<le> an_score x) (take j ?q)" using s by (rule sorted_wrt_take)
  moreover have "list_all (\<lambda>n. 3 / 2 \<le> an_score n) (take j ?q)"
    using b unfolding list_all_iff by (meson in_set_takeD)
  moreover have "int (length (slice_first (at_capacity att) ?q)) \<le> at_capacity att"
    using assms(2) by (simp add: length_slice_first)
  ultimately show ?thesis using False s b j by (auto simp: note_signal_def Let_def attention_ok_def)
qed (use assms in \<open>simp add: note_signal_def\<close>)

lemma run_attention_ok:
  assumes "attention_ok att" and "0 \<le> at_capacity att"
  shows "attention_ok (run_attention router now op att) \<and> at_capacity (run_attention router now op att) = at_capacity att"
proof (cases op)
  case (OpNote k l m gs r d)
  then show ?thesis using note_signal_ok [OF assms] by simp
next
  case (OpEvent e p)
  then show ?thesis using assms note_signal_ok [OF assms]
    by (auto simp: note_event_def Let_def case_prod_unfold split: pyval.splits)
next
  case (OpConsume n)
  then show ?thesis using assms
    by (auto simp: at_consume_def slice_from_def attention_ok_def sorted_wrt_drop list_all_iff dest: in_set_dropD)
qed (use assms in \<open>auto simp: at_clear_def attention_ok_def\<close>)

text \<open>
  C23. Whatever is noted, consumed and cleared, the attention queue never exceeds its capacity, is in
  descending order of score, and holds nothing that scores as routine noise.
\<close>

theorem attention_bounded:
  assumes "0 \<le> capacity"
  shows "attention_ok (fold (\<lambda>(now, op). run_attention router now op) ops (new_attention capacity))"
proof -
  have "attention_ok (fold (\<lambda>(now, op). run_attention router now op) ops att)"
    if "attention_ok att" "0 \<le> at_capacity att" for att
    using that run_attention_ok by (induction ops arbitrary: att) (auto simp: split_beta)
  from this [of "new_attention capacity"] assms show ?thesis by (simp add: new_attention_def attention_ok_def)
qed

lemma attention_bounded_witness:
  "attention_ok (fold (\<lambda>(now, op). run_attention True now op)
     [(0, OpNote ''storage'' ''critical'' ''full'' [] Idle []), (1, OpConsume 1)] (new_attention 32))"
  by (rule attention_bounded) simp

text \<open>A critical signal scores above the noise in every rhythm, seen before or not.\<close>

lemma critical_score: "2 \<le> note_score att k ''critical'' m gs r"
  by (simp add: note_score_def note_weights_def dgetd_def)

lemma take_sorted_rest:
  assumes "sorted_wrt (\<lambda>x y. an_score y \<le> an_score x) q" and "x \<in> set q" and "x \<notin> set (take j q)"
  shows "list_all (\<lambda>n. an_score x \<le> an_score n) (take j q)"
proof -
  have "x \<in> set (drop j q)" using assms(2,3) by (metis Un_iff append_take_drop_id set_append)
  moreover have "sorted_wrt (\<lambda>x y. an_score y \<le> an_score x) (take j q @ drop j q)" using assms(1) by simp
  ultimately show ?thesis by (auto simp: sorted_wrt_append list_all_iff simp del: append_take_drop_id)
qed

text \<open>
  A critical signal is never suppressed: it is noted in every rhythm, and it is missing from the
  queue only when the queue is full of notes that score at least as high.
\<close>

lemma critical_never_suppressed:
  assumes "0 \<le> at_capacity att"
  shows "\<exists>n. fst (fst (note_signal router now k ''critical'' m gs r d att)) = Some n \<and> an_message n = m \<and>
    (let q = at_queue (snd (note_signal router now k ''critical'' m gs r d att))
     in n \<in> set q \<or> int (length q) = at_capacity att \<and> list_all (\<lambda>x. an_score n \<le> an_score x) q)"
proof -
  let ?n = "\<lparr>an_kind = k, an_level = ''critical'', an_message = m, an_score = note_score att k ''critical'' m gs r,
    an_ts = now, an_details = d\<rparr>"
  let ?q = "sort_desc an_score (at_queue att @ [?n])"
  have big: "\<not> note_score att k ''critical'' m gs r < 3 / 2" using critical_score [of att k m gs r] by simp
  have out: "fst (fst (note_signal router now k ''critical'' m gs r d att)) = Some ?n"
    using big by (simp add: note_signal_def Let_def)
  have q: "at_queue (snd (note_signal router now k ''critical'' m gs r d att)) =
      (if at_capacity att < int (length ?q) then slice_first (at_capacity att) ?q else ?q)"
    using big by (simp add: note_signal_def Let_def)
  have "?n \<in> set ?q" by simp
  moreover obtain j where "slice_first (at_capacity att) ?q = take j ?q" using slice_first_take by blast
  ultimately have "?n \<in> set (slice_first (at_capacity att) ?q) \<or> list_all (\<lambda>x. an_score ?n \<le> an_score x) (slice_first (at_capacity att) ?q)"
    using take_sorted_rest [OF sort_desc_sorted [of an_score "at_queue att @ [?n]"], of ?n j] by auto
  moreover have "int (length (slice_first (at_capacity att) ?q)) = at_capacity att" if "at_capacity att < int (length ?q)"
    using that assms by (simp add: length_slice_first)
  ultimately show ?thesis using out q by (intro exI [of _ ?n]) (auto simp: Let_def)
qed

lemma critical_never_suppressed_witness:
  "\<exists>n. fst (fst (note_signal True 0 ''storage'' ''critical'' ''full'' [] Sleep [] (new_attention 1))) = Some n \<and>
    an_message n = ''full'' \<and>
    (let q = at_queue (snd (note_signal True 0 ''storage'' ''critical'' ''full'' [] Sleep [] (new_attention 1)))
     in n \<in> set q \<or> int (length q) = at_capacity (new_attention 1) \<and> list_all (\<lambda>x. an_score n \<le> an_score x) q)"
  by (rule critical_never_suppressed) (simp add: new_attention_def)

end
