(* ===== verification/Goals.thy ===== *)
theory Goals
  imports Json
begin

text \<open>
  \<open>intelligence/goals.py\<close>: the persisted registry of goals. A goal
  is its attributes, a dictionary of Python values in the order of the dataclass, as \<open>update\<close> sets
  them by name and \<open>as_dict\<close> writes them; the file is the value that the next process decodes. The
  clock and the fresh identifiers are arguments.
\<close>

section \<open>Goals\<close>

type_synonym goal = "pyval sdict"

definition goal_fields :: "string list" where
  "goal_fields = [''id'', ''title'', ''kind'', ''status'', ''priority'', ''progress'', ''dependencies'', ''blocker'',
     ''provenance'', ''agent'', ''parent'', ''created'', ''updated'']"

definition gattr :: "string \<Rightarrow> goal \<Rightarrow> pyval" where
  "gattr k g = dgetd g k PNone"

definition new_goal :: "string \<Rightarrow> pyfloat \<Rightarrow> string \<Rightarrow> string \<Rightarrow> pyval \<Rightarrow> string \<Rightarrow> pyval \<Rightarrow> pyval list \<Rightarrow> pyval \<Rightarrow> goal" where
  "new_goal uid now title kind priority provenance parent deps agent =
     [(''id'', PStr uid), (''title'', PStr title), (''kind'', PStr kind), (''status'', PStr ''active''),
      (''priority'', priority), (''progress'', PFloat 0), (''dependencies'', PList deps), (''blocker'', PNone),
      (''provenance'', PStr provenance), (''agent'', agent), (''parent'', parent),
      (''created'', PFloat now), (''updated'', PFloat now)]"

record goal_store =
  gs_goals :: "goal sdict"
  gs_file :: "pyval disk"

definition goals_json :: "goal sdict \<Rightarrow> pyval" where
  "goals_json gs = PList (map PDict (dvals gs))"

definition goal_save :: "bool \<Rightarrow> goal_store \<Rightarrow> unit result \<times> goal_store" where
  "goal_save ok st = (let (r, f) = write_json ok json_ok (goals_json (gs_goals st)) (gs_file st) in (r, st\<lparr>gs_file := f\<rparr>))"

text \<open>
  Loading: a row is read by \<open>row["id"]\<close> and \<open>row.get\<close>, so a row without an identifier is a \<open>KeyError\<close>, which
  the handler does not catch; anything else that is wrong empties the registry. Identifiers are text: one that is
  some other hashable value, which the source would keep, counts as wrong here.
\<close>

datatype row_outcome = RowOk goal | RowMissing | RowBad

definition goal_of_row :: "pyval \<Rightarrow> row_outcome" where
  "goal_of_row row =
     (case row of
        PDict d \<Rightarrow>
          (case dget d ''id'' of
             None \<Rightarrow> RowMissing
           | Some _ \<Rightarrow> RowOk (map (\<lambda>k. (k, dgetd d k PNone)) goal_fields))
      | _ \<Rightarrow> RowBad)"

fun key_text :: "pyval \<Rightarrow> string option" where
  "key_text (PStr s) = Some s"
| "key_text _ = None"

fun load_rows :: "pyval list \<Rightarrow> goal sdict \<Rightarrow> goal sdict result" where
  "load_rows [] gs = Inr gs"
| "load_rows (r # rs) gs =
     (case goal_of_row r of
        RowMissing \<Rightarrow> Inl (Exc ''KeyError'' (repr_str ''id''))
      | RowBad \<Rightarrow> Inr []
      | RowOk g \<Rightarrow> (case key_text (gattr ''id'' g) of
                      None \<Rightarrow> Inr []
                    | Some k \<Rightarrow> load_rows rs (dput k g gs)))"

definition load_goals :: "pyval disk \<Rightarrow> goal sdict result" where
  "load_goals f =
     (case f of
        Stored (PList rows) \<Rightarrow> load_rows rows []
      | _ \<Rightarrow> Inr [])"

definition new_goal_store :: "pyval disk \<Rightarrow> goal_store result" where
  "new_goal_store f = map_sum id (\<lambda>gs. \<lparr>gs_goals = gs, gs_file = f\<rparr>) (load_goals f)"

definition is_active :: "goal \<Rightarrow> bool" where
  "is_active g \<longleftrightarrow> gattr ''status'' g = PStr ''active''"

definition goal_create :: "bool \<Rightarrow> string \<Rightarrow> pyfloat \<Rightarrow> string \<Rightarrow> string \<Rightarrow> pyval \<Rightarrow> string \<Rightarrow> pyval \<Rightarrow> pyval list \<Rightarrow> pyval \<Rightarrow>
    goal_store \<Rightarrow> goal result \<times> goal_store" where
  "goal_create ok uid now title kind priority provenance parent deps agent st =
     (case find (\<lambda>g. gattr ''title'' g = PStr title \<and> is_active g) (dvals (gs_goals st)) of
        Some g \<Rightarrow> (Inr g, st)
      | None \<Rightarrow>
          (let g = new_goal uid now title kind priority provenance parent deps agent;
               (r, st') = goal_save ok (st\<lparr>gs_goals := dput uid g (gs_goals st)\<rparr>)
           in (map_sum id (\<lambda>_. g) r, st')))"

definition goal_get :: "string \<Rightarrow> goal_store \<Rightarrow> goal option" where
  "goal_get k st = dget (gs_goals st) k"

text \<open>Only names that are attributes are set; then the time stamp.\<close>

definition set_attrs :: "pyval sdict \<Rightarrow> goal \<Rightarrow> goal" where
  "set_attrs attrs g = foldl (\<lambda>g (k, v). if k \<in> set (dkeys g) then dput k v g else g) g attrs"

definition goal_update :: "bool \<Rightarrow> pyfloat \<Rightarrow> string \<Rightarrow> pyval sdict \<Rightarrow> goal_store \<Rightarrow> goal option result \<times> goal_store" where
  "goal_update ok now k attrs st =
     (case dget (gs_goals st) k of
        None \<Rightarrow> (Inr None, st)
      | Some g \<Rightarrow>
          (let g' = dput ''updated'' (PFloat now) (set_attrs attrs g);
               (r, st') = goal_save ok (st\<lparr>gs_goals := dput k g' (gs_goals st)\<rparr>)
           in (map_sum id (\<lambda>_. Some g') r, st')))"

definition goal_complete :: "bool \<Rightarrow> pyfloat \<Rightarrow> string \<Rightarrow> goal_store \<Rightarrow> goal option result \<times> goal_store" where
  "goal_complete ok now k = goal_update ok now k [(''status'', PStr ''completed''), (''progress'', PFloat 1)]"

definition goal_fail :: "bool \<Rightarrow> pyfloat \<Rightarrow> string \<Rightarrow> pyval \<Rightarrow> goal_store \<Rightarrow> goal option result \<times> goal_store" where
  "goal_fail ok now k blocker = goal_update ok now k [(''status'', PStr ''failed''), (''blocker'', blocker)]"

definition goal_cancel :: "bool \<Rightarrow> pyfloat \<Rightarrow> string \<Rightarrow> goal_store \<Rightarrow> goal option result \<times> goal_store" where
  "goal_cancel ok now k = goal_update ok now k [(''status'', PStr ''cancelled'')]"

definition spawn_subgoal :: "bool \<Rightarrow> string \<Rightarrow> pyfloat \<Rightarrow> string \<Rightarrow> string \<Rightarrow> pyval \<Rightarrow> goal_store \<Rightarrow> goal result \<times> goal_store" where
  "spawn_subgoal ok uid now parent title priority =
     goal_create ok uid now title ''subgoal'' priority ''derived'' (PStr parent) [] PNone"

text \<open>Sorting by priority raises on priorities that do not compare (here: that are no numbers).\<close>

definition by_priority :: "(string \<times> goal) list \<Rightarrow> (string \<times> goal) list result" where
  "by_priority gs =
     (if length gs \<le> 1 then Inr gs
      else if list_ex (\<lambda>(k, g). py_number (gattr ''priority'' g) = None) gs
      then Inl (Exc ''TypeError'' ''priorities do not compare'')
      else Inr (sort_desc (\<lambda>(k, g). the (py_number (gattr ''priority'' g))) gs))"

definition list_entries :: "string option \<Rightarrow> goal_store \<Rightarrow> (string \<times> goal) list result" where
  "list_entries status st =
     by_priority (case status of
         None \<Rightarrow> gs_goals st
       | Some s \<Rightarrow> if s = [] then gs_goals st else filter (\<lambda>(k, g). gattr ''status'' g = PStr s) (gs_goals st))"

definition list_goals :: "string option \<Rightarrow> goal_store \<Rightarrow> goal list result" where
  "list_goals status st = map_sum id (map snd) (list_entries status st)"

definition active_goals :: "goal_store \<Rightarrow> goal list result" where
  "active_goals = list_goals (Some ''active'')"

definition fail_stale :: "pyfloat \<Rightarrow> goal \<Rightarrow> goal" where
  "fail_stale now g = dput ''updated'' (PFloat now) (dput ''blocker'' (PStr ''stale'') (dput ''status'' (PStr ''failed'') g))"

text \<open>The loop changes the goals in place; a time stamp that is no number raises in its middle.\<close>

fun close_loop :: "pyfloat \<Rightarrow> pyfloat \<Rightarrow> (string \<times> goal) list \<Rightarrow> goal sdict \<Rightarrow> nat \<Rightarrow> nat result \<times> goal sdict" where
  "close_loop now horizon [] gs n = (Inr n, gs)"
| "close_loop now horizon ((k, g) # rest) gs n =
     (case py_number (gattr ''updated'' g) of
        None \<Rightarrow> (Inl (Exc ''TypeError'' ''unsupported operand''), gs)
      | Some u \<Rightarrow>
          if horizon < now - u then close_loop now horizon rest (dput k (fail_stale now g) gs) (Suc n)
          else close_loop now horizon rest gs n)"

definition close_stale :: "bool \<Rightarrow> pyfloat \<Rightarrow> pyfloat \<Rightarrow> goal_store \<Rightarrow> nat result \<times> goal_store" where
  "close_stale ok now horizon st =
     (case list_entries (Some ''active'') st of
        Inl e \<Rightarrow> (Inl e, st)
      | Inr es \<Rightarrow>
          (case close_loop now horizon es (gs_goals st) 0 of
             (Inl e, gs) \<Rightarrow> (Inl e, st\<lparr>gs_goals := gs\<rparr>)
           | (Inr n, gs) \<Rightarrow>
               if n = 0 then (Inr 0, st\<lparr>gs_goals := gs\<rparr>)
               else (let (r, st') = goal_save ok (st\<lparr>gs_goals := gs\<rparr>) in (map_sum id (\<lambda>_. n) r, st'))))"

definition goal_stats :: "goal_store \<Rightarrow> nat \<times> (pyval \<times> nat) list" where
  "goal_stats st = (length (gs_goals st),
     foldl (\<lambda>d g. let s = gattr ''status'' g in dput s ((case dget d s of None \<Rightarrow> 0 | Some n \<Rightarrow> n) + 1) d) [] (dvals (gs_goals st)))"

section \<open>One active goal per title\<close>

definition active_titles :: "goal_store \<Rightarrow> pyval list" where
  "active_titles st = map (gattr ''title'') (filter is_active (dvals (gs_goals st)))"

definition goals_ok :: "goal_store \<Rightarrow> bool" where
  "goals_ok st \<longleftrightarrow> dict_wf (gs_goals st) \<and> distinct (active_titles st)"

text \<open>The life cycle of goals: every operation but the untyped \<open>update\<close>.\<close>

datatype goal_op =
    GCreate string string string pyval string pyval "pyval list" pyval
  | GComplete string
  | GFail string pyval
  | GCancel string
  | GSpawn string string string pyval
  | GCloseStale pyfloat

fun run_goal :: "bool \<Rightarrow> pyfloat \<Rightarrow> goal_op \<Rightarrow> goal_store \<Rightarrow> goal_store" where
  "run_goal ok now (GCreate uid title kind pr prov par deps ag) st = snd (goal_create ok uid now title kind pr prov par deps ag st)"
| "run_goal ok now (GComplete k) st = snd (goal_complete ok now k st)"
| "run_goal ok now (GFail k b) st = snd (goal_fail ok now k b st)"
| "run_goal ok now (GCancel k) st = snd (goal_cancel ok now k st)"
| "run_goal ok now (GSpawn uid par title pr) st = snd (spawn_subgoal ok uid now par title pr st)"
| "run_goal ok now (GCloseStale h) st = snd (close_stale ok now h st)"

lemma goal_save_goals [simp]: "gs_goals (snd (goal_save ok st)) = gs_goals st"
  by (simp add: goal_save_def Let_def case_prod_unfold)

lemma filter_put: "set (filter P (dvals (dput k g d))) \<subseteq> (if P g then {g} else {}) \<union> set (filter P (dvals d))"
  using dvals_put_subset [of k g d] by (auto simp del: set_map)

lemma titles_put_subset:
  "set (map t (filter P (dvals (dput k g d)))) \<subseteq> insert (t g) (set (map t (filter P (dvals d))))"
  using image_mono [OF filter_put [of P k g d], of t] by (auto split: if_splits)

lemma titles_put_quiet: "\<not> P g \<Longrightarrow> set (map t (filter P (dvals (dput k g d)))) \<subseteq> set (map t (filter P (dvals d)))"
  using image_mono [OF filter_put [of P k g d], of t] by (simp del: set_filter)

lemma distinct_put_quiet:
  "distinct (map t (filter P (dvals d))) \<Longrightarrow> \<not> P g \<Longrightarrow> distinct (map t (filter P (dvals (dput k g d))))"
proof (induction d)
  case (Cons e d)
  then show ?case using titles_put_quiet [of P g t k d] by (cases e) (auto simp del: set_filter set_map)
qed simp

lemma distinct_put_new:
  "distinct (map t (filter P (dvals d))) \<Longrightarrow> t g \<notin> set (map t (filter P (dvals d))) \<Longrightarrow>
   distinct (map t (filter P (dvals (dput k g d))))"
proof (induction d)
  case (Cons e d)
  then show ?case using titles_put_subset [of t P k g d] by (cases e) (auto simp del: set_filter set_map)
qed simp

lemma goals_ok_quiet:
  "goals_ok st \<Longrightarrow> \<not> is_active g \<Longrightarrow> goals_ok (st\<lparr>gs_goals := dput k g (gs_goals st)\<rparr>)"
  by (simp add: goals_ok_def active_titles_def dict_wf_put distinct_put_quiet)

lemma create_ok: "goals_ok st \<Longrightarrow> goals_ok (snd (goal_create ok uid now title kind pr prov par deps ag st))"
proof (cases "find (\<lambda>g. gattr ''title'' g = PStr title \<and> is_active g) (dvals (gs_goals st))")
  case None
  let ?g = "new_goal uid now title kind pr prov par deps ag"
  assume ok: "goals_ok st"
  have "gattr ''title'' ?g = PStr title" by (simp add: gattr_def new_goal_def dgetd_def)
  moreover have "PStr title \<notin> set (active_titles st)"
    using None by (auto simp: find_None_iff active_titles_def)
  ultimately have "distinct (map (gattr ''title'') (filter is_active (dvals (dput uid ?g (gs_goals st)))))"
    using ok by (intro distinct_put_new) (auto simp: goals_ok_def active_titles_def)
  then show ?thesis using ok None
    by (simp add: goals_ok_def active_titles_def goal_create_def Let_def case_prod_unfold dict_wf_put)
qed (simp add: goal_create_def)

lemma update_ok:
  assumes "goals_ok st" and "\<And>g. dget (gs_goals st) k = Some g \<Longrightarrow> \<not> is_active (set_attrs attrs g)"
  shows "goals_ok (snd (goal_update ok now k attrs st))"
proof (cases "dget (gs_goals st) k")
  case (Some g)
  let ?g = "dput ''updated'' (PFloat now) (set_attrs attrs g)"
  have "\<not> is_active ?g" using assms(2) [OF Some] by (simp add: is_active_def gattr_def dgetd_def)
  from goals_ok_quiet [OF assms(1) this, of k] Some show ?thesis
    by (simp add: goal_update_def Let_def case_prod_unfold goals_ok_def active_titles_def)
qed (use assms(1) in \<open>simp add: goal_update_def\<close>)

lemma status_set:
  "s \<noteq> ''active'' \<Longrightarrow> \<not> is_active (set_attrs [(''status'', PStr s)] g)"
  "s \<noteq> ''active'' \<Longrightarrow> k \<noteq> ''status'' \<Longrightarrow> \<not> is_active (set_attrs [(''status'', PStr s), (k, v)] g)"
  using dget_None_iff [of g "''status''"]
  by (auto simp: set_attrs_def is_active_def gattr_def dgetd_def split: option.splits)

lemma fail_stale_quiet: "\<not> is_active (fail_stale now g)"
  by (simp add: fail_stale_def is_active_def gattr_def dgetd_def)

lemma close_loop_ok:
  "dict_wf gs \<Longrightarrow> distinct (map (gattr ''title'') (filter is_active (dvals gs))) \<Longrightarrow>
   dict_wf (snd (close_loop now h es gs n)) \<and>
   distinct (map (gattr ''title'') (filter is_active (dvals (snd (close_loop now h es gs n)))))"
  by (induction now h es gs n rule: close_loop.induct)
    (auto simp: dict_wf_put distinct_put_quiet fail_stale_quiet split: option.splits)

lemma close_stale_ok: "goals_ok st \<Longrightarrow> goals_ok (snd (close_stale ok now h st))"
proof (cases "list_entries (Some ''active'') st")
  case (Inr es)
  assume "goals_ok st"
  then have "goals_ok (st\<lparr>gs_goals := snd (close_loop now h es (gs_goals st) 0)\<rparr>)"
    using close_loop_ok by (simp add: goals_ok_def active_titles_def)
  then show ?thesis using Inr
    by (simp add: close_stale_def goals_ok_def active_titles_def Let_def case_prod_unfold split: sum.splits)
qed (simp add: close_stale_def)

text \<open>
  C24. Through creations (sub-goals included), completions, failures, cancellations and the closing of
  stale goals, whether the file can be written or not, no two active goals ever have the same title.
\<close>

theorem one_active_goal_per_title:
  assumes "goals_ok st"
  shows "goals_ok (fold (\<lambda>(ok, now, op). run_goal ok now op) ops st)"
proof -
  have "goals_ok (run_goal ok now op st)" if "goals_ok st" for ok now op st
    using that by (cases op)
      (simp_all add: create_ok spawn_subgoal_def goal_complete_def goal_fail_def goal_cancel_def close_stale_ok
        update_ok status_set)
  with assms show ?thesis by (induction ops arbitrary: st) (auto simp: split_beta)
qed

definition empty_store :: goal_store where
  "empty_store = \<lparr>gs_goals = [], gs_file = Absent\<rparr>"

lemma one_active_goal_per_title_witness:
  "goals_ok (fold (\<lambda>(ok, now, op). run_goal ok now op)
     [(True, 0, GCreate ''a'' ''tidy'' ''user'' (PInt 0) ''user'' PNone [] PNone),
      (False, 1, GSpawn ''b'' ''a'' ''tidy'' (PInt 1))] empty_store)"
  by (rule one_active_goal_per_title) (simp add: goals_ok_def empty_store_def active_titles_def)

text \<open>
  A sub-goal is deduplicated by its title alone: asked for under one parent, it is the active goal of
  that title, whatever parent that one has.
\<close>

lemma subgoal_of_another_parent:
  "find (\<lambda>g. gattr ''title'' g = PStr title \<and> is_active g) (dvals (gs_goals st)) = Some g \<Longrightarrow>
   spawn_subgoal ok uid now parent title pr st = (Inr g, st)"
  by (simp add: spawn_subgoal_def goal_create_def)

section \<open>Goals survive a restart\<close>

definition goal_shape :: "string \<times> goal \<Rightarrow> bool" where
  "goal_shape e \<longleftrightarrow> dkeys (snd e) = goal_fields \<and> gattr ''id'' (snd e) = PStr (fst e)"

definition goals_shape :: "goal_store \<Rightarrow> bool" where
  "goals_shape st \<longleftrightarrow> dict_wf (gs_goals st) \<and> list_all goal_shape (gs_goals st)"

lemma dict_rebuild: "dict_wf g \<Longrightarrow> map (\<lambda>k. (k, dgetd g k v)) (dkeys g) = g"
proof -
  assume w: "dict_wf g"
  have "(fst e, dgetd g (fst e) v) = e" if "e \<in> set g" for e
  proof -
    have "dget g (fst e) = Some (snd e)" using that w dget_iff_in [of g "fst e" "snd e"] by simp
    then show ?thesis by (simp add: dgetd_def)
  qed
  then show ?thesis by (simp add: comp_def map_idI)
qed

lemma goal_fields_wf: "dkeys g = goal_fields \<Longrightarrow> dict_wf g"
  by (simp add: dict_wf_def goal_fields_def)

lemma row_rebuilt:
  assumes "goal_shape (k, g)"
  shows "goal_of_row (PDict g) = RowOk g \<and> gattr ''id'' g = PStr k"
proof -
  have w: "dkeys g = goal_fields" "gattr ''id'' g = PStr k" using assms by (simp_all add: goal_shape_def)
  then have "dget g ''id'' \<noteq> None" by (cases "dget g ''id''") (simp_all add: gattr_def dgetd_def)
  moreover have "map (\<lambda>k. (k, dgetd g k PNone)) goal_fields = g"
    using dict_rebuild [OF goal_fields_wf [OF w(1)]] w(1) by simp
  ultimately show ?thesis using w by (auto simp: goal_of_row_def split: option.splits)
qed

lemma load_rows_back: "list_all goal_shape gs \<Longrightarrow> load_rows (map PDict (dvals gs)) acc = Inr (dmerge acc gs)"
  by (induction gs arbitrary: acc) (auto simp: row_rebuilt dmerge_def)

lemma dmerge_all: "dict_wf gs \<Longrightarrow> dmerge [] gs = gs"
  using dmerge_fresh [of "[]" gs] by (simp add: dict_wf_def)

lemma set_attrs_keys: "dkeys (set_attrs attrs g) = dkeys g"
  unfolding set_attrs_def by (induction attrs arbitrary: g) (auto simp: dkeys_put_present simp del: set_map)

lemma set_attrs_id: "''id'' \<notin> set (dkeys attrs) \<Longrightarrow> gattr ''id'' (set_attrs attrs g) = gattr ''id'' g"
  unfolding set_attrs_def by (induction attrs arbitrary: g) (auto simp: gattr_def dgetd_def)

lemma shape_attrs:
  "goal_shape (k, g) \<Longrightarrow> ''id'' \<notin> set (dkeys attrs) \<Longrightarrow>
   goal_shape (k, dput ''updated'' (PFloat now) (set_attrs attrs g))"
proof -
  assume a: "goal_shape (k, g)" "''id'' \<notin> set (dkeys attrs)"
  then have "dkeys (set_attrs attrs g) = goal_fields" by (simp add: set_attrs_keys goal_shape_def)
  moreover have "''updated'' \<in> set goal_fields" by (simp add: goal_fields_def)
  ultimately have "dkeys (dput ''updated'' (PFloat now) (set_attrs attrs g)) = goal_fields"
    by (metis dkeys_put_present)
  then show ?thesis using a set_attrs_id [OF a(2), of g] by (simp add: goal_shape_def gattr_def dgetd_def)
qed

lemma new_goal_shape: "goal_shape (uid, new_goal uid now title kind pr prov par deps ag)"
  by (simp add: goal_shape_def new_goal_def goal_fields_def gattr_def dgetd_def)

lemma shape_put: "goals_shape st \<Longrightarrow> goal_shape (k, g) \<Longrightarrow> goals_shape (st\<lparr>gs_goals := dput k g (gs_goals st)\<rparr>)"
  by (simp add: goals_shape_def dict_wf_put list_all_dput)

lemma shape_get: "goals_shape st \<Longrightarrow> dget (gs_goals st) k = Some g \<Longrightarrow> goal_shape (k, g)"
  by (auto simp: goals_shape_def list_all_iff dest: dget_Some_in)

lemma shape_goals: "gs_goals st = gs_goals st' \<Longrightarrow> goals_shape st \<Longrightarrow> goals_shape st'"
  by (simp add: goals_shape_def)

lemma update_shape:
  assumes "goals_shape st" and "''id'' \<notin> set (dkeys attrs)"
  shows "goals_shape (snd (goal_update ok now k attrs st))"
proof (cases "dget (gs_goals st) k")
  case (Some g)
  from shape_put [OF assms(1) shape_attrs [OF shape_get [OF assms(1) Some] assms(2)]] Some show ?thesis
    by (simp add: goal_update_def Let_def case_prod_unfold goals_shape_def)
qed (use assms(1) in \<open>simp add: goal_update_def\<close>)

lemma create_shape: "goals_shape st \<Longrightarrow> goals_shape (snd (goal_create ok uid now title kind pr prov par deps ag st))"
  using shape_put [OF _ new_goal_shape [of uid now title kind pr prov par deps ag], of st]
  by (simp add: goal_create_def Let_def case_prod_unfold goals_shape_def split: option.splits)

lemma fail_stale_shape: "goal_shape (k, g) \<Longrightarrow> goal_shape (k, fail_stale now g)"
proof -
  assume a: "goal_shape (k, g)"
  then have "dkeys (fail_stale now g) = goal_fields"
    unfolding fail_stale_def goal_shape_def by (simp add: dkeys_put_present goal_fields_def del: set_map)
  then show ?thesis using a by (simp add: goal_shape_def fail_stale_def gattr_def dgetd_def)
qed

lemma close_loop_shape:
  "list_all goal_shape es \<Longrightarrow> dict_wf gs \<Longrightarrow> list_all goal_shape gs \<Longrightarrow>
   dict_wf (snd (close_loop now h es gs n)) \<and> list_all goal_shape (snd (close_loop now h es gs n))"
  by (induction now h es gs n rule: close_loop.induct)
    (auto simp: dict_wf_put list_all_dput fail_stale_shape split: option.splits)

lemma entries_subset: "list_entries s st = Inr es \<Longrightarrow> set es \<subseteq> set (gs_goals st)"
  by (auto simp: list_entries_def by_priority_def split: if_splits option.splits)

lemma close_stale_shape: "goals_shape st \<Longrightarrow> goals_shape (snd (close_stale ok now h st))"
proof (cases "list_entries (Some ''active'') st")
  case (Inr es)
  assume a: "goals_shape st"
  have "list_all goal_shape es" using a entries_subset [OF Inr] by (auto simp: goals_shape_def list_all_iff)
  with a show ?thesis using Inr close_loop_shape [of es "gs_goals st" now h 0]
    by (simp add: close_stale_def goals_shape_def Let_def case_prod_unfold split: sum.splits)
qed (simp add: close_stale_def)

text \<open>
  After any run of the life cycle, a registry that can be written is what the next process loads:
  the same goals, under the same identifiers, with the same attributes, in the same order.
\<close>

lemma goals_survive_restart:
  assumes "goals_shape st" and "goal_save True (fold (\<lambda>(ok, now, op). run_goal ok now op) ops st) = (Inr (), st')"
  shows "new_goal_store (gs_file st') = Inr st'"
proof -
  have step: "goals_shape (run_goal ok now op st)" if "goals_shape st" for ok now op st
    using that by (cases op)
      (simp_all add: create_shape spawn_subgoal_def goal_complete_def goal_fail_def goal_cancel_def close_stale_shape update_shape)
  have "goals_shape (fold (\<lambda>(ok, now, op). run_goal ok now op) ops st)" (is "goals_shape ?s")
    using assms(1) step by (induction ops arbitrary: st) (auto simp: split_beta)
  moreover from assms(2) have "gs_file st' = Stored (goals_json (gs_goals ?s))" "gs_goals st' = gs_goals ?s"
    by (auto simp: goal_save_def write_json_def Let_def split: if_splits)
  ultimately show ?thesis
    by (simp add: new_goal_store_def load_goals_def goals_json_def load_rows_back dmerge_all goals_shape_def del: map_map)
qed

definition demo_ops :: "(bool \<times> pyfloat \<times> goal_op) list" where
  "demo_ops = [(True, 0, GCreate ''a'' ''tidy'' ''user'' (PInt 0) ''user'' PNone [] PNone), (True, 1, GComplete ''a'')]"

lemma goals_survive_restart_witness:
  "new_goal_store (gs_file (snd (goal_save True (fold (\<lambda>(ok, now, op). run_goal ok now op) demo_ops empty_store)))) =
     Inr (snd (goal_save True (fold (\<lambda>(ok, now, op). run_goal ok now op) demo_ops empty_store)))"
proof (rule goals_survive_restart)
  show "goals_shape empty_store" by (simp add: goals_shape_def empty_store_def)
  have "fst (goal_save True (fold (\<lambda>(ok, now, op). run_goal ok now op) demo_ops empty_store)) = Inr ()"
    by code_simp
  then show "goal_save True (fold (\<lambda>(ok, now, op). run_goal ok now op) demo_ops empty_store) =
      (Inr (), snd (goal_save True (fold (\<lambda>(ok, now, op). run_goal ok now op) demo_ops empty_store)))"
    by (metis prod.collapse)
qed

text \<open>One row without an identifier in the file keeps the registry from being loaded at all.\<close>

lemma row_without_id_raises:
  "new_goal_store (Stored (PList [PDict [(''title'', PStr ''tidy'')]])) = Inl (Exc ''KeyError'' (repr_str ''id''))"
  by (simp add: new_goal_store_def load_goals_def goal_of_row_def)

end
