(* ===== verification/Json_Parse.thy ===== *)
theory Json_Parse
  imports Json
begin

text \<open>
  \<open>json.loads\<close>, as far as the program decodes text itself (lines of the JSON-lines stores, replies of a
  provider): a recursive-descent decoder under fuel, and the proof that it reads back what
  \<open>json.dumps\<close> writes. An escape of a code point above 255 is refused, for the text of the model has no
  such character; a number with a fraction or an exponent is the rational it denotes.
\<close>

section \<open>The decoder\<close>

definition json_space :: "char \<Rightarrow> bool" where
  "json_space c \<longleftrightarrow> c = CHR '' '' \<or> c = CHR 0x09 \<or> c = CHR 0x0A \<or> c = CHR 0x0D"

definition jws :: "string \<Rightarrow> string" where
  "jws s = dropWhile json_space s"

definition hex_digit :: "char \<Rightarrow> nat option" where
  "hex_digit c =
     (let n = code c in
      if 48 \<le> n \<and> n \<le> 57 then Some (n - 48)
      else if 97 \<le> n \<and> n \<le> 102 then Some (n - 87)
      else if 65 \<le> n \<and> n \<le> 70 then Some (n - 55)
      else None)"

definition hex_value :: "string \<Rightarrow> nat option" where
  "hex_value s = (if None \<in> set (map hex_digit s) then None
     else Some (foldl (\<lambda>n d. 16 * n + d) 0 (map (the \<circ> hex_digit) s)))"

text \<open>What follows a backslash: the character it stands for, and the number of characters read.\<close>

definition unescape :: "string \<Rightarrow> (char \<times> nat) option" where
  "unescape s =
     (case s of
        [] \<Rightarrow> None
      | c # r \<Rightarrow>
          if c = CHR 0x22 \<or> c = CHR 0x5C \<or> c = CHR ''/'' then Some (c, 1)
          else if c = CHR ''b'' then Some (CHR 0x08, 1)
          else if c = CHR ''f'' then Some (CHR 0x0C, 1)
          else if c = CHR ''n'' then Some (CHR 0x0A, 1)
          else if c = CHR ''r'' then Some (CHR 0x0D, 1)
          else if c = CHR ''t'' then Some (CHR 0x09, 1)
          else if c = CHR ''u'' \<and> 4 \<le> length r then
            (case hex_value (take 4 r) of
               None \<Rightarrow> None
             | Some n \<Rightarrow> if n < 256 then Some (char_of n, 5) else None)
          else None)"

text \<open>The rest of a string after its opening quote; control characters are refused.\<close>

function jstr :: "string \<Rightarrow> (string \<times> string) option" where
  "jstr [] = None"
| "jstr (c # r) =
     (if c = CHR 0x22 then Some ([], r)
      else if c = CHR 0x5C then
        (case unescape r of
           None \<Rightarrow> None
         | Some (d, n) \<Rightarrow> map_option (map_prod (Cons d) id) (jstr (drop n r)))
      else if code c < 32 then None
      else map_option (map_prod (Cons c) id) (jstr r))"
  by pat_completeness auto
termination by (relation "measure length") auto

definition jexp :: "string \<Rightarrow> (int \<times> string) option" where
  "jexp s =
     (case s of
        c # r \<Rightarrow>
          if c = CHR ''e'' \<or> c = CHR ''E'' then
            (let (sg, r1) = (case r of
                 d # r' \<Rightarrow> if d = CHR ''-'' then (- 1, r') else if d = CHR ''+'' then (1, r') else (1, r)
               | [] \<Rightarrow> (1, r));
                 ds = takeWhile is_digit r1
             in if ds = [] then None else Some (sg * int (digits_val ds), drop (length ds) r1))
          else None
      | [] \<Rightarrow> None)"

definition int_part :: "string \<Rightarrow> string" where
  "int_part s = (case s of c # r \<Rightarrow> if c = CHR ''0'' then ''0'' else takeWhile is_digit s | [] \<Rightarrow> [])"

definition frac_part :: "string \<Rightarrow> string" where
  "frac_part s = (case s of c # r \<Rightarrow> if c = CHR ''.'' then takeWhile is_digit r else [] | [] \<Rightarrow> [])"

text \<open>A number without its sign.\<close>

definition junsigned :: "bool \<Rightarrow> string \<Rightarrow> (pyval \<times> string) option" where
  "junsigned neg s =
     (let ip = int_part s;
          s2 = drop (length ip) s;
          fp = frac_part s2;
          s3 = (if fp = [] then s2 else drop (Suc (length fp)) s2);
          x = of_nat (digits_val (ip @ fp)) / 10 ^ length fp
      in if ip = [] then None
         else (case jexp s3 of
                 Some (e, s4) \<Rightarrow> Some (PFloat (if neg then - scale10 x e else scale10 x e), s4)
               | None \<Rightarrow>
                   if fp = [] then Some (PInt (if neg then - int (digits_val ip) else int (digits_val ip)), s3)
                   else Some (PFloat (if neg then - x else x), s3)))"

definition jnum :: "string \<Rightarrow> (pyval \<times> string) option" where
  "jnum s = (if startswith s ''-'' then junsigned True (drop 1 s) else junsigned False s)"

definition jscalar :: "string \<Rightarrow> (pyval \<times> string) option" where
  "jscalar s =
     (if startswith s ''null'' then Some (PNone, drop 4 s)
      else if startswith s ''true'' then Some (PBool True, drop 4 s)
      else if startswith s ''false'' then Some (PBool False, drop 5 s)
      else case jnum s of
             Some x \<Rightarrow> Some x
           | None \<Rightarrow>
               if startswith s ''NaN'' then Some (PObj ''nan'', drop 3 s)
               else if startswith s ''Infinity'' then Some (PObj ''inf'', drop 8 s)
               else if startswith s ''-Infinity'' then Some (PObj ''-inf'', drop 9 s)
               else None)"

fun jval :: "nat \<Rightarrow> string \<Rightarrow> (pyval \<times> string) option"
and jelems :: "nat \<Rightarrow> string \<Rightarrow> (pyval list \<times> string) option"
and jmembers :: "nat \<Rightarrow> string \<Rightarrow> (pyval sdict \<times> string) option" where
  "jval 0 s = None"
| "jval (Suc n) s =
     (case s of
        [] \<Rightarrow> None
      | c # r \<Rightarrow>
          if c = CHR 0x22 then map_option (map_prod PStr id) (jstr r)
          else if c = CHR 0x7B then
            (if startswith (jws r) [CHR 0x7D] then Some (PDict [], drop 1 (jws r))
             else map_option (map_prod (PDict \<circ> dmerge []) id) (jmembers n (jws r)))
          else if c = CHR ''['' then
            (if startswith (jws r) '']'' then Some (PList [], drop 1 (jws r))
             else map_option (map_prod PList id) (jelems n (jws r)))
          else jscalar s)"
| "jelems 0 s = None"
| "jelems (Suc n) s =
     (case jval n s of
        None \<Rightarrow> None
      | Some (v, r) \<Rightarrow>
          if startswith (jws r) '']'' then Some ([v], drop 1 (jws r))
          else if startswith (jws r) '','' then map_option (map_prod (Cons v) id) (jelems n (jws (drop 1 (jws r))))
          else None)"
| "jmembers 0 s = None"
| "jmembers (Suc n) s =
     (if \<not> startswith s [CHR 0x22] then None
      else case jstr (drop 1 s) of
             None \<Rightarrow> None
           | Some (k, r1) \<Rightarrow>
               if \<not> startswith (jws r1) '':'' then None
               else (case jval n (jws (drop 1 (jws r1))) of
                       None \<Rightarrow> None
                     | Some (v, r2) \<Rightarrow>
                         if startswith (jws r2) [CHR 0x7D] then Some ([(k, v)], drop 1 (jws r2))
                         else if startswith (jws r2) '','' then
                           map_option (map_prod (Cons (k, v)) id) (jmembers n (jws (drop 1 (jws r2))))
                         else None))"

text \<open>None is a ValueError: the text is no JSON document, or something follows it.\<close>

definition json_loads :: "string \<Rightarrow> pyval option" where
  "json_loads s =
     (case jval (2 * length s + 2) (jws s) of
        None \<Rightarrow> None
      | Some (v, r) \<Rightarrow> if jws r = [] then Some v else None)"

section \<open>Reading back what was written\<close>

declare jstr.simps [simp del] jval.simps [simp del] jelems.simps [simp del] jmembers.simps [simp del]

lemmas jval_Suc = jval.simps(2) and jelems_Suc = jelems.simps(2) and jmembers_Suc = jmembers.simps(2)

lemma hex_digit_char: "d < 16 \<Longrightarrow> hex_digit (hex_char d) = Some d"
  by (auto simp: hex_digit_def hex_char_def code_char_of Let_def)

lemma hex_value_00: "n < 256 \<Longrightarrow> hex_value (''00'' @ hex2 n) = Some n"
proof -
  assume n: "n < 256"
  have "hex_digit (CHR ''0'') = Some 0" by (simp add: hex_digit_def code_def)
  with n show ?thesis by (simp add: hex_value_def hex2_def hex_digit_char)
qed

lemma code_less [simp]: "code c < 256"
  by (simp add: code_def)

lemma char_of_code [simp]: "char_of (code c) = c"
  by (simp add: code_def)

lemma jstr_plain: "c \<noteq> CHR 0x22 \<Longrightarrow> c \<noteq> CHR 0x5C \<Longrightarrow> \<not> code c < 32 \<Longrightarrow> jstr (c # t) = map_option (map_prod (Cons c) id) (jstr t)"
  by (simp add: jstr.simps)

lemma jstr_escape: "unescape r = Some (d, n) \<Longrightarrow> jstr (CHR 0x5C # r) = map_option (map_prod (Cons d) id) (jstr (drop n r))"
  by (simp add: jstr.simps)

lemma code_eq: "n < 256 \<Longrightarrow> code c = n \<longleftrightarrow> c = char_of n"
  by (metis code_char_of char_of_code)

lemma jstr_char: "jstr (json_char c @ t) = map_option (map_prod (Cons c) id) (jstr t)"
proof (cases "c = CHR 0x22 \<or> c = CHR 0x5C")
  case True
  then show ?thesis by (auto simp: json_char_def jstr_escape unescape_def)
next
  case special: False
  show ?thesis
  proof (cases "code c = 10 \<or> code c = 13 \<or> code c = 9 \<or> code c = 8 \<or> code c = 12")
    case True
    then have "c \<in> {CHR 0x0A, CHR 0x0D, CHR 0x09, CHR 0x08, CHR 0x0C}"
      by (auto simp: code_eq char_of_def bit_simps)
    then show ?thesis by (auto simp: json_char_def jstr_escape unescape_def code_def)
  next
    case False
    show ?thesis
    proof (cases "32 \<le> code c \<and> code c \<le> 126")
      case True
      with special False show ?thesis by (simp add: json_char_def jstr_plain Let_def)
    next
      case plain: False
      have "unescape (CHR ''u'' # (''00'' @ hex2 (code c)) @ t) = Some (c, 5)"
        using hex_value_00 [of "code c"] by (simp add: unescape_def hex2_def)
      from jstr_escape [OF this] special False plain show ?thesis
        by (auto simp: json_char_def Let_def hex2_def)
    qed
  qed
qed

lemma jstr_chars: "jstr (concat (map json_char s) @ CHR 0x22 # rest) = Some (s, rest)"
  by (induction s) (simp_all add: jstr_char, simp add: jstr.simps)

lemma jws_stop [simp]: "\<not> json_space c \<Longrightarrow> jws (c # r) = c # r" "jws [] = []" "jws (CHR '' '' # r) = jws r"
  by (simp_all add: jws_def json_space_def)

text \<open>What may follow a value: nothing, or a character that cannot continue a number.\<close>

definition value_stop :: "string \<Rightarrow> bool" where
  "value_stop r = (case r of [] \<Rightarrow> True
     | c # _ \<Rightarrow> \<not> is_digit c \<and> c \<noteq> CHR ''.'' \<and> c \<noteq> CHR ''e'' \<and> c \<noteq> CHR ''E'')"

lemma value_stop_simps [simp]:
  "value_stop []" "value_stop ('','' @ r)" "value_stop (CHR '','' # r)" "value_stop ('']'' @ r)" "value_stop (CHR '']'' # r)"
  "value_stop (CHR 0x7D # r)"
  by (simp_all add: value_stop_def is_digit_def code_def)

lemma takeWhile_digits: "\<forall>c\<in>set ds. is_digit c \<Longrightarrow> value_stop r \<Longrightarrow> takeWhile is_digit (ds @ r) = ds"
  by (cases r) (simp_all add: value_stop_def takeWhile_append2 takeWhile_eq_all_conv takeWhile_append)

lemma jexp_stop: "value_stop r \<Longrightarrow> jexp r = None"
  by (simp add: jexp_def value_stop_def split: list.splits)

lemma str_of_nat_zero: "0 < n \<Longrightarrow> hd (str_of_nat n) \<noteq> CHR ''0''"
proof (induction n rule: str_of_nat.induct)
  case (1 n)
  have ne: "digit_char d \<noteq> CHR ''0''" if "0 < d" "d < 10" for d
  proof
    assume "digit_char d = CHR ''0''"
    then have "code (digit_char d) = code (CHR ''0'')" by simp
    then show False using that by (simp add: code_digit_char) (simp add: code_def)
  qed
  show ?case
  proof (cases "n < 10")
    case True
    then show ?thesis using 1(2) ne by (subst str_of_nat.simps) simp
  next
    case False
    then have "0 < n div 10" by simp
    with 1(1) False have "hd (str_of_nat (n div 10)) \<noteq> CHR ''0''" by blast
    then show ?thesis using False by (subst str_of_nat.simps) simp
  qed
qed

lemma str_of_nat_0: "str_of_nat 0 = ''0''"
  by (subst str_of_nat.simps) (simp add: digit_char_def char_of_def bit_simps)

text \<open>The integer part of a printed number is read whole.\<close>

lemma int_part_nat: "value_stop r \<or> (\<exists>r'. r = CHR ''.'' # r') \<Longrightarrow> int_part (str_of_nat n @ r) = str_of_nat n"
proof (cases "n = 0")
  case False
  assume r: "value_stop r \<or> (\<exists>r'. r = CHR ''.'' # r')"
  obtain c s where c: "str_of_nat n = c # s" by (cases "str_of_nat n") simp_all
  have "takeWhile is_digit (str_of_nat n @ r) = str_of_nat n"
    using r str_of_nat_digits [of n] takeWhile_digits [of "str_of_nat n" r]
    by (auto simp: takeWhile_append2 is_digit_def code_def)
  moreover have "c \<noteq> CHR ''0''" using str_of_nat_zero [of n] False c by simp
  ultimately show ?thesis using c by (simp add: int_part_def)
qed (simp add: str_of_nat_0 int_part_def)

lemma digit_head: "\<exists>c s. str_of_nat n = c # s \<and> is_digit c"
  using str_of_nat_digits [of n] by (cases "str_of_nat n") simp_all

lemma junsigned_nat: "value_stop r \<Longrightarrow> junsigned neg (str_of_nat n @ r) = Some (PInt (if neg then - int n else int n), r)"
proof -
  assume r: "value_stop r"
  then have "frac_part r = []" by (simp add: frac_part_def value_stop_def split: list.splits)
  with r show ?thesis by (simp add: junsigned_def int_part_nat digits_val_str_of_nat jexp_stop)
qed

lemma junsigned_point0:
  "value_stop r \<Longrightarrow> junsigned neg (str_of_nat n @ ''.0'' @ r) = Some (PFloat (if neg then - of_nat n else of_nat n), r)"
proof -
  assume r: "value_stop r"
  have "takeWhile is_digit (''0'' @ r) = ''0''" using r by (intro takeWhile_digits) (simp_all add: is_digit_def code_def)
  then have "frac_part (''.0'' @ r) = ''0''" by (simp add: frac_part_def)
  moreover have "digits_val (str_of_nat n @ ''0'') = 10 * n"
    using digits_val_snoc [of "str_of_nat n" "CHR ''0''"] by (simp add: digits_val_str_of_nat code_def)
  ultimately show ?thesis using r int_part_nat [of "''.0'' @ r" n] by (simp add: junsigned_def Let_def jexp_stop)
qed

lemma jnum_nat:
  "jnum (str_of_nat n @ r) = junsigned False (str_of_nat n @ r)" "jnum (CHR ''-'' # s) = junsigned True s"
proof -
  obtain c t where "str_of_nat n = c # t" "is_digit c" using digit_head by blast
  then show "jnum (str_of_nat n @ r) = junsigned False (str_of_nat n @ r)"
    using digit_neq_sign [of c] by (simp add: jnum_def startswith_def)
qed (simp add: jnum_def startswith_def)

text \<open>A number is none of the words; so a scalar that begins like a number is a number.\<close>

definition number_head :: "string \<Rightarrow> bool" where
  "number_head s = (case s of [] \<Rightarrow> False | c # _ \<Rightarrow> is_digit c \<or> c = CHR ''-'')"

lemma jval_number: "number_head s \<Longrightarrow> jnum s = Some x \<Longrightarrow> jval (Suc n) s = Some x"
proof -
  assume a: "number_head s" "jnum s = Some x"
  then obtain c r where c: "s = c # r" "is_digit c \<or> c = CHR ''-''" by (auto simp: number_head_def split: list.splits)
  have d: "\<not> is_digit (CHR 0x22)" "\<not> is_digit (CHR 0x7B)" "\<not> is_digit (CHR ''['')" "\<not> is_digit (CHR ''n'')"
    "\<not> is_digit (CHR ''t'')" "\<not> is_digit (CHR ''f'')" by (simp_all add: is_digit_def code_def)
  have "c \<noteq> CHR 0x22" "c \<noteq> CHR 0x7B" "c \<noteq> CHR ''[''" "c \<noteq> CHR ''n''" "c \<noteq> CHR ''t''" "c \<noteq> CHR ''f''"
    using c(2) d by auto
  with a c(1) show ?thesis by (simp add: jval_Suc jscalar_def startswith_def)
qed

lemma number_head_int: "number_head (str_of_int i @ r)"
proof -
  obtain c t where "str_of_nat (nat i) = c # t" "is_digit c" using digit_head by blast
  then show ?thesis by (simp add: number_head_def str_of_int_def)
qed

lemma jval_int: "value_stop r \<Longrightarrow> jval (Suc n) (str_of_int i @ r) = Some (PInt i, r)"
  by (rule jval_number [OF number_head_int]) (simp add: str_of_int_def jnum_nat junsigned_nat)

text \<open>
  Floats are printed by an argument; what decoding needs of it is that the text of each float is a
  number that denotes it (the shortest decimal that Python prints denotes the float when rounded).
\<close>

definition prints_float :: "(pyfloat \<Rightarrow> string) \<Rightarrow> pyfloat \<Rightarrow> bool" where
  "prints_float sf x \<longleftrightarrow> number_head (sf x) \<and> list_all (\<lambda>c. 32 \<le> code c) (sf x) \<and> (\<forall>r. value_stop r \<longrightarrow> jnum (sf x @ r) = Some (PFloat x, r))"

definition point0 :: "pyfloat \<Rightarrow> string" where
  "point0 x = str_of_int \<lfloor>x\<rfloor> @ ''.0''"

lemma str_of_int_chars: "list_all (\<lambda>c. 32 \<le> code c) (str_of_int i)"
proof -
  have "list_all (\<lambda>c. 32 \<le> code c) (str_of_nat n)" for n
    using str_of_nat_digits [of n] by (fastforce simp: list_all_iff is_digit_def Let_def)
  then show ?thesis by (simp add: str_of_int_def) (simp add: code_def)
qed

lemma prints_point0: "prints_float point0 (of_int i)"
proof -
  have "jnum (str_of_int i @ ''.0'' @ r) = Some (PFloat (of_int i), r)" if "value_stop r" for r
    using junsigned_point0 [OF that] by (simp add: str_of_int_def jnum_nat)
  then show ?thesis using number_head_int [of i "''.0''"] str_of_int_chars [of i]
    by (simp add: prints_float_def point0_def list_all_iff) (auto simp: code_def)
qed

text \<open>The values that survive: encodable, every dictionary with distinct keys, every float printed well.\<close>

fun json_plain :: "(pyfloat \<Rightarrow> string) \<Rightarrow> pyval \<Rightarrow> bool" where
  "json_plain sf (PFloat x) = prints_float sf x"
| "json_plain sf (PList xs) = list_all (json_plain sf) xs"
| "json_plain sf (PDict d) = (dict_wf d \<and> list_all (\<lambda>(k, v). json_plain sf v) d)"
| "json_plain sf (PObj s) = False"
| "json_plain sf v = True"

lemma number_head_ok: "number_head s \<Longrightarrow> \<exists>c r. s = c # r \<and> \<not> json_space c \<and> c \<noteq> CHR '']'' \<and> c \<noteq> CHR 0x7D"
proof -
  assume "number_head s"
  then obtain c r where c: "s = c # r" "is_digit c \<or> c = CHR ''-''" by (auto simp: number_head_def split: list.splits)
  moreover have "\<not> is_digit (CHR '' '')" "\<not> is_digit (CHR 0x09)" "\<not> is_digit (CHR 0x0A)" "\<not> is_digit (CHR 0x0D)"
    "\<not> is_digit (CHR '']'')" "\<not> is_digit (CHR 0x7D)" by (simp_all add: is_digit_def code_def)
  ultimately show ?thesis by (auto simp: json_space_def)
qed

lemma dump_head: "json_plain sf v \<Longrightarrow> \<exists>c r. json_dumps sf v = c # r \<and> \<not> json_space c \<and> c \<noteq> CHR '']'' \<and> c \<noteq> CHR 0x7D"
proof (cases v)
  case (PInt i)
  then show ?thesis using number_head_ok [OF number_head_int [of i "[]"]] by simp
next
  case (PFloat x)
  assume "json_plain sf v"
  then show ?thesis using PFloat number_head_ok by (simp add: prints_float_def)
qed (simp_all add: json_space_def json_str_def)

lemma jws_dump [simp]: "json_plain sf v \<Longrightarrow> jws (json_dumps sf v @ r) = json_dumps sf v @ r"
  using dump_head [of sf v] by auto

definition reads :: "(pyfloat \<Rightarrow> string) \<Rightarrow> pyval \<Rightarrow> bool" where
  "reads sf v \<longleftrightarrow> (\<forall>n r. 2 * length (json_dumps sf v) \<le> n \<longrightarrow> value_stop r \<longrightarrow> jval n (json_dumps sf v @ r) = Some (v, r))"

lemma readsD: "reads sf v \<Longrightarrow> 2 * length (json_dumps sf v) \<le> n \<Longrightarrow> value_stop r \<Longrightarrow> jval n (json_dumps sf v @ r) = Some (v, r)"
  by (simp add: reads_def)

lemma readsI:
  "json_dumps sf v \<noteq> [] \<Longrightarrow> (\<And>n r. 2 * length (json_dumps sf v) \<le> Suc n \<Longrightarrow> value_stop r \<Longrightarrow>
     jval (Suc n) (json_dumps sf v @ r) = Some (v, r)) \<Longrightarrow> reads sf v"
proof -
  assume a: "json_dumps sf v \<noteq> []" "\<And>n r. 2 * length (json_dumps sf v) \<le> Suc n \<Longrightarrow> value_stop r \<Longrightarrow>
      jval (Suc n) (json_dumps sf v @ r) = Some (v, r)"
  have "jval n (json_dumps sf v @ r) = Some (v, r)" if "2 * length (json_dumps sf v) \<le> n" "value_stop r" for n r
    using that a by (cases n) simp_all
  then show ?thesis by (simp add: reads_def)
qed

lemma elems_back:
  "xs \<noteq> [] \<Longrightarrow> list_all (reads sf) xs \<Longrightarrow> list_all (json_plain sf) xs \<Longrightarrow>
   2 * length (join_str '', '' (map (json_dumps sf) xs)) + 1 \<le> n \<Longrightarrow>
   jelems n (join_str '', '' (map (json_dumps sf) xs) @ CHR '']'' # r) = Some (xs, r)"
proof (induction xs arbitrary: n)
  case (Cons x xs)
  then obtain m where n: "n = Suc m" by (cases n) auto
  show ?case
  proof (cases xs)
    case Nil
    with Cons.prems n readsD [of sf x m "CHR '']'' # r"] show ?thesis by (simp add: jelems_Suc startswith_def json_space_def)
  next
    case (Cons y ys)
    let ?t = "join_str '', '' (map (json_dumps sf) xs) @ CHR '']'' # r"
    have t: "jws ?t = ?t" using dump_head [of sf y] Cons.prems(3) Cons by (cases ys) auto
    have "jval m (json_dumps sf x @ '', '' @ ?t) = Some (x, '', '' @ ?t)"
      using Cons.prems(2,4) n Cons by (intro readsD) simp_all
    moreover have "jelems m ?t = Some (xs, r)" using Cons.prems n Cons by (intro Cons.IH) simp_all
    ultimately show ?thesis using n Cons t by (simp add: jelems_Suc startswith_def json_space_def)
  qed
qed simp

lemma members_back:
  "d \<noteq> [] \<Longrightarrow> list_all (\<lambda>(k, v). reads sf v \<and> json_plain sf v) d \<Longrightarrow>
   2 * length (join_str '', '' (map (\<lambda>(k, v). json_str k @ '': '' @ json_dumps sf v) d)) + 1 \<le> n \<Longrightarrow>
   jmembers n (join_str '', '' (map (\<lambda>(k, v). json_str k @ '': '' @ json_dumps sf v) d) @ CHR 0x7D # r) = Some (d, r)"
proof (induction d arbitrary: n)
  case (Cons e d)
  obtain k v where e: "e = (k, v)" by (cases e)
  obtain m where n: "n = Suc m" using Cons.prems by (cases n) auto
  have s: "jstr (concat (map json_char k) @ CHR 0x22 # t) = Some (k, t)" for t by (rule jstr_chars)
  show ?case
  proof (cases d)
    case Nil
    with Cons.prems n e readsD [of sf v m "CHR 0x7D # r"] s show ?thesis
      by (simp add: jmembers_Suc startswith_def json_space_def json_str_def)
  next
    case (Cons f ds)
    let ?t = "join_str '', '' (map (\<lambda>(k, v). json_str k @ '': '' @ json_dumps sf v) d) @ CHR 0x7D # r"
    obtain t' where t': "?t = CHR 0x22 # t'" using Cons by (cases f; cases ds) (auto simp: json_str_def)
    then have t: "jws ?t = ?t" by (simp add: json_space_def)
    have "jval m (json_dumps sf v @ '', '' @ ?t) = Some (v, '', '' @ ?t)"
      using Cons.prems(2,3) n Cons e by (intro readsD) simp_all
    moreover have "jmembers m ?t = Some (d, r)" using Cons.prems n Cons e by (intro Cons.IH) (simp_all add: json_str_def)
    ultimately show ?thesis using n Cons t e s Cons.prems(2)
      by (simp add: jmembers_Suc startswith_def json_space_def json_str_def)
  qed
qed simp

lemma dumps_read: "json_plain sf v \<Longrightarrow> reads sf v"
proof (induction v)
  case (PInt i)
  have "str_of_int i \<noteq> []" using number_head_int [of i "[]"] by (auto simp: number_head_def)
  then show ?case using jval_int by (intro readsI) simp_all
next
  case (PFloat x)
  then have x: "number_head (sf x)" "\<And>r. value_stop r \<Longrightarrow> jnum (sf x @ r) = Some (PFloat x, r)"
    by (simp_all add: prints_float_def)
  then have "number_head (sf x @ r)" "sf x \<noteq> []" for r by (auto simp: number_head_def split: list.splits)
  with x show ?case using jval_number by (intro readsI) simp_all
next
  case (PStr s)
  show ?case by (intro readsI) (simp_all add: json_str_def jval_Suc jstr_chars)
next
  case (PList xs)
  have all: "list_all (reads sf) xs" "list_all (json_plain sf) xs" using PList by (auto simp: list_all_iff)
  have "jval (Suc n) (json_dumps sf (PList xs) @ r) = Some (PList xs, r)"
    if len: "2 * length (json_dumps sf (PList xs)) \<le> Suc n" for n r
  proof (cases xs)
    case Nil
    then show ?thesis by (simp add: jval_Suc startswith_def json_space_def)
  next
    case (Cons y ys)
    let ?t = "join_str '', '' (map (json_dumps sf) xs) @ CHR '']'' # r"
    obtain c t' where c: "?t = c # t'" "\<not> json_space c" "c \<noteq> CHR '']''"
      using dump_head [of sf y] all(2) Cons by (cases ys) auto
    have "jelems n ?t = Some (xs, r)" using len Cons all by (intro elems_back) simp_all
    with c show ?thesis by (simp add: jval_Suc startswith_def)
  qed
  then show ?case by (intro readsI) simp_all
next
  case (PDict d)
  have all: "list_all (\<lambda>(k, v). reads sf v \<and> json_plain sf v) d" and wf: "dict_wf d"
    using PDict by (auto simp: list_all_iff)
  have "jval (Suc n) (json_dumps sf (PDict d) @ r) = Some (PDict d, r)"
    if len: "2 * length (json_dumps sf (PDict d)) \<le> Suc n" for n r
  proof (cases d)
    case Nil
    then show ?thesis by (simp add: jval_Suc startswith_def json_space_def)
  next
    case (Cons e es)
    let ?t = "join_str '', '' (map (\<lambda>(k, v). json_str k @ '': '' @ json_dumps sf v) d) @ CHR 0x7D # r"
    obtain t' where c: "?t = CHR 0x22 # t'" using Cons by (cases e; cases es) (auto simp: json_str_def)
    have "jmembers n ?t = Some (d, r)" using len Cons all by (intro members_back) simp_all
    moreover have "dmerge [] d = d" using dmerge_fresh [of "[]" d] wf by (simp add: dict_wf_def)
    ultimately show ?thesis using c by (simp add: jval_Suc startswith_def json_space_def)
  qed
  then show ?case by (intro readsI) simp_all
qed (auto simp: jval_Suc jscalar_def startswith_def intro!: readsI split: if_splits)

lemma json_roundtrip: "json_plain sf v \<Longrightarrow> json_loads (json_dumps sf v) = Some v"
  using readsD [OF dumps_read, of sf v "2 * length (json_dumps sf v) + 2" "[]"] jws_dump [of sf v "[]"]
  by (simp add: json_loads_def)

section \<open>Files of one document per line\<close>

text \<open>Text mode reads the three line endings as one; blank lines are skipped by every reader.\<close>

fun universal_newlines :: "string \<Rightarrow> string" where
  "universal_newlines [] = []"
| "universal_newlines (c # r) =
     (if c = CHR 0x0D then CHR 0x0A # universal_newlines (if startswith r [CHR 0x0A] then drop 1 r else r)
      else c # universal_newlines r)"

definition file_lines :: "string \<Rightarrow> string list" where
  "file_lines s = filter (\<lambda>l. l \<noteq> []) (map str_strip (split_char (CHR 0x0A) (universal_newlines s)))"

definition json_line :: "(pyfloat \<Rightarrow> string) \<Rightarrow> pyval \<Rightarrow> string" where
  "json_line sf v = json_dumps sf v @ [CHR 0x0A]"

text \<open>One line of text that is read back as written: no line break, no space at its ends.\<close>

definition one_line :: "string \<Rightarrow> bool" where
  "one_line s \<longleftrightarrow> CHR 0x0A \<notin> set s \<and> CHR 0x0D \<notin> set s \<and> s \<noteq> [] \<and> \<not> is_space (hd s) \<and> \<not> is_space (last s)"

lemma one_line_strip: "one_line s \<Longrightarrow> str_strip s = s"
  unfolding str_strip_def by (intro strip_chars_id) (auto simp: one_line_def)

lemma universal_newlines_line:
  "CHR 0x0D \<notin> set s \<Longrightarrow> universal_newlines (s @ CHR 0x0A # r) = s @ CHR 0x0A # universal_newlines r"
  by (induction s) auto

lemma file_lines_back: "list_all one_line ls \<Longrightarrow> file_lines (concat (map (\<lambda>l. l @ [CHR 0x0A]) ls)) = ls"
proof (induction ls)
  case Nil
  then show ?case by (simp add: file_lines_def str_strip_def strip_chars_def lstrip_chars_def rstrip_chars_def)
next
  case (Cons l ls)
  then have "split_char (CHR 0x0A) (universal_newlines (concat (map (\<lambda>l. l @ [CHR 0x0A]) (l # ls)))) =
      l # split_char (CHR 0x0A) (universal_newlines (concat (map (\<lambda>l. l @ [CHR 0x0A]) ls)))"
    by (simp add: one_line_def universal_newlines_line split_char_append)
  with Cons show ?case by (simp add: file_lines_def one_line_strip) (simp add: one_line_def)
qed

lemma set_join_str: "set (join_str sep ss) \<subseteq> set sep \<union> \<Union> (set (map set ss))"
  by (induction sep ss rule: join_str.induct) auto

lemma json_dumps_printable: "json_plain sf v \<Longrightarrow> c \<in> set (json_dumps sf v) \<Longrightarrow> 32 \<le> code c"
proof (induction v)
  case (PInt i)
  then show ?case using str_of_int_chars [of i] by (auto simp: list_all_iff)
next
  case (PStr s)
  then show ?case using json_char_plain [of c] by (auto simp: json_str_def) (simp_all add: code_def)
next
  case (PList xs)
  have "c \<in> set ''[, ]'' \<or> (\<exists>x\<in>set xs. c \<in> set (json_dumps sf x))"
    using PList.prems(2) set_join_str [of "'', ''" "map (json_dumps sf) xs"] by auto
  then show ?case using PList.IH PList.prems(1) by (auto simp: list_all_iff) (simp_all add: code_def)
next
  case (PDict d)
  have "c \<in> {CHR 0x7B, CHR 0x7D, CHR '','', CHR '' '', CHR '':''} \<or>
      (\<exists>(k, v)\<in>set d. c \<in> set (json_str k) \<or> c \<in> set (json_dumps sf v))"
    using PDict.prems(2) set_join_str [of "'', ''" "map (\<lambda>(k, v). json_str k @ '': '' @ json_dumps sf v) d"] by fastforce
  moreover have "32 \<le> code c" if "c \<in> set (json_str k)" for k
    using that json_char_plain [of c] by (auto simp: json_str_def) (simp_all add: code_def)
  ultimately show ?case using PDict.IH PDict.prems(1) by (auto simp: list_all_iff) (auto simp: code_def)
qed (auto simp: prints_float_def list_all_iff code_def split: if_splits)

lemma dict_one_line: "json_plain sf (PDict d) \<Longrightarrow> one_line (json_dumps sf (PDict d))"
proof -
  assume p: "json_plain sf (PDict d)"
  have "CHR 0x0A \<notin> set (json_dumps sf (PDict d))" "CHR 0x0D \<notin> set (json_dumps sf (PDict d))"
    using json_dumps_printable [OF p, of "CHR 0x0A"] json_dumps_printable [OF p, of "CHR 0x0D"] by (auto simp: code_def)
  then show ?thesis by (simp add: one_line_def is_space_def code_def del: set_append)
qed

text \<open>A file of printed dictionaries, one per line, decodes line by line to what was printed.\<close>

lemma json_lines_back:
  "list_all (\<lambda>d. json_plain sf (PDict d)) ds \<Longrightarrow>
   map json_loads (file_lines (concat (map (\<lambda>d. json_line sf (PDict d)) ds))) = map (Some \<circ> PDict) ds"
proof -
  assume p: "list_all (\<lambda>d. json_plain sf (PDict d)) ds"
  then have "list_all one_line (map (\<lambda>d. json_dumps sf (PDict d)) ds)"
    by (auto simp: list_all_iff simp del: json_dumps.simps intro: dict_one_line)
  from file_lines_back [OF this]
  have "file_lines (concat (map (\<lambda>d. json_line sf (PDict d)) ds)) = map (\<lambda>d. json_dumps sf (PDict d)) ds"
    by (simp add: json_line_def comp_def del: json_dumps.simps)
  then show ?thesis using p by (simp add: list_all_iff json_roundtrip comp_def del: json_dumps.simps json_plain.simps)
qed

end
