(* ===== verification/Recollection.thy ===== *)
theory Recollection
  imports Json_Parse Memory
begin

text \<open>
  \<open>intelligence/memory.py\<close>: working memory, the episodic log as the text of its file, procedural
  memory, and the coordinator that retrieves over all stores and consolidates them. Episodes are
  written and decoded as text; the other stores are those of \<open>buster/memory\<close>. The clock is an argument.
\<close>

section \<open>Working memory\<close>

record working_item =
  wi_key :: string
  wi_content :: pyval
  wi_ts :: pyfloat
  wi_ttl :: pyfloat

record working =
  wo_items :: "working_item list"
  wo_capacity :: nat
  wo_ttl :: pyfloat

definition new_working :: "nat \<Rightarrow> pyfloat \<Rightarrow> working" where
  "new_working capacity ttl = \<lparr>wo_items = [], wo_capacity = capacity, wo_ttl = ttl\<rparr>"

definition item_expired :: "pyfloat \<Rightarrow> working_item \<Rightarrow> bool" where
  "item_expired now i \<longleftrightarrow> wi_ttl i < now - wi_ts i"

text \<open>A ttl of 0 is the default one.\<close>

definition work_put :: "pyfloat \<Rightarrow> string \<Rightarrow> pyval \<Rightarrow> pyfloat option \<Rightarrow> working \<Rightarrow> working" where
  "work_put now k content ttl w =
     w\<lparr>wo_items := deque_push (wo_capacity w)
        \<lparr>wi_key = k, wi_content = content, wi_ts = now,
         wi_ttl = (case ttl of None \<Rightarrow> wo_ttl w | Some t \<Rightarrow> if t = 0 then wo_ttl w else t)\<rparr> (wo_items w)\<rparr>"

definition work_get :: "pyfloat \<Rightarrow> string \<Rightarrow> pyval \<Rightarrow> working \<Rightarrow> pyval" where
  "work_get now k dflt w =
     (case find (\<lambda>i. wi_key i = k \<and> \<not> item_expired now i) (wo_items w) of
        None \<Rightarrow> dflt
      | Some i \<Rightarrow> wi_content i)"

definition work_context :: "pyfloat \<Rightarrow> int \<Rightarrow> working \<Rightarrow> working_item list" where
  "work_context now limit w = filter (\<lambda>i. \<not> item_expired now i) (slice_last limit (wo_items w))"

definition work_prune :: "pyfloat \<Rightarrow> working \<Rightarrow> nat \<times> working" where
  "work_prune now w =
     (let kept = filter (\<lambda>i. \<not> item_expired now i) (wo_items w)
      in (length (wo_items w) - length kept, w\<lparr>wo_items := kept\<rparr>))"

section \<open>Episodic memory\<close>

record episodic =
  ep_file :: "string option"
  ep_capacity :: int

definition new_episodic :: "int \<Rightarrow> episodic" where
  "new_episodic capacity = \<lparr>ep_file = None, ep_capacity = capacity\<rparr>"

definition ep_text :: "episodic \<Rightarrow> string" where
  "ep_text ep = (case ep_file ep of None \<Rightarrow> [] | Some t \<Rightarrow> t)"

definition ep_read :: "episodic \<Rightarrow> pyval list" where
  "ep_read ep = List.map_filter json_loads (file_lines (ep_text ep))"

text \<open>
  Trimming writes the kept rows again. A row of a foreign file that holds NaN or an infinity, which the
  store itself never writes, is outside the model here: the opaque value is printed as text.
\<close>

definition ep_trim :: "(pyfloat \<Rightarrow> string) \<Rightarrow> episodic \<Rightarrow> episodic" where
  "ep_trim sf ep =
     (let es = ep_read ep
      in if int (length es) \<le> ep_capacity ep then ep
         else ep\<lparr>ep_file := Some (concat (map (json_line sf) (slice_last (ep_capacity ep) es)))\<rparr>)"

definition episode_row :: "pyfloat \<Rightarrow> string \<Rightarrow> string \<Rightarrow> string \<Rightarrow> string option \<Rightarrow> pyval list \<Rightarrow> pyval sdict \<Rightarrow> pyval sdict" where
  "episode_row now title kind summary outcome links detail =
     [(''ts'', PFloat now), (''title'', PStr title), (''kind'', PStr kind), (''summary'', PStr summary),
      (''outcome'', of_ostr outcome), (''links'', PList links), (''detail'', PDict detail)]"

definition ep_record :: "(pyfloat \<Rightarrow> string) \<Rightarrow> pyval sdict \<Rightarrow> episodic \<Rightarrow> unit result \<times> episodic" where
  "ep_record sf row ep =
     (if json_ok (PDict row) then (Inr (), ep_trim sf (ep\<lparr>ep_file := Some (ep_text ep @ json_line sf (PDict row))\<rparr>))
      else (Inl json_type_error, ep\<lparr>ep_file := Some (ep_text ep)\<rparr>))"

text \<open>
  Recall asks every row for its time stamp: a row that is no object raises, and so do two rows whose
  time stamps do not compare (here: that are no numbers).
\<close>

definition as_dict :: "pyval \<Rightarrow> pyval sdict result" where
  "as_dict v = (case v of PDict d \<Rightarrow> Inr d | _ \<Rightarrow> Inl (Exc ''AttributeError'' ''object has no attribute get''))"

fun try_map :: "('a \<Rightarrow> 'b result) \<Rightarrow> 'a list \<Rightarrow> 'b list result" where
  "try_map f [] = Inr []"
| "try_map f (x # xs) =
     (case f x of
        Inl e \<Rightarrow> Inl e
      | Inr y \<Rightarrow> (case try_map f xs of Inl e \<Rightarrow> Inl e | Inr ys \<Rightarrow> Inr (y # ys)))"

definition row_ts :: "pyval sdict \<Rightarrow> pyval" where
  "row_ts d = dgetd d ''ts'' (PInt 0)"

definition ep_recall :: "int \<Rightarrow> string option \<Rightarrow> episodic \<Rightarrow> pyval sdict list result" where
  "ep_recall limit kind ep =
     (case try_map as_dict (ep_read ep) of
        Inl e \<Rightarrow> Inl e
      | Inr ds \<Rightarrow>
          (let es = (case kind of None \<Rightarrow> ds
                     | Some k \<Rightarrow> if k = [] then ds else filter (\<lambda>d. dgetd d ''kind'' PNone = PStr k) ds)
           in if 1 < length es \<and> list_ex (\<lambda>d. py_number (row_ts d) = None) es
              then Inl (Exc ''TypeError'' ''time stamps do not compare'')
              else Inr (slice_last limit (sort_key (\<lambda>d. case py_number (row_ts d) of Some x \<Rightarrow> x | None \<Rightarrow> 0) es))))"

definition ep_stats :: "episodic \<Rightarrow> (nat \<times> (pyval \<times> nat) list) result" where
  "ep_stats ep =
     map_sum id (\<lambda>ds. (length ds, foldl (\<lambda>acc d. let k = dgetd d ''kind'' (PStr ''episode'')
        in dput k ((case dget acc k of None \<Rightarrow> 0 | Some n \<Rightarrow> n) + 1) acc) [] ds)) (try_map as_dict (ep_read ep))"

section \<open>Procedural memory\<close>

record recipe =
  rp_name :: string
  rp_steps :: "string list"
  rp_uses :: int
  rp_successes :: int
  rp_created :: pyfloat
  rp_updated :: pyfloat

record procedural =
  pm_recipes :: "recipe sdict"
  pm_disk :: "recipe list disk"

definition reliability :: "recipe \<Rightarrow> pyfloat" where
  "reliability r = (if rp_uses r = 0 then 0 else of_int (rp_successes r) / of_int (rp_uses r))"

definition pm_save :: "bool \<Rightarrow> procedural \<Rightarrow> unit result \<times> procedural" where
  "pm_save ok p = (let (r, d) = write_json ok (\<lambda>_. True) (dvals (pm_recipes p)) (pm_disk p) in (r, p\<lparr>pm_disk := d\<rparr>))"

definition pm_load :: "recipe list disk \<Rightarrow> procedural" where
  "pm_load d = \<lparr>pm_recipes = foldl (\<lambda>acc r. dput (rp_name r) r acc) [] (read_json [] d), pm_disk = d\<rparr>"

definition learn_recipe :: "bool \<Rightarrow> pyfloat \<Rightarrow> string \<Rightarrow> string list \<Rightarrow> procedural \<Rightarrow> unit result \<times> procedural" where
  "learn_recipe ok now name steps p =
     pm_save ok (p\<lparr>pm_recipes := dput name \<lparr>rp_name = name, rp_steps = steps, rp_uses = 0, rp_successes = 0,
        rp_created = now, rp_updated = now\<rparr> (pm_recipes p)\<rparr>)"

definition use_recipe :: "pyfloat \<Rightarrow> bool \<Rightarrow> recipe \<Rightarrow> recipe" where
  "use_recipe now success r =
     r\<lparr>rp_uses := rp_uses r + 1, rp_successes := (if success then rp_successes r + 1 else rp_successes r), rp_updated := now\<rparr>"

definition record_use :: "bool \<Rightarrow> pyfloat \<Rightarrow> string \<Rightarrow> bool \<Rightarrow> procedural \<Rightarrow> unit result \<times> procedural" where
  "record_use ok now name success p =
     (case dget (pm_recipes p) name of
        None \<Rightarrow> (Inr (), p)
      | Some r \<Rightarrow> pm_save ok (p\<lparr>pm_recipes := dput name (use_recipe now success r) (pm_recipes p)\<rparr>))"

definition recipe_rows :: "procedural \<Rightarrow> (string \<times> string list \<times> int \<times> int \<times> pyfloat) list" where
  "recipe_rows p = map (\<lambda>r. (rp_name r, rp_steps r, rp_uses r, rp_successes r, py_round 3 (reliability r))) (dvals (pm_recipes p))"

section \<open>Retrieval\<close>

record coordinator =
  mc_working :: working
  mc_episodic :: episodic
  mc_procedural :: procedural
  mc_knowledge :: "knowledge option"
  mc_experience :: "experience option"
  mc_store :: "memory option"

definition new_coordinator :: "string option \<Rightarrow> recipe list disk \<Rightarrow> knowledge option \<Rightarrow> experience option \<Rightarrow> memory option \<Rightarrow> coordinator" where
  "new_coordinator episodes recipes kn ex store =
     \<lparr>mc_working = new_working 48 600, mc_episodic = \<lparr>ep_file = episodes, ep_capacity = 2000\<rparr>,
      mc_procedural = pm_load recipes, mc_knowledge = kn, mc_experience = ex, mc_store = store\<rparr>"

record memory_hit =
  mh_store :: string
  mh_score :: pyfloat
  mh_key :: pyval
  mh_content :: pyval
  mh_ts :: pyval

definition query_tokens :: "string \<Rightarrow> string list" where
  "query_tokens q = filter (\<lambda>w. 2 < length w) (str_words (str_lower q))"

definition overlap :: "string list \<Rightarrow> string \<Rightarrow> bool" where
  "overlap tokens blob \<longleftrightarrow> list_ex (contains blob) tokens"

text \<open>A candidate: the text that is searched, and the hit it makes when a token occurs in it.\<close>

type_synonym candidate = "string \<times> memory_hit"

definition working_candidate :: "(pyfloat \<Rightarrow> string) \<Rightarrow> working_item \<Rightarrow> candidate" where
  "working_candidate sf i = (str_lower (wi_key i @ '' '' @ py_str sf (wi_content i)),
     \<lparr>mh_store = ''working'', mh_score = 4, mh_key = PStr (wi_key i), mh_content = wi_content i, mh_ts = PFloat (wi_ts i)\<rparr>)"

definition key_error :: "string \<Rightarrow> exc" where
  "key_error k = Exc ''KeyError'' (repr_str k)"

text \<open>A row without a title raises; one without a time stamp raises only when it is a hit.\<close>

definition episodic_candidate :: "(pyfloat \<Rightarrow> string) \<Rightarrow> string list \<Rightarrow> pyval sdict \<Rightarrow> candidate result" where
  "episodic_candidate sf tokens d =
     (case dget d ''title'' of
        None \<Rightarrow> Inl (key_error ''title'')
      | Some t \<Rightarrow>
          (let blob = str_lower (py_str sf t @ '' '' @ py_str sf (dgetd d ''summary'' (PStr [])))
           in if overlap tokens blob \<and> dget d ''ts'' = None then Inl (key_error ''ts'')
              else Inr (blob, \<lparr>mh_store = ''episodic'', mh_score = 3, mh_key = t,
                mh_content = dgetd d ''summary'' (PStr []), mh_ts = dgetd d ''ts'' PNone\<rparr>)))"

definition knowledge_candidate :: "(pyfloat \<Rightarrow> string) \<Rightarrow> knowledge_entry \<Rightarrow> candidate" where
  "knowledge_candidate sf e = (str_lower (kn_key e @ '' '' @ py_str sf (kn_value e)),
     \<lparr>mh_store = ''knowledge'', mh_score = 3 + kn_confidence e, mh_key = PStr (kn_key e), mh_content = kn_value e,
      mh_ts = PFloat (kn_updated e)\<rparr>)"

definition experience_candidate :: "(pyfloat \<Rightarrow> string) \<Rightarrow> exp_row \<Rightarrow> candidate" where
  "experience_candidate sf e = (str_lower (py_str sf (dgetd e ''target'' (PStr []))),
     \<lparr>mh_store = ''experience'', mh_score = 2, mh_key = dgetd e ''target'' (PStr []),
      mh_content = dgetd e ''status'' (PStr []), mh_ts = dgetd e ''ts'' (PInt 0)\<rparr>)"

definition recipe_candidate :: "string \<times> string list \<times> int \<times> int \<times> pyfloat \<Rightarrow> candidate" where
  "recipe_candidate r =
     (let (name, steps, uses, succ, rel) = r
      in (str_lower (name @ '' '' @ join_str '' '' steps),
          \<lparr>mh_store = ''procedural'', mh_score = 2 + rel, mh_key = PStr name, mh_content = PList (map PStr steps), mh_ts = PInt 0\<rparr>))"

definition candidates :: "(pyfloat \<Rightarrow> string) \<Rightarrow> pyfloat \<Rightarrow> string list \<Rightarrow> coordinator \<Rightarrow> candidate list result" where
  "candidates sf now tokens mc =
     (case ep_recall 30 None (mc_episodic mc) of
        Inl e \<Rightarrow> Inl e
      | Inr rows \<Rightarrow>
          (case try_map (episodic_candidate sf tokens) rows of
             Inl e \<Rightarrow> Inl e
           | Inr eps \<Rightarrow>
               (let kns = (case mc_knowledge mc of None \<Rightarrow> []
                           | Some k \<Rightarrow> map (knowledge_candidate sf) (kn_search [] (Some 40) k))
                in case (case mc_experience mc of None \<Rightarrow> Inr [] | Some x \<Rightarrow> ex_recall (Some 30) x) of
                     Inl e \<Rightarrow> Inl e
                   | Inr xs \<Rightarrow> Inr (map (working_candidate sf) (work_context now 20 (mc_working mc)) @ eps @ kns @
                       map (experience_candidate sf) xs @ map recipe_candidate (recipe_rows (mc_procedural mc))))))"

definition retrieve :: "(pyfloat \<Rightarrow> string) \<Rightarrow> pyfloat \<Rightarrow> string \<Rightarrow> int \<Rightarrow> coordinator \<Rightarrow> memory_hit list result" where
  "retrieve sf now query limit mc =
     (let tokens = query_tokens query
      in map_sum id (\<lambda>cs. slice_first limit (sort_desc mh_score (map snd (filter (\<lambda>(blob, h). overlap tokens blob) cs))))
           (candidates sf now tokens mc))"

section \<open>Consolidation\<close>

record consolidation =
  co_working_pruned :: nat
  co_episodic_summaries :: nat
  co_lessons_promoted :: nat
  co_duplicates_merged :: nat
  co_contradictions :: nat
  co_pruned_knowledge :: nat
  co_expired_store :: nat

text \<open>\<open>seen.setdefault(target, []).append(entry)\<close>\<close>

definition bucket_add :: "string \<Rightarrow> exp_row \<Rightarrow> exp_row list sdict \<Rightarrow> exp_row list sdict" where
  "bucket_add t e d = dput t (dgetd d t [] @ [e]) d"

fun by_target :: "exp_row list \<Rightarrow> exp_row list sdict \<Rightarrow> exp_row list sdict result" where
  "by_target [] d = Inr d"
| "by_target (e # es) d =
     (case str_slice 60 (dgetd e ''target'' (PStr [])) of
        Inl x \<Rightarrow> Inl x
      | Inr t \<Rightarrow> by_target es (if t = [] then d else bucket_add t e d))"

definition with_status :: "string \<Rightarrow> exp_row list \<Rightarrow> nat" where
  "with_status s es = length (filter (\<lambda>e. dgetd e ''status'' PNone = PStr s) es)"

definition summary_row :: "pyfloat \<Rightarrow> string \<Rightarrow> exp_row list \<Rightarrow> pyval sdict" where
  "summary_row now t es =
     episode_row now (''summary:'' @ t) ''summary''
       (str_of_nat (length es) @ '' runs ('' @ str_of_nat (with_status ''done'' es) @ '' done, '' @
        str_of_nat (with_status ''failed'' es) @ '' failed)'')
       (Some (if with_status ''failed'' es = 0 then ''done'' else ''mixed'')) []
       [(''target'', PStr t), (''runs'', PInt (int (length es)))]"

fun summarise :: "(pyfloat \<Rightarrow> string) \<Rightarrow> pyfloat \<Rightarrow> nat \<Rightarrow> exp_row list sdict \<Rightarrow> nat \<Rightarrow> episodic \<Rightarrow> nat result \<times> episodic" where
  "summarise sf now most [] n ep = (Inr n, ep)"
| "summarise sf now most ((t, es) # rest) n ep =
     (if most \<le> n then (Inr n, ep)
      else if length es < 2 then summarise sf now most rest n ep
      else (case ep_record sf (summary_row now t es) ep of
              (Inl x, ep') \<Rightarrow> (Inl x, ep')
            | (Inr _, ep') \<Rightarrow> summarise sf now most rest (n + 1) ep'))"

definition low_value :: "pyfloat \<Rightarrow> string \<times> knowledge_entry \<Rightarrow> bool" where
  "low_value now e \<longleftrightarrow> 30 * 86400 < now - kn_updated (snd e) \<and>
     (startswith (fst e) ''goal_seen:'' \<and> kn_confidence (snd e) < 4 / 10 \<or>
      startswith (fst e) ''avoid_repeat:'' \<and> kn_confidence (snd e) < 3 / 10)"

definition prune_knowledge :: "bool \<Rightarrow> pyfloat \<Rightarrow> knowledge \<Rightarrow> nat result \<times> knowledge" where
  "prune_knowledge ok now k =
     (let gone = dkeys (filter (low_value now) (kn_entries k));
          k1 = k\<lparr>kn_entries := fold ddel gone (kn_entries k)\<rparr>
      in if gone = [] then (Inr 0, k1)
         else (let (r, k2) = kn_save ok k1 in (map_sum id (\<lambda>_. length gone) r, k2)))"

text \<open>
  Contradictions: the recent failures by target, as the source collects them, so that its test for a
  success among them never finds one.
\<close>

fun failures_by_target :: "exp_row list \<Rightarrow> exp_row list sdict \<Rightarrow> exp_row list sdict result" where
  "failures_by_target [] d = Inr d"
| "failures_by_target (e # es) d =
     (let target = py_or (dgetd e ''target'' (PStr [])) (PStr []) in
      if dgetd e ''status'' PNone = PStr ''failed'' \<and> truthy target then
        (case str_slice 60 target of
           Inl x \<Rightarrow> Inl x
         | Inr t \<Rightarrow> failures_by_target es (bucket_add t e d))
      else failures_by_target es d)"

definition pattern_target :: "string \<Rightarrow> string" where
  "pattern_target k = take 60 (case partition_char (CHR '':'') k of (a, True, b) \<Rightarrow> b | (a, False, b) \<Rightarrow> k)"

definition note_contradiction :: "bool \<Rightarrow> pyfloat \<Rightarrow> string \<Rightarrow> knowledge \<Rightarrow> unit result \<times> knowledge" where
  "note_contradiction ok now t =
     kn_learn ok now (''contradiction:'' @ take 50 t) (PStr ''learned pattern contradicts recent failures'') ''consolidation'' (9 / 10)"

fun contradict :: "bool \<Rightarrow> pyfloat \<Rightarrow> exp_row list sdict \<Rightarrow> knowledge_entry list \<Rightarrow> nat \<Rightarrow> knowledge \<Rightarrow> nat result \<times> knowledge" where
  "contradict ok now failed [] n k = (Inr n, k)"
| "contradict ok now failed (e # es) n k =
     (let t = pattern_target (kn_key e); fs = dgetd failed t [] in
      if fs \<noteq> [] \<and> \<not> list_ex (\<lambda>r. dgetd r ''status'' PNone = PStr ''done'') fs then
        (case note_contradiction ok now t k of
           (Inl x, k') \<Rightarrow> (Inl x, k')
         | (Inr _, k') \<Rightarrow> contradict ok now failed es (n + 1) k')
      else contradict ok now failed es n k)"

definition find_contradictions :: "bool \<Rightarrow> pyfloat \<Rightarrow> experience option \<Rightarrow> knowledge \<Rightarrow> nat result \<times> knowledge" where
  "find_contradictions ok now ex k =
     (case ex of
        None \<Rightarrow> (Inr 0, k)
      | Some x \<Rightarrow>
          (case ex_recall (Some 100) x of
             Inl e \<Rightarrow> (Inl e, k)
           | Inr rows \<Rightarrow>
               (case failures_by_target rows [] of
                  Inl e \<Rightarrow> (Inl e, k)
                | Inr failed \<Rightarrow> contradict ok now failed (kn_search ''pattern:'' (Some 50) k) 0 k)))"

definition consolidate_episodes :: "(pyfloat \<Rightarrow> string) \<Rightarrow> pyfloat \<Rightarrow> nat \<Rightarrow> coordinator \<Rightarrow> nat result \<times> coordinator" where
  "consolidate_episodes sf now most mc =
     (case mc_experience mc of
        None \<Rightarrow> (Inr 0, mc)
      | Some x \<Rightarrow>
          (case ex_recall (Some 50) x of
             Inl e \<Rightarrow> (Inl e, mc)
           | Inr rows \<Rightarrow>
               (case by_target rows [] of
                  Inl e \<Rightarrow> (Inl e, mc)
                | Inr seen \<Rightarrow> (let (r, ep) = summarise sf now most seen 0 (mc_episodic mc) in (r, mc\<lparr>mc_episodic := ep\<rparr>)))))"

definition consolidate_knowledge :: "bool \<Rightarrow> pyfloat \<Rightarrow> coordinator \<Rightarrow> (nat \<times> nat \<times> nat) result \<times> coordinator" where
  "consolidate_knowledge ok now mc =
     (case mc_knowledge mc of
        None \<Rightarrow> (Inr (0, 0, 0), mc)
      | Some k \<Rightarrow>
          (let lessons = length (filter (\<lambda>e. 1 / 2 \<le> kn_confidence e) (kn_search ''lesson:'' (Some 30) k))
           in case prune_knowledge ok now k of
                (Inl e, k1) \<Rightarrow> (Inl e, mc\<lparr>mc_knowledge := Some k1\<rparr>)
              | (Inr pruned, k1) \<Rightarrow>
                  (let (r, k2) = find_contradictions ok now (mc_experience mc) k1
                   in (map_sum id (\<lambda>c. (lessons, pruned, c)) r, mc\<lparr>mc_knowledge := Some k2\<rparr>))))"

definition consolidate :: "(pyfloat \<Rightarrow> string) \<Rightarrow> bool \<Rightarrow> pyfloat \<Rightarrow> nat \<Rightarrow> coordinator \<Rightarrow> consolidation result \<times> coordinator" where
  "consolidate sf ok now most mc =
     (let (pruned, w) = work_prune now (mc_working mc);
          (r1, mc1) = consolidate_episodes sf now most (mc\<lparr>mc_working := w\<rparr>)
      in case r1 of
           Inl e \<Rightarrow> (Inl e, mc1)
         | Inr summaries \<Rightarrow>
             (case consolidate_knowledge ok now mc1 of
                (Inl e, mc2) \<Rightarrow> (Inl e, mc2)
              | (Inr (lessons, gone, contra), mc2) \<Rightarrow>
                  (let (r3, st) = (case mc_store mc2 of None \<Rightarrow> (Inr 0, None)
                        | Some m \<Rightarrow> (let (r, m') = prune_expired ok now m in (r, Some m')))
                   in (map_sum id (\<lambda>expired. \<lparr>co_working_pruned = pruned, co_episodic_summaries = summaries,
                        co_lessons_promoted = lessons, co_duplicates_merged = 0, co_contradictions = contra,
                        co_pruned_knowledge = gone, co_expired_store = expired\<rparr>) r3, mc2\<lparr>mc_store := st\<rparr>))))"

section \<open>Working memory reads the oldest value\<close>

text \<open>
  A value put under a key that working memory still holds is not what it reads: as long as the older
  item has not expired, reading the key gives the older content.
\<close>

lemma working_reads_oldest:
  assumes "\<exists>i\<in>set (wo_items w). wi_key i = k \<and> \<not> item_expired now' i" and "length (wo_items w) < wo_capacity w"
  shows "work_get now' k dflt (work_put now j v ttl w) = work_get now' k dflt w"
proof -
  have "find (\<lambda>i. wi_key i = k \<and> \<not> item_expired now' i) (xs @ ys) = find (\<lambda>i. wi_key i = k \<and> \<not> item_expired now' i) xs"
    if "\<exists>i\<in>set xs. wi_key i = k \<and> \<not> item_expired now' i" for xs ys
    using that by (induction xs) auto
  from this [OF assms(1)] show ?thesis
    using assms(2) by (simp add: work_get_def work_put_def deque.push_within)
qed

lemma working_reads_oldest_witness:
  "work_get 2 ''host'' PNone (work_put 1 ''host'' (PStr ''new'') None (work_put 0 ''host'' (PStr ''old'') None (new_working 48 600))) = PStr ''old''"
proof -
  let ?w = "work_put 0 ''host'' (PStr ''old'') None (new_working 48 600)"
  have "work_get 2 ''host'' PNone (work_put 1 ''host'' (PStr ''new'') None ?w) = work_get 2 ''host'' PNone ?w"
    by (rule working_reads_oldest) (simp_all add: work_put_def new_working_def deque_push_def item_expired_def)
  then show ?thesis by (simp add: work_put_def new_working_def deque_push_def item_expired_def work_get_def)
qed

section \<open>Episodes are read back from the text of their file\<close>

type_synonym episode = "pyfloat \<times> string \<times> string \<times> string \<times> string option \<times> pyval list \<times> pyval sdict"

fun row_of :: "episode \<Rightarrow> pyval sdict" where
  "row_of (now, title, kind, summary, outcome, links, detail) = episode_row now title kind summary outcome links detail"

definition record_all :: "(pyfloat \<Rightarrow> string) \<Rightarrow> pyval sdict list \<Rightarrow> episodic \<Rightarrow> episodic" where
  "record_all sf = fold (\<lambda>d ep. snd (ep_record sf d ep))"

text \<open>The file is the text of these rows.\<close>

definition file_of :: "(pyfloat \<Rightarrow> string) \<Rightarrow> pyval sdict list \<Rightarrow> episodic \<Rightarrow> bool" where
  "file_of sf ds ep \<longleftrightarrow> ep_text ep = concat (map (\<lambda>d. json_line sf (PDict d)) ds) \<and>
     list_all (\<lambda>d. json_plain sf (PDict d)) ds \<and> int (length ds) \<le> ep_capacity ep"

lemma json_plain_ok: "json_plain sf v \<Longrightarrow> json_ok v"
  by (induction v) (auto simp: list_all_iff)

lemma map_filter_Some: "map f xs = map (Some \<circ> g) ys \<Longrightarrow> List.map_filter f xs = map g ys"
  by (induction ys arbitrary: xs) (auto simp: map_filter_simps)

lemma read_lines_back:
  "list_all (\<lambda>d. json_plain sf (PDict d)) ds \<Longrightarrow>
   ep_read \<lparr>ep_file = Some (concat (map (\<lambda>d. json_line sf (PDict d)) ds)), ep_capacity = c\<rparr> = map PDict ds"
  using map_filter_Some [OF json_lines_back] by (simp add: ep_read_def ep_text_def del: json_plain.simps)

lemma ep_read_text: "ep_text ep = t \<Longrightarrow> ep_read ep = ep_read \<lparr>ep_file = Some t, ep_capacity = c\<rparr>"
  by (simp add: ep_read_def ep_text_def split: option.splits)

lemma file_of_read: "file_of sf ds ep \<Longrightarrow> ep_read ep = map PDict ds"
  using read_lines_back [of sf ds 0] ep_read_text [of ep _ 0] by (simp add: file_of_def)

lemma list_all_drop: "list_all P xs \<Longrightarrow> list_all P (drop n xs)"
  by (auto simp: list_all_iff dest: in_set_dropD)

lemma file_of_record:
  assumes "file_of sf ds ep" and "json_plain sf (PDict d)" and "0 < ep_capacity ep"
  shows "file_of sf (deque_push (nat (ep_capacity ep)) d ds) (snd (ep_record sf d ep)) \<and>
    ep_capacity (snd (ep_record sf d ep)) = ep_capacity ep"
proof -
  let ?ep = "ep\<lparr>ep_file := Some (ep_text ep @ json_line sf (PDict d))\<rparr>"
  have plain: "list_all (\<lambda>d. json_plain sf (PDict d)) (ds @ [d])"
    using assms(1,2) by (simp add: file_of_def del: json_plain.simps)
  have tx: "ep_text ?ep = concat (map (\<lambda>d. json_line sf (PDict d)) (ds @ [d]))"
    using assms(1) by (simp add: file_of_def ep_text_def)
  have read: "ep_read ?ep = map PDict (ds @ [d])"
    using read_lines_back [OF plain, of 0] ep_read_text [OF tx, of 0] by simp
  have ok: "json_ok (PDict d)" using assms(2) by (rule json_plain_ok)
  show ?thesis
  proof (cases "int (length (ds @ [d])) \<le> ep_capacity ep")
    case True
    then have "deque_push (nat (ep_capacity ep)) d ds = ds @ [d]" by (simp add: deque_push_def)
    with True plain tx ok read show ?thesis
      by (simp add: ep_record_def ep_trim_def Let_def file_of_def del: json_ok.simps json_plain.simps)
  next
    case False
    have "slice_last (ep_capacity ep) (map PDict (ds @ [d])) = map PDict (deque_push (nat (ep_capacity ep)) d ds)"
      using assms(3) slice_last_push [of "ep_capacity ep" "map PDict ds" "PDict d"]
      by (simp add: deque_push_def drop_map)
    moreover have "list_all (\<lambda>d. json_plain sf (PDict d)) (deque_push (nat (ep_capacity ep)) d ds)"
      unfolding deque_push_def using plain by (rule list_all_drop)
    moreover have "int (length (deque_push (nat (ep_capacity ep)) d ds)) \<le> ep_capacity ep"
      using deque.length_push [of "nat (ep_capacity ep)" d ds] assms(3) by simp
    ultimately show ?thesis using False ok read
      by (simp add: ep_record_def ep_trim_def Let_def file_of_def ep_text_def comp_def del: json_ok.simps json_plain.simps)
  qed
qed

lemma file_of_all:
  assumes "file_of sf ds ep" and "list_all (\<lambda>d. json_plain sf (PDict d)) es" and "0 < ep_capacity ep"
  shows "file_of sf (fold (deque_push (nat (ep_capacity ep))) es ds) (record_all sf es ep)"
  using assms
proof (induction es arbitrary: ds ep)
  case (Cons e es)
  have one: "file_of sf (deque_push (nat (ep_capacity ep)) e ds) (snd (ep_record sf e ep))"
    "ep_capacity (snd (ep_record sf e ep)) = ep_capacity ep"
    using file_of_record [of sf ds ep e] Cons.prems by (simp_all del: json_plain.simps)
  from Cons.IH [OF one(1)] Cons.prems one(2) show ?case by (simp add: record_all_def del: json_plain.simps)
qed (simp add: record_all_def)

lemma sorted_drop: "sorted xs \<Longrightarrow> sorted (drop n xs)"
  by (metis append_take_drop_id sorted_append)

lemma try_map_dicts: "try_map as_dict (map PDict ds) = Inr ds"
  by (induction ds) (simp_all add: as_dict_def)

text \<open>
  C25. Episodes recorded with a clock that does not run backwards are read back from the text of the
  file, by this or any later process: the newest ones up to the capacity of the log and the limit
  asked for, oldest first, with the values that were recorded.
\<close>

theorem episodic_recall_newest:
  assumes "0 < cap" and "0 < limit" and "sorted (map fst eps)"
    and "list_all (\<lambda>e. json_plain sf (PDict (row_of e))) eps"
  shows "ep_recall limit None (record_all sf (map row_of eps) (new_episodic cap)) =
    Inr (slice_last limit (slice_last cap (map row_of eps)))"
proof -
  let ?ep = "record_all sf (map row_of eps) (new_episodic cap)"
  let ?kept = "drop (length eps - nat cap) eps"
  have written: "file_of sf (fold (deque_push (nat cap)) (map row_of eps) []) ?ep"
    using file_of_all [of sf "[]" "new_episodic cap" "map row_of eps"] assms
    by (simp add: file_of_def new_episodic_def ep_text_def list_all_iff del: json_plain.simps)
  have kept: "fold (deque_push (nat cap)) (map row_of eps) [] = map row_of ?kept"
    using deque.entries_pushes [of "[]" "nat cap" "map row_of eps"] by (simp add: drop_map)
  have read: "ep_read ?ep = map PDict (map row_of ?kept)"
    using file_of_read [OF written] unfolding kept .
  have ts: "py_number (row_ts (row_of e)) = Some (fst e)" for e
    by (cases e) (simp add: row_ts_def episode_row_def dgetd_def)
  have "sorted (map (\<lambda>d. case py_number (row_ts d) of Some x \<Rightarrow> x | None \<Rightarrow> 0) (map row_of ?kept))"
    using sorted_drop [OF assms(3), of "length eps - nat cap"] by (simp add: ts comp_def drop_map)
  moreover have "\<not> list_ex (\<lambda>d. py_number (row_ts d) = None) (map row_of ?kept)"
    by (auto simp: list_ex_iff ts)
  moreover have "slice_last cap (map row_of eps) = map row_of ?kept"
    using assms(1) by (simp add: slice_last_def drop_map)
  ultimately show ?thesis
    by (simp only: ep_recall_def read try_map_dicts) (simp add: sort_key_id_if_sorted)
qed

lemma episodic_recall_newest_witness:
  "ep_recall 5 None (record_all point0 (map row_of [(1, ''a'', ''k'', [], None, [], []), (2, ''b'', ''k'', [], None, [PInt 7], [])]) (new_episodic 1)) =
    Inr (slice_last 5 (slice_last 1 (map row_of [(1, ''a'', ''k'', [], None, [], []), (2, ''b'', ''k'', [], None, [PInt 7], [])])))"
proof (rule episodic_recall_newest)
  have "prints_float point0 1" "prints_float point0 2" using prints_point0 [of 1] prints_point0 [of 2] by simp_all
  then show "list_all (\<lambda>e. json_plain point0 (PDict (row_of e)))
      [(1, ''a'', ''k'', [], None, [], []), (2, ''b'', ''k'', [], None, [PInt 7], [])]"
    by (simp add: episode_row_def dict_wf_def)
qed simp_all

section \<open>Retrieval ranks what is relevant\<close>


definition demo_memory :: coordinator where
  "demo_memory = (new_coordinator None Absent None None None)
     \<lparr>mc_working := work_put 0 ''disk usage'' (PStr ''high'') None (new_working 48 600)\<rparr>"


section \<open>Consolidation forgets only what is stale and uncertain\<close>

lemma prune_entries:
  assumes "dict_wf (kn_entries k)" and "dget (kn_entries k) j = Some e" and "\<not> low_value now (j, e)"
  shows "dget (kn_entries (snd (prune_knowledge ok now k))) j = Some e"
proof -
  have "j \<notin> set (dkeys (filter (low_value now) (kn_entries k)))"
    using assms by (auto simp: dget_iff_in [symmetric])
  then show ?thesis using assms(2)
    by (simp add: prune_knowledge_def Let_def case_prod_unfold dget_fold_del del: set_map set_filter)
qed

lemma note_contradiction_keeps:
  "kn_le (kn_entries k) (kn_entries (snd (note_contradiction ok now t k)))"
  "\<not> startswith j ''contradiction:'' \<Longrightarrow> dget (kn_entries (snd (note_contradiction ok now t k))) j = dget (kn_entries k) j"
proof -
  show "kn_le (kn_entries k) (kn_entries (snd (note_contradiction ok now t k)))"
    by (simp add: note_contradiction_def kn_learn_def kn_le_learn)
  assume "\<not> startswith j ''contradiction:''"
  then have "j \<noteq> ''contradiction:'' @ take 50 t" by (metis startswith_append)
  then show "dget (kn_entries (snd (note_contradiction ok now t k))) j = dget (kn_entries k) j"
    unfolding note_contradiction_def kn_learn_def learn_entry_def
    by (simp add: Let_def split: option.splits)
qed

lemma contradict_keeps:
  "kn_le (kn_entries k) (kn_entries (snd (contradict ok now failed es n k))) \<and>
   (\<not> startswith j ''contradiction:'' \<longrightarrow> dget (kn_entries (snd (contradict ok now failed es n k))) j = dget (kn_entries k) j)"
proof (induction es arbitrary: n k)
  case (Cons e es)
  show ?case
  proof (cases "fst (note_contradiction ok now (pattern_target (kn_key e)) k)")
    case (Inl x)
    then show ?thesis using Cons.IH note_contradiction_keeps by (simp add: Let_def case_prod_unfold)
  next
    case (Inr u)
    let ?k = "snd (note_contradiction ok now (pattern_target (kn_key e)) k)"
    have "kn_le (kn_entries k) (kn_entries (snd (contradict ok now failed es m ?k)))" for m
      using note_contradiction_keeps(1) Cons.IH by (blast intro: kn_le_trans)
    then show ?thesis using Inr Cons.IH note_contradiction_keeps(2) by (simp add: Let_def case_prod_unfold)
  qed
qed simp

text \<open>
  C27. Consolidation, whatever fails in its course, forgets no knowledge but stale "seen" and "avoid"
  entries of low confidence: every other entry is still there, unchanged, unless it is itself a recorded
  contradiction, which may be renewed with at least the same confidence.
\<close>

theorem consolidate_keeps_knowledge:
  assumes "mc_knowledge mc = Some k" and "dict_wf (kn_entries k)"
    and "dget (kn_entries k) j = Some e" and "\<not> low_value now (j, e)"
  shows "\<exists>k' e'. mc_knowledge (snd (consolidate sf ok now most mc)) = Some k' \<and> dget (kn_entries k') j = Some e' \<and>
    kn_confidence e \<le> kn_confidence e' \<and> (startswith j ''contradiction:'' \<or> e' = e)"
proof -
  let ?good = "\<lambda>m. \<exists>k' e'. mc_knowledge m = Some k' \<and> dget (kn_entries k') j = Some e' \<and>
    kn_confidence e \<le> kn_confidence e' \<and> (startswith j ''contradiction:'' \<or> e' = e)"
  have contra: "?good (m\<lparr>mc_knowledge := Some (snd (find_contradictions ok now ex k'))\<rparr>)"
    if "dget (kn_entries k') j = Some e" for m ex k'
    using that contradict_keeps [of k' ok now _ _ _ j]
    by (fastforce simp: find_contradictions_def kn_le_def split: option.splits sum.splits)
  have kn: "?good (snd (consolidate_knowledge ok now m))" if "mc_knowledge m = Some k" for m
  proof -
    have pruned: "dget (kn_entries (snd (prune_knowledge ok now k))) j = Some e"
      using assms(2,3,4) by (rule prune_entries)
    show ?thesis
    proof (cases "fst (prune_knowledge ok now k)")
      case (Inl x)
      then show ?thesis using pruned that by (simp add: consolidate_knowledge_def case_prod_unfold Let_def)
    next
      case (Inr n)
      then show ?thesis using contra [OF pruned] that
        by (simp add: consolidate_knowledge_def case_prod_unfold Let_def)
    qed
  qed
  have ep: "mc_knowledge (snd (consolidate_episodes sf now most m)) = mc_knowledge m" for m
    by (simp add: consolidate_episodes_def Let_def case_prod_unfold split: option.splits sum.splits)
  let ?m = "snd (consolidate_episodes sf now most (mc\<lparr>mc_working := snd (work_prune now (mc_working mc))\<rparr>))"
  have m: "mc_knowledge ?m = Some k" using ep assms(1) by simp
  then have "?good ?m" using assms(3) by auto
  with kn [OF m] show ?thesis
    by (simp add: consolidate_def Let_def case_prod_unfold split: sum.splits)
qed

definition old_lesson :: knowledge_entry where
  "old_lesson = \<lparr>kn_key = ''lesson:x'', kn_value = PStr ''y'', kn_source = ''learning'', kn_confidence = 1 / 10,
     kn_created = 0, kn_updated = 0\<rparr>"

definition demo_knowledge :: knowledge where
  "demo_knowledge = \<lparr>kn_entries = [(''goal_seen:x'', old_lesson\<lparr>kn_key := ''goal_seen:x''\<rparr>), (''lesson:x'', old_lesson)], kn_disk = Absent\<rparr>"

lemma consolidate_keeps_knowledge_witness:
  "\<exists>k' e'. mc_knowledge (snd (consolidate point0 True 9000000 10 (demo_memory\<lparr>mc_knowledge := Some demo_knowledge\<rparr>))) = Some k' \<and>
    dget (kn_entries k') ''lesson:x'' = Some e' \<and> kn_confidence old_lesson \<le> kn_confidence e' \<and>
    (startswith ''lesson:x'' ''contradiction:'' \<or> e' = old_lesson)"
  by (rule consolidate_keeps_knowledge [where k = demo_knowledge])
    (simp_all add: demo_knowledge_def dict_wf_def low_value_def startswith_def)

text \<open>
  The failures are collected without the successes of the same target, so the test for a success among
  them is vacuous: one recent failure contradicts a pattern, however often the target succeeded since.
\<close>

lemma failures_only:
  "failures_by_target rows d = Inr failed \<Longrightarrow>
   list_all (\<lambda>(t, es). \<not> list_ex (\<lambda>r. dgetd r ''status'' PNone = PStr ''done'') es) d \<Longrightarrow>
   list_all (\<lambda>(t, es). \<not> list_ex (\<lambda>r. dgetd r ''status'' PNone = PStr ''done'') es) failed"
proof (induction rows d rule: failures_by_target.induct)
  case (2 e es d)
  have "\<not> list_ex (\<lambda>r. dgetd r ''status'' PNone = PStr ''done'') (dgetd d t [])" for t
    using 2(4) dget_Some_in [of d t] by (auto simp: dgetd_def list_all_iff split: option.splits)
  then have "list_all (\<lambda>(t, es). \<not> list_ex (\<lambda>r. dgetd r ''status'' PNone = PStr ''done'') es) (bucket_add t e d)"
    if "dgetd e ''status'' PNone = PStr ''failed''" for t
    unfolding bucket_add_def using 2(4) that by (intro list_all_dput) simp_all
  then show ?case using 2 by (auto simp: Let_def split: if_splits sum.splits)
qed simp

lemma success_does_not_count:
  "failures_by_target rows [] = Inr failed \<Longrightarrow>
   \<not> list_ex (\<lambda>r. dgetd r ''status'' PNone = PStr ''done'') (dgetd failed t [])"
  using failures_only [of rows "[]" failed] dget_Some_in [of failed t]
  by (auto simp: dgetd_def list_all_iff split: option.splits)

text \<open>The report promises merged duplicates; nothing merges any.\<close>

lemma map_sum_right: "map_sum id f x = Inr y \<Longrightarrow> \<exists>z. x = Inr z \<and> y = f z"
  by (cases x) auto

lemma no_duplicates_merged:
  "fst (consolidate sf ok now most mc) = Inr rep \<Longrightarrow> co_duplicates_merged rep = 0"
  by (auto simp: consolidate_def Let_def case_prod_unfold split: sum.splits dest!: map_sum_right)

end
