(* ===== verification/Planner.thy ===== *)
theory Planner
  imports Capabilities Memory Json_Parse
begin

text \<open>
  \<open>agents/planner.py\<close>, \<open>agents/orchestration.py\<close>, the roles of \<open>intelligence/agents.py\<close> and the provider
  registry and local provider of \<open>ai_providers\<close>: the bounded think/act/observe loop. A provider is what it answers to
  the n-th question of a run given the transcript, None when it raises. An agent is bound to a kernel.
\<close>

section \<open>Providers\<close>

type_synonym ai_message = "string \<times> string"
type_synonym provider = "nat \<Rightarrow> ai_message list \<Rightarrow> string option"

record provider_registry =
  pv_all :: "provider sdict"
  pv_default :: "string option"

definition new_providers :: provider_registry where
  "new_providers = \<lparr>pv_all = [], pv_default = None\<rparr>"

definition pv_register :: "string \<Rightarrow> provider \<Rightarrow> bool \<Rightarrow> provider_registry \<Rightarrow> provider_registry result" where
  "pv_register name p dflt pr =
     (if name \<in> set (dkeys (pv_all pr))
      then Inl (Exc ''ValueError'' (''AI provider '' @ [CHR 0x27] @ name @ [CHR 0x27] @ '' already registered''))
      else Inr \<lparr>pv_all = dput name p (pv_all pr),
                pv_default = (if dflt \<or> pv_default pr = None then Some name else pv_default pr)\<rparr>)"

definition pv_get :: "string option \<Rightarrow> provider_registry \<Rightarrow> provider result" where
  "pv_get name pr =
     (let resolved = (case name of None \<Rightarrow> pv_default pr | Some n \<Rightarrow> if n = [] then pv_default pr else Some n)
      in case (case resolved of None \<Rightarrow> None | Some n \<Rightarrow> dget (pv_all pr) n) of
           None \<Rightarrow> Inl (Exc ''ProviderNotFoundError'' (''Unknown AI provider '' @ [CHR 0x27] @
             (case resolved of None \<Rightarrow> ''None'' | Some n \<Rightarrow> n) @ [CHR 0x27]))
         | Some p \<Rightarrow> Inr p)"

definition pv_names :: "provider_registry \<Rightarrow> string list" where
  "pv_names pr = sort (dkeys (pv_all pr))"

definition pv_shutdown :: "provider_registry \<Rightarrow> provider_registry" where
  "pv_shutdown pr = new_providers"

text \<open>The safe step that is taken when no provider offers one.\<close>

definition fallback_action :: "string \<Rightarrow> string \<times> pyval sdict" where
  "fallback_action goal =
     (let l = str_lower goal in
      if contains l ''inspect'' \<or> contains l ''environment'' \<or> contains l ''device'' then (''android.info'', [])
      else if contains l ''list'' \<or> contains l ''files'' then (''fs.list'', [(''path'', PStr ''.'')])
      else if contains l ''time'' then (''time.now'', [])
      else if contains l ''status'' \<or> contains l ''kernel'' then (''process.list'', [])
      else (''android.info'', []))"

definition fallback_step :: "(pyfloat \<Rightarrow> string) \<Rightarrow> string \<Rightarrow> string" where
  "fallback_step sf goal =
     (let (a, ps) = fallback_action goal
      in json_dumps sf (PDict [(''action'', PStr a), (''params'', PDict ps), (''reason'', PStr ''local fallback plan step'')]))"

definition word_char :: "char \<Rightarrow> bool" where
  "word_char c \<longleftrightarrow> is_alnum c \<or> c = CHR ''_''"

text \<open>\<open>re.search\<close> of a word between word boundaries; the first argument is the character before.\<close>

fun has_word :: "bool \<Rightarrow> string \<Rightarrow> string \<Rightarrow> bool" where
  "has_word prev w [] = False"
| "has_word prev w (c # s) =
     (\<not> prev \<and> startswith (c # s) w \<and> (case drop (length w) (c # s) of [] \<Rightarrow> True | d # _ \<Rightarrow> \<not> word_char d) \<or>
      has_word (word_char c) w s)"

definition plan_triggers :: "string list" where
  "plan_triggers = [''return the next action'', ''output the next action'', ''next action as json'', ''think step'', ''act as json'']"

definition local_engine :: "(pyfloat \<Rightarrow> string) \<Rightarrow> ai_message list \<Rightarrow> string" where
  "local_engine sf ms =
     (let latest = (if ms = [] then [] else str_strip (snd (List.last ms))); l = str_lower latest in
      if list_ex (contains l) plan_triggers then fallback_step sf latest
      else if has_word False ''hi'' l \<or> has_word False ''hello'' l
      then ''Hello! I'' @ [CHR 0x27] @ ''m the Buster OS local engine. Try '' @ [CHR 0x27] @ ''help'' @ [CHR 0x27] @ '', '' @
        [CHR 0x27] @ ''status'' @ [CHR 0x27] @ '' or '' @ [CHR 0x27] @ ''think <goal>'' @ [CHR 0x27] @ ''.''
      else if startswith l ''list '' \<or> startswith l ''ls''
      then ''acknowledged: list files under '' @ [CHR 0x27] @
        (let p = str_strip (drop 4 l) in if p = [] then ''.'' else p) @ [CHR 0x27]
      else if startswith l ''plan:''
      then ''PLAN'' @ [CHR 0x0A] @ ''1. Inspect the current environment.'' @ [CHR 0x0A] @ ''2. Outline concrete steps.'' @ [CHR 0x0A] @
        ''3. Execute via capabilities.''
      else ''Buster-local: understood request '' @ [CHR 0x27] @ latest @ [CHR 0x27] @ '' (no remote model configured).'')"

definition local_provider :: "(pyfloat \<Rightarrow> string) \<Rightarrow> provider" where
  "local_provider sf n ms = Some (local_engine sf ms)"

section \<open>Roles\<close>

record agent_role =
  ro_name :: string
  ro_prompt :: string
  ro_prefixes :: "string list"

definition role_allows :: "agent_role \<Rightarrow> string \<Rightarrow> bool" where
  "role_allows ro action \<longleftrightarrow> ro_prefixes ro = [] \<or> list_ex (startswith action) (ro_prefixes ro)"

definition role_table :: "(string \<times> string list) list" where
  "role_table = [
     (''planner'', []),
     (''researcher'', [''search.'', ''fs.list'', ''fs.read'', ''fs.stat'', ''net.'', ''android.'', ''time.'', ''pkg.'']),
     (''builder'', [''fs.write'', ''fs.mkdir'', ''fs.touch'', ''python.'', ''git.'', ''archive.'', ''shell.run'']),
     (''tester'', [''shell.run'', ''python.eval'', ''search.'', ''fs.read'', ''process.'']),
     (''reviewer'', [''fs.read'', ''fs.list'', ''search.'', ''process.'', ''python.eval'', ''pkg.'']),
     (''fixer'', [''fs.write'', ''fs.mkdir'', ''python.'', ''git.'', ''shell.run'', ''crypto.'']),
     (''observer'', [''android.'', ''process.'', ''net.'', ''pkg.'', ''time.'', ''search.'']),
     (''memory-worker'', [''fs.list'', ''fs.read'', ''search.'', ''python.eval'']),
     (''maintenance-worker'', [''process.'', ''pkg.'', ''fs.list'', ''archive.''])]"

text \<open>The prompts are texts of the table that only the provider reads; they are an argument.\<close>

record agent =
  ag_name :: string
  ag_role :: "agent_role option"
  ag_max_steps :: int

definition planner_agent :: "int \<Rightarrow> agent" where
  "planner_agent max_steps = \<lparr>ag_name = ''planner'', ag_role = None, ag_max_steps = max_steps\<rparr>"

definition role_agent :: "(string \<Rightarrow> string) \<Rightarrow> string \<Rightarrow> int \<Rightarrow> agent result" where
  "role_agent prompts role max_steps =
     (case dget role_table role of
        None \<Rightarrow> Inl (Exc ''ValueError'' (''unknown agent role '' @ [CHR 0x27] @ role @ [CHR 0x27]))
      | Some ps \<Rightarrow> Inr \<lparr>ag_name = ''role:'' @ role,
          ag_role = Some \<lparr>ro_name = role, ro_prompt = prompts role, ro_prefixes = ps\<rparr>, ag_max_steps = max_steps\<rparr>)"

definition available_roles :: "string list" where
  "available_roles = sort (dkeys role_table)"

definition known_action :: "agent \<Rightarrow> 's registry \<Rightarrow> string \<Rightarrow> bool" where
  "known_action ag r action \<longleftrightarrow> find_capability r action \<noteq> None \<and>
     (case ag_role ag of None \<Rightarrow> True | Some ro \<Rightarrow> role_allows ro action)"

section \<open>Reading a step from a reply\<close>

definition is_finished :: "string \<Rightarrow> bool" where
  "is_finished reply = contains (str_upper reply) ''DONE''"

text \<open>The greedy match of an opening brace up to the last closing one.\<close>

definition brace_span :: "string \<Rightarrow> string option" where
  "brace_span s =
     (let t = dropWhile (\<lambda>c. c \<noteq> CHR 0x7B) s
      in if t = [] \<or> CHR 0x7D \<notin> set t then None
         else Some (rev (dropWhile (\<lambda>c. c \<noteq> CHR 0x7D) (rev t))))"

text \<open>
  \<open>step.get("params") or {}\<close> goes on as it is; an action that is a list or an object cannot be looked up
  and raises, any other that is no string is unknown.
\<close>

definition offered_step :: "agent \<Rightarrow> 's registry \<Rightarrow> string \<Rightarrow> (string \<times> pyval) option result" where
  "offered_step ag r reply =
     (case (case brace_span reply of None \<Rightarrow> None | Some m \<Rightarrow> json_loads m) of
        Some (PDict d) \<Rightarrow>
          (let action = dgetd d ''action'' PNone; params = py_or (dgetd d ''params'' PNone) (PDict [])
           in if \<not> truthy action then Inr None
              else (case action of
                      PStr a \<Rightarrow> Inr (if known_action ag r a then Some (a, params) else None)
                    | PList _ \<Rightarrow> Inl (Exc ''TypeError'' ''unhashable type'')
                    | PDict _ \<Rightarrow> Inl (Exc ''TypeError'' ''unhashable type'')
                    | _ \<Rightarrow> Inr None))
      | _ \<Rightarrow> Inr None)"

definition parse_action :: "(pyfloat \<Rightarrow> string) \<Rightarrow> agent \<Rightarrow> 's registry \<Rightarrow> string \<Rightarrow> string \<Rightarrow> bool \<Rightarrow> (string \<times> pyval) option result" where
  "parse_action sf ag r reply goal bootstrap =
     (case offered_step ag r reply of
        Inl e \<Rightarrow> Inl e
      | Inr (Some x) \<Rightarrow> Inr (Some x)
      | Inr None \<Rightarrow> if bootstrap then offered_step ag r (fallback_step sf goal) else Inr None)"

section \<open>Acting and observing\<close>

definition agent_context :: "agent \<Rightarrow> string \<Rightarrow> py_context" where
  "agent_context ag goal = [(''actor'', PStr (''agent:'' @ ag_name ag)), (''agent'', PStr (ag_name ag)), (''goal'', PStr goal)]"

text \<open>
  Parameters that are no object raise where dispatch merges them into the gating context, after the
  calling event (a list of pairs, which \<open>dict.update\<close> would take, counts as no object here).
\<close>

definition execute_step :: "agent \<Rightarrow> string \<Rightarrow> pyval \<Rightarrow> string \<Rightarrow> 's registry \<Rightarrow> 's \<Rightarrow> cap_result result \<times> 's registry \<times> 's" where
  "execute_step ag action params goal r s =
     (case params of
        PDict d \<Rightarrow> (let (res, r', s') = cap_call action None d (agent_context ag goal) r s in (Inr res, r', s'))
      | _ \<Rightarrow> (Inl (Exc ''TypeError'' ''object is not iterable''),
          rg_emit ''capability.calling'' (dmerge [(''action'', PStr action)]
            (ec_as_dict (from_inputs action None ''user'' ''cli'' (agent_context ag goal)))) r, s))"

definition observation :: "(pyfloat \<Rightarrow> string) \<Rightarrow> cap_result \<Rightarrow> string" where
  "observation sf res =
     (let preview = json_dumps sf (cr_data res);
          shown = (if 500 < length preview then take 500 preview @ ''...'' else preview)
      in ''action result (success='' @ (if cr_success res then ''True'' else ''False'') @ ''): '' @ shown)"

section \<open>The loop\<close>

datatype run_step = SaidDone | Acted string bool

fun step_row :: "run_step \<Rightarrow> pyval sdict" where
  "step_row SaidDone = [(''phase'', PStr ''step''), (''action'', PStr ''done'')]"
| "step_row (Acted a ok) = [(''phase'', PStr ''step''), (''action'', PStr a), (''success'', PBool ok)]"

definition ask :: "(pyfloat \<Rightarrow> string) \<Rightarrow> provider option \<Rightarrow> nat \<Rightarrow> ai_message list \<Rightarrow> string \<Rightarrow> string" where
  "ask sf p n transcript goal =
     (case p of
        None \<Rightarrow> fallback_step sf goal
      | Some f \<Rightarrow> (case f n transcript of None \<Rightarrow> fallback_step sf goal | Some reply \<Rightarrow> reply))"

text \<open>The first argument is how many of the bounded number of rounds are left.\<close>

fun plan_loop :: "nat \<Rightarrow> (pyfloat \<Rightarrow> string) \<Rightarrow> agent \<Rightarrow> provider option \<Rightarrow> string \<Rightarrow> nat \<Rightarrow> bool \<Rightarrow> ai_message list \<Rightarrow>
    run_step list \<Rightarrow> 's registry \<Rightarrow> 's \<Rightarrow> unit result \<times> run_step list \<times> 's registry \<times> 's" where
  "plan_loop 0 sf ag p goal n executed transcript hist r s = (Inr (), hist, r, s)"
| "plan_loop (Suc left) sf ag p goal n executed transcript hist r s =
     (let reply = ask sf p n transcript goal; t1 = transcript @ [(''assistant'', reply)] in
      if is_finished reply then (Inr (), hist @ [SaidDone], r, s)
      else (case parse_action sf ag r reply goal (\<not> executed) of
              Inl e \<Rightarrow> (Inl e, hist, r, s)
            | Inr None \<Rightarrow> (Inr (), hist, r, s)
            | Inr (Some (action, params)) \<Rightarrow>
                (case execute_step ag action params goal r s of
                   (Inl e, r1, s1) \<Rightarrow> (Inl e, hist, r1, s1)
                 | (Inr res, r1, s1) \<Rightarrow>
                     plan_loop left sf ag p goal (n + 1) True (t1 @ [(''user'', observation sf res)])
                       (hist @ [Acted action (cr_success res)]) r1 s1)))"

datatype run_status = RunDone | RunFailed

fun run_status_text :: "run_status \<Rightarrow> string" where
  "run_status_text RunDone = ''done''"
| "run_status_text RunFailed = ''failed''"

record agent_run =
  ar_target :: string
  ar_status :: run_status
  ar_error :: "string option"
  ar_history :: "run_step list"

text \<open>What the agent reads of its kernel beside the registry, and what it writes of it.\<close>

record planner_memory =
  pl_facts :: "pyval sdict"
  pl_knowledge :: knowledge
  pl_experience :: experience

definition or_none :: "string \<Rightarrow> string" where
  "or_none s = (if s = [] then ''none'' else s)"

definition system_prompt :: "(pyfloat \<Rightarrow> string) \<Rightarrow> agent \<Rightarrow> 's registry \<Rightarrow> planner_memory \<Rightarrow> string" where
  "system_prompt sf ag r m =
     (case ag_role ag of None \<Rightarrow> [] | Some ro \<Rightarrow> ro_prompt ro @ [CHR 0x0A]) @
     ''You are the Buster OS planner. You solve the user'' @ [CHR 0x27] @ ''s goal by '' @
     ''emitting ONE step at a time as a single JSON object: '' @
     [CHR 0x7B, CHR 0x22] @ ''action'' @ [CHR 0x22] @ '': '' @ [CHR 0x22] @ ''<capability.action>'' @ [CHR 0x22] @ '', '' @
     [CHR 0x22] @ ''params'' @ [CHR 0x22] @ '': '' @ [CHR 0x7B] @ ''...'' @ [CHR 0x7D] @ '', '' @
     [CHR 0x22] @ ''reason'' @ [CHR 0x22] @ '': '' @ [CHR 0x22] @ ''...'' @ [CHR 0x22, CHR 0x7D] @ ''. '' @
     ''After each user observation, emit the next step. When the goal is satisfied, reply with exactly: DONE.'' @
     [CHR 0x0A, CHR 0x0A] @ ''Available actions:'' @ [CHR 0x0A] @ join_str '', '' (list_actions r) @
     [CHR 0x0A, CHR 0x0A] @ ''Environment:'' @ [CHR 0x0A] @
     or_none (take 600 (join_str '', '' (map (\<lambda>(k, v). k @ ''='' @ py_str sf v) (pl_facts m)))) @
     [CHR 0x0A, CHR 0x0A] @ ''Learned knowledge that may help:'' @ [CHR 0x0A] @
     or_none (join_str [CHR 0x0A] (map (\<lambda>e. kn_key e @ '': '' @ py_str sf (kn_value e)) (take 8 (dvals (kn_entries (pl_knowledge m))))))"

definition first_transcript :: "(pyfloat \<Rightarrow> string) \<Rightarrow> agent \<Rightarrow> string \<Rightarrow> 's registry \<Rightarrow> planner_memory \<Rightarrow> ai_message list" where
  "first_transcript sf ag goal r m = [(''system'', system_prompt sf ag r m), (''user'', ''Goal: '' @ goal)]"

text \<open>The experience of a run; whatever goes wrong while it is stored is logged only.\<close>

definition run_entry :: "agent \<Rightarrow> agent_run \<Rightarrow> pyval sdict" where
  "run_entry ag run =
     [(''target'', PStr (ar_target run)), (''status'', PStr (run_status_text (ar_status run))), (''error'', of_ostr (ar_error run)),
      (''steps'', PInt (int (length (ar_history run)))),
      (''result'', if ar_status run = RunDone then PDict [(''steps'', PList (map (PDict \<circ> step_row) (ar_history run)))] else PNone),
      (''agent'', PStr (ag_name ag))]"

definition learn_from_run :: "(pyfloat \<Rightarrow> string) \<Rightarrow> bool \<Rightarrow> pyfloat \<Rightarrow> agent \<Rightarrow> agent_run \<Rightarrow> planner_memory \<Rightarrow> planner_memory" where
  "learn_from_run sf ok now ag run m =
     (case ex_record now (run_entry ag run) (pl_experience m) of
        (Inl e, x) \<Rightarrow> m\<lparr>pl_experience := x\<rparr>
      | (Inr _, x) \<Rightarrow> (case on_experience ok now (default_hooks sf) (run_entry ag run) (Some (pl_knowledge m)) of
            (_, Some k) \<Rightarrow> m\<lparr>pl_experience := x, pl_knowledge := k\<rparr>
          | (_, None) \<Rightarrow> m\<lparr>pl_experience := x\<rparr>))"

definition run_agent :: "(pyfloat \<Rightarrow> string) \<Rightarrow> bool \<Rightarrow> pyfloat \<Rightarrow> agent \<Rightarrow> provider_registry \<Rightarrow> string option \<Rightarrow> string \<Rightarrow>
    's registry \<Rightarrow> 's \<Rightarrow> planner_memory \<Rightarrow> agent_run \<times> 's registry \<times> 's \<times> planner_memory" where
  "run_agent sf ok now ag providers name goal r s m =
     (let p = (case pv_get name providers of Inl _ \<Rightarrow> None | Inr f \<Rightarrow> Some f);
          (res, hist, r1, s1) = plan_loop (nat (max (ag_max_steps ag) 1)) sf ag p goal 0 False (first_transcript sf ag goal r m) [] r s;
          run = (case res of
                   Inr _ \<Rightarrow> \<lparr>ar_target = goal, ar_status = RunDone, ar_error = None, ar_history = hist\<rparr>
                 | Inl e \<Rightarrow> \<lparr>ar_target = goal, ar_status = RunFailed, ar_error = Some (exc_msg e), ar_history = hist\<rparr>)
      in (run, r1, s1, learn_from_run sf ok now ag run m))"

section \<open>The plan-first orchestrator\<close>

record plan_action =
  pa_action :: string
  pa_params :: pyval
  pa_reason :: pyval

definition fallback_plan :: "string \<Rightarrow> plan_action list" where
  "fallback_plan reason = [\<lparr>pa_action = ''android.info'', pa_params = PDict [], pa_reason = PStr reason\<rparr>]"

definition remove_prefix :: "string \<Rightarrow> string \<Rightarrow> string" where
  "remove_prefix p s = (if startswith s p then drop (length p) s else s)"

definition remove_suffix :: "string \<Rightarrow> string \<Rightarrow> string" where
  "remove_suffix p s = (if endswith s p \<and> p \<noteq> [] then take (length s - length p) s else s)"

definition clean_reply :: "string \<Rightarrow> string" where
  "clean_reply c = str_strip (remove_suffix ''```'' (remove_prefix ''```'' (remove_prefix ''```json'' (str_strip c))))"

text \<open>One row of the plan: None when its action is not known.\<close>

definition plan_row :: "'s registry \<Rightarrow> pyval \<Rightarrow> plan_action option result" where
  "plan_row r row =
     (case row of
        PDict d \<Rightarrow>
          (case dgetd d ''action'' (PStr []) of
             PStr a \<Rightarrow> Inr (if find_capability r a = None then None
               else Some \<lparr>pa_action = a, pa_params = py_or (dgetd d ''params'' PNone) (PDict []), pa_reason = dgetd d ''reason'' (PStr [])\<rparr>)
           | PList _ \<Rightarrow> Inl (Exc ''TypeError'' ''unhashable type'')
           | PDict _ \<Rightarrow> Inl (Exc ''TypeError'' ''unhashable type'')
           | _ \<Rightarrow> Inr None)
      | _ \<Rightarrow> Inl (Exc ''AttributeError'' ''object has no attribute get''))"

fun plan_rows :: "'s registry \<Rightarrow> pyval list \<Rightarrow> plan_action list result" where
  "plan_rows r [] = Inr []"
| "plan_rows r (x # xs) =
     (case plan_row r x of
        Inl e \<Rightarrow> Inl e
      | Inr y \<Rightarrow> map_sum id (\<lambda>ys. (case y of None \<Rightarrow> ys | Some a \<Rightarrow> a # ys)) (plan_rows r xs))"

definition py_iter :: "pyval \<Rightarrow> pyval list result" where
  "py_iter v =
     (case v of
        PList xs \<Rightarrow> Inr xs
      | PDict d \<Rightarrow> Inr (map PStr (dkeys d))
      | PStr s \<Rightarrow> Inr (map (\<lambda>c. PStr [c]) s)
      | _ \<Rightarrow> Inl (Exc ''TypeError'' ''object is not iterable''))"

definition parse_plan :: "'s registry \<Rightarrow> string \<Rightarrow> string \<Rightarrow> plan_action list result" where
  "parse_plan r content goal =
     (case json_loads (clean_reply content) of
        None \<Rightarrow> Inr (fallback_plan (''fallback for '' @ [CHR 0x27] @ goal @ [CHR 0x27]))
      | Some v \<Rightarrow>
          (case py_iter v of
             Inl e \<Rightarrow> Inl e
           | Inr rows \<Rightarrow>
               map_sum id (\<lambda>plan. if plan = []
                 then fallback_plan (''fallback for '' @ [CHR 0x27, CHR 0x7B] @ ''goal'' @ [CHR 0x7D, CHR 0x27]) else plan)
                 (plan_rows r rows)))"

text \<open>\<open>_plan\<close>: without a provider one harmless step; a provider that raises fails the run.\<close>

definition make_plan :: "string \<Rightarrow> 's registry \<Rightarrow> provider option \<Rightarrow> string \<Rightarrow> plan_action list result" where
  "make_plan prompt r p goal =
     (case p of
        None \<Rightarrow> Inr (fallback_plan ''introspect device to ground the goal'')
      | Some f \<Rightarrow>
          (case f 0 [(''system'', prompt), (''user'', ''Goal: '' @ goal @ [CHR 0x0A] @ ''Available actions: '' @ join_str '', '' (list_actions r))] of
             None \<Rightarrow> Inl (Exc ''AIProviderError'' ''provider failed'')
           | Some content \<Rightarrow> parse_plan r content goal))"

fun execute_plan :: "agent \<Rightarrow> string \<Rightarrow> plan_action list \<Rightarrow> (string \<times> cap_result) list \<Rightarrow> 's registry \<Rightarrow> 's \<Rightarrow>
    unit result \<times> (string \<times> cap_result) list \<times> 's registry \<times> 's" where
  "execute_plan ag goal [] acc r s = (Inr (), acc, r, s)"
| "execute_plan ag goal (a # as) acc r s =
     (case execute_step ag (pa_action a) (pa_params a) goal r s of
        (Inl e, r1, s1) \<Rightarrow> (Inl e, acc, r1, s1)
      | (Inr res, r1, s1) \<Rightarrow> execute_plan ag goal as (acc @ [(pa_action a, res)]) r1 s1)"

definition orchestrator_agent :: agent where
  "orchestrator_agent = \<lparr>ag_name = ''orchestrator'', ag_role = None, ag_max_steps = 10\<rparr>"

definition plan_dict :: "plan_action \<Rightarrow> pyval" where
  "plan_dict a = PDict [(''action'', PStr (pa_action a)), (''params'', pa_params a), (''reason'', pa_reason a)]"

definition executed_dict :: "string \<times> cap_result \<Rightarrow> pyval" where
  "executed_dict x = PDict [(''action'', PStr (fst x)), (''success'', PBool (cr_success (snd x))), (''data'', cr_data (snd x)),
     (''error'', of_ostr (cr_error (snd x)))]"

definition orchestrate :: "string \<Rightarrow> pyfloat \<Rightarrow> provider_registry \<Rightarrow> string option \<Rightarrow> string \<Rightarrow> 's registry \<Rightarrow> 's \<Rightarrow> experience \<Rightarrow>
    (unit result \<times> plan_action list \<times> (string \<times> cap_result) list) \<times> 's registry \<times> 's \<times> experience" where
  "orchestrate prompt now providers name goal r s ex =
     (let p = (case pv_get name providers of Inl _ \<Rightarrow> None | Inr f \<Rightarrow> Some f);
          (outcome, r1, s1) = (case make_plan prompt r p goal of
             Inl e \<Rightarrow> ((Inl e, [], []), r, s)
           | Inr plan \<Rightarrow>
               (let (res, done, r1, s1) = execute_plan orchestrator_agent goal (slice_first (ag_max_steps orchestrator_agent) plan) [] r s
                in ((res, plan, done), r1, s1)));
          (res, plan, done) = outcome;
          planned = (case make_plan prompt r p goal of Inl _ \<Rightarrow> 0 | Inr _ \<Rightarrow> 1);
          entry = [(''target'', PStr goal), (''status'', PStr (case res of Inl _ \<Rightarrow> ''failed'' | Inr _ \<Rightarrow> ''done'')),
            (''result'', case res of Inl _ \<Rightarrow> PNone
               | Inr _ \<Rightarrow> PDict [(''plan'', PList (map plan_dict plan)), (''executed'', PList (map executed_dict done))]),
            (''error'', case res of Inl e \<Rightarrow> PStr (exc_msg e) | Inr _ \<Rightarrow> PNone),
            (''steps'', PInt (int (planned + length done)))]
      in (outcome, r1, s1, snd (ex_record now entry ex)))"

section \<open>An agent acts in its role and behind the gate\<close>

lemma find_capability_cong: "rg_caps r' = rg_caps r \<Longrightarrow> rg_owner r' = rg_owner r \<Longrightarrow> find_capability r' = find_capability r"
  by (intro ext) (auto simp: find_capability_def split: option.split)

lemma refused_cong: "rg_kernel r' = rg_kernel r \<Longrightarrow> refused r' a sc x c = refused r a sc x c"
  by (simp add: refused_def)

lemma execute_step_keeps:
  "rg_caps (fst (snd (execute_step ag a ps g r s))) = rg_caps r"
  "rg_owner (fst (snd (execute_step ag a ps g r s))) = rg_owner r"
  "rg_kernel (fst (snd (execute_step ag a ps g r s))) = rg_kernel r"
  by (simp_all add: execute_step_def call_registry Let_def case_prod_unfold split: pyval.splits)

lemma execute_step_registry:
  "known_action ag (fst (snd (execute_step ag a ps g r s))) b = known_action ag r b"
  "rg_kernel (fst (snd (execute_step ag a ps g r s))) = rg_kernel r"
  using find_capability_cong [OF execute_step_keeps(1,2), of ag a ps g r s]
  by (simp_all add: known_action_def execute_step_keeps)

lemma offered_known: "offered_step ag r reply = Inr (Some (a, ps)) \<Longrightarrow> known_action ag r a"
  by (auto simp: offered_step_def Let_def split: option.splits pyval.splits if_splits)

lemma parsed_known: "parse_action sf ag r reply goal b = Inr (Some (a, ps)) \<Longrightarrow> known_action ag r a"
  by (auto simp: parse_action_def split: sum.splits option.splits if_splits dest: offered_known)

definition step_known :: "agent \<Rightarrow> 's registry \<Rightarrow> run_step \<Rightarrow> bool" where
  "step_known ag r st = (case st of SaidDone \<Rightarrow> True | Acted a ok \<Rightarrow> known_action ag r a)"

text \<open>
  The rule of the loop: what holds of the history, the registry and the world at the start, and is kept by
  every step dispatched for a known action, holds at the end, however the loop ends.
\<close>

lemma plan_loop_rule:
  assumes "I hist r s"
    and said: "\<And>hist r s. I hist r s \<Longrightarrow> I (hist @ [SaidDone]) r s"
    and acted: "\<And>hist r s a ps res r1 s1. I hist r s \<Longrightarrow> known_action ag r a \<Longrightarrow>
      execute_step ag a ps goal r s = (res, r1, s1) \<Longrightarrow>
      (case res of Inl _ \<Rightarrow> I hist r1 s1 | Inr x \<Rightarrow> I (hist @ [Acted a (cr_success x)]) r1 s1)"
  shows "case plan_loop k sf ag p goal n ex t hist r s of (_, hist', r', s') \<Rightarrow> I hist' r' s'"
  using assms(1)
proof (induction k arbitrary: n ex t hist r s)
  case (Suc k)
  let ?reply = "ask sf p n t goal"
  consider (fin) "is_finished ?reply" | (err) e where "\<not> is_finished ?reply" "parse_action sf ag r ?reply goal (\<not> ex) = Inl e"
    | (none) "\<not> is_finished ?reply" "parse_action sf ag r ?reply goal (\<not> ex) = Inr None"
    | (act) a ps where "\<not> is_finished ?reply" "parse_action sf ag r ?reply goal (\<not> ex) = Inr (Some (a, ps))"
    by (metis not_None_eq old.sum.exhaust surj_pair)
  then show ?case
  proof cases
    case act
    obtain res r1 s1 where x: "execute_step ag a ps goal r s = (res, r1, s1)"
      by (cases "execute_step ag a ps goal r s" rule: prod.exhaust) auto
    from acted [OF Suc.prems parsed_known [OF act(2)] x] show ?thesis
      using act x Suc.IH by (cases res) (simp_all add: Let_def)
  qed (use Suc.prems said in \<open>simp_all add: Let_def\<close>)
qed simp

lemma plan_loop_length: "length (fst (snd (plan_loop k sf ag p goal n ex t hist r s))) \<le> length hist + k"
  by (induction k sf ag p goal n ex t hist r s rule: plan_loop.induct)
    (auto simp: Let_def split: sum.splits option.splits prod.splits)

lemma plan_loop_known:
  "list_all (step_known ag r) hist \<Longrightarrow> list_all (step_known ag r) (fst (snd (plan_loop k sf ag p goal n ex t hist r s)))"
proof -
  assume h: "list_all (step_known ag r) hist"
  let ?I = "\<lambda>hist r1 (s1::'a). (\<forall>a. known_action ag r1 a = known_action ag r a) \<and> list_all (step_known ag r) hist"
  have "case plan_loop k sf ag p goal n ex t hist r s of (_, hist', r', s') \<Rightarrow> ?I hist' r' s'"
  proof (rule plan_loop_rule [where I = ?I])
    fix hist r1 s1 a ps res r2 s2
    assume "?I hist r1 s1" "known_action ag r1 a" "execute_step ag a ps goal r1 s1 = (res, r2, s2)"
    then show "case res of Inl _ \<Rightarrow> ?I hist r2 s2 | Inr x \<Rightarrow> ?I (hist @ [Acted a (cr_success x)]) r2 s2"
      using execute_step_registry(1) [of ag a ps goal r1 s1] by (simp add: step_known_def split: sum.splits)
  qed (use h in \<open>simp_all add: step_known_def\<close>)
  then show ?thesis by (simp add: case_prod_unfold)
qed

text \<open>
  C28. Whatever the provider replies, an agent never has more rounds than its bound, and every action it
  dispatched is one that the registry serves and that the agent's role allows.
\<close>

theorem agent_stays_in_role:
  "let run = fst (run_agent sf ok now ag providers name goal r s m)
   in list_all (step_known ag r) (ar_history run) \<and> length (ar_history run) \<le> nat (max (ag_max_steps ag) 1)"
proof -
  have "ar_history (fst (run_agent sf ok now ag providers name goal r s m)) =
      fst (snd (plan_loop (nat (max (ag_max_steps ag) 1)) sf ag
        (case pv_get name providers of Inl _ \<Rightarrow> None | Inr f \<Rightarrow> Some f) goal 0 False (first_transcript sf ag goal r m) [] r s))"
    by (simp add: run_agent_def Let_def case_prod_unfold split: sum.splits)
  then show ?thesis
    using plan_loop_known [of ag r "[]"] plan_loop_length [where hist = "[]"] by (simp add: Let_def)
qed

text \<open>
  C29. An agent has no authority of its own: when the gate refuses every action that its role and the
  registry leave it, whatever parameters and context come with them, then no run changes the world or
  records a successful step, whatever the provider replies.
\<close>

theorem agent_behind_gate:
  assumes "\<forall>a x c. known_action ag r a \<longrightarrow> refused r a None x c"
  shows "fst (snd (snd (run_agent sf ok now ag providers name goal r s m))) = s \<and>
    list_all (\<lambda>st. case st of SaidDone \<Rightarrow> True | Acted a success \<Rightarrow> \<not> success)
      (ar_history (fst (run_agent sf ok now ag providers name goal r s m)))"
proof -
  let ?quiet = "list_all (\<lambda>st. case st of SaidDone \<Rightarrow> True | Acted a success \<Rightarrow> \<not> success)"
  let ?I = "\<lambda>hist r1 s1. rg_kernel r1 = rg_kernel r \<and> (\<forall>a. known_action ag r1 a = known_action ag r a) \<and> s1 = s \<and> ?quiet hist"
  have loop: "case plan_loop k sf ag p goal n ex t [] r s of (_, hist', r', s') \<Rightarrow> ?I hist' r' s'" for k p n ex t
  proof (rule plan_loop_rule [where I = ?I])
    fix hist r1 s1 a ps res r2 s2
    assume i: "?I hist r1 s1" "known_action ag r1 a" "execute_step ag a ps goal r1 s1 = (res, r2, s2)"
    then have "refused r1 a None x c" for x c using assms refused_cong [of r1 r] by metis
    then have "s2 = s" "case res of Inl _ \<Rightarrow> True | Inr x \<Rightarrow> \<not> cr_success x"
      using i(1,3) call_refused [of r1 a None] by (auto simp: execute_step_def split: pyval.splits prod.splits) (metis fst_conv snd_conv)+
    then show "case res of Inl _ \<Rightarrow> ?I hist r2 s2 | Inr x \<Rightarrow> ?I (hist @ [Acted a (cr_success x)]) r2 s2"
      using i execute_step_registry [of ag a ps goal r1 s1] by (simp split: sum.splits)
  qed simp_all
  then show ?thesis
    by (simp add: run_agent_def Let_def case_prod_unfold split: sum.splits)
qed

lemma guarded_refuses_all:
  "a = ''fs.read'' \<Longrightarrow> refused (guarded_registry\<lparr>rg_caps := c, rg_owner := oo\<rparr>) a None x ctx"
  by (simp add: refused_def guarded_registry_def new_registry_def new_permissions_def perm_check_def
      rule_matches_def requires_elevation_def new_elevation_def approve_def Let_def)

definition guarded_files :: "nat registry" where
  "guarded_files = guarded_registry\<lparr>rg_caps := [(''filesystem'', counting_capability)], rg_owner := [(''fs.read'', ''filesystem'')]\<rparr>"

lemma agent_behind_gate_witness:
  "fst (snd (snd (run_agent point0 True 0 (planner_agent 6) new_providers None ''read it'' guarded_files 7
     \<lparr>pl_facts = [], pl_knowledge = \<lparr>kn_entries = [], kn_disk = Absent\<rparr>, pl_experience = new_experience 9\<rparr>))) = 7 \<and>
   list_all (\<lambda>st. case st of SaidDone \<Rightarrow> True | Acted a success \<Rightarrow> \<not> success)
     (ar_history (fst (run_agent point0 True 0 (planner_agent 6) new_providers None ''read it'' guarded_files 7
       \<lparr>pl_facts = [], pl_knowledge = \<lparr>kn_entries = [], kn_disk = Absent\<rparr>, pl_experience = new_experience 9\<rparr>)))"
proof (rule agent_behind_gate)
  have "a = ''fs.read''" if "known_action (planner_agent 6) guarded_files a" for a
    using that by (auto simp: known_action_def find_capability_def guarded_files_def split: if_splits)
  then show "\<forall>a x c. known_action (planner_agent 6) guarded_files a \<longrightarrow> refused guarded_files a None x c"
    unfolding guarded_files_def using guarded_refuses_all by blast
qed

section \<open>A repair that repairs nothing\<close>

lemma brace_span_whole: "brace_span (CHR 0x7B # t @ [CHR 0x7D]) = Some (CHR 0x7B # t @ [CHR 0x7D])"
  by (simp add: brace_span_def)

lemma fallback_plain: "json_plain sf (PDict [(''action'', PStr (fst (fallback_action goal))), (''params'', PDict (snd (fallback_action goal))),
    (''reason'', PStr ''local fallback plan step'')])"
  by (simp add: fallback_action_def Let_def dict_wf_def)

lemma offered_fallback:
  "offered_step ag r (fallback_step sf goal) =
     Inr (if known_action ag r (fst (fallback_action goal))
          then Some (fst (fallback_action goal), PDict (snd (fallback_action goal))) else None)"
proof -
  let ?v = "PDict [(''action'', PStr (fst (fallback_action goal))), (''params'', PDict (snd (fallback_action goal))),
    (''reason'', PStr ''local fallback plan step'')]"
  have text_is: "fallback_step sf goal = json_dumps sf ?v" by (simp add: fallback_step_def case_prod_unfold Let_def)
  have "brace_span (json_dumps sf ?v) = Some (json_dumps sf ?v)"
    using brace_span_whole by (simp only: json_dumps.simps append_Cons append_Nil)
  moreover have "json_loads (json_dumps sf ?v) = Some ?v" using fallback_plain by (rule json_roundtrip)
  moreover have "truthy (PStr (fst (fallback_action goal)))" by (simp add: fallback_action_def Let_def)
  moreover have "py_or (PDict (snd (fallback_action goal))) (PDict []) = PDict (snd (fallback_action goal))"
    by (simp add: py_or_def)
  ultimately show ?thesis unfolding offered_step_def text_is by (simp add: dgetd_def del: json_dumps.simps)
qed

lemma fixer_rejects_fallback: "role_agent prompts ''fixer'' k = Inr ag \<Longrightarrow> \<not> known_action ag r (fst (fallback_action goal))"
  by (auto simp: role_agent_def role_table_def known_action_def role_allows_def fallback_action_def Let_def startswith_def)

text \<open>
  None of the safe fallback steps is allowed to the fixer: when the first reply of its provider offers
  no step that it may take, the fixer runs nothing and its run is reported as done.
\<close>

lemma fixer_done_without_repair:
  assumes "role_agent prompts ''fixer'' k = Inr ag" and "pv_get name providers = Inr f"
    and "f 0 (first_transcript sf ag goal r m) = Some reply"
    and "offered_step ag r reply = Inr None" and "\<not> is_finished reply"
  shows "\<exists>m'. run_agent sf ok now ag providers name goal r s m =
    (\<lparr>ar_target = goal, ar_status = RunDone, ar_error = None, ar_history = []\<rparr>, r, s, m')"
proof -
  obtain j where j: "nat (max (ag_max_steps ag) 1) = Suc j" by (cases "nat (max (ag_max_steps ag) 1)") auto
  have "parse_action sf ag r reply goal True = Inr None"
    using assms(4) offered_fallback [of ag r sf goal] fixer_rejects_fallback [OF assms(1)] by (simp add: parse_action_def)
  then have "plan_loop (Suc j) sf ag (Some f) goal 0 False (first_transcript sf ag goal r m) [] r s = (Inr (), [], r, s)"
    using assms(3,5) by (simp add: ask_def Let_def)
  then have "run_agent sf ok now ag providers name goal r s m =
      (\<lparr>ar_target = goal, ar_status = RunDone, ar_error = None, ar_history = []\<rparr>, r, s,
       learn_from_run sf ok now ag \<lparr>ar_target = goal, ar_status = RunDone, ar_error = None, ar_history = []\<rparr> m)"
    using assms(2) j by (simp add: run_agent_def Let_def del: plan_loop.simps)
  then show ?thesis by blast
qed

definition local_only :: provider_registry where
  "local_only = \<lparr>pv_all = [(''local'', local_provider point0)], pv_default = Some ''local''\<rparr>"

definition the_fixer :: agent where
  "the_fixer = \<lparr>ag_name = ''role:fixer'', ag_role = Some \<lparr>ro_name = ''fixer'', ro_prompt = ''Repair.'',
     ro_prefixes = [''fs.write'', ''fs.mkdir'', ''python.'', ''git.'', ''shell.run'', ''crypto.'']\<rparr>, ag_max_steps = 3\<rparr>"

definition blank_memory :: planner_memory where
  "blank_memory = \<lparr>pl_facts = [], pl_knowledge = \<lparr>kn_entries = [], kn_disk = Absent\<rparr>, pl_experience = new_experience 9\<rparr>"

definition local_reply :: string where
  "local_reply = local_engine point0 [(''user'', ''Goal: fix issues with: x'')]"

lemma local_engine_last: "local_engine sf (ms @ [x]) = local_engine sf [x]"
  by (simp add: local_engine_def)

lemma fixer_done_without_repair_witness:
  "\<exists>m'. run_agent point0 True 0 the_fixer local_only None ''fix issues with: x'' guarded_files 7 blank_memory =
    (\<lparr>ar_target = ''fix issues with: x'', ar_status = RunDone, ar_error = None, ar_history = []\<rparr>, guarded_files, 7, m')"
proof (rule fixer_done_without_repair)
  show "role_agent (\<lambda>_. ''Repair.'') ''fixer'' 3 = Inr the_fixer"
    by (simp add: role_agent_def role_table_def the_fixer_def)
  show "pv_get None local_only = Inr (local_provider point0)"
    by (simp add: pv_get_def local_only_def)
  show "local_provider point0 0 (first_transcript point0 the_fixer ''fix issues with: x'' guarded_files blank_memory) = Some local_reply"
    using local_engine_last [of point0 "[x]" for x] by (simp add: local_provider_def first_transcript_def local_reply_def)
  have "brace_span local_reply = None" by code_simp
  then show "offered_step the_fixer guarded_files local_reply = Inr None" by (simp add: offered_step_def)
  show "\<not> is_finished local_reply" by code_simp
qed

text \<open>A reply that says "done" anywhere, in any case, ends the run before its step is read.\<close>

lemma done_inside_step_ends_run:
  "contains (str_upper reply) ''DONE'' \<Longrightarrow> p = Some (\<lambda>n t. Some reply) \<Longrightarrow>
   plan_loop (Suc k) sf ag p goal n ex t hist r s = (Inr (), hist @ [SaidDone], r, s)"
  by (simp add: ask_def is_finished_def Let_def)

text \<open>The fallback of an empty plan names no goal: its reason is the template itself.\<close>

lemma empty_plan_reason:
  "json_loads (clean_reply content) = Some (PList []) \<Longrightarrow> parse_plan r content goal = parse_plan r content goal'"
  by (simp add: parse_plan_def py_iter_def)

end
