(* ===== verification/Plans.thy ===== *)
theory Plans
  imports Goals Recollection Planner
begin

text \<open>
  \<open>intelligence/plans.py\<close>: the persisted registry of plans. A step is its attributes, as \<open>__dict__\<close> writes
  them; a loaded plan may hold any value under an attribute, so those are Python values. A plan's steps belong to
  the plan alone: that \<open>create\<close> keeps the list object of its caller is not modelled, no caller keeps it.
\<close>

section \<open>Plans\<close>

type_synonym plan_step = "pyval sdict"

definition new_step :: "pyval \<Rightarrow> pyval \<Rightarrow> string \<Rightarrow> string \<Rightarrow> string \<Rightarrow> plan_step" where
  "new_step action params reason status obs =
     [(''action'', action), (''params'', params), (''reason'', PStr reason), (''status'', PStr status), (''observation'', PStr obs)]"

record plan =
  pl_id :: string
  pl_goal :: pyval
  pl_title :: pyval
  pl_steps :: "plan_step list"
  pl_status :: pyval
  pl_provider :: pyval
  pl_replanned :: pyval
  pl_created :: pyval
  pl_updated :: pyval

definition plan_json :: "plan \<Rightarrow> pyval" where
  "plan_json p = PDict [(''id'', PStr (pl_id p)), (''goal_id'', pl_goal p), (''title'', pl_title p),
     (''steps'', PList (map PDict (pl_steps p))), (''status'', pl_status p), (''provider'', pl_provider p),
     (''replanned'', pl_replanned p), (''created'', pl_created p), (''updated'', pl_updated p)]"

record plan_store =
  ps_plans :: "plan sdict"
  ps_file :: "pyval disk"

definition plan_save :: "bool \<Rightarrow> plan_store \<Rightarrow> unit result \<times> plan_store" where
  "plan_save ok st =
     (let (r, f) = write_json ok json_ok (PList (map plan_json (dvals (ps_plans st)))) (ps_file st) in (r, st\<lparr>ps_file := f\<rparr>))"

definition put_plan :: "bool \<Rightarrow> plan \<Rightarrow> plan_store \<Rightarrow> unit result \<times> plan_store" where
  "put_plan ok p st = plan_save ok (st\<lparr>ps_plans := dput (pl_id p) p (ps_plans st)\<rparr>)"

definition plan_create :: "bool \<Rightarrow> string \<Rightarrow> pyfloat \<Rightarrow> string \<Rightarrow> string \<Rightarrow> plan_step list \<Rightarrow> string option \<Rightarrow> plan_store \<Rightarrow>
    plan result \<times> plan_store" where
  "plan_create ok uid now goal title steps provider st =
     (let p = \<lparr>pl_id = uid, pl_goal = PStr goal, pl_title = PStr title, pl_steps = steps, pl_status = PStr ''active'',
            pl_provider = of_ostr provider, pl_replanned = PInt 0, pl_created = PFloat now, pl_updated = PFloat now\<rparr>;
          (r, st') = put_plan ok p st
      in (map_sum id (\<lambda>_. p) r, st'))"

definition plan_get :: "string \<Rightarrow> plan_store \<Rightarrow> plan option" where
  "plan_get k st = dget (ps_plans st) k"

definition plans_for_goal :: "string \<Rightarrow> plan_store \<Rightarrow> plan list" where
  "plans_for_goal goal st = filter (\<lambda>p. pl_goal p = PStr goal) (dvals (ps_plans st))"

definition on_plan :: "bool \<Rightarrow> string \<Rightarrow> (plan \<Rightarrow> plan) \<Rightarrow> plan_store \<Rightarrow> plan option result \<times> plan_store" where
  "on_plan ok k f st =
     (case dget (ps_plans st) k of
        None \<Rightarrow> (Inr None, st)
      | Some p \<Rightarrow> (let (r, st') = plan_save ok (st\<lparr>ps_plans := dput k (f p) (ps_plans st)\<rparr>) in (map_sum id (\<lambda>_. Some (f p)) r, st')))"

text \<open>A negative index counts from the end; one before the beginning raises.\<close>

definition set_step :: "nat \<Rightarrow> string \<Rightarrow> string \<Rightarrow> plan_step list \<Rightarrow> plan_step list" where
  "set_step i status obs steps =
     steps[i := dput ''observation'' (PStr (take 500 obs)) (dput ''status'' (PStr status) (steps ! i))]"

definition plan_update_step :: "bool \<Rightarrow> pyfloat \<Rightarrow> string \<Rightarrow> int \<Rightarrow> string \<Rightarrow> string \<Rightarrow> plan_store \<Rightarrow> plan option result \<times> plan_store" where
  "plan_update_step ok now k index status obs st =
     (case dget (ps_plans st) k of
        None \<Rightarrow> (Inr None, st)
      | Some p \<Rightarrow>
          (let n = int (length (pl_steps p)) in
           if n \<le> index then (Inr None, st)
           else if index < - n then (Inl (Exc ''IndexError'' ''list index out of range''), st)
           else on_plan ok k (\<lambda>p. p\<lparr>pl_steps := set_step (nat (if index < 0 then n + index else index)) status obs (pl_steps p),
                  pl_updated := PFloat now\<rparr>) st))"

definition plan_set_steps :: "bool \<Rightarrow> pyfloat \<Rightarrow> string \<Rightarrow> plan_step list \<Rightarrow> plan_store \<Rightarrow> plan option result \<times> plan_store" where
  "plan_set_steps ok now k steps = on_plan ok k (\<lambda>p. p\<lparr>pl_steps := steps, pl_updated := PFloat now\<rparr>)"

definition plan_finish :: "bool \<Rightarrow> pyfloat \<Rightarrow> string \<Rightarrow> string \<Rightarrow> plan_store \<Rightarrow> plan option result \<times> plan_store" where
  "plan_finish ok now k status = on_plan ok k (\<lambda>p. p\<lparr>pl_status := PStr status, pl_updated := PFloat now\<rparr>)"

text \<open>Adding one to the counter raises when a loaded plan holds no number there, after the steps were added.\<close>

definition py_succ :: "pyval \<Rightarrow> pyval option" where
  "py_succ v = (case v of PBool b \<Rightarrow> Some (PInt (if b then 2 else 1)) | PInt i \<Rightarrow> Some (PInt (i + 1))
     | PFloat x \<Rightarrow> Some (PFloat (x + 1)) | _ \<Rightarrow> None)"

definition plan_append_steps :: "bool \<Rightarrow> pyfloat \<Rightarrow> string \<Rightarrow> plan_step list \<Rightarrow> plan_store \<Rightarrow> plan option result \<times> plan_store" where
  "plan_append_steps ok now k steps st =
     (case dget (ps_plans st) k of
        None \<Rightarrow> (Inr None, st)
      | Some p \<Rightarrow>
          (case py_succ (pl_replanned p) of
             None \<Rightarrow> (Inl (Exc ''TypeError'' ''can only concatenate''),
               st\<lparr>ps_plans := dput k (p\<lparr>pl_steps := pl_steps p @ steps\<rparr>) (ps_plans st)\<rparr>)
           | Some n \<Rightarrow> on_plan ok k (\<lambda>p. p\<lparr>pl_steps := pl_steps p @ steps, pl_replanned := n, pl_status := PStr ''active'',
               pl_updated := PFloat now\<rparr>) st))"

definition plan_purge_goal :: "bool \<Rightarrow> string \<Rightarrow> plan_store \<Rightarrow> nat result \<times> plan_store" where
  "plan_purge_goal ok goal st =
     (let gone = dkeys (filter (\<lambda>(k, p). pl_goal p = PStr goal) (ps_plans st));
          st1 = st\<lparr>ps_plans := fold ddel gone (ps_plans st)\<rparr>
      in if gone = [] then (Inr 0, st1)
         else (let (r, st2) = plan_save ok st1 in (map_sum id (\<lambda>_. length gone) r, st2)))"

definition list_plans :: "string option \<Rightarrow> plan_store \<Rightarrow> plan list" where
  "list_plans status st =
     (case status of
        None \<Rightarrow> dvals (ps_plans st)
      | Some s \<Rightarrow> if s = [] then dvals (ps_plans st) else filter (\<lambda>p. pl_status p = PStr s) (dvals (ps_plans st)))"

section \<open>Loading\<close>

text \<open>
  \<open>PlanStep(**step)\<close>: an unknown attribute or a missing action is a TypeError. An identifier, a goal or a
  title that is missing is a KeyError, which the handler does not catch; every other fault empties the registry.
\<close>

definition step_fields :: "string list" where
  "step_fields = [''action'', ''params'', ''reason'', ''status'', ''observation'']"

definition step_of :: "pyval \<Rightarrow> plan_step option" where
  "step_of v =
     (case v of
        PDict d \<Rightarrow>
          (case dget d ''action'' of
             None \<Rightarrow> None
           | Some a \<Rightarrow>
               if list_all (\<lambda>k. k \<in> set step_fields) (dkeys d)
               then Some [(''action'', a), (''params'', dgetd d ''params'' (PDict [])), (''reason'', dgetd d ''reason'' (PStr [])),
                 (''status'', dgetd d ''status'' (PStr ''pending'')), (''observation'', dgetd d ''observation'' (PStr []))]
               else None)
      | _ \<Rightarrow> None)"

fun steps_of :: "pyval list \<Rightarrow> plan_step list option" where
  "steps_of [] = Some []"
| "steps_of (v # vs) = (case step_of v of None \<Rightarrow> None | Some s \<Rightarrow> map_option (Cons s) (steps_of vs))"

datatype plan_outcome = PlanOk plan | PlanMissing string | PlanBad

definition plan_of_row :: "pyfloat \<Rightarrow> pyval \<Rightarrow> plan_outcome" where
  "plan_of_row now row =
     (case row of
        PDict d \<Rightarrow>
          (case (dget d ''id'', dget d ''goal_id'', dget d ''title'') of
             (None, _, _) \<Rightarrow> PlanMissing ''id''
           | (_, None, _) \<Rightarrow> PlanMissing ''goal_id''
           | (_, _, None) \<Rightarrow> PlanMissing ''title''
           | (Some i, Some g, Some t) \<Rightarrow>
               (case (key_text i, py_iter (dgetd d ''steps'' (PList []))) of
                  (Some k, Inr vs) \<Rightarrow>
                    (case steps_of vs of
                       None \<Rightarrow> PlanBad
                     | Some steps \<Rightarrow> PlanOk \<lparr>pl_id = k, pl_goal = g, pl_title = t, pl_steps = steps,
                         pl_status = dgetd d ''status'' (PStr ''active''), pl_provider = dgetd d ''provider'' PNone,
                         pl_replanned = dgetd d ''replanned'' (PInt 0), pl_created = dgetd d ''created'' (PFloat now),
                         pl_updated = dgetd d ''updated'' (PFloat now)\<rparr>)
                | _ \<Rightarrow> PlanBad))
      | _ \<Rightarrow> PlanBad)"

fun load_plan_rows :: "pyfloat \<Rightarrow> pyval list \<Rightarrow> plan sdict \<Rightarrow> plan sdict result" where
  "load_plan_rows now [] ps = Inr ps"
| "load_plan_rows now (r # rs) ps =
     (case plan_of_row now r of
        PlanMissing k \<Rightarrow> Inl (key_error k)
      | PlanBad \<Rightarrow> Inr []
      | PlanOk p \<Rightarrow> load_plan_rows now rs (dput (pl_id p) p ps))"

definition new_plan_store :: "pyfloat \<Rightarrow> pyval disk \<Rightarrow> plan_store result" where
  "new_plan_store now f =
     map_sum id (\<lambda>ps. \<lparr>ps_plans = ps, ps_file = f\<rparr>)
       (case f of Stored (PList rows) \<Rightarrow> load_plan_rows now rows [] | _ \<Rightarrow> Inr [])"

section \<open>Plans survive a restart\<close>

definition step_shape :: "plan_step \<Rightarrow> bool" where
  "step_shape s \<longleftrightarrow> dkeys s = step_fields"

definition plans_shape :: "plan_store \<Rightarrow> bool" where
  "plans_shape st \<longleftrightarrow> dict_wf (ps_plans st) \<and> list_all (\<lambda>(k, p). pl_id p = k \<and> list_all step_shape (pl_steps p)) (ps_plans st)"

lemma step_back: "step_shape s \<Longrightarrow> step_of (PDict s) = Some s"
proof -
  assume "step_shape s"
  then obtain a b c d e where "s = [(''action'', a), (''params'', b), (''reason'', c), (''status'', d), (''observation'', e)]"
    by (auto simp: step_shape_def step_fields_def map_eq_Cons_conv)
  then show ?thesis by (simp add: step_of_def step_fields_def dgetd_def)
qed

lemma steps_back: "list_all step_shape ss \<Longrightarrow> steps_of (map PDict ss) = Some ss"
  by (induction ss) (simp_all add: step_back)

lemma plan_back: "list_all step_shape (pl_steps p) \<Longrightarrow> plan_of_row now (plan_json p) = PlanOk p"
  by (simp add: plan_of_row_def plan_json_def dgetd_def py_iter_def steps_back)

lemma plan_rows_back:
  "list_all (\<lambda>(k, p). pl_id p = k \<and> list_all step_shape (pl_steps p)) ps \<Longrightarrow>
   load_plan_rows now (map plan_json (dvals ps)) acc = Inr (dmerge acc ps)"
  by (induction ps arbitrary: acc) (auto simp: plan_back dmerge_def)

lemma plan_save_plans [simp]: "ps_plans (snd (plan_save ok st)) = ps_plans st"
  by (simp add: plan_save_def Let_def case_prod_unfold)

lemma on_plan_shape:
  assumes "plans_shape st" and "\<And>p. pl_id (f p) = pl_id p \<and> (list_all step_shape (pl_steps p) \<longrightarrow> list_all step_shape (pl_steps (f p)))"
  shows "plans_shape (snd (on_plan ok k f st))"
proof (cases "dget (ps_plans st) k")
  case (Some p)
  then have "pl_id p = k \<and> list_all step_shape (pl_steps p)"
    using assms(1) dget_Some_in [OF Some] by (auto simp: plans_shape_def list_all_iff)
  then have "list_all (\<lambda>(k, p). pl_id p = k \<and> list_all step_shape (pl_steps p)) (dput k (f p) (ps_plans st))"
    using assms by (intro list_all_dput) (auto simp: plans_shape_def)
  then show ?thesis using assms(1) Some
    by (simp add: on_plan_def plans_shape_def Let_def case_prod_unfold dict_wf_put)
qed (use assms(1) in \<open>simp add: on_plan_def\<close>)

lemma step_shape_set: "list_all step_shape ss \<Longrightarrow> list_all step_shape (set_step i status obs ss)"
proof (cases "i < length ss")
  case True
  assume a: "list_all step_shape ss"
  then have "step_shape (ss ! i)" using True by (simp add: list_all_length)
  then have "step_shape (dput ''observation'' (PStr (take 500 obs)) (dput ''status'' (PStr status) (ss ! i)))"
    unfolding step_shape_def by (simp add: dkeys_put_present step_fields_def del: set_map)
  then show ?thesis using a by (auto simp: set_step_def list_all_iff dest: set_update_subset_insert [THEN subsetD])
qed (simp add: set_step_def list_update_beyond)

datatype plan_op =
    PCreate string string string "plan_step list" "string option"
  | PStep string int string string
  | PSetSteps string "plan_step list"
  | PFinish string string
  | PAppend string "plan_step list"
  | PPurge string

fun run_plan :: "bool \<Rightarrow> pyfloat \<Rightarrow> plan_op \<Rightarrow> plan_store \<Rightarrow> plan_store" where
  "run_plan ok now (PCreate uid goal title steps prov) st = snd (plan_create ok uid now goal title steps prov st)"
| "run_plan ok now (PStep k i status obs) st = snd (plan_update_step ok now k i status obs st)"
| "run_plan ok now (PSetSteps k steps) st = snd (plan_set_steps ok now k steps st)"
| "run_plan ok now (PFinish k status) st = snd (plan_finish ok now k status st)"
| "run_plan ok now (PAppend k steps) st = snd (plan_append_steps ok now k steps st)"
| "run_plan ok now (PPurge goal) st = snd (plan_purge_goal ok goal st)"

text \<open>The steps that an operation brings in are steps.\<close>

fun op_shape :: "plan_op \<Rightarrow> bool" where
  "op_shape (PCreate uid goal title steps prov) = list_all step_shape steps"
| "op_shape (PSetSteps k steps) = list_all step_shape steps"
| "op_shape (PAppend k steps) = list_all step_shape steps"
| "op_shape _ = True"

lemma put_plan_shape: "plans_shape st \<Longrightarrow> list_all step_shape (pl_steps p) \<Longrightarrow> plans_shape (snd (put_plan ok p st))"
  by (simp add: plans_shape_def put_plan_def dict_wf_put list_all_dput)

lemma fold_del_keeps: "dict_wf d \<Longrightarrow> list_all P d \<Longrightarrow> dict_wf (fold ddel ks d) \<and> list_all P (fold ddel ks d)"
  by (induction ks arbitrary: d) (simp_all add: dict_wf_del list_all_del)

lemma purge_plans: "\<exists>ks. ps_plans (snd (plan_purge_goal ok goal st)) = fold ddel ks (ps_plans st)"
  by (auto simp: plan_purge_goal_def Let_def case_prod_unfold intro: exI [of _ "[]"])

lemma purge_shape: "plans_shape st \<Longrightarrow> plans_shape (snd (plan_purge_goal ok goal st))"
  using purge_plans [of ok goal st] fold_del_keeps [of "ps_plans st"] by (auto simp: plans_shape_def)

lemma append_shape: "plans_shape st \<Longrightarrow> list_all step_shape steps \<Longrightarrow> plans_shape (snd (plan_append_steps ok now k steps st))"
proof (cases "dget (ps_plans st) k")
  case (Some p)
  assume a: "plans_shape st" "list_all step_shape steps"
  then have "pl_id p = k \<and> list_all step_shape (pl_steps p)"
    using dget_Some_in [OF Some] by (auto simp: plans_shape_def list_all_iff)
  then have "list_all (\<lambda>(k, p). pl_id p = k \<and> list_all step_shape (pl_steps p)) (dput k (p\<lparr>pl_steps := pl_steps p @ steps\<rparr>) (ps_plans st))"
    using a by (intro list_all_dput) (auto simp: plans_shape_def)
  with a Some show ?thesis
    by (auto simp: plan_append_steps_def plans_shape_def dict_wf_put on_plan_shape [unfolded plans_shape_def] split: option.splits)
qed (simp add: plan_append_steps_def)

lemma run_plan_shape: "plans_shape st \<Longrightarrow> op_shape op \<Longrightarrow> plans_shape (run_plan ok now op st)"
  by (cases op)
    (auto simp: plan_create_def Let_def case_prod_unfold put_plan_shape plan_update_step_def plan_set_steps_def plan_finish_def
      append_shape purge_shape step_shape_set split: option.splits intro!: on_plan_shape)

text \<open>
  After any run of the operations on plans, steps that failed to be written included, a registry that
  can be written is what the next process loads: the same plans with the same steps, in the same order.
\<close>

lemma plans_survive_restart:
  assumes "plans_shape st" and "list_all (\<lambda>(ok, now, op). op_shape op) ops"
    and "plan_save True (fold (\<lambda>(ok, now, op). run_plan ok now op) ops st) = (Inr (), st')"
  shows "new_plan_store now' (ps_file st') = Inr st'"
proof -
  have "plans_shape (fold (\<lambda>(ok, now, op). run_plan ok now op) ops st)" (is "plans_shape ?s")
    using assms(1,2) run_plan_shape by (induction ops arbitrary: st) (auto simp: split_beta)
  moreover from assms(3) have "ps_file st' = Stored (PList (map plan_json (dvals (ps_plans ?s))))" "ps_plans st' = ps_plans ?s"
    by (auto simp: plan_save_def write_json_def Let_def split: if_splits)
  ultimately show ?thesis
    by (simp add: new_plan_store_def plan_rows_back dmerge_all plans_shape_def del: map_map)
qed

definition no_plans :: plan_store where
  "no_plans = \<lparr>ps_plans = [], ps_file = Absent\<rparr>"

definition demo_plan_ops :: "(bool \<times> pyfloat \<times> plan_op) list" where
  "demo_plan_ops = [(True, 0, PCreate ''p'' ''g'' ''tidy'' [new_step (PStr ''fs.list'') (PDict []) [] ''pending'' []] None),
     (False, 1, PStep ''p'' (- 1) ''failed'' ''no such file''), (True, 2, PFinish ''p'' ''failed'')]"

lemma plans_survive_restart_witness:
  "new_plan_store 9 (ps_file (snd (plan_save True (fold (\<lambda>(ok, now, op). run_plan ok now op) demo_plan_ops no_plans)))) =
     Inr (snd (plan_save True (fold (\<lambda>(ok, now, op). run_plan ok now op) demo_plan_ops no_plans)))"
proof (rule plans_survive_restart)
  show "plans_shape no_plans" by (simp add: plans_shape_def no_plans_def)
  show "list_all (\<lambda>(ok, now, op). op_shape op) demo_plan_ops" by code_simp
  have "fst (plan_save True (fold (\<lambda>(ok, now, op). run_plan ok now op) demo_plan_ops no_plans)) = Inr ()" by code_simp
  then show "plan_save True (fold (\<lambda>(ok, now, op). run_plan ok now op) demo_plan_ops no_plans) =
      (Inr (), snd (plan_save True (fold (\<lambda>(ok, now, op). run_plan ok now op) demo_plan_ops no_plans)))"
    by (metis prod.collapse)
qed

end
