(* ===== verification/Insight.thy ===== *)
theory Insight
  imports Plans Attention
begin

text \<open>
  What the intelligence layer derives from the stores: \<open>intelligence/reflection.py\<close>,
  \<open>learning.py\<close>, \<open>providers.py\<close>, \<open>curiosity.py\<close>, \<open>proactive.py\<close> and \<open>maintenance.py\<close>. Every function threads the
  knowledge store, which may fail to be written, through its steps; the clock is read once per call.
\<close>

section \<open>Steps that may raise\<close>

text \<open>Sequencing over a state: an exception keeps the state that was reached.\<close>

definition then_do :: "'a result \<times> 'c \<Rightarrow> ('a \<Rightarrow> 'c \<Rightarrow> 'b result \<times> 'c) \<Rightarrow> 'b result \<times> 'c" where
  "then_do m f = (case m of (Inl e, c) \<Rightarrow> (Inl e, c) | (Inr a, c) \<Rightarrow> f a c)"

lemma then_do_simps [simp]: "then_do (Inl e, c) f = (Inl e, c)" "then_do (Inr a, c) f = f a c"
  by (simp_all add: then_do_def)

lemma then_do_Inr: "then_do m f = (Inr b, c') \<longleftrightarrow> (\<exists>a c. m = (Inr a, c) \<and> f a c = (Inr b, c'))"
  by (cases m; cases "fst m") (auto simp: then_do_def)

definition pure_step :: "'a result \<Rightarrow> 'c \<Rightarrow> 'a result \<times> 'c" where
  "pure_step r c = (r, c)"

fun each_do :: "('x \<Rightarrow> 'c \<Rightarrow> 'a list result \<times> 'c) \<Rightarrow> 'x list \<Rightarrow> 'c \<Rightarrow> 'a list result \<times> 'c" where
  "each_do f [] c = (Inr [], c)"
| "each_do f (x # xs) c = then_do (f x c) (\<lambda>a c. then_do (each_do f xs c) (\<lambda>b c. (Inr (a @ b), c)))"

text \<open>What every step keeps, the loop keeps, whether it ends or raises.\<close>

lemma each_do_keeps:
  assumes "\<And>x c. P c \<Longrightarrow> P (snd (f x c))" and "P c"
  shows "P (snd (each_do f xs c))"
  using assms(2)
proof (induction xs arbitrary: c)
  case (Cons x xs)
  have "P (snd (f x c))" using assms(1) Cons.prems by blast
  with Cons.IH show ?case
    by (cases "f x c"; cases "fst (f x c)"; cases "each_do f xs (snd (f x c))"; cases "fst (each_do f xs (snd (f x c)))")
      (auto simp: then_do_def, metis snd_conv, metis snd_conv)
qed simp

section \<open>Reflection passes\<close>

definition insight :: "string \<Rightarrow> string \<Rightarrow> pyval \<Rightarrow> pyval sdict" where
  "insight kind key v = [(''kind'', PStr kind), (''key'', PStr key), (''value'', v)]"

definition lesson_of :: "bool \<Rightarrow> pyfloat \<Rightarrow> exp_row \<Rightarrow> knowledge \<Rightarrow> pyval sdict list result \<times> knowledge" where
  "lesson_of ok now e k =
     (if dgetd e ''status'' PNone = PStr ''done'' \<and> truthy (dgetd e ''lesson'' PNone) then
        then_do (pure_step (str_slice 50 (dgetd e ''target'' (PStr []))) k) (\<lambda>t k.
          (let key = ''reflected_lesson:'' @ t; v = dgetd e ''lesson'' PNone
           in then_do (kn_learn ok now key v ''reflection'' (7 / 10) k) (\<lambda>_ k. (Inr [insight ''lesson'' key v], k))))
      else (Inr [], k))"

text \<open>Failures by target. Targets are text: a failure of any other target raises here, in the source only once repeated.\<close>

fun failure_counts :: "exp_row list \<Rightarrow> pyval list sdict \<Rightarrow> pyval list sdict result" where
  "failure_counts [] d = Inr d"
| "failure_counts (e # es) d =
     (let target = dgetd e ''target'' (PStr []) in
      if dgetd e ''status'' PNone = PStr ''failed'' \<and> truthy target then
        (case target of
           PStr t \<Rightarrow> failure_counts es (dput t (dgetd d t [] @ [dgetd e ''error'' (PStr [])]) d)
         | _ \<Rightarrow> Inl (Exc ''TypeError'' ''object is not subscriptable''))
      else failure_counts es d)"

definition hypothesis_of :: "bool \<Rightarrow> pyfloat \<Rightarrow> string \<times> pyval list \<Rightarrow> knowledge \<Rightarrow> pyval sdict list result \<times> knowledge" where
  "hypothesis_of ok now x k =
     (case x of (target, errors) \<Rightarrow>
        if 2 \<le> length errors then
          then_do (pure_step (str_slice 80 (hd errors)) k) (\<lambda>e k.
            (let v = PStr (''repeated failure on '' @ [CHR 0x27] @ take 60 target @ [CHR 0x27] @ '' suggests '' @ e);
                 key = ''hypothesis:'' @ take 50 target
             in then_do (kn_learn ok now key v ''reflection'' (1 / 2) k) (\<lambda>_ k. (Inr [insight ''hypothesis'' key v], k))))
        else (Inr [], k))"

definition question_of :: "bool \<Rightarrow> pyfloat \<Rightarrow> exp_row \<Rightarrow> knowledge \<Rightarrow> pyval sdict list result \<times> knowledge" where
  "question_of ok now e k =
     (if dgetd e ''status'' PNone = PStr ''failed'' \<and> \<not> truthy (dgetd e ''lesson'' PNone) then
        then_do (pure_step (str_slice 60 (dgetd e ''target'' (PStr []))) k) (\<lambda>t k.
          (let v = PStr (''What reliably resolves '' @ [CHR 0x27] @ t @ [CHR 0x27] @ ''?''); key = ''question:'' @ take 50 t
           in if truthy (kn_recall key PNone k) then (Inr [], k)
              else then_do (kn_learn ok now key v ''reflection'' (4 / 10) k) (\<lambda>_ k. (Inr [insight ''question'' key v], k))))
      else (Inr [], k))"

definition reflect_now :: "(pyfloat \<Rightarrow> string) \<Rightarrow> bool \<Rightarrow> pyfloat \<Rightarrow> int \<Rightarrow> experience \<Rightarrow> knowledge \<Rightarrow>
    pyval sdict list result \<times> knowledge" where
  "reflect_now sf ok now max_outputs ex k =
     then_do (pure_step (ex_recall (Some 30) ex) k) (\<lambda>es k.
     then_do (case reflect ok now (default_hooks sf) es (Some k) of (r, ks) \<Rightarrow> (r, the ks)) (\<lambda>_ k.
     then_do (each_do (lesson_of ok now) (slice_last 12 es) k) (\<lambda>lessons k.
     then_do (pure_step (failure_counts es []) k) (\<lambda>counts k.
     then_do (each_do (hypothesis_of ok now) counts k) (\<lambda>hypotheses k.
     then_do (each_do (question_of ok now) (slice_last 10 es) k) (\<lambda>questions k.
       (Inr (slice_first max_outputs (lessons @ hypotheses @ questions)), k)))))))"

definition should_reflect_now :: "pyfloat \<Rightarrow> pyfloat \<Rightarrow> string \<Rightarrow> int \<Rightarrow> bool" where
  "should_reflect_now now latest mode failures \<longleftrightarrow>
     \<not> now - latest < 300 \<and> (mode \<in> {''idle'', ''reflection'', ''recovery'', ''maintenance''} \<or> 2 \<le> failures)"

definition reflection_stats :: "knowledge \<Rightarrow> nat \<times> nat \<times> nat \<times> nat" where
  "reflection_stats k = (length (kn_search ''lesson:'' None k), length (kn_search ''reflected_lesson:'' None k),
     length (kn_search ''hypothesis:'' None k), length (kn_search ''question:'' None k))"

section \<open>Learning\<close>

definition evaluate_result :: "bool \<Rightarrow> string option \<Rightarrow> string" where
  "evaluate_result success error =
     (if success then ''success''
      else (let l = str_lower (case error of None \<Rightarrow> [] | Some e \<Rightarrow> e) in
            if contains l ''permission denied'' \<or> contains l ''denied by default'' then ''blocked'' else ''failure''))"

text \<open>The result of a cycle is absent, or a success flag with an error.\<close>

definition record_cycle :: "bool \<Rightarrow> pyfloat \<Rightarrow> string \<Rightarrow> string \<Rightarrow> (bool \<times> string option) option \<Rightarrow> string \<Rightarrow> string option \<Rightarrow>
    knowledge \<times> experience \<Rightarrow> string result \<times> knowledge \<times> experience" where
  "record_cycle ok now intention action res given lesson c =
     (let result_ok = (case res of None \<Rightarrow> False | Some (s, _) \<Rightarrow> s);
          ev = (case res of None \<Rightarrow> [] | Some (s, e) \<Rightarrow> if given = [] then evaluate_result s e else given);
          row = [(''target'', PStr intention), (''status'', PStr (if result_ok then ''done'' else ''failed'')), (''action'', PStr action),
            (''evaluation'', PStr ev), (''lesson'', of_ostr lesson), (''learning'', PBool True)]
      in then_do (case ex_record now row (snd c) of (r, x) \<Rightarrow> (r, (fst c, x))) (\<lambda>_ c.
         (case lesson of
            None \<Rightarrow> (Inr ev, c)
          | Some l \<Rightarrow>
              if l = [] then (Inr ev, c)
              else (let (r, k) = kn_learn ok now (''lesson:'' @ take 60 intention) (PStr l) ''learning''
                          (if ev = ''success'' then 8 / 10 else 6 / 10) (fst c)
                    in (map_sum id (\<lambda>_. ev) r, (k, snd c))))))"

text \<open>\<open>int(v)\<close> of a stored counter.\<close>

definition to_int :: "pyval \<Rightarrow> int result" where
  "to_int v =
     (case v of
        PInt i \<Rightarrow> Inr i
      | PBool b \<Rightarrow> Inr (if b then 1 else 0)
      | PFloat x \<Rightarrow> Inr (py_trunc x)
      | PStr s \<Rightarrow> (case py_int_of s of Some i \<Rightarrow> Inr i | None \<Rightarrow> Inl (Exc ''ValueError'' (''invalid literal for int() with base 10: '' @ repr_str s)))
      | _ \<Rightarrow> Inl (Exc ''TypeError'' ''int() argument must be a string or a number''))"

definition outcome_key :: "string \<Rightarrow> string" where
  "outcome_key action = ''capability_outcome:'' @ action"

definition next_outcome :: "pyval \<Rightarrow> bool \<Rightarrow> pyval result" where
  "next_outcome previous success =
     (case (if previous = PNone then Inr [(''uses'', PInt 0), (''successes'', PInt 0), (''failures'', PInt 0)] else as_dict previous) of
        Inl e \<Rightarrow> Inl e
      | Inr d \<Rightarrow>
          (case (to_int (dgetd d ''uses'' (PInt 0)), to_int (dgetd d ''successes'' (PInt 0)), to_int (dgetd d ''failures'' (PInt 0))) of
             (Inr u, Inr s, Inr f) \<Rightarrow>
               (let uses = u + 1; succ = s + (if success then 1 else 0); fails = f + (if success then 0 else 1)
                in if uses = 0 then Inl (Exc ''ZeroDivisionError'' ''division by zero'')
                   else Inr (PDict [(''uses'', PInt uses), (''successes'', PInt succ), (''failures'', PInt fails),
                     (''reliability'', PFloat (py_round 3 (of_int succ / of_int uses)))]))
           | (Inl e, _, _) \<Rightarrow> Inl e
           | (_, Inl e, _) \<Rightarrow> Inl e
           | (_, _, Inl e) \<Rightarrow> Inl e))"

definition record_outcome :: "bool \<Rightarrow> pyfloat \<Rightarrow> string \<Rightarrow> bool \<Rightarrow> knowledge \<Rightarrow> unit result \<times> knowledge" where
  "record_outcome ok now action success k =
     then_do (pure_step (next_outcome (kn_recall (outcome_key action) PNone k) success) k)
       (\<lambda>v k. kn_learn ok now (outcome_key action) v ''learning'' (9 / 10) k)"

section \<open>Provider health\<close>

text \<open>
  A probe answers what \<open>models()\<close> of the remote provider gives: the list, None for a missing one, or an
  exception.
\<close>

record provider_intel =
  pi_remote :: "bool option"
  pi_checked :: pyfloat

record provider_health =
  ph_registered :: "string list"
  ph_local :: bool
  ph_configured :: bool
  ph_remote :: bool
  ph_checked :: pyfloat

definition probe_remote :: "pyfloat \<Rightarrow> string list option result \<Rightarrow> provider_intel \<Rightarrow> bool \<times> provider_intel" where
  "probe_remote now models st =
     (case (if now - pi_checked st < 60 then pi_remote st else None) of
        Some b \<Rightarrow> (b, st)
      | None \<Rightarrow>
          (let b = (case models of Inr (Some ms) \<Rightarrow> ms \<noteq> [] | _ \<Rightarrow> False) in (b, \<lparr>pi_remote = Some b, pi_checked = now\<rparr>)))"

definition providers_health :: "pyfloat \<Rightarrow> bool \<Rightarrow> string list option result \<Rightarrow> provider_registry \<Rightarrow> provider_intel \<Rightarrow>
    provider_health \<times> provider_intel" where
  "providers_health now has_key models pr st =
     (let names = pv_names pr;
          local = (''local'' \<in> set names \<or> names \<noteq> []);
          configured = (''remote'' \<in> set names \<and> has_key);
          (available, st') = (if configured then probe_remote now models st else (False, st))
      in (\<lparr>ph_registered = names, ph_local = local, ph_configured = configured, ph_remote = available, ph_checked = pi_checked st'\<rparr>, st'))"

definition select_provider :: "pyfloat \<Rightarrow> bool \<Rightarrow> string list option result \<Rightarrow> string option \<Rightarrow> provider_registry \<Rightarrow> provider_intel \<Rightarrow>
    string \<times> provider_intel" where
  "select_provider now has_key models prefer pr st =
     (if (case prefer of None \<Rightarrow> False | Some p \<Rightarrow> p \<noteq> [] \<and> p \<in> set (pv_names pr)) then (the prefer, st)
      else (let (h, st') = providers_health now has_key models pr st
            in (if ph_configured h \<and> ph_remote h then ''remote'' else if ph_local h then ''local''
                else (case pv_names pr of [] \<Rightarrow> ''local'' | n # _ \<Rightarrow> n), st')))"

section \<open>Curiosity\<close>

record question =
  qu_rank :: pyfloat
  qu_kind :: string
  qu_text :: string
  qu_evidence :: "pyval sdict"

definition quoted :: "string \<Rightarrow> string" where
  "quoted s = [CHR 0x27] @ s @ [CHR 0x27]"

fun count_failures :: "exp_row list \<Rightarrow> nat sdict \<Rightarrow> nat sdict result" where
  "count_failures [] d = Inr d"
| "count_failures (e # es) d =
     (if dgetd e ''status'' PNone = PStr ''failed'' then
        (case str_slice 60 (dgetd e ''target'' (PStr [])) of
           Inl x \<Rightarrow> Inl x
         | Inr t \<Rightarrow> count_failures es (if t = [] then d else dput t (dgetd d t 0 + 1) d))
      else count_failures es d)"

definition has_lesson :: "string \<Rightarrow> knowledge \<Rightarrow> bool" where
  "has_lesson t k \<longleftrightarrow> truthy (kn_recall (''lesson:'' @ take 50 t) PNone k) \<or> kn_search (''lesson:'' @ take 20 t) (Some 1) k \<noteq> []"

definition repeated_problem :: "string \<times> nat \<Rightarrow> question" where
  "repeated_problem x = \<lparr>qu_rank = 1, qu_kind = ''repeated_problem'', qu_text = ''What reliably solves '' @ quoted (fst x) @ ''?'',
     qu_evidence = [(''target'', PStr (fst x)), (''failures'', PInt (int (snd x)))]\<rparr>"

text \<open>How long ago a goal was touched: its time stamp may be any loaded value.\<close>

definition goal_age :: "pyfloat \<Rightarrow> goal \<Rightarrow> pyfloat result" where
  "goal_age now g =
     (case py_number (gattr ''updated'' g) of None \<Rightarrow> Inl (Exc ''TypeError'' ''unsupported operand'') | Some u \<Rightarrow> Inr (now - u))"

definition stalled_goal :: "pyfloat \<Rightarrow> goal \<Rightarrow> question list result" where
  "stalled_goal now g =
     (case goal_age now g of
        Inl e \<Rightarrow> Inl e
      | Inr age \<Rightarrow>
          if 3600 < age \<and> py_number (gattr ''progress'' g) = Some 0 then
            (case str_slice 60 (gattr ''title'' g) of
               Inl e \<Rightarrow> Inl e
             | Inr t \<Rightarrow> Inr [\<lparr>qu_rank = 7 / 10, qu_kind = ''stalled_goal'', qu_text = ''Why has goal '' @ quoted t @ '' made no progress?'',
                 qu_evidence = [(''goal_id'', gattr ''id'' g), (''age_seconds'', PInt (py_trunc age))]\<rparr>])
          else Inr [])"

definition provider_question :: "provider_health \<Rightarrow> question list" where
  "provider_question h =
     (if ph_configured h \<and> \<not> ph_remote h
      then [\<lparr>qu_rank = 6 / 10, qu_kind = ''provider'', qu_text = ''Is the remote AI provider reachable again?'',
             qu_evidence = [(''provider'', PStr ''remote'')]\<rparr>] else [])"

definition untested :: "exp_row list \<Rightarrow> string list \<Rightarrow> question list" where
  "untested es actions =
     map (\<lambda>a. \<lparr>qu_rank = 2 / 10, qu_kind = ''untested_capability'', qu_text = ''What does '' @ quoted a @ '' return on this TerminalP host?'',
        qu_evidence = [(''action'', PStr a)]\<rparr>)
       (filter (\<lambda>a. startswith a ''android.'' \<and> \<not> list_ex (\<lambda>e. dgetd e ''action'' (PStr []) = PStr a) es) actions)"

definition unhashable :: "pyval \<Rightarrow> bool" where
  "unhashable v = (case v of PList _ \<Rightarrow> True | PDict _ \<Rightarrow> True | _ \<Rightarrow> False)"

definition questions :: "pyfloat \<Rightarrow> int \<Rightarrow> experience \<Rightarrow> knowledge \<Rightarrow> goal_store \<Rightarrow> provider_health \<Rightarrow> string list \<Rightarrow> question list result" where
  "questions now limit ex k goals h actions =
     (case ex_recall (Some 40) ex of
        Inl e \<Rightarrow> Inl e
      | Inr es \<Rightarrow>
     (case count_failures es [] of
        Inl e \<Rightarrow> Inl e
      | Inr counts \<Rightarrow>
     (case active_goals goals of
        Inl e \<Rightarrow> Inl e
      | Inr active \<Rightarrow>
     (case try_map (stalled_goal now) active of
        Inl e \<Rightarrow> Inl e
      | Inr stalled \<Rightarrow>
          if list_ex (\<lambda>e. unhashable (dgetd e ''action'' (PStr []))) es then Inl (Exc ''TypeError'' ''unhashable type'')
          else Inr (slice_first limit (sort_desc qu_rank
            (map repeated_problem (filter (\<lambda>(t, n). 2 \<le> n \<and> \<not> has_lesson t k) counts) @
             concat stalled @ provider_question h @ untested es actions)))))))"

section \<open>Suggestions\<close>

record suggestion =
  su_id :: pyval
  su_kind :: pyval
  su_summary :: pyval
  su_evidence :: pyval
  su_confidence :: pyval
  su_ts :: pyval

record proactive =
  pro_list :: "suggestion list"
  pro_file :: "pyval disk"

definition suggestion_json :: "suggestion \<Rightarrow> pyval" where
  "suggestion_json s = PDict [(''id'', su_id s), (''kind'', su_kind s), (''summary'', su_summary s), (''evidence'', su_evidence s),
     (''confidence'', su_confidence s), (''ts'', su_ts s)]"

definition pro_save :: "bool \<Rightarrow> proactive \<Rightarrow> unit result \<times> proactive" where
  "pro_save ok p =
     (let (r, f) = write_json ok json_ok (PList (map suggestion_json (pro_list p))) (pro_file p) in (r, p\<lparr>pro_file := f\<rparr>))"

text \<open>
  A suggestion whose summary is among the last twenty is not added again; the last fifty are kept. (Summaries
  of a foreign file are taken to be hashable, and equal only when they are the same value.)
\<close>

definition merge_one :: "suggestion list \<times> pyval list \<Rightarrow> suggestion \<Rightarrow> suggestion list \<times> pyval list" where
  "merge_one st s = (if su_summary s \<in> set (snd st) then st else (fst st @ [s], su_summary s # snd st))"

definition merge_list :: "suggestion list \<Rightarrow> suggestion list \<Rightarrow> suggestion list" where
  "merge_list old fresh = slice_last 50 (fst (foldl merge_one (old, map su_summary (slice_last 20 old)) fresh))"

definition pro_merge :: "bool \<Rightarrow> suggestion list \<Rightarrow> proactive \<Rightarrow> unit result \<times> proactive" where
  "pro_merge ok fresh p = pro_save ok (p\<lparr>pro_list := merge_list (pro_list p) fresh\<rparr>)"

definition pro_clear :: "bool \<Rightarrow> proactive \<Rightarrow> unit result \<times> proactive" where
  "pro_clear ok p = pro_save ok (p\<lparr>pro_list := []\<rparr>)"

definition pro_suggestions :: "int \<Rightarrow> proactive \<Rightarrow> suggestion list result" where
  "pro_suggestions limit p =
     (if 1 < length (pro_list p) \<and> list_ex (\<lambda>s. py_number (su_ts s) = None) (pro_list p)
      then Inl (Exc ''TypeError'' ''time stamps do not compare'')
      else Inr (slice_first limit (sort_desc (\<lambda>s. case py_number (su_ts s) of Some x \<Rightarrow> x | None \<Rightarrow> 0) (pro_list p))))"

definition suggestion_of_row :: "pyfloat \<Rightarrow> pyval \<Rightarrow> suggestion result" where
  "suggestion_of_row now row =
     (case row of
        PDict d \<Rightarrow>
          (case (dget d ''id'', dget d ''kind'', dget d ''summary'') of
             (None, _, _) \<Rightarrow> Inl (key_error ''id'')
           | (_, None, _) \<Rightarrow> Inl (key_error ''kind'')
           | (_, _, None) \<Rightarrow> Inl (key_error ''summary'')
           | (Some i, Some k, Some t) \<Rightarrow> Inr \<lparr>su_id = i, su_kind = k, su_summary = t, su_evidence = dgetd d ''evidence'' (PDict []),
               su_confidence = dgetd d ''confidence'' (PFloat (1 / 2)), su_ts = dgetd d ''ts'' (PFloat now)\<rparr>)
      | _ \<Rightarrow> Inl (Exc ''TypeError'' ''indices must be integers''))"

definition new_proactive :: "pyfloat \<Rightarrow> pyval disk \<Rightarrow> proactive result" where
  "new_proactive now f =
     map_sum id (\<lambda>ss. \<lparr>pro_list = ss, pro_file = f\<rparr>)
       (case f of
          Stored v \<Rightarrow>
            (case py_iter v of
               Inl e \<Rightarrow> Inr []
             | Inr rows \<Rightarrow> (case try_map (suggestion_of_row now) rows of
                   Inl e \<Rightarrow> if exc_type e = ''KeyError'' then Inl e else Inr []
                 | Inr ss \<Rightarrow> Inr ss))
        | _ \<Rightarrow> Inr [])"

definition suggest :: "pyfloat \<Rightarrow> string \<Rightarrow> string \<Rightarrow> string \<Rightarrow> pyval sdict \<Rightarrow> pyfloat \<Rightarrow> suggestion" where
  "suggest now uid kind summary evidence confidence =
     \<lparr>su_id = PStr uid, su_kind = PStr kind, su_summary = PStr summary, su_evidence = PDict evidence,
      su_confidence = PFloat confidence, su_ts = PFloat now\<rparr>"

definition unfinished_goal :: "pyfloat \<Rightarrow> string \<Rightarrow> goal \<Rightarrow> suggestion list result" where
  "unfinished_goal now uid g =
     (case goal_age now g of
        Inl e \<Rightarrow> Inl e
      | Inr age \<Rightarrow>
          if 3600 < age then
            (case str_slice 60 (gattr ''title'' g) of
               Inl e \<Rightarrow> Inl e
             | Inr t \<Rightarrow> Inr [suggest now uid ''unfinished_goal'' (''goal '' @ quoted t @ '' has been active for '' @
                 str_of_int \<lfloor>age / 60\<rfloor> @ ''m'') [(''goal_id'', gattr ''id'' g)] (1 / 2)])
          else Inr [])"

definition resource_problem :: "pyfloat \<Rightarrow> string \<Rightarrow> signal \<Rightarrow> suggestion list" where
  "resource_problem now uid s =
     (if sg_kind s \<in> {''storage'', ''memory'', ''cpu'', ''thermal''} \<and> sg_level s \<in> {''warning'', ''critical''}
      then [suggest now uid ''resource_problem'' (sg_message s) [(''kind'', PStr (sg_kind s))] (7 / 10)] else [])"

definition store_suggestions :: "pyfloat \<Rightarrow> string \<Rightarrow> nat \<Rightarrow> nat \<Rightarrow> provider_health \<Rightarrow> suggestion list" where
  "store_suggestions now uid experiences keys h =
     (if 200 < experiences then [suggest now uid ''maintenance_opportunity'' ''experience store is large; consolidation recommended''
        [(''experience_count'', PInt (int experiences))] (1 / 2)] else []) @
     (if 500 < keys then [suggest now uid ''maintenance_opportunity'' ''key/value store is large; TTL pruning recommended''
        [(''store_keys'', PInt (int keys))] (1 / 2)] else []) @
     (if ph_configured h \<and> ph_remote h then [suggest now uid ''connectivity_recovered'' ''remote AI provider is reachable again'' [] (3 / 10)] else [])"

text \<open>
  One pass. The identifiers of the fresh suggestions are one argument: nothing compares them. The stores
  it counts may raise where their statistics are taken.
\<close>

definition detect :: "pyfloat \<Rightarrow> string \<Rightarrow> experience \<Rightarrow> knowledge \<Rightarrow> memory \<Rightarrow> episodic \<Rightarrow> goal_store \<Rightarrow> nervous \<Rightarrow> provider_health \<Rightarrow>
    string list \<Rightarrow> suggestion list result" where
  "detect now uid ex k store eps goals nv h actions =
     (case questions now 4 ex k goals h actions of
        Inl e \<Rightarrow> Inl e
      | Inr qs \<Rightarrow>
     (case active_goals goals of
        Inl e \<Rightarrow> Inl e
      | Inr active \<Rightarrow>
     (case try_map (unfinished_goal now uid) active of
        Inl e \<Rightarrow> Inl e
      | Inr unfinished \<Rightarrow>
     (case ep_stats eps of
        Inl e \<Rightarrow> Inl e
      | Inr _ \<Rightarrow>
          Inr (map (\<lambda>q. suggest now uid ''recurring_failure'' (qu_text q) (qu_evidence q) (6 / 10))
                 (filter (\<lambda>q. qu_kind q = ''repeated_problem'') qs) @
               concat (map (resource_problem now uid) (dvals (nv_latest nv))) @ concat unfinished @
               store_suggestions now uid (ex_count ex) (length (mem_keys now store)) h)))))"

definition proactive_tick :: "bool \<Rightarrow> pyfloat \<Rightarrow> string \<Rightarrow> experience \<Rightarrow> knowledge \<Rightarrow> memory \<Rightarrow> episodic \<Rightarrow> goal_store \<Rightarrow> nervous \<Rightarrow>
    provider_health \<Rightarrow> string list \<Rightarrow> proactive \<Rightarrow> suggestion list result \<times> proactive" where
  "proactive_tick ok now uid ex k store eps goals nv h actions p =
     then_do (pure_step (detect now uid ex k store eps goals nv h actions) p)
       (\<lambda>fresh p. then_do (pro_merge ok fresh p) (\<lambda>_ p. (Inr fresh, p)))"

section \<open>Self-maintenance\<close>

definition overall_state :: "bool \<Rightarrow> bool \<Rightarrow> bool \<Rightarrow> string \<times> string list" where
  "overall_state scheduler_up has_local readable =
     (let problems = (if scheduler_up then [] else [''scheduler down'']) @
            (if has_local then [] else [''no local AI provider'']) @ (if readable then [] else [''config unreadable'']);
          overall = (if scheduler_up \<and> has_local then ''healthy'' else ''degraded'')
      in if problems = [] then (overall, []) else (''attention'', problems))"

definition recover_provider :: "provider \<Rightarrow> provider_registry \<Rightarrow> provider_registry result" where
  "recover_provider engine pr = (if ''local'' \<in> set (pv_names pr) then Inr pr else pv_register ''local'' engine True pr)"

lemma never_degraded: "fst (overall_state s l c) \<noteq> ''degraded''"
  by (simp add: overall_state_def Let_def)

section \<open>What the passes keep\<close>

lemma merge_fold:
  "\<exists>ys. fst (foldl merge_one (xs, seen) fresh) = xs @ ys \<and> length ys \<le> length fresh \<and>
     (\<forall>s\<in>set fresh. su_summary s \<in> set seen \<or> su_summary s \<in> su_summary ` set ys)"
proof (induction fresh arbitrary: xs seen)
  case (Cons f fs)
  show ?case
  proof (cases "su_summary f \<in> set seen")
    case True
    with Cons.IH [of xs seen] show ?thesis by (auto simp: merge_one_def)
  next
    case False
    obtain ys where "fst (foldl merge_one (xs @ [f], su_summary f # seen) fs) = (xs @ [f]) @ ys" "length ys \<le> length fs"
      "\<forall>s\<in>set fs. su_summary s \<in> set (su_summary f # seen) \<or> su_summary s \<in> su_summary ` set ys"
      using Cons.IH [of "xs @ [f]" "su_summary f # seen"] by blast
    moreover have "merge_one (xs, seen) f = (xs @ [f], su_summary f # seen)" using False by (simp add: merge_one_def)
    ultimately show ?thesis by (intro exI [of _ "f # ys"]) auto
  qed
qed simp

lemma in_slice_last: "x \<in> set (slice_last m xs) \<Longrightarrow> 0 < m \<Longrightarrow> m + int (length ys) \<le> n \<Longrightarrow> x \<in> set (slice_last n (xs @ ys))"
proof -
  assume a: "x \<in> set (slice_last m xs)" "0 < m" "m + int (length ys) \<le> n"
  have "x \<in> set (drop (length xs - nat m) xs)" using a(1,2) by (simp add: slice_last_def)
  moreover have "length xs + length ys - nat n \<le> length xs - nat m" using a(2,3) by linarith
  ultimately have "x \<in> set (drop (length xs + length ys - nat n) xs)"
    using set_drop_subset_set_drop [of "length xs + length ys - nat n" "length xs - nat m" xs] by blast
  then show ?thesis using a(2,3) by (simp add: slice_last_def)
qed

text \<open>
  The list of suggestions never exceeds fifty, and a pass that finds at most thirty leaves every one of
  them in it: as a new entry, or as the recent one with the same summary.
\<close>

lemma suggestions_kept:
  assumes "length fresh \<le> 30"
  shows "length (pro_list (snd (pro_merge ok fresh p))) \<le> 50 \<and>
    (\<forall>s\<in>set fresh. su_summary s \<in> su_summary ` set (pro_list (snd (pro_merge ok fresh p))))"
proof -
  let ?old = "pro_list p"
  obtain ys where ys: "fst (foldl merge_one (?old, map su_summary (slice_last 20 ?old)) fresh) = ?old @ ys"
    "length ys \<le> length fresh"
    "\<forall>s\<in>set fresh. su_summary s \<in> set (map su_summary (slice_last 20 ?old)) \<or> su_summary s \<in> su_summary ` set ys"
    using merge_fold by blast
  have new: "pro_list (snd (pro_merge ok fresh p)) = slice_last 50 (?old @ ys)"
    using ys(1) by (simp add: pro_merge_def pro_save_def merge_list_def Let_def case_prod_unfold)
  have recent: "set (slice_last 20 ?old) \<subseteq> set (slice_last 50 (?old @ ys))"
    using in_slice_last [of _ 20 ?old ys 50] ys(2) assms by fastforce
  have added: "set ys \<subseteq> set (slice_last 50 (?old @ ys))"
    using ys(2) assms by (auto simp: slice_last_def)
  have "su_summary s \<in> su_summary ` set (slice_last 50 (?old @ ys))" if "s \<in> set fresh" for s
  proof -
    from ys(3) that have "su_summary s \<in> su_summary ` set (slice_last 20 ?old) \<or> su_summary s \<in> su_summary ` set ys" by auto
    then show ?thesis using recent added by (meson image_mono subsetD)
  qed
  then show ?thesis unfolding new by (simp add: length_slice_last)
qed

definition few :: "suggestion list" where
  "few = [suggest 1 ''u'' ''resource_problem'' ''disk full'' [] (7 / 10)]"

lemma suggestions_kept_witness:
  "length (pro_list (snd (pro_merge True few \<lparr>pro_list = few, pro_file = Absent\<rparr>))) \<le> 50 \<and>
    (\<forall>s\<in>set few. su_summary s \<in> su_summary ` set (pro_list (snd (pro_merge True few \<lparr>pro_list = few, pro_file = Absent\<rparr>))))"
  by (rule suggestions_kept) (simp add: few_def)

lemma learn_le: "kn_le (kn_entries k) (kn_entries (snd (kn_learn ok now key v source c k)))"
  by (simp add: kn_learn_def kn_le_learn)

text \<open>What holds of the state after both parts of a sequence.\<close>

lemma then_do_keeps: "P (snd m) \<Longrightarrow> (\<And>a c. fst m = Inr a \<Longrightarrow> c = snd m \<Longrightarrow> P (snd (f a c))) \<Longrightarrow> P (snd (then_do m f))"
  by (cases m; cases "fst m") auto

lemma pure_step_snd [simp]: "snd (pure_step r c) = c" "fst (pure_step r c) = r"
  by (simp_all add: pure_step_def)

lemma learn_then:
  "kn_le d (kn_entries k) \<Longrightarrow> kn_le d (kn_entries (snd (then_do (kn_learn ok now key v source c k) (\<lambda>_ k. (Inr out, k)))))"
  by (rule then_do_keeps [where P = "\<lambda>k'. kn_le d (kn_entries k')"]) (auto intro: kn_le_trans learn_le)

lemma pure_then:
  "kn_le d (kn_entries k) \<Longrightarrow> (\<And>a. kn_le d (kn_entries (snd (f a k)))) \<Longrightarrow> kn_le d (kn_entries (snd (then_do (pure_step r k) f)))"
  by (rule then_do_keeps [where P = "\<lambda>k'. kn_le d (kn_entries k')"]) auto

lemma lesson_le: "kn_le d (kn_entries k) \<Longrightarrow> kn_le d (kn_entries (snd (lesson_of ok now e k)))"
  by (simp add: lesson_of_def Let_def pure_then learn_then)

lemma hypothesis_le: "kn_le d (kn_entries k) \<Longrightarrow> kn_le d (kn_entries (snd (hypothesis_of ok now e k)))"
  by (simp add: hypothesis_of_def Let_def pure_then learn_then split: prod.split)

lemma question_le: "kn_le d (kn_entries k) \<Longrightarrow> kn_le d (kn_entries (snd (question_of ok now e k)))"
  by (simp add: question_of_def Let_def pure_then learn_then)

lemma reflect_le: "kn_le (kn_entries k) (kn_entries (the (snd (reflect ok now hooks es (Some k)))))"
  using reflection_keeps_knowledge [of k ok now hooks es] by (auto simp: reflect_def split: prod.splits sum.splits)

text \<open>
  A reflection pass never loses knowledge: whatever it produces or raises, each known key is still
  known, with at least the confidence it had, and a pass that succeeds gives no more outputs than asked for.
\<close>

lemma reflection_pass_monotone:
  assumes "0 \<le> most"
  shows "kn_le (kn_entries k) (kn_entries (snd (reflect_now sf ok now most ex k))) \<and>
    (\<forall>out. fst (reflect_now sf ok now most ex k) = Inr out \<longrightarrow> int (length out) \<le> most)"
proof
  let ?P = "\<lambda>k'. kn_le (kn_entries k) (kn_entries k')"
  show "?P (snd (reflect_now sf ok now most ex k))"
  proof -
    have loops: "?P k' \<Longrightarrow> ?P (snd (each_do (lesson_of ok now) es k'))" "?P k' \<Longrightarrow> ?P (snd (each_do (hypothesis_of ok now) cs k'))"
      "?P k' \<Longrightarrow> ?P (snd (each_do (question_of ok now) es k'))" for k' es cs
      by (rule each_do_keeps [where P = ?P]; simp add: lesson_le hypothesis_le question_le)+
    show ?thesis unfolding reflect_now_def
      by (intro then_do_keeps [where P = ?P]) (simp_all add: reflect_le case_prod_unfold loops)
  qed
  show "\<forall>out. fst (reflect_now sf ok now most ex k) = Inr out \<longrightarrow> int (length out) \<le> most"
  proof (intro allI impI)
    fix out assume "fst (reflect_now sf ok now most ex k) = Inr out"
    then have "reflect_now sf ok now most ex k = (Inr out, snd (reflect_now sf ok now most ex k))" by (simp add: prod_eq_iff)
    then obtain xs where "out = slice_first most xs"
      unfolding reflect_now_def by (auto simp: then_do_Inr)
    then show "int (length out) \<le> most" using assms by (simp add: length_slice_first)
  qed
qed

lemma reflection_pass_monotone_witness:
  "kn_le (kn_entries demo_knowledge) (kn_entries (snd (reflect_now point0 True 5 8 (new_experience 9) demo_knowledge))) \<and>
    (\<forall>out. fst (reflect_now point0 True 5 8 (new_experience 9) demo_knowledge) = Inr out \<longrightarrow> int (length out) \<le> 8)"
  by (rule reflection_pass_monotone) simp

section \<open>Outcome counters\<close>

definition record_outcomes :: "bool \<Rightarrow> string \<Rightarrow> (pyfloat \<times> bool) list \<Rightarrow> knowledge \<Rightarrow> knowledge" where
  "record_outcomes ok action = fold (\<lambda>(now, success) k. snd (record_outcome ok now action success k))"

definition counters :: "bool list \<Rightarrow> pyval" where
  "counters bs = PDict [(''uses'', PInt (int (length bs))), (''successes'', PInt (int (length (filter id bs)))),
     (''failures'', PInt (int (length (filter Not bs)))),
     (''reliability'', PFloat (py_round 3 (of_nat (length (filter id bs)) / of_nat (length bs))))]"

lemma next_outcome_counters:
  "bs \<noteq> [] \<Longrightarrow> next_outcome (counters bs) success = Inr (counters (bs @ [success]))"
  "next_outcome PNone success = Inr (counters [success])"
  by (auto simp: next_outcome_def counters_def as_dict_def to_int_def dgetd_def Let_def add.commute)

text \<open>The entry of an action holds these counters, with the confidence that a later outcome replaces.\<close>

definition held :: "string \<Rightarrow> pyval \<Rightarrow> knowledge \<Rightarrow> bool" where
  "held action v k \<longleftrightarrow> (\<exists>e. dget (kn_entries k) (outcome_key action) = Some e \<and> kn_value e = v \<and> kn_confidence e \<le> 9 / 10)"

lemma held_recall: "held action v k \<Longrightarrow> kn_recall (outcome_key action) PNone k = v"
  by (auto simp: held_def kn_recall_def)

lemma learn_held:
  "dget (kn_entries k) (outcome_key action) = None \<or> (\<exists>u. held action u k) \<Longrightarrow>
   held action v (snd (kn_learn ok now (outcome_key action) v ''learning'' (9 / 10) k))"
  by (auto simp: held_def kn_learn_def learn_entry_def Let_def split: option.splits)

lemma record_outcome_held:
  assumes "dget (kn_entries k) (outcome_key action) = None \<and> prev = PNone \<or> held action prev k"
    and "next_outcome prev success = Inr v"
  shows "held action v (snd (record_outcome ok now action success k))"
proof -
  have "kn_recall (outcome_key action) PNone k = prev" using assms(1) held_recall by (auto simp: kn_recall_def)
  then have "record_outcome ok now action success k = kn_learn ok now (outcome_key action) v ''learning'' (9 / 10) k"
    using assms(2) by (simp add: record_outcome_def pure_step_def)
  moreover have "dget (kn_entries k) (outcome_key action) = None \<or> (\<exists>u. held action u k)" using assms(1) by blast
  ultimately show ?thesis using learn_held [of k action] by simp
qed

text \<open>
  The reliability of a capability is counted exactly: after any sequence of outcomes, whether the
  file could be written or not, its entry holds the number of uses, successes and failures and their ratio.
\<close>

lemma outcomes_counted:
  assumes "dget (kn_entries k) (outcome_key action) = None" and "outs \<noteq> []"
  shows "kn_recall (outcome_key action) PNone (record_outcomes ok action outs k) = counters (map snd outs)"
proof -
  have "outs \<noteq> [] \<longrightarrow> held action (counters (map snd outs)) (record_outcomes ok action outs k)"
  proof (induction outs rule: rev_induct)
    case (snoc x outs)
    let ?k = "record_outcomes ok action outs k"
    have rec: "record_outcomes ok action (outs @ [x]) k = snd (record_outcome ok (fst x) action (snd x) ?k)"
      by (simp add: record_outcomes_def case_prod_unfold)
    show ?case
    proof (cases "outs = []")
      case True
      then have "dget (kn_entries ?k) (outcome_key action) = None" using assms(1) by (simp add: record_outcomes_def)
      then show ?thesis unfolding rec using True record_outcome_held [of ?k action PNone "snd x"] next_outcome_counters(2) by simp
    next
      case False
      then show ?thesis unfolding rec
        using snoc record_outcome_held [of ?k action "counters (map snd outs)" "snd x"] next_outcome_counters(1) [of "map snd outs"] by simp
    qed
  qed simp
  with assms(2) show ?thesis using held_recall by blast
qed

lemma outcomes_counted_witness:
  "kn_recall (outcome_key ''fs.list'') PNone (record_outcomes False ''fs.list'' [(1, True), (2, False)] demo_knowledge) = counters (map snd [(1 :: rat, True), (2, False)])"
  by (rule outcomes_counted) (simp_all add: demo_knowledge_def outcome_key_def)

end
