(* ===== verification/Cognition.thy ===== *)
theory Cognition
  imports Insight World_Model
begin

text \<open>
  \<open>CognitiveOrchestrator.process_goal\<close> (\<open>intelligence/orchestration.py\<close>): one goal through planning, execution, one
  repair pass, reflection and learning, over the stores of all the components it drives. The clock is read once
  per call; fresh identifiers, the prompts of the roles, and whether files can be written are arguments.
\<close>

section \<open>State\<close>

record 's cognition =
  cn_nervous :: nervous
  cn_goals :: goal_store
  cn_plans :: plan_store
  cn_registry :: "'s registry"
  cn_state :: 's
  cn_providers :: provider_registry
  cn_intel :: provider_intel
  cn_knowledge :: knowledge
  cn_experience :: experience
  cn_world :: world

record environment =
  ce_sf :: "pyfloat \<Rightarrow> string"
  ce_now :: pyfloat
  ce_ok :: bool
  ce_goal_id :: string
  ce_plan_id :: string
  ce_prompts :: "string \<Rightarrow> string"
  ce_has_key :: bool
  ce_models :: "string list option result"

text \<open>Each component's operation, lifted to the state of the whole.\<close>

definition on_goals :: "(goal_store \<Rightarrow> 'a result \<times> goal_store) \<Rightarrow> 's cognition \<Rightarrow> 'a result \<times> 's cognition" where
  "on_goals f c = (let (r, g) = f (cn_goals c) in (r, c\<lparr>cn_goals := g\<rparr>))"

definition on_plans :: "(plan_store \<Rightarrow> 'a result \<times> plan_store) \<Rightarrow> 's cognition \<Rightarrow> 'a result \<times> 's cognition" where
  "on_plans f c = (let (r, p) = f (cn_plans c) in (r, c\<lparr>cn_plans := p\<rparr>))"

definition on_knowledge :: "(knowledge \<Rightarrow> 'a result \<times> knowledge) \<Rightarrow> 's cognition \<Rightarrow> 'a result \<times> 's cognition" where
  "on_knowledge f c = (let (r, k) = f (cn_knowledge c) in (r, c\<lparr>cn_knowledge := k\<rparr>))"

definition agent_memory :: "'s cognition \<Rightarrow> planner_memory" where
  "agent_memory c = \<lparr>pl_facts = wm_facts (cn_world c), pl_knowledge = cn_knowledge c, pl_experience = cn_experience c\<rparr>"

section \<open>Parts of the loop\<close>

text \<open>\<open>provider\<close> when given, else the one that the provider intelligence selects; its failure is "local".\<close>

definition resolve_provider :: "environment \<Rightarrow> string option \<Rightarrow> 's cognition \<Rightarrow> string \<times> 's cognition" where
  "resolve_provider en given c =
     (case given of
        Some p \<Rightarrow> if p \<noteq> [] then (p, c)
          else (let (n, i) = select_provider (ce_now en) (ce_has_key en) (ce_models en) None (cn_providers c) (cn_intel c) in (n, c\<lparr>cn_intel := i\<rparr>))
      | None \<Rightarrow> (let (n, i) = select_provider (ce_now en) (ce_has_key en) (ce_models en) None (cn_providers c) (cn_intel c) in (n, c\<lparr>cn_intel := i\<rparr>)))"

definition run_role :: "environment \<Rightarrow> string \<Rightarrow> int \<Rightarrow> string \<Rightarrow> string \<Rightarrow> 's cognition \<Rightarrow> agent_run result \<times> 's cognition" where
  "run_role en role most target provider c =
     (case role_agent (ce_prompts en) role most of
        Inl e \<Rightarrow> (Inl e, c)
      | Inr ag \<Rightarrow>
          (let (run, r, s, m) = run_agent (ce_sf en) (ce_ok en) (ce_now en) ag (cn_providers c) (Some provider) target
                 (cn_registry c) (cn_state c) (agent_memory c)
           in (Inr run, c\<lparr>cn_registry := r, cn_state := s, cn_knowledge := pl_knowledge m, cn_experience := pl_experience m\<rparr>)))"

text \<open>A step of the run as a step of the plan; the step that only says done has no success and counts as failed.\<close>

definition plan_step_of :: "(pyfloat \<Rightarrow> string) \<Rightarrow> run_step \<Rightarrow> plan_step" where
  "plan_step_of sf st =
     new_step (PStr (case st of SaidDone \<Rightarrow> ''done'' | Acted a _ \<Rightarrow> if a = [] then ''android.info'' else a)) (PDict []) ''planner''
       (case st of Acted _ True \<Rightarrow> ''succeeded'' | _ \<Rightarrow> ''failed'') (take 200 (json_dumps sf (PDict (step_row st))))"

definition repair_step_of :: "run_step \<Rightarrow> plan_step" where
  "repair_step_of st =
     new_step (PStr (case st of SaidDone \<Rightarrow> ''done'' | Acted a _ \<Rightarrow> if a = [] then ''android.info'' else a)) (PDict []) ''fixer-remediation'' ''pending'' []"

definition replan_fix :: "environment \<Rightarrow> string \<Rightarrow> string \<Rightarrow> string \<Rightarrow> 's cognition \<Rightarrow> unit result \<times> 's cognition" where
  "replan_fix en text provider plan_id c =
     then_do (run_role en ''fixer'' 3 (''fix issues with: '' @ text) provider c) (\<lambda>run c.
       if ar_status run = RunDone then
         then_do (on_plans (plan_append_steps (ce_ok en) (ce_now en) plan_id (map repair_step_of (ar_history run))) c) (\<lambda>_ c.
         then_do (on_plans (plan_finish (ce_ok en) (ce_now en) plan_id ''completed'') c) (\<lambda>_ c. (Inr (), c)))
       else (Inr (), c))"

definition reflect_after :: "environment \<Rightarrow> 's cognition \<Rightarrow> unit result \<times> 's cognition" where
  "reflect_after en c =
     then_do (on_knowledge (reflect_now (ce_sf en) (ce_ok en) (ce_now en) 8 (cn_experience c)) c) (\<lambda>_ c. (Inr (), c))"

definition settle_done :: "environment \<Rightarrow> string \<Rightarrow> string \<Rightarrow> 's cognition \<Rightarrow> unit result \<times> 's cognition" where
  "settle_done en gid pid c =
     then_do (on_goals (goal_complete (ce_ok en) (ce_now en) gid) c) (\<lambda>_ c.
     then_do (on_plans (plan_finish (ce_ok en) (ce_now en) pid ''completed'') c) (\<lambda>_ c.
       reflect_after en c))"

definition settle_failed :: "environment \<Rightarrow> string \<Rightarrow> string \<Rightarrow> string option \<Rightarrow> string \<Rightarrow> string \<Rightarrow> 's cognition \<Rightarrow> unit result \<times> 's cognition" where
  "settle_failed en gid pid error text provider c =
     then_do (on_goals (goal_fail (ce_ok en) (ce_now en) gid (of_ostr error)) c) (\<lambda>_ c.
     then_do (on_plans (plan_finish (ce_ok en) (ce_now en) pid ''failed'') c) (\<lambda>_ c.
     then_do (replan_fix en text provider pid c) (\<lambda>_ c.
       reflect_after en c)))"

definition settle_goal :: "environment \<Rightarrow> string \<Rightarrow> string \<Rightarrow> string \<Rightarrow> string \<Rightarrow> agent_run \<Rightarrow> 's cognition \<Rightarrow> unit result \<times> 's cognition" where
  "settle_goal en gid pid text provider run c =
     (if ar_status run = RunDone then settle_done en gid pid c
      else settle_failed en gid pid (ar_error run) text provider c)"

definition learn_cycle :: "environment \<Rightarrow> string \<Rightarrow> bool \<Rightarrow> 's cognition \<Rightarrow> unit result \<times> 's cognition" where
  "learn_cycle en text success c =
     (let (r, k, x) = record_cycle (ce_ok en) (ce_now en) text ''planner'' (Some (success, None))
            (if success then ''success'' else ''failure'') None (cn_knowledge c, cn_experience c)
      in (map_sum id (\<lambda>_. ()) r, c\<lparr>cn_knowledge := k, cn_experience := x\<rparr>))"

definition note_in_world :: "environment \<Rightarrow> string \<Rightarrow> pyval \<Rightarrow> string \<Rightarrow> 's cognition \<Rightarrow> 's cognition" where
  "note_in_world en gid title status c =
     c\<lparr>cn_world := add_entity (ce_now en) gid ''goal'' [(''title'', title), (''status'', PStr status)]
        (record_event (ce_now en) ''goal.processed'' [(''goal_id'', PStr gid), (''status'', PStr status)] (cn_world c))\<rparr>"

section \<open>process_goal\<close>

datatype goal_report = Accepted string
  | Processed (rep_goal: string) (rep_plan: string) (rep_status: run_status) (rep_error: "string option") (rep_steps: nat)

text \<open>The identifier of a goal in the store is its text.\<close>

definition goal_id :: "goal \<Rightarrow> string" where
  "goal_id g = (case key_text (gattr ''id'' g) of Some k \<Rightarrow> k | None \<Rightarrow> [])"

definition conclude_run :: "environment \<Rightarrow> string \<Rightarrow> string \<Rightarrow> goal \<Rightarrow> string \<Rightarrow> agent_run \<Rightarrow> 's cognition \<Rightarrow> goal_report result \<times> 's cognition" where
  "conclude_run en text provider g pid run c =
     (let gid = goal_id g in
      then_do (on_plans (plan_set_steps (ce_ok en) (ce_now en) pid (map (plan_step_of (ce_sf en)) (ar_history run))) c) (\<lambda>_ c.
      then_do (settle_goal en gid pid text provider run c) (\<lambda>_ c.
      then_do (learn_cycle en text (ar_status run = RunDone) c) (\<lambda>_ c.
        (Inr (Processed gid pid (ar_status run) (ar_error run) (length (ar_history run))),
         note_in_world en gid (gattr ''title'' g) (run_status_text (ar_status run)) c)))))"

definition execute_goal :: "environment \<Rightarrow> string \<Rightarrow> string option \<Rightarrow> goal \<Rightarrow> 's cognition \<Rightarrow> goal_report result \<times> 's cognition" where
  "execute_goal en text given g c =
     (let (provider, c) = resolve_provider en given c in
      then_do (on_plans (plan_create (ce_ok en) (ce_plan_id en) (ce_now en) (goal_id g) text [] (Some provider)) c) (\<lambda>p c.
      then_do (run_role en ''planner'' 6 text provider c) (\<lambda>run c.
        conclude_run en text provider g (pl_id p) run c)))"

definition process_goal :: "environment \<Rightarrow> string \<Rightarrow> string \<Rightarrow> string option \<Rightarrow> bool \<Rightarrow> 's cognition \<Rightarrow> goal_report result \<times> 's cognition" where
  "process_goal en text kind given tentative c =
     (let c = c\<lparr>cn_nervous := touch (ce_now en) (cn_nervous c)\<rparr> in
      then_do (on_goals (goal_create (ce_ok en) (ce_goal_id en) (ce_now en) text kind (PInt 0) ''user'' PNone [] PNone) c) (\<lambda>g c.
        if tentative then (Inr (Accepted (goal_id g)), c) else execute_goal en text given g c))"

section \<open>What the parts leave alone\<close>

lemma on_goals_frame [simp]: "cn_plans (snd (on_goals f c)) = cn_plans c" "cn_goals (snd (on_goals f c)) = snd (f (cn_goals c))"
  "fst (on_goals f c) = fst (f (cn_goals c))"
  by (simp_all add: on_goals_def Let_def case_prod_unfold)

lemma on_plans_frame [simp]: "cn_goals (snd (on_plans f c)) = cn_goals c" "cn_plans (snd (on_plans f c)) = snd (f (cn_plans c))"
  "fst (on_plans f c) = fst (f (cn_plans c))"
  by (simp_all add: on_plans_def Let_def case_prod_unfold)

lemma on_knowledge_frame [simp]: "cn_goals (snd (on_knowledge f c)) = cn_goals c" "cn_plans (snd (on_knowledge f c)) = cn_plans c"
  by (simp_all add: on_knowledge_def Let_def case_prod_unfold)

lemma run_role_frame [simp]:
  "cn_goals (snd (run_role en role most target provider c)) = cn_goals c"
  "cn_plans (snd (run_role en role most target provider c)) = cn_plans c"
  by (simp_all add: run_role_def Let_def case_prod_unfold split: sum.split)

lemma resolve_provider_frame [simp]:
  "cn_goals (snd (resolve_provider en given c)) = cn_goals c"
  "cn_plans (snd (resolve_provider en given c)) = cn_plans c"
  by (simp_all add: resolve_provider_def Let_def case_prod_unfold split: option.split)

lemma learn_cycle_frame [simp]: "cn_goals (snd (learn_cycle en text s c)) = cn_goals c" "cn_plans (snd (learn_cycle en text s c)) = cn_plans c"
  by (simp_all add: learn_cycle_def Let_def case_prod_unfold)

lemma note_in_world_frame [simp]: "cn_goals (note_in_world en g t s c) = cn_goals c" "cn_plans (note_in_world en g t s c) = cn_plans c"
  by (simp_all add: note_in_world_def)

lemma reflect_after_frame [simp]: "cn_goals (snd (reflect_after en c)) = cn_goals c" "cn_plans (snd (reflect_after en c)) = cn_plans c"
  unfolding reflect_after_def
  by (rule then_do_keeps [where P = "\<lambda>d. cn_goals d = cn_goals c"], simp_all,
      rule then_do_keeps [where P = "\<lambda>d. cn_plans d = cn_plans c"], simp_all)

section \<open>Invariants of the loop\<close>

definition cognition_ok :: "'s cognition \<Rightarrow> bool" where
  "cognition_ok c \<longleftrightarrow> goals_ok (cn_goals c) \<and> goals_shape (cn_goals c) \<and> plans_shape (cn_plans c)"

lemma cognition_ok_frame: "cn_goals c = cn_goals d \<Longrightarrow> cn_plans c = cn_plans d \<Longrightarrow> cognition_ok c = cognition_ok d"
  by (simp add: cognition_ok_def)

lemma frame_ok [simp]:
  "cognition_ok (snd (on_knowledge f c)) = cognition_ok c"
  "cognition_ok (snd (run_role en role most target provider c)) = cognition_ok c"
  "cognition_ok (snd (resolve_provider en given c)) = cognition_ok c"
  "cognition_ok (snd (learn_cycle en t b c)) = cognition_ok c"
  "cognition_ok (note_in_world en g title s c) = cognition_ok c"
  "cognition_ok (snd (reflect_after en c)) = cognition_ok c"
  by (simp_all add: cognition_ok_def)

lemma goal_ops_ok:
  "cognition_ok c \<Longrightarrow> cognition_ok (snd (on_goals (goal_create ok uid now title kind pr prov par deps ag) c))"
  "cognition_ok c \<Longrightarrow> cognition_ok (snd (on_goals (goal_complete ok now k) c))"
  "cognition_ok c \<Longrightarrow> cognition_ok (snd (on_goals (goal_fail ok now k b) c))"
  by (simp_all add: cognition_ok_def create_ok create_shape goal_complete_def goal_fail_def update_ok update_shape status_set)

lemma plan_create_shape: "plans_shape st \<Longrightarrow> list_all step_shape steps \<Longrightarrow> plans_shape (snd (plan_create ok uid now g t steps pr st))"
  using run_plan_shape [of st "PCreate uid g t steps pr" ok now] by simp

lemma plan_ops_ok:
  "cognition_ok c \<Longrightarrow> cognition_ok (snd (on_plans (plan_create ok uid now g t [] pr) c))"
  "cognition_ok c \<Longrightarrow> list_all step_shape steps \<Longrightarrow> cognition_ok (snd (on_plans (plan_set_steps ok now k steps) c))"
  "cognition_ok c \<Longrightarrow> list_all step_shape steps \<Longrightarrow> cognition_ok (snd (on_plans (plan_append_steps ok now k steps) c))"
  "cognition_ok c \<Longrightarrow> cognition_ok (snd (on_plans (plan_finish ok now k status) c))"
  by (auto simp: cognition_ok_def plan_create_shape append_shape plan_set_steps_def plan_finish_def intro!: on_plan_shape)

lemma steps_shape: "list_all step_shape (map (plan_step_of sf) h)" "list_all step_shape (map repair_step_of h)"
  by (simp_all add: list_all_iff step_shape_def step_fields_def plan_step_of_def repair_step_of_def new_step_def)

lemma settle_ok:
  assumes "cognition_ok c"
  shows "cognition_ok (snd (settle_goal en gid pid t pv run c))"
proof -
  have "cognition_ok (snd (replan_fix en t pv pid c))" if "cognition_ok c" for c :: "'a cognition"
    unfolding replan_fix_def using that
    by (auto simp: goal_ops_ok plan_ops_ok steps_shape intro!: then_do_keeps [where P = cognition_ok])
  with assms show ?thesis
    unfolding settle_goal_def settle_done_def settle_failed_def
    by (auto simp: goal_ops_ok plan_ops_ok intro!: then_do_keeps [where P = cognition_ok])
qed

lemma execute_goal_ok: "cognition_ok c \<Longrightarrow> cognition_ok (snd (execute_goal en text given g c))"
  unfolding execute_goal_def conclude_run_def Let_def case_prod_unfold
  by (auto simp: plan_ops_ok settle_ok steps_shape intro!: then_do_keeps [where P = cognition_ok])

text \<open>
  Whatever processing a goal does or raises, the registries stay well formed: no two active goals share a
  title, every goal and every plan has the shape of its class, so that both files load again.
\<close>

lemma process_goal_keeps_registries:
  assumes "cognition_ok c"
  shows "cognition_ok (snd (process_goal en text kind given tentative c))"
proof -
  have "cognition_ok (c\<lparr>cn_nervous := n\<rparr>)" for n using assms by (simp add: cognition_ok_def)
  then show ?thesis unfolding process_goal_def Let_def
    by (auto simp: goal_ops_ok execute_goal_ok intro!: then_do_keeps [where P = cognition_ok])
qed

section \<open>Every goal is settled\<close>

definition goal_state :: "string \<Rightarrow> 's cognition \<Rightarrow> pyval option" where
  "goal_state k c = map_option (gattr ''status'') (dget (gs_goals (cn_goals c)) k)"

definition plan_state :: "string \<Rightarrow> 's cognition \<Rightarrow> pyval option" where
  "plan_state k c = map_option pl_status (dget (ps_plans (cn_plans c)) k)"

lemma state_frames [simp]:
  "goal_state k (snd (on_plans f c)) = goal_state k c" "plan_state k (snd (on_goals h c)) = plan_state k c"
  "goal_state k (snd (run_role en role most target provider c)) = goal_state k c"
  "plan_state k (snd (run_role en role most target provider c)) = plan_state k c"
  "goal_state k (snd (reflect_after en c)) = goal_state k c" "plan_state k (snd (reflect_after en c)) = plan_state k c"
  "goal_state k (snd (learn_cycle en t b c)) = goal_state k c" "plan_state k (snd (learn_cycle en t b c)) = plan_state k c"
  "goal_state k (note_in_world en g title s c) = goal_state k c" "plan_state k (note_in_world en g title s c) = plan_state k c"
  by (simp_all add: goal_state_def plan_state_def)

lemma then_do_result:
  assumes "then_do m f = (Inr b, c')"
  obtains a where "fst m = Inr a" "f a (snd m) = (Inr b, c')"
  using assms by (cases m) (auto simp: then_do_Inr)

lemma created_goal:
  "goals_shape st \<Longrightarrow> fst (goal_create ok uid now title kind pr prov par deps ag st) = Inr g \<Longrightarrow>
   dget (gs_goals (snd (goal_create ok uid now title kind pr prov par deps ag st))) (goal_id g) = Some g"
proof (cases "find (\<lambda>g. gattr ''title'' g = PStr title \<and> is_active g) (dvals (gs_goals st))")
  case None
  let ?g = "new_goal uid now title kind pr prov par deps ag"
  assume "fst (goal_create ok uid now title kind pr prov par deps ag st) = Inr g"
  then have "g = ?g" using None by (auto simp: goal_create_def Let_def case_prod_unfold dest!: map_sum_right)
  moreover have "goal_id ?g = uid" by (simp add: goal_id_def new_goal_def gattr_def dgetd_def)
  ultimately show ?thesis using None by (simp add: goal_create_def Let_def case_prod_unfold)
next
  case (Some h)
  assume a: "goals_shape st" "fst (goal_create ok uid now title kind pr prov par deps ag st) = Inr g"
  then have g: "g = h" using Some by (simp add: goal_create_def)
  have "h \<in> set (dvals (gs_goals st))" using Some by (auto simp: find_Some_iff)
  then obtain k where k: "(k, h) \<in> set (gs_goals st)" by auto
  then have "goal_id h = k" using a(1) by (auto simp: goals_shape_def list_all_iff goal_shape_def goal_id_def)
  then show ?thesis using a(1) k g Some by (simp add: goal_create_def goals_shape_def dget_iff_in)
qed

lemma update_status:
  assumes "goals_shape st" and "dget (gs_goals st) k = Some g"
  shows "map_option (gattr ''status'') (dget (gs_goals (snd (goal_update ok now k [(''status'', v), (x, w)] st))) k) =
    Some (if x = ''status'' then w else v)"
proof -
  have "''status'' \<in> set (dkeys g)" using shape_get [OF assms] by (simp add: goal_shape_def goal_fields_def)
  moreover from this have "''status'' \<in> set (dkeys (dput ''status'' v g))" by (simp add: dkeys_put_present del: set_map)
  ultimately show ?thesis using assms(2)
    by (auto simp: goal_update_def Let_def case_prod_unfold set_attrs_def gattr_def dgetd_def)
qed

lemma goal_closes:
  assumes "goals_shape (cn_goals c)" and "goal_state k c \<noteq> None"
  shows "goal_state k (snd (on_goals (goal_complete ok now k) c)) = Some (PStr ''completed'')"
    and "goal_state k (snd (on_goals (goal_fail ok now k b) c)) = Some (PStr ''failed'')"
proof -
  obtain g where g: "dget (gs_goals (cn_goals c)) k = Some g" using assms(2) by (auto simp: goal_state_def)
  show "goal_state k (snd (on_goals (goal_complete ok now k) c)) = Some (PStr ''completed'')"
    "goal_state k (snd (on_goals (goal_fail ok now k b) c)) = Some (PStr ''failed'')"
    unfolding goal_state_def goal_complete_def goal_fail_def on_goals_frame update_status [OF assms(1) g] by simp_all
qed

lemma on_plan_state:
  "dget (ps_plans st) k = Some p \<Longrightarrow> dget (ps_plans (snd (on_plan ok k f st))) k = Some (f p)"
  by (simp add: on_plan_def Let_def case_prod_unfold)

lemma plan_closes:
  "plan_state k c \<noteq> None \<Longrightarrow> plan_state k (snd (on_plans (plan_finish ok now k status) c)) = Some (PStr status)"
  "plan_state k c \<noteq> None \<Longrightarrow> plan_state k (snd (on_plans (plan_set_steps ok now k steps) c)) \<noteq> None"
  "plan_state k c \<noteq> None \<Longrightarrow> plan_state k (snd (on_plans (plan_append_steps ok now k steps) c)) \<noteq> None"
  by (auto simp: plan_state_def plan_finish_def plan_set_steps_def plan_append_steps_def on_plan_state split: option.splits)

lemma created_plan:
  "fst (on_plans (plan_create ok uid now g t [] pr) c) = Inr p \<Longrightarrow>
   pl_id p = uid \<and> plan_state uid (snd (on_plans (plan_create ok uid now g t [] pr) c)) \<noteq> None"
  by (auto simp: plan_create_def put_plan_def plan_state_def Let_def case_prod_unfold dest!: map_sum_right)

lemma replan_state:
  assumes "replan_fix en text pv pid c = (Inr u, c')" and "plan_state pid c = Some (PStr ''failed'')"
  shows "goal_state k c' = goal_state k c \<and> plan_state pid c' \<in> {Some (PStr ''completed''), Some (PStr ''failed'')}"
  using assms unfolding replan_fix_def
  by (auto elim!: then_do_result simp: plan_closes split: if_splits)

lemma settle_done_state:
  assumes "settle_done en gid pid c = (Inr u, c')" and "goals_shape (cn_goals c)"
    and "goal_state gid c \<noteq> None" and "plan_state pid c \<noteq> None"
  shows "goal_state gid c' = Some (PStr ''completed'') \<and> plan_state pid c' = Some (PStr ''completed'')"
proof -
  let ?c1 = "snd (on_goals (goal_complete (ce_ok en) (ce_now en) gid) c)"
  let ?c2 = "snd (on_plans (plan_finish (ce_ok en) (ce_now en) pid ''completed'') ?c1)"
  from assms(1) have "reflect_after en ?c2 = (Inr u, c')"
    unfolding settle_done_def by (elim then_do_result) simp
  then have "c' = snd (reflect_after en ?c2)" by simp
  then show ?thesis using assms by (simp add: goal_closes plan_closes)
qed

lemma settle_failed_state:
  assumes "settle_failed en gid pid e tx pv c = (Inr u, c')" and "goals_shape (cn_goals c)"
    and "goal_state gid c \<noteq> None" and "plan_state pid c \<noteq> None"
  shows "goal_state gid c' = Some (PStr ''failed'') \<and> plan_state pid c' \<in> {Some (PStr ''completed''), Some (PStr ''failed'')}"
proof -
  let ?c1 = "snd (on_goals (goal_fail (ce_ok en) (ce_now en) gid (of_ostr e)) c)"
  let ?c2 = "snd (on_plans (plan_finish (ce_ok en) (ce_now en) pid ''failed'') ?c1)"
  from assms(1) obtain a where r: "fst (replan_fix en tx pv pid ?c2) = Inr a"
    "reflect_after en (snd (replan_fix en tx pv pid ?c2)) = (Inr u, c')"
    unfolding settle_failed_def by (elim then_do_result) simp
  then have "c' = snd (reflect_after en (snd (replan_fix en tx pv pid ?c2)))" by simp
  moreover have "replan_fix en tx pv pid ?c2 = (Inr a, snd (replan_fix en tx pv pid ?c2))" using r(1) by (simp add: prod_eq_iff)
  moreover have "plan_state pid ?c2 = Some (PStr ''failed'')" using assms(4) by (simp add: plan_closes)
  ultimately show ?thesis using assms replan_state [of en tx pv pid ?c2 a _ gid] by (simp add: goal_closes)
qed

lemma settle_goal_state:
  assumes "settle_goal en gid pid tx pv run c = (Inr u, c')" and "goals_shape (cn_goals c)"
    and "goal_state gid c \<noteq> None" and "plan_state pid c \<noteq> None"
  shows "goal_state gid c' = Some (PStr (if ar_status run = RunDone then ''completed'' else ''failed'')) \<and>
    plan_state pid c' \<in> (if ar_status run = RunDone then {Some (PStr ''completed'')} else {Some (PStr ''completed''), Some (PStr ''failed'')})"
  using assms settle_done_state [of en gid pid c u c'] settle_failed_state [of en gid pid "ar_error run" tx pv c u c']
  by (simp add: settle_goal_def split: if_splits)

lemma conclude_run_state:
  assumes "conclude_run en tx pv g k run c = (Inr (Processed gid pid st err n), c')" and "goals_shape (cn_goals c)"
    and "goal_state (goal_id g) c \<noteq> None" and "plan_state k c \<noteq> None"
  shows "goal_state gid c' = Some (PStr (if st = RunDone then ''completed'' else ''failed'')) \<and>
    plan_state pid c' \<in> (if st = RunDone then {Some (PStr ''completed'')} else {Some (PStr ''completed''), Some (PStr ''failed'')})"
proof -
  let ?c1 = "snd (on_plans (plan_set_steps (ce_ok en) (ce_now en) k (map (plan_step_of (ce_sf en)) (ar_history run))) c)"
  let ?s = "settle_goal en (goal_id g) k tx pv run ?c1"
  let ?d = "snd (learn_cycle en tx (ar_status run = RunDone) (snd ?s))"
  from assms(1) obtain u where u: "fst ?s = Inr u"
    and o: "(Inr (Processed (goal_id g) k (ar_status run) (ar_error run) (length (ar_history run))),
      note_in_world en (goal_id g) (gattr ''title'' g) (run_status_text (ar_status run)) ?d) = (Inr (Processed gid pid st err n), c')"
    unfolding conclude_run_def Let_def by (elim then_do_result) blast
  have e: "gid = goal_id g" "pid = k" "st = ar_status run"
    "c' = note_in_world en (goal_id g) (gattr ''title'' g) (run_status_text (ar_status run)) ?d"
    using o by blast+
  have "?s = (Inr u, snd ?s)" using u by (simp add: prod_eq_iff)
  from settle_goal_state [OF this] show ?thesis using assms(2-4) e by (simp add: plan_closes)
qed

lemma execute_goal_state:
  assumes "execute_goal en tx given g c = (Inr (Processed gid pid st err n), c')" and "goals_shape (cn_goals c)"
    and "goal_state (goal_id g) c \<noteq> None"
  shows "goal_state gid c' = Some (PStr (if st = RunDone then ''completed'' else ''failed'')) \<and>
    plan_state pid c' \<in> (if st = RunDone then {Some (PStr ''completed'')} else {Some (PStr ''completed''), Some (PStr ''failed'')})"
proof -
  let ?pv = "fst (resolve_provider en given c)"
  let ?pc = "plan_create (ce_ok en) (ce_plan_id en) (ce_now en) (goal_id g) tx [] (Some ?pv)"
  let ?c2 = "snd (on_plans ?pc (snd (resolve_provider en given c)))"
  let ?c3 = "snd (run_role en ''planner'' 6 tx ?pv ?c2)"
  from assms(1) obtain p run where p: "fst (on_plans ?pc (snd (resolve_provider en given c))) = Inr p"
    and r: "conclude_run en tx ?pv g (pl_id p) run ?c3 = (Inr (Processed gid pid st err n), c')"
    unfolding execute_goal_def Let_def case_prod_unfold by (elim then_do_result) blast
  have "plan_state (pl_id p) ?c3 \<noteq> None" using created_plan [OF p] by simp
  with assms(2,3) show ?thesis by (intro conclude_run_state [OF r]) (simp_all add: goal_state_def)
qed


definition says_done :: provider where
  "says_done n ms = Some ''all done''"

definition demo_cognition :: "nat cognition" where
  "demo_cognition = \<lparr>cn_nervous = new_nervous 0, cn_goals = empty_store, cn_plans = no_plans, cn_registry = new_registry None,
     cn_state = 7, cn_providers = \<lparr>pv_all = [(''local'', says_done)], pv_default = Some ''local''\<rparr>,
     cn_intel = \<lparr>pi_remote = None, pi_checked = 0\<rparr>, cn_knowledge = \<lparr>kn_entries = [], kn_disk = Absent\<rparr>,
     cn_experience = new_experience 9, cn_world = new_world False 5\<rparr>"

definition demo_environment :: environment where
  "demo_environment = \<lparr>ce_sf = point0, ce_now = 3, ce_ok = True, ce_goal_id = ''g'', ce_plan_id = ''p'', ce_prompts = id,
     ce_has_key = False, ce_models = Inr None\<rparr>"

lemma process_goal_keeps_registries_witness:
  "cognition_ok (snd (process_goal demo_environment ''tidy'' ''user'' None False demo_cognition))"
  by (rule process_goal_keeps_registries)
    (simp add: cognition_ok_def demo_cognition_def goals_ok_def goals_shape_def empty_store_def active_titles_def no_plans_def plans_shape_def)


text \<open>The step in which the model says that it is done is kept in the plan as a step that failed.\<close>

lemma done_step_failed: "dget (plan_step_of sf SaidDone) ''status'' = Some (PStr ''failed'')"
  by (simp add: plan_step_of_def new_step_def)

end
