(* ===== verification/Brain.thy ===== *)
theory Brain
  imports Cognition Attention Scheduler
begin

text \<open>
  \<open>CognitiveOrchestrator.tick\<close> and its event handlers (\<open>intelligence/orchestration.py\<close>): one pass of the
  periodic job over the whole intelligence layer. The events that reach the router are kept in order of emission;
  a component that raises ends the pass where it stands, as the scheduler then marks the job.
\<close>

section \<open>State\<close>

record 's brain = "'s cognition" +
  br_rhythm :: cognitive
  br_attention :: attention
  br_working :: working
  br_episodic :: episodic
  br_procedural :: procedural
  br_store :: memory
  br_proactive :: proactive
  br_out :: "bus_event list"

text \<open>What the pass reads of the rest of the process.\<close>

record sensed =
  se_formats :: formats
  se_router :: bool
  se_snapshot :: snapshot
  se_jobs :: nat
  se_actions :: "string list"
  se_uid :: string

definition br_emit :: "bool \<Rightarrow> bus_event list \<Rightarrow> 's brain \<Rightarrow> 's brain" where
  "br_emit running es b = (if running then b\<lparr>br_out := br_out b @ es\<rparr> else b)"

definition memory_view :: "'s brain \<Rightarrow> coordinator" where
  "memory_view b = \<lparr>mc_working = br_working b, mc_episodic = br_episodic b, mc_procedural = br_procedural b,
     mc_knowledge = Some (cn_knowledge b), mc_experience = Some (cn_experience b), mc_store = Some (br_store b)\<rparr>"

definition put_memory :: "coordinator \<Rightarrow> 's brain \<Rightarrow> 's brain" where
  "put_memory mc b = b\<lparr>br_working := mc_working mc, br_episodic := mc_episodic mc, br_procedural := mc_procedural mc,
     cn_knowledge := the (mc_knowledge mc), br_store := the (mc_store mc)\<rparr>"

text \<open>The titles of the active goals; a title that a file gave as no text is read by \<open>str\<close> where it is used.\<close>

definition goal_titles :: "(pyfloat \<Rightarrow> string) \<Rightarrow> goal_store \<Rightarrow> string list result" where
  "goal_titles sf gs = map_sum id (map (\<lambda>g. py_str sf (gattr ''title'' g))) (active_goals gs)"

section \<open>The pass\<close>

text \<open>Looking for suggestions asks for the health of the providers once curiosity gets as far as that.\<close>

definition asks_providers :: "pyfloat \<Rightarrow> experience \<Rightarrow> goal_store \<Rightarrow> bool" where
  "asks_providers now ex goals =
     (case ex_recall (Some 40) ex of
        Inl _ \<Rightarrow> False
      | Inr es \<Rightarrow>
          (case (count_failures es [], active_goals goals) of
             (Inr _, Inr active) \<Rightarrow> (case try_map (stalled_goal now) active of Inl _ \<Rightarrow> False | Inr _ \<Rightarrow> True)
           | _ \<Rightarrow> False))"

definition tick_suggest :: "environment \<Rightarrow> sensed \<Rightarrow> 's brain \<Rightarrow> suggestion list result \<times> 's brain" where
  "tick_suggest en se b =
     (let now = ce_now en;
          (h, i) = providers_health now (ce_has_key en) (ce_models en) (cn_providers b) (cn_intel b);
          (r, p) = proactive_tick (ce_ok en) now (se_uid se) (cn_experience b) (cn_knowledge b) (br_store b) (br_episodic b)
                     (cn_goals b) (cn_nervous b) h (se_actions se) (br_proactive b)
      in (r, b\<lparr>cn_intel := (if asks_providers now (cn_experience b) (cn_goals b) then i else cn_intel b), br_proactive := p\<rparr>))"

definition tick_consolidate :: "environment \<Rightarrow> 's brain \<Rightarrow> unit result \<times> 's brain" where
  "tick_consolidate en b =
     (if should_consolidate (br_rhythm b)
      then (let (r, mc) = consolidate (ce_sf en) (ce_ok en) (ce_now en) 10 (memory_view b) in (map_sum id (\<lambda>_. ()) r, put_memory mc b))
      else (Inr (), b))"

definition tick_reflect :: "environment \<Rightarrow> 's brain \<Rightarrow> unit result \<times> 's brain" where
  "tick_reflect en b =
     (if should_reflect (br_rhythm b)
      then (let (r, k) = reflect_now (ce_sf en) (ce_ok en) (ce_now en) 8 (cn_experience b) (cn_knowledge b)
            in (map_sum id (\<lambda>_. ()) r, b\<lparr>cn_knowledge := k\<rparr>))
      else (Inr (), b))"

definition tick_sense :: "environment \<Rightarrow> sensed \<Rightarrow> 's brain \<Rightarrow> unit result \<times> 's brain" where
  "tick_sense en se b =
     (let now = ce_now en; on = se_router se; (r, nv) = heed (se_formats se) on now (se_snapshot se) (cn_nervous b);
          b1 = b\<lparr>cn_nervous := nv\<rparr>
      in case r of
           Inl e \<Rightarrow> (Inl e, b1)
         | Inr (surfaced, es) \<Rightarrow>
             (let b2 = br_emit on es b1 in
              case goal_titles (ce_sf en) (cn_goals b2) of
                Inl e \<Rightarrow> (Inl e, b2)
              | Inr goals \<Rightarrow>
                  (let ((mode, es2), cg) = transition on now (activity_state now nv) (hs_overall (health nv)) (length goals) (se_jobs se) (br_rhythm b2);
                       (es3, att) = foldl (note_surfaced on now goals mode) ([], br_attention b2) surfaced
                   in (Inr (), br_emit on (es2 @ es3) (b2\<lparr>br_rhythm := cg, br_attention := att\<rparr>)))))"

definition cognition_tick :: "environment \<Rightarrow> sensed \<Rightarrow> 's brain \<Rightarrow> unit result \<times> 's brain" where
  "cognition_tick en se b =
     then_do (tick_sense en se b) (\<lambda>_ b.
     then_do (tick_suggest en se b) (\<lambda>_ b.
     then_do (tick_consolidate en b) (\<lambda>_ b.
     then_do (tick_reflect en b) (\<lambda>_ b.
       (Inr (), b\<lparr>cn_world := record_event (ce_now en) ''cognition.tick''
          [(''rhythm'', PStr (rhythm_value (cg_current (br_rhythm b))))] (cn_world b)\<rparr>)))))"

section \<open>Event handlers\<close>

text \<open>\<open>_on_failure\<close> hands its note to the router, which drops it when it does not run.\<close>

definition on_failure :: "environment \<Rightarrow> bool \<Rightarrow> pyval sdict \<Rightarrow> 's brain \<Rightarrow> 's brain" where
  "on_failure en running payload b =
     br_emit running [(''attention.note'', [(''kind'', PStr ''capability''), (''level'', PStr ''warning''),
       (''message'', PStr (''capability failed: '' @ py_str (ce_sf en) (dgetd payload ''action'' PNone)))])]
       (b\<lparr>cn_nervous := touch (ce_now en) (cn_nervous b)\<rparr>)"

text \<open>\<open>_on_signal\<close> of a signal's own event; a message that is no text raises.\<close>

definition on_signal :: "environment \<Rightarrow> bool \<Rightarrow> pyval sdict \<Rightarrow> 's brain \<Rightarrow> unit result \<times> 's brain" where
  "on_signal en running payload b =
     (case goal_titles (ce_sf en) (cn_goals b) of
        Inl e \<Rightarrow> (Inl e, b)
      | Inr goals \<Rightarrow>
          (case (dgetd payload ''kind'' PNone, dgetd payload ''level'' PNone, dgetd payload ''message'' PNone) of
             (PStr k, PStr l, PStr m) \<Rightarrow>
               (let ((_, es), att) = note_signal running (ce_now en) k l m goals (cg_current (br_rhythm b)) [] (br_attention b)
                in (Inr (), br_emit running es (b\<lparr>br_attention := att\<rparr>)))
           | _ \<Rightarrow> (Inl (Exc ''AttributeError'' ''object has no attribute lower''), b)))"

section \<open>Consolidation does not come\<close>

definition same_memory :: "'s brain \<Rightarrow> 's brain \<Rightarrow> bool" where
  "same_memory b c \<longleftrightarrow> br_working b = br_working c \<and> br_episodic b = br_episodic c \<and> br_procedural b = br_procedural c \<and> br_store b = br_store c"

lemma emit_frame [simp]:
  "same_memory b (br_emit on es c) = same_memory b c" "br_rhythm (br_emit on es b) = br_rhythm b"
  "cn_goals (br_emit on es b) = cn_goals b" "cn_plans (br_emit on es b) = cn_plans b" "br_attention (br_emit on es b) = br_attention b"
  "br_proactive (br_emit on es b) = br_proactive b"
  by (simp_all add: br_emit_def same_memory_def)

lemma same_memory_fields [simp]:
  "same_memory b (c\<lparr>cn_nervous := nv\<rparr>) = same_memory b c" "same_memory b (c\<lparr>br_rhythm := cg\<rparr>) = same_memory b c"
  "same_memory b (c\<lparr>br_attention := att\<rparr>) = same_memory b c" "same_memory b (c\<lparr>cn_knowledge := k\<rparr>) = same_memory b c"
  "same_memory b (c\<lparr>cn_world := w\<rparr>) = same_memory b c" "same_memory b (c\<lparr>cn_intel := i\<rparr>) = same_memory b c"
  "same_memory b (c\<lparr>br_proactive := pr\<rparr>) = same_memory b c" "same_memory b b"
  by (simp_all add: same_memory_def)

text \<open>The rhythm after sensing is the one the transition chooses.\<close>

lemma tick_sense_result:
  assumes "fst (tick_sense en se b) = Inr u"
  shows "\<exists>act ov goals. cg_current (br_rhythm (snd (tick_sense en se b))) =
      fst (fst (transition (se_router se) (ce_now en) act ov goals (se_jobs se) (br_rhythm b)))"
proof -
  have "cg_current (snd (transition r now act ov g j c)) = fst (fst (transition r now act ov g j c))" for r now act ov g j c
    by (simp add: transition_def Let_def case_prod_unfold)
  then show ?thesis using assms unfolding tick_sense_def Let_def case_prod_unfold
    by (auto split: sum.splits)
qed

lemma busy_rhythm:
  "0 < jobs \<Longrightarrow> cg_current c \<noteq> Constrained \<Longrightarrow>
   fst (fst (transition on now act ov goals jobs c)) \<in> {Constrained, Degraded, Active, Background}"
  by (simp add: transition_def rhythm_target_def Let_def)

lemma tick_sense_memory: "same_memory b (snd (tick_sense en se b))"
  by (simp add: tick_sense_def Let_def case_prod_unfold split: sum.split)

lemma tick_suggest_frame: "same_memory b (snd (tick_suggest en se c)) = same_memory b c" "br_rhythm (snd (tick_suggest en se c)) = br_rhythm c"
  by (simp_all add: tick_suggest_def Let_def case_prod_unfold)

lemma tick_reflect_memory: "same_memory b (snd (tick_reflect en c)) = same_memory b c"
  by (simp add: tick_reflect_def Let_def case_prod_unfold)

text \<open>
  C31. A tick that runs as a job of the scheduler, as all do, counts itself among the active jobs, and so never
  consolidates memory unless the node was constrained before: working memory, episodes, recipes and the
  key/value store are as they were, whatever was observed and however the tick ends.
\<close>

theorem tick_never_consolidates:
  assumes "j \<in> set (sch_list_jobs None s)" and "job_status j = Running" and "se_jobs se = active_job_count s"
    and "cg_current (br_rhythm b) \<noteq> Constrained"
  shows "same_memory b (snd (cognition_tick en se b))"
proof -
  let ?s = "tick_sense en se b" and ?P = "same_memory b"
  have busy: "0 < se_jobs se" using running_counted [OF assms(1,2)] assms(3) by simp
  have quiet: "\<not> should_consolidate (br_rhythm (snd ?s))" if ok: "fst ?s = Inr u" for u
  proof -
    obtain act ov goals where "cg_current (br_rhythm (snd ?s)) =
        fst (fst (transition (se_router se) (ce_now en) act ov goals (se_jobs se) (br_rhythm b)))"
      using tick_sense_result [OF ok] by blast
    then show ?thesis using busy_rhythm [OF busy assms(4), of "se_router se" "ce_now en" act ov goals] by (auto simp: should_consolidate_def)
  qed
  show ?thesis unfolding cognition_tick_def
  proof (rule then_do_keeps [where P = ?P])
    fix u c assume "fst ?s = Inr u" and c: "c = snd ?s"
    let ?t = "tick_suggest en se c"
    have still: "\<not> should_consolidate (br_rhythm (snd ?t))" using quiet [OF \<open>fst ?s = Inr u\<close>] c by (simp add: tick_suggest_frame)
    have same: "same_memory b (snd ?t)" using c by (simp add: tick_suggest_frame tick_sense_memory)
    show "?P (snd (then_do ?t (\<lambda>_ b. then_do (tick_consolidate en b) (\<lambda>_ b. then_do (tick_reflect en b) (\<lambda>_ b.
       (Inr (), b\<lparr>cn_world := record_event (ce_now en) ''cognition.tick'' [(''rhythm'', PStr (rhythm_value (cg_current (br_rhythm b))))] (cn_world b)\<rparr>))))))"
      using still same
      by (intro then_do_keeps [where P = ?P]) (auto simp: tick_consolidate_def tick_reflect_memory)
  qed (rule tick_sense_memory)
qed

definition demo_brain :: "nat brain" where
  "demo_brain = \<lparr>cn_nervous = new_nervous 0, cn_goals = empty_store, cn_plans = no_plans, cn_registry = new_registry None,
     cn_state = 7, cn_providers = \<lparr>pv_all = [(''local'', says_done)], pv_default = Some ''local''\<rparr>,
     cn_intel = \<lparr>pi_remote = None, pi_checked = 0\<rparr>, cn_knowledge = \<lparr>kn_entries = [], kn_disk = Absent\<rparr>,
     cn_experience = new_experience 9, cn_world = new_world False 5, br_rhythm = new_cognitive 0, br_attention = new_attention 32,
     br_working = new_working 48 600, br_episodic = \<lparr>ep_file = None, ep_capacity = 9\<rparr>, br_procedural = pm_load Absent,
     br_store = mem_load Absent, br_proactive = \<lparr>pro_list = [], pro_file = Absent\<rparr>, br_out = []\<rparr>"

definition demo_sensed :: sensed where
  "demo_sensed = \<lparr>se_formats = demo_formats, se_router = True, se_snapshot = calm_snapshot 4000000000,
     se_jobs = active_job_count tick_scheduler, se_actions = [], se_uid = ''u''\<rparr>"

lemma tick_never_consolidates_witness:
  "same_memory demo_brain (snd (cognition_tick demo_environment demo_sensed demo_brain))"
proof (rule tick_never_consolidates)
  show "\<lparr>job_name = ''cognition.tick'', job_func = 0, job_run_at = 0, job_interval = Some 10, job_priority = 0,
      job_status = Running, job_id = ''a'', job_error = None\<rparr> \<in> set (sch_list_jobs None tick_scheduler)"
    by (simp add: sch_list_jobs_def tick_scheduler_def new_scheduler_def)
qed (simp_all add: demo_sensed_def demo_brain_def new_cognitive_def)

section \<open>What every tick keeps\<close>

definition brain_ok :: "'s brain \<Rightarrow> bool" where
  "brain_ok b \<longleftrightarrow> goals_ok (cn_goals b) \<and> goals_shape (cn_goals b) \<and> plans_shape (cn_plans b) \<and> attention_ok (br_attention b) \<and>
     0 \<le> at_capacity (br_attention b) \<and> length (pro_list (br_proactive b)) \<le> 50"

lemma brain_ok_fields [simp]:
  "brain_ok (b\<lparr>cn_nervous := nv\<rparr>) = brain_ok b" "brain_ok (b\<lparr>br_rhythm := cg\<rparr>) = brain_ok b" "brain_ok (b\<lparr>cn_knowledge := k\<rparr>) = brain_ok b"
  "brain_ok (b\<lparr>cn_world := w\<rparr>) = brain_ok b" "brain_ok (b\<lparr>cn_intel := i\<rparr>) = brain_ok b" "brain_ok (put_memory mc b) = brain_ok b"
  "brain_ok (br_emit on es b) = brain_ok b"
  by (simp_all add: brain_ok_def put_memory_def br_emit_def)

lemma note_surfaced_ok:
  "attention_ok (snd st) \<and> 0 \<le> at_capacity (snd st) \<Longrightarrow>
   attention_ok (snd (foldl (note_surfaced on now gs mode) st ss)) \<and> 0 \<le> at_capacity (snd (foldl (note_surfaced on now gs mode) st ss))"
proof (induction ss arbitrary: st)
  case (Cons x ss)
  show ?case unfolding foldl_Cons
    by (rule Cons.IH) (use Cons.prems note_signal_ok in \<open>simp add: note_surfaced_def Let_def case_prod_unfold\<close>)
qed simp

lemma proactive_bound:
  "length (pro_list p) \<le> 50 \<Longrightarrow> length (pro_list (snd (proactive_tick ok now uid ex k st ep gs nv h as p))) \<le> 50"
  unfolding proactive_tick_def
  by (intro then_do_keeps [where P = "\<lambda>p. length (pro_list p) \<le> 50"])
    (simp_all add: pro_merge_def pro_save_def merge_list_def Let_def case_prod_unfold length_slice_last)

lemma tick_sense_ok: "brain_ok b \<Longrightarrow> brain_ok (snd (tick_sense en se b))"
  unfolding tick_sense_def Let_def case_prod_unfold
  by (auto simp: brain_ok_def note_surfaced_ok split: sum.split)

lemma tick_parts_ok:
  "brain_ok b \<Longrightarrow> brain_ok (snd (tick_suggest en se b))" "brain_ok b \<Longrightarrow> brain_ok (snd (tick_consolidate en b))"
  "brain_ok b \<Longrightarrow> brain_ok (snd (tick_reflect en b))"
  by (simp_all add: tick_suggest_def tick_consolidate_def tick_reflect_def brain_ok_def put_memory_def proactive_bound Let_def case_prod_unfold)

lemma tick_ok: "brain_ok b \<Longrightarrow> brain_ok (snd (cognition_tick en se b))"
  unfolding cognition_tick_def
  by (intro then_do_keeps [where P = brain_ok]) (simp_all add: tick_sense_ok tick_parts_ok)

lemma on_signal_ok: "brain_ok b \<Longrightarrow> brain_ok (snd (on_signal en on payload b))"
  using note_signal_ok by (auto simp: on_signal_def brain_ok_def Let_def case_prod_unfold split: sum.split pyval.split)

text \<open>The events of one brain: its ticks, and what the router hands to its handlers in between.\<close>

datatype brain_event = TickEvent environment sensed | FailureEvent environment bool "pyval sdict" | SignalEvent environment bool "pyval sdict"

fun run_brain :: "brain_event \<Rightarrow> 's brain \<Rightarrow> 's brain" where
  "run_brain (TickEvent en se) b = snd (cognition_tick en se b)"
| "run_brain (FailureEvent en on p) b = on_failure en on p b"
| "run_brain (SignalEvent en on p) b = snd (on_signal en on p b)"

text \<open>
  Through any interleaving of ticks and event handlers, those that raise in their middle included, the
  brain stays bounded and in order: the attention queue within its capacity and sorted, at most fifty
  suggestions, and the goals and plans well formed.
\<close>

lemma brain_stays_ok:
  assumes "brain_ok b"
  shows "brain_ok (fold run_brain es b)"
proof -
  have "brain_ok (run_brain e b)" if "brain_ok b" for e :: brain_event and b :: "'a brain"
    using that by (cases e) (simp_all add: tick_ok on_failure_def on_signal_ok)
  with assms show ?thesis by (induction es arbitrary: b) auto
qed

lemma brain_stays_ok_witness:
  "brain_ok (fold run_brain [TickEvent demo_environment demo_sensed, SignalEvent demo_environment True []] demo_brain)"
  by (rule brain_stays_ok)
    (simp add: brain_ok_def demo_brain_def goals_ok_def goals_shape_def empty_store_def active_titles_def no_plans_def plans_shape_def
      attention_ok_def new_attention_def)

section \<open>A signal is noted twice\<close>

text \<open>
  A warning or an alarm that surfaces is put into the queue by the tick, and put there again when the
  router delivers the event of the same signal: outside sleep the queue then has two notes of it.
\<close>

lemma alarm_score: "l = ''critical'' \<or> l = ''warning'' \<Longrightarrow> mode \<noteq> Sleep \<Longrightarrow> \<not> note_score att k l m gs mode < 3 / 2"
  by (auto simp: note_score_def note_weights_def dgetd_def)

lemma length_filter_sort_desc: "length (filter P (sort_desc f xs)) = length (filter P xs)"
  by (simp add: sort_desc_def rev_filter [symmetric] filter_sort)

lemma noted_count:
  assumes "l = ''critical'' \<or> l = ''warning''" and "mode \<noteq> Sleep" and "int (length (at_queue att)) < at_capacity att"
  shows "length (at_queue (snd (note_signal on now k l m gs mode d att))) = Suc (length (at_queue att))"
    and "length (filter (\<lambda>n. an_message n = m) (at_queue (snd (note_signal on now k l m gs mode d att)))) =
      Suc (length (filter (\<lambda>n. an_message n = m) (at_queue att)))"
    and "at_capacity (snd (note_signal on now k l m gs mode d att)) = at_capacity att"
  using alarm_score [OF assms(1,2)] assms(3)
  by (simp_all add: note_signal_def Let_def length_filter_sort_desc)

definition times_noted :: "string \<Rightarrow> 's brain \<Rightarrow> nat" where
  "times_noted m b = length (filter (\<lambda>n. an_message n = m) (at_queue (br_attention b)))"

definition note_of_tick :: "bool \<Rightarrow> pyfloat \<Rightarrow> string list \<Rightarrow> signal \<Rightarrow> 's brain \<Rightarrow> 's brain" where
  "note_of_tick on now goals s b =
     b\<lparr>br_attention := snd (note_surfaced on now goals (cg_current (br_rhythm b)) ([], br_attention b) s)\<rparr>"

lemma signal_noted_twice:
  assumes "sg_level s = ''critical'' \<or> sg_level s = ''warning''" and "cg_current (br_rhythm b) \<noteq> Sleep"
    and "int (length (at_queue (br_attention b))) + 1 < at_capacity (br_attention b)"
    and "goal_titles (ce_sf en) (cn_goals b) = Inr goals"
  shows "times_noted (sg_message s) (snd (on_signal en on (snd (signal_event s)) (note_of_tick on now goals s b))) =
    times_noted (sg_message s) b + 2"
  using assms noted_count [OF assms(1,2), where att = "br_attention b" and on = on and now = now and k = "sg_kind s"
      and m = "sg_message s" and gs = goals and d = "sg_details s"]
    noted_count [OF assms(1,2), where att = "br_attention (note_of_tick on now goals s b)" and on = on and now = "ce_now en"
      and k = "sg_kind s" and m = "sg_message s" and gs = goals and d = "[]"]
  by (simp add: times_noted_def on_signal_def note_of_tick_def note_surfaced_def signal_event_def dgetd_def Let_def case_prod_unfold)

end
