(* ===== verification/Lifecycle.thy ===== *)
theory Lifecycle
  imports Brain Security World_Model Event_Router Config
begin

text \<open>
  \<open>buster/kernel/core.py\<close> with the lifecycle of the intelligence layer (\<open>intelligence/__init__.py\<close>,
  \<open>orchestration.py\<close>) and the sensor hub (\<open>perception/base.py\<close>): construction, start and stop of the one kernel
  of a process over the states of all its components. The set-up of the log files is left out; what the sensors
  observe, the clock, fresh identifiers and whether files can be written are arguments.
\<close>

section \<open>Sensors\<close>

text \<open>A sensor that raises is an observation that says so.\<close>

definition hub_register :: "string \<Rightarrow> 'o \<Rightarrow> 'o sdict \<Rightarrow> 'o sdict" where
  "hub_register name s hub = dput name s hub"

definition hub_names :: "'o sdict \<Rightarrow> string list" where
  "hub_names hub = sort (dkeys hub)"

definition hub_snapshot :: "('o \<Rightarrow> pyval result) \<Rightarrow> 'o sdict \<Rightarrow> pyval sdict" where
  "hub_snapshot look hub =
     map (\<lambda>(n, s). (n, case look s of Inl _ \<Rightarrow> PDict [(''error'', PStr ''sensor failed'')] | Inr v \<Rightarrow> v)) hub"

definition hub_shutdown :: "'o sdict \<Rightarrow> 'o sdict" where
  "hub_shutdown hub = []"

section \<open>State\<close>

datatype kernel_phase = KCreated | KStarting | KRunning | KStopping | KStopped

fun phase_text :: "kernel_phase \<Rightarrow> string" where
  "phase_text KCreated = ''created''" | "phase_text KStarting = ''starting''" | "phase_text KRunning = ''running''"
| "phase_text KStopping = ''stopping''" | "phase_text KStopped = ''stopped''"

fun job_status_text :: "job_status \<Rightarrow> string" where
  "job_status_text Pending = ''pending''" | "job_status_text Running = ''running''" | "job_status_text Completed = ''completed''"
| "job_status_text Cancelled = ''cancelled''" | "job_status_text Failed = ''failed''"

text \<open>The handlers of the orchestrator: each start makes a new function for the first, the others are methods.\<close>

datatype listener = TouchHook nat | FailureHook | SignalHook

datatype task = CognitionTick | OtherTask nat

record 's os = "'s brain" +
  os_phase :: kernel_phase
  os_router :: "listener router"
  os_sched :: "task scheduler"
  os_agents :: agent_manager
  os_audit :: audit
  os_protection :: delete_protection
  os_sensors :: "string sdict"
  os_lock :: "bool option"
  os_online :: bool
  os_job :: "string option"
  os_hooks :: "(string \<times> listener) list"
  os_touches :: nat

record boot =
  bt_env :: environment
  bt_version :: string
  bt_formats :: formats
  bt_snapshot :: snapshot
  bt_look :: "string \<Rightarrow> pyval result"
  bt_job :: string
  bt_line :: "audit_entry option \<Rightarrow> nat"
  bt_rotate :: bool

section \<open>The orchestrator's lifecycle\<close>

definition hooks_of :: "nat \<Rightarrow> (string \<times> listener) list" where
  "hooks_of n = [(''capability.succeeded'', TouchHook n), (''capability.failed'', FailureHook), (''intel.signal'', SignalHook)]"

text \<open>The fact "host": whatever the device sensor reports, "unknown" without one.\<close>

definition host_fact :: "boot \<Rightarrow> string sdict \<Rightarrow> pyval result" where
  "host_fact bt hub =
     (case dgetd (hub_snapshot (bt_look bt) hub) ''device'' (PDict []) of
        PDict d \<Rightarrow> Inr (dgetd d ''host'' (PStr ''unknown''))
      | _ \<Rightarrow> Inl (Exc ''AttributeError'' ''object has no attribute get''))"

definition record_world_facts :: "boot \<Rightarrow> string sdict \<Rightarrow> world \<Rightarrow> world" where
  "record_world_facts bt hub w =
     (let now = ce_now (bt_env bt); w1 = observe now ''cognition.cadence'' (PFloat 10) ''orchestrator'' ''observed'' w
      in case host_fact bt hub of Inl _ \<Rightarrow> w1 | Inr h \<Rightarrow> observe now ''host'' h ''perception'' ''observed'' w1)"

definition orchestrator_start :: "boot \<Rightarrow> 's os \<Rightarrow> 's os" where
  "orchestrator_start bt k =
     (if os_job k \<noteq> None then k
      else (let hs = hooks_of (os_touches k);
                (j, s) = sch_schedule (ce_now (bt_env bt)) (bt_job bt) ''cognition.tick'' CognitionTick 0 (Some 10) 0 (os_sched k)
            in k\<lparr>os_touches := os_touches k + 1, os_hooks := hs,
                 os_router := fold (\<lambda>(t, h). subscribe t h) hs (os_router k), os_sched := s, os_job := Some (job_id j),
                 cn_world := record_world_facts bt (os_sensors k) (cn_world k)\<rparr>))"

definition orchestrator_stop :: "'s os \<Rightarrow> 's os" where
  "orchestrator_stop k =
     (let k1 = (case os_job k of None \<Rightarrow> k | Some j \<Rightarrow> k\<lparr>os_sched := snd (sch_cancel j (os_sched k)), os_job := None\<rparr>)
      in k1\<lparr>os_router := fold (\<lambda>(t, h). unsubscribe t h) (os_hooks k1) (os_router k1), os_hooks := []\<rparr>)"

section \<open>The layer's lifecycle\<close>

definition emit_all :: "bus_event list \<Rightarrow> listener router \<Rightarrow> listener router" where
  "emit_all es r = fold (\<lambda>(t, p). emit t (Some p)) es r"

definition intel_start :: "boot \<Rightarrow> 's os \<Rightarrow> unit result \<times> 's os" where
  "intel_start bt k =
     (if os_online k then (Inr (), k)
      else (let k1 = orchestrator_start bt k;
                (r, nv) = heed (bt_formats bt) (er_running (os_router k1)) (ce_now (bt_env bt)) (bt_snapshot bt) (cn_nervous k1);
                k2 = k1\<lparr>cn_nervous := nv\<rparr>
            in case r of
                 Inl e \<Rightarrow> (Inl e, k2)
               | Inr (_, es) \<Rightarrow> (Inr (), k2\<lparr>os_router := emit_all es (os_router k2), os_online := True\<rparr>)))"

definition intel_stop :: "'s os \<Rightarrow> 's os" where
  "intel_stop k = (if \<not> os_online k then k else (orchestrator_stop k)\<lparr>os_online := False\<rparr>)"

section \<open>The kernel's lifecycle\<close>

definition on_world :: "(world \<Rightarrow> world) \<Rightarrow> 's os \<Rightarrow> 's os" where
  "on_world f k = k\<lparr>cn_world := f (cn_world k)\<rparr>"

text \<open>The registry reads whether the router runs through its kernel.\<close>

definition sync_router :: "listener router \<Rightarrow> 's os \<Rightarrow> 's os" where
  "sync_router r k = k\<lparr>os_router := r,
     cn_registry := (cn_registry k)\<lparr>rg_kernel := map_option (\<lambda>v. v\<lparr>kv_router_running := er_running r\<rparr>) (rg_kernel (cn_registry k))\<rparr>\<rparr>"

definition start_core :: "boot \<Rightarrow> 's os \<Rightarrow> 's os" where
  "start_core bt k =
     (let now = ce_now (bt_env bt); v = bt_version bt;
          k1 = sync_router (er_start (os_router k)) (k\<lparr>os_phase := KStarting\<rparr>);
          k2 = on_world (\<lambda>w. component_status now ''kernel'' ''starting'' []
                 (set_fact now ''capabilities'' (PList (map PStr (list_capabilities (cn_registry k))))
                   (set_fact now ''buster.version'' (PStr v) w))) k1;
          k3 = k2\<lparr>os_sched := sch_start (os_sched k2)\<rparr>;
          k4 = on_world (\<lambda>w. component_status now ''kernel'' ''running'' [] (component_status now ''scheduler'' ''running'' []
                 (component_status now ''event_router'' ''running'' [] w))) k3
      in k4\<lparr>os_phase := KRunning, os_router := emit ''kernel.started'' (Some [(''version'', PStr v)]) (os_router k4),
           os_audit := au_record (bt_line bt) (bt_rotate bt) (ce_ok (bt_env bt)) now ''kernel.start'' (PStr ''kernel'')
             [(''version'', PStr v)] (os_audit k4)\<rparr>)"

definition kernel_start :: "boot \<Rightarrow> 's os \<Rightarrow> unit result \<times> 's os" where
  "kernel_start bt k = (if os_phase k = KRunning then (Inr (), k) else intel_start bt (start_core bt k))"

definition final_reflection :: "boot \<Rightarrow> 's os \<Rightarrow> 's os" where
  "final_reflection bt k =
     (case ex_recall (Some 20) (cn_experience k) of
        Inl _ \<Rightarrow> k
      | Inr es \<Rightarrow> k\<lparr>cn_knowledge := the (snd (reflect (ce_ok (bt_env bt)) (ce_now (bt_env bt)) (default_hooks (ce_sf (bt_env bt))) es
          (Some (cn_knowledge k))))\<rparr>)"

definition kernel_stop :: "boot \<Rightarrow> 's os \<Rightarrow> 's os" where
  "kernel_stop bt k =
     (if os_phase k = KStopped then k
      else (let k1 = k\<lparr>os_phase := KStopping, os_agents := shutdown_all (os_agents k), os_sched := sch_stop (os_sched k)\<rparr>;
                k2 = intel_stop (on_world (component_status (ce_now (bt_env bt)) ''kernel'' ''stopped'' []) k1);
                k3 = final_reflection bt k2;
                (r, s) = rg_shutdown (cn_registry k3) (cn_state k3)
            in k3\<lparr>cn_registry := r, cn_state := s, os_sensors := hub_shutdown (os_sensors k3),
                 cn_providers := pv_shutdown (cn_providers k3), os_lock := map_option (\<lambda>_. False) (os_lock k3),
                 os_phase := KStopped\<rparr>))"

definition os_status :: "string \<Rightarrow> 's os \<Rightarrow> pyval sdict" where
  "os_status v k =
     [(''state'', PStr (phase_text (os_phase k))), (''version'', PStr v),
      (''event_router_running'', PBool (er_running (os_router k))), (''scheduler_running'', PBool (sch_running (os_sched k))),
      (''capabilities'', PList (map PStr (list_capabilities (cn_registry k)))), (''ai_providers'', PList (map PStr (pv_names (cn_providers k)))),
      (''agents'', PList (map (PStr \<circ> ag_name) (list_agents None (os_agents k)))),
      (''jobs'', PList (map (\<lambda>j. PDict [(''name'', PStr (job_name j)), (''status'', PStr (job_status_text (job_status j)))]) (sch_list_jobs None (os_sched k))))]"

section \<open>Construction\<close>

text \<open>Elevation is granted to the actions that the configuration lists; what it has there may not be a list. (The decision's line in the audit trail is left out.)\<close>

definition default_approval :: "config \<Rightarrow> approval" where
  "default_approval cfg action ctx =
     (case py_or (get_nested ''security.elevation_allow'' PNone cfg) (PList []) of
        PList vs \<Rightarrow> Inr (PBool (PStr action \<in> set vs))
      | PStr s \<Rightarrow> Inr (PBool (contains s action))
      | PDict d \<Rightarrow> Inr (PBool (action \<in> set (dkeys d)))
      | _ \<Rightarrow> Inl (Exc ''TypeError'' ''argument is not iterable''))"

text \<open>
  The remote provider is registered when the configuration has a key for it; the message that says so is
  logged through an attribute that the constructor sets only at its end.
\<close>

definition register_remote :: "provider \<Rightarrow> config \<Rightarrow> provider_registry \<Rightarrow> provider_registry result" where
  "register_remote remote cfg pr =
     (case py_or (dgetd (cf_data cfg) ''ai_providers'' (PDict [])) (PDict []) of
        PDict d \<Rightarrow>
          (case dget d ''remote'' of
             None \<Rightarrow> Inr pr
           | Some (PDict rc) \<Rightarrow>
               if truthy (dgetd rc ''api_key'' (PStr []))
               then (case pv_register ''remote'' remote False pr of
                       Inl e \<Rightarrow> Inl e
                     | Inr _ \<Rightarrow> Inl (Exc ''AttributeError'' ''object has no attribute logger''))
               else Inr pr
           | Some _ \<Rightarrow> Inl (Exc ''AttributeError'' ''object has no attribute get''))
      | PList vs \<Rightarrow> if PStr ''remote'' \<in> set vs then Inl (Exc ''TypeError'' ''list indices must be integers'') else Inr pr
      | PStr s \<Rightarrow> if contains s ''remote'' then Inl (Exc ''TypeError'' ''string indices must be integers'') else Inr pr
      | _ \<Rightarrow> Inl (Exc ''TypeError'' ''argument is not iterable''))"

fun register_all :: "'s capability list \<Rightarrow> 's registry \<Rightarrow> 's registry result" where
  "register_all [] r = Inr r"
| "register_all (c # cs) r = (case rg_register c r of Inl e \<Rightarrow> Inl e | Inr r' \<Rightarrow> register_all cs r')"

text \<open>What the constructor finds on disk and is given.\<close>

record 's install_state =
  in_config :: config
  in_rules :: "perm_row list"
  in_caps :: "'s capability list"
  in_remote :: provider
  in_caps_state :: 's
  in_cwd :: string
  in_knowledge :: "knowledge_entry list disk"
  in_store :: "mem_entry sdict disk"
  in_experience :: experience
  in_audit :: audit
  in_episodes :: "string option"
  in_recipes :: "recipe list disk"
  in_goals :: "pyval disk"
  in_plans :: "pyval disk"
  in_suggestions :: "pyval disk"

definition new_world_model :: world where
  "new_world_model = new_world True 100"

definition new_kernel :: "boot \<Rightarrow> 's install_state \<Rightarrow> 's os result" where
  "new_kernel bt i =
     (let now = ce_now (bt_env bt);
          view = \<lparr>kv_perms = from_rules (in_rules i) (new_permissions True), kv_elev = new_elevation None (Some (default_approval (in_config i))),
            kv_router_running = False\<rparr>;
          kn = kn_load (in_knowledge i);
          mc = new_coordinator (in_episodes i) (in_recipes i) (Some kn) (Some (in_experience i)) (Some (mem_load (in_store i)))
      in case register_all (in_caps i) (new_registry (Some view)) of
           Inl e \<Rightarrow> Inl e
         | Inr reg \<Rightarrow>
        (case pv_register ''local'' (local_provider (ce_sf (bt_env bt))) True new_providers of
           Inl e \<Rightarrow> Inl e
         | Inr p0 \<Rightarrow>
        (case register_remote (in_remote i) (in_config i) p0 of
           Inl e \<Rightarrow> Inl e
         | Inr prov \<Rightarrow>
        (case new_goal_store (in_goals i) of
           Inl e \<Rightarrow> Inl e
         | Inr goals \<Rightarrow>
        (case new_plan_store now (in_plans i) of
           Inl e \<Rightarrow> Inl e
         | Inr plans \<Rightarrow>
        (case new_proactive now (in_suggestions i) of
           Inl e \<Rightarrow> Inl e
         | Inr pro \<Rightarrow>
           Inr \<lparr>cn_nervous = new_nervous now, cn_goals = goals, cn_plans = plans, cn_registry = reg, cn_state = in_caps_state i,
             cn_providers = prov, cn_intel = \<lparr>pi_remote = None, pi_checked = 0\<rparr>, cn_knowledge = kn, cn_experience = in_experience i,
             cn_world = new_world_model, br_rhythm = new_cognitive now, br_attention = new_attention 32,
             br_working = mc_working mc, br_episodic = mc_episodic mc, br_procedural = mc_procedural mc, br_store = mem_load (in_store i),
             br_proactive = pro, br_out = [], os_phase = KCreated, os_router = new_router, os_sched = new_scheduler, os_agents = new_agents,
             os_audit = in_audit i, os_protection = new_protection (in_cwd i) (default_protected (cf_install (in_config i))),
             os_sensors = fold (\<lambda>n. hub_register n n) [''device'', ''environment'', ''battery'', ''network'', ''resources''] [],
             os_lock = None, os_online = False, os_job = None, os_hooks = [], os_touches = 0\<rparr>))))))"

section \<open>The invariant of the lifecycle\<close>

datatype life = Start boot | Stop boot

fun run_life :: "life \<Rightarrow> 's os \<Rightarrow> 's os" where
  "run_life (Start bt) k = snd (kernel_start bt k)"
| "run_life (Stop bt) k = kernel_stop bt k"

text \<open>The subscriptions are exactly those the orchestrator keeps a record of.\<close>

definition hooks_exact :: "'s os \<Rightarrow> bool" where
  "hooks_exact k \<longleftrightarrow> (\<forall>t. subscribers (os_router k) t = map snd (filter (\<lambda>(a, h). a = t) (os_hooks k))) \<and>
     (os_job k = None \<longrightarrow> os_hooks k = []) \<and> (\<exists>n. os_hooks k \<in> {[], hooks_of n})"

definition life_inv :: "'s os \<Rightarrow> bool" where
  "life_inv k \<longleftrightarrow> hooks_exact k \<and> length (er_loops (os_router k)) = (if er_running (os_router k) then 1 else 0) \<and>
     (os_phase k = KRunning \<longrightarrow> er_running (os_router k) \<and> sch_running (os_sched k)) \<and>
     (os_phase k = KStopped \<longrightarrow> rg_caps (cn_registry k) = [] \<and> pv_names (cn_providers k) = [] \<and> os_sensors k = [] \<and>
        \<not> sch_running (os_sched k) \<and> os_lock k \<noteq> Some True \<and> \<not> os_online k)"

declare subscribers_subscribe [simp] subscribers_unsubscribe [simp]

lemma router_frames [simp]:
  "er_running (subscribe t h r) = er_running r" "er_loops (subscribe t h r) = er_loops r"
  "er_running (unsubscribe t h r) = er_running r" "er_loops (unsubscribe t h r) = er_loops r"
  "er_running (emit t p r) = er_running r" "er_loops (emit t p r) = er_loops r" "subscribers (emit t p r) u = subscribers r u"
  by (simp_all add: subscribe_def unsubscribe_def emit_def subscribers_def)

lemma emit_all_frames [simp]:
  "er_running (emit_all es r) = er_running r" "er_loops (emit_all es r) = er_loops r" "subscribers (emit_all es r) u = subscribers r u"
  unfolding emit_all_def by (induction es arbitrary: r) auto

lemma hooks_of_subscribed:
  "(\<And>t. subscribers r t = []) \<Longrightarrow> subscribers (fold (\<lambda>(t, h). subscribe t h) (hooks_of n) r) t = map snd (filter (\<lambda>(a, h). a = t) (hooks_of n))"
  by (simp add: hooks_of_def)

lemma hooks_of_unsubscribed:
  "(\<And>t. subscribers r t = map snd (filter (\<lambda>(a, h). a = t) (hooks_of n))) \<Longrightarrow> subscribers (fold (\<lambda>(t, h). unsubscribe t h) (hooks_of n) r) t = []"
  by (simp add: hooks_of_def)

lemma fold_hooks_frames [simp]:
  "er_running (fold (\<lambda>(t, h). subscribe t h) hs r) = er_running r" "er_loops (fold (\<lambda>(t, h). subscribe t h) hs r) = er_loops r"
  "er_running (fold (\<lambda>(t, h). unsubscribe t h) hs r) = er_running r" "er_loops (fold (\<lambda>(t, h). unsubscribe t h) hs r) = er_loops r"
  by (induction hs arbitrary: r) auto

lemmas fold_hooks_frames' [simp] = fold_hooks_frames [unfolded case_prod_unfold]

lemma hooks_exact_cong:
  "(\<And>t. subscribers (os_router k') t = subscribers (os_router k) t) \<Longrightarrow> os_hooks k' = os_hooks k \<Longrightarrow> os_job k' = os_job k \<Longrightarrow>
   hooks_exact k \<Longrightarrow> hooks_exact k'"
  by (simp add: hooks_exact_def)

lemma orchestrator_start_hooks: "hooks_exact k \<Longrightarrow> hooks_exact (orchestrator_start bt k)"
proof (cases "os_job k")
  case None
  assume h: "hooks_exact k"
  then have "subscribers (os_router k) t = []" for t using None by (simp add: hooks_exact_def)
  from hooks_of_subscribed [OF this] show ?thesis using None
    by (auto simp: orchestrator_start_def hooks_exact_def Let_def case_prod_unfold)
qed (simp add: orchestrator_start_def)

lemma orchestrator_stop_hooks: "hooks_exact k \<Longrightarrow> hooks_exact (orchestrator_stop k)"
proof -
  assume h: "hooks_exact k"
  have "subscribers (fold (\<lambda>(t, h). unsubscribe t h) (os_hooks k) (os_router k)) t = []" for t
  proof (cases "os_hooks k = []")
    case False
    with h obtain n where n: "os_hooks k = hooks_of n" by (auto simp: hooks_exact_def)
    then have "subscribers (os_router k) t = map snd (filter (\<lambda>(a, h). a = t) (hooks_of n))" for t using h by (simp add: hooks_exact_def)
    from hooks_of_unsubscribed [OF this] n show ?thesis by simp
  qed (use h in \<open>simp add: hooks_exact_def\<close>)
  then show ?thesis by (simp add: orchestrator_stop_def hooks_exact_def Let_def split: option.split)
qed

lemma orchestrator_start_frame [simp]:
  "er_running (os_router (orchestrator_start bt k)) = er_running (os_router k)" "er_loops (os_router (orchestrator_start bt k)) = er_loops (os_router k)"
  "os_phase (orchestrator_start bt k) = os_phase k" "sch_running (os_sched (orchestrator_start bt k)) = sch_running (os_sched k)"
  by (simp_all add: orchestrator_start_def Let_def case_prod_unfold sch_schedule_def sch_push_def)

lemma sch_cancel_running [simp]: "sch_running (snd (sch_cancel j s)) = sch_running s"
  by (simp add: sch_cancel_def set_status_def split: option.split)

lemma orchestrator_stop_frame [simp]:
  "er_running (os_router (orchestrator_stop k)) = er_running (os_router k)" "er_loops (os_router (orchestrator_stop k)) = er_loops (os_router k)"
  "sch_running (os_sched (orchestrator_stop k)) = sch_running (os_sched k)" "os_phase (orchestrator_stop k) = os_phase k"
  "cn_experience (orchestrator_stop k) = cn_experience k" "os_lock (orchestrator_stop k) = os_lock k"
  by (simp_all add: orchestrator_stop_def Let_def split: option.split)

lemma intel_start_inv: "life_inv k \<Longrightarrow> os_phase k = KRunning \<Longrightarrow> life_inv (snd (intel_start bt k))"
proof -
  assume a: "life_inv k" "os_phase k = KRunning"
  have h: "hooks_exact (orchestrator_start bt k)" using a(1) orchestrator_start_hooks by (auto simp: life_inv_def)
  have "hooks_exact (snd (intel_start bt k))"
    using a(1) by (auto simp: intel_start_def life_inv_def Let_def case_prod_unfold split: sum.split intro: hooks_exact_cong [OF _ _ _ h])
  then show ?thesis using a by (auto simp: intel_start_def life_inv_def Let_def case_prod_unfold split: sum.split)
qed

lemma er_start_frame [simp]:
  "subscribers (er_start r) t = subscribers r t" "er_running (er_start r)"
  "length (er_loops r) = (if er_running r then 1 else 0) \<Longrightarrow> length (er_loops (er_start r)) = Suc 0"
  by (auto simp: er_start_def subscribers_def)

lemma start_core_inv: "life_inv k \<Longrightarrow> life_inv (start_core bt k)"
proof -
  assume a: "life_inv k"
  then have "hooks_exact (start_core bt k)"
    by (intro hooks_exact_cong [of "start_core bt k" k]) (auto simp: start_core_def Let_def on_world_def sync_router_def life_inv_def)
  then show ?thesis using a by (simp add: start_core_def Let_def on_world_def sync_router_def life_inv_def sch_start_def)
qed

lemma start_core_phase [simp]: "os_phase (start_core bt k) = KRunning"
  by (simp add: start_core_def Let_def)

lemma kernel_start_inv: "life_inv k \<Longrightarrow> life_inv (snd (kernel_start bt k))"
  by (simp add: kernel_start_def intel_start_inv start_core_inv)

lemma final_reflection_frame [simp]:
  "os_router (final_reflection bt k) = os_router k" "os_hooks (final_reflection bt k) = os_hooks k" "os_job (final_reflection bt k) = os_job k"
  "os_sched (final_reflection bt k) = os_sched k" "os_online (final_reflection bt k) = os_online k" "os_lock (final_reflection bt k) = os_lock k"
  "os_agents (final_reflection bt k) = os_agents k" "cn_registry (final_reflection bt k) = cn_registry k"
  by (simp_all add: final_reflection_def split: sum.split)

lemma intel_stop_frame [simp]:
  "er_running (os_router (intel_stop k)) = er_running (os_router k)" "er_loops (os_router (intel_stop k)) = er_loops (os_router k)"
  "sch_running (os_sched (intel_stop k)) = sch_running (os_sched k)" "\<not> os_online (intel_stop k)" "os_lock (intel_stop k) = os_lock k"
  by (simp_all add: intel_stop_def)

lemma intel_stop_hooks: "hooks_exact k \<Longrightarrow> hooks_exact (intel_stop k)"
proof -
  assume "hooks_exact k"
  then have "hooks_exact (orchestrator_stop k)" by (rule orchestrator_stop_hooks)
  then have "hooks_exact ((orchestrator_stop k)\<lparr>os_online := False\<rparr>)" by (rule hooks_exact_cong [rotated 3]) simp_all
  with \<open>hooks_exact k\<close> show ?thesis by (simp add: intel_stop_def)
qed

lemma pv_names_empty [simp]: "pv_names new_providers = []"
  by (simp add: pv_names_def new_providers_def)

lemma kernel_stop_inv: "life_inv k \<Longrightarrow> life_inv (kernel_stop bt k)"
proof (cases "os_phase k = KStopped")
  case False
  assume a: "life_inv k"
  let ?k1 = "on_world (component_status (ce_now (bt_env bt)) ''kernel'' ''stopped'' [])
    (k\<lparr>os_phase := KStopping, os_agents := shutdown_all (os_agents k), os_sched := sch_stop (os_sched k)\<rparr>)"
  have "hooks_exact ?k1" using a by (intro hooks_exact_cong [of ?k1 k]) (simp_all add: on_world_def life_inv_def)
  then have i: "hooks_exact (intel_stop ?k1)" by (rule intel_stop_hooks)
  have "hooks_exact (kernel_stop bt k)" using False
    by (intro hooks_exact_cong [OF _ _ _ i]) (simp_all add: kernel_stop_def Let_def case_prod_unfold)
  then show ?thesis using a False
    by (auto simp: kernel_stop_def life_inv_def Let_def case_prod_unfold on_world_def sch_stop_def rg_shutdown_def hub_shutdown_def pv_shutdown_def)
qed (simp add: kernel_stop_def)

section \<open>From construction on\<close>

lemma new_kernel_inv: "new_kernel bt i = Inr k \<Longrightarrow> life_inv k"
  by (auto simp: new_kernel_def Let_def life_inv_def hooks_exact_def new_router_def subscribers_def dgetd_def split: sum.splits)


definition demo_install :: "nat install_state" where
  "demo_install = \<lparr>in_config = \<lparr>cf_path = ''/b/config/config.json'', cf_install = ''/b'', cf_data = default_config ''/b'', cf_disk = Absent\<rparr>,
     in_rules = [], in_caps = [counting_capability], in_remote = says_done, in_caps_state = 0, in_cwd = ''/'', in_knowledge = Absent,
     in_store = Absent, in_experience = new_experience 9, in_audit = new_audit, in_episodes = None, in_recipes = Absent, in_goals = Absent,
     in_plans = Absent, in_suggestions = Absent\<rparr>"

definition demo_boot :: boot where
  "demo_boot = \<lparr>bt_env = demo_environment, bt_version = ''1'', bt_formats = demo_formats, bt_snapshot = calm_snapshot 4000000000,
     bt_look = (\<lambda>n. Inr (PDict [(''host'', PStr ''termux'')])), bt_job = ''j'', bt_line = (\<lambda>_. 1), bt_rotate = True\<rparr>"

lemma demo_kernel: "\<exists>k. new_kernel demo_boot demo_install = Inr k"
  by (simp add: new_kernel_def demo_install_def demo_boot_def Let_def rg_register_def counting_capability_def new_registry_def
      pv_register_def new_providers_def register_remote_def default_config_def py_or_def dgetd_def new_goal_store_def load_goals_def
      new_plan_store_def new_proactive_def)


text \<open>Stopping twice is stopping once, and starting a running kernel does nothing.\<close>

lemma stop_stop: "kernel_stop bt' (kernel_stop bt k) = kernel_stop bt k"
  by (simp add: kernel_stop_def Let_def case_prod_unfold)

lemma start_running: "os_phase k = KRunning \<Longrightarrow> kernel_start bt k = (Inr (), k)"
  by (simp add: kernel_start_def)

section \<open>What a stop leaves behind\<close>

text \<open>The router is never stopped: its loop and its queue outlive the kernel.\<close>

lemma stop_leaves_router: "er_running (os_router (kernel_stop bt k)) = er_running (os_router k)"
  by (simp add: kernel_stop_def Let_def case_prod_unfold on_world_def)

lemma intel_start_registry: "cn_registry (snd (intel_start bt k)) = cn_registry k" "cn_providers (snd (intel_start bt k)) = cn_providers k"
  "os_phase (snd (intel_start bt k)) = os_phase k"
  by (simp_all add: intel_start_def orchestrator_start_def Let_def case_prod_unfold split: sum.split)

lemma start_core_registry: "rg_caps (cn_registry (start_core bt k)) = rg_caps (cn_registry k)" "cn_providers (start_core bt k) = cn_providers k"
  "rg_owner (cn_registry (start_core bt k)) = rg_owner (cn_registry k)"
  by (simp_all add: start_core_def sync_router_def on_world_def Let_def)

text \<open>
  A kernel that is started again after a stop runs, but as a shell of itself: it offers no action and no
  provider, and every capability call fails for want of one that provides the action.
\<close>

lemma restarted_kernel_is_empty:
  assumes "os_phase k \<noteq> KStopped"
  shows "let k' = snd (kernel_start bt' (kernel_stop bt k)) in
    os_phase k' = KRunning \<and> list_capabilities (cn_registry k') = [] \<and> pv_names (cn_providers k') = [] \<and>
    (\<forall>a sc x c. fst (cap_call a sc x c (cn_registry k') s) = cr_fail (''No capability provides action '' @ [CHR 0x27] @ a @ [CHR 0x27]))"
proof -
  let ?k = "kernel_stop bt k"
  have e: "rg_caps (cn_registry ?k) = []" "rg_owner (cn_registry ?k) = []" "cn_providers ?k = new_providers" "os_phase ?k = KStopped"
    using assms by (simp_all add: kernel_stop_def Let_def case_prod_unfold rg_shutdown_def pv_shutdown_def)
  let ?r = "cn_registry (snd (kernel_start bt' ?k))"
  have "rg_caps ?r = []" "rg_owner ?r = []" "cn_providers (snd (kernel_start bt' ?k)) = new_providers"
    "os_phase (snd (kernel_start bt' ?k)) = KRunning"
    using e by (simp_all add: kernel_start_def intel_start_registry start_core_registry)
  then show ?thesis by (simp add: Let_def list_capabilities_def cap_call_def find_capability_def)
qed

lemma new_kernel_phase: "new_kernel bt i = Inr k \<Longrightarrow> os_phase k = KCreated"
  by (auto simp: new_kernel_def Let_def split: sum.splits)

lemma restarted_kernel_is_empty_witness:
  "\<exists>k. new_kernel demo_boot demo_install = Inr k \<and> (let k' = snd (kernel_start demo_boot (kernel_stop demo_boot k)) in
    os_phase k' = KRunning \<and> list_capabilities (cn_registry k') = [] \<and> pv_names (cn_providers k') = [] \<and>
    (\<forall>a sc x c. fst (cap_call a sc x c (cn_registry k') 0) = cr_fail (''No capability provides action '' @ [CHR 0x27] @ a @ [CHR 0x27])))"
proof -
  obtain k where k: "new_kernel demo_boot demo_install = Inr k" using demo_kernel by blast
  then have "os_phase k \<noteq> KStopped" using new_kernel_phase by fastforce
  from restarted_kernel_is_empty [OF this, of demo_boot demo_boot 0] k show ?thesis by blast
qed

text \<open>
  The periodic job of a tick that is running when the orchestrator stops is not cancelled, so that a second
  start leaves two of them in the scheduler.
\<close>

lemma restart_keeps_running_tick:
  assumes "os_job k = Some j" and "sch_get j (os_sched k) = Some job" and "job_status job = Running" and "bt_job bt \<noteq> j"
  shows "sch_get j (os_sched (orchestrator_start bt (orchestrator_stop k))) = Some job \<and>
    (\<exists>job'. sch_get (bt_job bt) (os_sched (orchestrator_start bt (orchestrator_stop k))) = Some job' \<and> job_func job' = CognitionTick)"
proof -
  have "os_sched (orchestrator_stop k) = os_sched k" "os_job (orchestrator_stop k) = None"
    using assms(1-3) by (simp_all add: orchestrator_stop_def Let_def sch_cancel_def)
  moreover have "job_id (new_job now u n f d e p) = u" for now u n d e p and f :: task by (simp add: new_job_def)
  ultimately show ?thesis using assms(2,4)
    by (auto simp: orchestrator_start_def Let_def case_prod_unfold sch_schedule_def sch_push_def sch_get_def index_add_def new_job_def split: if_splits)
qed

section \<open>What keeps a kernel from being built\<close>

definition remote_key :: "config \<Rightarrow> pyval" where
  "remote_key cfg = get_nested ''ai_providers.remote.api_key'' PNone cfg"

lemma remote_key_path: "split_char CHR ''.'' ''ai_providers.remote.api_key'' = [''ai_providers'', ''remote'', ''api_key'']"
  by code_simp

text \<open>
  No kernel can be built from a configuration that has a key for the remote provider: the constructor
  raises, whatever the rest of the installation is like.
\<close>

lemma remote_key_breaks_kernel:
  assumes "truthy (remote_key (in_config i))"
  shows "\<exists>e. new_kernel bt i = Inl e"
proof -
  from assms obtain d rc where a: "dget (cf_data (in_config i)) ''ai_providers'' = Some (PDict d)"
    "dget d ''remote'' = Some (PDict rc)" "dget rc ''api_key'' = Some (remote_key (in_config i))"
    unfolding remote_key_def get_nested_def remote_key_path
    by (auto split: pyval.splits option.splits)
  from a(2) have "d \<noteq> []" by auto
  with a assms have "\<exists>e. register_remote (in_remote i) (in_config i) pr = Inl e" for pr
    by (auto simp: register_remote_def dgetd_def py_or_def split: sum.split)
  then have "\<exists>e. register_remote (in_remote i) (in_config i) pr = Inl e" for pr by blast
  then show ?thesis unfolding new_kernel_def Let_def
    by (auto split: sum.split) (metis Inl_Inr_False)+
qed

definition remote_install :: "nat install_state" where
  "remote_install = demo_install\<lparr>in_config := \<lparr>cf_path = ''/b/config/config.json'', cf_install = ''/b'',
     cf_data = [(''ai_providers'', PDict [(''remote'', PDict [(''api_key'', PStr ''secret'')])])], cf_disk = Absent\<rparr>\<rparr>"

lemma remote_key_breaks_kernel_witness: "\<exists>e. new_kernel demo_boot remote_install = Inl e"
  by (rule remote_key_breaks_kernel) (simp add: remote_key_def get_nested_def remote_key_path remote_install_def)

text \<open>One row without an identifier in the file of goals is enough to keep the kernel from being built.\<close>

lemma bad_goal_breaks_kernel:
  "in_goals i = Stored (PList [PDict [(''title'', PStr ''tidy'')]]) \<Longrightarrow> \<exists>e. new_kernel bt i = Inl e"
  by (auto simp: new_kernel_def Let_def row_without_id_raises split: sum.split)

end
