(* ===== verification/Mind_Rpc.thy ===== *)
theory Mind_Rpc
  imports Lifecycle Runtime
begin

text \<open>
  The operations of the runtime's RPC surface that reach the intelligence layer (\<open>RuntimeServer.rpc\<close>,
  \<open>_rpc_goal\<close>, \<open>_rpc_activity\<close>) and the views of the layer (\<open>IntelligenceBundle.view\<close>). As in theory \<open>Runtime\<close>, a
  message whose fields have a type that the operation does not expect is left to a parameter \<open>other\<close>, and so are
  the views "world", "memory", "learning" and "health" (and that of goals with a status that is no text).
\<close>

section \<open>Lifting\<close>

definition lift_core :: "('s cognition \<Rightarrow> 'a \<times> 's cognition) \<Rightarrow> 's os \<Rightarrow> 'a \<times> 's os" where
  "lift_core f k = (let (r, c) = f (cognition.truncate k) in (r, cognition.extend c (cognition.more k)))"

type_synonym 's mind_handler = "boot \<Rightarrow> message \<Rightarrow> 's os \<Rightarrow> message \<times> 's os"

definition answer :: "pyval \<Rightarrow> pyval result \<Rightarrow> message" where
  "answer op r = (case r of Inl e \<Rightarrow> rpc_raised op e | Inr d \<Rightarrow> rpc_ok op (rpc_serialize d))"

section \<open>Goals\<close>

fun report_json :: "goal_report \<Rightarrow> pyval" where
  "report_json (Accepted g) = PDict [(''goal_id'', PStr g), (''status'', PStr ''accepted'')]"
| "report_json (Processed g p s e n) = PDict [(''goal_id'', PStr g), (''plan_id'', PStr p), (''status'', PStr (run_status_text s)),
     (''error'', of_ostr e), (''steps'', PInt (int n))]"

definition mind_process :: "'s mind_handler \<Rightarrow> 's mind_handler" where
  "mind_process other bt m k =
     (case dgetd m ''goal'' (PStr []) of
        PStr g \<Rightarrow>
          (let (r, k') = lift_core (process_goal (bt_env bt) g ''user'' None (truthy (dgetd m ''tentative'' (PBool False)))) k
           in (answer (dgetd m ''op'' PNone) (map_sum id report_json r), k'))
      | _ \<Rightarrow> other bt m k)"

text \<open>\<open>update\<close> of an identifier that no goal has does nothing; one that cannot be a key raises.\<close>

definition settle_by_id :: "(string \<Rightarrow> goal_store \<Rightarrow> goal option result \<times> goal_store) \<Rightarrow> pyval \<Rightarrow> goal_store \<Rightarrow> unit result \<times> goal_store" where
  "settle_by_id f v st =
     (case v of
        PStr i \<Rightarrow> (let (r, st') = f i st in (map_sum id (\<lambda>_. ()) r, st'))
      | _ \<Rightarrow> if unhashable v then (Inl (Exc ''TypeError'' ''unhashable type''), st) else (Inr (), st))"

definition mind_settle :: "(string \<Rightarrow> goal_store \<Rightarrow> goal option result \<times> goal_store) \<Rightarrow> message \<Rightarrow> 's os \<Rightarrow> message \<times> 's os" where
  "mind_settle f m k =
     (let (r, st) = settle_by_id f (dgetd m ''goal_id'' (PStr [])) (cn_goals k)
      in (case r of Inl e \<Rightarrow> rpc_raised (PStr ''goal'') e | Inr _ \<Rightarrow> rpc_ok (PStr ''goal'') (dgetd m ''goal_id'' PNone), k\<lparr>cn_goals := st\<rparr>))"

definition mind_create :: "'s mind_handler \<Rightarrow> 's mind_handler" where
  "mind_create other bt m k =
     (case (py_or (dgetd m ''title'' PNone) (PStr []), dgetd m ''kind'' (PStr ''user'')) of
        (PStr title, PStr kind) \<Rightarrow>
          (case to_int (dgetd m ''priority'' (PInt 0)) of
             Inl e \<Rightarrow> (rpc_raised (PStr ''goal'') e, k)
           | Inr p \<Rightarrow>
               (let (r, st) = goal_create (ce_ok (bt_env bt)) (ce_goal_id (bt_env bt)) (ce_now (bt_env bt)) title kind (PInt p) ''user'' PNone [] PNone (cn_goals k)
                in (answer (PStr ''goal'') (map_sum id PDict r), k\<lparr>cn_goals := st\<rparr>)))
      | _ \<Rightarrow> other bt m k)"

definition mind_goal :: "'s mind_handler \<Rightarrow> 's mind_handler" where
  "mind_goal other bt m k =
     (let method = dgetd m ''method'' (PStr ''list''); ok = ce_ok (bt_env bt); now = ce_now (bt_env bt) in
      if method = PStr ''create'' then mind_create other bt m k
      else if method = PStr ''complete'' then mind_settle (goal_complete ok now) m k
      else if method = PStr ''cancel'' then mind_settle (goal_cancel ok now) m k
      else if method = PStr ''process'' then mind_process other bt m k
      else (answer (PStr ''goal'') (map_sum id (\<lambda>gs. PList (map PDict gs)) (list_goals None (cn_goals k))), k))"

section \<open>Reflection, consolidation, activity\<close>

definition mind_reflect :: "boot \<Rightarrow> message \<Rightarrow> 's os \<Rightarrow> message \<times> 's os" where
  "mind_reflect bt m k =
     (let (r, kn) = reflect_now (ce_sf (bt_env bt)) (ce_ok (bt_env bt)) (ce_now (bt_env bt)) 8 (cn_experience k) (cn_knowledge k)
      in (answer (PStr ''reflect'') (map_sum id (\<lambda>xs. PDict [(''produced'', PList (map PDict xs))]) r), k\<lparr>cn_knowledge := kn\<rparr>))"

definition consolidation_json :: "consolidation \<Rightarrow> pyval" where
  "consolidation_json c = PDict (map (\<lambda>(n, v). (n, PInt (int v)))
     [(''working_pruned'', co_working_pruned c), (''episodic_summaries'', co_episodic_summaries c), (''lessons_promoted'', co_lessons_promoted c),
      (''duplicates_merged'', co_duplicates_merged c), (''contradictions'', co_contradictions c), (''pruned_knowledge'', co_pruned_knowledge c),
      (''expired_store_entries'', co_expired_store c)])"

definition os_view :: "'s os \<Rightarrow> coordinator" where
  "os_view k = \<lparr>mc_working = br_working k, mc_episodic = br_episodic k, mc_procedural = br_procedural k,
     mc_knowledge = Some (cn_knowledge k), mc_experience = Some (cn_experience k), mc_store = Some (br_store k)\<rparr>"

definition mind_consolidate :: "boot \<Rightarrow> message \<Rightarrow> 's os \<Rightarrow> message \<times> 's os" where
  "mind_consolidate bt m k =
     (let (r, mc) = consolidate (ce_sf (bt_env bt)) (ce_ok (bt_env bt)) (ce_now (bt_env bt)) 10 (os_view k)
      in (answer (PStr ''consolidate'') (map_sum id consolidation_json r),
          k\<lparr>br_working := mc_working mc, br_episodic := mc_episodic mc, br_procedural := mc_procedural mc,
            cn_knowledge := the (mc_knowledge mc), br_store := the (mc_store mc)\<rparr>))"

definition event_json :: "world_event \<Rightarrow> pyval" where
  "event_json e = PDict [(''ts'', PFloat (we_ts e)), (''type'', PStr (we_type e)), (''detail'', PDict (we_detail e))]"

definition experience_json :: "exp_row \<Rightarrow> pyval" where
  "experience_json e = PDict [(''ts'', dgetd e ''ts'' PNone), (''target'', dgetd e ''target'' (PStr [])), (''status'', dgetd e ''status'' (PStr [])),
     (''kind'', PStr ''experience'')]"

text \<open>A log of experiences that cannot be read is an activity without any.\<close>

definition activity :: "'s os \<Rightarrow> pyval result" where
  "activity k =
     (case list_goals None (cn_goals k) of
        Inl e \<Rightarrow> Inl e
      | Inr goals \<Rightarrow>
          (case pro_suggestions 8 (br_proactive k) of
             Inl e \<Rightarrow> Inl e
           | Inr ss \<Rightarrow>
               Inr (PDict [(''events'', PList (map event_json (recent_events 30 None (cn_world k)))),
                 (''experiences'', PList (case ex_recall (Some 12) (cn_experience k) of Inl _ \<Rightarrow> [] | Inr es \<Rightarrow> map experience_json es)),
                 (''goals'', PList (map PDict goals)), (''suggestions'', PList (map suggestion_json ss))])))"

section \<open>Views\<close>

definition nervous_state :: "boot \<Rightarrow> 's os \<Rightarrow> pyval" where
  "nervous_state bt k =
     (let h = health (cn_nervous k) in
      PDict [(''ts'', PFloat (ce_now (bt_env bt))), (''activity'', PStr (activity_state (ce_now (bt_env bt)) (cn_nervous k))),
        (''health'', PDict [(''overall'', PStr (hs_overall h)), (''warnings'', PInt (int (hs_warnings h))),
           (''critical'', PInt (int (hs_critical h))), (''detail'', PStr (hs_detail h))]),
        (''signals'', PList (signal_rows (cn_nervous k))),
        (''kernel'', PDict [(''state'', PStr (phase_text (os_phase k))), (''event_router_running'', PBool (er_running (os_router k))),
           (''scheduler_running'', PBool (sch_running (os_sched k)))]),
        (''host'', case dgetd (hub_snapshot (bt_look bt) (os_sensors k)) ''device'' (PDict []) of PDict d \<Rightarrow> dgetd d ''host'' PNone | _ \<Rightarrow> PNone)])"

definition orchestrator_state :: "'s os \<Rightarrow> pyval" where
  "orchestrator_state k = PDict [(''cadence'', PFloat 10), (''tick_scheduled'', PBool (os_job k \<noteq> None)),
     (''plans'', PInt (int (length (list_plans (Some ''active'') (cn_plans k)))))]"

text \<open>The descriptions of the roles are an argument.\<close>

definition role_rows :: "(string \<Rightarrow> string) \<Rightarrow> pyval" where
  "role_rows describe = PList (map (\<lambda>(n, ps). PDict [(''name'', PStr n), (''description'', PStr (describe n)),
     (''allowed_prefixes'', PList (map PStr ps))]) role_table)"

definition recipe_json :: "string \<times> string list \<times> int \<times> int \<times> pyfloat \<Rightarrow> pyval" where
  "recipe_json r = (case r of (n, ss, u, s, f) \<Rightarrow> PDict [(''name'', PStr n), (''steps'', PList (map PStr ss)), (''uses'', PInt u),
     (''successes'', PInt s), (''reliability'', PFloat f)])"

definition question_json :: "question \<Rightarrow> pyval" where
  "question_json q = PDict [(''rank'', PFloat (qu_rank q)), (''kind'', PStr (qu_kind q)), (''question'', PStr (qu_text q)), (''evidence'', PDict (qu_evidence q))]"

definition health_json :: "provider_health \<Rightarrow> pyval" where
  "health_json h = PDict [(''registered'', PList (map PStr (ph_registered h))), (''local_available'', PBool (ph_local h)),
     (''remote_configured'', PBool (ph_configured h)), (''remote_available'', PBool (ph_remote h)), (''offline_capable'', PBool (ph_local h)),
     (''checked_at'', PFloat (ph_checked h))]"

definition view_names :: "string list" where
  "view_names = [''nervous'', ''rhythm'', ''attention'', ''world'', ''memory'', ''episodic'', ''procedural'', ''goals'', ''plans'', ''providers'',
     ''curiosity'', ''reflection'', ''suggestions'', ''agents'', ''health'', ''orchestrator'', ''learning'']"

text \<open>The counts by status, when every status is text (as any file the layer wrote has it).\<close>

definition goals_view :: "'s os \<Rightarrow> pyval result option" where
  "goals_view k =
     (let (n, counts) = goal_stats (cn_goals k) in
      if list_ex (\<lambda>(s, c). key_text s = None) counts then None
      else Some (map_sum id (\<lambda>gs. PDict [(''goals'', PList (map PDict gs)), (''stats'', PDict [(''total'', PInt (int n)),
        (''by_status'', PDict (map (\<lambda>(s, c). (the (key_text s), PInt (int c))) counts))])]) (list_goals None (cn_goals k))))"

definition os_health :: "boot \<Rightarrow> 's os \<Rightarrow> provider_health \<times> provider_intel" where
  "os_health bt k = providers_health (ce_now (bt_env bt)) (ce_has_key (bt_env bt)) (ce_models (bt_env bt)) (cn_providers k) (cn_intel k)"

definition simple_view :: "(string \<Rightarrow> string) \<Rightarrow> boot \<Rightarrow> string \<Rightarrow> 's os \<Rightarrow> pyval result option" where
  "simple_view describe bt section k =
     (if section = ''nervous'' then Some (Inr (nervous_state bt k))
      else if section = ''rhythm'' then Some (Inr (PDict (rhythm_state (br_rhythm k))))
      else if section = ''attention'' then Some (Inr (PDict (at_state (br_attention k))))
      else if section = ''episodic'' then
        Some (map_sum id (\<lambda>es. PDict [(''episodes'', PList (map PDict es))]) (ep_recall 10 None (br_episodic k)))
      else if section = ''procedural'' then Some (Inr (PDict [(''recipes'', PList (map recipe_json (recipe_rows (br_procedural k))))]))
      else if section = ''goals'' then goals_view k
      else if section = ''plans'' then Some (Inr (PDict [(''plans'', PList (map plan_json (list_plans None (cn_plans k))))]))
      else if section = ''suggestions'' then
        Some (map_sum id (\<lambda>ss. PDict [(''suggestions'', PList (map suggestion_json ss))]) (pro_suggestions 20 (br_proactive k)))
      else if section = ''agents'' then Some (Inr (PDict [(''roles'', role_rows describe)]))
      else if section = ''orchestrator'' then Some (Inr (orchestrator_state k)) else None)"

definition section_view :: "(boot \<Rightarrow> string \<Rightarrow> 's os \<Rightarrow> pyval result \<times> 's os) \<Rightarrow> (string \<Rightarrow> string) \<Rightarrow> boot \<Rightarrow> string \<Rightarrow> 's os \<Rightarrow> pyval result \<times> 's os" where
  "section_view other_view describe bt section k =
     (let (h, i) = os_health bt k in
      case simple_view describe bt section k of
        Some r \<Rightarrow> (r, k)
      | None \<Rightarrow>
          if section = ''providers'' then (Inr (health_json h), k\<lparr>cn_intel := i\<rparr>)
          else if section = ''curiosity'' then
            (map_sum id (\<lambda>qs. PDict [(''questions'', PList (map question_json qs))])
               (questions (ce_now (bt_env bt)) 8 (cn_experience k) (cn_knowledge k) (cn_goals k) h (list_actions (cn_registry k))),
             k\<lparr>cn_intel := (if asks_providers (ce_now (bt_env bt)) (cn_experience k) (cn_goals k) then i else cn_intel k)\<rparr>)
          else if section \<in> set view_names then other_view bt section k
          else (Inr (PDict [(''error'', PStr (''unknown intelligence view '' @ quoted section)),
                 (''available'', PList (map PStr (sort view_names)))]), k))"

definition intel_view :: "(boot \<Rightarrow> string \<Rightarrow> 's os \<Rightarrow> pyval result \<times> 's os) \<Rightarrow> (string \<Rightarrow> string) \<Rightarrow> boot \<Rightarrow> string \<Rightarrow> 's os \<Rightarrow> pyval result \<times> 's os" where
  "intel_view other_view describe bt name = section_view other_view describe bt (if name = [] then ''health'' else name)"

section \<open>Dispatch\<close>

definition mind_rpc :: "(boot \<Rightarrow> string \<Rightarrow> 's os \<Rightarrow> pyval result \<times> 's os) \<Rightarrow> (string \<Rightarrow> string) \<Rightarrow> 's mind_handler \<Rightarrow> 's mind_handler" where
  "mind_rpc other_view describe other bt m k =
     (let op = dgetd m ''op'' PNone in
      if op = PStr ''intel'' then
        (case dgetd m ''section'' (PStr ''health'') of
           PStr s \<Rightarrow> (let (r, k') = intel_view other_view describe bt s k in (answer op r, k'))
         | _ \<Rightarrow> other bt m k)
      else if op = PStr ''goal'' then mind_goal other bt m k
      else if op = PStr ''reflect'' then mind_reflect bt m k
      else if op = PStr ''consolidate'' then mind_consolidate bt m k
      else if op = PStr ''process_goal'' then mind_process other bt m k
      else if op = PStr ''activity'' then (answer op (activity k), k)
      else if op = PStr ''sensors'' then (answer op (Inr (PDict (hub_snapshot (bt_look bt) (os_sensors k)))), k)
      else other bt m k)"

section \<open>Requests keep the layer well formed\<close>

definition mind_ok :: "'s os \<Rightarrow> bool" where
  "mind_ok k \<longleftrightarrow> goals_ok (cn_goals k) \<and> goals_shape (cn_goals k) \<and> plans_shape (cn_plans k)"

lemma lift_core_fields:
  "cn_goals (snd (lift_core f k)) = cn_goals (snd (f (cognition.truncate k)))"
  "cn_plans (snd (lift_core f k)) = cn_plans (snd (f (cognition.truncate k)))"
  by (simp_all add: lift_core_def Let_def case_prod_unfold cognition.defs)

lemma truncate_fields [simp]: "cn_goals (cognition.truncate k) = cn_goals k" "cn_plans (cognition.truncate k) = cn_plans k"
  by (simp_all add: cognition.defs)

lemma mind_process_ok: "mind_ok k \<Longrightarrow> mind_ok (snd (other bt m k)) \<Longrightarrow> mind_ok (snd (mind_process other bt m k))"
proof -
  assume a: "mind_ok k" "mind_ok (snd (other bt m k))"
  then have "cognition_ok (cognition.truncate k)" by (simp add: cognition_ok_def mind_ok_def)
  then have "cognition_ok (snd (process_goal en g kd pr t (cognition.truncate k)))" for en g kd pr t
    by (rule process_goal_keeps_registries)
  then have "mind_ok (snd (lift_core (process_goal en g kd pr t) k))" for en g kd pr t
    by (simp add: mind_ok_def cognition_ok_def lift_core_fields)
  with a(2) show ?thesis by (simp add: mind_process_def Let_def case_prod_unfold split: pyval.split)
qed

lemma settle_by_id_keeps:
  "(\<And>i. P (snd (f i st))) \<Longrightarrow> P st \<Longrightarrow> P (snd (settle_by_id f v st))"
  by (simp add: settle_by_id_def Let_def case_prod_unfold split: pyval.split)

lemma goal_settle_ok:
  "goals_ok st \<and> goals_shape st \<Longrightarrow> goals_ok (snd (goal_complete ok now i st)) \<and> goals_shape (snd (goal_complete ok now i st))"
  "goals_ok st \<and> goals_shape st \<Longrightarrow> goals_ok (snd (goal_cancel ok now i st)) \<and> goals_shape (snd (goal_cancel ok now i st))"
  by (simp_all add: goal_complete_def goal_cancel_def update_ok update_shape status_set)

lemma mind_settle_ok:
  assumes "mind_ok k" and "\<And>i st. goals_ok st \<and> goals_shape st \<Longrightarrow> goals_ok (snd (f i st)) \<and> goals_shape (snd (f i st))"
  shows "mind_ok (snd (mind_settle f m k))"
  using assms settle_by_id_keeps [where P = "\<lambda>st. goals_ok st \<and> goals_shape st", of f "cn_goals k"]
  by (simp add: mind_settle_def mind_ok_def Let_def case_prod_unfold)

lemmas mind_settles = mind_settle_ok [OF _ goal_settle_ok(1)] mind_settle_ok [OF _ goal_settle_ok(2)]

lemma mind_create_ok: "mind_ok k \<Longrightarrow> mind_ok (snd (other bt m k)) \<Longrightarrow> mind_ok (snd (mind_create other bt m k))"
  by (auto simp: mind_create_def mind_ok_def Let_def case_prod_unfold create_ok create_shape split: pyval.split sum.split)

lemma mind_frames:
  "mind_ok (snd (mind_reflect bt m k)) = mind_ok k" "mind_ok (snd (mind_consolidate bt m k)) = mind_ok k"
  by (simp_all add: mind_reflect_def mind_consolidate_def mind_ok_def Let_def case_prod_unfold)

lemma mind_ok_intel [simp]: "mind_ok (k\<lparr>cn_intel := i\<rparr>) = mind_ok k"
  by (simp add: mind_ok_def)

lemma section_view_ok:
  "mind_ok k \<Longrightarrow> mind_ok (snd (other_view bt s k)) \<Longrightarrow> mind_ok (snd (section_view other_view describe bt s k))"
  by (simp add: section_view_def Let_def case_prod_unfold split: option.split)

lemma intel_view_ok:
  "mind_ok k \<Longrightarrow> (\<And>s. mind_ok (snd (other_view bt s k))) \<Longrightarrow> mind_ok (snd (intel_view other_view describe bt s k))"
  by (simp add: intel_view_def section_view_ok)

text \<open>
  No request over the RPC surface, whatever its fields, leaves two active goals with one title or a goal or
  plan that does not load again, as long as the parts of the surface that are parameters here do not.
\<close>

lemma requests_keep_registries:
  assumes "mind_ok k" and "\<And>bt s k. mind_ok k \<Longrightarrow> mind_ok (snd (other_view bt s k))"
    and "\<And>bt m k. mind_ok k \<Longrightarrow> mind_ok (snd (other bt m k))"
  shows "mind_ok (fold (\<lambda>(bt, m) k. snd (mind_rpc other_view describe other bt m k)) ms k)"
proof -
  have "mind_ok (snd (mind_goal other bt m k))" if "mind_ok k" for bt m k
    using that assms(3) by (simp add: mind_goal_def Let_def mind_create_ok mind_process_ok mind_settles)
  then have "mind_ok (snd (mind_rpc other_view describe other bt m k))" if "mind_ok k" for bt m k
    using that assms(2,3)
    by (simp add: mind_rpc_def Let_def case_prod_unfold mind_frames mind_process_ok intel_view_ok split: pyval.split)
  with assms(1) show ?thesis by (induction ms arbitrary: k) auto
qed

definition demo_requests :: "(boot \<times> message) list" where
  "demo_requests = [(demo_boot, [(''op'', PStr ''goal''), (''method'', PStr ''create''), (''title'', PStr ''tidy'')]),
     (demo_boot, [(''op'', PStr ''process_goal''), (''goal'', PStr ''tidy'')])]"

definition mute_handler :: "'s mind_handler" where
  "mute_handler bt m k = (rpc_error PNone ''left out'', k)"

lemma requests_keep_registries_witness:
  "\<exists>k. new_kernel demo_boot demo_install = Inr k \<and>
     mind_ok (fold (\<lambda>(bt, m) k. snd (mind_rpc (\<lambda>bt s k. (Inr PNone, k)) id mute_handler bt m k)) demo_requests k)"
proof -
  obtain k where k: "new_kernel demo_boot demo_install = Inr k" using demo_kernel by blast
  have "new_goal_store (in_goals demo_install) = Inr (cn_goals k) \<and> new_plan_store 3 (in_plans demo_install) = Inr (cn_plans k)"
    using k by (auto simp: new_kernel_def Let_def demo_boot_def demo_environment_def split: sum.splits)
  then have "cn_goals k = empty_store" "cn_plans k = no_plans"
    by (simp_all add: demo_install_def new_goal_store_def load_goals_def new_plan_store_def empty_store_def no_plans_def)
  then have "mind_ok k"
    by (simp add: mind_ok_def goals_ok_def goals_shape_def active_titles_def plans_shape_def empty_store_def no_plans_def)
  with k show ?thesis by (intro exI [of _ k] conjI requests_keep_registries) (simp_all add: mute_handler_def)
qed

text \<open>Completing a goal that does not exist is answered as done.\<close>

lemma unknown_goal_completed:
  assumes "dgetd m ''method'' (PStr ''list'') = PStr ''complete''" and "dgetd m ''goal_id'' (PStr []) = PStr i"
    and "dget (gs_goals (cn_goals k)) i = None"
  shows "fst (mind_goal other bt m k) = rpc_ok (PStr ''goal'') (dgetd m ''goal_id'' PNone)"
  using assms by (simp add: mind_goal_def mind_settle_def settle_by_id_def goal_complete_def goal_update_def Let_def)

end
