(* ===== verification/Gui.thy ===== *)
theory Gui
  imports Insight Runtime
begin

text \<open>
  \<open>buster/gui/server.py\<close>: the local web interface, a client of the runtime. The runtime is any daemon that answers
  an operation with a response or an exception (\<open>RuntimeClient.rpc\<close>). A request has its path, its query and its
  body decoded; sockets, the header lines and the reading of a static file are left out, the files that exist
  under the web directory are an argument.
\<close>

section \<open>The daemon as the client sees it\<close>

type_synonym 'd daemon = "string \<Rightarrow> message \<Rightarrow> 'd \<Rightarrow> message result \<times> 'd"

definition offline_error :: "exc \<Rightarrow> bool" where
  "offline_error e \<longleftrightarrow> exc_type e = ''RuntimeOfflineError'' \<or> exc_type e = ''RuntimeRpcError''"

text \<open>\<open>rpc(op, \<dots>)["data"]\<close>.\<close>

definition data_of :: "message \<Rightarrow> pyval result" where
  "data_of m = (case dget m ''data'' of None \<Rightarrow> Inl (Exc ''KeyError'' ''data'') | Some v \<Rightarrow> Inr v)"

definition ask_data :: "'d daemon \<Rightarrow> string \<Rightarrow> message \<Rightarrow> 'd \<Rightarrow> pyval result \<times> 'd" where
  "ask_data dm op m s = then_do (dm op m s) (\<lambda>resp. pure_step (data_of resp))"

text \<open>\<open>_rpc\<close>: an error of the channel is a \<open>GuiOfflineError\<close>.\<close>

definition guard :: "'a result \<times> 'd \<Rightarrow> 'a result \<times> 'd" where
  "guard m = (case m of
     (Inl e, s) \<Rightarrow> (Inl (if offline_error e then Exc ''GuiOfflineError'' (exc_msg e) else e), s) | (Inr a, s) \<Rightarrow> (Inr a, s))"

definition gui_view :: "'d daemon \<Rightarrow> string \<Rightarrow> 'd \<Rightarrow> pyval result \<times> 'd" where
  "gui_view dm section s =
     then_do (dm ''intel'' [(''section'', PStr section)] s) (\<lambda>resp s. (Inr (dgetd resp ''data'' (PDict [])), s))"

definition store_get :: "'d daemon \<Rightarrow> string \<Rightarrow> pyval \<Rightarrow> 'd \<Rightarrow> pyval result \<times> 'd" where
  "store_get dm key dflt s =
     (let (r, s') = ask_data dm ''mem_get'' [(''key'', PStr key)] s
      in (case r of Inl e \<Rightarrow> if offline_error e then Inr dflt else Inl e | Inr v \<Rightarrow> Inr v, s'))"

definition store_put :: "'d daemon \<Rightarrow> string \<Rightarrow> pyval \<Rightarrow> 'd \<Rightarrow> unit result \<times> 'd" where
  "store_put dm key v s = then_do (dm ''mem_put'' [(''key'', PStr key), (''value'', v)] s) (\<lambda>_ s. (Inr (), s))"

text \<open>\<open>_RemoteResult(**response)\<close>: success, data, error.\<close>

record gui_result =
  gr_success :: pyval
  gr_data :: pyval
  gr_error :: pyval

definition remote_result :: "pyval \<Rightarrow> gui_result result" where
  "remote_result v =
     (case v of
        PDict d \<Rightarrow>
          if dget d ''success'' = None \<or> \<not> set (dkeys d) \<subseteq> {''success'', ''data'', ''error''}
          then Inl (Exc ''TypeError'' ''unexpected arguments'')
          else Inr \<lparr>gr_success = dgetd d ''success'' PNone, gr_data = dgetd d ''data'' PNone, gr_error = dgetd d ''error'' PNone\<rparr>
      | _ \<Rightarrow> Inl (Exc ''TypeError'' ''argument after ** must be a mapping''))"

definition gui_call :: "'d daemon \<Rightarrow> pyval \<Rightarrow> pyval \<Rightarrow> pyval \<Rightarrow> 'd \<Rightarrow> gui_result result \<times> 'd" where
  "gui_call dm action extra context s =
     then_do (ask_data dm ''call'' [(''action'', action), (''extra'', extra), (''context'', context)] s)
       (\<lambda>v. pure_step (remote_result v))"

section \<open>Requests and responses\<close>

record request =
  rq_method :: string
  rq_path :: string
  rq_query :: "string list sdict"
  rq_body :: pyval

datatype response = Json (js_code: int) (js_body: pyval) | Served string

definition body_get :: "request \<Rightarrow> string \<Rightarrow> pyval \<Rightarrow> pyval result" where
  "body_get rq k dflt =
     (case rq_body rq of PDict d \<Rightarrow> Inr (dgetd d k dflt) | _ \<Rightarrow> Inl (Exc ''AttributeError'' ''object has no attribute get''))"

text \<open>The first value of a query parameter: \<open>parse_qs\<close> keeps no empty lists.\<close>

definition query_first :: "request \<Rightarrow> string \<Rightarrow> string \<Rightarrow> string" where
  "query_first rq k dflt = (case dgetd (rq_query rq) k [] of [] \<Rightarrow> dflt | v # _ \<Rightarrow> v)"

definition dict_get :: "pyval \<Rightarrow> string \<Rightarrow> pyval \<Rightarrow> pyval result" where
  "dict_get v k dflt = (case v of PDict d \<Rightarrow> Inr (dgetd d k dflt) | _ \<Rightarrow> Inl (Exc ''AttributeError'' ''object has no attribute get''))"

type_synonym 'd endpoint = "'d daemon \<Rightarrow> request \<Rightarrow> 'd \<Rightarrow> response result \<times> 'd"

definition ok_json :: "pyval \<Rightarrow> 'd \<Rightarrow> response result \<times> 'd" where
  "ok_json v s = (Inr (Json 200 v), s)"

section \<open>Static files\<close>

text \<open>
  The path is normalised and then compared with the directory as text; what it names is served when it
  is a file.
\<close>

definition static_path :: "string \<Rightarrow> string \<Rightarrow> string" where
  "static_path web rel = normpath (path_join web (dropWhile (\<lambda>c. c = CHR ''/'') rel))"

definition send_static :: "string \<Rightarrow> string \<Rightarrow> (string \<Rightarrow> bool) \<Rightarrow> string \<Rightarrow> response" where
  "send_static cwd web is_file rel =
     (let p = static_path web rel in
      if \<not> startswith p (abspath cwd web) then Json 403 (PDict [(''error'', PStr ''forbidden'')])
      else if \<not> is_file p then Json 404 (PDict [(''error'', PStr ''not found'')])
      else Served p)"

section \<open>The endpoints\<close>

definition api_data :: "string \<Rightarrow> 'd endpoint" where
  "api_data op dm rq s = then_do (guard (ask_data dm op [] s)) ok_json"

definition gui_grant :: "'d endpoint" where
  "gui_grant dm rq s =
     then_do (pure_step (body_get rq ''action'' (PStr [])) s) (\<lambda>a s.
     then_do (dm ''grant'' [(''action'', a)] s) (\<lambda>_. ok_json (PDict [(''granted'', a)])))"

definition gui_deny :: "'d endpoint" where
  "gui_deny dm rq s =
     then_do (pure_step (body_get rq ''action'' (PStr [])) s) (\<lambda>a s.
     then_do (dm ''deny'' [(''action'', a)] s) (\<lambda>_. ok_json (PDict [(''denied'', a)])))"

definition result_json :: "gui_result \<Rightarrow> pyval" where
  "result_json r = PDict [(''ok'', gr_success r), (''data'', gr_data r), (''error'', gr_error r)]"

definition gui_files :: "'d endpoint" where
  "gui_files dm rq s =
     then_do (gui_call dm (PStr ''fs.list'') (PDict [(''path'', PStr (query_first rq ''path'' ''.''))]) PNone s) (\<lambda>r.
       ok_json (if truthy (gr_success r) then PDict [(''ok'', PBool True), (''data'', gr_data r), (''actor'', PStr ''gui'')]
         else PDict [(''ok'', PBool False), (''error'', gr_error r)]))"

definition gui_file :: "'d endpoint" where
  "gui_file dm rq s =
     then_do (gui_call dm (PStr ''fs.read'') (PDict [(''path'', PStr (query_first rq ''path'' []))]) PNone s) (\<lambda>r. ok_json (result_json r))"

definition gui_context :: "pyval sdict" where
  "gui_context = [(''actor'', PStr ''gui''), (''source'', PStr ''gui'')]"

definition gui_fs :: "'d endpoint" where
  "gui_fs dm rq s =
     then_do (pure_step (body_get rq ''action'' (PStr [])) s) (\<lambda>a s.
     then_do (pure_step (body_get rq ''params'' PNone) s) (\<lambda>p s.
     then_do (gui_call dm a (py_or p (PDict [])) (PDict gui_context) s) (\<lambda>r. ok_json (result_json r))))"

text \<open>The terminal: the command as text, then one call of the shell capability.\<close>

definition permission_note :: string where
  "permission_note = ''Buster needs permission to run terminal commands. Allow it once below.''"

definition term_reply :: "(pyfloat \<Rightarrow> string) \<Rightarrow> gui_result \<Rightarrow> pyval" where
  "term_reply sf r =
     (if truthy (gr_success r) then PDict [(''ok'', PBool True), (''permission'', PBool False), (''data'', gr_data r)]
      else (let e = py_str sf (py_or (gr_error r) (PStr [])) in
            if contains (str_lower e) ''permission'' \<or> contains (str_lower e) ''denied''
            then PDict [(''ok'', PBool False), (''permission'', PBool True), (''error'', PStr permission_note)]
            else PDict [(''ok'', PBool False), (''permission'', PBool False), (''error'', PStr e)]))"

definition gui_term :: "(pyfloat \<Rightarrow> string) \<Rightarrow> 'd endpoint" where
  "gui_term sf dm rq s =
     then_do (pure_step (body_get rq ''command'' PNone) s) (\<lambda>c s.
       let command = py_str sf (py_or c (PStr [])) in
       if command = [] \<or> CHR 0x00 \<in> set command then ok_json (PDict [(''ok'', PBool False), (''error'', PStr ''empty command'')]) s
       else then_do (pure_step (body_get rq ''timeout'' (PInt 30)) s) (\<lambda>t s.
            then_do (pure_step (to_int t) s) (\<lambda>n s.
            then_do (gui_call dm (PStr ''shell.run'') (PDict [(''command'', PStr command), (''timeout'', PInt n)])
                       (PDict (gui_context @ [(''surface'', PStr ''terminal'')])) s)
              (\<lambda>r. ok_json (term_reply sf r)))))"

definition gui_goals :: "'d endpoint" where
  "gui_goals dm rq s = then_do (gui_view dm ''goals'' s) ok_json"

definition gui_new_goal :: "'d endpoint" where
  "gui_new_goal dm rq s =
     then_do (pure_step (body_get rq ''text'' (PStr [])) s) (\<lambda>t s.
     then_do (pure_step (body_get rq ''kind'' (PStr ''task'')) s) (\<lambda>k s.
     then_do (ask_data dm ''goal'' [(''method'', PStr ''create''), (''title'', t), (''kind'', k)] s)
       (\<lambda>g. ok_json (PDict [(''goal'', g), (''created'', PBool True)]))))"

definition process_remote :: "'d daemon \<Rightarrow> pyval \<Rightarrow> bool \<Rightarrow> 'd \<Rightarrow> pyval result \<times> 'd" where
  "process_remote dm goal tentative s =
     guard (ask_data dm ''process_goal'' [(''goal'', goal), (''tentative'', PBool tentative)] s)"

definition gui_run_goal :: "'d endpoint" where
  "gui_run_goal dm rq s =
     then_do (pure_step (body_get rq ''text'' (PStr [])) s) (\<lambda>t s.
     then_do (pure_step (body_get rq ''tentative'' (PBool False)) s) (\<lambda>b s.
     then_do (process_remote dm t (truthy b) s) ok_json))"

text \<open>The preferences: one request for each key of the store that is a preference.\<close>

fun collect_prefs :: "(pyfloat \<Rightarrow> string) \<Rightarrow> 'd daemon \<Rightarrow> pyval list \<Rightarrow> pyval sdict \<Rightarrow> 'd \<Rightarrow> pyval sdict result \<times> 'd" where
  "collect_prefs sf dm [] acc s = (Inr acc, s)"
| "collect_prefs sf dm (k # ks) acc s =
     (let key = py_str sf k in
      if startswith key ''pref:''
      then then_do (store_get dm key PNone s) (\<lambda>v. collect_prefs sf dm ks (dput (drop 5 key) v acc))
      else collect_prefs sf dm ks acc s)"

definition gui_memory :: "(pyfloat \<Rightarrow> string) \<Rightarrow> 'd endpoint" where
  "gui_memory sf dm rq s =
     then_do (gui_view dm ''memory'' s) (\<lambda>view s.
     then_do (ask_data dm ''mem_keys'' [] s) (\<lambda>ks s.
     then_do (pure_step (py_iter ks) s) (\<lambda>keys s.
     then_do (collect_prefs sf dm keys [] s) (\<lambda>prefs. ok_json (PDict [(''stats'', view), (''preferences'', PDict prefs)])))))"

definition gui_prefs :: "(pyfloat \<Rightarrow> string) \<Rightarrow> 'd endpoint" where
  "gui_prefs sf dm rq s =
     then_do (pure_step (body_get rq ''key'' (PStr [])) s) (\<lambda>k s.
     then_do (pure_step (body_get rq ''value'' (PStr [])) s) (\<lambda>v s.
     then_do (store_put dm (''pref:'' @ py_str sf k) v s) (\<lambda>_. ok_json (PDict [(''saved'', k)]))))"

text \<open>
  Chat: the history is read, the message processed as a goal, and the history written back with the reply. (The
  dash in the first reply, no character of the type used here, is a hyphen.)
\<close>

definition summarize_result :: "(pyfloat \<Rightarrow> string) \<Rightarrow> string \<Rightarrow> pyval sdict \<Rightarrow> string" where
  "summarize_result sf message res =
     (let status = dgetd res ''status'' (PStr ''unknown'') in
      if status = PStr ''done'' then ''I handled that - '' @ repr_str message @ '' is done ('' @ py_str sf (dgetd res ''steps'' (PInt 0)) @ '' step(s)).''
      else if status = PStr ''failed'' then
        (''I couldn'' @ [CHR 0x27] @ ''t finish that one: '') @ py_str sf (py_or (dgetd res ''error'' PNone) (PStr ''it ran into a problem'')) @ ''.''
      else (''I'' @ [CHR 0x27] @ ''ve noted that ('') @ py_str sf status @ (''); it'' @ [CHR 0x27] @ ''s queued in my work.''))"

definition chat_key :: "(pyfloat \<Rightarrow> string) \<Rightarrow> pyval \<Rightarrow> string" where
  "chat_key sf session = ''chat:'' @ py_str sf session"

definition chat_message :: "pyval \<Rightarrow> string result" where
  "chat_message v = (case py_or v (PStr []) of PStr m \<Rightarrow> Inr (str_strip m) | _ \<Rightarrow> Inl (Exc ''AttributeError'' ''object has no attribute strip''))"

definition chat_turn :: "(pyfloat \<Rightarrow> string) \<Rightarrow> pyfloat \<Rightarrow> pyval \<Rightarrow> string \<Rightarrow> 'd daemon \<Rightarrow> 'd \<Rightarrow> response result \<times> 'd" where
  "chat_turn sf now session message dm s =
     (let key = chat_key sf session in
      then_do (store_get dm key (PList []) s) (\<lambda>h s.
        let history = (case h of PList xs \<Rightarrow> xs | _ \<Rightarrow> []) @ [PDict [(''role'', PStr ''user''), (''text'', PStr message), (''ts'', PFloat now)]] in
        then_do (process_remote dm (PStr message) False s) (\<lambda>res s.
        then_do (pure_step (as_dict res) s) (\<lambda>d s.
          let reply = summarize_result sf message d;
              all = history @ [PDict [(''role'', PStr ''buster''), (''text'', PStr reply), (''ts'', PFloat now), (''meta'', res)]]
          in then_do (store_put dm key (PList all) s) (\<lambda>_. ok_json (PDict [(''session'', session), (''reply'', PStr reply),
               (''result'', res), (''history'', PList all)]))))))"

definition gui_chat :: "(pyfloat \<Rightarrow> string) \<Rightarrow> pyfloat \<Rightarrow> 'd endpoint" where
  "gui_chat sf now dm rq s =
     then_do (pure_step (body_get rq ''message'' PNone) s) (\<lambda>v s.
     then_do (pure_step (chat_message v) s) (\<lambda>message s.
     then_do (pure_step (body_get rq ''session'' PNone) s) (\<lambda>w s.
       if message = [] then ok_json (PDict [(''error'', PStr ''empty message'')]) s
       else chat_turn sf now (py_or w (PStr ''default'')) message dm s)))"

definition gui_history :: "'d endpoint" where
  "gui_history dm rq s =
     (let session = query_first rq ''session'' ''default'' in
      then_do (store_get dm (''chat:'' @ session) (PList []) s) (\<lambda>h. ok_json (PDict [(''session'', PStr session), (''history'', h)])))"

definition gui_forget :: "'d endpoint" where
  "gui_forget dm rq s =
     (let session = query_first rq ''session'' ''default'' in
      then_do (store_put dm (''chat:'' @ session) (PList []) s) (\<lambda>_. ok_json (PDict [(''cleared'', PStr session)])))"

text \<open>Home, attention, start page and settings put several answers together.\<close>

definition pick_keys :: "string list \<Rightarrow> pyval sdict \<Rightarrow> pyval" where
  "pick_keys ks d = PDict (map (\<lambda>k. (k, dgetd d k PNone)) ks)"

definition gui_home :: "'d endpoint" where
  "gui_home dm rq s =
     then_do (guard (ask_data dm ''status'' [] s)) (\<lambda>status s.
     then_do (gui_view dm ''health'' s) (\<lambda>health s.
     then_do (guard (ask_data dm ''activity'' [] s)) (\<lambda>act s.
     then_do (pure_step (as_dict status) s) (\<lambda>d. ok_json (PDict [(''status'', pick_keys [''state'', ''event_router_running'',
        ''scheduler_running'', ''ai_providers'', ''capabilities''] d), (''health'', health), (''activity'', act)])))))"

text \<open>The host of the start page: whatever fails on the way to it leaves it unknown.\<close>

definition world_host :: "pyval result \<Rightarrow> pyval" where
  "world_host r =
     (case r of
        Inl _ \<Rightarrow> PStr ''unknown''
      | Inr v \<Rightarrow> (case py_or v (PDict []) of
          PDict d \<Rightarrow> (case dgetd d ''facts'' (PDict []) of PDict f \<Rightarrow> dgetd f ''host'' (PStr ''unknown'') | _ \<Rightarrow> PStr ''unknown'')
        | _ \<Rightarrow> PStr ''unknown''))"

definition gui_bootstrap :: "string \<Rightarrow> string \<Rightarrow> 'd endpoint" where
  "gui_bootstrap version install dm rq s =
     then_do (guard (ask_data dm ''update_info'' [] s)) (\<lambda>info s.
     then_do (guard (ask_data dm ''status'' [] s)) (\<lambda>status s.
       let (r, s) = gui_view dm ''world'' s in
       then_do (pure_step (as_dict info) s) (\<lambda>i s.
       then_do (pure_step (as_dict status) s) (\<lambda>d. ok_json (PDict [(''buster_version'', dgetd i ''buster_version'' (PStr version)),
         (''install_path'', dgetd i ''install_path'' (PStr install)), (''runtime_state'', dgetd d ''state'' PNone),
         (''online'', PBool True), (''host'', world_host r)])))))"

text \<open>The last ten events: a slice of whatever the activity holds there.\<close>

definition last_items :: "pyval \<Rightarrow> pyval result" where
  "last_items v =
     (case v of PList xs \<Rightarrow> Inr (PList (slice_last 10 xs)) | PStr t \<Rightarrow> Inr (PStr (slice_last 10 t))
      | _ \<Rightarrow> Inl (Exc ''TypeError'' ''object is not subscriptable''))"

fun active_rows :: "pyval list \<Rightarrow> pyval list result" where
  "active_rows [] = Inr []"
| "active_rows (g # gs) =
     (case as_dict g of
        Inl e \<Rightarrow> Inl e
      | Inr d \<Rightarrow> map_sum id (\<lambda>rows. if dgetd d ''status'' PNone = PStr ''active'' then g # rows else rows) (active_rows gs))"

definition gui_attention :: "'d endpoint" where
  "gui_attention dm rq s =
     then_do (guard (ask_data dm ''activity'' [] s)) (\<lambda>act s.
     then_do (gui_view dm ''health'' s) (\<lambda>health s.
     then_do (pure_step (as_dict act) s) (\<lambda>d s.
     then_do (pure_step (py_iter (dgetd d ''goals'' (PList []))) s) (\<lambda>gs s.
     then_do (pure_step (active_rows gs) s) (\<lambda>rows s.
     then_do (pure_step (last_items (dgetd d ''events'' (PList []))) s) (\<lambda>evs.
       ok_json (PDict [(''suggestions'', dgetd d ''suggestions'' (PList [])), (''active_goals'', PList rows), (''recent_events'', evs),
         (''health'', health)])))))))"

definition job_json :: "string \<times> string \<times> string \<times> bool \<Rightarrow> pyval" where
  "job_json j = (case j of (i, n, st, p) \<Rightarrow> PDict [(''id'', PStr i), (''name'', PStr n), (''status'', PStr st), (''periodic'', PBool p)])"

fun job_rows :: "pyval list \<Rightarrow> pyval list result" where
  "job_rows [] = Inr []"
| "job_rows (v # vs) =
     (case as_dict v of
        Inl e \<Rightarrow> Inl e
      | Inr d \<Rightarrow> (case remote_job d of Inl e \<Rightarrow> Inl e | Inr j \<Rightarrow> map_sum id (Cons (job_json j)) (job_rows vs)))"

definition dict_item :: "string \<Rightarrow> pyval \<Rightarrow> pyval result" where
  "dict_item k v = (case v of
     PDict d \<Rightarrow> (case dget d k of None \<Rightarrow> Inl (Exc ''KeyError'' k) | Some x \<Rightarrow> Inr x) | _ \<Rightarrow> Inl (Exc ''TypeError'' ''indices must be integers''))"

definition advanced_caps :: "'d daemon \<Rightarrow> 'd \<Rightarrow> pyval result \<times> 'd" where
  "advanced_caps dm s =
     guard (then_do (ask_data dm ''caps'' [] s) (\<lambda>v s. then_do (pure_step (dict_item ''capabilities'' v) s) (\<lambda>cs s.
            then_do (ask_data dm ''caps'' [] s) (\<lambda>w s. then_do (pure_step (dict_item ''actions'' w) s) (\<lambda>as s.
              (Inr (PDict [(''capabilities'', cs), (''actions'', as)]), s))))))"

definition advanced_jobs :: "'d daemon \<Rightarrow> 'd \<Rightarrow> pyval result \<times> 'd" where
  "advanced_jobs dm s =
     then_do (guard (then_do (ask_data dm ''jobs'' [] s) (\<lambda>v s. then_do (pure_step (py_iter v) s) (\<lambda>vs. pure_step (job_rows vs)))))
       (\<lambda>rows s. (Inr (PDict [(''jobs'', PList rows)]), s))"

definition advanced_audit :: "'d daemon \<Rightarrow> 'd \<Rightarrow> pyval result \<times> 'd" where
  "advanced_audit dm s = then_do (guard (ask_data dm ''audit'' [(''limit'', PInt 30)] s)) (\<lambda>es s. (Inr (PDict [(''audit'', es)]), s))"

definition advanced_data :: "string \<Rightarrow> 'd daemon \<Rightarrow> 'd \<Rightarrow> pyval result \<times> 'd" where
  "advanced_data section dm s =
     (if section = ''status'' then guard (ask_data dm ''status'' [] s)
      else if section = ''capabilities'' then advanced_caps dm s
      else if section = ''jobs'' then advanced_jobs dm s
      else if section = ''audit'' then advanced_audit dm s
      else if section = ''permissions'' then guard (ask_data dm ''permissions_list'' [] s)
      else if section = ''activity'' then guard (ask_data dm ''activity'' [] s)
      else guard (gui_view dm section s))"

text \<open>An advanced view never raises.\<close>

definition gui_advanced :: "string \<Rightarrow> 'd endpoint" where
  "gui_advanced section dm rq s =
     (let (r, s) = advanced_data section dm s in
      case r of
        Inr v \<Rightarrow> ok_json v s
      | Inl e \<Rightarrow> ok_json (PDict (if exc_type e = ''GuiOfflineError'' then [(''offline'', PBool True)] else [(''error'', PStr (exc_msg e))])) s)"

definition gui_settings :: "'d endpoint" where
  "gui_settings dm rq s =
     then_do (guard (ask_data dm ''status'' [] s)) (\<lambda>status s.
     then_do (guard (ask_data dm ''permissions_list'' [] s)) (\<lambda>perms s.
     then_do (guard (ask_data dm ''update_info'' [] s)) (\<lambda>updates.
       ok_json (PDict [(''status'', status), (''permissions'', perms), (''updates'', updates)]))))"

section \<open>Routing\<close>

record gui_config =
  gc_install :: string
  gc_port :: int
  gc_version :: string
  gc_web :: string
  gc_cwd :: string
  gc_files :: "string \<Rightarrow> bool"

definition gui_ping :: "gui_config \<Rightarrow> pyval" where
  "gui_ping g = PDict [(''ok'', PBool True), (''gui'', PStr ''buster-gui''), (''version'', PStr (gc_version g)),
     (''install_path'', PStr (gc_install g)), (''port'', PInt (gc_port g))]"

definition advanced_section :: "string \<Rightarrow> string option" where
  "advanced_section path =
     (if path = ''/api/advanced'' then Some ''health''
      else if startswith path ''/api/advanced/'' then Some (drop (length ''/api/advanced/'') path) else None)"

text \<open>What is looked for after the fixed paths: an advanced section, the settings, the updates.\<close>

definition late_route :: "gui_config \<Rightarrow> 'd endpoint" where
  "late_route g dm rq s =
     (case advanced_section (rq_path rq) of
        Some section \<Rightarrow> gui_advanced section dm rq s
      | None \<Rightarrow>
          if rq_path rq = ''/api/settings'' then gui_settings dm rq s
          else if rq_path rq = ''/api/updates'' then api_data ''update_info'' dm rq s
          else (Inr (Json 404 (PDict [(''error'', PStr (''unknown endpoint '' @ rq_path rq))])), s))"

definition api_route :: "(pyfloat \<Rightarrow> string) \<Rightarrow> pyfloat \<Rightarrow> gui_config \<Rightarrow> 'd endpoint" where
  "api_route sf now g dm rq s =
     (let p = rq_path rq; m = rq_method rq in
      if p = ''/api/ping'' then ok_json (gui_ping g) s
      else if p = ''/api/bootstrap'' then gui_bootstrap (gc_version g) (gc_install g) dm rq s
      else if p = ''/api/home'' then gui_home dm rq s
      else if p = ''/api/activity'' then api_data ''activity'' dm rq s
      else if p = ''/api/chat'' \<and> m = ''POST'' then gui_chat sf now dm rq s
      else if p = ''/api/chat'' \<and> m = ''GET'' then gui_history dm rq s
      else if p = ''/api/chat'' \<and> m = ''DELETE'' then gui_forget dm rq s
      else if p = ''/api/files'' then gui_files dm rq s
      else if p = ''/api/file'' then gui_file dm rq s
      else if p = ''/api/fs'' then gui_fs dm rq s
      else if p = ''/api/term'' \<and> m = ''POST'' then gui_term sf dm rq s
      else if p = ''/api/device'' then api_data ''sensors'' dm rq s
      else if p = ''/api/goals'' \<and> m = ''GET'' then gui_goals dm rq s
      else if p = ''/api/goals'' \<and> m = ''POST'' then gui_new_goal dm rq s
      else if p = ''/api/goals/run'' then gui_run_goal dm rq s
      else if p = ''/api/memory'' then gui_memory sf dm rq s
      else if p = ''/api/prefs'' then gui_prefs sf dm rq s
      else if p = ''/api/permissions'' \<and> m = ''GET'' then api_data ''permissions_list'' dm rq s
      else if p = ''/api/permissions/grant'' then gui_grant dm rq s
      else if p = ''/api/permissions/deny'' then gui_deny dm rq s
      else if p = ''/api/attention'' then gui_attention dm rq s
      else late_route g dm rq s)"

text \<open>\<open>route\<close> and the handler around it: an exception is an answer with an error.\<close>

definition gui_dispatch :: "(pyfloat \<Rightarrow> string) \<Rightarrow> pyfloat \<Rightarrow> gui_config \<Rightarrow> 'd daemon \<Rightarrow> request \<Rightarrow> 'd \<Rightarrow> response \<times> 'd" where
  "gui_dispatch sf now g dm rq s =
     (if rq_path rq = ''/'' then (send_static (gc_cwd g) (gc_web g) (gc_files g) ''index.html'', s)
      else if startswith (rq_path rq) ''/assets/'' then (send_static (gc_cwd g) (gc_web g) (gc_files g) (rq_path rq), s)
      else (let (r, s') = api_route sf now g dm rq s in
            (case r of
               Inr resp \<Rightarrow> resp
             | Inl e \<Rightarrow>
                 if exc_type e = ''GuiOfflineError''
                 then Json 503 (PDict [(''offline'', PBool True), (''error'', PStr ''Buster runtime is offline''), (''detail'', PStr (exc_msg e))])
                 else Json 500 (PDict [(''error'', PStr (''internal GUI error: '' @ exc_msg e))]), s')))"

section \<open>What a request can do to the daemon\<close>

text \<open>The operations the interface sends; two of them only from the endpoint of the same name.\<close>

definition common_ops :: "string set" where
  "common_ops = {''update_info'', ''status'', ''intel'', ''activity'', ''mem_get'', ''mem_put'', ''mem_keys'', ''call'', ''sensors'', ''goal'',
     ''process_goal'', ''permissions_list'', ''caps'', ''jobs'', ''audit''}"

definition gui_ops :: "string \<Rightarrow> string set" where
  "gui_ops path = common_ops \<union> (if path = ''/api/permissions/grant'' then {''grant''} else {}) \<union>
     (if path = ''/api/permissions/deny'' then {''deny''} else {})"

locale daemon_user =
  fixes dm :: "'d daemon" and ops :: "string set" and P :: "'d \<Rightarrow> bool"
  assumes keeps: "op \<in> ops \<Longrightarrow> P s \<Longrightarrow> P (snd (dm op m s))"
begin

lemma ask_keeps: "op \<in> ops \<Longrightarrow> P s \<Longrightarrow> P (snd (ask_data dm op m s))"
  unfolding ask_data_def by (rule then_do_keeps [where P = P]) (simp_all add: keeps)

lemma view_keeps: "''intel'' \<in> ops \<Longrightarrow> P s \<Longrightarrow> P (snd (gui_view dm section s))"
  unfolding gui_view_def by (rule then_do_keeps [where P = P]) (simp_all add: keeps)

lemma call_keeps: "''call'' \<in> ops \<Longrightarrow> P s \<Longrightarrow> P (snd (gui_call dm a e c s))"
  unfolding gui_call_def by (rule then_do_keeps [where P = P]) (simp_all add: ask_keeps)

end

locale daemon_client = daemon_user dm ops P for dm :: "'d daemon" and ops P +
  assumes common: "common_ops \<subseteq> ops"
begin

lemma sends: "op \<in> common_ops \<Longrightarrow> P s \<Longrightarrow> P (snd (dm op m s))"
  using keeps common by blast

lemma common_view: "P s \<Longrightarrow> P (snd (gui_view dm section s))"
  using view_keeps common by (auto simp: common_ops_def)

lemma common_call: "P s \<Longrightarrow> P (snd (gui_call dm a e c s))"
  using call_keeps common by (auto simp: common_ops_def)

lemma asks: "op \<in> common_ops \<Longrightarrow> P s \<Longrightarrow> P (snd (ask_data dm op m s))"
  using ask_keeps common by blast

lemma guard_state [simp]: "snd (guard m) = snd m"
  by (cases m; cases "fst m") (auto simp: guard_def)

lemma ok_state [simp]: "snd (ok_json v s) = s"
  by (simp add: ok_json_def)

lemma get_keeps: "P s \<Longrightarrow> P (snd (store_get dm k dflt s))"
  by (simp add: store_get_def Let_def case_prod_unfold asks common_ops_def)

lemma put_keeps: "P s \<Longrightarrow> P (snd (store_put dm k v s))"
  unfolding store_put_def by (rule then_do_keeps [where P = P]) (simp_all add: sends common_ops_def)

lemma process_keeps: "P s \<Longrightarrow> P (snd (process_remote dm goal t s))"
  by (simp add: process_remote_def asks common_ops_def)

lemma prefs_keep: "P s \<Longrightarrow> P (snd (collect_prefs sf dm ks acc s))"
proof (induction ks arbitrary: acc s)
  case (Cons k ks)
  then show ?case
    by (auto simp: Let_def get_keeps intro!: then_do_keeps [where P = P])
qed simp

lemmas client_keeps = asks common_view get_keeps put_keeps common_call process_keeps prefs_keep common_ops_def

lemma plain_endpoints:
  assumes "P s"
  shows "op \<in> common_ops \<Longrightarrow> P (snd (api_data op dm rq s))" "P (snd (gui_files dm rq s))" "P (snd (gui_file dm rq s))"
    "P (snd (gui_fs dm rq s))" "P (snd (gui_term sf dm rq s))" "P (snd (gui_goals dm rq s))" "P (snd (gui_new_goal dm rq s))"
    "P (snd (gui_run_goal dm rq s))" "P (snd (gui_memory sf dm rq s))" "P (snd (gui_prefs sf dm rq s))" "P (snd (gui_history dm rq s))"
    "P (snd (gui_forget dm rq s))" "P (snd (gui_settings dm rq s))"
  unfolding api_data_def gui_files_def gui_file_def gui_fs_def gui_term_def gui_goals_def gui_new_goal_def gui_run_goal_def gui_memory_def
    gui_prefs_def gui_history_def gui_forget_def gui_settings_def Let_def
  by (use assms in \<open>auto simp: client_keeps intro!: then_do_keeps [where P = P]\<close>)

lemma chained: "P (snd m) \<Longrightarrow> (\<And>a c. P c \<Longrightarrow> P (snd (f a c))) \<Longrightarrow> P (snd (then_do m f))"
  by (rule then_do_keeps [where P = P]) simp_all

lemma joint_endpoints:
  assumes "P s"
  shows "P (snd (gui_home dm rq s))" "P (snd (gui_attention dm rq s))" "P (snd (gui_bootstrap v i dm rq s))"
  unfolding gui_home_def gui_attention_def gui_bootstrap_def Let_def case_prod_unfold
  by (use assms in \<open>intro chained; simp add: client_keeps\<close>)+

lemma turn_keeps: "P s \<Longrightarrow> P (snd (chat_turn sf now w message dm s))"
  unfolding chat_turn_def Let_def by (intro chained; simp add: client_keeps)

lemma chat_keeps: "P s \<Longrightarrow> P (snd (gui_chat sf now dm rq s))"
  unfolding gui_chat_def by (intro chained; simp add: turn_keeps)

lemma advanced_parts:
  assumes "P s"
  shows "P (snd (advanced_caps dm s))" "P (snd (advanced_jobs dm s))" "P (snd (advanced_audit dm s))"
  unfolding advanced_caps_def advanced_jobs_def advanced_audit_def guard_state
  by (use assms in \<open>intro chained; simp add: client_keeps; intro chained; simp add: client_keeps\<close>)+

lemma advanced_keeps: "P s \<Longrightarrow> P (snd (gui_advanced section dm rq s))"
proof -
  assume s: "P s"
  have "P (snd (advanced_data section dm s))"
    unfolding advanced_data_def using advanced_parts [OF s] s by (simp add: client_keeps)
  then show ?thesis by (simp add: gui_advanced_def Let_def case_prod_unfold split: sum.split)
qed

lemma permission_endpoints:
  assumes "P s"
  shows "''grant'' \<in> ops \<Longrightarrow> P (snd (gui_grant dm rq s))" "''deny'' \<in> ops \<Longrightarrow> P (snd (gui_deny dm rq s))"
  unfolding gui_grant_def gui_deny_def
  by (use assms in \<open>auto simp: keeps intro!: then_do_keeps [where P = P]\<close>)

lemma dispatch_keeps: "gui_ops (rq_path rq) \<subseteq> ops \<Longrightarrow> P s \<Longrightarrow> P (snd (gui_dispatch sf now g dm rq s))"
proof -
  assume o: "gui_ops (rq_path rq) \<subseteq> ops" and s: "P s"
  have l: "P (snd (late_route g dm rq s))"
    using s by (simp add: late_route_def advanced_keeps plain_endpoints common_ops_def split: option.split)
  have "P (snd (gui_grant dm rq s))" if "rq_path rq = ''/api/permissions/grant''"
    using o s that by (intro permission_endpoints) (auto simp: gui_ops_def)
  moreover have "P (snd (gui_deny dm rq s))" if "rq_path rq = ''/api/permissions/deny''"
    using o s that by (intro permission_endpoints) (auto simp: gui_ops_def)
  ultimately have "P (snd (api_route sf now g dm rq s))"
    unfolding api_route_def Let_def
    using l plain_endpoints [OF s] joint_endpoints [OF s] chat_keeps [OF s] s
    by (simp add: common_ops_def)
  then show ?thesis using s by (simp add: gui_dispatch_def Let_def case_prod_unfold)
qed

end

text \<open>
  C33. Whatever a request asks for, the interface sends the daemon nothing outside its closed vocabulary, and
  grants and denials only from their own endpoints: what no such operation breaks, no request breaks.
\<close>

theorem gui_closed_vocabulary:
  assumes "\<And>op m s. op \<in> gui_ops (rq_path rq) \<Longrightarrow> P s \<Longrightarrow> P (snd (dm op m s))" and "P s"
  shows "P (snd (gui_dispatch sf now g dm rq s))"
  by (rule daemon_client.dispatch_keeps [where ops = "gui_ops (rq_path rq)"])
    (use assms in \<open>auto simp: gui_ops_def intro!: daemon_client.intro daemon_user.intro daemon_client_axioms.intro\<close>)

definition logging_daemon :: "string list daemon" where
  "logging_daemon op m s = (Inr [(''ok'', PBool True), (''data'', PDict [])], op # s)"

definition demo_gui :: gui_config where
  "demo_gui = \<lparr>gc_install = ''/b'', gc_port = 8468, gc_version = ''1'', gc_web = ''/srv/web'', gc_cwd = ''/'', gc_files = (\<lambda>p. p = ''/srv/web/index.html'')\<rparr>"

definition shutdown_request :: request where
  "shutdown_request = \<lparr>rq_method = ''POST'', rq_path = ''/api/term'', rq_query = [], rq_body = PDict [(''op'', PStr ''shutdown''), (''command'', PStr ''ls'')]\<rparr>"

lemma gui_closed_vocabulary_witness:
  "''shutdown'' \<notin> set (snd (gui_dispatch point0 0 demo_gui logging_daemon shutdown_request [])) \<and>
   ''grant'' \<notin> set (snd (gui_dispatch point0 0 demo_gui logging_daemon shutdown_request []))"
  by (rule gui_closed_vocabulary [where P = "\<lambda>s. ''shutdown'' \<notin> set s \<and> ''grant'' \<notin> set s"])
    (auto simp: shutdown_request_def gui_ops_def common_ops_def logging_daemon_def)

section \<open>The interface over the runtime\<close>

definition server_daemon :: "'s op_handler \<Rightarrow> shell_env \<Rightarrow> (pyfloat \<Rightarrow> string) \<Rightarrow> 's server daemon" where
  "server_daemon other sv sf op m s =
     (let (reply, s') = rpc other sv ((''op'', PStr op) # m) s
      in (if truthy (dgetd reply ''ok'' PNone) then Inr reply
          else Inl (Exc ''RuntimeRpcError'' (py_str sf (dgetd reply ''error'' (PStr ''rpc failed'')))), s'))"

definition denied_at :: "'s op_handler \<Rightarrow> string \<Rightarrow> 's server \<Rightarrow> bool" where
  "denied_at other a s \<longleftrightarrow> (keeps_perms other \<longrightarrow> (\<exists>q. server_perms s = Some q \<and> deny_everywhere q a))"

interpretation denied: daemon_client "server_daemon other sv sf" UNIV "denied_at other a"
proof unfold_locales
  fix op m and s :: "'a server"
  assume d: "denied_at other a s"
  show "denied_at other a (snd (server_daemon other sv sf op m s))"
    unfolding denied_at_def
  proof (rule impI)
    assume k: "keeps_perms other"
    then obtain p where p: "server_perms s = Some p" "deny_everywhere p a" using d by (auto simp: denied_at_def)
    from rpc_run_perms [OF k p, of sv "[(''op'', PStr op) # m]"]
    show "\<exists>q. server_perms (snd (server_daemon other sv sf op m s)) = Some q \<and> deny_everywhere q a"
      by (simp add: server_daemon_def Let_def case_prod_unfold)
  qed
qed simp

definition gui_run :: "'s op_handler \<Rightarrow> shell_env \<Rightarrow> (pyfloat \<Rightarrow> string) \<Rightarrow> pyfloat \<Rightarrow> gui_config \<Rightarrow> request list \<Rightarrow> 's server \<Rightarrow> 's server" where
  "gui_run other sv sf now g rqs s = fold (\<lambda>rq s. snd (gui_dispatch sf now g (server_daemon other sv sf) rq s)) rqs s"

lemma run_denied: "denied_at other a s \<Longrightarrow> denied_at other a (gui_run other sv sf now g rqs s)"
  unfolding gui_run_def
  by (induction rqs arbitrary: s) (simp_all add: denied.dispatch_keeps)

definition deny_request :: "string \<Rightarrow> request" where
  "deny_request a = \<lparr>rq_method = ''POST'', rq_path = ''/api/permissions/deny'', rq_query = [], rq_body = PDict [(''action'', PStr a)]\<rparr>"

lemma deny_request_route:
  "api_route sf now g dm (deny_request a) s = gui_deny dm (deny_request a) s"
  by (simp add: api_route_def deny_request_def)

lemma deny_request_denies:
  assumes "server_perms s = Some p"
  shows "denied_at other a (snd (gui_dispatch sf now g (server_daemon other sv sf) (deny_request a) s))"
proof -
  have "server_perms (snd (rpc other sv [(''op'', PStr ''deny''), (''action'', PStr a)] s)) = Some (deny a None ''denied over runtime'' p)"
    using assms by (simp add: rpc_def rpc_deny_def op_message_def msg_text_def dgetd_def Let_def)
  moreover have "snd (gui_dispatch sf now g (server_daemon other sv sf) (deny_request a) s) =
      snd (gui_deny (server_daemon other sv sf) (deny_request a) s)"
    by (simp add: gui_dispatch_def deny_request_route case_prod_unfold Let_def) (simp add: deny_request_def startswith_def)
  moreover have "snd (gui_deny dm (deny_request a) s) = snd (dm ''deny'' [(''action'', PStr a)] s)" for dm :: "'a server daemon"
    by (cases "dm ''deny'' [(''action'', PStr a)] s"; cases "fst (dm ''deny'' [(''action'', PStr a)] s)")
      (simp_all add: gui_deny_def deny_request_def body_get_def dgetd_def pure_step_def ok_json_def)
  ultimately show ?thesis
    by (auto simp: denied_at_def server_daemon_def case_prod_unfold Let_def intro!: exI sticky.deny_blocks)
qed

text \<open>
  A denial made in the web interface is final: after it, no sequence of requests, grants included, makes the
  kernel's gate allow the action under any scope or context.
\<close>

lemma gui_denial_final:
  assumes "keeps_perms other" "server_perms s = Some p"
  shows "\<exists>q. server_perms (gui_run other sv sf now g (deny_request a # rqs) s) = Some q \<and> \<not> pd_allowed (perm_check q a sc ctx)"
proof -
  have "denied_at other a (gui_run other sv sf now g (deny_request a # rqs) s)"
    using run_denied [OF deny_request_denies [OF assms(2)]] by (simp add: gui_run_def)
  then show ?thesis
    using assms(1) check_denied deny_everywhere_denies by (fastforce simp: denied_at_def)
qed

lemma gui_denial_final_witness:
  "\<exists>q. server_perms (gui_run refuse_op demo_shell_env point0 0 demo_gui
     [deny_request ''fs.delete'', \<lparr>rq_method = ''POST'', rq_path = ''/api/permissions/grant'', rq_query = [], rq_body = PDict [(''action'', PStr ''fs.delete'')]\<rparr>]
     demo_server) = Some q \<and> \<not> pd_allowed (perm_check q ''fs.delete'' None [])"
  by (rule gui_denial_final [OF refuse_keeps demo_perms])

text \<open>The containment test is textual: a sibling directory whose name extends the web directory's passes it.\<close>

lemma sibling_passes:
  "send_static ''/'' ''/srv/web'' (\<lambda>p. True) ''/assets/../../web-secret/x'' = Served ''/srv/web-secret/x''"
  by code_simp

text \<open>The grant endpoint asks neither for a method nor for who asks.\<close>

lemma any_get_grants:
  "rq_path rq = ''/api/permissions/grant'' \<Longrightarrow> api_route sf now g dm rq s = gui_grant dm rq s"
  by (simp add: api_route_def)

text \<open>A view or a write that the runtime does not answer is an internal error, not the offline answer.\<close>

definition silent_daemon :: "unit daemon" where
  "silent_daemon op m s = (Inl (Exc ''RuntimeOfflineError'' ''no runtime''), s)"

lemma offline_answers:
  "(\<exists>b. fst (gui_dispatch point0 0 demo_gui silent_daemon \<lparr>rq_method = ''GET'', rq_path = ''/api/activity'', rq_query = [], rq_body = PNone\<rparr> ()) = Json 503 b) \<and>
   (\<exists>b. fst (gui_dispatch point0 0 demo_gui silent_daemon \<lparr>rq_method = ''GET'', rq_path = ''/api/goals'', rq_query = [], rq_body = PNone\<rparr> ()) = Json 500 b)"
  by (simp add: gui_dispatch_def api_route_def startswith_def api_data_def ask_data_def silent_daemon_def guard_def offline_error_def
      gui_goals_def gui_view_def then_do_def)

end
