(* ===== verification/Files.thy ===== *)
theory Files
  imports Capabilities Json_Parse Config Insight
begin

text \<open>
  \<open>capabilities/impl/filesystem.py\<close> over a POSIX directory tree: paths are resolved component by component as the
  host does, every handler with the branches and partial effects of its system calls. Symbolic links, permission
  bits, free space and the texts of host errors (here the path) are left out; the codecs, the times and modes
  that \<open>stat\<close> reports and a path given as a file descriptor are arguments.
\<close>

section \<open>The tree\<close>

type_synonym loc = "string list"

datatype fnode = NDir | NFile string

type_synonym fsys = "(loc, fnode) dict"

definition node_at :: "fsys \<Rightarrow> loc \<Rightarrow> fnode option" where
  "node_at t l = (if l = [] then Some NDir else dget t l)"

record file_env =
  fe_cwd :: string
  fe_codec :: "string \<Rightarrow> bool"
  fe_encode :: "string \<Rightarrow> string \<Rightarrow> string result"
  fe_decode :: "string \<Rightarrow> string \<Rightarrow> string result"
  fe_stat :: "loc \<Rightarrow> int \<times> pyfloat \<times> int"
  fe_re :: "string \<Rightarrow> string \<Rightarrow> bool"
  fe_protection :: delete_protection

definition enter :: "loc \<Rightarrow> string \<Rightarrow> loc" where
  "enter l c = (if c = [] \<or> c = ''.'' then l else if c = ''..'' then butlast l else l @ [c])"

fun walk :: "fsys \<Rightarrow> loc \<Rightarrow> string list \<Rightarrow> loc result" where
  "walk t l [] = Inr l"
| "walk t l (c # cs) =
     (case node_at t l of
        None \<Rightarrow> Inl (Exc ''FileNotFoundError'' [])
      | Some (NFile b) \<Rightarrow> Inl (Exc ''NotADirectoryError'' [])
      | Some NDir \<Rightarrow> walk t (enter l c) cs)"

definition resolve_path :: "file_env \<Rightarrow> fsys \<Rightarrow> string \<Rightarrow> loc result" where
  "resolve_path env t p =
     (if CHR 0x00 \<in> set p then Inl (Exc ''ValueError'' ''embedded null byte'')
      else if p = [] then Inl (Exc ''FileNotFoundError'' [])
      else map_sum (\<lambda>e. Exc (exc_type e) p) id
             (walk t (if startswith p ''/'' then [] else norm_comps (fe_cwd env)) (split_char CHR ''/'' p)))"

definition path_node :: "file_env \<Rightarrow> fsys \<Rightarrow> string \<Rightarrow> fnode option" where
  "path_node env t p = (case resolve_path env t p of Inl _ \<Rightarrow> None | Inr l \<Rightarrow> node_at t l)"

definition is_dir :: "file_env \<Rightarrow> fsys \<Rightarrow> string \<Rightarrow> bool" where
  "is_dir env t p \<longleftrightarrow> path_node env t p = Some NDir"

text \<open>\<open>os.makedirs(\<dots>, exist_ok=True)\<close>: what was created before a failure stays.\<close>

fun make_walk :: "fsys \<Rightarrow> loc \<Rightarrow> string list \<Rightarrow> unit result \<times> fsys" where
  "make_walk t l [] = (Inr (), t)"
| "make_walk t l (c # cs) =
     (if CHR 0x00 \<in> set c then (Inl (Exc ''ValueError'' ''embedded null byte''), t)
      else (case node_at t (enter l c) of
              Some NDir \<Rightarrow> make_walk t (enter l c) cs
            | Some (NFile b) \<Rightarrow> (Inl (Exc (if cs = [] then ''FileExistsError'' else ''NotADirectoryError'') []), t)
            | None \<Rightarrow> make_walk (dput (enter l c) NDir t) (enter l c) cs))"

definition make_dirs_at :: "file_env \<Rightarrow> string \<Rightarrow> fsys \<Rightarrow> unit result \<times> fsys" where
  "make_dirs_at env p t =
     (let start = (if startswith p ''/'' then [] else norm_comps (fe_cwd env)) in
      if p = [] \<or> node_at t start \<noteq> Some NDir then (Inl (Exc ''FileNotFoundError'' p), t)
      else make_walk t start (split_char CHR ''/'' (rstrip_chars (\<lambda>c. c = CHR ''/'') p)))"

text \<open>\<open>open(path, "w")\<close> and \<open>open(path, "a")\<close> before anything is written.\<close>

definition open_for :: "bool \<Rightarrow> file_env \<Rightarrow> string \<Rightarrow> fsys \<Rightarrow> loc result \<times> fsys" where
  "open_for emptying env p t =
     (case resolve_path env t p of
        Inl e \<Rightarrow> (Inl e, t)
      | Inr l \<Rightarrow>
          (case node_at t l of
             Some NDir \<Rightarrow> (Inl (Exc ''IsADirectoryError'' p), t)
           | Some (NFile b) \<Rightarrow> (Inr l, if emptying then dput l (NFile []) t else t)
           | None \<Rightarrow> (Inr l, dput l (NFile []) t)))"

section \<open>The handlers\<close>

type_synonym fs_handler = "file_env \<Rightarrow> py_context \<Rightarrow> fsys \<Rightarrow> cap_result result \<times> fsys"

definition no_path :: exc where
  "no_path = Exc ''TypeError'' ''expected str, bytes or os.PathLike object''"

text \<open>A path that is a number names an open file descriptor in the calls that take one.\<close>

definition text_path :: "pyval \<Rightarrow> (string \<Rightarrow> fsys \<Rightarrow> cap_result result \<times> fsys) \<Rightarrow> fsys \<Rightarrow> cap_result result \<times> fsys" where
  "text_path v f t = (case v of PStr p \<Rightarrow> f p t | _ \<Rightarrow> (Inl no_path, t))"

definition any_path :: "fs_handler \<Rightarrow> pyval \<Rightarrow> (string \<Rightarrow> fsys \<Rightarrow> cap_result result \<times> fsys) \<Rightarrow> fs_handler" where
  "any_path on_fd v f env x t =
     (case v of PInt i \<Rightarrow> on_fd env x t | PBool b \<Rightarrow> on_fd env x t | _ \<Rightarrow> text_path v f t)"

definition x_path :: "py_context \<Rightarrow> pyval" where
  "x_path x = dgetd x ''path'' PNone"

definition encoding_of :: "py_context \<Rightarrow> string result" where
  "encoding_of x =
     (case dgetd x ''encoding'' (PStr ''utf-8'') of
        PStr e \<Rightarrow> Inr e | PNone \<Rightarrow> Inr ''utf-8'' | _ \<Rightarrow> Inl (Exc ''TypeError'' ''encoding must be str or None''))"

definition children :: "fsys \<Rightarrow> loc \<Rightarrow> string list" where
  "children t l = [last k. (k, n) \<leftarrow> t, k \<noteq> [], butlast k = l]"

definition entry_kind :: "file_env \<Rightarrow> fsys \<Rightarrow> string \<Rightarrow> string \<Rightarrow> pyval" where
  "entry_kind env t p e = PStr (if is_dir env t (path_join p e) then ''dir'' else ''file'')"

definition fs_list :: "fs_handler \<Rightarrow> fs_handler" where
  "fs_list on_fd env x t =
     any_path on_fd (dgetd x ''path'' (PStr ''.'')) (\<lambda>p t.
       (case resolve_path env t p of
          Inl e \<Rightarrow> Inl e
        | Inr l \<Rightarrow>
            (case node_at t l of
               None \<Rightarrow> Inl (Exc ''FileNotFoundError'' p)
             | Some (NFile b) \<Rightarrow> Inl (Exc ''NotADirectoryError'' p)
             | Some NDir \<Rightarrow> Inr (cr_ok (PDict [(''path'', PStr p),
                 (''entries'', PDict (map (\<lambda>e. (e, entry_kind env t p e)) (sort (children t l))))]))), t)) env x t"

definition read_text :: "file_env \<Rightarrow> string \<Rightarrow> string \<Rightarrow> fsys \<Rightarrow> string result" where
  "read_text env enc p t =
     (case resolve_path env t p of
        Inl e \<Rightarrow> Inl e
      | Inr l \<Rightarrow>
          (case node_at t l of
             None \<Rightarrow> Inl (Exc ''FileNotFoundError'' p)
           | Some NDir \<Rightarrow> Inl (Exc ''IsADirectoryError'' p)
           | Some (NFile b) \<Rightarrow>
               if \<not> fe_codec env enc then Inl (Exc ''LookupError'' (''unknown encoding: '' @ enc))
               else map_sum id universal_newlines (fe_decode env enc b)))"

definition fs_read :: "fs_handler \<Rightarrow> fs_handler" where
  "fs_read on_fd env x t =
     any_path on_fd (x_path x) (\<lambda>p t.
       (case encoding_of x of
          Inl e \<Rightarrow> Inl e
        | Inr enc \<Rightarrow> map_sum id (\<lambda>s. cr_ok (PStr s)) (read_text env enc p t), t)) env x t"

text \<open>
  Writing truncates first: an unknown codec, a value that is no text and a text that the codec refuses leave an
  empty file behind.
\<close>

definition write_content :: "file_env \<Rightarrow> string \<Rightarrow> string \<Rightarrow> pyval \<Rightarrow> loc \<Rightarrow> fsys \<Rightarrow> cap_result result \<times> fsys" where
  "write_content env enc p content l t =
     (if \<not> fe_codec env enc then (Inl (Exc ''LookupError'' (''unknown encoding: '' @ enc)), t)
      else (case content of
              PStr s \<Rightarrow>
                (case fe_encode env enc s of
                   Inl e \<Rightarrow> (Inl e, t)
                 | Inr b \<Rightarrow> (Inr (cr_ok (PDict [(''path'', PStr p), (''bytes'', PInt (int (length s)))])), dput l (NFile b) t))
            | _ \<Rightarrow> (Inl (Exc ''TypeError'' ''write() argument must be str''), t)))"

definition fs_write :: "fs_handler" where
  "fs_write env x t =
     text_path (x_path x) (\<lambda>p t.
       then_do (make_dirs_at env (path_dirname (abspath (fe_cwd env) p)) t) (\<lambda>_ t.
       then_do (pure_step (encoding_of x) t) (\<lambda>enc t.
       then_do (open_for True env p t) (\<lambda>l t.
         write_content env enc p (dgetd x ''content'' (PStr [])) l t)))) t"

definition fs_mkdir :: fs_handler where
  "fs_mkdir env x t =
     text_path (x_path x) (\<lambda>p t.
       then_do (make_dirs_at env p t) (\<lambda>_ t. (Inr (cr_ok (PDict [(''path'', PStr p)])), t))) t"

text \<open>
  \<open>shutil.rmtree\<close>: everything below goes, then the directory itself; a root, a \<open>.\<close> or a \<open>..\<close> cannot be removed
  itself, by then it is empty.
\<close>

definition at_or_below :: "loc \<Rightarrow> loc \<Rightarrow> bool" where
  "at_or_below l k \<longleftrightarrow> take (length l) k = l"

definition last_name :: "string \<Rightarrow> string" where
  "last_name p = path_basename (rstrip_chars (\<lambda>c. c = CHR ''/'') p)"

definition remove_tree :: "file_env \<Rightarrow> string \<Rightarrow> fsys \<Rightarrow> unit result \<times> fsys" where
  "remove_tree env p t =
     (case resolve_path env t p of
        Inl e \<Rightarrow> (Inl e, t)
      | Inr l \<Rightarrow>
          if l = [] \<or> last_name p = ''.'' then (Inl (Exc ''OSError'' p), filter (\<lambda>(k, n). k = l \<or> \<not> at_or_below l k) t)
          else if last_name p = ''..'' then (Inl (Exc ''FileNotFoundError'' p), filter (\<lambda>(k, n). k = l \<or> \<not> at_or_below l k) t)
          else (Inr (), filter (\<lambda>(k, n). \<not> at_or_below l k) t))"

definition remove_file :: "file_env \<Rightarrow> string \<Rightarrow> fsys \<Rightarrow> unit result \<times> fsys" where
  "remove_file env p t =
     (case resolve_path env t p of
        Inl e \<Rightarrow> (Inl e, t)
      | Inr l \<Rightarrow>
          (case node_at t l of
             None \<Rightarrow> (Inl (Exc ''FileNotFoundError'' p), t)
           | Some NDir \<Rightarrow> (Inl (Exc ''IsADirectoryError'' p), t)
           | Some (NFile b) \<Rightarrow> (Inr (), ddel l t)))"

definition delete_path :: "bool \<Rightarrow> file_env \<Rightarrow> py_context \<Rightarrow> string \<Rightarrow> fsys \<Rightarrow> cap_result result \<times> fsys" where
  "delete_path protecting env x p t =
     then_do (pure_step (if protecting then ensure_allowed (fe_re env) (fe_cwd env) (fe_protection env) (Some p) else Inr ()) t) (\<lambda>_ t.
       if is_dir env t p \<and> \<not> truthy (dgetd x ''recursive'' (PBool False))
       then (Inr (cr_fail ''Directory delete requires recursive=true''), t)
       else then_do (if is_dir env t p then remove_tree env p t else remove_file env p t)
              (\<lambda>_ t. (Inr (cr_ok (PDict [(''deleted'', PStr p)])), t)))"

definition fs_delete :: "bool \<Rightarrow> fs_handler \<Rightarrow> fs_handler" where
  "fs_delete protecting on_fd env x t =
     (if protecting then text_path (x_path x) (delete_path True env x) t
      else any_path on_fd (x_path x) (delete_path False env x) env x t)"

definition fs_stat :: "fs_handler \<Rightarrow> fs_handler" where
  "fs_stat on_fd env x t =
     any_path on_fd (x_path x) (\<lambda>p t.
       (case resolve_path env t p of
          Inl e \<Rightarrow> Inl e
        | Inr l \<Rightarrow>
            (case node_at t l of
               None \<Rightarrow> Inl (Exc ''FileNotFoundError'' p)
             | Some n \<Rightarrow>
                 (let (mode, mtime, dirsize) = fe_stat env l
                  in Inr (cr_ok (PDict [(''size'', PInt (case n of NFile b \<Rightarrow> int (length b) | NDir \<Rightarrow> dirsize)), (''mtime'', PFloat mtime),
                       (''mode'', PInt mode)])))), t)) env x t"

definition fs_exists :: "fs_handler \<Rightarrow> fs_handler" where
  "fs_exists on_fd env x t =
     any_path on_fd (dgetd x ''path'' (PStr [])) (\<lambda>p t. (Inr (cr_ok (PBool (path_node env t p \<noteq> None))), t)) env x t"

definition fs_touch :: "fs_handler \<Rightarrow> fs_handler" where
  "fs_touch on_fd env x t =
     any_path on_fd (x_path x) (\<lambda>p t. then_do (open_for False env p t) (\<lambda>_ t. (Inr (cr_ok (PDict [(''path'', PStr p)])), t))) env x t"

section \<open>The capability\<close>

definition fs_actions :: "string list" where
  "fs_actions = [''fs.list'', ''fs.read'', ''fs.write'', ''fs.mkdir'', ''fs.delete'', ''fs.stat'', ''fs.exists'', ''fs.touch'']"

text \<open>\<open>getattr(self, "_on_" + action)\<close>, a dot counting as an underscore.\<close>

definition method_name :: "string \<Rightarrow> string" where
  "method_name a = map (\<lambda>c. if c = CHR ''.'' then CHR ''_'' else c) a"

definition fs_method :: "bool \<Rightarrow> fs_handler \<Rightarrow> string \<Rightarrow> fs_handler option" where
  "fs_method protecting on_fd m =
     (if m = ''fs_list'' then Some (fs_list on_fd) else if m = ''fs_read'' then Some (fs_read on_fd)
      else if m = ''fs_write'' then Some fs_write else if m = ''fs_mkdir'' then Some fs_mkdir
      else if m = ''fs_delete'' then Some (fs_delete protecting on_fd) else if m = ''fs_stat'' then Some (fs_stat on_fd)
      else if m = ''fs_exists'' then Some (fs_exists on_fd) else if m = ''fs_touch'' then Some (fs_touch on_fd) else None)"

definition host_errors :: "string list" where
  "host_errors = [''FileNotFoundError'', ''NotADirectoryError'', ''IsADirectoryError'', ''FileExistsError'', ''PermissionError'', ''OSError'',
     ''ValueError'', ''UnicodeEncodeError'', ''UnicodeDecodeError'']"

definition fs_outcome :: "cap_result result \<Rightarrow> cap_return result" where
  "fs_outcome r =
     (case r of
        Inr c \<Rightarrow> Inr (RetResult c)
      | Inl e \<Rightarrow>
          if exc_type e = ''ProtectedPathError'' then Inr (RetResult (cr_fail (exc_msg e)))
          else if exc_type e \<in> set host_errors then Inr (RetResult (cr_fail (exc_type e @ '': '' @ exc_msg e)))
          else Inl e)"

definition bound :: "kernel_view option \<Rightarrow> bool" where
  "bound kv = (case kv of None \<Rightarrow> False | Some k \<Rightarrow> True)"

lemma bound_iff [simp]: "bound kv \<longleftrightarrow> kv \<noteq> None"
  by (simp add: bound_def split: option.split)

definition fs_invoke :: "file_env \<Rightarrow> fs_handler \<Rightarrow> fsys invoker" where
  "fs_invoke env on_fd kv ctx t =
     (case fs_method (bound kv) on_fd (method_name (cc_action ctx)) of
        None \<Rightarrow> (Inr (RetResult (cr_fail (''Unsupported action '' @ CHR 0x27 # cc_action ctx @ [CHR 0x27]))), t)
      | Some h \<Rightarrow> (let (r, t') = h env (cc_extra ctx) t in (fs_outcome r, t')))"

definition filesystem_capability :: "file_env \<Rightarrow> fs_handler \<Rightarrow> fsys capability" where
  "filesystem_capability env on_fd = \<lparr>cap_name = ''filesystem'', cap_actions = fs_actions, cap_invoke = fs_invoke env on_fd,
     cap_close = (\<lambda>t. (Inr (), t))\<rparr>"

section \<open>What an action can do to the tree\<close>

definition fs_wf :: "fsys \<Rightarrow> bool" where
  "fs_wf t \<longleftrightarrow> dict_wf t \<and> (\<forall>k\<in>set (dkeys t). k \<noteq> [] \<and> node_at t (butlast k) = Some NDir)"

text \<open>A tree that has grown: every location that was there still is, a directory as a directory.\<close>

definition grows :: "fsys \<Rightarrow> fsys \<Rightarrow> bool" where
  "grows t t' \<longleftrightarrow> (\<forall>l n. node_at t l = Some n \<longrightarrow> (\<exists>n'. node_at t' l = Some n' \<and> (n = NDir \<longrightarrow> n' = NDir)))"

named_theorems fs_keeps \<open>what the handlers keep of the tree\<close>

lemma grows_refl [simp]: "grows t t"
  by (simp add: grows_def)

lemma grows_trans: "grows t u \<Longrightarrow> grows u v \<Longrightarrow> grows t v"
  by (fastforce simp: grows_def)

lemma node_root [simp]: "node_at t [] = Some NDir"
  by (simp add: node_at_def)

lemma node_put: "l \<noteq> [] \<Longrightarrow> node_at (dput l n t) k = (if k = l then Some n else node_at t k)"
  by (simp add: node_at_def)

lemma grows_put: "l \<noteq> [] \<Longrightarrow> node_at t l = None \<or> (\<exists>b. node_at t l = Some (NFile b)) \<Longrightarrow> grows t (dput l n t)"
  by (auto simp: grows_def node_put)

lemma wf_put:
  assumes "fs_wf t" and "l \<noteq> []" and "node_at t (butlast l) = Some NDir" and "node_at t l \<noteq> Some NDir"
  shows "fs_wf (dput l n t)"
proof -
  have "butlast l \<noteq> l" using assms(2) by (metis append_butlast_last_id not_Cons_self2 self_append_conv)
  then show ?thesis
    using assms by (auto simp: fs_wf_def node_put intro: wf_intro)
qed

lemma parent_dir: "fs_wf t \<Longrightarrow> node_at t l = Some n \<Longrightarrow> l \<noteq> [] \<Longrightarrow> node_at t (butlast l) = Some NDir"
  by (auto simp: fs_wf_def node_at_def dest!: dget_Some_in)

text \<open>Where a walk ends, the directory above is there.\<close>

lemma walk_parent:
  "fs_wf t \<Longrightarrow> node_at t (butlast l) = Some NDir \<Longrightarrow> walk t l cs = Inr k \<Longrightarrow> node_at t (butlast k) = Some NDir"
proof (induction cs arbitrary: l)
  case (Cons c cs)
  have d: "node_at t l = Some NDir" using Cons.prems(3) by (auto split: option.splits fnode.splits)
  have "node_at t (butlast (enter l c)) = Some NDir"
  proof (cases "butlast l = []")
    case False
    then show ?thesis using Cons.prems(2) d parent_dir [OF Cons.prems(1) Cons.prems(2) False] by (simp add: enter_def)
  qed (use d in \<open>auto simp: enter_def\<close>)
  then show ?case using Cons.IH [OF Cons.prems(1)] Cons.prems(3) d by simp
qed simp

lemma cwd_parent: "fs_wf t \<Longrightarrow> walk t l (c # cs) = Inr k \<Longrightarrow> node_at t (butlast k) = Some NDir"
proof -
  assume w: "fs_wf t" and k: "walk t l (c # cs) = Inr k"
  then have "node_at t l = Some NDir" by (auto split: option.splits fnode.splits)
  then have "node_at t (butlast l) = Some NDir" using parent_dir [OF w] by (cases "l = []") auto
  then show ?thesis using walk_parent [OF w _ k] by blast
qed

definition walk_start :: "file_env \<Rightarrow> string \<Rightarrow> loc" where
  "walk_start env p = (if startswith p ''/'' then [] else norm_comps (fe_cwd env))"

lemma map_sum_id_right [simp]: "map_sum f id x = Inr y \<longleftrightarrow> x = Inr y"
  by (cases x) auto

lemma resolved_walk:
  assumes "resolve_path env t p = Inr l"
  obtains c cs where "split_char CHR ''/'' p = c # cs" and "walk t (walk_start env p) (c # cs) = Inr l"
proof -
  obtain c cs where "split_char CHR ''/'' p = c # cs" using split_char_not_Nil by (metis neq_Nil_conv)
  then show ?thesis using assms that
    by (auto simp: resolve_path_def walk_start_def simp del: walk.simps split: if_splits)
qed

lemma resolved_parent: "fs_wf t \<Longrightarrow> resolve_path env t p = Inr l \<Longrightarrow> node_at t (butlast l) = Some NDir"
  by (erule resolved_walk) (rule cwd_parent)

definition keeps_tree :: "fsys \<Rightarrow> fsys \<Rightarrow> bool" where
  "keeps_tree t t' \<longleftrightarrow> (fs_wf t \<longrightarrow> fs_wf t') \<and> (fs_wf t \<longrightarrow> grows t t')"

lemma keeps_refl [simp]: "keeps_tree t t"
  by (simp add: keeps_tree_def)

lemma keeps_trans: "keeps_tree t u \<Longrightarrow> keeps_tree u v \<Longrightarrow> keeps_tree t v"
  by (auto simp: keeps_tree_def intro: grows_trans)

lemma make_walk_keeps: "node_at t l = Some NDir \<Longrightarrow> fs_wf t \<Longrightarrow> fs_wf (snd (make_walk t l cs)) \<and> grows t (snd (make_walk t l cs))"
proof (induction cs arbitrary: t l)
  case (Cons c cs)
  let ?k = "enter l c"
  show ?case
  proof (cases "CHR 0x00 \<in> set c")
    case False
    show ?thesis
    proof (cases "node_at t ?k")
      case None
      have k: "?k = l @ [c]"
      proof (rule ccontr)
        assume "?k \<noteq> l @ [c]"
        then have "?k = l \<or> ?k = butlast l" by (auto simp: enter_def split: if_splits)
        then show False using None Cons.prems parent_dir [OF Cons.prems(2,1)] by (cases "l = []") auto
      qed
      then have ne: "?k \<noteq> []" by simp
      have "fs_wf (dput ?k NDir t)" using wf_put [OF Cons.prems(2) ne] Cons.prems(1) None k by simp
      moreover have "node_at (dput ?k NDir t) ?k = Some NDir" by (simp add: node_put [OF ne])
      ultimately have "fs_wf (snd (make_walk (dput ?k NDir t) ?k cs)) \<and> grows (dput ?k NDir t) (snd (make_walk (dput ?k NDir t) ?k cs))"
        using Cons.IH by blast
      moreover have "grows t (dput ?k NDir t)" using grows_put [OF ne] None by blast
      ultimately show ?thesis using False None by (auto intro: grows_trans)
    next
      case (Some n)
      then show ?thesis using False Cons by (cases n) auto
    qed
  qed (use Cons.prems in simp)
qed simp

lemma make_dirs_keeps [fs_keeps]: "fs_wf t \<Longrightarrow> fs_wf (snd (make_dirs_at env p t)) \<and> grows t (snd (make_dirs_at env p t))"
  using make_walk_keeps by (auto simp: make_dirs_at_def Let_def)

lemma open_keeps [fs_keeps]: "fs_wf t \<Longrightarrow> fs_wf (snd (open_for b env p t)) \<and> grows t (snd (open_for b env p t))"
  using resolved_parent [of t env p]
  by (auto simp: open_for_def intro!: wf_put grows_put split: sum.split option.split fnode.split)

text \<open>Every handler but deletion keeps what is there.\<close>

definition builds :: "(fsys \<Rightarrow> 'a result \<times> fsys) \<Rightarrow> bool" where
  "builds f \<longleftrightarrow> (\<forall>t. fs_wf t \<longrightarrow> fs_wf (snd (f t)) \<and> grows t (snd (f t)))"

lemma builds_then: "builds m \<Longrightarrow> (\<And>a. builds (f a)) \<Longrightarrow> builds (\<lambda>t. then_do (m t) f)"
  unfolding builds_def
proof (intro allI impI)
  fix t
  assume m: "\<forall>t. fs_wf t \<longrightarrow> fs_wf (snd (m t)) \<and> grows t (snd (m t))" and t: "fs_wf t"
    and f: "\<And>a. \<forall>t. fs_wf t \<longrightarrow> fs_wf (snd (f a t)) \<and> grows t (snd (f a t))"
  show "fs_wf (snd (then_do (m t) f)) \<and> grows t (snd (then_do (m t) f))"
    using m [rule_format, OF t] f by (cases "m t"; cases "fst (m t)") (auto intro: grows_trans)
qed

lemma builds_still: "(\<And>t. snd (f t) = t) \<Longrightarrow> builds f"
  by (simp add: builds_def)

lemma builds_steps [fs_keeps]:
  "builds (make_dirs_at env p)" "builds (open_for b env p)" "builds (pure_step r)"
  using make_dirs_keeps open_keeps by (simp_all add: builds_def)

lemma builds_text_path: "(\<And>p. builds (f p)) \<Longrightarrow> builds (text_path v f)"
  by (auto simp: builds_def text_path_def split: pyval.split)

lemma builds_any_path: "builds (on_fd env x) \<Longrightarrow> (\<And>p. builds (f p)) \<Longrightarrow> builds (any_path on_fd v f env x)"
  using builds_text_path [of f v] by (auto simp: builds_def any_path_def split: pyval.split)

text \<open>Content is written to a location that the call just opened.\<close>

lemma open_result:
  assumes "fst (open_for b env p t) = Inr l" and "fs_wf t"
  shows "\<exists>c. node_at (snd (open_for b env p t)) l = Some (NFile c)" and "l \<noteq> []" and "resolve_path env t p = Inr l"
proof -
  have r: "resolve_path env t p = Inr l" "l \<noteq> []"
    using assms(1) by (auto simp: open_for_def split: sum.splits option.splits fnode.splits)
  then show "resolve_path env t p = Inr l" "l \<noteq> []" by auto
  show "\<exists>c. node_at (snd (open_for b env p t)) l = Some (NFile c)"
    using assms(1) r by (auto simp: open_for_def node_put split: option.splits fnode.splits)
qed

lemma content_keeps:
  assumes "fs_wf t" and "node_at t l = Some (NFile c)" and "l \<noteq> []"
  shows "fs_wf (snd (write_content env enc p v l t)) \<and> grows t (snd (write_content env enc p v l t))"
  using assms parent_dir [OF assms]
  by (auto simp: write_content_def intro!: wf_put grows_put split: pyval.split sum.split)

lemma builds_write: "builds (\<lambda>t. fs_write env x t)"
proof -
  have w: "builds (\<lambda>t. then_do (open_for True env p t) (write_content env enc p v))" for p enc v
    unfolding builds_def
  proof (intro allI impI)
    fix t
    assume t: "fs_wf t"
    let ?m = "open_for True env p t"
    show "fs_wf (snd (then_do ?m (write_content env enc p v))) \<and> grows t (snd (then_do ?m (write_content env enc p v)))"
      using open_keeps [OF t, of True env p] open_result [OF _ t, of True env p] content_keeps [of "snd ?m" _ _ env enc p v]
      by (cases ?m; cases "fst ?m") (auto intro: grows_trans)
  qed
  show ?thesis
    unfolding fs_write_def by (intro builds_text_path builds_then [OF builds_steps(1)] builds_then [OF builds_steps(3)] w)
qed

lemma builds_others:
  assumes "builds (on_fd env x)"
  shows "builds (\<lambda>t. fs_list on_fd env x t)" "builds (\<lambda>t. fs_read on_fd env x t)" "builds (\<lambda>t. fs_mkdir env x t)"
    "builds (\<lambda>t. fs_stat on_fd env x t)" "builds (\<lambda>t. fs_exists on_fd env x t)" "builds (\<lambda>t. fs_touch on_fd env x t)"
  unfolding fs_list_def fs_read_def fs_mkdir_def fs_stat_def fs_exists_def fs_touch_def
  by (intro builds_any_path builds_text_path builds_then builds_steps assms builds_still; simp)+

section \<open>What a deletion can remove\<close>

lemma node_filter: "fs_wf t \<Longrightarrow> l \<noteq> [] \<Longrightarrow> node_at (filter P t) l = (case node_at t l of None \<Rightarrow> None | Some n \<Rightarrow> if P (l, n) then Some n else None)"
  by (simp add: node_at_def fs_wf_def dget_filter)

lemma butlast_neq: "l \<noteq> [] \<Longrightarrow> butlast l \<noteq> l"
  by (metis append_butlast_last_id append_self_conv not_Cons_self2)

lemma below_butlast: "at_or_below l (butlast k) \<Longrightarrow> at_or_below l k"
  by (cases k rule: rev_cases) (auto simp: at_or_below_def take_butlast dest: arg_cong [where f = length])

lemma wf_filter:
  assumes "fs_wf t" and "\<And>k n. k \<noteq> [] \<Longrightarrow> P (k, n) \<Longrightarrow> butlast k \<noteq> [] \<Longrightarrow> P (butlast k, NDir)"
  shows "fs_wf (filter P t)"
proof -
  have "node_at (filter P t) (butlast k) = Some NDir" if k: "(k, n) \<in> set t" "P (k, n)" for k n
  proof (cases "butlast k = []")
    case False
    have ne: "k \<noteq> []" using k(1) assms(1) by (auto simp: fs_wf_def)
    moreover have "node_at t (butlast k) = Some NDir" using k(1) assms(1) by (fastforce simp: fs_wf_def)
    ultimately show ?thesis using assms(2) [OF ne k(2) False] by (simp add: node_filter [OF assms(1) False])
  qed simp
  then show ?thesis using assms(1) by (fastforce simp: fs_wf_def intro: dict_wf_filter)
qed

definition loses_below :: "loc \<Rightarrow> fsys \<Rightarrow> fsys \<Rightarrow> bool" where
  "loses_below l t t' \<longleftrightarrow> (\<forall>k n. node_at t k = Some n \<longrightarrow> node_at t' k = Some n \<or> at_or_below l k)"

lemma remove_tree_below:
  assumes "fs_wf t" and "resolve_path env t p = Inr l"
  shows "fs_wf (snd (remove_tree env p t)) \<and> loses_below l t (snd (remove_tree env p t))"
proof -
  have "fs_wf (filter (\<lambda>(k, n). \<not> at_or_below l k) t)"
    by (rule wf_filter [OF assms(1)]) (auto dest: below_butlast)
  moreover have "fs_wf (filter (\<lambda>(k, n). k = l \<or> \<not> at_or_below l k) t)"
  proof (rule wf_filter [OF assms(1)])
    fix k and n :: fnode
    assume k: "k \<noteq> []" "(\<lambda>(k, n). k = l \<or> \<not> at_or_below l k) (k, n)" "butlast k \<noteq> []"
    then have "\<not> at_or_below l (butlast k)"
      using below_butlast [of l k] by (auto simp: at_or_below_def butlast_neq)
    then show "(\<lambda>(k, n). k = l \<or> \<not> at_or_below l k) (butlast k, NDir)" by simp
  qed
  moreover have "loses_below l t (filter P t)" if "\<And>k n. \<not> at_or_below l k \<Longrightarrow> P (k, n)" for P
  proof -
    have "node_at (filter P t) k = Some n" if "node_at t k = Some n" "\<not> at_or_below l k" for k n
      using that \<open>\<And>k n. \<not> at_or_below l k \<Longrightarrow> P (k, n)\<close> node_filter [OF assms(1)] by (cases "k = []") auto
    then show ?thesis by (auto simp: loses_below_def)
  qed
  ultimately show ?thesis using assms(2) by (simp add: remove_tree_def)
qed

lemma remove_file_below:
  assumes "fs_wf t"
  shows "fs_wf (snd (remove_file env p t)) \<and>
    (snd (remove_file env p t) = t \<or> (\<exists>l. resolve_path env t p = Inr l \<and> loses_below l t (snd (remove_file env p t))))"
proof -
  have "fs_wf (ddel l t) \<and> loses_below l t (ddel l t)" if l: "node_at t l = Some (NFile b)" for l b
  proof -
    have ne: "l \<noteq> []" using l by auto
    have other: "node_at (ddel l t) k = node_at t k" if "k \<noteq> l" for k using that by (simp add: node_at_def)
    have "node_at (ddel l t) (butlast k) = Some NDir" if "k \<in> set (dkeys t)" for k
    proof -
      have "node_at t (butlast k) = Some NDir" using that assms by (auto simp: fs_wf_def)
      then show ?thesis using other [of "butlast k"] l by (cases "butlast k = l") auto
    qed
    moreover have "loses_below l t (ddel l t)"
      unfolding loses_below_def by (metis other at_or_below_def order_refl take_all)
    ultimately show ?thesis using assms by (auto simp: fs_wf_def set_ddel intro: dict_wf_del)
  qed
  then show ?thesis using assms by (auto simp: remove_file_def split: sum.split option.split fnode.split)
qed

lemma delete_path_below:
  assumes "fs_wf t"
  shows "fs_wf (snd (delete_path b env x p t)) \<and>
    (snd (delete_path b env x p t) = t \<or>
     (\<exists>l. resolve_path env t p = Inr l \<and> loses_below l t (snd (delete_path b env x p t)) \<and>
       (b \<longrightarrow> \<not> is_protected (fe_re env) (fe_cwd env) (fe_protection env) p)))"
proof (cases "b \<and> is_protected (fe_re env) (fe_cwd env) (fe_protection env) p")
  case True
  then show ?thesis using assms by (simp add: delete_path_def pure_step_def ensure_allowed_def)
next
  case False
  have s: "snd (then_do (if d then remove_tree env p t else remove_file env p t) (\<lambda>_ t. (Inr c, t))) =
      snd (if d then remove_tree env p t else remove_file env p t)" for d and c :: cap_result
    by (cases "if d then remove_tree env p t else remove_file env p t"; cases "fst (if d then remove_tree env p t else remove_file env p t)") auto
  have "\<exists>l. resolve_path env t p = Inr l" if "is_dir env t p" using that by (auto simp: is_dir_def path_node_def split: sum.splits)
  then show ?thesis
    using False remove_file_below [OF assms, of env p] remove_tree_below [OF assms] assms
    by (auto simp: delete_path_def pure_step_def ensure_allowed_def s)
qed

text \<open>
  Every file system action keeps the tree well formed, and a file or directory is lost only by a deletion
  whose path leads to it or to a directory above it, and which, when a kernel is bound, the delete protection
  allowed.
\<close>

lemma only_allowed_loss:
  assumes "fs_wf t" and "\<And>x. builds (on_fd env x)"
  shows "fs_wf (snd (fs_invoke env on_fd kv ctx t)) \<and>
    (\<forall>k n. node_at t k = Some n \<and> node_at (snd (fs_invoke env on_fd kv ctx t)) k = None \<longrightarrow>
      method_name (cc_action ctx) = ''fs_delete'' \<and>
      (\<exists>p l. x_path (cc_extra ctx) = PStr p \<and> resolve_path env t p = Inr l \<and> at_or_below l k \<and>
        (kv \<noteq> None \<longrightarrow> \<not> is_protected (fe_re env) (fe_cwd env) (fe_protection env) p)))"
proof -
  let ?x = "cc_extra ctx"
  let ?m = "method_name (cc_action ctx)"
  have still: "fs_wf (snd (h env ?x t)) \<and> grows t (snd (h env ?x t))"
    if "fs_method b on_fd ?m = Some h" "?m \<noteq> ''fs_delete''" for h b
    using that assms(1) builds_others [where on_fd = on_fd and env = env and x = ?x, OF assms(2)] builds_write [of env ?x]
    by (auto simp: fs_method_def builds_def split: if_splits)
  have del: "fs_wf (snd (fs_delete b on_fd env ?x t)) \<and>
      (grows t (snd (fs_delete b on_fd env ?x t)) \<or>
       (\<exists>p l. x_path ?x = PStr p \<and> resolve_path env t p = Inr l \<and> loses_below l t (snd (fs_delete b on_fd env ?x t)) \<and>
        (b \<longrightarrow> \<not> is_protected (fe_re env) (fe_cwd env) (fe_protection env) p)))" for b
    using assms(2) [of ?x] assms(1) delete_path_below [OF assms(1), of b env ?x]
    by (cases "x_path ?x"; cases b) (force simp: fs_delete_def any_path_def text_path_def builds_def)+
  show ?thesis
  proof (cases "fs_method (kv \<noteq> None) on_fd ?m")
    case (Some h)
    then have s: "snd (fs_invoke env on_fd kv ctx t) = snd (h env ?x t)" by (simp add: fs_invoke_def case_prod_unfold Let_def)
    show ?thesis
    proof (cases "?m = ''fs_delete''")
      case True
      then have "h = fs_delete (kv \<noteq> None) on_fd" using Some by (simp add: fs_method_def)
      then show ?thesis using del [of "kv \<noteq> None"] True unfolding s by (auto simp: grows_def loses_below_def) (metis option.distinct(1))+
    next
      case False
      then show ?thesis using still [OF Some False] unfolding s by (auto simp: grows_def)
    qed
  qed (use assms(1) in \<open>auto simp: fs_invoke_def\<close>)
qed

section \<open>Locations and their spellings\<close>

lemma walk_enter: "walk t l cs = Inr k \<Longrightarrow> k = foldl enter l cs"
  by (induction cs arbitrary: l) (auto split: option.splits fnode.splits)

lemma enter_norm: "\<forall>c\<in>set l. clean_comp c \<Longrightarrow> enter l c = norm_step True l c"
  by (cases l rule: rev_cases) (auto simp: enter_def clean_comp_def)

lemma foldl_enter:
  "\<forall>c\<in>set l. clean_comp c \<Longrightarrow> \<forall>c\<in>set cs. CHR ''/'' \<notin> set c \<Longrightarrow> foldl enter l cs = foldl (norm_step True) l cs"
proof (induction cs arbitrary: l)
  case (Cons c cs)
  then show ?case using norm_step_clean [of l c] enter_norm [of l c] by (simp del: norm_step.simps)
qed simp

definition plain_root :: "string \<Rightarrow> bool" where
  "plain_root s \<longleftrightarrow> startswith s ''/'' \<and> \<not> startswith s ''//''"

lemma plain_root_iff: "plain_root s \<longleftrightarrow> (\<exists>t. s = CHR ''/'' # t \<and> (t = [] \<or> hd t \<noteq> CHR ''/''))"
proof (cases s)
  case (Cons a r)
  then show ?thesis by (cases r) (auto simp: plain_root_def startswith_def)
qed (simp add: plain_root_def startswith_def)

lemma startswith_slash: "startswith s ''/'' \<longleftrightarrow> (\<exists>t. s = CHR ''/'' # t)"
  by (auto simp: startswith_iff)

definition full_path :: "string \<Rightarrow> string \<Rightarrow> string" where
  "full_path cwd p = (if startswith p ''/'' then p else path_join cwd p)"

lemma rooted_comps: "startswith p ''/'' \<Longrightarrow> norm_comps p = foldl (norm_step True) [] (split_char CHR ''/'' p)"
  by (simp add: norm_comps_def initial_slashes_def)

lemma joined_comps:
  assumes "plain_root cwd" and "\<not> startswith p ''/''"
  shows "norm_comps (path_join cwd p) = foldl (norm_step True) (norm_comps cwd) (split_char CHR ''/'' p)"
proof -
  have r: "startswith cwd ''/''" "startswith (path_join cwd p) ''/''" using assms by (auto simp: plain_root_iff path_join_def startswith_slash)
  show ?thesis
  proof (cases "endswith cwd ''/''")
    case True
    then obtain c where c: "cwd = c @ ''/''" by (auto simp: endswith_iff)
    then have "path_join cwd p = c @ CHR ''/'' # p" using assms True by (simp add: path_join_def)
    then show ?thesis using c split_char_cat [of "CHR ''/''" c "[]"] rooted_comps [OF r(1)] rooted_comps [OF r(2)]
      by (simp add: split_char_cat)
  next
    case False
    then have "path_join cwd p = cwd @ CHR ''/'' # p" using assms r(1) by (auto simp: path_join_def startswith_def)
    then show ?thesis using rooted_comps [OF r(1)] rooted_comps [OF r(2)] by (simp add: split_char_cat)
  qed
qed

lemma full_path_plain:
  assumes "plain_root cwd" and "\<not> startswith p ''//''"
  shows "plain_root (full_path cwd p)"
proof (cases "startswith p ''/''")
  case True
  then show ?thesis using assms(2) by (simp add: plain_root_def full_path_def)
next
  case False
  obtain t where t: "cwd = CHR ''/'' # t" "t = [] \<or> hd t \<noteq> CHR ''/''" using assms(1) by (auto simp: plain_root_iff)
  have "path_join cwd p = CHR ''/'' # p" if "t = []" using that t False by (simp add: path_join_def endswith_def startswith_def)
  moreover have "\<exists>u. path_join cwd p = CHR ''/'' # t @ u" using t False by (auto simp: path_join_def)
  moreover have "p = [] \<or> hd p \<noteq> CHR ''/''" using False by (cases p) (auto simp: startswith_def)
  ultimately show ?thesis using t False by (cases t) (auto simp: full_path_def plain_root_iff)
qed

lemma resolved_location:
  assumes "plain_root (fe_cwd env)" and "resolve_path env t p = Inr l"
  shows "l = norm_comps (full_path (fe_cwd env) p)"
proof -
  have "l = foldl enter (walk_start env p) (split_char CHR ''/'' p)"
    using assms(2) by (elim resolved_walk) (simp only: walk_enter)
  moreover have "\<forall>c\<in>set (walk_start env p). clean_comp c"
    using assms(1) norm_comps_clean by (auto simp: walk_start_def plain_root_def)
  ultimately have "l = foldl (norm_step True) (walk_start env p) (split_char CHR ''/'' p)"
    using foldl_enter split_char_fields by blast
  then show ?thesis
    using joined_comps [OF assms(1)] rooted_comps by (auto simp: walk_start_def full_path_def)
qed

lemma abspath_location:
  assumes "plain_root cwd" and "\<not> startswith p ''//''"
  shows "abspath cwd p = CHR ''/'' # join_str ''/'' (norm_comps (full_path cwd p))"
proof -
  have "initial_slashes (full_path cwd p) = 1"
    using full_path_plain [OF assms] by (auto simp: plain_root_def initial_slashes_def startswith_iff)
  then show ?thesis by (simp add: abspath_def normpath_def full_path_def Let_def)
qed

lemma join_below: "xs \<noteq> [] \<Longrightarrow> ys \<noteq> [] \<Longrightarrow> join_str s (xs @ ys) = join_str s xs @ s @ join_str s ys"
proof (induction xs)
  case (Cons x xs)
  then show ?case by (cases xs; cases ys) auto
qed simp

lemma below_spelled:
  assumes "plain_root cwd" and "\<not> startswith p ''//''" and "\<not> startswith q ''//''"
    and "norm_comps (full_path cwd q) \<noteq> []" and "at_or_below (norm_comps (full_path cwd q)) (norm_comps (full_path cwd p))"
  shows "abspath cwd p = abspath cwd q \<or> startswith (abspath cwd p) (abspath cwd q @ ''/'')"
proof -
  let ?q = "norm_comps (full_path cwd q)"
  obtain r where r: "norm_comps (full_path cwd p) = ?q @ r" using assms(5) unfolding at_or_below_def by (metis append_take_drop_id)
  show ?thesis
  proof (cases "r = []")
    case False
    then show ?thesis
      using abspath_location [OF assms(1,2)] abspath_location [OF assms(1,3)] r join_below [OF assms(4) False, of "''/''"]
      by (simp add: startswith_iff)
  qed (use abspath_location [OF assms(1,2)] abspath_location [OF assms(1,3)] r in simp)
qed


section \<open>Reading what was written\<close>

lemma walk_put: "walk t s cs = Inr k \<Longrightarrow> l \<noteq> [] \<Longrightarrow> node_at t l \<noteq> Some NDir \<Longrightarrow> walk (dput l n t) s cs = Inr k"
  by (induction cs arbitrary: s) (auto simp: node_put split: option.splits fnode.splits if_splits)

lemma resolve_put:
  "resolve_path env t p = Inr k \<Longrightarrow> l \<noteq> [] \<Longrightarrow> node_at t l \<noteq> Some NDir \<Longrightarrow> resolve_path env (dput l n t) p = Inr k"
  by (auto simp: resolve_path_def walk_put simp del: walk.simps split: if_splits)

text \<open>
  A text that a write accepted is read back under the same codec, up to the line ends that text mode
  translates, as long as the codec decodes what it encodes.
\<close>

lemma write_then_read:
  assumes "x_path x = PStr p" and "dgetd x ''content'' (PStr []) = PStr s" and "encoding_of x = Inr enc"
    and "fst (fs_write env x t) = Inr r" and "\<And>b. fe_encode env enc s = Inr b \<Longrightarrow> fe_decode env enc b = Inr s"
  shows "read_text env enc p (snd (fs_write env x t)) = Inr (universal_newlines s)"
proof -
  obtain u where u: "then_do (open_for True env p u) (write_content env enc p (PStr s)) = (Inr r, snd (fs_write env x t))"
    using assms(1-4) unfolding fs_write_def text_path_def pyval.case
    by (cases "make_dirs_at env (path_dirname (abspath (fe_cwd env) p)) t";
        cases "fst (make_dirs_at env (path_dirname (abspath (fe_cwd env) p)) t)") (auto simp: pure_step_def prod_eq_iff)
  let ?o = "open_for True env p u"
  from u obtain l where o: "fst ?o = Inr l" and w: "write_content env enc p (PStr s) l (snd ?o) = (Inr r, snd (fs_write env x t))"
    by (cases ?o; cases "fst ?o") auto
  have l: "resolve_path env u p = Inr l" "l \<noteq> []" "node_at u l \<noteq> Some NDir" "snd ?o = dput l (NFile []) u"
    using o by (auto simp: open_for_def split: sum.splits option.splits fnode.splits)
  from w obtain b where b: "fe_codec env enc" "fe_encode env enc s = Inr b" "snd (fs_write env x t) = dput l (NFile b) (dput l (NFile []) u)"
    using l(4) by (auto simp: write_content_def split: if_splits sum.splits)
  have "resolve_path env (dput l (NFile b) u) p = Inr l" by (rule resolve_put [OF l(1-3)])
  then show ?thesis using b assms(5) [OF b(2)] l(2) by (simp add: read_text_def node_put)
qed

section \<open>Concrete trees\<close>

definition demo_files :: file_env where
  "demo_files = \<lparr>fe_cwd = ''/home'', fe_codec = (\<lambda>e. e = ''utf-8''), fe_encode = (\<lambda>_ s. Inr s), fe_decode = (\<lambda>_ s. Inr s),
     fe_stat = (\<lambda>_. (0, 0, 0)), fe_re = (\<lambda>_ _. False), fe_protection = new_protection ''/home'' [''/srv/keep'']\<rparr>"

definition demo_tree :: fsys where
  "demo_tree = [([''home''], NDir), ([''srv''], NDir), ([''srv'', ''keep''], NDir), ([''srv'', ''keep'', ''a''], NFile ''x'')]"

definition no_fd :: fs_handler where
  "no_fd env x t = (Inl (Exc ''OSError'' ''bad file descriptor''), t)"

definition fs_request :: "string \<Rightarrow> py_context \<Rightarrow> cap_context" where
  "fs_request a x = \<lparr>cc_action = a, cc_scope = None, cc_extra = x, cc_execution = None\<rparr>"

definition delete_request :: "string \<Rightarrow> cap_context" where
  "delete_request p = fs_request ''fs.delete'' [(''path'', PStr p), (''recursive'', PBool True)]"

lemma no_fd_builds: "builds (no_fd env x)"
  by (simp add: builds_def no_fd_def)

lemma demo_tree_wf: "fs_wf demo_tree"
  by (simp add: fs_wf_def demo_tree_def node_at_def dict_wf_def)


lemma write_then_read_witness:
  "read_text demo_files ''utf-8'' ''new/note'' (snd (fs_write demo_files [(''path'', PStr ''new/note''), (''content'', PStr ''hi'')] demo_tree)) =
     Inr (universal_newlines ''hi'')"
  by (rule write_then_read [where r = "cr_ok (PDict [(''path'', PStr ''new/note''), (''bytes'', PInt 2)])"], code_simp, code_simp, code_simp, code_simp, simp add: demo_files_def)

text \<open>The protected directory goes with a directory above it, and by a path that begins with two slashes.\<close>

lemma ancestor_delete_takes_protected:
  "node_at (snd (fs_invoke demo_files no_fd (rg_kernel guarded_registry) (delete_request ''/srv'') demo_tree)) [''srv'', ''keep'', ''a''] = None"
  unfolding guarded_view by code_simp

lemma double_slash_bypass:
  "fs_invoke demo_files no_fd (rg_kernel guarded_registry) (delete_request ''//srv/keep'') demo_tree =
     (Inr (RetResult (cr_ok (PDict [(''deleted'', PStr ''//srv/keep'')]))), [([''home''], NDir), ([''srv''], NDir)])"
  unfolding guarded_view by code_simp

text \<open>A write of a value that is no text raises and has emptied the file.\<close>

lemma refused_write_empties:
  "fs_invoke demo_files no_fd None (fs_request ''fs.write'' [(''path'', PStr ''/srv/keep/a''), (''content'', PInt 3)]) demo_tree =
     (Inl (Exc ''TypeError'' ''write() argument must be str''), dput [''srv'', ''keep'', ''a''] (NFile []) demo_tree)"
  by code_simp

end
