(* ===== verification/Host_Caps.thy ===== *)
theory Host_Caps
  imports Files
begin

text \<open>
  Capabilities that search the tree or call the host: \<open>capabilities/impl/search.py\<close>, \<open>shell.py\<close>, \<open>terminal.py\<close>,
  \<open>git.py\<close> and the kill action of \<open>process.py\<close>. A run of a host program, the regular expressions, \<open>fnmatch\<close> and the
  lenient decoding are arguments; a walk visits the entries of a directory in the order of the tree.
\<close>

section \<open>Search\<close>

record search_env =
  se_files :: file_env
  se_fnmatch :: "string \<Rightarrow> string \<Rightarrow> bool"
  se_search :: "string \<Rightarrow> bool \<Rightarrow> string \<Rightarrow> bool result"
  se_ignore :: "string \<Rightarrow> string"
  se_str :: "pyfloat \<Rightarrow> string"

definition dirs_in :: "fsys \<Rightarrow> loc \<Rightarrow> string list" where
  "dirs_in t l = filter (\<lambda>e. node_at t (l @ [e]) = Some NDir) (children t l)"

definition files_in :: "fsys \<Rightarrow> loc \<Rightarrow> string list" where
  "files_in t l = filter (\<lambda>e. node_at t (l @ [e]) \<noteq> Some NDir) (children t l)"

text \<open>\<open>os.walk\<close> with the hidden directories taken out: top down, fuel above the depth of the tree.\<close>

fun walk_tree :: "nat \<Rightarrow> fsys \<Rightarrow> loc \<Rightarrow> loc list" where
  "walk_tree 0 t l = []"
| "walk_tree (Suc n) t l =
     map (\<lambda>e. l @ [e]) (files_in t l) @
     concat (map (\<lambda>d. walk_tree n t (l @ [d])) (filter (\<lambda>d. \<not> startswith d ''.'') (dirs_in t l)))"

definition tree_depth :: "fsys \<Rightarrow> nat" where
  "tree_depth t = fold max (map (\<lambda>kn. length (fst kn)) t) 0"

definition walk_files :: "search_env \<Rightarrow> fsys \<Rightarrow> string \<Rightarrow> loc list \<times> nat" where
  "walk_files env t start =
     (case resolve_path (se_files env) t start of
        Inl _ \<Rightarrow> ([], 0)
      | Inr l \<Rightarrow> (if node_at t l = Some NDir then walk_tree (Suc (tree_depth t)) t l else [], length l))"

definition below_root :: "nat \<Rightarrow> loc \<Rightarrow> string" where
  "below_root n k = join_str ''/'' (drop n k)"

text \<open>Appending until the limit is reached: the element that reaches it ends the search.\<close>

fun gather :: "int \<Rightarrow> 'a list \<Rightarrow> 'a list \<Rightarrow> 'a list \<times> bool" where
  "gather limit acc [] = (acc, False)"
| "gather limit acc (x # xs) =
     (if limit \<le> int (length (acc @ [x])) then (acc @ [x], True) else gather limit (acc @ [x]) xs)"

definition search_files :: "search_env \<Rightarrow> string \<Rightarrow> string \<Rightarrow> fsys \<Rightarrow> pyval" where
  "search_files env start pattern t =
     (let (ks, n) = walk_files env t start;
          (found, stopped) = gather 1000 [] (filter (\<lambda>k. se_fnmatch env (last k) pattern) ks)
      in PDict ([(''path'', PStr start), (''pattern'', PStr pattern), (''found'', PList (map (\<lambda>k. PStr (below_root n k)) found))] @
           (if stopped then [(''truncated'', PBool True)] else [])))"

definition file_text :: "search_env \<Rightarrow> fsys \<Rightarrow> loc \<Rightarrow> string list" where
  "file_text env t k =
     (case node_at t k of
        Some (NFile b) \<Rightarrow> (let ls = split_char (CHR 0x0A) (universal_newlines (se_ignore env b))
          in map (\<lambda>l. l @ [CHR 0x0A]) (butlast ls) @ (if last ls = [] then [] else [last ls]))
      | _ \<Rightarrow> [])"

text \<open>
  The search of text stops at the match that reaches the limit, so an error of the expression counts only before
  it: the files are searched one after the other.
\<close>

fun search_lines :: "search_env \<Rightarrow> int \<Rightarrow> (string \<Rightarrow> bool result) \<Rightarrow> nat \<Rightarrow> pyval list \<Rightarrow> nat \<Rightarrow> loc \<Rightarrow> string list \<Rightarrow> (pyval list \<times> bool) result" where
  "search_lines env limit rx rn acc n k [] = Inr (acc, False)"
| "search_lines env limit rx rn acc n k (l # ls) =
     (case rx l of
        Inl e \<Rightarrow> Inl e
      | Inr b \<Rightarrow>
          if \<not> b then search_lines env limit rx rn acc (Suc n) k ls
          else (let acc' = acc @ [PDict [(''file'', PStr (below_root rn k)), (''line'', PInt (int n)), (''text'', PStr (take 200 (str_strip l)))]]
                in if limit \<le> int (length acc') then Inr (acc', True) else search_lines env limit rx rn acc' (Suc n) k ls))"

fun search_all :: "search_env \<Rightarrow> int \<Rightarrow> (string \<Rightarrow> bool result) \<Rightarrow> nat \<Rightarrow> fsys \<Rightarrow> pyval list \<Rightarrow> loc list \<Rightarrow> (pyval list \<times> bool) result" where
  "search_all env limit rx rn t acc [] = Inr (acc, False)"
| "search_all env limit rx rn t acc (k # ks) =
     (case search_lines env limit rx rn acc 1 k (file_text env t k) of
        Inl e \<Rightarrow> Inl e
      | Inr (acc', stopped) \<Rightarrow> if stopped then Inr (acc', True) else search_all env limit rx rn t acc' ks)"

definition needle_test :: "search_env \<Rightarrow> pyval \<Rightarrow> bool \<Rightarrow> string \<Rightarrow> bool result" where
  "needle_test env needle exact l =
     (case needle of PStr r \<Rightarrow> se_search env r exact l | _ \<Rightarrow> Inl (Exc ''TypeError'' ''first argument must be string or compiled pattern''))"

definition search_text :: "search_env \<Rightarrow> string \<Rightarrow> py_context \<Rightarrow> fsys \<Rightarrow> pyval result" where
  "search_text env start x t =
     (let needle = dgetd x ''needle'' PNone in
      if \<not> truthy needle then Inl (Exc ''ValueError'' (''Missing '' @ quoted ''needle''))
      else (case to_int (dgetd x ''limit'' (PInt 100)) of
              Inl e \<Rightarrow> Inl e
            | Inr limit \<Rightarrow>
                (let (ks, n) = walk_files env t start
                 in map_sum id (\<lambda>(ms, stopped). PDict ([(''needle'', needle), (''path'', PStr start), (''matches'', PList ms)] @
                      (if stopped then [(''limit_hit'', PBool True)] else [])))
                      (search_all env limit (needle_test env needle (truthy (dgetd x ''case_sensitive'' (PBool False)))) n t [] ks))))"

definition search_outcome :: "pyval result \<Rightarrow> cap_return result" where
  "search_outcome r =
     (case r of
        Inr v \<Rightarrow> Inr (RetResult (cr_ok v))
      | Inl e \<Rightarrow> if exc_type e \<in> set host_errors then Inr (RetResult (cr_fail (exc_type e @ '': '' @ exc_msg e))) else Inl e)"

text \<open>Both actions, for a start directory and a pattern that are text.\<close>

definition search_invoke :: "search_env \<Rightarrow> fsys invoker \<Rightarrow> fsys invoker" where
  "search_invoke env other kv ctx t =
     (let x = cc_extra ctx in
      case dgetd x ''path'' (PStr ''.'') of
        PStr start \<Rightarrow>
          if cc_action ctx = ''search.files'' then
            (case dgetd x ''pattern'' (PStr ''*'') of
               PStr pattern \<Rightarrow> (search_outcome (Inr (search_files env start pattern t)), t)
             | _ \<Rightarrow> other kv ctx t)
          else if cc_action ctx = ''search.text'' then (search_outcome (search_text env start x t), t)
          else (Inr (RetResult (cr_fail (''Unsupported action '' @ quoted (cc_action ctx)))), t)
      | _ \<Rightarrow> other kv ctx t)"

section \<open>Host programs\<close>

record completed =
  cm_code :: int
  cm_out :: string
  cm_err :: string

definition completed_json :: "completed \<Rightarrow> pyval" where
  "completed_json c = PDict [(''exit_code'', PInt (cm_code c)), (''stdout'', PStr (cm_out c)), (''stderr'', PStr (cm_err c))]"

text \<open>\<open>subprocess.run\<close>: the command, the working directory and the time limit.\<close>

type_synonym 's runner = "pyval \<Rightarrow> pyval \<Rightarrow> pyval \<Rightarrow> 's \<Rightarrow> completed result \<times> 's"

definition os_error :: "exc \<Rightarrow> bool" where
  "os_error e \<longleftrightarrow> exc_type e \<in> {''FileNotFoundError'', ''NotADirectoryError'', ''IsADirectoryError'', ''FileExistsError'', ''PermissionError'',
     ''ProcessLookupError'', ''OSError''}"

definition clip :: "(pyfloat \<Rightarrow> string) \<Rightarrow> pyval \<Rightarrow> string" where
  "clip sf v = (case v of PList xs \<Rightarrow> py_str sf (PList (take 80 xs)) | _ \<Rightarrow> take 80 (py_str sf v))"

definition shell_outcome :: "(pyfloat \<Rightarrow> string) \<Rightarrow> string \<Rightarrow> pyval \<Rightarrow> completed result \<Rightarrow> cap_return result" where
  "shell_outcome sf action cmd r =
     (case r of
        Inl e \<Rightarrow>
          if exc_type e = ''TimeoutExpired'' then Inr (RetResult (cr_fail (''Command timed out: '' @ clip sf cmd)))
          else if os_error e then Inr (RetResult (cr_fail (''OSError: '' @ exc_msg e))) else Inl e
      | Inr c \<Rightarrow>
          if action = ''shell.check'' \<and> cm_code c \<noteq> 0
          then Inr (RetResult (cr_fail (''Command failed ('' @ str_of_int (cm_code c) @ ''): '' @ cm_err c)))
          else Inr (RetResult (cr_ok (completed_json c))))"

definition shell_invoke :: "(pyfloat \<Rightarrow> string) \<Rightarrow> 's runner \<Rightarrow> 's invoker" where
  "shell_invoke sf run kv ctx s =
     (let x = cc_extra ctx; cmd = dgetd x ''command'' PNone in
      if \<not> truthy cmd then (Inr (RetResult (cr_fail (''Missing '' @ quoted ''command''))), s)
      else (let (r, s') = run cmd (dgetd x ''cwd'' PNone) (dgetd x ''timeout'' PNone) s in (shell_outcome sf (cc_action ctx) cmd r, s')))"

text \<open>Git: a fixed command line for every action; whatever git answers is a success of the capability.\<close>

definition git_base :: "py_context \<Rightarrow> pyval" where
  "git_base x = py_or (dgetd x ''cwd'' PNone) (dgetd x ''repo'' PNone)"

definition git_command :: "(pyfloat \<Rightarrow> string) \<Rightarrow> string \<Rightarrow> py_context \<Rightarrow> (pyval list \<times> pyval) option" where
  "git_command sf m x =
     (if m = ''git_status'' then Some ([PStr ''status'', PStr ''--porcelain''], git_base x)
      else if m = ''git_log'' then
        Some ([PStr ''log'', PStr ''--oneline'', PStr ''-n'', PStr (py_str sf (dgetd x ''limit'' (PInt 20)))], git_base x)
      else if m = ''git_branch'' then Some ([PStr ''branch'', PStr ''-a''], git_base x)
      else if m = ''git_clone'' then Some ([PStr ''clone'', dgetd x ''url'' PNone, dgetd x ''target'' PNone], dgetd x ''cwd'' PNone)
      else if m = ''git_add'' then Some ([PStr ''add'', PStr ''-A''], git_base x)
      else if m = ''git_commit'' then Some ([PStr ''commit'', PStr ''-m'', dgetd x ''message'' (PStr [])], git_base x)
      else if m = ''git_pull'' then Some ([PStr ''pull'', PStr ''--ff-only''], git_base x) else None)"

definition git_invoke :: "(pyfloat \<Rightarrow> string) \<Rightarrow> 's runner \<Rightarrow> 's invoker" where
  "git_invoke sf run kv ctx s =
     (case git_command sf (method_name (cc_action ctx)) (cc_extra ctx) of
        None \<Rightarrow> (Inr (RetResult (cr_fail (''Unsupported action '' @ quoted (cc_action ctx)))), s)
      | Some (args, cwd) \<Rightarrow>
          (let (r, s') = run (PList (PStr ''git'' # args)) cwd PNone s
           in (map_sum id (\<lambda>c. RetResult (cr_ok (completed_json c))) r, s')))"

definition kill_invoke :: "(int \<Rightarrow> 's \<Rightarrow> unit result \<times> 's) \<Rightarrow> py_context \<Rightarrow> 's \<Rightarrow> cap_return result \<times> 's" where
  "kill_invoke kill x s =
     (let target = dgetd x ''pid'' PNone in
      if target = PNone then (Inr (RetResult (cr_fail (''Missing '' @ quoted ''pid''))), s)
      else (case to_int target of
              Inl e \<Rightarrow> (Inl e, s)
            | Inr pid \<Rightarrow>
                (let (r, s') = kill pid s
                 in (case r of
                       Inl e \<Rightarrow> if os_error e then Inr (RetResult (cr_fail (exc_type e @ '': '' @ exc_msg e))) else Inl e
                     | Inr _ \<Rightarrow> Inr (RetResult (cr_ok (PDict [(''killed'', PInt pid)]))), s'))))"

section \<open>The terminal\<close>

text \<open>\<open>shlex.quote\<close>: left as it is when it is made of safe characters only, else in single quotes.\<close>

definition safe_char :: "char \<Rightarrow> bool" where
  "safe_char c \<longleftrightarrow> is_alnum c \<or> c \<in> set ''_@%+=:,./-''"

fun quote_body :: "string \<Rightarrow> string" where
  "quote_body [] = []"
| "quote_body (c # r) = (if c = CHR 0x27 then [CHR 0x27, CHR 0x22, CHR 0x27, CHR 0x22, CHR 0x27] else [c]) @ quote_body r"

definition shlex_quote :: "string \<Rightarrow> string" where
  "shlex_quote s =
     (if s = [] then [CHR 0x27, CHR 0x27]
      else if list_all safe_char s then s else CHR 0x27 # quote_body s @ [CHR 0x27])"

record 'p terminal_host =
  th_open :: "pyval \<Rightarrow> 'p result"
  th_pid :: "'p \<Rightarrow> int"
  th_write :: "'p \<Rightarrow> string \<Rightarrow> unit result"

text \<open>The state is the open process, if any.\<close>

definition terminal_open :: "'p terminal_host \<Rightarrow> py_context \<Rightarrow> 'p option \<Rightarrow> cap_result result \<times> 'p option" where
  "terminal_open h x st =
     (if st \<noteq> None then (Inr (cr_fail ''Terminal already open''), st)
      else (case th_open h (dgetd x ''shell'' (PStr ''/bin/sh'')) of
              Inl e \<Rightarrow> (Inl e, st)
            | Inr p \<Rightarrow> (Inr (cr_ok (PDict [(''pid'', PInt (th_pid h p)), (''shell'', PStr ''/bin/sh'')])), Some p)))"

definition terminal_write :: "'p terminal_host \<Rightarrow> py_context \<Rightarrow> 'p option \<Rightarrow> cap_result result \<times> 'p option" where
  "terminal_write h x st =
     (case st of
        None \<Rightarrow> (Inr (cr_fail ''No open terminal''), st)
      | Some p \<Rightarrow>
          (case dgetd x ''input'' (PStr []) of
             PStr s \<Rightarrow>
               (case th_write h p (shlex_quote s @ [CHR 0x0A]) of
                  Inl e \<Rightarrow>
                    if exc_type e \<in> {''BrokenPipeError'', ''ValueError''}
                    then (Inr (cr_fail (exc_type e @ '': '' @ exc_msg e)), None) else (Inl e, st)
                | Inr _ \<Rightarrow> (Inr (cr_ok (PDict [(''sent'', dgetd x ''input'' PNone)])), st))
           | _ \<Rightarrow> (Inl (Exc ''TypeError'' ''expected string or bytes-like object''), st)))"

definition terminal_close :: "'p option \<Rightarrow> cap_result result \<times> 'p option" where
  "terminal_close st =
     (if st = None then (Inr (cr_fail ''No open terminal''), st) else (Inr (cr_ok (PDict [(''closed'', PBool True)])), None))"

definition terminal_run :: "'s runner \<Rightarrow> py_context \<Rightarrow> 's \<Rightarrow> cap_result result \<times> 's" where
  "terminal_run run x s =
     (let (r, s') = run (dgetd x ''command'' (PStr [])) PNone (dgetd x ''timeout'' PNone) s
      in (case r of
            Inl e \<Rightarrow> if exc_type e = ''TimeoutExpired'' then Inr (cr_fail ''Command timed out'') else Inl e
          | Inr c \<Rightarrow> Inr (cr_ok (completed_json c)), s'))"

definition terminal_invoke :: "'p terminal_host \<Rightarrow> 's runner \<Rightarrow> cap_context \<Rightarrow> 'p option \<times> 's \<Rightarrow> cap_return result \<times> 'p option \<times> 's" where
  "terminal_invoke h run ctx = (\<lambda>(st, s).
     (let m = method_name (cc_action ctx); x = cc_extra ctx in
      if m = ''terminal_open'' then (let (r, st') = terminal_open h x st in (map_sum id RetResult r, st', s))
      else if m = ''terminal_write'' then (let (r, st') = terminal_write h x st in (map_sum id RetResult r, st', s))
      else if m = ''terminal_close'' then (let (r, st') = terminal_close st in (map_sum id RetResult r, st', s))
      else if m = ''terminal_run'' then (let (r, s') = terminal_run run x s in (map_sum id RetResult r, st, s'))
      else (Inr (RetResult (cr_fail (''Unsupported action '' @ quoted (cc_action ctx)))), st, s)))"

section \<open>What a search finds\<close>

lemma gather_prefix:
  "\<exists>n. fst (gather limit acc xs) = acc @ take n xs \<and> (\<not> snd (gather limit acc xs) \<longrightarrow> fst (gather limit acc xs) = acc @ xs)"
proof (induction xs arbitrary: acc)
  case (Cons x xs)
  show ?case
  proof (cases "limit \<le> int (length (acc @ [x]))")
    case True
    then show ?thesis by (auto intro: exI [of _ 1])
  next
    case False
    then show ?thesis using Cons.IH [of "acc @ [x]"] by (auto intro: exI [of _ "Suc n" for n])
  qed
qed simp

lemma gather_bound:
  "int (length acc) < limit \<Longrightarrow> int (length (fst (gather limit acc xs))) \<le> limit \<and>
     (snd (gather limit acc xs) \<longrightarrow> int (length (fst (gather limit acc xs))) = limit)"
  by (induction xs arbitrary: acc) auto

lemma child_node: "fs_wf t \<Longrightarrow> e \<in> set (children t l) \<longleftrightarrow> node_at t (l @ [e]) \<noteq> None"
proof
  assume "fs_wf t" "e \<in> set (children t l)"
  then obtain k n where k: "(k, n) \<in> set t" "k \<noteq> []" "butlast k = l" "last k = e" by (auto simp: children_def split: if_splits)
  then have "l @ [e] = k" by auto
  then show "node_at t (l @ [e]) \<noteq> None" using k(1) by (auto simp: node_at_def dget_None_iff rev_image_eqI)
next
  assume "fs_wf t" "node_at t (l @ [e]) \<noteq> None"
  then obtain n where "(l @ [e], n) \<in> set t" by (auto simp: node_at_def dest: dget_Some_in)
  then show "e \<in> set (children t l)" by (force simp: children_def)
qed

text \<open>The files that a search sees: those below the start with no hidden directory on the way.\<close>

definition visible :: "fsys \<Rightarrow> loc \<Rightarrow> loc \<Rightarrow> bool" where
  "visible t l k \<longleftrightarrow> (\<exists>r b. k = l @ r \<and> r \<noteq> [] \<and> node_at t k = Some (NFile b) \<and> (\<forall>c\<in>set (butlast r). \<not> startswith c ''.''))"

lemma walk_sound:
  assumes "fs_wf t"
  shows "k \<in> set (walk_tree n t l) \<Longrightarrow> visible t l k"
proof (induction n arbitrary: l)
  case (Suc n)
  from Suc.prems consider (f) e where "k = l @ [e]" "e \<in> set (files_in t l)"
    | (d) d where "k \<in> set (walk_tree n t (l @ [d]))" "\<not> startswith d ''.''" by auto
  then show ?case
  proof cases
    case f
    then have "node_at t k \<noteq> None" "node_at t k \<noteq> Some NDir" using child_node [OF assms] by (auto simp: files_in_def)
    then obtain b where "node_at t k = Some (NFile b)" by (cases "node_at t k"; cases "the (node_at t k)") auto
    then show ?thesis using f unfolding visible_def by (intro exI [of _ "[e]"]) simp
  next
    case d
    obtain r b where "k = l @ d # r" "r \<noteq> []" "node_at t k = Some (NFile b)" "\<forall>c\<in>set (butlast r). \<not> startswith c ''.''"
      using Suc.IH [OF d(1)] by (auto simp: visible_def)
    then show ?thesis using d(2) unfolding visible_def by (intro exI [of _ "d # r"]) auto
  qed
qed simp

lemma above_is_dir: "fs_wf t \<Longrightarrow> node_at t (l @ r) = Some n \<Longrightarrow> r \<noteq> [] \<Longrightarrow> node_at t l = Some NDir"
proof (induction r arbitrary: n rule: rev_induct)
  case (snoc x r)
  have "node_at t (l @ r) = Some NDir" using parent_dir [OF snoc.prems(1,2)] by (simp add: butlast_append)
  then show ?case using snoc by (cases "r = []") auto
qed simp

lemma walk_complete:
  assumes "fs_wf t"
  shows "length r \<le> n \<Longrightarrow> r \<noteq> [] \<Longrightarrow> node_at t (l @ r) = Some (NFile b) \<Longrightarrow> \<forall>c\<in>set (butlast r). \<not> startswith c ''.'' \<Longrightarrow>
    l @ r \<in> set (walk_tree n t l)"
proof (induction n arbitrary: l r)
  case (Suc n)
  obtain d q where r: "r = d # q" using Suc.prems(2) by (cases r) auto
  show ?case
  proof (cases "q = []")
    case True
    then have "d \<in> set (files_in t l)" using Suc.prems(3) r child_node [OF assms, of d l] by (auto simp: files_in_def)
    then show ?thesis using True r by simp
  next
    case False
    have "node_at t (l @ [d]) = Some NDir" using above_is_dir [OF assms, of "l @ [d]" q] Suc.prems(3) r False by simp
    then have "d \<in> set (dirs_in t l)" using child_node [OF assms, of d l] by (auto simp: dirs_in_def)
    moreover have "\<not> startswith d ''.''" using Suc.prems(4) r False by simp
    moreover have "(l @ [d]) @ q \<in> set (walk_tree n t (l @ [d]))" using Suc.IH [of q "l @ [d]"] Suc.prems r False by simp
    ultimately show ?thesis using r by auto
  qed
qed simp

lemma fold_max_ge: "x \<in> set xs \<Longrightarrow> x \<le> fold max xs (0 :: nat)"
  by (metis List.finite_set Max.set_eq_fold Max_ge list.set_intros(2))

lemma walk_finds:
  assumes "fs_wf t" and "resolve_path (se_files env) t start = Inr l" and "node_at t l = Some NDir"
  shows "set (fst (walk_files env t start)) = {k. visible t l k}"
proof -
  have "k \<in> set (walk_tree (Suc (tree_depth t)) t l)" if k: "visible t l k" for k
  proof -
    obtain r b where r: "k = l @ r" "r \<noteq> []" "node_at t k = Some (NFile b)" "\<forall>c\<in>set (butlast r). \<not> startswith c ''.''"
      using k by (auto simp: visible_def)
    then have "(k, NFile b) \<in> set t" by (auto simp: node_at_def dest: dget_Some_in split: if_splits)
    then have "length k \<le> tree_depth t" by (force simp: tree_depth_def intro: fold_max_ge)
    then show ?thesis using walk_complete [OF assms(1), of r "Suc (tree_depth t)" l b] r by simp
  qed
  then show ?thesis using walk_sound [OF assms(1)] assms(2,3) by (auto simp: walk_files_def simp del: walk_tree.simps)
qed

text \<open>
  A search for files below a directory reports only files that are there, match the pattern and have no
  hidden directory on the way; it reports every one of them, or says that it stopped at the thousandth.
\<close>

lemma search_files_exact:
  assumes "fs_wf t" and "resolve_path (se_files env) t start = Inr l" and "node_at t l = Some NDir"
  shows "\<exists>found stopped. search_files env start pattern t = PDict ([(''path'', PStr start), (''pattern'', PStr pattern),
       (''found'', PList (map (\<lambda>k. PStr (below_root (length l) k)) found))] @ (if stopped then [(''truncated'', PBool True)] else [])) \<and>
    set found \<subseteq> {k. visible t l k \<and> se_fnmatch env (last k) pattern} \<and> length found \<le> 1000 \<and>
    (if stopped then length found = 1000 else set found = {k. visible t l k \<and> se_fnmatch env (last k) pattern})"
proof -
  let ?ks = "filter (\<lambda>k. se_fnmatch env (last k) pattern) (fst (walk_files env t start))"
  let ?g = "gather 1000 [] ?ks"
  have ks: "set ?ks = {k. visible t l k \<and> se_fnmatch env (last k) pattern}" using walk_finds [OF assms] by auto
  have n: "snd (walk_files env t start) = length l" using assms(2) by (simp add: walk_files_def)
  have "set (fst ?g) \<subseteq> set ?ks" "\<not> snd ?g \<longrightarrow> set (fst ?g) = set ?ks"
    using gather_prefix [of 1000 "[]" ?ks] by (metis append_Nil set_take_subset)+
  moreover have "length (fst ?g) \<le> 1000" "snd ?g \<longrightarrow> length (fst ?g) = 1000" using gather_bound [of "[]" 1000 ?ks] by auto
  ultimately show ?thesis
    unfolding ks by (intro exI [of _ "fst ?g"] exI [of _ "snd ?g"]) (auto simp: search_files_def case_prod_unfold Let_def n)
qed

definition demo_search :: search_env where
  "demo_search = \<lparr>se_files = demo_files, se_fnmatch = (\<lambda>n p. p = ''*'' \<or> n = p), se_search = (\<lambda>r _ l. Inr (contains l r)), se_ignore = id,
     se_str = (\<lambda>_. ''0'')\<rparr>"

lemma search_files_exact_witness:
  "\<exists>found stopped. search_files demo_search ''/srv'' ''a'' demo_tree = PDict ([(''path'', PStr ''/srv''), (''pattern'', PStr ''a''),
       (''found'', PList (map (\<lambda>k. PStr (below_root (length [''srv'']) k)) found))] @ (if stopped then [(''truncated'', PBool True)] else [])) \<and>
    set found \<subseteq> {k. visible demo_tree [''srv''] k \<and> se_fnmatch demo_search (last k) ''a''} \<and> length found \<le> 1000 \<and>
    (if stopped then length found = 1000 else set found = {k. visible demo_tree [''srv''] k \<and> se_fnmatch demo_search (last k) ''a''})"
  by (rule search_files_exact [OF demo_tree_wf]) code_simp+

lemma search_files_runs:
  "search_files demo_search ''/srv'' ''a'' demo_tree =
     PDict [(''path'', PStr ''/srv''), (''pattern'', PStr ''a''), (''found'', PList [PStr ''keep/a''])]"
  by code_simp

text \<open>A limit of nothing still lets one match through.\<close>

lemma limit_zero_gives_one:
  "search_text demo_search ''/srv'' [(''needle'', PStr ''x''), (''limit'', PInt 0)] demo_tree =
     Inr (PDict [(''needle'', PStr ''x''), (''path'', PStr ''/srv''),
       (''matches'', PList [PDict [(''file'', PStr ''keep/a''), (''line'', PInt 1), (''text'', PStr ''x'')]]), (''limit_hit'', PBool True)])"
  by code_simp

section \<open>What the terminal sends\<close>

text \<open>How a POSIX shell reads one word: plain safe characters, single and double quotes; None at anything else.\<close>

datatype sh_mode = Bare | Single | Double

fun sh_word :: "sh_mode \<Rightarrow> string \<Rightarrow> string option" where
  "sh_word m [] = (if m = Bare then Some [] else None)"
| "sh_word Bare (c # r) =
     (if c = CHR 0x27 then sh_word Single r else if c = CHR 0x22 then sh_word Double r
      else if safe_char c then map_option (Cons c) (sh_word Bare r) else None)"
| "sh_word Single (c # r) = (if c = CHR 0x27 then sh_word Bare r else map_option (Cons c) (sh_word Single r))"
| "sh_word Double (c # r) =
     (if c = CHR 0x22 then sh_word Bare r else if c \<in> {CHR ''$'', CHR 0x60, CHR 0x5C} then None
      else map_option (Cons c) (sh_word Double r))"

lemma safe_plain: "list_all safe_char s \<Longrightarrow> sh_word Bare s = Some s"
proof (induction s)
  case (Cons c s)
  then have "c \<noteq> CHR 0x27" "c \<noteq> CHR 0x22" by (auto simp: safe_char_def is_alnum_def is_alpha_def is_digit_def code_def)
  with Cons show ?case by simp
qed simp

lemma quoted_body: "sh_word Single (quote_body s @ CHR 0x27 # r) = map_option (append s) (sh_word Bare r)"
  by (induction s) (auto simp: option.map_comp comp_def option.map_ident)


text \<open>So no command with an argument can be run: the line is looked up as the name of one program.\<close>

lemma arguments_quoted_away: "shlex_quote ''ls -la'' = CHR 0x27 # ''ls -la'' @ [CHR 0x27]"
  by code_simp

lemma terminal_without_process:
  "terminal_write h x None = (Inr (cr_fail ''No open terminal''), None)" "terminal_close None = (Inr (cr_fail ''No open terminal''), (None :: 'p option))"
  by (simp_all add: terminal_write_def terminal_close_def)

text \<open>A git command that fails is reported as a success, and an address that begins with a dash is an option.\<close>

lemma git_failure_is_success:
  "run (PList [PStr ''git'', PStr ''pull'', PStr ''--ff-only'']) PNone PNone s = (Inr c, s') \<Longrightarrow>
   git_invoke sf run kv \<lparr>cc_action = ''git.pull'', cc_scope = None, cc_extra = [], cc_execution = None\<rparr> s = (Inr (RetResult (cr_ok (completed_json c))), s')"
  by (simp add: git_invoke_def git_command_def method_name_def git_base_def dgetd_def py_or_def)

lemma clone_option:
  "git_command sf ''git_clone'' [(''url'', PStr ''--upload-pack=x''), (''target'', PStr ''y'')] =
     Some ([PStr ''clone'', PStr ''--upload-pack=x'', PStr ''y''], PNone)"
  by (simp add: git_command_def dgetd_def)

text \<open>What the kill action is asked for is sent as it is, \<open>-1\<close> (every process) included.\<close>

lemma kill_everything:
  "kill (- 1) s = (Inr (), s') \<Longrightarrow>
   kill_invoke kill [(''pid'', PInt (- 1))] s = (Inr (RetResult (cr_ok (PDict [(''killed'', PInt (- 1))]))), s')"
  by (simp add: kill_invoke_def to_int_def dgetd_def)

end
