(* ===== verification/Launch.thy ===== *)
theory Launch
  imports Insight Json_Parse Runtime Config
begin

text \<open>
  \<open>buster/launch.py\<close> and the recovery of a wedged runtime (\<open>buster/runtime.py\<close>). The host is an argument: what the
  lock file names, whether a process lives, what the runtime answers, what a host program prints. What the launcher
  does to it is also written down, oldest first, so that the properties can speak of it. A loop that polls until a
  deadline gets the number of its polls, which the host says for a timeout.
\<close>

section \<open>The host\<close>

datatype deed =
    SpawnDaemon
  | AskShutdown
  | Terminate nat
  | ReleaseLock
  | SpawnGui int
  | WritePid nat

record 'w launch_host =
  lh_lock :: "'w \<Rightarrow> nat option"
  lh_alive :: "nat \<Rightarrow> 'w \<Rightarrow> bool"
  lh_self :: nat
  lh_rpc :: "string \<Rightarrow> message \<Rightarrow> pyfloat \<Rightarrow> 'w \<Rightarrow> message result \<times> 'w"
  lh_pause :: "'w \<Rightarrow> 'w"
  lh_polls :: "pyfloat \<Rightarrow> nat"
  lh_left :: "nat \<Rightarrow> pyfloat"
  lh_ping :: "int \<Rightarrow> 'w \<Rightarrow> pyval option \<times> 'w"
  lh_pid_file :: "'w \<Rightarrow> string option"
  lh_exited :: "nat \<Rightarrow> 'w \<Rightarrow> bool"
  lh_spawned :: "'w \<Rightarrow> nat result"
  lh_do :: "deed \<Rightarrow> 'w \<Rightarrow> 'w"
  lh_which :: "string \<Rightarrow> 'w \<Rightarrow> string option"
  lh_run :: "string list \<Rightarrow> 'w \<Rightarrow> (int \<times> string) result \<times> 'w"
  lh_popen :: "string list \<Rightarrow> 'w \<Rightarrow> unit result \<times> 'w"

record 'w launcher =
  la_world :: 'w
  la_deeds :: "deed list"

definition deed :: "'w launch_host \<Rightarrow> deed \<Rightarrow> 'w launcher \<Rightarrow> 'w launcher" where
  "deed h d s = s\<lparr>la_world := lh_do h d (la_world s), la_deeds := la_deeds s @ [d]\<rparr>"

definition noted :: "deed \<Rightarrow> 'w launcher \<Rightarrow> 'w launcher" where
  "noted d s = s\<lparr>la_deeds := la_deeds s @ [d]\<rparr>"

definition look :: "('w \<Rightarrow> 'a \<times> 'w) \<Rightarrow> 'w launcher \<Rightarrow> 'a \<times> 'w launcher" where
  "look f s = (let (a, w) = f (la_world s) in (a, s\<lparr>la_world := w\<rparr>))"

text \<open>\<open>RuntimeLock.is_online\<close>: the lock file names a process and the process lives.\<close>

definition lock_online :: "'w launch_host \<Rightarrow> 'w launcher \<Rightarrow> bool" where
  "lock_online h s = (case lh_lock h (la_world s) of None \<Rightarrow> False | Some p \<Rightarrow> lh_alive h p (la_world s))"

text \<open>
  \<open>runtime_ready\<close>, \<open>wait_online\<close> (it probes once more when the time is over) and \<open>wait_offline\<close>.
  \<open>lh_left\<close> is the time left when that many polls are.
\<close>

definition ready :: "'w launch_host \<Rightarrow> pyfloat \<Rightarrow> 'w launcher \<Rightarrow> bool \<times> 'w launcher" where
  "ready h timeout s = (let (r, s) = look (lh_rpc h ''status'' [] timeout) s in (runtime_ready r, s))"

definition pause :: "'w launch_host \<Rightarrow> 'w launcher \<Rightarrow> 'w launcher" where
  "pause h s = s\<lparr>la_world := lh_pause h (la_world s)\<rparr>"

fun poll_online :: "'w launch_host \<Rightarrow> nat \<Rightarrow> 'w launcher \<Rightarrow> bool \<times> 'w launcher" where
  "poll_online h 0 s = ready h (1 / 2) s"
| "poll_online h (Suc n) s = (let (up, s) = ready h (max (1 / 10) (min 3 (lh_left h n))) s in if up then (True, s) else poll_online h n (pause h s))"

fun poll_offline :: "'w launch_host \<Rightarrow> nat \<Rightarrow> 'w launcher \<Rightarrow> bool \<times> 'w launcher" where
  "poll_offline h 0 s = (False, s)"
| "poll_offline h (Suc n) s = (if \<not> lock_online h s then (True, s) else poll_offline h n (pause h s))"

definition pid_value :: "nat option \<Rightarrow> pyval" where
  "pid_value p = (case p of None \<Rightarrow> PNone | Some n \<Rightarrow> PInt (int n))"

section \<open>Recovering a runtime that does not answer\<close>

text \<open>
  The pid is read once, at the start. After the signal, the lock is released without another look at whose it is.
\<close>

definition recover_wedged_runtime :: "'w launch_host \<Rightarrow> pyfloat \<Rightarrow> 'w launcher \<Rightarrow> bool \<times> 'w launcher" where
  "recover_wedged_runtime h timeout s =
     (case lh_lock h (la_world s) of
        None \<Rightarrow> (\<not> lock_online h s, s)
      | Some pid \<Rightarrow>
          if \<not> lh_alive h pid (la_world s) then (\<not> lock_online h s, s)
          else
            (let (down, s) = poll_offline h (lh_polls h timeout) (snd (look (lh_rpc h ''shutdown'' [] (min 1 timeout)) (noted AskShutdown s))) in
             if down then (True, s)
             else if \<not> lh_alive h pid (la_world s) \<or> pid = lh_self h then (\<not> lock_online h s, s)
             else
               (let (down, s) = poll_offline h (lh_polls h timeout) (deed h (Terminate pid) s)
                in if down then (True, deed h ReleaseLock s) else (False, s))))"

section \<open>One runtime\<close>

definition launch_error :: "string \<Rightarrow> exc" where
  "launch_error m = Exc ''LaunchError'' m"

definition wedged_message :: string where
  "wedged_message = ''Buster found a runtime that is not responding and could not recover it safely. Stop that process, then launch again.''"

definition offline_message :: "string \<Rightarrow> string" where
  "offline_message install = ''Buster could not bring its runtime online. Check that the install directory is writable ('' @ install @
     '') and run '' @ quoted ''buster status'' @ '' or '' @ quoted ''buster doctor'' @ '' for details.''"

definition outcome :: "string \<Rightarrow> pyval \<Rightarrow> pyval" where
  "outcome action pid = PDict [(''action'', PStr action), (''pid'', pid)]"

definition start_runtime :: "'w launch_host \<Rightarrow> string \<Rightarrow> pyfloat \<Rightarrow> 'w launcher \<Rightarrow> pyval result \<times> 'w launcher" where
  "start_runtime h install wait s =
     (let (up, s) = poll_online h (lh_polls h wait) (deed h SpawnDaemon s)
      in if up then (Inr (outcome ''started'' (pid_value (lh_lock h (la_world s)))), s)
         else (Inl (launch_error (offline_message install)), s))"

definition ensure_runtime :: "'w launch_host \<Rightarrow> string \<Rightarrow> pyfloat \<Rightarrow> 'w launcher \<Rightarrow> pyval result \<times> 'w launcher" where
  "ensure_runtime h install wait s =
     (if lock_online h s then
        (let (ready, s) = ready h (min 2 wait) s in
         if ready then (Inr (outcome ''reused'' (pid_value (lh_lock h (la_world s)))), s)
         else (let (recovered, s) = recover_wedged_runtime h (min 5 wait) s
               in if recovered then start_runtime h install wait s else (Inl (launch_error wedged_message), s)))
      else start_runtime h install wait s)"

section \<open>One interface\<close>

text \<open>\<open>gui_ping\<close>: a document of \<open>null\<close> counts as no answer.\<close>

definition ping_gui :: "'w launch_host \<Rightarrow> int \<Rightarrow> 'w launcher \<Rightarrow> pyval option \<times> 'w launcher" where
  "ping_gui h port s =
     (let (r, s) = look (lh_ping h port) s in (case r of None \<Rightarrow> None | Some v \<Rightarrow> if v = PNone then None else Some v, s))"

definition same_install :: "string \<Rightarrow> pyval \<Rightarrow> string \<Rightarrow> bool result" where
  "same_install cwd ping install =
     (case as_dict ping of
        Inl e \<Rightarrow> Inl e
      | Inr d \<Rightarrow>
          (let served = dgetd d ''install_path'' PNone in
           if \<not> truthy served then Inr False
           else (case served of
                   PStr p \<Rightarrow> Inr (abspath cwd p = abspath cwd install)
                 | _ \<Rightarrow> Inl (Exc ''TypeError'' ''expected str, bytes or os.PathLike object''))))"

definition loopback :: "int \<Rightarrow> string" where
  "loopback port = ''http://127.0.0.1:'' @ str_of_int port"

definition read_pid :: "'w launch_host \<Rightarrow> 'w launcher \<Rightarrow> pyval" where
  "read_pid h s =
     (case lh_pid_file h (la_world s) of
        None \<Rightarrow> PNone
      | Some t \<Rightarrow> (let u = str_strip t in case py_int_of (if u = [] then ''0'' else u) of None \<Rightarrow> PNone | Some n \<Rightarrow> PInt n))"

definition foreign_message :: "(pyfloat \<Rightarrow> string) \<Rightarrow> int \<Rightarrow> pyval \<Rightarrow> string" where
  "foreign_message sf port ping =
     ''Another Buster interface is already using port '' @ str_of_int port @ '' for a different installation ('' @
     (case ping of PDict d \<Rightarrow> py_str sf (py_or (dgetd d ''install_path'' PNone) (PStr ''unknown'')) | _ \<Rightarrow> []) @
     ''). Stop it first, or start this Buster on another port.''"

definition gui_failed_message :: "string \<Rightarrow> string" where
  "gui_failed_message install = ''Buster'' @ CHR 0x27 # ''s interface could not start. The runtime is running; run '' @
     quoted (''python -m buster.gui.server --install-path '' @ install) @ '' to see logs.''"

definition gui_report :: "string \<Rightarrow> int \<Rightarrow> pyval \<Rightarrow> pyval" where
  "gui_report action port pid = PDict [(''action'', PStr action), (''url'', PStr (loopback port)), (''pid'', pid)]"

fun await_gui :: "'w launch_host \<Rightarrow> string \<Rightarrow> string \<Rightarrow> int \<Rightarrow> nat \<Rightarrow> nat \<Rightarrow> 'w launcher \<Rightarrow> pyval result \<times> 'w launcher" where
  "await_gui h cwd install port child 0 s = (Inl (launch_error (gui_failed_message install)), s)"
| "await_gui h cwd install port child (Suc polls) s =
     (let (p, s) = ping_gui h port s in
      (case (case p of None \<Rightarrow> Inr False | Some v \<Rightarrow> same_install cwd v install) of
         Inl e \<Rightarrow> (Inl e, s)
       | Inr same \<Rightarrow>
           if same then (Inr (gui_report ''started'' port (PInt (int child))), s)
           else if lh_exited h child (la_world s) then (Inl (launch_error (gui_failed_message install)), s)
           else await_gui h cwd install port child polls (pause h s)))"

definition start_gui :: "'w launch_host \<Rightarrow> string \<Rightarrow> nat \<Rightarrow> string \<Rightarrow> int \<Rightarrow> 'w launcher \<Rightarrow> pyval result \<times> 'w launcher" where
  "start_gui h cwd polls install port s =
     (case lh_spawned h (la_world s) of
        Inl e \<Rightarrow> (Inl e, s)
      | Inr child \<Rightarrow> await_gui h cwd install port child polls (deed h (WritePid child) (deed h (SpawnGui port) s)))"

definition ensure_gui :: "(pyfloat \<Rightarrow> string) \<Rightarrow> 'w launch_host \<Rightarrow> string \<Rightarrow> nat \<Rightarrow> string \<Rightarrow> int \<Rightarrow> 'w launcher \<Rightarrow> pyval result \<times> 'w launcher" where
  "ensure_gui sf h cwd polls install port s =
     (let (p, s) = ping_gui h port s in
      (case p of
         None \<Rightarrow> start_gui h cwd polls install port s
       | Some v \<Rightarrow>
           (case same_install cwd v install of
              Inl e \<Rightarrow> (Inl e, s)
            | Inr same \<Rightarrow> if same then (Inr (gui_report ''reused'' port (read_pid h s)), s)
                else (Inl (launch_error (foreign_message sf port v)), s))))"

section \<open>Presenting the interface\<close>

definition bridge_answer :: "(pyfloat \<Rightarrow> string) \<Rightarrow> string \<Rightarrow> (bool \<times> string) result" where
  "bridge_answer sf out =
     (case json_loads out of
        None \<Rightarrow> Inr (False, ''present bridge returned no usable document'')
      | Some v \<Rightarrow>
          (case as_dict v of
             Inl e \<Rightarrow> Inl e
           | Inr d \<Rightarrow>
               if \<not> truthy (dgetd d ''ready'' PNone)
               then Inr (False, ''present bridge not ready: '' @ py_str sf (dgetd d ''error'' PNone))
               else Inr (True, ''presented via the authenticated TerminalP bridge'')))"

definition host_failure :: "exc \<Rightarrow> bool" where
  "host_failure e \<longleftrightarrow> exc_type e \<in> {''OSError'', ''FileNotFoundError'', ''PermissionError'', ''TimeoutExpired''}"

definition present_via_bridge :: "(pyfloat \<Rightarrow> string) \<Rightarrow> 'w launch_host \<Rightarrow> string \<Rightarrow> 'w launcher \<Rightarrow> (bool \<times> string) result \<times> 'w launcher" where
  "present_via_bridge sf h url s =
     (if \<not> startswith url ''http://127.0.0.1:'' then (Inr (False, ''refusing to present a non-loopback interface''), s)
      else
        (let (r, s) = look (lh_run h [''python'', ''-m'', ''buster.cli'', ''exec'', ''present'']) s
         in (case r of
               Inl e \<Rightarrow> if host_failure e then Inr (False, ''present bridge unavailable ('' @ exc_type e @ '')'') else Inl e
             | Inr (status, out) \<Rightarrow> if status \<noteq> 0 then Inr (False, ''present bridge refused the request'') else bridge_answer sf out, s)))"

fun try_openers :: "'w launch_host \<Rightarrow> string \<Rightarrow> string \<Rightarrow> string list \<Rightarrow> 'w launcher \<Rightarrow> (bool \<times> string) result \<times> 'w launcher" where
  "try_openers h url reason [] s = (Inr (False, ''no opener available; printed URL ('' @ reason @ '')''), s)"
| "try_openers h url reason (opener # rest) s =
     (case lh_which h opener (la_world s) of
        None \<Rightarrow> try_openers h url reason rest s
      | Some path \<Rightarrow>
          (let (r, s) = look (lh_popen h [path, url]) s
           in (case r of
                 Inr _ \<Rightarrow> (Inr (True, opener @ '' '' @ url), s)
               | Inl e \<Rightarrow> if exc_type e \<noteq> ''TimeoutExpired'' \<and> host_failure e then try_openers h url reason rest s else (Inl e, s))))"

definition host_opener :: "'w launch_host \<Rightarrow> 'w launcher \<Rightarrow> string option" where
  "host_opener h s = (case lh_which h ''terminalp-api'' (la_world s) of Some p \<Rightarrow> Some p | None \<Rightarrow> lh_which h ''termux-api'' (la_world s))"

definition open_bridge_or_desktop :: "(pyfloat \<Rightarrow> string) \<Rightarrow> 'w launch_host \<Rightarrow> string \<Rightarrow> 'w launcher \<Rightarrow> (bool \<times> string) result \<times> 'w launcher" where
  "open_bridge_or_desktop sf h url s =
     then_do (present_via_bridge sf h url s) (\<lambda>(presented, reason) s.
       if presented then (Inr (True, reason), s) else try_openers h url reason [''xdg-open'', ''htmlview'', ''gio''] s)"

definition open_ui :: "(pyfloat \<Rightarrow> string) \<Rightarrow> 'w launch_host \<Rightarrow> bool \<Rightarrow> string \<Rightarrow> 'w launcher \<Rightarrow> (bool \<times> string) result \<times> 'w launcher" where
  "open_ui sf h no_open url s =
     (if no_open then (Inr (False, ''opening disabled (BUSTER_NO_OPEN)''), s)
      else (case host_opener h s of
              None \<Rightarrow> open_bridge_or_desktop sf h url s
            | Some bin \<Rightarrow>
                (let (r, s) = look (lh_run h [bin, ''open-url'', url]) s
                 in (case r of
                       Inr _ \<Rightarrow> (Inr (True, bin @ '' open-url '' @ url), s)
                     | Inl e \<Rightarrow> if host_failure e then open_bridge_or_desktop sf h url s else (Inl e, s)))))"

section \<open>The launch\<close>

text \<open>
  The install path is resolved and the bootstrap done before; what fails there is an argument. Presentation is never
  load-bearing: an exception of it is logged.
\<close>

definition present_safely :: "(pyfloat \<Rightarrow> string) \<Rightarrow> 'w launch_host \<Rightarrow> bool \<Rightarrow> bool \<Rightarrow> string \<Rightarrow> 'w launcher \<Rightarrow> (bool \<times> string) \<times> 'w launcher" where
  "present_safely sf h open_browser no_open url s =
     (if \<not> open_browser then ((False, []), s)
      else (let (r, s) = open_ui sf h no_open url s in (case r of Inl e \<Rightarrow> (False, []) | Inr q \<Rightarrow> q, s)))"

definition launch :: "(pyfloat \<Rightarrow> string) \<Rightarrow> 'w launch_host \<Rightarrow> string \<Rightarrow> nat \<Rightarrow> bool \<Rightarrow> bool \<Rightarrow> pyfloat \<Rightarrow> string result \<Rightarrow> pyval result \<Rightarrow> int \<Rightarrow>
    'w launcher \<Rightarrow> pyval result \<times> 'w launcher" where
  "launch sf h cwd polls open_browser no_open wait install bootstrap port s =
     then_do (pure_step install s) (\<lambda>install s.
     then_do (pure_step bootstrap s) (\<lambda>summary s.
     then_do (ensure_runtime h install wait s) (\<lambda>runtime s.
     then_do (ensure_gui sf h cwd polls install port s) (\<lambda>gui s.
       let ((opened, reason), s) = present_safely sf h open_browser no_open (loopback port) s
       in (Inr (PDict [(''install'', PStr install), (''bootstrap'', summary), (''runtime'', runtime), (''gui'', gui),
            (''url'', PStr (loopback port)), (''opened'', PBool opened), (''open_reason'', PStr reason)]), s)))))"

section \<open>What a launch does to the host\<close>

lemma noted_deeds [simp]: "la_deeds (noted d s) = la_deeds s @ [d]" "la_world (noted d s) = la_world s"
  by (simp_all add: noted_def)

lemma deed_deeds [simp]: "la_deeds (deed h d s) = la_deeds s @ [d]"
  by (simp add: deed_def)

lemma look_deeds [simp]: "la_deeds (snd (look f s)) = la_deeds s"
  by (simp add: look_def Let_def case_prod_unfold)

lemma ready_deeds [simp]: "la_deeds (snd (ready h t s)) = la_deeds s"
  by (simp add: ready_def Let_def case_prod_unfold)

lemma pause_deeds [simp]: "la_deeds (pause h s) = la_deeds s"
  by (simp add: pause_def)

lemma poll_online_deeds [simp]: "la_deeds (snd (poll_online h n s)) = la_deeds s"
  by (induction n arbitrary: s) (simp_all add: Let_def case_prod_unfold)

lemma poll_offline_deeds [simp]: "la_deeds (snd (poll_offline h n s)) = la_deeds s"
  by (induction n arbitrary: s) simp_all

lemma ping_deeds [simp]: "la_deeds (snd (ping_gui h port s)) = la_deeds s"
  by (simp add: ping_gui_def Let_def case_prod_unfold)

text \<open>The recovery of a runtime that the process \<open>pid\<close> was named for.\<close>

definition recovery :: "nat \<Rightarrow> nat \<Rightarrow> bool \<Rightarrow> deed list \<Rightarrow> bool" where
  "recovery self pid recovered ds \<longleftrightarrow>
     ds = [] \<or> ds = [AskShutdown] \<or> ds = [AskShutdown, Terminate pid] \<and> pid \<noteq> self \<and> \<not> recovered \<or>
     ds = [AskShutdown, Terminate pid, ReleaseLock] \<and> pid \<noteq> self \<and> recovered"

lemma recover_deeds:
  "\<exists>ds pid. la_deeds (snd (recover_wedged_runtime h t s)) = la_deeds s @ ds \<and>
     recovery (lh_self h) pid (fst (recover_wedged_runtime h t s)) ds \<and> (ds \<noteq> [] \<longrightarrow> lh_lock h (la_world s) = Some pid)"
  unfolding recover_wedged_runtime_def Let_def case_prod_unfold recovery_def
  by (auto split: option.splits)

lemma start_deeds: "la_deeds (snd (start_runtime h install wait s)) = la_deeds s @ [SpawnDaemon]"
  by (simp add: start_runtime_def Let_def case_prod_unfold)

text \<open>What bringing the runtime up does: nothing for one that answers, otherwise a recovery and at most one start.\<close>

definition bring_up :: "'w launch_host \<Rightarrow> pyfloat \<Rightarrow> 'w launcher \<Rightarrow> deed list \<Rightarrow> bool" where
  "bring_up h wait s ds \<longleftrightarrow>
     (if lock_online h s then
        (if fst (ready h (min 2 wait) s) then ds = []
         else \<exists>ks pid recovered. recovery (lh_self h) pid recovered ks \<and>
           (ks \<noteq> [] \<longrightarrow> lh_lock h (la_world (snd (ready h (min 2 wait) s))) = Some pid) \<and>
           ds = ks @ (if recovered then [SpawnDaemon] else []))
      else ds = [SpawnDaemon])"

lemma runtime_deeds:
  "\<exists>ds. la_deeds (snd (ensure_runtime h install wait s)) = la_deeds s @ ds \<and> bring_up h wait s ds"
proof -
  let ?r = "snd (ready h (min 2 wait) s)"
  let ?c = "recover_wedged_runtime h (min 5 wait) ?r"
  obtain ks pid where ks: "la_deeds (snd ?c) = la_deeds s @ ks" "recovery (lh_self h) pid (fst ?c) ks"
      "ks \<noteq> [] \<longrightarrow> lh_lock h (la_world ?r) = Some pid"
    using recover_deeds [of h "min 5 wait" ?r] by auto
  let ?ds = "if lock_online h s then if fst (ready h (min 2 wait) s) then []
       else ks @ (if fst ?c then [SpawnDaemon] else []) else [SpawnDaemon]"
  have "la_deeds (snd (ensure_runtime h install wait s)) = la_deeds s @ ?ds"
    unfolding ensure_runtime_def Let_def case_prod_unfold by (simp add: start_deeds ks(1))
  moreover have "bring_up h wait s ?ds"
    unfolding bring_up_def using ks(2,3) by (auto intro!: exI [of _ ks] exI [of _ "fst ?c"])
  ultimately show ?thesis by blast
qed

lemma await_gui_deeds [simp]: "la_deeds (snd (await_gui h cwd install port child n s)) = la_deeds s"
  by (induction n arbitrary: s) (auto simp: Let_def case_prod_unfold split: sum.splits bool.splits)

lemma gui_deeds:
  "\<exists>ds. la_deeds (snd (ensure_gui sf h cwd n install port s)) = la_deeds s @ ds \<and>
     (ds = [] \<or> (\<exists>child. ds = [SpawnGui port, WritePid child] \<and> fst (ping_gui h port s) = None))"
  unfolding ensure_gui_def start_gui_def Let_def case_prod_unfold
  by (auto split: option.splits sum.splits bool.splits)

lemma open_deeds [simp]: "la_deeds (snd (try_openers h url reason os s)) = la_deeds s"
proof (induction os arbitrary: s)
  case (Cons a os)
  then show ?case by (auto simp: Let_def case_prod_unfold split: option.splits sum.splits)
qed simp

lemma bridge_deeds [simp]: "la_deeds (snd (present_via_bridge sf h url s)) = la_deeds s"
  unfolding present_via_bridge_def Let_def case_prod_unfold by simp

lemma then_do_deeds:
  "(\<And>a t. la_deeds (snd (f a t)) = la_deeds t) \<Longrightarrow> la_deeds (snd (then_do m f)) = la_deeds (snd m)"
  by (cases "fst m") (simp_all add: then_do_def case_prod_unfold)

lemma bridge_or_desktop_deeds [simp]: "la_deeds (snd (open_bridge_or_desktop sf h url s)) = la_deeds s"
  unfolding open_bridge_or_desktop_def by (subst then_do_deeds) (auto simp del: try_openers.simps)

lemma open_ui_deeds [simp]: "la_deeds (snd (open_ui sf h no_open url s)) = la_deeds s"
  unfolding open_ui_def Let_def case_prod_unfold by (simp split: option.split sum.split)

lemma present_deeds [simp]: "la_deeds (snd (present_safely sf h b n url s)) = la_deeds s"
  unfolding present_safely_def Let_def case_prod_unfold by simp


section \<open>What a successful launch has shown\<close>

definition shown :: "'w launch_host \<Rightarrow> string \<Rightarrow> string \<Rightarrow> int \<Rightarrow> 'w launcher \<Rightarrow> bool" where
  "shown h cwd install port s \<longleftrightarrow> (\<exists>v t. ping_gui h port t = (Some v, s) \<and> same_install cwd v install = Inr True)"

lemma shownI: "fst (ping_gui h port t) = Some v \<Longrightarrow> same_install cwd v install = Inr True \<Longrightarrow> shown h cwd install port (snd (ping_gui h port t))"
  unfolding shown_def by (metis prod.collapse)

lemma await_gui_shown:
  "await_gui h cwd install port child n s = (Inr r, s') \<Longrightarrow> shown h cwd install port s'"
  by (induction n arbitrary: s)
    (auto simp: Let_def case_prod_unfold split: option.splits sum.splits if_splits intro: shownI)

lemma ensure_gui_shown:
  "ensure_gui sf h cwd polls install port s = (Inr r, s') \<Longrightarrow> shown h cwd install port s'"
  unfolding ensure_gui_def start_gui_def Let_def case_prod_unfold
  by (auto split: option.splits sum.splits if_splits dest: await_gui_shown intro: shownI)

text \<open>Presentation is never load-bearing.\<close>

lemma launch_outcome:
  "map_sum id (\<lambda>_. ()) (fst (launch sf h cwd polls b no_open wait (Inr i) (Inr summary) port s)) =
   map_sum id (\<lambda>_. ()) (fst (then_do (ensure_runtime h i wait s) (\<lambda>_. ensure_gui sf h cwd polls i port)))"
  by (auto simp: launch_def pure_step_def then_do_def case_prod_unfold Let_def split: sum.splits)

text \<open>
  A launch that succeeds ran after its interface had answered on the port and named this very install; and whether
  and how the interface is then presented, and what fails in that, does not change whether the launch succeeds.
\<close>

lemma launch_shown:
  assumes "launch sf h cwd polls b no_open wait install bootstrap port s = (Inr r, s')"
  shows "(\<exists>i t. install = Inr i \<and> shown h cwd i port t \<and> la_deeds s' = la_deeds t) \<and>
    \<not> isl (fst (launch sf h cwd polls b' no_open' wait install bootstrap port s))"
proof -
  obtain i summary where ok: "install = Inr i" "bootstrap = Inr summary"
    using assms by (cases install; cases bootstrap) (auto simp: launch_def pure_step_def)
  let ?m = "then_do (ensure_runtime h i wait s) (\<lambda>_. ensure_gui sf h cwd polls i port)"
  have "\<not> isl (fst ?m)"
    using launch_outcome [of sf h cwd polls b no_open wait i summary port s] assms ok by (cases "fst ?m") auto
  moreover have "\<not> isl (fst (launch sf h cwd polls b' no_open' wait install bootstrap port s))"
    using launch_outcome [of sf h cwd polls b' no_open' wait i summary port s] calculation ok
    by (cases "fst ?m"; cases "fst (launch sf h cwd polls b' no_open' wait install bootstrap port s)") auto
  ultimately show ?thesis using assms ok
    by (auto simp: launch_def pure_step_def then_do_def case_prod_unfold Let_def split: sum.splits
        intro!: exI [of _ "snd (ensure_gui sf h cwd polls i port (snd (ensure_runtime h i wait s)))"]
        intro: ensure_gui_shown [OF prod_eqI])
qed

text \<open>A host on which runtime and interface are already up.\<close>

definition served_host :: "unit launch_host" where
  "served_host = \<lparr>lh_lock = \<lambda>_. Some 7, lh_alive = \<lambda>p _. p = 7, lh_self = 9,
     lh_rpc = \<lambda>op m t w. (Inr [(''data'', PDict [(''state'', PStr ''running'')])], w), lh_pause = id, lh_polls = \<lambda>_. 3, lh_left = \<lambda>_. 1,
     lh_ping = \<lambda>p w. (Some (PDict [(''install_path'', PStr ''/b/'')]), w), lh_pid_file = \<lambda>_. Some ''12'', lh_exited = \<lambda>_ _. False,
     lh_spawned = \<lambda>_. Inr 13, lh_do = \<lambda>_ w. w, lh_which = \<lambda>_ _. None, lh_run = \<lambda>_ w. (Inr (1, []), w), lh_popen = \<lambda>_ w. (Inr (), w)\<rparr>"

lemma served_same: "same_install ''/'' (PDict [(''install_path'', PStr ''/b/'')]) ''/b'' = Inr True"
  by code_simp

lemma served_ping: "ping_gui served_host port s = (Some (PDict [(''install_path'', PStr ''/b/'')]), s)"
  by (simp add: ping_gui_def look_def served_host_def)

lemma served_ready: "ready served_host t s = (True, s)"
  by (simp add: ready_def look_def served_host_def runtime_ready_def dgetd_def)

lemma served_online: "lock_online served_host s"
  by (simp add: lock_online_def served_host_def)

lemma served_launch:
  "\<exists>r. launch (\<lambda>_. []) served_host ''/'' 2 False False 60 (Inr ''/b'') (Inr PNone) 8468 s = (Inr r, s)"
  by (simp add: launch_def pure_step_def ensure_runtime_def ensure_gui_def served_same served_ping served_ready served_online
      present_safely_def)

theorem launch_shown_witness:
  "\<not> isl (fst (launch (\<lambda>_. []) served_host ''/'' 2 True False 60 (Inr ''/b'') (Inr PNone) 8468 \<lparr>la_world = (), la_deeds = []\<rparr>))"
  using served_launch launch_shown [of "\<lambda>_. []" served_host "''/''" 2 False False 60 "Inr ''/b''" "Inr PNone" 8468
      "\<lparr>la_world = (), la_deeds = []\<rparr>" _ _ True False] by blast

section \<open>A process that took over the pid\<close>

text \<open>
  Any process that lives under the pid the lock file still names is taken for the wedged runtime and terminated.
\<close>

lemma stranger_terminated:
  assumes "lh_lock h (la_world s) = Some pid" "lh_alive h pid (la_world s)" "pid \<noteq> lh_self h"
    and "\<And>w. lh_lock h w = Some pid \<and> lh_alive h pid w" "lh_polls h timeout = n"
  shows "Terminate pid \<in> set (la_deeds (snd (recover_wedged_runtime h timeout s)))"
proof -
  have "\<not> fst (poll_offline h n t)" for t
    by (induction n arbitrary: t) (simp_all add: lock_online_def assms(4))
  then show ?thesis
    by (simp add: recover_wedged_runtime_def Let_def case_prod_unfold assms)
qed

end
