(* ===== verification/Doctor.thy ===== *)
theory Doctor
  imports Os_Files Json_Parse Config Runtime
begin

text \<open>
  \<open>buster/diagnostics/doctor.py\<close>: the checks of \<open>buster doctor\<close> and of the surrounding system, and the reader of the
  os-release file. The host they look at is a record: versions, directories, files, programs on the path.
\<close>

section \<open>Reports\<close>

type_synonym report = "pyval sdict list"

definition check_row :: "string \<Rightarrow> bool \<Rightarrow> string \<Rightarrow> pyval sdict" where
  "check_row name ok detail = [(''name'', PStr name), (''ok'', PBool ok), (''detail'', PStr detail)]"

definition add_check :: "string \<Rightarrow> bool \<Rightarrow> string \<Rightarrow> report \<Rightarrow> report" where
  "add_check name ok detail r = r @ [check_row name ok detail]"

definition check_failed :: "pyval sdict \<Rightarrow> bool" where
  "check_failed c \<longleftrightarrow> \<not> truthy (dgetd c ''ok'' PNone)"

definition checks_failed :: "report \<Rightarrow> nat" where
  "checks_failed r = length (filter check_failed r)"

record doctor_host =
  dh_version :: "int \<times> int"
  dh_python :: string
  dh_termux :: bool
  dh_identity :: string
  dh_prefix :: "string option"
  dh_env :: py_env
  dh_float :: "pyfloat \<Rightarrow> string"
  dh_writable :: bool
  dh_configs :: "string \<Rightarrow> pyval sdict disk"
  dh_is_dir :: "string \<Rightarrow> bool"
  dh_is_file :: "string \<Rightarrow> bool"
  dh_text :: "string \<Rightarrow> string option"
  dh_which :: "string \<Rightarrow> string option"
  dh_machine :: string
  dh_status :: "message result"

section \<open>The checks of an installation\<close>

definition config_file :: "string \<Rightarrow> string" where
  "config_file install = path_join (path_join install ''config'') ''config.json''"

text \<open>\<open>_check_config\<close> constructs the configuration, which writes the file when there is none.\<close>

definition checked_config :: "doctor_host \<Rightarrow> string \<Rightarrow> config result" where
  "checked_config h install = cf_init (dh_writable h) (dh_env h) (dh_float h) (Some (config_file install)) (Some install) (dh_configs h)"

definition check_config :: "doctor_host \<Rightarrow> string \<Rightarrow> bool" where
  "check_config h install = (case checked_config h install of Inl _ \<Rightarrow> False | Inr _ \<Rightarrow> True)"

definition check_kernel_boot :: "doctor_host \<Rightarrow> bool" where
  "check_kernel_boot h = (case resolve_install_path (dh_env h) (dh_float h) None of Inl _ \<Rightarrow> False | Inr _ \<Rightarrow> runtime_ready (dh_status h))"

definition new_enough :: "int \<times> int \<Rightarrow> bool" where
  "new_enough v \<longleftrightarrow> 3 < fst v \<or> fst v = 3 \<and> 10 \<le> snd v"

definition run_doctor :: "doctor_host \<Rightarrow> string \<Rightarrow> report result" where
  "run_doctor h version =
     (case resolve_install_path (dh_env h) (dh_float h) None of
        Inl e \<Rightarrow> Inl e
      | Inr install \<Rightarrow>
          Inr [check_row ''python-version'' (new_enough (dh_version h)) (dh_python h @ '' (>= 3.10 required)''),
               check_row ''host-environment'' (dh_termux h)
                 (dh_identity h @ '' ('' @ (case dh_prefix h of Some p \<Rightarrow> p | None \<Rightarrow> ''no PREFIX set'') @ '')''),
               check_row ''buster-install'' (dh_is_dir h install) install,
               check_row ''buster-config'' (check_config h install) (config_file install @ '' readable''),
               check_row ''buster-version'' True (CHR ''v'' # version),
               check_row ''kernel-boot'' (check_kernel_boot h) ''kernel start/stop round-trip succeeds''])"

section \<open>The surrounding system\<close>

definition os_required_dirs :: "string list" where
  "os_required_dirs = [''etc'', ''usr/bin'', ''usr/lib'', ''usr/sbin'', ''var/lib'', ''var/log'', ''run'', ''tmp'', ''home'', ''root'', ''dev'',
     ''proc'', ''sys'', ''opt'', ''srv'']"

definition is_dquote :: "char \<Rightarrow> bool" where
  "is_dquote c \<longleftrightarrow> c = CHR 0x22"

fun release_data :: "string list \<Rightarrow> string sdict \<Rightarrow> string sdict" where
  "release_data [] d = d"
| "release_data (l # ls) d =
     (let (key, found, v) = partition_char (CHR ''='') l
      in release_data ls (if found then dput (str_strip key) (strip_chars is_dquote (str_strip v)) d else d))"

definition read_os_release :: "doctor_host \<Rightarrow> string sdict" where
  "read_os_release h =
     (case dh_text h ''/etc/os-release'' of
        Some t \<Rightarrow> release_data (file_lines t) []
      | None \<Rightarrow> (case dh_text h ''/usr/lib/os-release'' of Some t \<Rightarrow> release_data (file_lines t) [] | None \<Rightarrow> []))"

definition missing_list :: "string list \<Rightarrow> string \<Rightarrow> string" where
  "missing_list xs ok = (if xs \<noteq> [] then ''missing: '' @ join_str '', '' xs else ok)"

definition required_packages :: "string list" where
  "required_packages = [''coreutils'', ''bash'', ''dpkg'', ''python3'']"

definition missing_packages :: "string \<Rightarrow> string list" where
  "missing_packages status = filter (\<lambda>p. \<not> contains status (''Package: '' @ p)) required_packages"

text \<open>A status file that is there and cannot be opened raises out of the report.\<close>

definition package_checks :: "doctor_host \<Rightarrow> report \<Rightarrow> report result" where
  "package_checks h r =
     (let path = ''/var/lib/dpkg/status''; r = add_check ''package-database'' (dh_is_file h path) path r
      in if \<not> dh_is_file h path then Inr r
         else (case dh_text h path of
                 None \<Rightarrow> Inl (Exc ''OSError'' path)
               | Some t \<Rightarrow> Inr (add_check ''required-packages'' (missing_packages t = []) (missing_list (missing_packages t) ''present'') r)))"

definition binary_checks :: "doctor_host \<Rightarrow> report \<Rightarrow> report" where
  "binary_checks h r =
     fold (\<lambda>b. add_check (''binary:'' @ b) (dh_which h b \<noteq> None)
        (case dh_which h b of None \<Rightarrow> ''not found'' | Some p \<Rightarrow> if p = [] then ''not found'' else p)) [''bash'', ''python3'', ''git'', ''apt-get''] r"

definition release_checks :: "string sdict \<Rightarrow> report" where
  "release_checks d =
     (let i = dgetd d ''ID'' ''unknown'' in
      add_check ''buster-identity'' (dget d ''ID'' = Some ''busteros'') (''ID='' @ i @ '' VERSION='' @ dgetd d ''VERSION_ID'' ''?'')
        (add_check ''os-release'' (dgetd d ''ID'' [] \<noteq> []) (''ID='' @ i) []))"

definition layout_check :: "doctor_host \<Rightarrow> report \<Rightarrow> report" where
  "layout_check h r =
     (let missing = filter (\<lambda>d. \<not> dh_is_dir h (path_join ''/'' d)) os_required_dirs
      in add_check ''rootfs-layout'' (missing = []) (missing_list missing ''standard tree present'') r)"

definition run_os_doctor :: "doctor_host \<Rightarrow> report result" where
  "run_os_doctor h =
     (case package_checks h (layout_check h (release_checks (read_os_release h))) of
        Inl e \<Rightarrow> Inl e
      | Inr r \<Rightarrow> Inr (add_check ''machine'' True (dh_machine h @ '' python='' @ dh_python h) (binary_checks h r)))"

section \<open>The file the build writes\<close>

lemma quote_no_space [simp]: "\<not> is_space (CHR 0x22)"
  by code_simp

lemma release_line:
  assumes "CHR ''='' \<notin> set k" "str_strip k = k" "CHR 0x22 \<notin> set v"
  shows "release_data ((k @ CHR ''='' # CHR 0x22 # v @ [CHR 0x22]) # ls) d = release_data ls (dput k v d)"
proof -
  have "str_strip (CHR 0x22 # v @ [CHR 0x22]) = CHR 0x22 # v @ [CHR 0x22]"
    unfolding str_strip_def by (intro strip_chars_id) auto
  moreover have "strip_chars is_dquote (CHR 0x22 # v @ [CHR 0x22]) = v"
  proof -
    have d: "dropWhile is_dquote (xs @ [CHR 0x22]) = xs @ [CHR 0x22]" if "xs \<noteq> []" "CHR 0x22 \<notin> set xs" for xs
      using that by (cases xs) (auto simp: is_dquote_def)
    have e: "dropWhile is_dquote xs = xs" if "CHR 0x22 \<notin> set xs" for xs
      using that by (cases xs) (auto simp: is_dquote_def)
    show ?thesis
    proof (cases "v = []")
      case False
      then show ?thesis using assms(3) d [of v] e [of "rev v"]
        by (simp add: strip_chars_def lstrip_chars_def rstrip_chars_def is_dquote_def)
    qed (simp add: strip_chars_def lstrip_chars_def rstrip_chars_def is_dquote_def)
  qed
  ultimately show ?thesis using assms by (simp add: partition_char_append)
qed

lemma bare_line:
  assumes "CHR ''='' \<notin> set k" "str_strip k = k" "CHR 0x22 \<notin> set v" "str_strip v = v"
  shows "release_data ((k @ CHR ''='' # v) # ls) d = release_data ls (dput k v d)"
proof -
  have "strip_chars is_dquote v = v" using assms(3) by (intro strip_chars_clean) (auto simp: is_dquote_def)
  with assms show ?thesis by (simp add: partition_char_append)
qed

definition plain_version :: "string \<Rightarrow> bool" where
  "plain_version v \<longleftrightarrow> CHR 0x22 \<notin> set v \<and> CHR 0x0A \<notin> set v \<and> CHR 0x0D \<notin> set v"

definition release_row :: "string \<times> bool \<times> string \<Rightarrow> string" where
  "release_row = (\<lambda>(k, q, v). k @ CHR ''='' # (if q then CHR 0x22 # v @ [CHR 0x22] else v))"

definition release_fields :: "string \<Rightarrow> (string \<times> bool \<times> string) list" where
  "release_fields v = [(''NAME'', True, ''Buster OS''), (''VERSION'', True, v), (''ID'', False, ''busteros''), (''ID_LIKE'', False, ''debian''),
     (''PRETTY_NAME'', True, ''Buster OS '' @ v), (''HOME_URL'', True, ''https://busteros.example''), (''VERSION_ID'', True, v),
     (''BUG_REPORT_URL'', True, ''https://github.com/xbustcodex/AIOperator/issues'')]"

definition readable_field :: "string \<times> bool \<times> string \<Rightarrow> bool" where
  "readable_field = (\<lambda>(k, q, v). CHR ''='' \<notin> set k \<and> str_strip k = k \<and> CHR 0x22 \<notin> set v \<and> (q \<or> str_strip v = v))"

lemma release_data_rows:
  "list_all readable_field fs \<Longrightarrow> release_data (map release_row fs) d = fold (\<lambda>(k, q, v). dput k v) fs d"
proof (induction fs arbitrary: d)
  case (Cons f fs)
  obtain k q v where f: "f = (k, q, v)" by (cases f) auto
  show ?case using Cons by (cases q) (auto simp: f readable_field_def release_row_def release_line bare_line simp del: release_data.simps)
qed simp

lemma release_keys:
  "str_strip ''NAME'' = ''NAME''" "str_strip ''VERSION'' = ''VERSION''" "str_strip ''ID'' = ''ID''" "str_strip ''ID_LIKE'' = ''ID_LIKE''"
  "str_strip ''PRETTY_NAME'' = ''PRETTY_NAME''" "str_strip ''HOME_URL'' = ''HOME_URL''" "str_strip ''VERSION_ID'' = ''VERSION_ID''"
  "str_strip ''BUG_REPORT_URL'' = ''BUG_REPORT_URL''" "str_strip ''busteros'' = ''busteros''" "str_strip ''debian'' = ''debian''"
  by code_simp+

lemma release_starts:
  "\<not> is_space (CHR ''N'')" "\<not> is_space (CHR ''V'')" "\<not> is_space (CHR ''I'')" "\<not> is_space (CHR ''P'')" "\<not> is_space (CHR ''H'')"
  "\<not> is_space (CHR ''B'')" "\<not> is_space (CHR ''s'')" "\<not> is_space (CHR ''n'')"
  by code_simp+

lemma release_lines:
  assumes "plain_version v"
  shows "file_lines (os_release v ''busteros'') = map release_row (release_fields v)"
proof -
  have "os_release v ''busteros'' = concat (map (\<lambda>l. l @ [CHR 0x0A]) (map release_row (release_fields v)))"
    by (simp add: os_release_def release_row_def release_fields_def text_lines_def)
  moreover have "list_all one_line (map release_row (release_fields v))"
    using assms by (simp add: release_row_def release_fields_def one_line_def plain_version_def release_starts)
  ultimately show ?thesis by (simp only: file_lines_back)
qed

text \<open>
  The os-release file the build writes is read back by the diagnostics field by field, for every version without a
  quote or line break; a system that has it passes both identity checks, and names the version that was built.
\<close>

lemma os_release_read_back:
  assumes "plain_version v" and "dh_text h ''/etc/os-release'' = Some (os_release v ''busteros'')"
  shows "dget (read_os_release h) ''ID'' = Some ''busteros'' \<and> dget (read_os_release h) ''VERSION_ID'' = Some v \<and>
    list_all (\<lambda>c. \<not> check_failed c) (release_checks (read_os_release h))"
proof -
  have "list_all readable_field (release_fields v)"
    using assms(1) by (simp add: release_fields_def readable_field_def release_keys plain_version_def)
  then have "read_os_release h = fold (\<lambda>(k, q, v). dput k v) (release_fields v) []"
    by (simp add: read_os_release_def assms(2) release_lines [OF assms(1)] release_data_rows)
  then show ?thesis
    by (simp add: release_fields_def release_checks_def add_check_def check_row_def check_failed_def dgetd_def)
qed

definition bare_host :: "string \<Rightarrow> doctor_host" where
  "bare_host v = \<lparr>dh_version = (3, 12), dh_python = ''3.12.1'', dh_termux = False, dh_identity = ''linux'', dh_prefix = None,
     dh_env = demo_env, dh_float = (\<lambda>_. []), dh_writable = True, dh_configs = (\<lambda>_. Absent), dh_is_dir = (\<lambda>_. False),
     dh_is_file = (\<lambda>_. False), dh_text = (\<lambda>p. if p = ''/etc/os-release'' then Some (os_release v ''busteros'') else None),
     dh_which = (\<lambda>_. None), dh_machine = ''aarch64'', dh_status = Inl (Exc ''RuntimeOfflineError'' [])\<rparr>"

theorem os_release_read_back_witness: "dget (read_os_release (bare_host ''0.3.0'')) ''VERSION_ID'' = Some ''0.3.0''"
  using os_release_read_back [of "''0.3.0''" "bare_host ''0.3.0''"] by (simp add: plain_version_def bare_host_def)

section \<open>Checks that say too much\<close>

text \<open>A package whose name extends the wanted one counts for it.\<close>

lemma longer_name_counts: "missing_packages (text_lines [''Package: coreutils-extra'', ''Package: bash-completion'', ''Package: dpkg-dev'', ''Package: python3-minimal'']) = []"
  by code_simp

text \<open>Looking at the configuration of a place that has none writes one.\<close>

lemma doctor_writes_config:
  "map_sum id (\<lambda>c. cf_disk c \<noteq> Absent) (checked_config (bare_host ''1'') ''/b'') = Inr True"
  by code_simp

text \<open>The last check boots nothing: it says what the runtime answers.\<close>

lemma boot_check_is_status: "resolve_install_path (dh_env h) (dh_float h) None = Inr i \<Longrightarrow> check_kernel_boot h = runtime_ready (dh_status h)"
  by (simp add: check_kernel_boot_def)

end
