(* ===== verification/Cli.thy ===== *)
theory Cli
  imports Launch Doctor Gui Exec Shell
begin

text \<open>
  The command line: \<open>buster/cli/commands.py\<close>. A command sees the host of the launcher for the install it names, writes lines to its
  two output streams and ends with an exit code, or raises. What the runtime answers is asked through \<open>RuntimeClient.rpc\<close>, one
  message at a time, as the web interface does.
\<close>

section \<open>Console and host\<close>

record 'w console =
  co_at :: "'w launcher"
  co_out :: "string list"
  co_err :: "string list"
  co_docs :: "document list"
  co_files :: "string \<Rightarrow> pyval sdict disk"

record 'w cli =
  cl_env :: py_env
  cl_float :: "pyfloat \<Rightarrow> string"
  cl_version :: string
  cl_writable :: bool
  cl_host :: "string \<Rightarrow> 'w launch_host"
  cl_heartbeat :: "string \<Rightarrow> 'w \<Rightarrow> pyval option"
  cl_since :: "string \<Rightarrow> 'w \<Rightarrow> string"
  cl_stamp :: "pyval \<Rightarrow> string"
  cl_audit :: "string \<Rightarrow> 'w \<Rightarrow> audit"
  cl_bootstrap :: "string \<Rightarrow> 'w \<Rightarrow> pyval sdict result \<times> 'w"
  cl_daemon :: "string \<Rightarrow> 'w launcher \<Rightarrow> int result \<times> 'w launcher"
  cl_repl :: "string \<Rightarrow> 'w launcher \<Rightarrow> int result \<times> 'w launcher"
  cl_no_open :: bool
  cl_checks :: "report result"

type_synonym 'w command = "'w cli \<Rightarrow> string list \<Rightarrow> 'w console \<Rightarrow> int result \<times> 'w console"

definition say :: "string \<Rightarrow> 'w console \<Rightarrow> 'w console" where
  "say l c = c\<lparr>co_out := co_out c @ [l]\<rparr>"

definition say_all :: "string list \<Rightarrow> 'w console \<Rightarrow> 'w console" where
  "say_all ls c = c\<lparr>co_out := co_out c @ ls\<rparr>"

definition complain :: "string \<Rightarrow> 'w console \<Rightarrow> 'w console" where
  "complain l c = c\<lparr>co_err := co_err c @ [l]\<rparr>"

definition here :: "('w launcher \<Rightarrow> 'a \<times> 'w launcher) \<Rightarrow> 'w console \<Rightarrow> 'a \<times> 'w console" where
  "here f c = (let (a, s) = f (co_at c) in (a, c\<lparr>co_at := s\<rparr>))"

definition done_with :: "int \<Rightarrow> 'w console \<Rightarrow> int result \<times> 'w console" where
  "done_with n c = (Inr n, c)"

text \<open>\<open>RuntimeClient(install).rpc\<close> with its ten seconds: offline, nothing is sent.\<close>

definition client :: "'w launch_host \<Rightarrow> 'w launcher daemon" where
  "client h op m s =
     (if \<not> lock_online h s then (Inl (Exc ''RuntimeOfflineError'' ''No Buster runtime is online''), s)
      else look (lh_rpc h op m 10) s)"

definition json_text :: "'w cli \<Rightarrow> pyval \<Rightarrow> string" where
  "json_text cl v = json_indent (cl_float cl) 0 v"

section \<open>Arguments\<close>

fun install_option :: "string list \<Rightarrow> string option" where
  "install_option (a # b # r) = (if a = ''--install-path'' then Some b else install_option (b # r))"
| "install_option _ = None"

definition install_path :: "'w cli \<Rightarrow> string list \<Rightarrow> string result" where
  "install_path cl args = resolve_install_path (cl_env cl) (cl_float cl) (install_option args)"

definition install_flag :: "string list \<Rightarrow> string list" where
  "install_flag args = (case install_option args of Some p \<Rightarrow> [''--install-path'', p] | None \<Rightarrow> [])"

definition cli_coerce :: "string \<Rightarrow> pyval" where
  "cli_coerce v =
     (let l = str_lower v in
      if l = ''true'' \<or> l = ''false'' then PBool (l = ''true'')
      else (case py_int_of v of
              Some i \<Rightarrow> PInt i
            | None \<Rightarrow> (case py_float_of v of Some x \<Rightarrow> x | None \<Rightarrow> PStr v)))"

definition on_install :: "'w cli \<Rightarrow> string list \<Rightarrow> (string \<Rightarrow> 'w console \<Rightarrow> int result \<times> 'w console) \<Rightarrow> 'w console \<Rightarrow> int result \<times> 'w console" where
  "on_install cl args f c = (case install_path cl args of Inl e \<Rightarrow> (Inl e, c) | Inr i \<Rightarrow> f i c)"

definition offline_line :: string where
  "offline_line = ''[ERROR] no runtime online. Run '' @ quoted ''buster start'' @ '' first.''"

text \<open>\<open>_client_or_kernel\<close> and the refusal every management command starts with.\<close>

definition with_runtime :: "'w cli \<Rightarrow> string list \<Rightarrow> ('w launcher daemon \<Rightarrow> 'w console \<Rightarrow> int result \<times> 'w console) \<Rightarrow> 'w console \<Rightarrow>
    int result \<times> 'w console" where
  "with_runtime cl args f =
     on_install cl args (\<lambda>i c. if lock_online (cl_host cl i) (co_at c) then f (client (cl_host cl i)) c
       else done_with 1 (complain offline_line c))"

definition usage_error :: "string \<Rightarrow> 'w console \<Rightarrow> int result \<times> 'w console" where
  "usage_error s c = done_with 2 (complain (''[ERROR] usage: buster '' @ s @ '' [--install-path <dir>]'') c)"

section \<open>Life cycle\<close>

definition cli_bootstrap :: "'w command" where
  "cli_bootstrap cl args =
     on_install cl args (\<lambda>i c.
     then_do (here (look (cl_bootstrap cl i)) c) (\<lambda>d c.
     then_do (pure_step (index_key ''version'' (PDict d)) c) (\<lambda>v c.
     then_do (pure_step (index_key ''install_path'' (PDict d)) c) (\<lambda>p c.
     then_do (pure_step (index_key ''layout_created'' (PDict d)) c) (\<lambda>l c.
     then_do (pure_step (index_key ''first_run'' (PDict d)) c) (\<lambda>f c.
       let t = py_str (cl_float cl)
       in done_with 0 (say_all [''Buster OS '' @ t v @ '' bootstrap complete.'', ''  install:   '' @ t p,
            ''  layout:    '' @ t (py_or l (PStr ''(already present)'')), ''  first_run: '' @ t f] c)))))))"

definition cli_daemon :: "'w command" where
  "cli_daemon cl args = on_install cl args (\<lambda>i. here (cl_daemon cl i))"

definition cli_start :: "'w command" where
  "cli_start cl args =
     on_install cl args (\<lambda>i c.
       let h = cl_host cl i in
       if lock_online h (co_at c)
       then done_with 1 (complain ''        Refusing to create a competing runtime.'' (complain ''[ERROR] a Buster runtime is already online.'' c))
       else
         (let (up, c) = here (\<lambda>s. poll_online h (lh_polls h 15) (deed h SpawnDaemon s)) c in
          if \<not> up then done_with 1 (complain ''[ERROR] runtime did not come online.'' c)
          else done_with 0 (say_all [''Buster runtime online (pid '' @ py_str (cl_float cl) (pid_value (lh_lock h (la_world (co_at c)))) @ '').'',
                 ''Run '' @ quoted ''buster status'' @ '', '' @ quoted ''buster shell'' @ '' or '' @ quoted ''buster stop'' @ ''.''] c)))"

definition join_names :: "pyval \<Rightarrow> string result" where
  "join_names v =
     (case v of
        PList xs \<Rightarrow> (if list_all (\<lambda>x. case x of PStr _ \<Rightarrow> True | _ \<Rightarrow> False) xs
           then Inr (join_str '', '' (map (\<lambda>x. case x of PStr t \<Rightarrow> t | _ \<Rightarrow> []) xs))
           else Inl (Exc ''TypeError'' ''sequence item: expected str instance''))
      | _ \<Rightarrow> Inl (Exc ''TypeError'' ''can only join an iterable''))"

definition none_if_empty :: "string \<Rightarrow> string" where
  "none_if_empty s = (if s = [] then ''none'' else s)"

definition running_or :: "bool \<Rightarrow> string \<Rightarrow> string" where
  "running_or b other = (if b then ''running'' else other)"

definition status_lines :: "(pyfloat \<Rightarrow> string) \<Rightarrow> pyval sdict \<Rightarrow> string list result" where
  "status_lines sf d =
     (case (join_names (dgetd d ''capabilities'' (PList [])), join_names (dgetd d ''ai_providers'' (PList []))) of
        (Inr cs, Inr ps) \<Rightarrow>
          Inr [''Version:   '' @ py_str sf (dgetd d ''version'' (PStr ''?'')), ''Kernel:    '' @ py_str sf (dgetd d ''state'' (PStr ''?'')),
               ''EventBus:  '' @ running_or (truthy (dgetd d ''event_router_running'' PNone)) ''stopped'',
               ''Scheduler: '' @ running_or (truthy (dgetd d ''scheduler_running'' PNone)) ''stopped'',
               ''Capabil. : '' @ none_if_empty cs, ''Providers: '' @ none_if_empty ps]
      | (Inl e, _) \<Rightarrow> Inl e
      | (_, Inl e) \<Rightarrow> Inl e)"

text \<open>The lock file is one document here, so what it names and since when come together.\<close>

definition cli_status :: "'w command" where
  "cli_status cl args =
     on_install cl args (\<lambda>i c.
       let h = cl_host cl i; w = la_world (co_at c); online = lock_online h (co_at c);
           c = say (''State:     '' @ running_or online ''offline'') c;
           c = (case lh_lock h w of None \<Rightarrow> c
                | Some p \<Rightarrow> say_all [''PID:       '' @ str_of_int (int p), ''Since:     '' @ cl_since cl i w] c)
       in if \<not> online then done_with 1 c
          else (case cl_heartbeat cl i w of
                  None \<Rightarrow> done_with 0 c
                | Some v \<Rightarrow>
                    if \<not> truthy v then done_with 0 c
                    else then_do (pure_step (as_dict v) c) (\<lambda>d c.
                         then_do (pure_step (status_lines (cl_float cl) d) c) (\<lambda>ls c. done_with 0 (say_all ls c)))))"

definition cli_shell :: "'w command" where
  "cli_shell cl args =
     on_install cl args (\<lambda>i c. if \<not> lock_online (cl_host cl i) (co_at c) then done_with 1 (complain offline_line c)
       else here (cl_repl cl i) c)"

definition cli_stop :: "'w command" where
  "cli_stop cl args =
     on_install cl args (\<lambda>i c.
       let h = cl_host cl i in
       if \<not> lock_online h (co_at c) then done_with 0 (say ''Runtime already offline.'' c)
       else
         (let (r, c) = here (client h ''shutdown'' []) c in
          case r of
            Inl e \<Rightarrow> done_with 1 (complain (''[ERROR] send stop failed: '' @ exc_msg e) c)
          | Inr _ \<Rightarrow>
              (let (down, c) = here (poll_offline h (lh_polls h 10)) c in
               if \<not> down then done_with 1 (complain ''[ERROR] runtime did not stop cleanly.'' c)
               else done_with 0 (say ''Buster runtime stopped cleanly.'' c))))"

definition cli_version :: "'w command" where
  "cli_version cl args c = done_with 0 (say (cl_version cl) c)"

text \<open>\<open>buster launch\<close>: its own reading of the arguments, then the consumer launch.\<close>

record launch_opts =
  lo_install :: "string option"
  lo_port :: int
  lo_open :: bool
  lo_remain :: "string list"

definition launch_defaults :: launch_opts where
  "launch_defaults = \<lparr>lo_install = None, lo_port = 8468, lo_open = True, lo_remain = []\<rparr>"

definition launch_word :: "string \<Rightarrow> launch_opts \<Rightarrow> launch_opts" where
  "launch_word a p = (if a = ''--no-open'' then p\<lparr>lo_open := False\<rparr> else p\<lparr>lo_remain := lo_remain p @ [a]\<rparr>)"

fun launch_args :: "string list \<Rightarrow> launch_opts \<Rightarrow> launch_opts result" where
  "launch_args [] p = Inr p"
| "launch_args [a] p = Inr (launch_word a p)"
| "launch_args (a # b # r) p =
     (if a = ''--install-path'' then launch_args r (p\<lparr>lo_install := Some b\<rparr>)
      else if a = ''--port'' then
        (case py_int_of b of
           None \<Rightarrow> Inl (Exc ''ValueError'' (''invalid literal for int() with base 10: '' @ repr_str b))
         | Some n \<Rightarrow> launch_args r (p\<lparr>lo_port := n\<rparr>))
      else launch_args (b # r) (launch_word a p))"

definition launch_report :: "launch_opts \<Rightarrow> pyval \<Rightarrow> 'w console \<Rightarrow> int result \<times> 'w console" where
  "launch_report p v c =
     then_do (pure_step (index_key ''runtime'' v) c) (\<lambda>rt c.
     then_do (pure_step (index_key ''action'' rt) c) (\<lambda>action c.
     then_do (pure_step (index_key ''install'' v) c) (\<lambda>i c.
     then_do (pure_step (index_key ''url'' v) c) (\<lambda>u c.
     then_do (pure_step (index_key ''opened'' v) c) (\<lambda>op c.
       let t = py_str (\<lambda>_. [])
       in done_with 0 (say_all [''Buster is running (runtime '' @ (if action = PStr ''reused'' then ''reused'' else ''started'') @ '', install '' @ t i @ '').'',
            ''Interface: '' @ t u,
            if truthy op then ''Buster UI opened.''
            else if \<not> lo_open p then ''(Browser open disabled; visit the URL above.)''
            else ''(Could not open a browser here; visit the URL above.)''] c))))))"

definition cli_launch :: "'w command" where
  "cli_launch cl args c =
     then_do (pure_step (launch_args args launch_defaults) c) (\<lambda>p c.
       if lo_remain p \<noteq> [] then done_with 2 (complain (''[ERROR] unexpected arguments: '' @ join_str '' '' (lo_remain p)) c)
       else
         on_install cl (case lo_install p of None \<Rightarrow> [] | Some i \<Rightarrow> [''--install-path'', i]) (\<lambda>i c.
           let h = cl_host cl i;
               (boot, c) = here (look (cl_bootstrap cl i)) c;
               (r, c) = here (launch (cl_float cl) h (env_cwd (cl_env cl)) (lh_polls h 30) (lo_open p) (cl_no_open cl) 60 (Inr i)
                           (map_sum id PDict boot) (lo_port p)) c
           in case r of
                Inl e \<Rightarrow> if exc_type e = ''LaunchError'' then done_with 1 (complain (''[ERROR] '' @ exc_msg e) c) else (Inl e, c)
              | Inr v \<Rightarrow> launch_report p v c) c)"

definition check_line :: "(pyfloat \<Rightarrow> string) \<Rightarrow> pyval sdict \<Rightarrow> string" where
  "check_line sf k =
     (let t = (\<lambda>n. py_str sf (dgetd k n PNone))
      in ljust 22 (t ''name'') @ '' '' @ ljust 7 (if check_failed k then ''FAIL'' else ''PASS'') @ '' '' @ t ''detail'')"

definition cli_doctor :: "'w command" where
  "cli_doctor cl args c =
     then_do (pure_step (cl_checks cl) c) (\<lambda>r c.
       let rule = replicate 60 (CHR ''-'');
           c = say rule (say_all (map (check_line (cl_float cl)) r) (say rule (say (ljust 22 ''Check'' @ '' '' @ ljust 7 ''Status'' @ '' Detail'') c)))
       in if checks_failed r \<noteq> 0 then done_with 1 (say (str_of_nat (checks_failed r) @ '' check(s) failed.'') c)
          else done_with 0 (say ''All checks passed.'' c))"

section \<open>Management\<close>

definition names_of :: "pyval \<Rightarrow> pyval list result" where
  "names_of v = (case v of PList xs \<Rightarrow> Inr xs | _ \<Rightarrow> Inl (Exc ''TypeError'' ''object is not iterable''))"

definition cli_caps :: "'w command" where
  "cli_caps cl args =
     with_runtime cl args (\<lambda>dm c.
     then_do (here (ask_data dm ''caps'' []) c) (\<lambda>v c.
     then_do (pure_step (index_key ''capabilities'' v) c) (\<lambda>cs c.
     then_do (here (ask_data dm ''caps'' []) c) (\<lambda>w c.
     then_do (pure_step (index_key ''actions'' w) c) (\<lambda>acts c.
     then_do (pure_step (names_of cs) c) (\<lambda>xs c.
     then_do (pure_step (names_of acts) (say_all (map (py_str (cl_float cl)) xs @ [[], ''Actions:'']) c)) (\<lambda>ys c.
       done_with 0 (say_all (map (\<lambda>a. ''  '' @ py_str (cl_float cl) a) ys) c))))))))"

definition permit :: "string \<Rightarrow> string \<Rightarrow> string \<Rightarrow> 'w command" where
  "permit op usage said cl args c =
     (case args of
        [] \<Rightarrow> usage_error usage c
      | action # _ \<Rightarrow> with_runtime cl args (\<lambda>dm c.
          then_do (here (dm op [(''action'', PStr action)]) c) (\<lambda>_ c. done_with 0 (say (said @ action) c))) c)"

definition cli_grant :: "'w command" where
  "cli_grant = permit ''grant'' ''grant <action>'' ''granted: ''"

definition cli_deny :: "'w command" where
  "cli_deny = permit ''deny'' ''deny <action>'' ''denied: ''"

fun call_params :: "string list \<Rightarrow> pyval sdict \<Rightarrow> pyval sdict" where
  "call_params [] d = d"
| "call_params (a # r) d =
     (let (key, found, v) = partition_char (CHR ''='') a in call_params r (if found then dput key (cli_coerce v) d else d))"

definition cli_context :: pyval where
  "cli_context = PDict [(''actor'', PStr ''cli''), (''source'', PStr ''cli'')]"

definition cli_run :: "'w command" where
  "cli_run cl args c =
     (case args of
        [] \<Rightarrow> usage_error ''run <action> [k=v ...]'' c
      | action # rest \<Rightarrow> with_runtime cl args (\<lambda>dm c.
          then_do (here (gui_call dm (PStr action) (PDict (call_params rest [])) cli_context) c) (\<lambda>r c.
            if \<not> truthy (gr_success r) then done_with 1 (complain (''['' @ action @ ''] '' @ py_str (cl_float cl) (gr_error r)) c)
            else done_with 0 (say (if gr_data r = PNone then ''OK'' else json_text cl (gr_data r)) c))) c)"

definition open_config :: "'w cli \<Rightarrow> string \<Rightarrow> 'w console \<Rightarrow> config result \<times> 'w console" where
  "open_config cl install c =
     (case cf_init (cl_writable cl) (cl_env cl) (cl_float cl) (Some (config_file install)) (Some install) (co_files c) of
        Inl e \<Rightarrow> (Inl e, c)
      | Inr g \<Rightarrow> (Inr g, c\<lparr>co_files := (co_files c)(cf_path g := cf_disk g)\<rparr>))"

definition cli_config :: "'w command" where
  "cli_config cl args =
     on_install cl args (\<lambda>i c.
     then_do (open_config cl i c) (\<lambda>g c.
       case args of
         [] \<Rightarrow> done_with 0 (say (json_text cl (PDict (cf_data g))) c)
       | [key] \<Rightarrow> (let v = get_nested key PNone g in done_with 0 (say (if v = PNone then ''(unset)'' else py_str (cl_float cl) v) c))
       | key # value # _ \<Rightarrow>
           (let (r, g) = set_nested (cl_writable cl) key (cli_coerce value) g; c = c\<lparr>co_files := (co_files c)(cf_path g := cf_disk g)\<rparr> in
            case r of
              Inl e \<Rightarrow> (Inl e, c)
            | Inr _ \<Rightarrow> done_with 0 (say (''set: '' @ key @ '' = '' @ py_str (cl_float cl) (get_nested key PNone g)) c))))"

fun rows_of :: "pyval list \<Rightarrow> (string \<times> string \<times> string \<times> bool) list result" where
  "rows_of [] = Inr []"
| "rows_of (v # vs) =
     (case v of
        PDict d \<Rightarrow> (case remote_job d of Inl e \<Rightarrow> Inl e | Inr j \<Rightarrow> map_sum id (Cons j) (rows_of vs))
      | _ \<Rightarrow> Inl (Exc ''TypeError'' ''indices must be integers''))"

definition job_row_line :: "string \<times> string \<times> string \<times> bool \<Rightarrow> string" where
  "job_row_line = (\<lambda>(i, n, st, periodic). take 8 i @ ''  '' @ ljust 10 st @ '' '' @ ljust 24 n @ '' '' @ (if periodic then ''periodic'' else ''one-shot''))"

definition cancel_job :: "string \<Rightarrow> 'w launcher daemon \<Rightarrow> 'w console \<Rightarrow> int result \<times> 'w console" where
  "cancel_job jid dm c =
     (let (r, c) = here (dm ''jobs_cancel'' [(''id'', PStr jid)]) c
      in then_do (pure_step (remote_cancelled r) c) (\<lambda>b c.
           if b then done_with 0 (say (''cancelled: '' @ jid) c)
           else done_with 1 (say (''[ERROR] no pending job '' @ quoted jid) c)))"

definition list_jobs :: "'w launcher daemon \<Rightarrow> 'w console \<Rightarrow> int result \<times> 'w console" where
  "list_jobs dm c =
     then_do (here (ask_data dm ''jobs'' []) c) (\<lambda>v c.
     then_do (pure_step (names_of v) c) (\<lambda>vs c.
     then_do (pure_step (rows_of vs) c) (\<lambda>rows c.
       done_with 0 (say_all (if rows = [] then [''no jobs scheduled''] else map job_row_line rows) c))))"

definition cli_jobs :: "'w command" where
  "cli_jobs cl args =
     with_runtime cl args (\<lambda>dm.
       case args of
         a # r \<Rightarrow> if a = ''cancel'' then cancel_job (case r of [] \<Rightarrow> [] | j # _ \<Rightarrow> j) dm else list_jobs dm
       | [] \<Rightarrow> list_jobs dm)"

text \<open>The Latin-1 characters that \<open>isdigit\<close> accepts and \<open>int\<close> does not are the superscripts.\<close>

definition digits_only :: "string \<Rightarrow> bool" where
  "digits_only s \<longleftrightarrow> s \<noteq> [] \<and> list_all (\<lambda>c. is_digit c \<or> c \<in> {CHR 0xB2, CHR 0xB3, CHR 0xB9}) s"

definition audit_limit :: "string list \<Rightarrow> int result" where
  "audit_limit args =
     (case args of
        a # _ \<Rightarrow> if digits_only a
          then (case py_int_of a of Some n \<Rightarrow> Inr n | None \<Rightarrow> Inl (Exc ''ValueError'' (''invalid literal for int() with base 10: '' @ repr_str a)))
          else Inr 10
      | [] \<Rightarrow> Inr 10)"

definition entry_doc :: "audit_entry \<Rightarrow> pyval" where
  "entry_doc e = PDict [(''ts'', PFloat (ae_ts e)), (''action'', PStr (ae_action e)), (''actor'', ae_actor e), (''detail'', PDict (ae_detail e))]"

definition trail_line :: "'w cli \<Rightarrow> pyval \<Rightarrow> string result" where
  "trail_line cl v =
     (case index_key ''ts'' v of
        Inl e \<Rightarrow> Inl e
      | Inr t \<Rightarrow> (case index_key ''action'' v of
          Inl e \<Rightarrow> Inl e
        | Inr a \<Rightarrow> (case v of
            PDict d \<Rightarrow> Inr (cl_stamp cl t @ ''  '' @ ljust 28 (py_str (cl_float cl) a) @ '' actor='' @ py_str (cl_float cl) (dgetd d ''actor'' (PStr [])))
          | _ \<Rightarrow> Inl (Exc ''TypeError'' ''indices must be integers''))))"

fun say_entries :: "'w cli \<Rightarrow> pyval list \<Rightarrow> 'w console \<Rightarrow> int result \<times> 'w console" where
  "say_entries cl [] c = done_with 0 c"
| "say_entries cl (v # vs) c = (case trail_line cl v of Inl e \<Rightarrow> (Inl e, c) | Inr l \<Rightarrow> say_entries cl vs (say l c))"

text \<open>Offline, the trail is read from the log of the install.\<close>

definition cli_audit :: "'w command" where
  "cli_audit cl args =
     on_install cl args (\<lambda>i c.
     then_do (pure_step (audit_limit args) c) (\<lambda>limit c.
       let h = cl_host cl i in
       if lock_online h (co_at c) then
         then_do (here (ask_data (client h) ''audit'' [(''limit'', PInt limit)]) c) (\<lambda>v c.
         then_do (pure_step (names_of v) c) (\<lambda>vs c. say_entries cl vs c))
       else say_entries cl (map entry_doc (au_tail limit (cl_audit cl i (la_world (co_at c))))) c))"

definition show_view :: "'w cli \<Rightarrow> string \<Rightarrow> 'w launcher daemon \<Rightarrow> 'w console \<Rightarrow> int result \<times> 'w console" where
  "show_view cl section dm c = then_do (here (gui_view dm section) c) (\<lambda>v c. done_with 0 (say (json_text cl v) c))"

definition cli_intel :: "'w command" where
  "cli_intel cl args = with_runtime cl args (show_view cl (case args of [] \<Rightarrow> ''health'' | a # _ \<Rightarrow> a))"

definition cli_health :: "'w command" where
  "cli_health cl args = cli_intel cl (''health'' # install_flag args)"

text \<open>The words of a goal: the filter takes the option away before the loop that would take its value with it.\<close>

fun drop_option :: "string list \<Rightarrow> string list" where
  "drop_option [] = []"
| "drop_option (a # r) = (if a = ''--install-path'' then drop_option (drop 1 r) else a # drop_option r)"

definition goal_words :: "string list \<Rightarrow> string list" where
  "goal_words args = drop_option (filter (\<lambda>a. \<not> startswith a ''--install-path'') args)"

definition cli_goal :: "'w command" where
  "cli_goal cl args =
     with_runtime cl args (\<lambda>dm c.
       if goal_words args = [] then show_view cl ''goals'' dm c
       else then_do (here (ask_data dm ''process_goal'' [(''goal'', PStr (join_str '' '' (goal_words args))), (''tentative'', PBool False)]) c)
              (\<lambda>v c. done_with 0 (say (json_text cl v) c)))"

section \<open>The table of commands\<close>

text \<open>The bridge surface resolves the install without its arguments; the usage lines after the message are not repeated.\<close>

definition exec_env_of :: "'w cli \<Rightarrow> 'w launcher \<Rightarrow> 'w launcher exec_env" where
  "exec_env_of cl s =
     (let r = resolve_install_path (cl_env cl) (cl_float cl) None; i = (case r of Inl _ \<Rightarrow> [] | Inr p \<Rightarrow> p); h = cl_host cl i in
      \<lparr>xe_install = r, xe_online = lock_online h s, xe_version = cl_version cl,
       xe_heartbeat = (case cl_heartbeat cl i (la_world s) of None \<Rightarrow> PNone | Some v \<Rightarrow> v),
       xe_checks = (case cl_checks cl of Inl _ \<Rightarrow> [] | Inr ks \<Rightarrow> ks), xe_float = cl_float cl, xe_rpc = client h\<rparr>)"

definition cli_exec :: "'w command" where
  "cli_exec cl args c =
     then_do (here (\<lambda>s. exec_main (exec_env_of cl s) args s) c) (\<lambda>x c.
       done_with (int (xo_code x))
         ((case xo_usage x of None \<Rightarrow> c | Some m \<Rightarrow> complain (''[ERROR] '' @ m) c)\<lparr>co_docs := co_docs c @ xo_documents x\<rparr>))"

definition cli_help_lines :: "string list" where
  "cli_help_lines =
    [''Buster OS - AI-native phone node for TerminalP'',
     [],
     ''Usage: buster <command> [options]'',
     [],
     ''Consumer launch (the normal Buster experience):'',
     ''  launch             Start Buster and open its interface (recommended)'',
     [],
     ''Lifecycle (single runtime):'',
     ''  bootstrap          Offline install/init (never boots a kernel)'',
     ''  start              Bring the single runtime online (daemon)'',
     ''  status             Report runtime state (lock + heartbeat)'',
     ''  shell              Attach an interactive shell to the runtime'',
     ''  stop               Shut the runtime down cleanly'',
     [],
     ''Diagnostics:'',
     ''  doctor             Run environment health checks'',
     ''  version            Print the installed version'',
     [],
     ''Management (requires the single live runtime):'',
     ''  caps               List capabilities and actions'',
     ''  exec <op>          Typed bridge operation (status, services,'',
     ''                     capabilities, health, ping, present,'',
     ''                     service-start/-restart/-status <name>);'',
     ''                     JSON on stdout'',
     ''  run <action>       Invoke a capability action (k=v args)'',
     ''  grant <action>     Grant an action permission'',
     ''  deny <action>      Deny an action permission'',
     ''  config [key]       Read or set configuration'',
     ''  jobs [cancel <id>] List / cancel scheduler jobs'',
     ''  audit [limit]      Show audit trail'',
     ''  help               Show this help'',
     [],
     ''Options:'',
     ''  --install-path <dir>  Override the install directory'',
     []]"

definition cli_help :: "'w command" where
  "cli_help cl args c = done_with 0 (say_all cli_help_lines c)"

definition cli_commands :: "(string \<times> 'w command) list" where
  "cli_commands = [(''bootstrap'', cli_bootstrap), (''start'', cli_start), (''status'', cli_status), (''shell'', cli_shell), (''stop'', cli_stop),
     (''daemon'', cli_daemon), (''doctor'', cli_doctor), (''version'', cli_version), (''launch'', cli_launch), (''caps'', cli_caps),
     (''grant'', cli_grant), (''deny'', cli_deny), (''run'', cli_run), (''config'', cli_config), (''jobs'', cli_jobs), (''audit'', cli_audit),
     (''intel'', cli_intel), (''goal'', cli_goal), (''health'', cli_health), (''exec'', cli_exec), (''help'', cli_help)]"

definition dispatch_command :: "string \<Rightarrow> 'w command" where
  "dispatch_command command cl args c =
     (case map_of cli_commands command of
        None \<Rightarrow> then_do (cli_help cl args (complain (''[ERROR] Unknown command '' @ quoted command) c)) (\<lambda>_. done_with 2)
      | Some f \<Rightarrow> f cl args c)"

definition cli_main :: "'w cli \<Rightarrow> string list \<Rightarrow> 'w console \<Rightarrow> int result \<times> 'w console" where
  "cli_main cl argv c = (case argv of [] \<Rightarrow> dispatch_command ''help'' cl [] c | command # args \<Rightarrow> dispatch_command command cl args c)"

section \<open>What management can do to the runtime\<close>

lemma say_at [simp]: "co_at (say l c) = co_at c" "co_at (say_all ls c) = co_at c" "co_at (complain l c) = co_at c"
  by (simp_all add: say_def say_all_def complain_def)

lemma done_at [simp]: "snd (done_with n c) = c"
  by (simp add: done_with_def)

lemma here_at [simp]: "co_at (snd (here f c)) = snd (f (co_at c))" "fst (here f c) = fst (f (co_at c))"
  by (simp_all add: here_def Let_def case_prod_unfold)

lemma config_at [simp]: "co_at (snd (open_config cl i c)) = co_at c"
  by (simp add: open_config_def split: sum.split)

lemma entries_at [simp]: "co_at (snd (say_entries cl vs c)) = co_at c"
  by (induction vs arbitrary: c) (simp_all split: sum.split)

definition cli_ops :: "string \<Rightarrow> string set" where
  "cli_ops command =
     (if command = ''jobs'' then {''jobs'', ''jobs_cancel''} else if command = ''goal'' then {''intel'', ''process_goal''}
      else if command = ''run'' then {''call''} else if command = ''health'' then {''intel''}
      else if command \<in> {''caps'', ''grant'', ''deny'', ''audit'', ''intel''} then {command} else {})"

definition management :: "string set" where
  "management = {''caps'', ''grant'', ''deny'', ''run'', ''config'', ''jobs'', ''audit'', ''intel'', ''goal'', ''health'', ''version'', ''doctor'', ''help''}"

lemma install_keeps: "K c \<Longrightarrow> (\<And>i. K (snd (f i c))) \<Longrightarrow> K (snd (on_install cl args f c))"
  by (simp add: on_install_def split: sum.split)

lemma runtime_keeps:
  assumes "P (co_at c)" "\<And>i. P (co_at (snd (f (client (cl_host cl i)) c)))"
  shows "P (co_at (snd (with_runtime cl args f c)))"
  unfolding with_runtime_def using assms by (intro install_keeps [where K = "\<lambda>c. P (co_at c)"]) auto

lemma then_at:
  "P (co_at (snd m)) \<Longrightarrow> (\<And>a c. P (co_at c) \<Longrightarrow> P (co_at (snd (f a c)))) \<Longrightarrow> P (co_at (snd (then_do m f)))"
  by (rule then_do_keeps [where P = "\<lambda>c. P (co_at c)"]) auto

lemma dispatch_simps:
  "dispatch_command ''caps'' = cli_caps" "dispatch_command ''grant'' = cli_grant" "dispatch_command ''deny'' = cli_deny"
  "dispatch_command ''run'' = cli_run" "dispatch_command ''config'' = cli_config" "dispatch_command ''jobs'' = cli_jobs"
  "dispatch_command ''audit'' = cli_audit" "dispatch_command ''intel'' = cli_intel" "dispatch_command ''goal'' = cli_goal"
  "dispatch_command ''health'' = cli_health" "dispatch_command ''version'' = cli_version" "dispatch_command ''doctor'' = cli_doctor"
  "dispatch_command ''help'' = cli_help" "dispatch_command ''start'' = cli_start" "dispatch_command ''stop'' = cli_stop"
  "dispatch_command ''status'' = cli_status" "dispatch_command ''launch'' = cli_launch"
  by (simp_all add: fun_eq_iff dispatch_command_def cli_commands_def)

locale cli_user =
  fixes cl :: "'w cli" and ops :: "string set" and P :: "'w launcher \<Rightarrow> bool"
  assumes user: "daemon_user (client (cl_host cl i)) ops P"
begin

lemmas chain = then_at [where P = P]
lemmas online = runtime_keeps [where P = P]
lemmas asks = daemon_user.ask_keeps [OF user] daemon_user.view_keeps [OF user] daemon_user.call_keeps [OF user] daemon_user.keeps [OF user]

lemma caps_at: "''caps'' \<in> ops \<Longrightarrow> P (co_at c) \<Longrightarrow> P (co_at (snd (cli_caps cl args c)))"
  unfolding cli_caps_def by (intro online chain; simp add: asks)

lemma permit_at: "op \<in> ops \<Longrightarrow> P (co_at c) \<Longrightarrow> P (co_at (snd (permit op usage said cl args c)))"
  unfolding permit_def by (cases args; simp add: usage_error_def; intro online chain; simp add: asks)

lemma run_at: "''call'' \<in> ops \<Longrightarrow> P (co_at c) \<Longrightarrow> P (co_at (snd (cli_run cl args c)))"
  unfolding cli_run_def by (cases args; simp add: usage_error_def; intro online chain; simp add: asks)

lemma config_keeps: "P (co_at c) \<Longrightarrow> P (co_at (snd (cli_config cl args c)))"
  unfolding cli_config_def
  by (rule install_keeps [where K = "\<lambda>c. P (co_at c)"], assumption, rule chain)
    (simp, simp add: Let_def case_prod_unfold split: list.split sum.split)

lemma cancel_at: "''jobs_cancel'' \<in> ops \<Longrightarrow> P (co_at c) \<Longrightarrow> P (co_at (snd (cancel_job j (client (cl_host cl i)) c)))"
  unfolding cancel_job_def Let_def case_prod_unfold by (intro chain; simp add: asks)

lemma list_at: "''jobs'' \<in> ops \<Longrightarrow> P (co_at c) \<Longrightarrow> P (co_at (snd (list_jobs (client (cl_host cl i)) c)))"
  unfolding list_jobs_def by (intro chain; simp add: asks)

lemma jobs_at: "{''jobs'', ''jobs_cancel''} \<subseteq> ops \<Longrightarrow> P (co_at c) \<Longrightarrow> P (co_at (snd (cli_jobs cl args c)))"
  unfolding cli_jobs_def by (intro online; simp add: cancel_at list_at split: list.split)

lemma audit_at: "''audit'' \<in> ops \<Longrightarrow> P (co_at c) \<Longrightarrow> P (co_at (snd (cli_audit cl args c)))"
  unfolding cli_audit_def Let_def
  by (rule install_keeps [where K = "\<lambda>c. P (co_at c)"], assumption, rule chain, simp)
    (simp split: if_split, intro conjI impI; intro chain; simp add: asks)

lemma view_at: "''intel'' \<in> ops \<Longrightarrow> P (co_at c) \<Longrightarrow> P (co_at (snd (show_view cl section (client (cl_host cl i)) c)))"
  unfolding show_view_def by (intro chain; simp add: asks)

lemma intel_at: "''intel'' \<in> ops \<Longrightarrow> P (co_at c) \<Longrightarrow> P (co_at (snd (cli_intel cl args c)))"
  unfolding cli_intel_def by (intro online; simp add: view_at)

lemma goal_at: "{''intel'', ''process_goal''} \<subseteq> ops \<Longrightarrow> P (co_at c) \<Longrightarrow> P (co_at (snd (cli_goal cl args c)))"
  unfolding cli_goal_def
  by (rule online, assumption, cases "goal_words args = []"; simp add: view_at; intro chain; simp add: asks)

lemma doctor_at: "P (co_at c) \<Longrightarrow> P (co_at (snd (cli_doctor cl args c)))"
  unfolding cli_doctor_def Let_def by (intro chain; simp)

lemmas commands_at = caps_at permit_at run_at config_keeps jobs_at audit_at intel_at goal_at doctor_at

lemma dispatch_at:
  assumes "command \<in> management" "cli_ops command \<subseteq> ops" "P (co_at c)"
  shows "P (co_at (snd (dispatch_command command cl args c)))"
  using assms unfolding management_def
  by (elim insertE emptyE; simp add: dispatch_simps cli_ops_def commands_at cli_grant_def cli_deny_def cli_health_def cli_version_def cli_help_def)

end

interpretation no_deeds: cli_user cl UNIV "\<lambda>s. la_deeds s = d"
  by unfold_locales (simp add: client_def)


text \<open>A host that writes down what it is asked.\<close>

definition logging_host :: "string list launch_host" where
  "logging_host = \<lparr>lh_lock = \<lambda>_. Some 7, lh_alive = \<lambda>p _. p = 7, lh_self = 9,
     lh_rpc = \<lambda>op m t w. (Inr [(''ok'', PBool True), (''data'', PDict [])], w @ [op]), lh_pause = id, lh_polls = \<lambda>_. 3, lh_left = \<lambda>_. 1,
     lh_ping = \<lambda>p w. (None, w), lh_pid_file = \<lambda>_. None, lh_exited = \<lambda>_ _. True,
     lh_spawned = \<lambda>_. Inr 13, lh_do = \<lambda>_ w. w, lh_which = \<lambda>_ _. None, lh_run = \<lambda>_ w. (Inr (1, []), w), lh_popen = \<lambda>_ w. (Inr (), w)\<rparr>"

definition demo_cli :: "string list cli" where
  "demo_cli = \<lparr>cl_env = Config.demo_env, cl_float = \<lambda>_. [], cl_version = ''0.3.0'', cl_writable = True, cl_host = \<lambda>_. logging_host,
     cl_heartbeat = \<lambda>_ _. None, cl_since = \<lambda>_ _. [], cl_stamp = \<lambda>_. [], cl_audit = \<lambda>_ _. new_audit,
     cl_bootstrap = \<lambda>_ w. (Inr [], w), cl_daemon = \<lambda>_ s. (Inr 0, s), cl_repl = \<lambda>_ s. (Inr 0, s), cl_no_open = True, cl_checks = Inr []\<rparr>"

definition empty_console :: "string list console" where
  "empty_console = \<lparr>co_at = \<lparr>la_world = [], la_deeds = []\<rparr>, co_out = [], co_err = [], co_docs = [], co_files = \<lambda>_. Absent\<rparr>"


section \<open>Refusals and exit codes\<close>

text \<open>
  Without a runtime online at the install it names, a command that needs one sends nothing, starts nothing, prints nothing and
  ends with exit code 1, or 2 when it lacks its action. The start command runs a daemon only then: with a runtime online it
  touches nothing and ends with exit code 1.
\<close>

lemma cli_offline_refused:
  assumes "install_path cl args = Inr i" and "command \<in> {''caps'', ''grant'', ''deny'', ''run'', ''jobs'', ''intel'', ''goal'', ''shell''}"
  shows "if lock_online (cl_host cl i) (co_at c)
    then \<exists>l l'. dispatch_command ''start'' cl args c = (Inr 1, complain l' (complain l c))
    else \<exists>l. dispatch_command command cl args c = (Inr (if args = [] \<and> command \<in> {''grant'', ''deny'', ''run''} then 2 else 1), complain l c)"
proof (cases "lock_online (cl_host cl i) (co_at c)")
  case True
  then show ?thesis by (auto simp: dispatch_simps cli_start_def on_install_def assms(1) done_with_def Let_def)
next
  case False
  have d: "dispatch_command ''shell'' = cli_shell" by (simp add: fun_eq_iff dispatch_command_def cli_commands_def)
  show ?thesis
    using assms False
    by (elim insertE emptyE; cases args)
      (auto simp: dispatch_simps d cli_caps_def cli_grant_def cli_deny_def permit_def cli_run_def cli_jobs_def cli_intel_def cli_goal_def
        cli_shell_def usage_error_def with_runtime_def on_install_def done_with_def)
qed

lemma demo_resolves: "resolve_install_path Config.demo_env (\<lambda>_. []) None = Inr ''/h/.buster''" "resolve_install_path Config.demo_env (\<lambda>_. []) (Some ''/b'') = Inr ''/b''"
  by code_simp+

theorem cli_offline_refused_witness:
  "\<exists>l. dispatch_command ''grant'' (demo_cli\<lparr>cl_host := \<lambda>_. logging_host\<lparr>lh_lock := \<lambda>_. None\<rparr>\<rparr>) [''fs.read''] empty_console = (Inr 1, complain l empty_console)"
proof -
  let ?cl = "demo_cli\<lparr>cl_host := \<lambda>_. logging_host\<lparr>lh_lock := \<lambda>_. None\<rparr>\<rparr>"
  have "install_path ?cl [''fs.read''] = Inr ''/h/.buster''"
    by (simp add: install_path_def demo_cli_def demo_resolves)
  moreover have "\<not> lock_online (cl_host ?cl i) (co_at empty_console)" for i
    by (simp add: lock_online_def)
  ultimately show ?thesis using cli_offline_refused [of ?cl "[''fs.read'']" "''/h/.buster''" "''grant''" empty_console] by auto
qed

section \<open>Options taken for arguments\<close>

text \<open>The option of the grant is granted, not the action after it.\<close>

lemma option_granted:
  assumes "install_path cl [''--install-path'', d, a] = Inr i" "lock_online (cl_host cl i) (co_at c)"
  shows "cli_grant cl [''--install-path'', d, a] c =
    then_do (here (client (cl_host cl i) ''grant'' [(''action'', PStr ''--install-path'')]) c)
      (\<lambda>_ c. done_with 0 (say ''granted: --install-path'' c))"
  using assms by (simp add: cli_grant_def permit_def with_runtime_def on_install_def)

text \<open>A key read with the option after it is set to the name of the option.\<close>

lemma option_written:
  "fst (cli_config demo_cli [''ai.model'', ''--install-path'', ''/b''] empty_console) = Inr 0 \<and>
   co_files (snd (cli_config demo_cli [''ai.model'', ''--install-path'', ''/b''] empty_console)) ''/b/config/config.json'' =
     Stored (dput ''ai'' (PDict [(''model'', PStr ''--install-path'')]) (default_config ''/b''))"
proof -
  let ?g = "\<lparr>cf_path = ''/b/config/config.json'', cf_install = ''/b'', cf_data = default_config ''/b'', cf_disk = Stored (default_config ''/b'')\<rparr>"
  let ?d = "dput ''ai'' (PDict [(''model'', PStr ''--install-path'')]) (default_config ''/b'')"
  have a: "cf_init True Config.demo_env (\<lambda>_. []) (Some (config_file ''/b'')) (Some ''/b'') (\<lambda>_. Absent) = Inr ?g" by code_simp
  have b: "set_nested True ''ai.model'' (PStr ''--install-path'') ?g = (Inr (), ?g\<lparr>cf_data := ?d, cf_disk := Stored ?d\<rparr>)" by code_simp
  have c: "cli_coerce ''--install-path'' = PStr ''--install-path''" by code_simp
  show ?thesis
    by (simp add: cli_config_def on_install_def install_path_def demo_cli_def demo_resolves open_config_def empty_console_def a b c done_with_def
        say_def)
qed

text \<open>The path of the install becomes part of the goal; the form with an equals sign is dropped and names no install.\<close>

lemma path_in_goal: "\<not> startswith d ''--install-path'' \<Longrightarrow> goal_words [''--install-path'', d, ''go''] = [d, ''go'']"
  by (auto simp: goal_words_def startswith_def)

lemma equals_form_ignored: "goal_words [''--install-path=/b'', ''go''] = [''go''] \<and> install_option [''--install-path=/b'', ''go''] = None"
  by code_simp

section \<open>Arguments of a launch\<close>

definition launch_words :: "launch_opts \<Rightarrow> string list" where
  "launch_words p = (case lo_install p of None \<Rightarrow> [] | Some i \<Rightarrow> [''--install-path'', i]) @ [''--port'', str_of_int (lo_port p)] @
     (if lo_open p then [] else [''--no-open''])"

lemma port_read_back: "py_int_of (str_of_int n) = Some n"
proof (cases "n < 0")
  case True
  let ?s = "str_of_nat (nat (- n))"
  have d: "\<forall>c\<in>set ?s. is_digit c" by (rule str_of_nat_digits)
  moreover have "\<not> is_space (CHR ''-'')" by code_simp
  ultimately have "str_strip (CHR ''-'' # ?s) = CHR ''-'' # ?s"
    unfolding str_strip_def by (intro strip_chars_clean) (auto dest: digit_not_space)
  moreover have "digits_under False ?s = Some ?s" using d by (intro digits_under_plain) auto
  ultimately show ?thesis using True by (simp add: str_of_int_def py_int_of_def digits_val_str_of_nat)
qed (simp add: str_of_int_def py_int_of_str_of_nat)

text \<open>The options of a launch are read back from their words, whatever the install path is called.\<close>

lemma launch_args_read_back: "lo_remain p = [] \<Longrightarrow> launch_args (launch_words p) launch_defaults = Inr p"
  by (cases p; cases "lo_install p") (auto simp: launch_words_def launch_defaults_def launch_word_def port_read_back)

lemma coercions_agree: "cli_coerce = coerce"
  by (simp add: fun_eq_iff cli_coerce_def coerce_def)

end
