(* ===== verification/Release.thy ===== *)
theory Release
  imports Os_Files Targets Resolver
begin

text \<open>
  \<open>build_rootfs.py\<close>, and what it uses of \<open>osbuild/rootfs.py\<close> to put the Buster layer into the tree: how a release is built, package
  by package, and how the finished archive is checked. An archive is the list of entries that packing wrote (theory \<open>Rootfs\<close>); text is
  its bytes, which is the same to every check, as all they look for is ASCII. A check is its verdict; its detail text is left out.
\<close>

section \<open>The Buster layer\<close>

text \<open>
  \<open>install_buster\<close>. The copies of the source tree, and what they hold then, are arguments: directories with the names of the files in
  them, relative to the root, in the order of the walk.
\<close>

record 'h layer_source =
  ls_tree :: bool
  ls_web :: bool
  ls_copy :: "string \<Rightarrow> string \<Rightarrow> 'h \<Rightarrow> exc option \<times> 'h"
  ls_unify :: "'h \<Rightarrow> exc option \<times> 'h"
  ls_walk :: "(string \<times> string list) list"
  ls_web_walk :: "(string list \<times> string list) list"

definition record_tree :: "(string \<times> string list) list \<Rightarrow> 'h build \<Rightarrow> unit result \<times> 'h build" where
  "record_tree walk = steps (concat (map (\<lambda>(d, fs). rf_note d KDir m755 [] # map (\<lambda>n. rf_note (path_join d n) KFile m644 []) fs) walk))"

definition record_web :: "(string list \<times> string list) list \<Rightarrow> 'h build \<Rightarrow> unit result \<times> 'h build" where
  "record_web walk = steps (concat (map (\<lambda>(ds, fs). map (\<lambda>d. rf_note d KDir m755 []) ds @ map (\<lambda>f. rf_note f KFile m644 []) fs) walk))"

definition launcher_text :: "string \<Rightarrow> bytes" where
  "launcher_text arguments = text_lines [''#!/bin/sh'', ''exec /usr/bin/python3 -m '' @ arguments]"

definition all_args :: string where
  "all_args = '' '' @ [CHR 0x22] @ ''$@'' @ [CHR 0x22]"

definition launcher_files :: "(string \<times> bytes) list" where
  "launcher_files = [(''usr/bin/buster'', launcher_text (''buster.cli'' @ all_args)),
     (''usr/bin/busterctl'', launcher_text (''buster.system.busterctl'' @ all_args)),
     (''usr/bin/buster-gui'', launcher_text ''buster.gui.server --port 8468'')]"

definition logrotate_text :: bytes where
  "logrotate_text = text_lines [''/var/log/buster/*.log {'', ''    weekly'', ''    rotate 4'', ''    compress'', ''    missingok'',
     ''    notifempty'', ''}'']"

definition layer_dirs :: "string list" where
  "layer_dirs = [''var/lib/buster/state'', ''var/lib/buster/memory'', ''var/cache/buster'', ''var/log/buster'', ''run/buster'',
     ''opt/buster/bin'', ''home/buster'', ''srv/buster'']"

definition copy_tree :: "'h layer_source \<Rightarrow> string \<Rightarrow> 'h build \<Rightarrow> unit result \<times> 'h build" where
  "copy_tree ls src = with_path ''opt/buster/lib'' (\<lambda>p. host_do (ls_copy ls (path_join src ''buster'') (path_join p ''buster'')))"

definition install_web :: "'h layer_source \<Rightarrow> string \<Rightarrow> 'h build \<Rightarrow> unit result \<times> 'h build" where
  "install_web ls src =
     (if \<not> ls_web ls then steps []
      else steps [with_path ''usr/share/buster-gui'' (\<lambda>p. host_do (ls_copy ls (path_join src ''buster/gui/web'') p)),
             rf_note ''usr/share/buster-gui'' KDir m755 [], record_web (ls_web_walk ls)])"

definition install_runtime :: "'h layer_source \<Rightarrow> string \<Rightarrow> 'h build \<Rightarrow> unit result \<times> 'h build" where
  "install_runtime ls src =
     (if \<not> ls_tree ls then steps [] else steps [copy_tree ls src, host_do (ls_unify ls), record_tree (ls_walk ls)])"

definition install_buster :: "'h host \<Rightarrow> 'h layer_source \<Rightarrow> string \<Rightarrow> string \<Rightarrow> string \<Rightarrow> 'h build \<Rightarrow> unit result \<times> 'h build" where
  "install_buster hs ls src version install_path = steps
     ([make_dirs hs ''opt/buster/lib'', install_runtime ls src, make_dirs hs ''usr/lib/python3/dist-packages'',
       write_metadata hs ''usr/lib/python3/dist-packages/buster.pth'' (text_lines [''/opt/buster/lib'']) m644,
       write_buster_services hs, write_buster_config hs install_path, write_buster_identity hs version] @
      map (make_dirs hs) layer_dirs @ map (\<lambda>(p, t). write_metadata hs p t m755) launcher_files @
      [install_web ls src, write_metadata hs ''etc/profile.d/buster.sh'' buster_profile_sh m644,
       write_metadata hs ''etc/logrotate.d/buster'' logrotate_text m644])"

section \<open>Building\<close>

definition base_seeds :: "string list" where
  "base_seeds = [''base-files'', ''base-passwd'', ''libc6'', ''libgcc-s1'', ''bash'', ''coreutils'', ''dash'', ''diffutils'', ''findutils'',
     ''grep'', ''sed'', ''gzip'', ''tar'', ''dpkg'', ''apt'', ''apt-utils'', ''login'', ''passwd'', ''debconf'', ''debconf-i18n'', ''mount'',
     ''util-linux'', ''procps'', ''psmisc'', ''hostname'', ''debianutils'', ''netbase'', ''lsb-release'', ''ca-certificates'', ''gnupg'',
     ''locales'', ''python3'', ''python3-minimal'', ''python3-pip'', ''git'', ''curl'', ''sudo'', ''tzdata'', ''less'', ''nano'', ''man-db'',
     ''openssl'', ''openssh-server'', ''iproute2'', ''iputils-ping'', ''e2fsprogs'']"

text \<open>\<open>fetch_index\<close>: an index that cannot be had or read is left out. The two names are the same for \<open>all\<close>, and a dictionary has one of them.\<close>

definition index_url :: "string \<Rightarrow> string \<Rightarrow> string \<Rightarrow> string" where
  "index_url mirror distro arch = rstrip_chars is_slash mirror @ ''/dists/'' @ distro @ ''/main/binary-'' @ arch @ ''/Packages.gz''"

definition fetch_index :: "(string \<Rightarrow> string result) \<Rightarrow> string \<Rightarrow> string \<Rightarrow> string \<Rightarrow> package_record list sdict" where
  "fetch_index fetch mirror arch distro =
     fold (\<lambda>a d. case fetch (index_url mirror distro a) of
         Inl _ \<Rightarrow> d
       | Inr t \<Rightarrow> (case parse_packages t of Inl _ \<Rightarrow> d | Inr rs \<Rightarrow> dput a rs d)) [arch, ''all''] []"

definition resolve_closure :: "package_record list \<Rightarrow> string \<Rightarrow> package_record list result" where
  "resolve_closure records arch = resolve (new_resolver records arch) base_seeds"

definition select_packages :: "package_record list sdict \<Rightarrow> string \<Rightarrow> string \<Rightarrow> package_record list result" where
  "select_packages indexes mirror arch =
     (let records = concat (dvals indexes) in
      if records = [] then Inl (Exc ''RuntimeError'' (''no package index available from '' @ mirror @ '' for '' @ arch))
      else (case resolve_closure records arch of
              Inl e \<Rightarrow> if exc_type e = ''KeyError''
                then Inl (Exc ''RuntimeError'' (''dependency resolution failed for '' @ arch @ '': '' @ repr_str (exc_msg e))) else Inl e
            | Inr rs \<Rightarrow> Inr rs))"

text \<open>
  What a package brings: \<open>fetch\<close> downloads, \<open>md5\<close> is the digest, \<open>unpack\<close> gives the control data and the payload of an archive
  that parses (theory \<open>Deb\<close>). A digest that differs is noted and nothing else.
\<close>

record 'h build_log =
  bl_contents :: "deb_content option sdict"
  bl_manifest :: "pyval sdict list"
  bl_warned :: "string list"

definition manifest_row :: "package_record \<Rightarrow> pyval sdict" where
  "manifest_row r = [(''name'', PStr (pk_package r)), (''version'', PStr (pk_version r)), (''architecture'', PStr (pk_architecture r)),
     (''filename'', PStr (pk_filename r)), (''md5'', PStr (pk_md5sum r)), (''size'', PInt (pk_size r))]"

definition package_url :: "string \<Rightarrow> package_record \<Rightarrow> string" where
  "package_url mirror r = rstrip_chars is_slash mirror @ ''/'' @ lstrip_chars is_slash (pk_filename r)"

definition warn_digest :: "(bytes \<Rightarrow> string) \<Rightarrow> package_record \<Rightarrow> bytes \<Rightarrow> 'h build_log \<Rightarrow> 'h build_log" where
  "warn_digest md5 r raw l = (if pk_md5sum r \<noteq> [] \<and> md5 raw \<noteq> pk_md5sum r then l\<lparr>bl_warned := bl_warned l @ [pk_package r]\<rparr> else l)"

definition install_one :: "'h host \<Rightarrow> (string \<Rightarrow> bytes result) \<Rightarrow> (bytes \<Rightarrow> string) \<Rightarrow> (bytes \<Rightarrow> (deb_content \<times> tar_member list) result) \<Rightarrow> string \<Rightarrow>
    package_record \<Rightarrow> 'h build_log \<Rightarrow> 'h build \<Rightarrow> 'h build_log result \<times> 'h build" where
  "install_one hs fetch md5 unpack mirror r l b =
     (if pk_filename r = [] then (Inr l, b)
      else (case fetch (package_url mirror r) of
              Inl e \<Rightarrow> (Inl e, b)
            | Inr raw \<Rightarrow>
                (case unpack raw of
                   Inl e \<Rightarrow> (Inl e, b)
                 | Inr (content, members) \<Rightarrow>
                     (case install_payload hs members b of
                        (Inl e, b') \<Rightarrow> (Inl e, b')
                      | (Inr installed, b') \<Rightarrow>
                          (let l = warn_digest md5 r raw l in
                           (Inr (l\<lparr>bl_contents := dput (pk_package r) (Some (content\<lparr>dc_payload := installed\<rparr>)) (bl_contents l),
                                   bl_manifest := bl_manifest l @ [manifest_row r]\<rparr>), b'))))))"

fun install_packages :: "'h host \<Rightarrow> (string \<Rightarrow> bytes result) \<Rightarrow> (bytes \<Rightarrow> string) \<Rightarrow> (bytes \<Rightarrow> (deb_content \<times> tar_member list) result) \<Rightarrow> string \<Rightarrow>
    package_record list \<Rightarrow> 'h build_log \<Rightarrow> 'h build \<Rightarrow> 'h build_log result \<times> 'h build" where
  "install_packages hs fetch md5 unpack mirror [] l b = (Inr l, b)"
| "install_packages hs fetch md5 unpack mirror (r # rs) l b =
     (case install_one hs fetch md5 unpack mirror r l b of
        (Inl e, b') \<Rightarrow> (Inl e, b')
      | (Inr l', b') \<Rightarrow> install_packages hs fetch md5 unpack mirror rs l' b')"

definition empty_log :: "'h build_log" where
  "empty_log = \<lparr>bl_contents = [], bl_manifest = [], bl_warned = []\<rparr>"

record build_args =
  ba_arch :: string
  ba_distro :: string
  ba_mirror :: string
  ba_security :: string
  ba_source :: string
  ba_limit :: nat

definition used_records :: "nat \<Rightarrow> package_record list \<Rightarrow> package_record list" where
  "used_records limit rs = (if limit = 0 then rs else take limit rs)"

text \<open>\<open>_build_arch_in\<close> up to the finished tree.\<close>

definition finish_tree :: "'h host \<Rightarrow> 'h layer_source \<Rightarrow> build_args \<Rightarrow> string \<Rightarrow> package_record list \<Rightarrow> 'h build_log \<Rightarrow> 'h build \<Rightarrow> unit result \<times> 'h build" where
  "finish_tree hs ls a version used l = steps
     [write_dpkg_state hs used (bl_contents l), write_base_config hs (ba_distro a) (ba_mirror a) (ba_security a) ''busteros'',
      write_passwd_db hs, write_os_release hs version, install_buster hs ls (ba_source a) version ''/var/lib/buster'']"

definition build_tree :: "'h host \<Rightarrow> 'h layer_source \<Rightarrow> (string \<Rightarrow> string result) \<Rightarrow> (string \<Rightarrow> bytes result) \<Rightarrow> (bytes \<Rightarrow> string) \<Rightarrow>
    (bytes \<Rightarrow> (deb_content \<times> tar_member list) result) \<Rightarrow> build_args \<Rightarrow> string \<Rightarrow> 'h build \<Rightarrow> 'h build_log result \<times> 'h build" where
  "build_tree hs ls fetch_text fetch md5 unpack a version b =
     (case build_layout hs b of
        (Inl e, b) \<Rightarrow> (Inl e, b)
      | (Inr _, b) \<Rightarrow>
          (case select_packages (fetch_index fetch_text (ba_mirror a) (ba_arch a) (ba_distro a)) (ba_mirror a) (ba_arch a) of
             Inl e \<Rightarrow> (Inl e, b)
           | Inr selected \<Rightarrow>
               (let used = used_records (ba_limit a) selected in
                case install_packages hs fetch md5 unpack (ba_mirror a) used empty_log b of
                  (Inl e, b) \<Rightarrow> (Inl e, b)
                | (Inr l, b) \<Rightarrow> (case finish_tree hs ls a version used l b of (Inl e, b) \<Rightarrow> (Inl e, b) | (Inr _, b) \<Rightarrow> (Inr l, b)))))"

section \<open>Checks of the archive\<close>

type_synonym checks = "bool sdict"

definition archive_index :: "tar_entry list \<Rightarrow> tar_entry sdict" where
  "archive_index tar = fold (\<lambda>e d. dput (rstrip_chars is_slash (te_name e)) e d) tar []"

definition archived :: "tar_entry list \<Rightarrow> string \<Rightarrow> tar_entry option" where
  "archived tar rel = (case dget (archive_index tar) rel of None \<Rightarrow> None | Some e \<Rightarrow> if te_kind e = KFile then Some e else None)"

definition archived_bytes :: "tar_entry list \<Rightarrow> string \<Rightarrow> bytes" where
  "archived_bytes tar rel = (case archived tar rel of None \<Rightarrow> [] | Some e \<Rightarrow> te_data e)"

definition buster_launchers :: "string list" where
  "buster_launchers = [''usr/bin/buster'', ''usr/bin/busterctl'', ''usr/bin/buster-gui'']"

definition buster_text_files :: "string list" where
  "buster_text_files = [''etc/init.d/buster'', ''etc/profile.d/buster.sh'', ''etc/buster/config.json'', ''etc/buster/buster.env'',
     ''usr/share/buster/identity.json'', ''usr/share/buster/VERSION'']"

definition buster_entry_modules :: "string list" where
  "buster_entry_modules = [''opt/buster/lib/buster/cli/__main__.py'', ''opt/buster/lib/buster/gui/__main__.py'',
     ''opt/buster/lib/buster/gui/server.py'', ''opt/buster/lib/buster/system/busterctl.py'']"

definition buster_exec_modules :: "string list" where
  "buster_exec_modules = [''opt/buster/lib/buster/exec.py'', ''opt/buster/lib/buster/cli/commands.py'', ''opt/buster/lib/buster/runtime.py'']"

definition buster_exec_markers :: "string list" where
  "buster_exec_markers = [''SERVICE_NAME = re.compile'', ''READ_VERBS = ('', ''SERVICE_VERBS = ('', ''PRESENT_VERB = '',
     ''def is_valid_service_name'', ''def exec_main'']"

definition buster_exec_verbs :: "string list" where
  "buster_exec_verbs = [''status'', ''services'', ''capabilities'', ''health'', ''ping'', ''service-start'', ''service-restart'',
     ''service-status'', ''present'']"

definition buster_exec_passthrough :: "string list" where
  "buster_exec_passthrough = [''os.system'', ''os.popen'', ''subprocess'', ''shlex'', ''shell=True'', ''eval('', ''exec('']"

definition dquoted :: "string \<Rightarrow> string" where
  "dquoted s = CHR 0x22 # s @ [CHR 0x22]"

definition buster_exec_rpc_ops :: "string list" where
  "buster_exec_rpc_ops = [''op == '' @ dquoted ''services'', ''op in ('' @ dquoted ''service_start'' @ '', '' @ dquoted ''service_restart'' @ '')'']"

fun drop_crlf :: "bytes \<Rightarrow> bytes" where
  "drop_crlf (a # b # s) = (if a = CHR 0x0D \<and> b = CHR 0x0A then drop_crlf s else a # drop_crlf (b # s))"
| "drop_crlf s = s"

definition lf_only :: "bytes \<Rightarrow> bool" where
  "lf_only raw \<longleftrightarrow> \<not> (contains raw [CHR 0x0D, CHR 0x0A] \<or> CHR 0x0D \<in> set (drop_crlf raw))"

definition first_line :: "bytes \<Rightarrow> bytes" where
  "first_line raw = takeWhile (\<lambda>c. c \<noteq> CHR 0x0A) raw"

definition pinned_path :: "bytes \<Rightarrow> bool" where
  "pinned_path raw \<longleftrightarrow> contains raw ''/var/lib/buster'' \<or> contains raw ''--install-path'' \<or> contains raw ''BUSTER_INSTALL=''"

definition perm_bits :: "int \<Rightarrow> int" where
  "perm_bits m = m mod 512"

definition launcher_checks :: "tar_entry list \<Rightarrow> string \<Rightarrow> checks \<Rightarrow> checks" where
  "launcher_checks tar rel d =
     (let m = archived tar rel; raw = archived_bytes tar rel in
      dput (''launcher:no-hardcoded-path:'' @ rel) (\<not> pinned_path raw)
     (dput (''launcher:mode:'' @ rel) (case m of None \<Rightarrow> False | Some e \<Rightarrow> perm_bits (te_mode e) = m755)
     (dput (''launcher:shebang:'' @ rel) (first_line raw = ''#!/bin/sh'')
     (dput (''launcher:lf-only:'' @ rel) (lf_only raw)
     (dput (''launcher:present:'' @ rel) (m \<noteq> None \<and> raw \<noteq> []) d)))))"

definition text_checks :: "tar_entry list \<Rightarrow> string \<Rightarrow> checks \<Rightarrow> checks" where
  "text_checks tar rel d =
     (case archived tar rel of None \<Rightarrow> d | Some e \<Rightarrow> dput (''text:lf-only:'' @ rel) (CHR 0x0D \<notin> set (te_data e)) d)"

definition config_check :: "tar_entry list \<Rightarrow> checks \<Rightarrow> checks" where
  "config_check tar = dput ''config:canonical-install'' (archived tar ''etc/buster/config.json'' \<noteq> None \<and>
     contains (archived_bytes tar ''etc/buster/config.json'') (dquoted ''install_path'') \<and>
     contains (archived_bytes tar ''etc/buster/config.json'') ''/var/lib/buster'')"

definition entry_checks :: "tar_entry list \<Rightarrow> string \<Rightarrow> checks \<Rightarrow> checks" where
  "entry_checks tar rel d =
     (case archived tar rel of
        None \<Rightarrow> dput (''entry:present:'' @ rel) False d
      | Some e \<Rightarrow> if contains (te_data e) ''sys.exit(''
          then dput (''entry:sys-import:'' @ rel) (''import sys'' \<in> set (split_char (CHR 0x0A) (te_data e))) d else d)"

definition exec_checks :: "tar_entry list \<Rightarrow> string \<Rightarrow> checks \<Rightarrow> checks" where
  "exec_checks tar rel d =
     (let d = dput (''exec:present:'' @ rel) (archived tar rel \<noteq> None \<and> archived_bytes tar rel \<noteq> []) d in
      case archived tar rel of None \<Rightarrow> d | Some e \<Rightarrow> dput (''exec:lf-only:'' @ rel) (CHR 0x0D \<notin> set (te_data e)) d)"

definition parser_checks :: "bytes \<Rightarrow> checks \<Rightarrow> checks" where
  "parser_checks parser d =
     dput ''exec:no-passthrough'' (list_all (\<lambda>c. \<not> contains parser c) buster_exec_passthrough)
     (dput ''exec:closed-vocabulary'' (list_all (\<lambda>v. contains parser (dquoted v)) buster_exec_verbs)
     (dput ''exec:parser-markers'' (list_all (contains parser) buster_exec_markers) d))"

text \<open>\<open>re.search\<close> of the version assignment: the first place where it is found.\<close>

definition either_quote :: "char \<Rightarrow> bool" where
  "either_quote c \<longleftrightarrow> c = CHR 0x22 \<or> c = CHR 0x27"

definition version_here :: "string \<Rightarrow> string option" where
  "version_here s =
     (if \<not> startswith s ''__version__'' then None
      else (case lstrip_chars is_space (drop 11 s) of
              [] \<Rightarrow> None
            | c # r \<Rightarrow>
                if c \<noteq> CHR ''='' then None
                else (case lstrip_chars is_space r of
                        [] \<Rightarrow> None
                      | q # t \<Rightarrow>
                          (let v = takeWhile (\<lambda>c. \<not> either_quote c) t in
                           if either_quote q \<and> v \<noteq> [] \<and> v \<noteq> t then Some v else None))))"

fun declared_version :: "string \<Rightarrow> string option" where
  "declared_version [] = None"
| "declared_version (c # s) = (case version_here (c # s) of Some v \<Rightarrow> Some v | None \<Rightarrow> declared_version s)"

definition release_symlink :: "tar_entry list \<Rightarrow> bool" where
  "release_symlink tar =
     (case dget (archive_index tar) ''etc/os-release'' of
        None \<Rightarrow> False | Some e \<Rightarrow> if te_kind e = KSymlink then te_link e = ''../usr/lib/os-release'' else True)"

definition identity_checks :: "string \<Rightarrow> tar_entry list \<Rightarrow> checks \<Rightarrow> checks" where
  "identity_checks version tar d =
     (let os = archived_bytes tar ''usr/lib/os-release'' in
      dput ''identity:archive-os-release-symlink'' (release_symlink tar)
     (dput ''identity:archive-os-release'' (contains os ''ID=busteros'' \<and> contains os (''VERSION_ID='' @ dquoted version))
     (dput ''identity:archive-VERSION-file'' (str_strip (archived_bytes tar ''usr/share/buster/VERSION'') = version)
     (dput ''identity:archive-version'' (declared_version (archived_bytes tar ''opt/buster/lib/buster/version.py'') = Some version) d))))"

definition verify_buster_layer :: "string \<Rightarrow> tar_entry list option \<Rightarrow> checks" where
  "verify_buster_layer version artifact =
     (case artifact of
        None \<Rightarrow> fold (\<lambda>rel. dput (''launcher:present:'' @ rel) False) buster_launchers []
      | Some tar \<Rightarrow>
          (let d = config_check tar (fold (text_checks tar) buster_text_files (fold (launcher_checks tar) buster_launchers []));
               d = fold (exec_checks tar) buster_exec_modules (fold (entry_checks tar) buster_entry_modules d);
               d = parser_checks (archived_bytes tar ''opt/buster/lib/buster/exec.py'') d;
               d = dput ''exec:verb-registered'' (contains (archived_bytes tar ''opt/buster/lib/buster/cli/commands.py'') (dquoted ''exec'' @ '': cmd_exec'')) d;
               d = dput ''exec:rpc-ops'' (list_all (contains (archived_bytes tar ''opt/buster/lib/buster/runtime.py'')) buster_exec_rpc_ops) d
           in identity_checks version tar d))"

section \<open>Unix metadata of the archive\<close>

text \<open>\<open>read_tar_member_index\<close> leaves out names of slashes only. An architecture without a loader name raises IndexError when there is a member.\<close>

definition member_index :: "tar_entry list \<Rightarrow> (node_kind \<times> int) sdict" where
  "member_index tar = fold (\<lambda>e d. let n = rstrip_chars is_slash (te_name e) in if n = [] then d else dput n (te_kind e, te_mode e) d) tar []"

definition index_entry :: "(node_kind \<times> int) sdict \<Rightarrow> string \<Rightarrow> (node_kind \<times> int) option" where
  "index_entry ix n = (case dget ix n of Some v \<Rightarrow> Some v | None \<Rightarrow> dget ix (''./'' @ n))"

definition any_exec :: "int \<Rightarrow> bool" where
  "any_exec m \<longleftrightarrow> odd m \<or> odd (m div 8) \<or> odd (m div 64)"

definition found_entries :: "(node_kind \<times> int) sdict \<Rightarrow> string list \<Rightarrow> (node_kind \<times> int) list" where
  "found_entries ix ns = concat (map (\<lambda>n. case index_entry ix n of None \<Rightarrow> [] | Some v \<Rightarrow> [v]) ns)"

definition exec_probes :: "string list" where
  "exec_probes = [''usr/bin/bash'', ''usr/bin/ls'', ''bin/bash'', ''bin/ls'', ''usr/bin/python3'', ''usr/bin/dpkg'', ''usr/bin/apt-get'',
     ''usr/bin/git'', ''usr/bin/curl'']"

definition data_probes :: "string list" where
  "data_probes = [''etc/passwd'', ''etc/os-release'', ''usr/lib/os-release'', ''etc/apt/sources.list'']"

definition dir_probes :: "string list" where
  "dir_probes = [''usr/bin'', ''etc'', ''usr'', ''tmp'', ''root'', ''var/lib/buster'']"

definition alias_probes :: "string list" where
  "alias_probes = [''bin'', ''sbin'', ''lib'']"

definition loader_exec :: "arch_meta \<Rightarrow> (node_kind \<times> int) sdict \<Rightarrow> bool result" where
  "loader_exec meta ix =
     (case am_loaders meta of
        [] \<Rightarrow> if ix = [] then Inr False else Inl (Exc ''IndexError'' ''list index out of range'')
      | l # _ \<Rightarrow> Inr (case find (\<lambda>e. endswith (fst e) l) ix of None \<Rightarrow> False | Some (_, _, m) \<Rightarrow> any_exec m))"

definition verify_tar_metadata :: "arch_meta \<Rightarrow> tar_entry list option \<Rightarrow> checks result" where
  "verify_tar_metadata meta artifact =
     (case artifact of
        None \<Rightarrow> Inr []
      | Some tar \<Rightarrow>
          (let ix = member_index tar in
           case loader_exec meta ix of
             Inl e \<Rightarrow> Inl e
           | Inr le \<Rightarrow> Inr [
               (''tar:executables'', list_all (\<lambda>e. any_exec (snd e)) (found_entries ix exec_probes)),
               (''tar:loader-exec'', le),
               (''tar:non-executables'', list_all (\<lambda>e. fst e = KFile \<longrightarrow> \<not> any_exec (snd e)) (found_entries ix data_probes)),
               (''tar:directories'', list_all (\<lambda>e. fst e = KDir \<and> odd (snd e div 64)) (found_entries ix dir_probes)),
               (''tar:merged-usr-symlinks'', list_all (\<lambda>e. fst e = KSymlink) (found_entries ix alias_probes))]))"

section \<open>The dynamic loader\<close>

text \<open>
  \<open>_is_loader_name\<close>: a name the architecture lists, or \<open>ld-\<close>, an optional part that ends in a dash, a version of digits and dots that
  starts with a digit, \<open>.so\<close>, and optionally a dot and a number; a line feed at the very end is let through, as \<open>$\<close> does.
\<close>

definition loader_char :: "char \<Rightarrow> bool" where
  "loader_char c \<longleftrightarrow> is_digit c \<or> (97 \<le> code c \<and> code c \<le> 122) \<or> c \<in> {CHR ''.'', CHR ''_'', CHR ''-''}"

definition so_number :: "string \<Rightarrow> bool" where
  "so_number s \<longleftrightarrow> s = [] \<or> (hd s = CHR ''.'' \<and> tl s \<noteq> [] \<and> list_all is_digit (tl s))"

definition loader_tail :: "string \<Rightarrow> bool" where
  "loader_tail s \<longleftrightarrow> s \<noteq> [] \<and> is_digit (hd s) \<and>
     list_ex (\<lambda>n. list_all (\<lambda>c. is_digit c \<or> c = CHR ''.'') (take n s) \<and> startswith (drop n s) ''.so'' \<and> so_number (drop (n + 3) s))
       [1..<Suc (length s)]"

definition loader_rest :: "string \<Rightarrow> bool" where
  "loader_rest s \<longleftrightarrow> loader_tail s \<or>
     list_ex (\<lambda>n. list_all loader_char (take n s) \<and> s ! n = CHR ''-'' \<and> loader_tail (drop (Suc n) s)) [0..<length s]"

definition loader_pattern :: "string \<Rightarrow> bool" where
  "loader_pattern s \<longleftrightarrow> startswith s ''ld-'' \<and> (let r = drop 3 s in loader_rest r \<or> (r \<noteq> [] \<and> last r = CHR 0x0A \<and> loader_rest (butlast r)))"

definition is_loader_name :: "string \<Rightarrow> arch_meta \<Rightarrow> bool" where
  "is_loader_name name meta \<longleftrightarrow> name \<in> set (am_loaders meta) \<or> loader_pattern (str_lower name)"

text \<open>The staged tree: what is there, what a file holds, and what a walk of a directory lists, in the order of sorted names.\<close>

record staged =
  sg_exists :: "string \<Rightarrow> bool"
  sg_file :: "string \<Rightarrow> bool"
  sg_text :: "string \<Rightarrow> string"
  sg_bytes :: "string \<Rightarrow> bytes"
  sg_walk :: "string \<Rightarrow> (string \<times> string list) list option"

fun first_loader :: "arch_meta \<Rightarrow> (string \<times> string list) list \<Rightarrow> string option" where
  "first_loader meta [] = None"
| "first_loader meta ((d, fs) # ws) =
     (case find (\<lambda>n. is_loader_name n meta) (sort fs) of Some n \<Rightarrow> Some (path_join d n) | None \<Rightarrow> first_loader meta ws)"

fun loader_in :: "staged \<Rightarrow> arch_meta \<Rightarrow> string list \<Rightarrow> string option" where
  "loader_in g meta [] = None"
| "loader_in g meta (t # ts) =
     (case sg_walk g t of
        None \<Rightarrow> loader_in g meta ts
      | Some w \<Rightarrow> (case first_loader meta w of Some p \<Rightarrow> Some p | None \<Rightarrow> loader_in g meta ts))"

definition find_loader :: "staged \<Rightarrow> arch_meta \<Rightarrow> string option" where
  "find_loader g meta = loader_in g meta [''lib64'', ''lib'', deb_lib_dir meta]"

definition loader_names :: "arch_meta \<Rightarrow> tar_entry list \<Rightarrow> string list" where
  "loader_names meta tar = map te_name (filter (\<lambda>e. path_basename (rstrip_chars is_slash (te_name e)) \<in> set (am_loaders meta)) tar)"

section \<open>All checks\<close>

definition required_paths :: "string list" where
  "required_paths = [''etc/os-release'', ''etc/passwd'', ''etc/group'', ''etc/shadow'', ''etc/nsswitch.conf'', ''etc/hosts'', ''etc/fstab'',
     ''etc/apt/sources.list'', ''usr/bin/dpkg'', ''usr/bin/apt-get'', ''var/lib/dpkg/status'', ''usr/lib/os-release'',
     ''opt/buster/lib/buster/version.py'', ''home/buster'', ''var/lib/buster'', ''run/buster'', ''tmp'', ''dev'', ''proc'', ''sys'', ''root'',
     ''bin'', ''sbin'', ''lib'']"

definition elf_check :: "staged \<Rightarrow> arch_meta \<Rightarrow> string \<Rightarrow> bool" where
  "elf_check g meta p = (case parse_elf (sg_bytes g p) of None \<Rightarrow> False | Some h \<Rightarrow> elf_matches h (am_elf_machine meta) (am_elf_class meta))"

definition bash_path :: "staged \<Rightarrow> string option" where
  "bash_path g = find (sg_file g) [''usr/bin/bash'', ''bin/bash'', ''usr/bin/bash3'']"

definition package_db_checks :: "string \<Rightarrow> string \<Rightarrow> checks \<Rightarrow> checks" where
  "package_db_checks arch status d =
     fold (\<lambda>p. dput (''packages:'' @ p) (contains status (''Package: '' @ p))) [''coreutils'', ''python3'', ''git'']
       (dput ''dpkg:arch-present'' (contains status (''Architecture: '' @ arch) \<or> contains status (arch @ '' '')) d)"

definition loader_checks :: "staged \<Rightarrow> arch_meta \<Rightarrow> tar_entry list option \<Rightarrow> checks \<Rightarrow> checks" where
  "loader_checks g meta artifact d =
     (let d = dput ''loader:present'' (find_loader g meta \<noteq> None) d;
          d = (case find_loader g meta of None \<Rightarrow> d | Some p \<Rightarrow> dput ''loader:elf'' (elf_check g meta p) d);
          d = dput ''loader:artifact-symlink'' (case artifact of None \<Rightarrow> True | Some tar \<Rightarrow> loader_names meta tar \<noteq> []) d
      in case bash_path g of None \<Rightarrow> d | Some p \<Rightarrow> dput ''bash:elf'' (elf_check g meta p) d)"

definition verify_rootfs :: "string \<Rightarrow> staged \<Rightarrow> arch_meta \<Rightarrow> tar_entry list option \<Rightarrow> checks result" where
  "verify_rootfs version g meta artifact =
     (let d = fold (\<lambda>p. dput (''exists:'' @ p) (sg_exists g p)) required_paths [];
          d = loader_checks g meta artifact (package_db_checks (am_token meta) (sg_text g ''var/lib/dpkg/status'') d);
          os = sg_text g ''etc/os-release'';
          d = dput ''identity:ID_LIKE-debian'' (contains os ''ID_LIKE'') (dput ''identity:busteros'' (contains os ''ID=busteros'') d);
          d = dput ''buster:installed'' (sg_file g ''opt/buster/lib/buster/version.py'') d;
          d = dput ''tooling:dpkg'' (sg_file g ''usr/bin/dpkg'') d
      in map_sum id (dmerge (dmerge d (verify_buster_layer version artifact))) (verify_tar_metadata meta artifact))"

definition passed :: "checks \<Rightarrow> nat" where
  "passed d = length (filter id (dvals d))"

text \<open>The artifact, its manifest and its report are written whatever the checks say; the exit code says whether all passed.\<close>

definition build_exit :: "checks result \<Rightarrow> int" where
  "build_exit r = (case r of Inl _ \<Rightarrow> 2 | Inr d \<Rightarrow> if length d = passed d then 0 else 1)"

definition artifact_name :: "string \<Rightarrow> string \<Rightarrow> string \<Rightarrow> string" where
  "artifact_name version arch distro = ''buster-os-'' @ version @ ''-'' @ arch @ ''-'' @ distro @ ''.tar.gz''"

definition build_checks :: "'h host \<Rightarrow> 'h layer_source \<Rightarrow> (string \<Rightarrow> string result) \<Rightarrow> (string \<Rightarrow> bytes result) \<Rightarrow> (bytes \<Rightarrow> string) \<Rightarrow>
    (bytes \<Rightarrow> (deb_content \<times> tar_member list) result) \<Rightarrow> ('h \<Rightarrow> tree) \<Rightarrow> ('h \<Rightarrow> staged) \<Rightarrow> build_args \<Rightarrow> string \<Rightarrow> string \<Rightarrow> 'h \<Rightarrow> checks result" where
  "build_checks hs ls fetch_text fetch md5 unpack look_tree look_staged a version r h =
     (case arch_lookup arch_table (ba_arch a) of
        Inl e \<Rightarrow> Inl e
      | Inr meta \<Rightarrow>
          (case build_tree hs ls fetch_text fetch md5 unpack a version (new_rootfs ''/'' r (ba_arch a), h) of
             (Inl e, _) \<Rightarrow> Inl e
           | (Inr l, (rf, h)) \<Rightarrow>
               (case pack_tree rf (look_tree h) 0 0 of
                  Inl e \<Rightarrow> Inl e
                | Inr tar \<Rightarrow> verify_rootfs version (look_staged h) meta (Some tar))))"

section \<open>The merged directories survive the build\<close>

definition alias_names :: "string set" where
  "alias_names = {''bin'', ''sbin'', ''lib''}"

definition aliased :: "rootfs \<Rightarrow> bool" where
  "aliased rf \<longleftrightarrow> (\<forall>a\<in>alias_names. dget (snd (overlay_of rf)) a = Some (KSymlink, ''usr/'' @ a))"

definition keeps_aliases :: "('h build \<Rightarrow> 'a result \<times> 'h build) \<Rightarrow> bool" where
  "keeps_aliases f \<longleftrightarrow> (\<forall>b u b'. f b = (Inr u, b') \<longrightarrow> aliased (fst b) \<longrightarrow> aliased (fst b'))"

lemma aliasesD: "keeps_aliases f \<Longrightarrow> f b = (Inr u, b') \<Longrightarrow> aliased (fst b) \<Longrightarrow> aliased (fst b')"
  unfolding keeps_aliases_def by blast

definition record_key :: "string \<Rightarrow> string" where
  "record_key rel = map (\<lambda>c. if c = CHR 0x5C then CHR ''/'' else c) (strip_chars is_slash rel)"

lemma record_links:
  "kind = KDir \<or> kind = KFile \<or> record_key rel \<notin> alias_names \<Longrightarrow> a \<in> alias_names \<Longrightarrow>
    dget (snd (spec_record rel kind mode link ov)) a = dget (snd ov) a"
  by (auto simp: spec_record_def record_key_def Let_def case_prod_unfold)

lemma alias_chars: "a \<in> alias_names \<Longrightarrow> a \<noteq> [] \<and> CHR ''/'' \<notin> set a \<and> hd a \<noteq> CHR ''u''"
  by (auto simp: alias_names_def)

lemma strip_twice: "strip_chars p (strip_chars p x) = strip_chars p x"
proof (cases "strip_chars p x = []")
  case False
  let ?y = "lstrip_chars p x"
  have r: "rev (strip_chars p x) = dropWhile p (rev ?y)" by (simp add: strip_chars_def rstrip_chars_def)
  with False have "\<not> p (last (strip_chars p x))"
    by (metis hd_dropWhile hd_rev rev_is_Nil_conv)
  moreover have "\<not> p (hd (strip_chars p x))"
  proof -
    have "\<exists>zs. ?y = strip_chars p x @ zs"
      using r by (metis append_Nil2 rev_append rev_rev_ident takeWhile_dropWhile_id)
    then have "hd (strip_chars p x) = hd ?y" using False by auto
    moreover have "?y \<noteq> []" using False r by auto
    ultimately show ?thesis unfolding lstrip_chars_def by (metis hd_dropWhile)
  qed
  ultimately show ?thesis using False by (intro strip_chars_id)
next
  case True
  have "strip_chars p [] = []" by (simp add: strip_chars_def lstrip_chars_def rstrip_chars_def)
  with True show ?thesis by simp
qed

text \<open>A path out of a package is never recorded under an alias: what is below one goes below \<open>usr\<close>.\<close>

lemma normalized_key: "record_key (rf_normalize x) \<notin> alias_names"
proof
  let ?s = "strip_chars is_slash x" and ?r = "rf_normalize x"
  assume k: "record_key ?r \<in> alias_names"
  then have "CHR ''/'' \<notin> set (record_key ?r)" "record_key ?r \<noteq> []" using alias_chars by blast+
  then have s: "strip_chars is_slash ?r = record_key ?r"
    by (auto simp: record_key_def intro!: map_idI [symmetric] split: if_splits)
  show False
  proof (cases "hd (split_char (CHR ''/'') ?s) \<in> {''bin'', ''sbin'', ''lib'', ''lib64''}")
    case True
    then have "\<exists>t. ?r = CHR ''u'' # t"
      by (cases "split_char (CHR ''/'') ?s") (auto simp: rf_normalize_def Let_def)
    then obtain t where t: "?r = CHR ''u'' # t" by blast
    then have "\<exists>t'. strip_chars is_slash ?r = CHR ''u'' # t'"
      by (auto simp: strip_chars_def lstrip_chars_def rstrip_chars_def is_slash_def dropWhile_append) (metis rev_rev_ident)
    then have "hd (record_key ?r) = CHR ''u''" unfolding s [symmetric] by fastforce
    with k alias_chars show False by blast
  next
    case False
    then have "?r = ?s" by (simp add: rf_normalize_def Let_def split_char_join)
    moreover have "strip_chars is_slash ?s = ?s"
      by (rule strip_twice)
    ultimately have "?s \<in> alias_names" using s k by simp
    then have "split_char (CHR ''/'') ?s = [?s]" "?s \<in> alias_names" using alias_chars by (simp_all add: split_char_free)
    with False show False by (auto simp: alias_names_def)
  qed
qed

lemma member_aliased: "keeps_aliases (install_member hs m)"
proof -
  have "dget (snd (spec_member ov m)) a = dget (snd ov) a" if "a \<in> alias_names" for ov a
    using that normalized_key [of "clean_name (tm_name m)"]
    by (cases "tm_type m") (auto simp: spec_member_def Let_def record_links)
  then show ?thesis unfolding keeps_aliases_def aliased_def using member_refines by metis
qed

lemma payload_aliased: "keeps_aliases (install_payload hs ms)"
proof (induction ms)
  case (Cons m ms)
  with member_aliased [of hs m] show ?case
    unfolding keeps_aliases_def by (fastforce split: prod.splits sum.splits)
qed (simp add: keeps_aliases_def)

lemma host_aliased [intro]: "keeps_aliases (host_do f)"
  by (auto simp: keeps_aliases_def aliased_def dest: overlay_host_do)

lemma chmod_aliased [intro]: "keeps_aliases (rf_chmod hs rel mode)"
  by (auto simp: keeps_aliases_def aliased_def dest: overlay_chmod)

lemma note_aliased [intro]: "kind = KDir \<or> kind = KFile \<or> record_key rel \<notin> alias_names \<Longrightarrow> keeps_aliases (rf_note rel kind mode link)"
  by (auto simp: keeps_aliases_def aliased_def record_links dest: overlay_note)

lemma steps_aliased [intro]: "(\<And>f. f \<in> set fs \<Longrightarrow> keeps_aliases f) \<Longrightarrow> keeps_aliases (steps fs)"
proof (induction fs)
  case (Cons f fs)
  then have "keeps_aliases f" "keeps_aliases (steps fs)" by auto
  then show ?case unfolding keeps_aliases_def by (fastforce split: prod.splits sum.splits)
qed (simp add: keeps_aliases_def)

lemma path_aliased [intro]: "(\<And>p. keeps_aliases (f p)) \<Longrightarrow> keeps_aliases (with_path rel f)"
  by (auto simp: keeps_aliases_def with_path_def split: sum.splits)

lemma metadata_aliased [intro]: "keeps_aliases (write_metadata hs rel data mode)"
  unfolding write_metadata_def by (intro path_aliased steps_aliased) auto

lemma dirs_aliased [intro]: "keeps_aliases (make_dirs hs rel)"
  unfolding make_dirs_def by (intro steps_aliased) auto

lemma walks_aliased: "keeps_aliases (record_tree walk)" "keeps_aliases (record_web web)"
proof -
  show "keeps_aliases (record_tree walk)"
    unfolding record_tree_def by (rule steps_aliased) (auto intro!: note_aliased)
  show "keeps_aliases (record_web web)"
    unfolding record_web_def by (rule steps_aliased) (auto intro!: note_aliased)
qed

lemma layer_parts:
  "keeps_aliases (install_runtime ls src)" "keeps_aliases (install_web ls src)" "keeps_aliases (write_buster_services hs)"
  "keeps_aliases (write_buster_config hs install_path)"
proof -
  show "keeps_aliases (install_runtime ls src)"
    unfolding install_runtime_def copy_tree_def
    by (cases "ls_tree ls"; simp; rule steps_aliased; auto intro!: path_aliased host_aliased walks_aliased)
  show "keeps_aliases (install_web ls src)"
    unfolding install_web_def
    by (cases "ls_web ls"; simp; rule steps_aliased; auto intro!: path_aliased host_aliased walks_aliased note_aliased)
  show "keeps_aliases (write_buster_services hs)" "keeps_aliases (write_buster_config hs install_path)"
    unfolding write_buster_services_def write_buster_config_def by (rule steps_aliased, auto)+
qed

lemma per_state: "(\<And>b. keeps_aliases (f b)) \<Longrightarrow> keeps_aliases (\<lambda>b. f b b)"
  by (simp add: keeps_aliases_def)

lemma identity_aliased: "keeps_aliases (write_buster_identity hs version)"
proof -
  have "keeps_aliases (\<lambda>b. write_buster_identity hs version b)"
    unfolding write_buster_identity_def by (rule per_state, rule steps_aliased) auto
  then show ?thesis by simp
qed

lemma layer_aliased: "keeps_aliases (install_buster hs ls src version install_path)"
  unfolding install_buster_def by (rule steps_aliased) (auto intro: layer_parts identity_aliased)

lemma config_aliased: "keeps_aliases (write_base_config hs distro mirror sec name)"
proof -
  have "keeps_aliases (\<lambda>b. write_base_config hs distro mirror sec name b)"
    unfolding write_base_config_def by (rule per_state, rule steps_aliased) auto
  then show ?thesis by simp
qed

lemma passwd_aliased: "keeps_aliases (write_passwd_db hs)"
proof -
  have "keeps_aliases (write_passwd hs)" "keeps_aliases (write_group hs)"
    unfolding write_passwd_def write_group_def by auto
  moreover have "keeps_aliases (write_shadow hs)"
    unfolding write_shadow_def by (rule path_aliased) (rule per_state [where f = "\<lambda>b. write_metadata hs rel (g b) m" for g rel m], rule metadata_aliased)
  ultimately show ?thesis unfolding write_passwd_db_def by (intro steps_aliased) auto
qed

lemma link_or_copy_aliased: "keeps_aliases (link_or_copy hs data p)"
proof -
  have k: "record_key ''etc/os-release'' \<notin> alias_names" by code_simp
  have n: "keeps_aliases (rf_note ''etc/os-release'' KSymlink m777 ''../usr/lib/os-release'')"
    using k by (intro note_aliased) simp
  have s: "keeps_aliases (steps [host_do (h_write hs p data), rf_note ''etc/os-release'' KFile m644 []])"
    by (rule steps_aliased) auto
  show ?thesis
    unfolding keeps_aliases_def
  proof (intro allI impI)
    fix b u b' assume e: "link_or_copy hs data p b = (Inr u, b')" and a: "aliased (fst b)"
    obtain r h' where h: "h_symlink hs ''../usr/lib/os-release'' p (snd b) = (r, h')" by fastforce
    show "aliased (fst b')"
    proof (cases r)
      case None
      then show ?thesis using aliasesD [OF n, of "(fst b, h')"] e a h by (simp add: link_or_copy_def)
    next
      case (Some x)
      then show ?thesis using aliasesD [OF s, of "(fst b, h')"] e a h
        by (simp add: link_or_copy_def del: steps.simps split: if_splits)
    qed
  qed
qed

lemma choice_aliased: "keeps_aliases f \<Longrightarrow> keeps_aliases (\<lambda>b. if c b then f b else (Inr (), b))"
  by (auto simp: keeps_aliases_def)

lemma release_aliased: "keeps_aliases (write_os_release hs version)"
proof -
  have t: "keeps_aliases (host_try f)" for f :: "'a \<Rightarrow> exc option \<times> 'a"
    by (auto simp: keeps_aliases_def aliased_def dest: overlay_host_try)
  have "keeps_aliases (\<lambda>b. if h_lexists hs p (snd b) then host_try (h_unlink hs p) b else (Inr (), b))" for p
    by (rule choice_aliased, rule t)
  then have "keeps_aliases (steps [(\<lambda>b. if h_lexists hs p (snd b) then host_try (h_unlink hs p) b else (Inr (), b)),
      link_or_copy hs (os_release version ''busteros'') p])" for p
    by (intro steps_aliased) (auto intro: link_or_copy_aliased)
  moreover have "keeps_aliases (with_path ''usr/lib/os-release'' (\<lambda>p. steps [host_do (h_makedirs hs (path_dirname p)),
      host_do (h_write hs p (os_release version ''busteros'')), rf_note ''usr/lib/os-release'' KFile m644 []]))"
    by (rule path_aliased, rule steps_aliased) auto
  ultimately show ?thesis unfolding write_os_release_def by (intro steps_aliased) auto
qed

lemma info_aliased: "keeps_aliases (write_info hs rc)"
  unfolding write_info_def Let_def case_prod_unfold by (rule path_aliased, rule steps_aliased) (auto split: if_splits)

lemma absent_aliased: "keeps_aliases (write_if_absent hs rel)"
  unfolding write_if_absent_def by (rule path_aliased) (auto simp: keeps_aliases_def dest: aliasesD [OF metadata_aliased])

lemma status_aliased: "keeps_aliases (with_path ''var/lib/dpkg/status'' (\<lambda>p b. case t of Inl e \<Rightarrow> (Inl e, b) | Inr x \<Rightarrow> host_do (h_write hs p x) b))"
  by (rule path_aliased) (cases t, auto simp: keeps_aliases_def dest: aliasesD [OF host_aliased])

lemma dpkg_aliased: "keeps_aliases (write_dpkg_state hs selected contents)"
proof -
  have "keeps_aliases (\<lambda>b. write_dpkg_state hs selected contents b)"
    unfolding write_dpkg_state_def Let_def
    by (rule per_state, rule steps_aliased) (auto simp: info_aliased absent_aliased status_aliased)
  then show ?thesis by simp
qed

lemma finish_aliased: "keeps_aliases (finish_tree hs ls a version used l)"
  unfolding finish_tree_def
  by (rule steps_aliased) (auto simp: dpkg_aliased config_aliased passwd_aliased release_aliased layer_aliased)

lemma steps_append_ok: "steps (fs @ gs) b = (Inr (), b'') \<longleftrightarrow> (\<exists>b'. steps fs b = (Inr (), b') \<and> steps gs b' = (Inr (), b''))"
  by (induction fs arbitrary: b) (auto split: prod.splits sum.splits)

lemma link_host_overlay:
  assumes "with_path l (\<lambda>p b. if h_lexists hs p (snd b) then (Inr (), b)
         else (case h_symlink hs t p (snd b) of
                 (None, h') \<Rightarrow> (Inr (), (fst b, h'))
               | (Some e, h') \<Rightarrow> if os_error e then host_do (h_makedirs hs p) (fst b, h') else (Inl e, (fst b, h')))) b = (Inr u, b')"
  shows "overlay_of (fst b') = overlay_of (fst b)"
proof (cases "rf_path (fst b) l")
  case (Inr p)
  obtain r h' where h: "h_symlink hs t p (snd b) = (r, h')" by fastforce
  show ?thesis
    using assms Inr h by (cases r; cases "h_lexists hs p (snd b)") (auto simp: with_path_def split: if_splits dest: overlay_host_do)
qed (use assms in \<open>simp add: with_path_def\<close>)

lemma link_made:
  assumes "make_link hs (l, t) b = (Inr u, b')"
  shows "snd (overlay_of (fst b')) = dput (record_key l) (KSymlink, t) (snd (overlay_of (fst b)))"
proof -
  obtain c where c: "rf_note l KSymlink m777 t b = (Inr (), c)" "overlay_of (fst b') = overlay_of (fst c)"
    using assms unfolding make_link_def by (auto simp: steps_ok steps_Nil_ok simp del: steps.simps dest!: link_host_overlay)
  have "overlay_of (fst c) = spec_record l KSymlink m777 t (overlay_of (fst b))"
    using overlay_note [OF c(1)] by simp
  with c(2) show ?thesis by (simp add: spec_record_def record_key_def Let_def case_prod_unfold)
qed

lemma layout_aliased:
  assumes "build_layout hs b = (Inr u, b')"
  shows "aliased (fst b')"
proof -
  obtain c where "steps (map (make_link hs) (merged_links (rf_arch (fst b)))) c = (Inr (), b')"
    using assms by (auto simp: build_layout_def steps_append_ok)
  then obtain b1 b2 b3 where s: "make_link hs (''bin'', ''usr/bin'') c = (Inr (), b1)" "make_link hs (''sbin'', ''usr/sbin'') b1 = (Inr (), b2)"
      "make_link hs (''lib'', ''usr/lib'') b2 = (Inr (), b3)"
      "b' = b3 \<or> make_link hs (''lib64'', ''usr/lib64'') b3 = (Inr (), b')"
    by (auto simp: merged_links_def steps_ok steps_Nil_ok simp del: steps.simps split: if_splits)
  have k: "record_key ''bin'' = ''bin''" "record_key ''sbin'' = ''sbin''" "record_key ''lib'' = ''lib''" "record_key ''lib64'' = ''lib64''"
    by code_simp+
  have "aliased (fst b3)"
    using s(1-3)[THEN link_made] by (simp add: aliased_def alias_names_def k)
  with s(4) show ?thesis by (auto simp: aliased_def alias_names_def k dest!: link_made)
qed

lemma packages_aliased: "keeps_aliases (install_packages hs fetch md5 unpack mirror rs l)"
proof (induction rs arbitrary: l)
  case (Cons r rs)
  have "keeps_aliases (install_one hs fetch md5 unpack mirror r l)"
    unfolding keeps_aliases_def install_one_def
    by (auto simp: Let_def split: if_splits sum.splits prod.splits dest: aliasesD [OF payload_aliased])
  with Cons.IH show ?case unfolding keeps_aliases_def by (fastforce split: prod.splits sum.splits)
qed (simp add: keeps_aliases_def)

lemma filter_one: "distinct (map f xs) \<Longrightarrow> x \<in> set xs \<Longrightarrow> f x = k \<Longrightarrow> filter (\<lambda>y. f y = k) xs = [x]"
proof (induction xs)
  case (Cons y ys)
  show ?case
  proof (cases "f y = k")
    case True
    then have "filter (\<lambda>z. f z = k) ys = []" using Cons.prems(1) by (auto simp: filter_empty_conv) (metis image_eqI)
    with True Cons.prems show ?thesis by (auto, metis image_eqI)
  qed (use Cons in auto)
qed simp

text \<open>
  C38. Whatever packages a build installs, and whatever the staging host refuses, the archive of a build that
  succeeds holds exactly one entry for each of \<open>bin\<close>, \<open>sbin\<close> and \<open>lib\<close>, and it is the symbolic link into \<open>usr\<close> that the layout
  recorded: no package replaces a merged directory.
\<close>

theorem merged_usr_survives:
  assumes "build_layout hs b = (Inr u, b1)" and "install_packages hs fetch md5 unpack mirror rs l0 b1 = (Inr l, b2)"
    and "finish_tree hs ls a version used l b2 = (Inr v, (rf, h))"
    and "pack_tree rf t uid gid = Inr tar" "names_ok t" and "n \<in> alias_names"
  shows "\<exists>e. filter (\<lambda>x. te_name x = n) tar = [e] \<and> te_kind e = KSymlink \<and> te_link e = ''usr/'' @ n"
proof -
  have link: "dget (rf_links rf) n = Some (KSymlink, ''usr/'' @ n)"
    using aliasesD [OF finish_aliased assms(3)] aliasesD [OF packages_aliased assms(2)] layout_aliased [OF assms(1)] assms(6)
    by (simp add: aliased_def overlay_of_def)
  then have "n \<in> set (dkeys (rf_links rf))" by (metis dget_None_iff option.distinct(1))
  then have "n \<in> set (map te_name tar)" using packed_tar_ok [OF assms(4,5)] by blast
  then obtain e where e: "e \<in> set tar" "te_name e = n" by auto
  then have "filter (\<lambda>x. te_name x = n) tar = [e]"
    using packed_tar_ok [OF assms(4,5)] by (intro filter_one) auto
  moreover have "entry_ok rf e" using packed_tar_ok [OF assms(4,5)] e(1) by (auto simp: list_all_iff)
  ultimately show ?thesis using e(2) link by (auto simp: entry_ok_def)
qed

definition willing_host :: "nat host" where
  "willing_host = \<lparr>h_makedirs = (\<lambda>p n. (None, n)), h_chmod = (\<lambda>p m n. (None, n)), h_lexists = (\<lambda>p n. False),
     h_symlink = (\<lambda>t p n. (None, n)), h_unlink = (\<lambda>p n. (None, n)), h_write = (\<lambda>p d n. (None, n + 1)), h_read = (\<lambda>p n. None)\<rparr>"

definition no_source :: "nat layer_source" where
  "no_source = \<lparr>ls_tree = False, ls_web = False, ls_copy = (\<lambda>a b n. (None, n)), ls_unify = (\<lambda>n. (None, n)), ls_walk = [], ls_web_walk = []\<rparr>"

definition demo_args :: build_args where
  "demo_args = \<lparr>ba_arch = ''arm64'', ba_distro = ''bookworm'', ba_mirror = ''http://m'', ba_security = ''http://s'', ba_source = ''/src'', ba_limit = 0\<rparr>"

text \<open>On a host that does everything, a statement whose paths stay below the root ends well, whatever the tree holds.\<close>

definition below :: "string \<Rightarrow> bool" where
  "below rel = (case rf_path (new_rootfs ''/'' ''/r'' ''arm64'') rel of Inl _ \<Rightarrow> False | Inr _ \<Rightarrow> True)"

definition ends_well :: "(nat build \<Rightarrow> unit result \<times> nat build) \<Rightarrow> bool" where
  "ends_well f \<longleftrightarrow> (\<forall>b. rf_root (fst b) = ''/r'' \<longrightarrow> (\<exists>b'. f b = (Inr (), b') \<and> rf_root (fst b') = ''/r''))"

lemma below_path: "below rel \<Longrightarrow> rf_root rf = ''/r'' \<Longrightarrow> \<exists>p. rf_path rf rel = Inr p"
proof -
  have r: "rf_root (new_rootfs ''/'' ''/r'' ''arm64'') = ''/r''" by code_simp
  assume "below rel" "rf_root rf = ''/r''"
  then show ?thesis using r by (auto simp: below_def rf_path_def Let_def split: if_splits)
qed

lemma ends_steps: "(\<And>f. f \<in> set fs \<Longrightarrow> ends_well f) \<Longrightarrow> ends_well (steps fs)"
proof (induction fs)
  case (Cons f fs)
  then have f: "ends_well f" and fs: "ends_well (steps fs)" by auto
  show ?case
    unfolding ends_well_def
  proof (intro allI impI)
    fix b :: "nat build" assume "rf_root (fst b) = ''/r''"
    then obtain c where c: "f b = (Inr (), c)" "rf_root (fst c) = ''/r''" using f unfolding ends_well_def by blast
    then show "\<exists>b'. steps (f # fs) b = (Inr (), b') \<and> rf_root (fst b') = ''/r''" using fs [unfolded ends_well_def, rule_format, OF c(2)] by auto
  qed
qed (simp add: ends_well_def)

lemma ends_path: "below rel \<Longrightarrow> (\<And>p. ends_well (f p)) \<Longrightarrow> ends_well (with_path rel f)"
  unfolding ends_well_def with_path_def using below_path by fastforce

lemma ends_basic:
  "ends_well (host_do (h_makedirs willing_host p))" "ends_well (host_do (h_write willing_host p d))" "ends_well (rf_note rel kind mode link)"
  "below rel \<Longrightarrow> ends_well (rf_chmod willing_host rel mode)"
  using below_path
  by (auto simp: ends_well_def host_do_def rf_note_def rf_chmod_def rf_record_def willing_host_def Let_def) fastforce+

lemma ends_metadata: "below rel \<Longrightarrow> ends_well (write_metadata willing_host rel d m)"
  unfolding write_metadata_def by (rule ends_path, assumption, rule ends_steps) (auto simp: ends_basic)

lemma ends_dirs: "below rel \<Longrightarrow> ends_well (make_dirs willing_host rel)"
  unfolding make_dirs_def by (rule ends_steps) (auto simp: ends_basic intro: ends_path)

definition build_paths :: "string list" where
  "build_paths = [''usr/lib/python3/dist-packages/buster.pth'', ''opt/buster/lib'', ''usr/lib/python3/dist-packages'',
     ''etc/systemd/system/buster.service'', ''etc/init.d/buster'', ''etc/buster'', ''etc/buster/config.json'', ''etc/buster/buster.env'',
     ''usr/share/buster'', ''usr/share/buster/VERSION'', ''usr/share/buster/identity.json'', ''etc/profile.d/buster.sh'', ''etc/logrotate.d/buster'',
     ''usr/lib/os-release'', ''etc/os-release'', ''etc/issue'', ''etc/passwd'', ''etc/group'', ''etc/shadow'', ''etc/hostname'', ''etc/hosts'',
     ''etc/nsswitch.conf'', ''etc/fstab'', ''etc/apt/sources.list'', ''etc/default/locale'', ''etc/timezone'', ''etc/environment'',
     ''etc/skel/.profile'', ''var/lib/dpkg/arch'', ''var/lib/dpkg/diversions'', ''var/lib/dpkg/statoverride'', ''var/lib/dpkg/status''] @
     layer_dirs @ dpkg_dirs @ map fst launcher_files"

lemma below_paths: "list_all below build_paths"
  by code_simp

lemma belowI: "p \<in> set build_paths \<Longrightarrow> below p"
  using below_paths by (simp add: list_all_iff)

lemmas ends_here = ends_metadata [OF belowI] ends_dirs [OF belowI] ends_path [OF belowI] ends_basic(1,2,3) ends_steps

lemma per_state_ends: "(\<And>c. ends_well (f c)) \<Longrightarrow> ends_well (\<lambda>b. f b b)"
  by (simp add: ends_well_def)

lemma ends_release: "ends_well (write_os_release willing_host v)"
proof -
  have l: "link_or_copy willing_host d p = rf_note ''etc/os-release'' KSymlink m777 ''../usr/lib/os-release''" for d p
    by (simp add: fun_eq_iff link_or_copy_def willing_host_def)
  have c: "(\<lambda>b. if h_lexists willing_host p (snd b) then host_try (h_unlink willing_host p) b else (Inr (), b)) = steps []" for p
    by (simp add: fun_eq_iff willing_host_def)
  show ?thesis
    unfolding write_os_release_def l c
    by (rule ends_steps) (auto simp: build_paths_def intro!: ends_here)
qed

lemma ends_layer: "ends_well (install_buster willing_host no_source src v i)"
proof -
  have n: "ends_well (\<lambda>b. write_buster_identity willing_host v b)"
    unfolding write_buster_identity_def
    by (rule per_state_ends, rule ends_steps) (auto simp: build_paths_def intro!: ends_here)
  have "ends_well (write_buster_services willing_host)" "ends_well (write_buster_config willing_host i)"
    "ends_well (install_runtime no_source src)" "ends_well (install_web no_source src)"
    unfolding write_buster_services_def write_buster_config_def install_runtime_def install_web_def no_source_def
    by (auto simp: build_paths_def intro!: ends_here)
  with n show ?thesis
    unfolding install_buster_def
    by (intro ends_steps) (auto simp: build_paths_def launcher_files_def intro!: ends_here)
qed

lemma ends_finish: "ends_well (finish_tree willing_host no_source a v [] l)"
proof -
  have d: "ends_well (\<lambda>b. write_dpkg_state willing_host [] c b)" for c
    unfolding write_dpkg_state_def Let_def with_content_def
  proof (rule per_state_ends, rule ends_steps)
    fix e :: "nat build" and f
    have h: "write_if_absent willing_host rel = write_metadata willing_host rel [] m644" if "below rel" for rel
      by (auto simp: fun_eq_iff write_if_absent_def write_metadata_def with_path_def willing_host_def split: sum.split)
    assume "f \<in> set (map (make_dirs willing_host) dpkg_dirs @
        [write_metadata willing_host ''var/lib/dpkg/arch'' (rf_arch (fst e) @ [CHR 0x0A]) m644,
         write_if_absent willing_host ''var/lib/dpkg/diversions'', write_if_absent willing_host ''var/lib/dpkg/statoverride'',
         with_path ''var/lib/dpkg/status'' (\<lambda>p b.
           case status_text (concat (map (\<lambda>r. case dgetd c (pk_package r) None of None \<Rightarrow> [] | Some c \<Rightarrow> [(r, c)]) [])) of Inl e \<Rightarrow> (Inl e, b)
           | Inr t \<Rightarrow> host_do (h_write willing_host p t) b)] @
        map (write_info willing_host) (concat (map (\<lambda>r. case dgetd c (pk_package r) None of None \<Rightarrow> [] | Some c \<Rightarrow> [(r, c)]) [])) @
        [rf_note ''var/lib/dpkg/status'' KFile m644 []])"
    then show "ends_well f"
      by (auto simp: build_paths_def h belowI intro!: ends_here)
  qed
  have w: "ends_well (write_passwd willing_host)" "ends_well (write_group willing_host)"
    unfolding write_passwd_def write_group_def by (auto simp: build_paths_def intro!: ends_here)
  have "ends_well (write_shadow willing_host)"
    unfolding write_shadow_def
    by (rule ends_path, rule belowI, simp add: build_paths_def,
        rule per_state_ends [where f = "\<lambda>b. write_metadata willing_host rel (g b) m" for g rel m], rule ends_metadata, rule belowI, simp add: build_paths_def)
  with w have p: "ends_well (write_passwd_db willing_host)"
    unfolding write_passwd_db_def by (intro ends_steps) auto
  have c: "ends_well (\<lambda>b. write_base_config willing_host x y z n b)" for x y z n
    unfolding write_base_config_def
    by (rule per_state_ends, rule ends_steps) (auto simp: build_paths_def intro!: ends_here)
  show ?thesis
    unfolding finish_tree_def using d c p by (intro ends_steps) (auto simp: ends_release ends_layer)
qed

lemma base_below: "list_all below (map fst base_dirs @ [''bin'', ''sbin'', ''lib''])"
  by code_simp

lemma ends_layout: "\<exists>b'. build_layout willing_host (new_rootfs ''/'' ''/r'' ''arm64'', 0) = (Inr (), b') \<and> rf_root (fst b') = ''/r''"
proof -
  have d: "ends_well (make_dir willing_host (rel, m))" if "below rel" for rel m
    using that unfolding make_dir_def by (simp, intro ends_steps) (auto simp: ends_basic intro: ends_path)
  have l: "ends_well (make_link willing_host (rel, t))" if "below rel" for rel t
  proof -
    have "(\<lambda>p b. if h_lexists willing_host p (snd b) then (Inr (), b)
         else (case h_symlink willing_host t p (snd b) of
                 (None, h') \<Rightarrow> (Inr (), (fst b, h'))
               | (Some e, h') \<Rightarrow> if os_error e then host_do (h_makedirs willing_host p) (fst b, h') else (Inl e, (fst b, h')))) = (\<lambda>p. steps [])"
      by (simp add: fun_eq_iff willing_host_def)
    moreover have "ends_well (with_path rel (\<lambda>p. steps []))" using that by (intro ends_path ends_steps) auto
    ultimately show ?thesis unfolding make_link_def by (simp, intro ends_steps) (auto simp: ends_basic)
  qed
  have "ends_well (steps (map (make_dir willing_host) base_dirs @ map (make_link willing_host) (merged_links ''arm64'')))"
    using base_below by (intro ends_steps) (auto simp: merged_links_def list_all_iff intro!: d l)
  moreover have "rf_root (new_rootfs ''/'' ''/r'' ''arm64'') = ''/r''" "rf_arch (new_rootfs ''/'' ''/r'' ''arm64'') = ''arm64''" by code_simp+
  ultimately show ?thesis by (simp add: build_layout_def ends_well_def)
qed

theorem merged_usr_survives_witness:
  "\<exists>rf tar e. pack_tree rf (TDir []) 0 0 = Inr tar \<and> filter (\<lambda>x. te_name x = ''bin'') tar = [e] \<and> te_link e = ''usr/bin''"
proof -
  let ?b = "(new_rootfs ''/'' ''/r'' ''arm64'', 0)"
  obtain b1 where b1: "build_layout willing_host ?b = (Inr (), b1)" "rf_root (fst b1) = ''/r''" using ends_layout by blast
  obtain rf h where f: "finish_tree willing_host no_source demo_args ''1'' [] empty_log b1 = (Inr (), (rf, h))"
    using ends_finish b1(2) unfolding ends_well_def by fastforce
  obtain tar where t: "pack_tree rf (TDir []) 0 0 = Inr tar" by (simp add: pack_tree_def pack_here_def)
  have "install_packages willing_host (\<lambda>_. Inr []) (\<lambda>_. []) (\<lambda>_. Inl (Exc [] [])) [] [] empty_log b1 = (Inr empty_log, b1)" by simp
  from merged_usr_survives [OF b1(1) this f t, of "''bin''"] t show ?thesis
    by (auto simp: alias_names_def)
qed

section \<open>Checks that say too little\<close>

text \<open>A digest that differs changes the warnings and nothing else: the package is installed.\<close>

lemma tampered_installed:
  "map_sum id (bl_warned_update (\<lambda>_. [])) (fst (install_one hs fetch md5 unpack mirror r l b)) =
   map_sum id (bl_warned_update (\<lambda>_. [])) (fst (install_one hs fetch md5' unpack mirror r l b))"
  by (simp add: install_one_def warn_digest_def Let_def split: sum.split prod.split)

text \<open>The first matching name is the link in \<open>lib64\<close>, whose mode is always 0777; an archive without any program passes.\<close>

lemma metadata_vacuous:
  "verify_tar_metadata (snd (hd arch_table)) (Some [\<lparr>te_name = ''usr/lib64/ld-linux-x86-64.so.2'', te_kind = KSymlink, te_mode = m777,
     te_owner = (0, 0), te_link = ''nowhere'', te_data = []\<rparr>]) =
   Inr [(''tar:executables'', True), (''tar:loader-exec'', True), (''tar:non-executables'', True), (''tar:directories'', True),
     (''tar:merged-usr-symlinks'', True)]"
  by code_simp

text \<open>The name in the comment, a loader of another architecture, is not matched.\<close>

lemma loader_names_unmatched: "\<not> loader_pattern ''ld-linux-aarch64.so.1'' \<and> loader_pattern ''ld-2.36.so''"
  by code_simp

lemma longer_package_passes:
  "dget (package_db_checks ''arm64'' (text_lines [''Package: git-man'', ''Architecture: all'', ''Description: not arm64 at all'']) []) ''packages:git'' = Some True \<and>
   dget (package_db_checks ''arm64'' (text_lines [''Package: git-man'', ''Architecture: all'', ''Description: not arm64 at all'']) []) ''dpkg:arch-present'' = Some True"
  by code_simp

text \<open>A package that ships the link \<open>bin\<close> itself turns \<open>usr/bin\<close> into a link to itself.\<close>

lemma shipped_alias_loops:
  "dget (snd (spec_member ([], []) \<lparr>tm_name = ''./bin'', tm_type = MSym, tm_mode = m777, tm_linkname = ''usr/bin'', tm_data = []\<rparr>)) ''usr/bin'' =
     Some (KSymlink, ''usr/bin'')"
  by code_simp

section \<open>The launchers\<close>

lemma crlf_kept: "contains raw [CHR 0x0D, CHR 0x0A] \<or> CHR 0x0D \<in> set (drop_crlf raw) \<longleftrightarrow> CHR 0x0D \<in> set raw"
proof (induction raw rule: drop_crlf.induct)
  case (1 a b s)
  then show ?case by (auto simp: startswith_def)
qed (auto simp: startswith_def)

text \<open>
  The checks accept a launcher exactly when the archive's last entry of its name is a regular file, not empty, of mode 0755, free
  of carriage returns, with the shell named in its first line and no install path pinned; the launchers the build
  writes are accepted.
\<close>

definition launcher_accepted :: "tar_entry list \<Rightarrow> string \<Rightarrow> bool" where
  "launcher_accepted tar rel \<longleftrightarrow> list_all snd (launcher_checks tar rel [])"

lemma launcher_checks_exact:
  "launcher_accepted tar rel \<longleftrightarrow>
    (\<exists>e. archived tar rel = Some e \<and> te_data e \<noteq> [] \<and> perm_bits (te_mode e) = m755 \<and> CHR 0x0D \<notin> set (te_data e) \<and>
       first_line (te_data e) = ''#!/bin/sh'' \<and> \<not> pinned_path (te_data e))"
  unfolding launcher_accepted_def
  by (cases "archived tar rel") (auto simp: launcher_checks_def lf_only_def crlf_kept archived_bytes_def Let_def)

lemma shipped_launchers_pass:
  "list_all (\<lambda>(p, d). d \<noteq> [] \<and> CHR 0x0D \<notin> set d \<and> first_line d = ''#!/bin/sh'' \<and> \<not> pinned_path d) launcher_files"
  by code_simp

end
