(* ===== verification/Legacy.thy ===== *)
theory Legacy
  imports Config Planner Host_Caps Os_Files
begin

text \<open>
  The agent the repository grew out of: \<open>ai/intent_parser.py\<close>, \<open>core/validator.py\<close>, \<open>core/action_router.py\<close>, \<open>executors/*\<close>,
  \<open>core/agent.py\<close>, \<open>core/worker.py\<close>, \<open>core/goals.py\<close>, \<open>ai/llm_client.py\<close>, \<open>ai/local_llm.py\<close>, the prompt builders,
  \<open>memory/memory.py\<close> and \<open>ui/cli.py\<close>. A shell is what it does to the world with the argument of \<open>subprocess.run(.., shell=True)\<close>;
  text beyond ASCII is its bytes in UTF-8.
\<close>

section \<open>Intents in a reply\<close>

definition no_attribute :: "string \<Rightarrow> exc" where
  "no_attribute a = Exc ''AttributeError'' (''object has no attribute '' @ a)"

definition intent_of :: "pyval \<Rightarrow> pyval sdict option" where
  "intent_of v =
     (case v of
        PDict d \<Rightarrow> if ''type'' \<in> set (dkeys d) then Some (if ''params'' \<in> set (dkeys d) then d else dput ''params'' (PDict []) d) else None
      | _ \<Rightarrow> None)"

definition reply_value :: "string \<Rightarrow> pyval option" where
  "reply_value reply =
     (case json_loads reply of
        Some v \<Rightarrow> Some v
      | None \<Rightarrow> (case brace_span reply of None \<Rightarrow> None | Some m \<Rightarrow> json_loads m))"

definition parse_intents :: "string \<Rightarrow> pyval sdict list result" where
  "parse_intents reply =
     (case reply_value reply of
        None \<Rightarrow> Inr []
      | Some (PDict d) \<Rightarrow> (case dgetd d ''actions'' (PList []) of PList xs \<Rightarrow> Inr (List.map_filter intent_of xs) | _ \<Rightarrow> Inr [])
      | Some _ \<Rightarrow> Inl (no_attribute ''get''))"

section \<open>Validation\<close>

definition blocked_paths :: "string list" where
  "blocked_paths = [''/system'', ''/vendor'', ''/data/adb'', ''/proc'', ''/dev'']"

definition dangerous_commands :: "string list" where
  "dangerous_commands = [''rm -rf'', ''rm -r'', ''dd '', ''mkfs'', ''reboot'', ''shutdown'', ''poweroff'', ''chmod 777'', ''chown root'']"

definition allowed_actions :: "string list" where
  "allowed_actions = [''create_folder'', ''write_file'', ''read_file'', ''list_dir'', ''run_command'', ''install_pkg'',
     ''pip_install'', ''open_app'', ''open_file'', ''open_url'']"

definition is_path_allowed :: "py_env \<Rightarrow> string \<Rightarrow> bool" where
  "is_path_allowed env p \<longleftrightarrow> p = [] \<or> list_all (\<lambda>b. \<not> startswith (expanduser env p) b) blocked_paths"

definition is_command_safe :: "string \<Rightarrow> bool" where
  "is_command_safe c \<longleftrightarrow> c = [] \<or> list_all (\<lambda>d. \<not> contains (str_lower c) d) dangerous_commands"

definition is_action_allowed :: "pyval \<Rightarrow> bool" where
  "is_action_allowed ty = (case ty of PStr t \<Rightarrow> t \<in> set allowed_actions | _ \<Rightarrow> False)"

definition path_value_ok :: "py_env \<Rightarrow> pyval \<Rightarrow> bool result" where
  "path_value_ok env v =
     (if \<not> truthy v then Inr True
      else (case v of
              PStr p \<Rightarrow> Inr (is_path_allowed env p)
            | _ \<Rightarrow> Inl (Exc ''TypeError'' ''expected str, bytes or os.PathLike object'')))"

fun fields_ok :: "py_env \<Rightarrow> pyval sdict \<Rightarrow> string list \<Rightarrow> bool result" where
  "fields_ok env params [] = Inr True"
| "fields_ok env params (f # fs) =
     (case path_value_ok env (dgetd params f PNone) of
        Inl e \<Rightarrow> Inl e
      | Inr ok \<Rightarrow> if ok then fields_ok env params fs else Inr False)"

definition command_value_ok :: "pyval \<Rightarrow> bool result" where
  "command_value_ok v =
     (if \<not> truthy v then Inr True else (case v of PStr c \<Rightarrow> Inr (is_command_safe c) | _ \<Rightarrow> Inl (no_attribute ''lower'')))"

definition validate_action :: "py_env \<Rightarrow> pyval \<Rightarrow> bool result" where
  "validate_action env action =
     (case action of
        PDict d \<Rightarrow>
          if \<not> truthy (dgetd d ''type'' PNone) \<or> \<not> is_action_allowed (dgetd d ''type'' PNone) then Inr False
          else (case dgetd d ''params'' (PDict []) of
                  PDict params \<Rightarrow>
                    (case fields_ok env params [''path'', ''file'', ''directory'', ''target''] of
                       Inl e \<Rightarrow> Inl e
                     | Inr ok \<Rightarrow> if ok then command_value_ok (dgetd params ''command'' PNone) else Inr False)
                | _ \<Rightarrow> Inr False)
      | _ \<Rightarrow> Inr False)"

fun validate_actions :: "py_env \<Rightarrow> pyval list \<Rightarrow> pyval list result" where
  "validate_actions env [] = Inr []"
| "validate_actions env (a # as) =
     (case validate_action env a of
        Inl e \<Rightarrow> Inl e
      | Inr ok \<Rightarrow> map_sum id (\<lambda>vs. if ok then a # vs else vs) (validate_actions env as))"

section \<open>Executors\<close>

type_synonym 's sh = "pyval \<Rightarrow> 's \<Rightarrow> completed result \<times> 's"

definition shell_run :: "'s sh \<Rightarrow> pyval \<Rightarrow> 's \<Rightarrow> string \<times> 's" where
  "shell_run sh cmd s =
     (let (r, s) = sh cmd s
      in (case r of Inl e \<Rightarrow> exc_msg e | Inr c \<Rightarrow> if cm_err c \<noteq> [] then str_strip (cm_err c) else str_strip (cm_out c), s))"

fun escape_quotes :: "string \<Rightarrow> string" where
  "escape_quotes [] = []"
| "escape_quotes (c # r) = (if c = CHR 0x27 then [CHR 0x27, CHR 0x5C, CHR 0x27, CHR 0x27] else [c]) @ escape_quotes r"

definition on_path :: "py_env \<Rightarrow> (string \<Rightarrow> 's \<Rightarrow> string result \<times> 's) \<Rightarrow> pyval \<Rightarrow> 's \<Rightarrow> string result \<times> 's" where
  "on_path env f v s =
     (case v of
        PStr p \<Rightarrow> f (expanduser env p) s
      | _ \<Rightarrow> (Inl (Exc ''TypeError'' ''expected str, bytes or os.PathLike object''), s))"

definition run_line :: "'s sh \<Rightarrow> pyval \<Rightarrow> 's \<Rightarrow> string result \<times> 's" where
  "run_line sh cmd s = (let (r, s) = shell_run sh cmd s in (Inr r, s))"

definition create_folder :: "py_env \<Rightarrow> 's sh \<Rightarrow> pyval \<Rightarrow> 's \<Rightarrow> string result \<times> 's" where
  "create_folder env sh = on_path env (\<lambda>p. run_line sh (PStr (''mkdir -p '' @ quoted p)))"

definition write_file :: "py_env \<Rightarrow> 's sh \<Rightarrow> pyval \<Rightarrow> pyval \<Rightarrow> 's \<Rightarrow> string result \<times> 's" where
  "write_file env sh path content = on_path env (\<lambda>p s.
     (case content of
        PStr c \<Rightarrow> run_line sh (PStr (''echo '' @ quoted (escape_quotes c) @ '' > '' @ quoted p)) s
      | _ \<Rightarrow> (Inl (no_attribute ''replace''), s))) path"

definition read_file :: "py_env \<Rightarrow> 's sh \<Rightarrow> pyval \<Rightarrow> 's \<Rightarrow> string result \<times> 's" where
  "read_file env sh = on_path env (\<lambda>p. run_line sh (PStr (''cat '' @ quoted p)))"

definition list_dir :: "py_env \<Rightarrow> 's sh \<Rightarrow> pyval \<Rightarrow> 's \<Rightarrow> string result \<times> 's" where
  "list_dir env sh = on_path env (\<lambda>p. run_line sh (PStr (''ls -la '' @ quoted p)))"

definition filled :: "(pyfloat \<Rightarrow> string) \<Rightarrow> string \<Rightarrow> pyval \<Rightarrow> string \<Rightarrow> pyval" where
  "filled sf before v after = PStr (before @ py_str sf v @ after)"

definition install_pkg :: "(pyfloat \<Rightarrow> string) \<Rightarrow> 's sh \<Rightarrow> pyval \<Rightarrow> 's \<Rightarrow> string result \<times> 's" where
  "install_pkg sf sh pkg = run_line sh (filled sf ''pkg install -y '' pkg [])"

definition pip_install :: "(pyfloat \<Rightarrow> string) \<Rightarrow> 's sh \<Rightarrow> pyval \<Rightarrow> 's \<Rightarrow> string result \<times> 's" where
  "pip_install sf sh pkg = run_line sh (filled sf ''pip install '' pkg [])"

definition open_app :: "(pyfloat \<Rightarrow> string) \<Rightarrow> 's sh \<Rightarrow> pyval \<Rightarrow> 's \<Rightarrow> string result \<times> 's" where
  "open_app sf sh package = run_line sh (filled sf ''monkey -p '' package '' -c android.intent.category.LAUNCHER 1'')"

definition open_file :: "(pyfloat \<Rightarrow> string) \<Rightarrow> 's sh \<Rightarrow> pyval \<Rightarrow> 's \<Rightarrow> string result \<times> 's" where
  "open_file sf sh path = run_line sh (filled sf ''am start -a android.intent.action.VIEW -d file://'' path [])"

definition open_url :: "(pyfloat \<Rightarrow> string) \<Rightarrow> 's sh \<Rightarrow> pyval \<Rightarrow> 's \<Rightarrow> string result \<times> 's" where
  "open_url sf sh url = run_line sh (filled sf (''am start -a android.intent.action.VIEW -d '' @ [CHR 0x27]) url [CHR 0x27])"

section \<open>The router\<close>

text \<open>The table of executors: the entry for folders is the executor itself and gets the parameters whole.\<close>

definition with_param :: "string \<Rightarrow> (pyval \<Rightarrow> 's \<Rightarrow> string result \<times> 's) \<Rightarrow> pyval \<Rightarrow> 's \<Rightarrow> string result \<times> 's" where
  "with_param k f params s = (case params of PDict d \<Rightarrow> f (dgetd d k (PStr [])) s | _ \<Rightarrow> (Inl (no_attribute ''get''), s))"

definition write_entry :: "py_env \<Rightarrow> 's sh \<Rightarrow> pyval \<Rightarrow> 's \<Rightarrow> string result \<times> 's" where
  "write_entry env sh params s =
     (case params of
        PDict d \<Rightarrow> write_file env sh (dgetd d ''path'' (PStr [])) (dgetd d ''content'' (PStr [])) s
      | _ \<Rightarrow> (Inl (no_attribute ''get''), s))"

definition executor_map :: "py_env \<Rightarrow> (pyfloat \<Rightarrow> string) \<Rightarrow> 's sh \<Rightarrow> (pyval \<Rightarrow> 's \<Rightarrow> string result \<times> 's) sdict" where
  "executor_map env sf sh =
     [(''create_folder'', create_folder env sh), (''write_file'', write_entry env sh),
      (''read_file'', with_param ''path'' (read_file env sh)), (''list_dir'', with_param ''path'' (list_dir env sh)),
      (''run_command'', with_param ''command'' (run_line sh)), (''install_pkg'', with_param ''pkg'' (install_pkg sf sh)),
      (''pip_install'', with_param ''pkg'' (pip_install sf sh)), (''open_app'', with_param ''package'' (open_app sf sh)),
      (''open_file'', with_param ''path'' (open_file sf sh)), (''open_url'', with_param ''url'' (open_url sf sh))]"

definition action_result :: "pyval \<Rightarrow> string \<Rightarrow> pyval" where
  "action_result ty r = PDict [(''action'', ty), (''result'', PStr r)]"

text \<open>What is allowed is in the table, so the lookup of a validated action finds its executor.\<close>

definition route_action :: "py_env \<Rightarrow> (pyfloat \<Rightarrow> string) \<Rightarrow> 's sh \<Rightarrow> pyval sdict \<Rightarrow> 's \<Rightarrow> pyval list result \<times> 's" where
  "route_action env sf sh d s =
     (case validate_action env (PDict d) of
        Inl e \<Rightarrow> (Inl e, s)
      | Inr ok \<Rightarrow>
          (case (if ok then (case dgetd d ''type'' PNone of PStr ty \<Rightarrow> dget (executor_map env sf sh) ty | _ \<Rightarrow> None) else None) of
             None \<Rightarrow> (Inr [], s)
           | Some f \<Rightarrow> then_do (f (dgetd d ''params'' (PDict [])) s) (\<lambda>r s. (Inr [action_result (dgetd d ''type'' PNone) r], s))))"

definition route :: "py_env \<Rightarrow> (pyfloat \<Rightarrow> string) \<Rightarrow> 's sh \<Rightarrow> string \<Rightarrow> 's \<Rightarrow> pyval list result \<times> 's" where
  "route env sf sh reply s = then_do (pure_step (parse_intents reply) s) (each_do (route_action env sf sh))"


section \<open>The prompt\<close>

text \<open>The box drawing of the system map.\<close>

definition bar :: string where "bar = [CHR 0xE2, CHR 0x94, CHR 0x82]"
definition dash :: string where "dash = [CHR 0xE2, CHR 0x94, CHR 0x80]"
definition tee :: string where "tee = [CHR 0xE2, CHR 0x94, CHR 0x9C] @ dash @ dash"
definition corner :: string where "corner = [CHR 0xE2, CHR 0x94, CHR 0x94] @ dash @ dash"

definition elements :: "pyval \<Rightarrow> pyval list result" where
  "elements v =
     (case v of
        PList xs \<Rightarrow> Inr xs
      | PDict d \<Rightarrow> Inr (map PStr (dkeys d))
      | PStr s \<Rightarrow> Inr (map (\<lambda>c. PStr [c]) s)
      | _ \<Rightarrow> Inl (Exc ''TypeError'' ''object is not iterable''))"

definition newest_five :: "pyval \<Rightarrow> pyval list result" where
  "newest_five v =
     (case v of
        PList xs \<Rightarrow> Inr (slice_last 5 xs)
      | PStr s \<Rightarrow> Inr (map (\<lambda>c. PStr [c]) (slice_last 5 s))
      | _ \<Rightarrow> Inl (Exc ''TypeError'' ''object is not subscriptable''))"

definition tree_row :: "(pyfloat \<Rightarrow> string) \<Rightarrow> pyval \<Rightarrow> string" where
  "tree_row sf x = bar @ ''   '' @ tee @ '' '' @ py_str sf x"

definition tree_list :: "(pyfloat \<Rightarrow> string) \<Rightarrow> pyval \<Rightarrow> string result" where
  "tree_list sf v =
     (if \<not> truthy v then Inr (bar @ ''   '' @ corner @ '' none'')
      else map_sum id (\<lambda>xs. join_str [CHR 0x0A] (map (tree_row sf) xs)) (elements v))"

definition tree_memory :: "(pyfloat \<Rightarrow> string) \<Rightarrow> pyval \<Rightarrow> string result" where
  "tree_memory sf v =
     (if \<not> truthy v then Inr (bar @ ''   '' @ corner @ '' empty'')
      else map_sum id (\<lambda>xs. join_str [CHR 0x0A] (map (tree_row sf) xs)) (newest_five v))"

definition quote_mark :: string where "quote_mark = [CHR 0x22]"

definition prompt_format :: "string list" where
  "prompt_format =
     ['''', '''', ''AVAILABLE ACTIONS:'', '''', ''- list_dir'', ''- read_file'', ''- write_file'', ''- run_command'', '''', '''',
      ''RULES:'', '''', ''- Return ONLY valid JSON.'', ''- Never explain.'', ''- Never return markdown.'',
      ''- Never return a list of strings.'', '''', ''FORMAT:'', '''',
      [CHR 0x7B], '' '' @ quote_mark @ ''actions'' @ quote_mark @ '': ['', ''   '' @ [CHR 0x7B],
      ''    '' @ quote_mark @ ''type'' @ quote_mark @ '':'' @ quote_mark @ ''action_name'' @ quote_mark @ '','',
      ''    '' @ quote_mark @ ''params'' @ quote_mark @ '':'' @ [CHR 0x7B, CHR 0x7D], ''   '' @ [CHR 0x7D], '' ]'', [CHR 0x7D], '''',
      ''Choose actions based on the system map.'']"

definition system_map :: "(pyfloat \<Rightarrow> string) \<Rightarrow> pyval sdict \<Rightarrow> string \<Rightarrow> string \<Rightarrow> string list" where
  "system_map sf d goals memory =
     ['''', ''/ANDROID'', ''|'', tee @ '' device'', ''|   '' @ tee @ '' platform: '' @ py_str sf (dgetd d ''device'' PNone),
      ''|   '' @ corner @ '' status: '' @ py_str sf (dgetd d ''status'' PNone), ''|'', tee @ '' goals'', goals, ''|'',
      tee @ '' memory'', memory, ''|'', corner @ '' workspace'', ''    '' @ corner @ '' ~/AIOperator'', '''']"

definition worker_prompt :: "(pyfloat \<Rightarrow> string) \<Rightarrow> pyval \<Rightarrow> string result" where
  "worker_prompt sf state =
     (case state of
        PDict d \<Rightarrow>
          (case (tree_list sf (dgetd d ''goals'' (PList [])), tree_memory sf (dgetd d ''memory'' (PList []))) of
             (Inl e, _) \<Rightarrow> Inl e
           | (_, Inl e) \<Rightarrow> Inl e
           | (Inr goals, Inr memory) \<Rightarrow>
               Inr (CHR 0x0A # text_lines
                 ([''You are an Android autonomous worker.'', '''', ''You operate like a filesystem-aware AI.'', '''', ''CURRENT SYSTEM MAP:'', '''']
                  @ system_map sf d goals memory @ prompt_format)))
      | _ \<Rightarrow> Inl (no_attribute ''get''))"

section \<open>The language model\<close>

record local_llm =
  ll_model :: string
  ll_binary :: string

definition llama_paths :: "string list" where
  "llama_paths = [''~/llama.cpp/build/bin/llama-cli'', ''~/llama.cpp/build/bin/main'', ''~/llama.cpp/main'', ''~/llama.cpp/llama-cli'']"

definition find_llama :: "py_env \<Rightarrow> (string \<Rightarrow> bool) \<Rightarrow> string option" where
  "find_llama env isfile = List.find isfile (map (expanduser env) llama_paths)"

definition new_local_llm :: "py_env \<Rightarrow> (string \<Rightarrow> bool) \<Rightarrow> (string \<Rightarrow> bool) \<Rightarrow> string option \<Rightarrow> local_llm result" where
  "new_local_llm env exists isfile path =
     (let model = expanduser env (case path of Some (c # r) \<Rightarrow> c # r | _ \<Rightarrow> ''~/AIOperator/models/qwen2.5-1.5b-instruct-q4_k_m.gguf'') in
      if \<not> exists model then Inl (Exc ''FileNotFoundError'' (''Model not found: '' @ model))
      else (case find_llama env isfile of
              Some b \<Rightarrow> Inr \<lparr>ll_model = model, ll_binary = b\<rparr>
            | None \<Rightarrow> Inl (Exc ''FileNotFoundError'' ''Could not find llama-cli binary'')))"

text \<open>The span of the first opening brace up to the last closing one, if that comes later.\<close>

definition extract_json :: "string \<Rightarrow> string" where
  "extract_json t = (case brace_span t of Some m \<Rightarrow> str_strip m | None \<Rightarrow> str_strip t)"

definition llama_command :: "local_llm \<Rightarrow> string \<Rightarrow> int \<Rightarrow> string list" where
  "llama_command l prompt tokens =
     [ll_binary l, ''-m'', ll_model l, ''-p'', prompt, ''-n'', str_of_int tokens, ''--temp'', ''0.2'', ''-t'', ''6'',
      ''--ctx-size'', ''1024'', ''--simple-io'', ''--single-turn'']"

definition local_ask :: "(string list \<Rightarrow> 's \<Rightarrow> completed result \<times> 's) \<Rightarrow> local_llm \<Rightarrow> string \<Rightarrow> int \<Rightarrow> 's \<Rightarrow> string \<times> 's" where
  "local_ask run l prompt tokens s =
     (let (r, s) = run (llama_command l prompt tokens) s
      in (case r of
            Inr c \<Rightarrow> if cm_code c \<noteq> 0 then ''[Error] Exit '' @ str_of_int (cm_code c) else extract_json (str_strip (cm_out c))
          | Inl e \<Rightarrow> if exc_type e = ''TimeoutExpired'' then ''[Timeout]'' else ''[Exception] '' @ exc_msg e, s))"

record llm_client =
  lc_use_local :: bool
  lc_openai :: bool
  lc_local :: "local_llm option"

text \<open>\<open>local\<close> is what building the local model gives, \<open>key\<close> and \<open>package\<close> whether the remote one is configured and installed.\<close>

definition new_llm_client :: "bool \<Rightarrow> bool \<Rightarrow> bool \<Rightarrow> local_llm result option \<Rightarrow> llm_client" where
  "new_llm_client use_local key package local =
     \<lparr>lc_use_local = use_local, lc_openai = (key \<and> \<not> use_local \<and> package),
      lc_local = (case local of Some (Inr l) \<Rightarrow> Some l | _ \<Rightarrow> None)\<rparr>"

definition client_fallback :: "string \<Rightarrow> string" where
  "client_fallback prompt = join_str [CHR 0x0A]
     [''I'' @ [CHR 0x27] @ ''m your local AI assistant. You asked: '' @ quote_mark @ prompt @ quote_mark, '''',
      ''Since I'' @ [CHR 0x27] @ ''m running locally on your Android device, I can help you with:'',
      ''- File operations (create, edit, delete files/folders)'', ''- Running shell commands'', ''- Writing and executing code'',
      ''- System tasks and automation'', '''', ''What would you like me to do?'']"

definition client_ask :: "(string list \<Rightarrow> 's \<Rightarrow> completed result \<times> 's) \<Rightarrow> (string \<Rightarrow> int \<Rightarrow> string option) \<Rightarrow> llm_client \<Rightarrow>
    string \<Rightarrow> int \<Rightarrow> 's \<Rightarrow> string \<times> 's" where
  "client_ask run remote c prompt tokens s =
     (case lc_local c of
        Some l \<Rightarrow> local_ask run l prompt tokens s
      | None \<Rightarrow>
          (case (if lc_openai c \<and> \<not> lc_use_local c then remote prompt tokens else None) of
             Some reply \<Rightarrow> (reply, s)
           | None \<Rightarrow> (client_fallback prompt, s)))"

text \<open>The one client of the process, made at the first question.\<close>

definition get_client :: "bool \<Rightarrow> bool \<Rightarrow> local_llm result option \<Rightarrow> llm_client option \<Rightarrow> llm_client" where
  "get_client key package local made = (case made of Some c \<Rightarrow> c | None \<Rightarrow> new_llm_client True key package local)"

section \<open>History, observation, the worker\<close>

definition history_path :: "py_env \<Rightarrow> string" where
  "history_path env = expanduser env ''~/AIOperator/memory/history.json''"

definition history_save :: "bool \<Rightarrow> pyval \<Rightarrow> pyval disk \<Rightarrow> unit result \<times> pyval disk" where
  "history_save ok data = write_json ok json_ok data"

definition history_init :: "bool \<Rightarrow> pyval disk \<Rightarrow> unit result \<times> pyval disk" where
  "history_init ok d = (if d = Absent then history_save ok (PList []) d else (Inr (), d))"

definition history_load :: "pyval disk \<Rightarrow> pyval result" where
  "history_load d =
     (case d of
        Stored v \<Rightarrow> Inr v
      | Absent \<Rightarrow> Inl (Exc ''FileNotFoundError'' ''No such file or directory'')
      | Unreadable \<Rightarrow> Inl (Exc ''JSONDecodeError'' ''Expecting value''))"

definition history_row :: "string \<Rightarrow> pyval \<Rightarrow> pyval" where
  "history_row now event = PDict [(''time'', PStr now), (''event'', event)]"

definition remember :: "bool \<Rightarrow> string \<Rightarrow> pyval \<Rightarrow> pyval disk \<Rightarrow> unit result \<times> pyval disk" where
  "remember ok now event d =
     (case history_load d of
        Inl e \<Rightarrow> (Inl e, d)
      | Inr (PList h) \<Rightarrow> history_save ok (PList (h @ [history_row now event])) d
      | Inr _ \<Rightarrow> (Inl (no_attribute ''append''), d))"

definition history_recent :: "int \<Rightarrow> pyval disk \<Rightarrow> pyval result" where
  "history_recent limit d =
     (case history_load d of
        Inl e \<Rightarrow> Inl e
      | Inr (PList h) \<Rightarrow> Inr (PList (slice_last limit h))
      | Inr (PStr s) \<Rightarrow> Inr (PStr (slice_last limit s))
      | Inr _ \<Rightarrow> Inl (Exc ''TypeError'' ''object is not subscriptable''))"

definition current_goals :: "string list" where
  "current_goals = [''check system health'', ''monitor storage'', ''learn environment'']"

definition collect_device :: "py_env \<Rightarrow> int \<times> int \<times> int \<Rightarrow> pyval sdict" where
  "collect_device env usage =
     (let (total, used, free) = usage in
      [(''device'', PStr ''android''),
       (''storage'', PDict [(''total_mb'', PInt (total div 1024 div 1024)), (''used_mb'', PInt (used div 1024 div 1024)),
          (''free_mb'', PInt (free div 1024 div 1024))]),
       (''home'', PStr (expanduser env ''~''))])"

definition worker_observe :: "py_env \<Rightarrow> int \<times> int \<times> int \<Rightarrow> pyval disk \<Rightarrow> pyval result" where
  "worker_observe env usage d = map_sum id (\<lambda>recent. PDict (dmerge (collect_device env usage)
     [(''goals'', PList (map PStr current_goals)), (''memory'', recent),
      (''allowed_actions'', PList (map PStr [''list_dir'', ''read_file'', ''write_file'', ''run_command'']))])) (history_recent 5 d)"

definition operator_run :: "py_env \<Rightarrow> (pyfloat \<Rightarrow> string) \<Rightarrow> 's sh \<Rightarrow> (string \<Rightarrow> 's \<Rightarrow> string \<times> 's) \<Rightarrow> pyval \<Rightarrow> 's \<Rightarrow> pyval list result \<times> 's" where
  "operator_run env sf sh llm input s =
     then_do (pure_step (worker_prompt sf input) s) (\<lambda>prompt s. let (reply, s) = llm prompt s in route env sf sh reply s)"

text \<open>One turn of the worker: what it logs after the heartbeat. Its loop repeats this every minute for ever.\<close>

definition worker_cycle :: "py_env \<Rightarrow> (pyfloat \<Rightarrow> string) \<Rightarrow> 's sh \<Rightarrow> (string \<Rightarrow> 's \<Rightarrow> string \<times> 's) \<Rightarrow> int \<times> int \<times> int \<Rightarrow> pyval disk \<Rightarrow>
    's \<Rightarrow> pyval result \<times> 's" where
  "worker_cycle env sf sh llm usage d s =
     then_do (pure_step (worker_observe env usage d) s) (\<lambda>state s.
     then_do (operator_run env sf sh llm state s) (\<lambda>rs s. (Inr (PDict [(''state'', state), (''result'', PList rs)]), s)))"

definition worker_turn :: "py_env \<Rightarrow> (pyfloat \<Rightarrow> string) \<Rightarrow> 's sh \<Rightarrow> (string \<Rightarrow> 's \<Rightarrow> string \<times> 's) \<Rightarrow> int \<times> int \<times> int \<Rightarrow> pyval disk \<Rightarrow>
    's \<Rightarrow> pyval list \<times> 's" where
  "worker_turn env sf sh llm usage d s =
     (let (r, s) = worker_cycle env sf sh llm usage d s
      in ([PStr ''Worker heartbeat'', case r of Inr v \<Rightarrow> v | Inl e \<Rightarrow> PStr (''Worker error: '' @ exc_msg e)], s))"

text \<open>One pass of the automatic mode of the loop service over the lines of its task file.\<close>

fun run_tasks :: "(pyval \<Rightarrow> 's \<Rightarrow> pyval list result \<times> 's) \<Rightarrow> string list \<Rightarrow> 's \<Rightarrow> unit result \<times> 's" where
  "run_tasks run [] s = (Inr (), s)"
| "run_tasks run (t # ts) s =
     (if str_strip t = [] then run_tasks run ts s else then_do (run (PStr (str_strip t)) s) (\<lambda>_ s. run_tasks run ts s))"

section \<open>The interactive front end\<close>

type_synonym 's root_shell = "string \<Rightarrow> 's \<Rightarrow> (int \<times> string) result \<times> 's"

definition run_with_tsu :: "(pyfloat \<Rightarrow> string) \<Rightarrow> 's root_shell \<Rightarrow> pyval \<Rightarrow> 's \<Rightarrow> string result \<times> 's" where
  "run_with_tsu sf tsu command s =
     (let (r, s) = tsu (''tsu -c '' @ quote_mark @ py_str sf command @ quote_mark) s
      in (map_sum id (\<lambda>(status, out). if status = 0 then str_strip out else ''Error: '' @ str_strip out) r, s))"

definition run_unvetted :: "py_env \<Rightarrow> (pyfloat \<Rightarrow> string) \<Rightarrow> 's sh \<Rightarrow> 's root_shell \<Rightarrow> pyval \<Rightarrow> pyval \<Rightarrow> 's \<Rightarrow> string result \<times> 's" where
  "run_unvetted env sf sh tsu ty params s =
     (case ty of
        PStr t \<Rightarrow>
          if t \<in> {''run_command'', ''install_pkg'', ''pip_install''}
          then (case params of
                  PDict d \<Rightarrow> run_with_tsu sf tsu (py_or (dgetd d ''command'' PNone) (dgetd d ''pkg'' PNone)) s
                | _ \<Rightarrow> (Inl (no_attribute ''get''), s))
          else (case dget (executor_map env sf sh) t of Some f \<Rightarrow> f params s | None \<Rightarrow> (Inr ''Unknown action'', s))
      | PList _ \<Rightarrow> (Inl (Exc ''TypeError'' ''unhashable type''), s)
      | PDict _ \<Rightarrow> (Inl (Exc ''TypeError'' ''unhashable type''), s)
      | _ \<Rightarrow> (Inr ''Unknown action'', s))"

definition execute_action :: "py_env \<Rightarrow> (pyfloat \<Rightarrow> string) \<Rightarrow> 's sh \<Rightarrow> 's root_shell \<Rightarrow> pyval \<Rightarrow> 's \<Rightarrow> pyval list result \<times> 's" where
  "execute_action env sf sh tsu action s =
     (case action of
        PDict d \<Rightarrow>
          (case dget d ''type'' of
             None \<Rightarrow> (Inl (Exc ''KeyError'' (repr_str ''type'')), s)
           | Some ty \<Rightarrow> then_do (run_unvetted env sf sh tsu ty (dgetd d ''params'' (PDict [])) s) (\<lambda>r s. (Inr [action_result ty r], s)))
      | _ \<Rightarrow> (Inl (Exc ''TypeError'' ''indices must be integers''), s))"

text \<open>\<open>json_error\<close> gives what the decoder says of a text that it cannot read.\<close>

definition execute_json_actions :: "py_env \<Rightarrow> (pyfloat \<Rightarrow> string) \<Rightarrow> (string \<Rightarrow> string) \<Rightarrow> 's sh \<Rightarrow> 's root_shell \<Rightarrow> string \<Rightarrow> 's \<Rightarrow>
    (pyval \<times> pyval) \<times> 's" where
  "execute_json_actions env sf json_error sh tsu text s =
     (case brace_span text of
        None \<Rightarrow> ((PNone, PStr ''No JSON found''), s)
      | Some m \<Rightarrow>
          (case json_loads m of
             None \<Rightarrow> ((PNone, PStr (''Invalid JSON: '' @ take 100 (json_error m))), s)
           | Some v \<Rightarrow>
               (let (r, s) = then_do (pure_step (case v of PDict d \<Rightarrow> elements (dgetd d ''actions'' (PList [])) | _ \<Rightarrow> Inl (no_attribute ''get'')) s)
                  (each_do (execute_action env sf sh tsu))
                in (case r of Inr rs \<Rightarrow> (v, PList rs) | Inl e \<Rightarrow> (PNone, PStr (''Execution error: '' @ exc_msg e)), s))))"

datatype turn = Leave | Ignore | Report "pyval list" | Answer string | Crash exc

text \<open>One line typed: the agent's results, printed one by one as Python prints them, are taken for the reply.\<close>

definition front_end_turn :: "py_env \<Rightarrow> (pyfloat \<Rightarrow> string) \<Rightarrow> (string \<Rightarrow> string) \<Rightarrow> 's sh \<Rightarrow> 's root_shell \<Rightarrow> (pyval \<Rightarrow> 's \<Rightarrow> pyval list result \<times> 's) \<Rightarrow>
    string \<Rightarrow> 's \<Rightarrow> turn \<times> 's" where
  "front_end_turn env sf json_error sh tsu run line s =
     (let input = str_strip line in
      if str_lower input \<in> {''exit'', ''quit''} then (Leave, s)
      else if input = [] then (Ignore, s)
      else (case run (PStr input) s of
              (Inl e, s) \<Rightarrow> (Crash e, s)
            | (Inr rs, s) \<Rightarrow>
                (let reply = join_str [CHR 0x0A] (map (py_str sf) rs);
                     ((_, done), s) = execute_json_actions env sf json_error sh tsu reply s
                 in (case done of PList xs \<Rightarrow> Report xs | _ \<Rightarrow> Answer reply, s))))"

section \<open>What reaches the shell\<close>

definition vetted :: "py_env \<Rightarrow> (pyfloat \<Rightarrow> string) \<Rightarrow> pyval \<Rightarrow> bool" where
  "vetted env sf v \<longleftrightarrow>
     \<not> truthy v \<or> (\<exists>c. v = PStr c \<and> is_command_safe c) \<or>
     (\<exists>p. is_path_allowed env p \<and> (v = PStr (''cat '' @ quoted (expanduser env p)) \<or> v = PStr (''ls -la '' @ quoted (expanduser env p)) \<or>
        (\<exists>c. v = PStr (''echo '' @ quoted (escape_quotes c) @ '' > '' @ quoted (expanduser env p))))) \<or>
     (\<exists>x. path_value_ok env x = Inr True \<and> v = filled sf ''am start -a android.intent.action.VIEW -d file://'' x []) \<or>
     (\<exists>x. v \<in> {filled sf ''pkg install -y '' x [], filled sf ''pip install '' x [],
        filled sf ''monkey -p '' x '' -c android.intent.category.LAUNCHER 1'',
        filled sf (''am start -a android.intent.action.VIEW -d '' @ [CHR 0x27]) x [CHR 0x27]})"

lemma run_line_snd: "snd (run_line sh v s) = snd (sh v s)"
  by (simp add: run_line_def shell_run_def case_prod_unfold Let_def)

lemma path_value_str: "path_value_ok env (PStr p) = Inr (is_path_allowed env p)"
  by (simp add: path_value_ok_def is_path_allowed_def)

lemma validatedD:
  assumes "validate_action env (PDict d) = Inr True"
  obtains ty params where "dgetd d ''type'' PNone = PStr ty" "dgetd d ''params'' (PDict []) = PDict params"
    "path_value_ok env (dgetd params ''path'' PNone) = Inr True" "command_value_ok (dgetd params ''command'' PNone) = Inr True"
  using assms by (auto simp: validate_action_def is_action_allowed_def split: if_splits pyval.splits sum.splits)

text \<open>An absent parameter counts as absent for the validator and as the empty text for the executor.\<close>

lemma dgetd_other: "dgetd d k x = (case dget d k of None \<Rightarrow> x | Some v \<Rightarrow> v)"
  by (simp add: dgetd_def)

lemma command_vetted: "command_value_ok (dgetd d k PNone) = Inr True \<Longrightarrow> vetted env sf (dgetd d k (PStr []))"
  by (auto simp: dgetd_def command_value_ok_def vetted_def split: option.splits if_splits pyval.splits)

lemma path_param: "path_value_ok env (dgetd d k PNone) = Inr True \<Longrightarrow> path_value_ok env (dgetd d k (PStr [])) = Inr True"
  by (auto simp: dgetd_def path_value_ok_def split: option.splits)

lemma on_path_keeps:
  assumes "P s" and "\<And>p. v = PStr p \<Longrightarrow> P (snd (f (expanduser env p) s))"
  shows "P (snd (on_path env f v s))"
  using assms by (cases v) (simp_all add: on_path_def)

lemma executor_keeps:
  assumes shell: "\<And>v s. vetted env sf v \<Longrightarrow> P s \<Longrightarrow> P (snd (sh v s))" and "P s"
    and "path_value_ok env (dgetd params ''path'' PNone) = Inr True" "command_value_ok (dgetd params ''command'' PNone) = Inr True"
    and "dget (executor_map env sf sh) ty = Some f"
  shows "P (snd (f (PDict params) s))"
proof -
  note run = run_line_snd install_pkg_def pip_install_def open_app_def open_file_def open_url_def
  have path: "vetted env sf (filled sf ''am start -a android.intent.action.VIEW -d file://'' (dgetd params ''path'' (PStr [])) [])"
    using path_param [OF assms(3)] unfolding vetted_def by blast
  have paths: "is_path_allowed env p" if "dgetd params ''path'' (PStr []) = PStr p" for p
    using path_param [OF assms(3)] that by (simp add: path_value_str)
  have others: "vetted env sf (filled sf ''pkg install -y '' x [])" "vetted env sf (filled sf ''pip install '' x [])"
    "vetted env sf (filled sf ''monkey -p '' x '' -c android.intent.category.LAUNCHER 1'')"
    "vetted env sf (filled sf (''am start -a android.intent.action.VIEW -d '' @ [CHR 0x27]) x [CHR 0x27])" for x
    unfolding vetted_def by blast+
  have lines: "vetted env sf (PStr (''cat '' @ quoted (expanduser env p)))" "vetted env sf (PStr (''ls -la '' @ quoted (expanduser env p)))"
    "vetted env sf (PStr (''echo '' @ quoted (escape_quotes c) @ '' > '' @ quoted (expanduser env p)))" if "is_path_allowed env p" for p c
    using that unfolding vetted_def by blast+
  have folder: "P (snd (create_folder env sh (PDict params) s))" using assms(2) by (simp add: create_folder_def on_path_def)
  have rw: "P (snd (read_file env sh (dgetd params ''path'' (PStr [])) s))" "P (snd (list_dir env sh (dgetd params ''path'' (PStr [])) s))"
    unfolding read_file_def list_dir_def
    by (intro conjI on_path_keeps [where P = P]; simp add: run_line_snd shell lines paths assms(2) del: append_Cons)+
  have w: "P (snd (write_file env sh (dgetd params ''path'' (PStr [])) c s))" for c
    unfolding write_file_def
    by (rule on_path_keeps [where P = P]) (simp_all add: run_line_snd shell lines paths assms(2) del: append_Cons split: pyval.split)
  have "f \<in> snd ` set (executor_map env sf sh)" using map_of_SomeD [OF assms(5)] by force
  then consider "f = create_folder env sh" | "f = write_entry env sh" | "f = with_param ''path'' (read_file env sh)"
    | "f = with_param ''path'' (list_dir env sh)" | "f = with_param ''command'' (run_line sh)" | "f = with_param ''pkg'' (install_pkg sf sh)"
    | "f = with_param ''pkg'' (pip_install sf sh)" | "f = with_param ''package'' (open_app sf sh)"
    | "f = with_param ''path'' (open_file sf sh)" | "f = with_param ''url'' (open_url sf sh)"
    unfolding executor_map_def by (simp del: insert_iff) (elim insertE emptyE; simp)
  then show ?thesis
    by cases (simp_all add: folder rw w write_entry_def with_param_def run shell path others command_vetted [OF assms(4)] assms(2) del: append_Cons)
qed

lemma route_action_keeps:
  assumes "\<And>v s. vetted env sf v \<Longrightarrow> P s \<Longrightarrow> P (snd (sh v s))" and "P s"
  shows "P (snd (route_action env sf sh d s))"
proof (cases "validate_action env (PDict d)")
  case (Inr ok)
  show ?thesis
  proof (cases ok)
    case True
    then have "validate_action env (PDict d) = Inr True" using Inr by simp
    then obtain ty params where v: "dgetd d ''type'' PNone = PStr ty" "dgetd d ''params'' (PDict []) = PDict params"
      "path_value_ok env (dgetd params ''path'' PNone) = Inr True" "command_value_ok (dgetd params ''command'' PNone) = Inr True"
      by (rule validatedD)
    show ?thesis
    proof (cases "dget (executor_map env sf sh) ty")
      case (Some f)
      have "P (snd (f (PDict params) s))" by (rule executor_keeps [where P = P, OF assms(1,2) v(3,4) Some])
      then show ?thesis by (simp add: route_action_def Inr True v Some then_do_def case_prod_unfold split: sum.split)
    qed (use assms(2) in \<open>simp add: route_action_def Inr True v\<close>)
  qed (use assms(2) Inr in \<open>simp add: route_action_def\<close>)
qed (use assms(2) in \<open>simp add: route_action_def\<close>)

lemma route_keeps:
  assumes "\<And>v s. vetted env sf v \<Longrightarrow> P s \<Longrightarrow> P (snd (sh v s))" and "P s"
  shows "P (snd (route env sf sh reply s))"
proof (cases "parse_intents reply")
  case (Inr ds)
  then show ?thesis
    using each_do_keeps [where P = P and f = "route_action env sf sh" and xs = ds, OF route_action_keeps [where P = P, OF assms(1)] assms(2)]
    by (simp add: route_def pure_step_def)
qed (use assms(2) in \<open>simp add: route_def pure_step_def\<close>)

text \<open>
  C39. Whatever the model replies, the router runs nothing in the shell but commands that pass the validator: a command free of
  the listed dangerous patterns, a read, listing or write of a path outside the blocked ones, and the fixed install and open lines
  around a parameter. What no such line breaks, no reply breaks.
\<close>

theorem only_vetted_lines_run:
  assumes "\<And>v s. vetted env sf v \<Longrightarrow> P s \<Longrightarrow> P (snd (sh v s))" and "P s"
  shows "P (snd (route env sf sh reply s))"
  by (rule route_keeps [where P = P, OF assms])

section \<open>What the guards miss, and what never works\<close>

text \<open>A shell that writes down what it is asked.\<close>

definition noting :: "pyval list sh" where
  "noting v s = (Inr \<lparr>cm_code = 0, cm_out = [], cm_err = []\<rparr>, s @ [v])"

definition one_action :: "string \<Rightarrow> pyval sdict \<Rightarrow> pyval sdict" where
  "one_action ty params = [(''type'', PStr ty), (''params'', PDict params)]"

lemma path_quote_escapes:
  "snd (route_action Config.demo_env (\<lambda>_. []) noting (one_action ''read_file'' [(''path'', PStr (''x'' @ [CHR 0x27] @ ''; reboot #''))]) []) =
     [PStr (''cat '' @ [CHR 0x27] @ ''x'' @ [CHR 0x27] @ ''; reboot #'' @ [CHR 0x27])]"
  by code_simp

lemma package_unchecked:
  "snd (route_action Config.demo_env (\<lambda>_. []) noting (one_action ''install_pkg'' [(''pkg'', PStr ''x; rm -rf /sdcard'')]) []) =
     [PStr ''pkg install -y x; rm -rf /sdcard'']"
  by code_simp

lemma pattern_spelling: "is_command_safe ''rm  -rf /'' \<and> \<not> is_command_safe ''rm -rf /'' \<and> \<not> is_command_safe ''git add x''"
  by code_simp

lemma prefix_is_no_path:
  "is_path_allowed Config.demo_env ''/sdcard/../system/x'' \<and> \<not> is_path_allowed Config.demo_env ''/developer/x''"
  by code_simp

text \<open>Every request for a folder that passes the validator raises: the executor gets the parameters instead of the path.\<close>

lemma folder_never_made:
  assumes "validate_action env (PDict d) = Inr True" and "dgetd d ''type'' PNone = PStr ''create_folder''"
  shows "route_action env sf sh d s = (Inl (Exc ''TypeError'' ''expected str, bytes or os.PathLike object''), s)"
proof -
  from assms(1) obtain params where "dgetd d ''params'' (PDict []) = PDict params" by (rule validatedD)
  then show ?thesis using assms by (simp add: route_action_def executor_map_def create_folder_def on_path_def)
qed

lemma list_reply_raises: "json_loads reply = Some (PList xs) \<Longrightarrow> route env sf sh reply s = (Inl (no_attribute ''get''), s)"
  by (simp add: route_def parse_intents_def reply_value_def pure_step_def)

text \<open>The agent takes a state; a text, which is what the front end and the loop service give it, raises before the model is asked.\<close>

lemma text_input_raises: "operator_run env sf sh llm (PStr t) s = (Inl (no_attribute ''get''), s)"
  by (simp add: operator_run_def worker_prompt_def pure_step_def)

lemma front_end_crashes:
  assumes "str_strip line \<noteq> []" and "str_lower (str_strip line) \<notin> {''exit'', ''quit''}"
  shows "front_end_turn env sf json_error sh tsu (operator_run env sf sh llm) line s = (Crash (no_attribute ''get''), s)"
  using assms by (simp add: front_end_turn_def text_input_raises Let_def)

lemma task_raises: "str_strip t \<noteq> [] \<Longrightarrow> run_tasks (operator_run env sf sh llm) (t # ts) s = (Inl (no_attribute ''get''), s)"
  by (simp add: text_input_raises)

text \<open>The worker survives whatever a turn raises, and runs only vetted lines as well.\<close>

lemma agent_keeps:
  assumes "\<And>v s. vetted env sf v \<Longrightarrow> P s \<Longrightarrow> P (snd (sh v s))" and "\<And>p s. P s \<Longrightarrow> P (snd (llm p s))" and "P s"
  shows "P (snd (operator_run env sf sh llm input s))"
  using route_keeps [where P = P, OF assms(1)] assms(2,3)
  by (cases "worker_prompt sf input") (simp_all add: operator_run_def pure_step_def case_prod_unfold Let_def)

lemma worker_turn_keeps:
  assumes "\<And>v s. vetted env sf v \<Longrightarrow> P s \<Longrightarrow> P (snd (sh v s))" and "\<And>p s. P s \<Longrightarrow> P (snd (llm p s))" and "P s"
  shows "P (snd (worker_turn env sf sh llm usage d s))"
  using agent_keeps [where P = P and sf = sf and env = env, OF assms(1,2)] assms(3)
  by (cases "worker_observe env usage d")
    (simp_all add: worker_turn_def worker_cycle_def pure_step_def then_do_def case_prod_unfold Let_def split: sum.split)

text \<open>A reply that reads a file, routed to a shell that writes down what it runs.\<close>

definition demo_reply :: string where
  "demo_reply = json_dumps (\<lambda>_. []) (PDict [(''actions'', PList [PDict (one_action ''list_dir'' [(''path'', PStr ''/sdcard'')])])])"

lemma demo_routed: "snd (route Config.demo_env (\<lambda>_. []) noting demo_reply []) = [PStr (''ls -la '' @ quoted ''/sdcard'')]"
proof -
  let ?v = "PDict [(''actions'', PList [PDict (one_action ''list_dir'' [(''path'', PStr ''/sdcard'')])])]"
  have "json_loads demo_reply = Some ?v"
    unfolding demo_reply_def by (rule json_roundtrip) (simp add: one_action_def dict_wf_def)
  then have "parse_intents demo_reply = Inr [one_action ''list_dir'' [(''path'', PStr ''/sdcard'')]]"
    by (simp add: parse_intents_def reply_value_def dgetd_def one_action_def intent_of_def)
  moreover have "snd (route_action Config.demo_env (\<lambda>_. []) noting (one_action ''list_dir'' [(''path'', PStr ''/sdcard'')]) []) =
      [PStr (''ls -la '' @ quoted ''/sdcard'')]"
    by code_simp
  ultimately show ?thesis by (simp add: route_def pure_step_def then_do_def case_prod_unfold split: sum.split)
qed

theorem only_vetted_lines_run_witness:
  "list_all (vetted Config.demo_env (\<lambda>_. [])) (snd (route Config.demo_env (\<lambda>_. []) noting demo_reply [])) \<and>
   snd (route Config.demo_env (\<lambda>_. []) noting demo_reply []) = [PStr (''ls -la '' @ quoted ''/sdcard'')]"
proof
  show "list_all (vetted Config.demo_env (\<lambda>_. [])) (snd (route Config.demo_env (\<lambda>_. []) noting demo_reply []))"
    by (rule only_vetted_lines_run [where P = "list_all (vetted Config.demo_env (\<lambda>_. []))"]) (simp_all add: noting_def)
qed (rule demo_routed)

section \<open>The history\<close>

definition remember_all :: "(string \<times> pyval) list \<Rightarrow> pyval disk \<Rightarrow> pyval disk" where
  "remember_all es d = fold (\<lambda>(now, e) d. snd (remember True now e d)) es d"

lemma remember_rows:
  assumes "list_all (\<lambda>(now, e). json_ok e) es" and "json_ok (PList h)"
  shows "remember_all es (Stored (PList h)) = Stored (PList (h @ map (\<lambda>(now, e). history_row now e) es))"
  using assms
proof (induction es arbitrary: h)
  case (Cons x es)
  obtain now e where x: "x = (now, e)" by (cases x)
  have ok: "json_ok (PList (h @ [history_row now e]))" using Cons.prems x by (simp add: history_row_def)
  then have "snd (remember True now e (Stored (PList h))) = Stored (PList (h @ [history_row now e]))"
    by (simp add: remember_def history_load_def history_save_def write_json_def del: json_ok.simps)
  with Cons.IH [OF _ ok] Cons.prems show ?case by (simp add: remember_all_def x)
qed (simp add: remember_all_def)

text \<open>What was remembered is what a later look at the history shows, newest last; a limit of zero shows everything.\<close>

lemma history_read_back:
  assumes "list_all (\<lambda>(now, e). json_ok e) es"
  shows "history_recent n (remember_all es (snd (history_init True Absent))) = Inr (PList (slice_last n (map (\<lambda>(now, e). history_row now e) es)))"
  using remember_rows [OF assms, of "[]"] by (simp add: history_init_def history_save_def write_json_def history_recent_def history_load_def)

section \<open>The root shell\<close>

text \<open>Nothing is checked on the way to the root shell.\<close>

lemma root_unvetted:
  "execute_action env sf sh tsu (PDict (one_action ''run_command'' [(''command'', PStr (c # r))])) s =
     then_do (run_with_tsu sf tsu (PStr (c # r)) s) (\<lambda>out s. (Inr [action_result (PStr ''run_command'') out], s))"
  by (simp add: execute_action_def one_action_def run_unvetted_def dgetd_def py_or_def)

text \<open>What the agent reports is no JSON as Python prints it, so the front end never finds an action in it.\<close>

lemma single_quoted_span: "brace_span (CHR 0x7B # CHR 0x27 # r) = Some m \<Longrightarrow> \<exists>r'. m = CHR 0x7B # CHR 0x27 # r'"
proof -
  let ?t = "CHR 0x7B # CHR 0x27 # r"
  assume "brace_span ?t = Some m"
  then have m: "m = rev (dropWhile (\<lambda>c. c \<noteq> CHR 0x7D) (rev ?t))" and c: "CHR 0x7D \<in> set r"
    by (simp_all add: brace_span_def Let_def split: if_splits)
  have "dropWhile (\<lambda>c. c \<noteq> CHR 0x7D) (rev r @ [CHR 0x27, CHR 0x7B]) = dropWhile (\<lambda>c. c \<noteq> CHR 0x7D) (rev r) @ [CHR 0x27, CHR 0x7B]"
    using c by (intro dropWhile_append1 [of "CHR 0x7D"]) simp_all
  then show ?thesis unfolding m by simp
qed

lemma single_quoted_no_json: "json_loads (CHR 0x7B # CHR 0x27 # r) = None"
proof -
  have "jws (CHR 0x7B # CHR 0x27 # r) = CHR 0x7B # CHR 0x27 # r" "jws (CHR 0x27 # r) = CHR 0x27 # r"
    by (simp_all add: jws_def json_space_def)
  then show ?thesis by (simp add: json_loads_def jval_Suc jmembers_Suc startswith_def numeral_2_eq_2)
qed

lemma results_never_executed:
  assumes "rs = action_result ty r # rest"
  shows "snd (execute_json_actions env sf json_error sh tsu (join_str [CHR 0x0A] (map (py_str sf) rs)) s) = s"
proof -
  obtain t where t: "join_str [CHR 0x0A] (map (py_str sf) rs) = CHR 0x7B # CHR 0x27 # t"
    unfolding assms by (cases rest) (simp_all add: action_result_def repr_str_def Let_def)
  show ?thesis
  proof (cases "brace_span (CHR 0x7B # CHR 0x27 # t)")
    case (Some m)
    then obtain u where "m = CHR 0x7B # CHR 0x27 # u" using single_quoted_span by blast
    then show ?thesis by (simp add: execute_json_actions_def t Some single_quoted_no_json)
  qed (simp add: execute_json_actions_def t)
qed

end
