(* ===== verification/Sensors.thy ===== *)
theory Sensors
  imports Lifecycle Host_Caps Deb
begin

text \<open>
  What the daemon sees of its host: \<open>android_integration/device.py\<close>, \<open>android_integration/termux_api.py\<close>, the sensors of
  \<open>perception\<close> and \<open>capabilities/impl/android.py\<close>. A host at one moment is what its environment, files and programs answer; the
  environment does not change while the process runs.
\<close>

record sense_host =
  sn_env :: "string sdict"
  sn_which :: "string \<Rightarrow> bool"
  sn_program :: "string list \<Rightarrow> completed result"
  sn_read :: "string \<Rightarrow> string result"
  sn_is_dir :: "string \<Rightarrow> bool"
  sn_cwd :: string
  sn_home :: string
  sn_disk :: "(int \<times> int \<times> int) result"
  sn_system :: string
  sn_node :: string
  sn_release :: string
  sn_build :: string
  sn_machine :: string
  sn_processor :: string
  sn_python :: string
  sn_cpus :: "int option"
  sn_addresses :: "string list result"
  sn_float :: "pyfloat \<Rightarrow> string"

section \<open>The device\<close>

definition host_prefix :: "sense_host \<Rightarrow> string" where
  "host_prefix h = dgetd (sn_env h) ''PREFIX'' []"

definition terminalp_markers :: "string list" where
  "terminalp_markers = [''terminalp'', ''com.prime.tech'', ''prime.tech'', ''prime-tech'']"

definition looks_like_android_terminal :: "sense_host \<Rightarrow> bool" where
  "looks_like_android_terminal h \<longleftrightarrow> startswith (host_prefix h) ''/data/data/'' \<and> contains (host_prefix h) ''/files/usr''"

definition host_identity :: "sense_host \<Rightarrow> string" where
  "host_identity h =
     (let lowered = str_lower (host_prefix h) in
      if dget (sn_env h) ''TERMINALP_VERSION'' \<noteq> None \<or> list_ex (contains lowered) terminalp_markers then ''terminalp''
      else if contains lowered ''termux'' \<or> dget (sn_env h) ''TERMUX_VERSION'' \<noteq> None then ''termux''
      else if looks_like_android_terminal h then ''android-terminal''
      else ''desktop'')"

definition is_termux_compatible :: "sense_host \<Rightarrow> bool" where
  "is_termux_compatible h \<longleftrightarrow> host_identity h \<in> {''terminalp'', ''termux'', ''android-terminal''}"

definition is_terminalp :: "sense_host \<Rightarrow> bool" where
  "is_terminalp h \<longleftrightarrow> host_identity h = ''terminalp''"

definition is_termux :: "sense_host \<Rightarrow> bool" where
  "is_termux h \<longleftrightarrow> host_identity h = ''termux''"

text \<open>What \<open>except (OSError, subprocess.TimeoutExpired)\<close> catches.\<close>

definition host_error :: "exc \<Rightarrow> bool" where
  "host_error e \<longleftrightarrow> os_error e \<or> exc_type e \<in> {''TimeoutExpired'', ''gaierror''}"

definition android_prop :: "sense_host \<Rightarrow> string \<Rightarrow> string result" where
  "android_prop h name =
     (if \<not> is_termux_compatible h then Inr []
      else (case sn_program h [''getprop'', name] of
              Inl e \<Rightarrow> if host_error e then Inr [] else Inl e
            | Inr c \<Rightarrow> Inr (if cm_code c = 0 then str_strip (cm_out c) else [])))"

definition device_facts :: "sense_host \<Rightarrow> string \<Rightarrow> string \<Rightarrow> string \<Rightarrow> pyval" where
  "device_facts h android sdk model = PDict
     [(''prefix'', PStr (host_prefix h)), (''host'', PStr (host_identity h)), (''phone_host'', PBool (is_termux_compatible h)),
      (''terminalp'', PBool (is_terminalp h)), (''is_aarch64'', PBool (str_lower (sn_machine h) \<in> {''aarch64'', ''arm64''})),
      (''uname'', PStr (join_str '' '' [sn_system h, sn_node h, sn_release h, sn_build h, sn_machine h, sn_processor h])),
      (''android_release'', PStr android), (''android_sdk'', PStr sdk), (''model'', PStr model), (''termux'', PBool (is_termux h))]"

definition device_info :: "sense_host \<Rightarrow> pyval result" where
  "device_info h =
     (case android_prop h ''ro.build.version.release'' of
        Inl e \<Rightarrow> Inl e
      | Inr android \<Rightarrow>
          (case android_prop h ''ro.build.version.sdk'' of
             Inl e \<Rightarrow> Inl e
           | Inr sdk \<Rightarrow> map_sum id (device_facts h android sdk) (android_prop h ''ro.product.model'')))"

section \<open>The host's API program\<close>

definition api_binaries :: "string list" where
  "api_binaries = [''terminalp-api'', ''termux-api'']"

definition api_binary :: "sense_host \<Rightarrow> string option" where
  "api_binary h = List.find (sn_which h) api_binaries"

definition api_name :: "sense_host \<Rightarrow> string" where
  "api_name h = (case api_binary h of Some b \<Rightarrow> b | None \<Rightarrow> ''host-api'')"

definition coerce_payload :: "string \<Rightarrow> pyval sdict" where
  "coerce_payload raw =
     (case json_loads (str_strip raw) of
        None \<Rightarrow> [(''raw'', PStr (str_strip raw))]
      | Some (PDict d) \<Rightarrow> d
      | Some v \<Rightarrow> [(''value'', v)])"

definition api_call :: "sense_host \<Rightarrow> string \<Rightarrow> string list \<Rightarrow> pyval sdict option result" where
  "api_call h namespace args =
     (case api_binary h of
        None \<Rightarrow> Inr None
      | Some b \<Rightarrow>
          (case sn_program h (b # namespace # args) of
             Inl e \<Rightarrow> if host_error e then Inr None else Inl e
           | Inr c \<Rightarrow> Inr (if cm_code c \<noteq> 0 \<or> str_strip (cm_out c) = [] then None else Some (coerce_payload (cm_out c)))))"

definition payload_value :: "pyval sdict option \<Rightarrow> pyval" where
  "payload_value p = (case p of None \<Rightarrow> PNone | Some d \<Rightarrow> PDict d)"

definition api_battery :: "sense_host \<Rightarrow> pyval result" where
  "api_battery h = map_sum id payload_value (api_call h ''BatteryStatus'' [])"

definition api_location :: "sense_host \<Rightarrow> pyval result" where
  "api_location h =
     (case api_call h ''Location'' [''-r'', ''net''] of
        Inl e \<Rightarrow> Inl e
      | Inr p \<Rightarrow> if truthy (payload_value p) then Inr (payload_value p) else map_sum id payload_value (api_call h ''Location'' []))"

definition api_wifi :: "sense_host \<Rightarrow> pyval result" where
  "api_wifi h = map_sum id payload_value (api_call h ''WifiScanInfo'' [])"

definition listed :: "string \<Rightarrow> pyval sdict option \<Rightarrow> pyval" where
  "listed k p =
     (case p of
        None \<Rightarrow> PNone
      | Some d \<Rightarrow> (case py_or (dgetd d k PNone) (dgetd d ''value'' PNone) of PList xs \<Rightarrow> PList xs | _ \<Rightarrow> PNone))"

definition api_sms :: "sense_host \<Rightarrow> pyval \<Rightarrow> pyval result" where
  "api_sms h n = map_sum id (listed ''messages'') (api_call h ''SmsList'' [''-l'', py_str (sn_float h) n])"

definition api_sensors :: "sense_host \<Rightarrow> pyval result" where
  "api_sensors h = map_sum id (listed ''sensors'') (api_call h ''SensorList'' [])"

section \<open>The Android capability\<close>

definition android_actions :: "string list" where
  "android_actions = [''android.info'', ''android.battery'', ''android.sensors'', ''android.location'', ''android.wifi'', ''android.sms'']"

definition api_outcome :: "sense_host \<Rightarrow> string \<Rightarrow> pyval result \<Rightarrow> cap_return result" where
  "api_outcome h feature r = map_sum id (\<lambda>v. RetResult (cr_ok
     (py_or v (PDict [(''error'', PStr (api_name h @ '' '' @ feature @ '' unavailable''))])))) r"

definition android_invoke :: "sense_host \<Rightarrow> 's invoker" where
  "android_invoke h kv ctx s =
     (if cc_action ctx = ''android.info'' then map_sum id (RetResult \<circ> cr_ok) (device_info h)
      else if cc_action ctx = ''android.battery'' then api_outcome h ''battery'' (api_battery h)
      else if cc_action ctx = ''android.sensors'' then api_outcome h ''sensors'' (api_sensors h)
      else if cc_action ctx = ''android.location'' then api_outcome h ''location'' (api_location h)
      else if cc_action ctx = ''android.wifi'' then api_outcome h ''wifi'' (api_wifi h)
      else if cc_action ctx = ''android.sms'' then api_outcome h ''sms'' (api_sms h (dgetd (cc_extra ctx) ''limit'' (PInt 10)))
      else Inr (RetResult (cr_fail (''Unsupported action '' @ quoted (cc_action ctx)))), s)"

section \<open>The sensors\<close>

text \<open>What \<open>except (OSError, ValueError)\<close> catches of a read.\<close>

definition read_error :: "exc \<Rightarrow> bool" where
  "read_error e \<longleftrightarrow> os_error e \<or> exc_type e \<in> {''ValueError'', ''UnicodeDecodeError''}"

definition power_reading :: "sense_host \<Rightarrow> string \<Rightarrow> pyval sdict option result" where
  "power_reading h path =
     (if \<not> sn_is_dir h path then Inr None
      else (case sn_read h (path_join path ''capacity'') of
              Inl e \<Rightarrow> if read_error e then Inr None else Inl e
            | Inr capacity \<Rightarrow>
                (case py_int_of (str_strip capacity) of
                   None \<Rightarrow> Inr None
                 | Some pct \<Rightarrow>
                     (case sn_read h (path_join path ''status'') of
                        Inl e \<Rightarrow> if read_error e then Inr None else Inl e
                      | Inr t \<Rightarrow>
                          Inr (Some [(''percentage'', PInt pct), (''charging'', PBool (str_lower (str_strip t) \<in> {''charging'', ''full''})),
                                     (''status'', PStr (str_strip t)), (''source'', PStr ''sysfs'')])))))"

fun power_readings :: "sense_host \<Rightarrow> string list \<Rightarrow> pyval sdict result" where
  "power_readings h [] = Inr [(''error'', PStr ''no battery info available'')]"
| "power_readings h (p # ps) =
     (case power_reading h p of Inl e \<Rightarrow> Inl e | Inr (Some d) \<Rightarrow> Inr d | Inr None \<Rightarrow> power_readings h ps)"

definition battery_sensor :: "sense_host \<Rightarrow> pyval sdict result" where
  "battery_sensor h =
     (case api_call h ''BatteryStatus'' [] of
        Inl e \<Rightarrow> Inl e
      | Inr (Some (kv # r)) \<Rightarrow>
          (let info = kv # r in
           Inr [(''percentage'', dgetd info ''percentage'' PNone),
                (''charging'', PBool (dgetd info ''plugged'' PNone \<in> {PStr ''AC'', PStr ''USB'', PStr ''Wireless''})),
                (''health'', dgetd info ''health'' PNone), (''temperature'', dgetd info ''temperature'' PNone), (''source'', PStr (api_name h))])
      | Inr _ \<Rightarrow> power_readings h (map (path_join ''/sys/class/power_supply'') [''battery'', ''BAT0'', ''BAT1'']))"

definition device_sensor :: "sense_host \<Rightarrow> pyval sdict result" where
  "device_sensor h = Inr
     [(''platform'', PStr (sn_system h)), (''machine'', PStr (sn_machine h)), (''node'', PStr (sn_node h)), (''release'', PStr (sn_release h)),
      (''python_version'', PStr (sn_python h)), (''prefix'', PStr (host_prefix h)), (''host'', PStr (host_identity h)),
      (''phone_host'', PBool (is_termux_compatible h)), (''cpus'', case sn_cpus h of Some n \<Rightarrow> PInt n | None \<Rightarrow> PNone)]"

definition disk_reading :: "sense_host \<Rightarrow> pyval sdict result" where
  "disk_reading h =
     (case sn_disk h of
        Inl e \<Rightarrow> if os_error e then Inr [(''error'', PStr ''disk usage unavailable'')] else Inl e
      | Inr (whole, used, free) \<Rightarrow> Inr [(''total_bytes'', PInt whole), (''used_bytes'', PInt used), (''free_bytes'', PInt free)])"

definition environment_sensor :: "sense_host \<Rightarrow> pyval sdict result" where
  "environment_sensor h = map_sum id (\<lambda>disk.
     [(''cwd'', PStr (sn_cwd h)), (''user'', PStr (dgetd (sn_env h) ''USER'' (dgetd (sn_env h) ''USERNAME'' []))), (''home'', PStr (sn_home h)),
      (''disk'', PDict disk), (''env_keys'', PList (map PStr (sort (dkeys (sn_env h)))))]) (disk_reading h)"

definition interface_of :: "string \<Rightarrow> string option" where
  "interface_of line =
     (case split_char (CHR '':'') line of
        [name, _] \<Rightarrow> if str_strip name \<in> {''lo'', ''sit0'', ''virbr0''} then None else Some (str_strip name)
      | _ \<Rightarrow> None)"

definition network_sensor :: "sense_host \<Rightarrow> pyval sdict result" where
  "network_sensor h =
     (case (case sn_addresses h of Inl e \<Rightarrow> if host_error e then Inr [] else Inl e | Inr a \<Rightarrow> Inr a) of
        Inl e \<Rightarrow> Inl e
      | Inr ips \<Rightarrow>
          (case (case sn_read h ''/proc/net/dev'' of
                   Inl e \<Rightarrow> if os_error e then Inr [] else Inl e
                 | Inr t \<Rightarrow> Inr (List.map_filter interface_of (drop 2 (file_lines t)))) of
             Inl e \<Rightarrow> Inl e
           | Inr interfaces \<Rightarrow>
               Inr [(''hostname'', PStr (sn_node h)), (''ips'', PList (map PStr ips)), (''interfaces'', PList (map PStr interfaces))]))"

definition load_numbers :: "string \<Rightarrow> pyval list" where
  "load_numbers t = (case those (map py_float_of (take 3 (str_words t))) of Some xs \<Rightarrow> xs | None \<Rightarrow> [])"

fun mem_rows :: "string list \<Rightarrow> pyval sdict \<Rightarrow> pyval sdict" where
  "mem_rows [] d = d"
| "mem_rows (l # ls) d =
     (let (k, found, v) = partition_char (CHR '':'') l in mem_rows ls (if found then dput k (PStr (str_strip v)) d else d))"

definition nth_load :: "pyval list \<Rightarrow> nat \<Rightarrow> pyval" where
  "nth_load xs i = (if i < length xs then xs ! i else PNone)"

definition resources_sensor :: "sense_host \<Rightarrow> pyval sdict result" where
  "resources_sensor h =
     (case (case sn_read h ''/proc/loadavg'' of Inl e \<Rightarrow> if read_error e then Inr [] else Inl e | Inr t \<Rightarrow> Inr (load_numbers t)) of
        Inl e \<Rightarrow> Inl e
      | Inr load \<Rightarrow>
          (case (case sn_read h ''/proc/meminfo'' of Inl e \<Rightarrow> if os_error e then Inr [] else Inl e | Inr t \<Rightarrow> Inr (mem_rows (file_lines t) [])) of
             Inl e \<Rightarrow> Inl e
           | Inr mem \<Rightarrow>
               Inr [(''cpus'', PInt (case sn_cpus h of Some n \<Rightarrow> if n = 0 then 1 else n | None \<Rightarrow> 1)), (''load_1m'', nth_load load 0),
                    (''load_5m'', nth_load load 1), (''load_15m'', nth_load load 2), (''mem'', PDict mem)]))"

section \<open>A snapshot\<close>

definition look_sensor :: "sense_host \<Rightarrow> string \<Rightarrow> pyval result" where
  "look_sensor h name = map_sum id PDict
     (if name = ''device'' then device_sensor h
      else if name = ''environment'' then environment_sensor h
      else if name = ''battery'' then battery_sensor h
      else if name = ''network'' then network_sensor h
      else resources_sensor h)"

definition sensor_names :: "string list" where
  "sensor_names = [''device'', ''environment'', ''battery'', ''network'', ''resources'']"

text \<open>The keys a reading of a sensor may have.\<close>

definition sensor_keys :: "string \<Rightarrow> string list list" where
  "sensor_keys name =
     (if name = ''device'' then
        [[''platform'', ''machine'', ''node'', ''release'', ''python_version'', ''prefix'', ''host'', ''phone_host'', ''cpus'']]
      else if name = ''environment'' then [[''cwd'', ''user'', ''home'', ''disk'', ''env_keys'']]
      else if name = ''battery'' then
        [[''percentage'', ''charging'', ''health'', ''temperature'', ''source''], [''percentage'', ''charging'', ''status'', ''source''], [''error'']]
      else if name = ''network'' then [[''hostname'', ''ips'', ''interfaces'']]
      else [[''cpus'', ''load_1m'', ''load_5m'', ''load_15m'', ''mem'']])"

text \<open>A host on which whatever fails fails with an operating system error or runs out of time.\<close>

definition plain_host :: "sense_host \<Rightarrow> bool" where
  "plain_host h \<longleftrightarrow> (\<forall>c e. sn_program h c = Inl e \<longrightarrow> host_error e) \<and> (\<forall>p e. sn_read h p = Inl e \<longrightarrow> os_error e) \<and>
     (\<forall>e. sn_disk h = Inl e \<longrightarrow> os_error e) \<and> (\<forall>e. sn_addresses h = Inl e \<longrightarrow> host_error e)"

lemma plainD:
  assumes "plain_host h"
  shows "sn_program h c = Inl e \<Longrightarrow> host_error e" "sn_read h p = Inl e \<Longrightarrow> os_error e"
    "sn_disk h = Inl e \<Longrightarrow> os_error e" "sn_addresses h = Inl e \<Longrightarrow> host_error e"
  using assms by (auto simp: plain_host_def)

lemma api_call_answers: "plain_host h \<Longrightarrow> \<exists>p. api_call h n a = Inr p"
  using plainD(1) by (auto simp: api_call_def split: option.split sum.split)

lemma power_reading_keys:
  assumes "plain_host h"
  shows "\<exists>r. power_reading h p = Inr r \<and> (\<forall>d. r = Some d \<longrightarrow> dkeys d = [''percentage'', ''charging'', ''status'', ''source''])"
  using plainD(2) [OF assms] by (auto simp: power_reading_def read_error_def split: option.split sum.split)

lemma power_readings_keys:
  assumes "plain_host h"
  shows "\<exists>d. power_readings h ps = Inr d \<and> dkeys d \<in> {[''percentage'', ''charging'', ''status'', ''source''], [''error'']}"
proof (induction ps)
  case (Cons p ps)
  obtain r where r: "power_reading h p = Inr r" "\<And>d. r = Some d \<Longrightarrow> dkeys d = [''percentage'', ''charging'', ''status'', ''source'']"
    using power_reading_keys [OF assms] by blast
  then show ?case using Cons.IH by (cases r) auto
qed simp

lemma battery_keys:
  assumes "plain_host h"
  shows "\<exists>d. battery_sensor h = Inr d \<and> dkeys d \<in> set (sensor_keys ''battery'')"
proof -
  obtain p where p: "api_call h ''BatteryStatus'' [] = Inr p" using api_call_answers [OF assms] by blast
  note fallback = power_readings_keys [OF assms, of "map (path_join ''/sys/class/power_supply'') [''battery'', ''BAT0'', ''BAT1'']"]
  have keys: "set (sensor_keys ''battery'') = {[''percentage'', ''charging'', ''health'', ''temperature'', ''source''],
      [''percentage'', ''charging'', ''status'', ''source''], [''error'']}"
    by (simp add: sensor_keys_def)
  show ?thesis
  proof (cases "\<exists>r. p = Some r \<and> r \<noteq> []")
    case True
    then show ?thesis by (auto simp: battery_sensor_def p Let_def keys neq_Nil_conv)
  next
    case False
    then have "battery_sensor h = power_readings h (map (path_join ''/sys/class/power_supply'') [''battery'', ''BAT0'', ''BAT1''])"
      by (cases p; cases "the p") (auto simp: battery_sensor_def p)
    then show ?thesis using fallback unfolding keys by (metis insertCI)
  qed
qed

lemma sensor_answers:
  assumes "plain_host h" and "name \<in> set sensor_names"
  shows "\<exists>d. look_sensor h name = Inr (PDict d) \<and> dkeys d \<in> set (sensor_keys name)"
proof -
  have device: "\<exists>d. device_sensor h = Inr d \<and> dkeys d \<in> set (sensor_keys ''device'')"
    by (simp add: device_sensor_def sensor_keys_def)
  have environment: "\<exists>d. environment_sensor h = Inr d \<and> dkeys d \<in> set (sensor_keys ''environment'')"
    using plainD(3) [OF assms(1)] by (auto simp: environment_sensor_def disk_reading_def sensor_keys_def split: sum.split)
  have network: "\<exists>d. network_sensor h = Inr d \<and> dkeys d \<in> set (sensor_keys ''network'')"
    using plainD(2,4) [OF assms(1)] by (auto simp: network_sensor_def sensor_keys_def split: sum.split)
  have resources: "\<exists>d. resources_sensor h = Inr d \<and> dkeys d \<in> set (sensor_keys ''resources'')"
    using plainD(2) [OF assms(1)] by (auto simp: resources_sensor_def read_error_def sensor_keys_def split: sum.split)
  have "name = ''device'' \<or> name = ''environment'' \<or> name = ''battery'' \<or> name = ''network'' \<or> name = ''resources''"
    using assms(2) by (simp add: sensor_names_def)
  moreover have look: "look_sensor h ''device'' = map_sum id PDict (device_sensor h)"
    "look_sensor h ''environment'' = map_sum id PDict (environment_sensor h)" "look_sensor h ''battery'' = map_sum id PDict (battery_sensor h)"
    "look_sensor h ''network'' = map_sum id PDict (network_sensor h)" "look_sensor h ''resources'' = map_sum id PDict (resources_sensor h)"
    by (simp_all add: look_sensor_def)
  have answer: "\<exists>d. look_sensor h n = Inr (PDict d) \<and> dkeys d \<in> set (sensor_keys n)"
    if "look_sensor h n = map_sum id PDict r" "\<exists>d. r = Inr d \<and> dkeys d \<in> set (sensor_keys n)" for n r
    using that by auto
  note all = answer [OF look(1) device] answer [OF look(2) environment] answer [OF look(3) battery_keys [OF assms(1)]]
    answer [OF look(4) network] answer [OF look(5) resources]
  ultimately show ?thesis by (elim disjE) (hypsubst, rule all)+
qed

text \<open>On such a host no sensor of the daemon ever fails, and every reading has the keys of its sensor.\<close>

lemma snapshot_complete:
  assumes "plain_host h"
  shows "list_all2 (\<lambda>n (k, v). k = n \<and> (\<exists>d. v = PDict d \<and> dkeys d \<in> set (sensor_keys n))) sensor_names
     (hub_snapshot (look_sensor h) (fold (\<lambda>n. hub_register n n) sensor_names []))"
proof -
  have hub: "fold (\<lambda>n. hub_register n n) sensor_names [] = map (\<lambda>n. (n, n)) sensor_names"
    by (simp add: sensor_names_def hub_register_def)
  show ?thesis
    unfolding hub hub_snapshot_def
    by (auto simp: list.rel_map list_all2_same dest!: sensor_answers [OF assms])
qed

section \<open>What the readings get wrong\<close>

text \<open>A program whose output is no text raises, although the module promises None.\<close>

lemma undecodable_output_raises:
  assumes "api_binary h = Some b" and "sn_program h [b, n] = Inl (Exc ''UnicodeDecodeError'' m)"
  shows "api_call h n [] = Inl (Exc ''UnicodeDecodeError'' m)"
  using assms by (simp add: api_call_def host_error_def os_error_def)

text \<open>A reply that is no JSON counts as a battery reading without a level, and hides the one of the kernel.\<close>

lemma garbage_hides_battery:
  assumes "api_binary h = Some b" and "sn_program h [b, ''BatteryStatus''] = Inr \<lparr>cm_code = 0, cm_out = ''busy'', cm_err = []\<rparr>"
  shows "\<exists>d. battery_sensor h = Inr d \<and> dget d ''percentage'' = Some PNone"
proof -
  have "coerce_payload ''busy'' = [(''raw'', PStr ''busy'')]" "str_strip ''busy'' = ''busy''" by code_simp+
  then show ?thesis using assms by (simp add: battery_sensor_def api_call_def Let_def dgetd_def)
qed

text \<open>An empty inbox is reported as an unavailable one.\<close>

lemma empty_inbox_unavailable:
  assumes "api_sms h (PInt 10) = Inr (PList [])" and "api_name h = b"
  shows "fst (android_invoke h kv \<lparr>cc_action = ''android.sms'', cc_scope = None, cc_extra = [], cc_execution = None\<rparr> s) =
     Inr (RetResult (cr_ok (PDict [(''error'', PStr (b @ '' sms unavailable''))])))"
  using assms by (simp add: android_invoke_def api_outcome_def dgetd_def py_or_def)

text \<open>Every identity but the desktop's is that of a phone.\<close>

lemma phone_or_desktop: "is_termux_compatible h \<longleftrightarrow> host_identity h \<noteq> ''desktop''"
  by (auto simp: is_termux_compatible_def host_identity_def Let_def)

end
