(* ===== verification/Tool_Caps.thy ===== *)
theory Tool_Caps
  imports Host_Caps Deb
begin

text \<open>
  The capabilities over the standard library: \<open>capabilities/impl/network.py\<close>, \<open>pkg.py\<close>, \<open>process.py\<close>, \<open>crypto.py\<close>, \<open>time_utils.py\<close>,
  \<open>python_runner.py\<close> and \<open>archive.py\<close>. What the network, the interpreter, digests, randomness, clocks and archive files do is an
  argument.
\<close>

section \<open>The network\<close>

datatype http_answer = Answered int "pyval sdict" string | Refused int | Unreachable string

text \<open>\<open>urlopen\<close>: the address, the method, the body with its content type; other exceptions are a left value.\<close>

type_synonym 's http = "string \<Rightarrow> string \<Rightarrow> (string \<times> string) option \<Rightarrow> 's \<Rightarrow> http_answer result \<times> 's"

definition net_reply :: "http_answer \<Rightarrow> pyval" where
  "net_reply a =
     (case a of
        Answered status headers raw \<Rightarrow>
          PDict [(''status'', PInt status), (''headers'', PDict headers), (''body'', case json_loads raw of Some v \<Rightarrow> v | None \<Rightarrow> PStr raw)]
      | Refused c \<Rightarrow> PDict [(''error'', PStr (''HTTP '' @ str_of_int c)), (''status'', PInt c)]
      | Unreachable reason \<Rightarrow> PDict [(''error'', PStr reason)])"

definition net_request :: "'s http \<Rightarrow> pyval \<Rightarrow> string \<Rightarrow> string option \<Rightarrow> 's \<Rightarrow> pyval result \<times> 's" where
  "net_request http url verb body s =
     (if \<not> truthy url then (Inr (PDict [(''error'', PStr (''Missing '' @ quoted ''url''))]), s)
      else (case url of
              PStr u \<Rightarrow> (let (r, s) = http u verb (map_option (Pair ''application/json'') body) s in (map_sum id net_reply r, s))
            | _ \<Rightarrow> (Inl (Exc ''TypeError'' ''expected string or bytes-like object''), s)))"

text \<open>\<open>urllib.parse.urlencode\<close>.\<close>

definition hex_upper :: "nat \<Rightarrow> char" where
  "hex_upper d = (if d < 10 then char_of (48 + d) else char_of (55 + d))"

definition url_safe :: "char \<Rightarrow> bool" where
  "url_safe c \<longleftrightarrow> is_alnum c \<or> c \<in> set ''_.-~''"

definition url_char :: "char \<Rightarrow> string" where
  "url_char c =
     (if url_safe c then [c] else if c = CHR '' '' then ''+'' else [CHR ''%'', hex_upper (code c div 16), hex_upper (code c mod 16)])"

definition url_quote :: "string \<Rightarrow> string" where
  "url_quote s = concat (map url_char s)"

definition urlencode :: "(pyfloat \<Rightarrow> string) \<Rightarrow> pyval sdict \<Rightarrow> string" where
  "urlencode sf d = join_str ''&'' (map (\<lambda>(k, v). url_quote k @ ''='' @ url_quote (py_str sf v)) d)"

definition html_to_form :: "(pyfloat \<Rightarrow> string) \<Rightarrow> pyval \<Rightarrow> string option result" where
  "html_to_form sf data =
     (case data of
        PNone \<Rightarrow> Inr None
      | PDict d \<Rightarrow> Inr (Some (urlencode sf d))
      | _ \<Rightarrow> Inl (Exc ''TypeError'' ''not a valid non-string sequence or mapping object''))"

definition post_body :: "(pyfloat \<Rightarrow> string) \<Rightarrow> py_context \<Rightarrow> string option result" where
  "post_body sf x =
     (let j = dgetd x ''json'' PNone in
      if j = PNone then html_to_form sf (dgetd x ''data'' PNone)
      else if json_ok j then Inr (Some (json_dumps sf j)) else Inl json_type_error)"

definition network_invoke :: "(pyfloat \<Rightarrow> string) \<Rightarrow> 's http \<Rightarrow> (pyval \<Rightarrow> pyval \<Rightarrow> 's \<Rightarrow> pyval result \<times> 's) \<Rightarrow> 's runner \<Rightarrow> 's invoker" where
  "network_invoke sf http lookup run kv ctx s =
     (let x = cc_extra ctx; a = cc_action ctx; url = dgetd x ''url'' PNone; accept = map_sum id (RetResult \<circ> cr_ok) in
      if a = ''net.get'' then (let (r, s) = net_request http url ''GET'' None s in (accept r, s))
      else if a = ''net.post'' then
        (case post_body sf x of
           Inl e \<Rightarrow> (Inl e, s)
         | Inr body \<Rightarrow> (let (r, s) = net_request http url ''POST'' body s in (accept r, s)))
      else if a = ''net.dns'' then
        (let (r, s) = lookup (dgetd x ''host'' PNone) (dgetd x ''port'' (PInt 0)) s
         in (Inr (RetResult (case r of
                Inl e \<Rightarrow> cr_fail (''socket: '' @ exc_msg e)
              | Inr info \<Rightarrow> cr_ok (PDict [(''host'', dgetd x ''host'' PNone), (''results'', info)]))), s))
      else if a = ''net.ping'' then
        (let (r, s) = run (PList [PStr ''ping'', PStr ''-c'', PStr (py_str sf (dgetd x ''count'' (PInt 3))), dgetd x ''host'' (PStr ''localhost'')])
              PNone (dgetd x ''timeout'' (PInt 10)) s
         in (Inr (RetResult (case r of
                Inl e \<Rightarrow> cr_fail (''ping: '' @ exc_msg e)
              | Inr c \<Rightarrow> cr_ok (PDict [(''exit_code'', PInt (cm_code c)), (''stdout'', PStr (cm_out c))]))), s))
      else (Inr (RetResult (cr_fail (''Unsupported action '' @ quoted a))), s))"

section \<open>Packages\<close>

record 's pkg_host =
  ph_python :: string
  ph_implementation :: string
  ph_executable :: string
  ph_run :: "string list \<Rightarrow> 's \<Rightarrow> completed result \<times> 's"

definition run_error :: "exc \<Rightarrow> bool" where
  "run_error e \<longleftrightarrow> os_error e \<or> exc_type e = ''TimeoutExpired''"

definition package_name :: "string \<Rightarrow> string" where
  "package_name line = (if CHR ''/'' \<in> set line then hd (split_char (CHR ''/'') line) else hd (str_words line))"

definition host_pkg_list :: "'s pkg_host \<Rightarrow> 's \<Rightarrow> string list option result \<times> 's" where
  "host_pkg_list h s =
     (let (r, s) = ph_run h [''pkg'', ''list-installed''] s
      in (case r of
            Inl e \<Rightarrow> if run_error e then Inr None else Inl e
          | Inr c \<Rightarrow> Inr (if cm_code c \<noteq> 0 then None else Some (take 200 (map package_name (nonblank_lines (cm_out c))))), s))"

definition pkg_info :: "'s pkg_host \<Rightarrow> 's \<Rightarrow> pyval result \<times> 's" where
  "pkg_info h s =
     (let (r, s) = host_pkg_list h s
      in (map_sum id (\<lambda>names. PDict ([(''python_version'', PStr (hd (str_words (ph_python h)))), (''python_impl'', PStr (ph_implementation h)),
            (''executable'', PStr (ph_executable h))] @
            (case names of None \<Rightarrow> []
             | Some ns \<Rightarrow> [(''host_packages_count'', PInt (int (List.length ns))), (''host_packages'', PList (map PStr ns))]))) r, s))"

definition pip_row :: "pyval \<Rightarrow> pyval result" where
  "pip_row v =
     (case v of
        PDict d \<Rightarrow>
          (case (dget d ''name'', dget d ''version'') of
             (None, _) \<Rightarrow> Inl (Exc ''KeyError'' (repr_str ''name''))
           | (_, None) \<Rightarrow> Inl (Exc ''KeyError'' (repr_str ''version''))
           | (Some n, Some w) \<Rightarrow> Inr (PDict [(''name'', n), (''version'', w)]))
      | _ \<Rightarrow> Inl (Exc ''TypeError'' ''indices must be integers''))"

definition list_pip :: "'s pkg_host \<Rightarrow> 's \<Rightarrow> pyval result \<times> 's" where
  "list_pip h s =
     (let (r, s) = ph_run h [ph_executable h, ''-m'', ''pip'', ''list'', ''--format=json''] s
      in (case r of
            Inl e \<Rightarrow> if run_error e \<or> exc_type e = ''UnicodeDecodeError'' then Inr (PList []) else Inl e
          | Inr c \<Rightarrow>
              if cm_code c \<noteq> 0 then Inr (PList [])
              else (case json_loads (cm_out c) of
                      None \<Rightarrow> Inr (PList [])
                    | Some (PList rows) \<Rightarrow> map_sum id PList (try_map pip_row rows)
                    | Some (PDict d) \<Rightarrow> if d = [] then Inr (PList []) else Inl (Exc ''TypeError'' ''indices must be integers'')
                    | Some (PStr t) \<Rightarrow> if t = [] then Inr (PList []) else Inl (Exc ''TypeError'' ''indices must be integers'')
                    | Some _ \<Rightarrow> Inl (Exc ''TypeError'' ''object is not iterable'')), s))"

definition pkg_invoke :: "'s pkg_host \<Rightarrow> 's invoker" where
  "pkg_invoke h kv ctx s =
     (if cc_action ctx = ''pkg.info'' then (let (r, s) = pkg_info h s in (map_sum id (RetResult \<circ> cr_ok) r, s))
      else if cc_action ctx = ''pkg.list'' then (let (r, s) = list_pip h s in (map_sum id (RetResult \<circ> cr_ok) r, s))
      else (Inr (RetResult (cr_fail (''Unsupported action '' @ quoted (cc_action ctx)))), s))"

section \<open>Processes\<close>

record proc_host =
  pr_entries :: "string list result"
  pr_read :: "string \<Rightarrow> string result"
  pr_cpus :: "int option"
  pr_disk :: "(int \<times> int \<times> int) result"

definition process_row :: "proc_host \<Rightarrow> string \<Rightarrow> pyval list result" where
  "process_row h entry =
     (if entry = [] \<or> \<not> list_all is_digit entry then Inr []
      else (case pr_read h (''/proc/'' @ entry @ ''/comm'') of
              Inl e \<Rightarrow> if os_error e \<or> exc_type e = ''UnicodeDecodeError'' then Inr [] else Inl e
            | Inr t \<Rightarrow> Inr [PDict [(''pid'', PInt (int (digits_val entry))), (''name'', PStr (str_strip t))]]))"

definition list_processes :: "proc_host \<Rightarrow> pyval result" where
  "list_processes h =
     (case pr_entries h of Inl e \<Rightarrow> Inl e | Inr es \<Rightarrow> map_sum id (PList \<circ> concat) (try_map (process_row h) es))"

text \<open>Every line of the memory file is a key, with or without a colon.\<close>

fun meminfo_rows :: "string list \<Rightarrow> pyval sdict \<Rightarrow> pyval sdict" where
  "meminfo_rows [] d = d"
| "meminfo_rows (l # ls) d = (let (k, _, v) = partition_char (CHR '':'') l in meminfo_rows ls (dput k (PStr (str_strip v)) d))"

definition disk_row :: "int \<times> int \<times> int \<Rightarrow> pyval" where
  "disk_row u = (let (avail, blocks, frame) = u in PDict [(''free_bytes'', PInt (avail * frame)), (''total_bytes'', PInt (blocks * frame))])"

definition system_info :: "proc_host \<Rightarrow> pyval result" where
  "system_info h =
     (case (case pr_read h ''/proc/meminfo'' of
              Inl e \<Rightarrow> if os_error e then Inr [] else Inl e
            | Inr t \<Rightarrow> Inr [(''memory'', PDict (meminfo_rows (file_lines t) []))]) of
        Inl e \<Rightarrow> Inl e
      | Inr memory \<Rightarrow>
          (case (case pr_disk h of Inl e \<Rightarrow> if os_error e then Inr [] else Inl e | Inr u \<Rightarrow> Inr [(''disk'', disk_row u)]) of
             Inl e \<Rightarrow> Inl e
           | Inr disk \<Rightarrow> Inr (PDict ([(''cpus'', case pr_cpus h of Some n \<Rightarrow> PInt n | None \<Rightarrow> PNone)] @ memory @ disk))))"

definition process_invoke :: "proc_host \<Rightarrow> (int \<Rightarrow> 's \<Rightarrow> unit result \<times> 's) \<Rightarrow> 's invoker" where
  "process_invoke h kill kv ctx s =
     (if cc_action ctx = ''process.list'' then (map_sum id (RetResult \<circ> cr_ok) (list_processes h), s)
      else if cc_action ctx = ''process.kill'' then kill_invoke kill (cc_extra ctx) s
      else if cc_action ctx = ''system.info'' then (map_sum id (RetResult \<circ> cr_ok) (system_info h), s)
      else (Inr (RetResult (cr_fail (''Unsupported action '' @ quoted (cc_action ctx)))), s))"

section \<open>Digests, identifiers, randomness\<close>

record 's crypto_host =
  ch_digest :: "string \<Rightarrow> bytes \<Rightarrow> string result"
  ch_read :: "pyval \<Rightarrow> 's \<Rightarrow> bytes result"
  ch_uuid :: "'s \<Rightarrow> string \<times> 's"
  ch_random :: "int \<Rightarrow> 's \<Rightarrow> bytes result \<times> 's"

definition token_hex :: "bytes \<Rightarrow> string" where
  "token_hex b = concat (map (\<lambda>c. hex2 (code c)) b)"

definition digest_row :: "'s crypto_host \<Rightarrow> string \<Rightarrow> bytes \<Rightarrow> pyval result" where
  "digest_row h mode raw = map_sum id (\<lambda>d. PDict [(''mode'', PStr mode), (''hex'', PStr d), (''length'', PInt (int (List.length d)))])
     (ch_digest h mode raw)"

definition crypto_hash :: "(pyfloat \<Rightarrow> string) \<Rightarrow> 's crypto_host \<Rightarrow> py_context \<Rightarrow> 's \<Rightarrow> pyval result" where
  "crypto_hash sf h x s =
     (case dgetd x ''mode'' (PStr ''sha256'') of
        PStr m \<Rightarrow>
          (if truthy (dgetd x ''file'' PNone)
           then (case ch_read h (dgetd x ''file'' PNone) s of Inl e \<Rightarrow> Inl e | Inr raw \<Rightarrow> digest_row h (str_lower m) raw)
           else if dgetd x ''data'' PNone \<noteq> PNone then digest_row h (str_lower m) (py_str sf (dgetd x ''data'' PNone))
           else Inl (Exc ''ValueError'' (''crypto.hash requires '' @ quoted ''data'' @ '' or '' @ quoted ''file'')))
      | _ \<Rightarrow> Inl (Exc ''AttributeError'' ''object has no attribute lower''))"

definition crypto_invoke :: "(pyfloat \<Rightarrow> string) \<Rightarrow> 's crypto_host \<Rightarrow> 's invoker" where
  "crypto_invoke sf h kv ctx s =
     (let x = cc_extra ctx; a = cc_action ctx in
      if a = ''crypto.uuid'' then (let (u, s) = ch_uuid h s in (Inr (RetResult (cr_ok (PDict [(''uuid'', PStr u)]))), s))
      else if a = ''crypto.random'' then
        (case to_int (dgetd x ''size'' (PInt 16)) of
           Inl e \<Rightarrow> (Inl e, s)
         | Inr n \<Rightarrow>
             (let (r, s) = ch_random h n s
              in (map_sum id (\<lambda>b. RetResult (cr_ok (PDict [(''bytes'', PStr (token_hex b)), (''size'', PInt n)]))) r, s)))
      else if a = ''crypto.hash'' then (map_sum id (RetResult \<circ> cr_ok) (crypto_hash sf h x s), s)
      else (Inr (RetResult (cr_fail (''Unsupported action '' @ quoted a))), s))"

section \<open>Time\<close>

record 's time_host =
  ti_iso :: "'s \<Rightarrow> string"
  ti_utc :: "'s \<Rightarrow> string"
  ti_unix :: "'s \<Rightarrow> pyfloat"
  ti_format :: "pyval \<Rightarrow> 's \<Rightarrow> string result"
  ti_sleep :: "pyfloat \<Rightarrow> 's \<Rightarrow> 's"

text \<open>\<open>float()\<close> of a value; the values that are no number of the model are the infinities and the not-a-number.\<close>

definition to_float :: "pyval \<Rightarrow> pyval result" where
  "to_float v =
     (case v of
        PInt i \<Rightarrow> Inr (PFloat (of_int i))
      | PBool b \<Rightarrow> Inr (PFloat (if b then 1 else 0))
      | PFloat x \<Rightarrow> Inr (PFloat x)
      | PStr s \<Rightarrow> (case py_float_of s of Some x \<Rightarrow> Inr x | None \<Rightarrow> Inl (Exc ''ValueError'' (''could not convert string to float: '' @ repr_str s)))
      | _ \<Rightarrow> Inl (Exc ''TypeError'' ''float() argument must be a string or a real number''))"

definition time_sleep :: "'s time_host \<Rightarrow> pyval \<Rightarrow> 's \<Rightarrow> cap_return result \<times> 's" where
  "time_sleep h v s =
     (case to_float v of
        Inl e \<Rightarrow> (Inl e, s)
      | Inr (PFloat x) \<Rightarrow>
          if x < 0 \<or> 3600 < x then (Inr (RetResult (cr_fail ''sleep outside allowed range (0..3600s)'')), s)
          else (Inr (RetResult (cr_ok (PDict [(''slept_seconds'', PFloat x)]))), ti_sleep h x s)
      | Inr (PObj n) \<Rightarrow>
          if n = ''nan'' then (Inl (Exc ''ValueError'' ''Invalid value NaN (not a number)''), s)
          else (Inr (RetResult (cr_fail ''sleep outside allowed range (0..3600s)'')), s)
      | Inr _ \<Rightarrow> (Inl (Exc ''TypeError'' ''float() argument must be a string or a real number''), s))"

definition time_invoke :: "'s time_host \<Rightarrow> 's invoker" where
  "time_invoke h kv ctx s =
     (let x = cc_extra ctx; a = cc_action ctx in
      if a = ''time.now'' then
        (Inr (RetResult (cr_ok (PDict [(''iso'', PStr (ti_iso h s)), (''unix'', PInt (py_trunc (ti_unix h s))), (''utc'', PStr (ti_utc h s))]))), s)
      else if a = ''time.format'' then
        (map_sum id (RetResult \<circ> cr_ok \<circ> PStr) (ti_format h (dgetd x ''format'' (PStr ''%Y-%m-%d %H:%M:%S'')) s), s)
      else if a = ''time.sleep'' then time_sleep h (dgetd x ''seconds'' (PInt 0)) s
      else (Inr (RetResult (cr_fail (''Unsupported action '' @ quoted a))), s))"

section \<open>Python\<close>

text \<open>
  An interpreter runs a code in a namespace: what it returns or raises, what it prints and the namespace it leaves. A raised
  \<open>Exception\<close> is a left value inside; anything else, an exit for instance, ends the call itself.
\<close>

record py_run =
  pr_outcome :: "pyval result"
  pr_stdout :: string
  pr_names :: "pyval sdict"

record 's interpreter =
  it_version :: string
  it_builtins :: "pyval sdict"
  it_eval :: "pyval \<Rightarrow> pyval sdict \<Rightarrow> 's \<Rightarrow> py_run result \<times> 's"
  it_exec :: "pyval \<Rightarrow> pyval sdict \<Rightarrow> 's \<Rightarrow> py_run result \<times> 's"
  it_traceback :: "exc \<Rightarrow> string"

definition blocked_builtins :: "string list" where
  "blocked_builtins = [''__import__'', ''open'', ''exec'', ''eval'', ''compile'', ''input'']"

definition safe_builtins :: "'s interpreter \<Rightarrow> pyval sdict" where
  "safe_builtins it = filter (\<lambda>(k, v). k \<notin> set blocked_builtins) (it_builtins it)"

definition runner_namespace :: "'s interpreter \<Rightarrow> pyval sdict \<Rightarrow> pyval sdict" where
  "runner_namespace it env = dmerge [(''__builtins__'', PDict (safe_builtins it)), (''_result'', PNone)] env"

definition python_report :: "bool \<Rightarrow> py_run \<Rightarrow> pyval \<Rightarrow> pyval" where
  "python_report evaluated r v =
     (let names = if evaluated then dput ''_result'' v (pr_names r) else pr_names r in
      PDict [(''result'', dgetd names ''_result'' PNone), (''stdout'', PStr (pr_stdout r)),
        (''vars'', PDict (filter (\<lambda>(k, v). \<not> startswith k ''__'') names))])"

definition python_invoke :: "'s interpreter \<Rightarrow> 's invoker" where
  "python_invoke it kv ctx s =
     (let x = cc_extra ctx; evaluated = (cc_action ctx = ''python.eval''); program = dgetd x ''code'' PNone in
      if cc_action ctx = ''python.version'' then (Inr (RetResult (cr_ok (PStr (it_version it)))), s)
      else if \<not> truthy program then (Inr (RetResult (cr_fail (''Missing '' @ quoted ''code''))), s)
      else (case dgetd x ''env'' (PDict []) of
              PDict env \<Rightarrow>
                (case (if evaluated then it_eval it else it_exec it) program (runner_namespace it env) s of
                   (Inl e, s) \<Rightarrow> (Inl e, s)
                 | (Inr r, s) \<Rightarrow>
                     (Inr (RetResult (case pr_outcome r of Inl e \<Rightarrow> cr_fail (it_traceback it e) | Inr v \<Rightarrow> cr_ok (python_report evaluated r v))), s))
            | _ \<Rightarrow> (Inl (Exc ''TypeError'' ''object is not iterable''), s)))"

section \<open>Archives\<close>

text \<open>A host that keeps files and archives; a walk gives the files below a directory, None when the path is none.\<close>

record 's archive_host =
  ah_cwd :: string
  ah_makedirs :: "string \<Rightarrow> 's \<Rightarrow> unit result \<times> 's"
  ah_open :: "string \<Rightarrow> 's \<Rightarrow> unit result \<times> 's"
  ah_walk :: "'s \<Rightarrow> string \<Rightarrow> string list option"
  ah_add :: "string \<Rightarrow> string \<Rightarrow> 's \<Rightarrow> unit result \<times> 's"
  ah_names :: "string \<Rightarrow> 's \<Rightarrow> string list result"
  ah_extract :: "string \<Rightarrow> pyval \<Rightarrow> 's \<Rightarrow> unit result \<times> 's"

fun common_prefix :: "string list \<Rightarrow> string list \<Rightarrow> nat" where
  "common_prefix (x # xs) (y # ys) = (if x = y then Suc (common_prefix xs ys) else 0)"
| "common_prefix xs ys = 0"

definition path_comps :: "string \<Rightarrow> string \<Rightarrow> string list" where
  "path_comps cwd p = filter (\<lambda>c. c \<noteq> []) (split_char (CHR ''/'') (abspath cwd p))"

definition relpath :: "string \<Rightarrow> string \<Rightarrow> string \<Rightarrow> string" where
  "relpath cwd p start =
     (let a = path_comps cwd start; b = path_comps cwd p; i = common_prefix a b;
          r = replicate (List.length a - i) ''..'' @ drop i b
      in if r = [] then ''.'' else join_str ''/'' r)"

definition strip_slashes :: "string \<Rightarrow> string" where
  "strip_slashes = rstrip_chars (\<lambda>c. c = CHR ''/'')"

definition resolve_paths :: "'s archive_host \<Rightarrow> py_context \<Rightarrow> 's \<Rightarrow> (string \<times> string list) result \<times> 's" where
  "resolve_paths h x s =
     (let target = dgetd x ''target'' PNone; sources = dgetd x ''sources'' PNone in
      if \<not> truthy target \<or> \<not> truthy sources
      then (Inl (Exc ''ValueError'' (''archive requires '' @ quoted ''target'' @ '' and '' @ quoted ''sources'')), s)
      else (case target of
              PStr t \<Rightarrow>
                then_do (ah_makedirs h (path_dirname (abspath (ah_cwd h) t)) s) (\<lambda>_ s.
                  (case (case sources of PStr p \<Rightarrow> Some [PStr p] | PList ps \<Rightarrow> Some ps | PDict d \<Rightarrow> Some (map PStr (dkeys d)) | _ \<Rightarrow> None) of
                     None \<Rightarrow> (Inl (Exc ''TypeError'' ''object is not iterable''), s)
                   | Some ps \<Rightarrow> (map_sum id (Pair t) (try_map (\<lambda>p. case p of PStr q \<Rightarrow> Inr q | _ \<Rightarrow> Inl (Exc ''TypeError'' ''expected str, bytes or os.PathLike object'')) ps), s)))
            | _ \<Rightarrow> (Inl (Exc ''TypeError'' ''expected str, bytes or os.PathLike object''), s)))"

definition add_to_zip :: "'s archive_host \<Rightarrow> string \<Rightarrow> 's \<Rightarrow> unit list result \<times> 's" where
  "add_to_zip h source s =
     (case ah_walk h s source of
        Some files \<Rightarrow>
          each_do (\<lambda>full s. then_do (ah_add h full (relpath (ah_cwd h) full (path_dirname (strip_slashes source))) s) (\<lambda>_ s. (Inr [], s))) files s
      | None \<Rightarrow> then_do (ah_add h source (path_basename source) s) (\<lambda>_ s. (Inr [], s)))"

definition add_to_tgz :: "'s archive_host \<Rightarrow> string \<Rightarrow> 's \<Rightarrow> unit list result \<times> 's" where
  "add_to_tgz h source s =
     (let base = path_basename (strip_slashes source)
      in then_do (ah_add h source (if base = [] then source else base) s) (\<lambda>_ s. (Inr [], s)))"

definition pack_archive :: "'s archive_host \<Rightarrow> (string \<Rightarrow> 's \<Rightarrow> unit list result \<times> 's) \<Rightarrow> py_context \<Rightarrow> 's \<Rightarrow> pyval result \<times> 's" where
  "pack_archive h add x s =
     then_do (resolve_paths h x s) (\<lambda>(target, sources) s.
     then_do (ah_open h target s) (\<lambda>_ s.
     then_do (each_do add sources s) (\<lambda>_ s.
       (Inr (PDict [(''target'', PStr target), (''entries'', PInt (int (List.length sources)))]), s))))"

definition unpack_archive :: "'s archive_host \<Rightarrow> py_context \<Rightarrow> 's \<Rightarrow> pyval result \<times> 's" where
  "unpack_archive h x s =
     (let source = dgetd x ''source'' PNone; dest = dgetd x ''dest'' (PStr ''.'') in
      if \<not> truthy source then (Inl (Exc ''ValueError'' (''Missing '' @ quoted ''source'')), s)
      else (case source of
              PStr p \<Rightarrow>
                (case ah_names h p s of
                   Inl e \<Rightarrow> (Inl e, s)
                 | Inr names \<Rightarrow> then_do (ah_extract h p dest s) (\<lambda>_ s.
                     (Inr (PDict [(''source'', source), (''dest'', dest), (''entries'', PInt (int (List.length names)))]), s)))
            | _ \<Rightarrow> (Inl (Exc ''TypeError'' ''expected str, bytes or os.PathLike object''), s)))"

definition archive_error :: "exc \<Rightarrow> bool" where
  "archive_error e \<longleftrightarrow> os_error e \<or> exc_type e \<in> {''ValueError'', ''UnicodeDecodeError'', ''BadZipFile'', ''TarError'', ''ReadError''}"

definition archive_outcome :: "pyval result \<Rightarrow> cap_return result" where
  "archive_outcome r =
     (case r of
        Inr v \<Rightarrow> Inr (RetResult (cr_ok v))
      | Inl e \<Rightarrow> if archive_error e then Inr (RetResult (cr_fail (exc_type e @ '': '' @ exc_msg e))) else Inl e)"

text \<open>The two kinds of archive, each with what opens, lists and unpacks it.\<close>

definition archive_invoke :: "'s archive_host \<Rightarrow> 's archive_host \<Rightarrow> 's invoker" where
  "archive_invoke za ta kv ctx s =
     (let x = cc_extra ctx; a = cc_action ctx; finish = (\<lambda>(r, s). (archive_outcome r, s)) in
      if a = ''archive.zip'' then finish (pack_archive za (add_to_zip za) x s)
      else if a = ''archive.unzip'' then finish (unpack_archive za x s)
      else if a = ''archive.tgz'' then finish (pack_archive ta (add_to_tgz ta) x s)
      else if a = ''archive.untgz'' then finish (unpack_archive ta x s)
      else (Inr (RetResult (cr_fail (''Unsupported action '' @ quoted a))), s))"

section \<open>A form is read back\<close>

text \<open>A reference reader of \<open>application/x-www-form-urlencoded\<close>.\<close>

definition hex_back :: "char \<Rightarrow> nat" where
  "hex_back c = (if is_digit c then code c - 48 else code c - 55)"

fun url_unquote :: "string \<Rightarrow> string" where
  "url_unquote [] = []"
| "url_unquote (c # s) =
     (if c = CHR ''+'' then CHR '' '' # url_unquote s
      else case (c = CHR ''%'', s) of
             (True, a # b # r) \<Rightarrow> char_of (16 * hex_back a + hex_back b) # url_unquote r
           | _ \<Rightarrow> c # url_unquote s)"

definition form_fields :: "string \<Rightarrow> (string \<times> string) list" where
  "form_fields body = map (\<lambda>f. let (k, _, v) = partition_char (CHR ''='') f in (url_unquote k, url_unquote v))
     (filter (\<lambda>f. f \<noteq> []) (split_char (CHR ''&'') body))"

lemma hex_back_upper: "n < 16 \<Longrightarrow> hex_back (hex_upper n) = n"
  by (auto simp: hex_back_def hex_upper_def is_digit_def code_char_of)

lemma safe_not_special: "url_safe c \<Longrightarrow> c \<noteq> CHR ''%'' \<and> c \<noteq> CHR ''+'' \<and> c \<noteq> CHR ''&'' \<and> c \<noteq> CHR ''=''"
  by (auto simp: url_safe_def is_alnum_def is_alpha_def is_digit_def code_def)

lemma unquote_char: "url_unquote (url_char c @ s) = c # url_unquote s"
proof -
  have "code c div 16 < 16" "code c mod 16 < 16" using code_less [of c] by (simp_all add: less_mult_imp_div_less)
  then have "char_of (16 * hex_back (hex_upper (code c div 16)) + hex_back (hex_upper (code c mod 16))) = c"
    by (simp add: hex_back_upper char_of_code)
  then show ?thesis using safe_not_special [of c] by (auto simp: url_char_def)
qed

lemma unquote_quote: "url_unquote (url_quote s @ t) = s @ url_unquote t"
  by (induction s) (simp_all add: url_quote_def unquote_char)

lemma hex_upper_plain: "n < 16 \<Longrightarrow> hex_upper n \<noteq> CHR ''&'' \<and> hex_upper n \<noteq> CHR ''=''"
proof -
  have "hex_upper 0 \<noteq> CHR ''&''" "hex_upper 6 \<noteq> CHR ''=''" by code_simp+
  moreover assume "n < 16"
  ultimately show ?thesis using hex_back_upper [of n] by (auto simp: hex_back_def is_digit_def code_def)
qed

lemma quote_plain: "CHR ''&'' \<notin> set (url_quote s) \<and> CHR ''='' \<notin> set (url_quote s)"
proof (induction s)
  case (Cons c s)
  have "code c div 16 < 16" "code c mod 16 < 16" using code_less [of c] by (simp_all add: less_mult_imp_div_less)
  then have "CHR ''&'' \<notin> set (url_char c) \<and> CHR ''='' \<notin> set (url_char c)"
    using hex_upper_plain [of "code c div 16"] hex_upper_plain [of "code c mod 16"] safe_not_special [of c] by (auto simp: url_char_def)
  with Cons show ?case by (simp add: url_quote_def)
qed (simp add: url_quote_def)

text \<open>
  The form a request posts is read back, by any reader of the format, as exactly the fields it was given, in their order,
  whatever characters their names and values hold.
\<close>

lemma form_read_back: "form_fields (urlencode sf d) = map (\<lambda>(k, v). (k, py_str sf v)) d"
proof (cases "d = []")
  case False
  let ?row = "\<lambda>(k, v). url_quote k @ ''='' @ url_quote (py_str sf v)"
  have row: "?row x \<noteq> [] \<and> CHR ''&'' \<notin> set (?row x)" for x
    using quote_plain [of "fst x"] quote_plain [of "py_str sf (snd x)"] by (cases x) auto
  have "split_char (CHR ''&'') (urlencode sf d) = map ?row d"
    unfolding urlencode_def using False row by (intro join_split_char) auto
  moreover have "filter (\<lambda>f. f \<noteq> []) (map ?row d) = map ?row d" using row by (auto simp: filter_id_conv)
  moreover have "(let (k, _, v) = partition_char (CHR ''='') (?row (k, v)) in (url_unquote k, url_unquote v)) = (k, py_str sf v)" for k v
    using quote_plain [of k] unquote_quote [of k "[]"] unquote_quote [of "py_str sf v" "[]"]
    by (simp add: partition_char_append)
  ultimately show ?thesis by (auto simp: form_fields_def)
qed (simp add: urlencode_def form_fields_def)

section \<open>What the capabilities report\<close>

text \<open>A request that fails is a success of the capability, and a form is labelled as JSON.\<close>

lemma failed_request_succeeds:
  assumes "http u ''GET'' None s = (Inr (Unreachable m), s')" and "u \<noteq> []"
  shows "network_invoke sf http lookup run kv \<lparr>cc_action = ''net.get'', cc_scope = None, cc_extra = [(''url'', PStr u)], cc_execution = None\<rparr> s =
     (Inr (RetResult (cr_ok (PDict [(''error'', PStr m)]))), s')"
  using assms by (simp add: network_invoke_def net_request_def net_reply_def dgetd_def Let_def)

lemma form_labelled_json:
  "u \<noteq> [] \<Longrightarrow> net_request http (PStr u) ''POST'' (Some body) s =
     (map_sum id net_reply (fst (http u ''POST'' (Some (''application/json'', body)) s)), snd (http u ''POST'' (Some (''application/json'', body)) s))"
  by (simp add: net_request_def case_prod_unfold Let_def)

text \<open>The count of the host's packages is the count of the names kept, never more than two hundred.\<close>

lemma package_count_capped:
  assumes "ph_run h [''pkg'', ''list-installed''] s = (Inr \<lparr>cm_code = 0, cm_out = t, cm_err = e\<rparr>, s')"
  shows "\<exists>d n. fst (pkg_info h s) = Inr (PDict d) \<and> dget d ''host_packages_count'' = Some (PInt n) \<and> n = int (min 200 (List.length (nonblank_lines t)))"
  using assms by (simp add: pkg_info_def host_pkg_list_def case_prod_unfold Let_def min.commute)

text \<open>The jail: no blocked builtin is offered, unless the caller's environment brings its own table.\<close>

lemma jail_without_env:
  "''__builtins__'' \<notin> set (dkeys env) \<Longrightarrow>
   dget (runner_namespace it env) ''__builtins__'' = Some (PDict (safe_builtins it)) \<and> set (dkeys (safe_builtins it)) \<inter> set blocked_builtins = {}"
  by (auto simp: runner_namespace_def safe_builtins_def dget_dmerge split: option.split dest!: map_of_SomeD intro: rev_image_eqI)

lemma jail_replaced:
  "dget (runner_namespace it [(''__builtins__'', b)]) ''__builtins__'' = Some b"
  by (simp add: runner_namespace_def dmerge_def)

text \<open>Whatever lies below the root directory is archived under a name that climbs out of the working directory.\<close>

lemma root_names_climb: "relpath ''/home/u'' ''/etc/passwd'' (path_dirname (strip_slashes ''/'')) = ''../../etc/passwd''"
  by code_simp

text \<open>A time that is asked for is slept only within the hour.\<close>

lemma sleep_bounded:
  assumes "snd (time_sleep h v s) \<noteq> s"
  shows "\<exists>x. to_float v = Inr (PFloat x) \<and> 0 \<le> x \<and> x \<le> 3600 \<and> snd (time_sleep h v s) = ti_sleep h x s"
  using assms by (auto simp: time_sleep_def split: sum.splits pyval.splits if_splits)

text \<open>A random token shows each byte as two characters.\<close>

lemma token_length: "List.length (token_hex b) = 2 * List.length b"
  by (induction b) (simp_all add: token_hex_def hex2_def)

end
