(* ===== verification/Setup.thy ===== *)
theory Setup
  imports Lifecycle Config
begin

text \<open>
  How an install comes to life: the migration of an older one (\<open>osbuild/migrate.py\<close>), the first-run seeds (\<open>seed_runtime\<close> of
  \<open>bootstrap.py\<close>), the daemon process around the kernel (\<open>run_daemon\<close>, \<open>RuntimeServer.start\<close> and \<open>close\<close>, \<open>spawn_daemon\<close> of
  \<open>runtime.py\<close>) and the environment of a deployed system (\<open>system/__init__.py\<close>). Files are named by their normal absolute path;
  host operations on directories succeed.
\<close>

section \<open>Migration\<close>

definition at_path :: "py_env \<Rightarrow> string \<Rightarrow> string" where
  "at_path env p = py_abspath env p"

definition is_file :: "py_env \<Rightarrow> string \<Rightarrow> layout \<Rightarrow> bool" where
  "is_file env p l \<longleftrightarrow> dget (ly_files l) (at_path env p) \<noteq> None"

definition dir_made :: "py_env \<Rightarrow> string \<Rightarrow> layout \<Rightarrow> layout" where
  "dir_made env p = layout_dir (at_path env p)"

definition same_file_error :: "string \<Rightarrow> string \<Rightarrow> exc" where
  "same_file_error src dst = Exc ''SameFileError'' (repr_str src @ '' and '' @ repr_str dst @ '' are the same file'')"

definition copy2 :: "py_env \<Rightarrow> string \<Rightarrow> string \<Rightarrow> layout \<Rightarrow> unit result \<times> layout" where
  "copy2 env src dst l =
     (if at_path env src = at_path env dst then (Inl (same_file_error src dst), l)
      else (case dget (ly_files l) (at_path env src) of
              None \<Rightarrow> (Inl (Exc ''FileNotFoundError'' src), l)
            | Some t \<Rightarrow> (Inr (), l\<lparr>ly_files := dput (at_path env dst) t (ly_files l)\<rparr>)))"

text \<open>One file of the older install: where it is, where it goes, and its name in the report.\<close>

definition copy_present :: "py_env \<Rightarrow> string \<times> string \<times> string \<Rightarrow> layout \<Rightarrow> string list result \<times> layout" where
  "copy_present env m l =
     (case m of (src, dst, name) \<Rightarrow>
        if is_file env src l then then_do (copy2 env src dst l) (\<lambda>_ l. (Inr [name], l)) else (Inr [], l))"

definition memory_files :: "string list" where
  "memory_files = [''memory.json'', ''knowledge.json'', ''experience.jsonl'', ''episodic.jsonl'', ''procedural.json'']"

definition state_files :: "string list" where
  "state_files = [''state/goals.json'', ''state/plans.json'', ''state/suggestions.json'']"

definition memory_copies :: "string \<Rightarrow> string \<Rightarrow> (string \<times> string \<times> string) list" where
  "memory_copies source dest = map (\<lambda>n. (path_join (path_join source ''memory'') n, path_join (path_join dest ''memory'') n, ''memory/'' @ n)) memory_files"

definition state_copies :: "string \<Rightarrow> string \<Rightarrow> (string \<times> string \<times> string) list" where
  "state_copies source dest = map (\<lambda>r. (path_join source r, path_join dest r, r)) state_files"

definition config_copy :: "string \<Rightarrow> string \<Rightarrow> string \<times> string \<times> string" where
  "config_copy source dest =
     (path_join source ''config/config.json'', path_join (path_join dest ''config'') ''config.seed.json'', ''config/config.seed.json'')"

definition copy_config :: "py_env \<Rightarrow> string \<Rightarrow> string \<Rightarrow> layout \<Rightarrow> string list result \<times> layout" where
  "copy_config env source dest l =
     (if is_file env (fst (config_copy source dest)) l
      then copy_present env (config_copy source dest) (dir_made env (path_join dest ''config'') l) else (Inr [], l))"

definition identity_path :: "string \<Rightarrow> string" where
  "identity_path dest = path_join dest ''identity.json''"

definition identity_value :: "string \<Rightarrow> pyfloat \<Rightarrow> pyval" where
  "identity_value dest now = PDict [(''from'', PStr ''buster-v0.2.0''), (''to'', PStr ''buster-os-system''),
     (''migrated_at'', PFloat now), (''install_dir'', PStr dest)]"

definition read_identity :: "py_env \<Rightarrow> string \<Rightarrow> layout \<Rightarrow> pyval" where
  "read_identity env p l =
     (case dget (ly_files l) (at_path env p) of
        None \<Rightarrow> PDict []
      | Some t \<Rightarrow> (case json_loads t of Some v \<Rightarrow> v | None \<Rightarrow> PDict []))"

definition copy_all :: "py_env \<Rightarrow> string \<Rightarrow> string \<Rightarrow> layout \<Rightarrow> string list result \<times> layout" where
  "copy_all env source dest l =
     then_do (each_do (copy_present env) (memory_copies source dest) (dir_made env (path_join dest ''memory'') l)) (\<lambda>a l.
     then_do (each_do (copy_present env) (state_copies source dest) (dir_made env (path_join dest ''state'') l)) (\<lambda>b l.
     then_do (copy_config env source dest l) (\<lambda>c l. (Inr (a @ b @ c), l))))"

definition migrate_into :: "py_env \<Rightarrow> (pyfloat \<Rightarrow> string) \<Rightarrow> string \<Rightarrow> string \<Rightarrow> bool \<Rightarrow> pyfloat \<Rightarrow> layout \<Rightarrow> pyval result \<times> layout" where
  "migrate_into env sf source dest force now l0 =
     (let l = dir_made env dest l0; identity = identity_path dest; common = [(''from'', PStr source), (''to'', PStr dest)] in
      if is_file env identity l \<and> \<not> force
      then (Inr (PDict [(''migrated'', PBool False), (''reason'', PStr ''already migrated''), (''identity'', read_identity env identity l)]), l)
      else if at_path env source \<notin> set (ly_dirs l)
      then (Inr (PDict ((''migrated'', PBool False) # common @ [(''copied'', PList []), (''skipped'', PList []),
              (''reason'', PStr ''no v0.2.0 install found'')])), l)
      else then_do (copy_all env source dest l) (\<lambda>copied l.
             let l = l\<lparr>ly_files := dput (at_path env identity) (json_indent sf 0 (identity_value dest now)) (ly_files l)\<rparr>
             in (Inr (PDict ((''migrated'', PBool True) # common @ [(''copied'', PList (map PStr copied)), (''skipped'', PList []),
                   (''identity'', read_identity env identity l)])), l)))"

definition migrate_v02 :: "py_env \<Rightarrow> (pyfloat \<Rightarrow> string) \<Rightarrow> string option \<Rightarrow> string option \<Rightarrow> bool \<Rightarrow> pyfloat \<Rightarrow> layout \<Rightarrow> pyval result \<times> layout" where
  "migrate_v02 env sf source dest force now l =
     (case (case explicit_path source of Some p \<Rightarrow> Inr p | None \<Rightarrow> resolve_install_path env sf None) of
        Inl e \<Rightarrow> (Inl e, l)
      | Inr src \<Rightarrow>
          (case resolve_install_path env sf dest of Inl e \<Rightarrow> (Inl e, l) | Inr dst \<Rightarrow> migrate_into env sf src dst force now l))"

section \<open>First-run seeds\<close>

definition seed_facts :: "string \<Rightarrow> 's os \<Rightarrow> (string \<times> pyval) list" where
  "seed_facts version k =
     [(''bootstrap.version'', PStr version), (''bootstrap.seeded'', PBool True),
      (''capabilities'', PList (map PStr (list_capabilities (cn_registry k)))), (''ai_providers'', PList (map PStr (pv_names (cn_providers k))))]"

definition seed_learn :: "bool \<Rightarrow> pyfloat \<Rightarrow> string \<times> pyval \<Rightarrow> 's os \<Rightarrow> unit list result \<times> 's os" where
  "seed_learn ok now f k =
     (let (r, kn) = kn_learn ok now (fst f) (snd f) ''bootstrap'' 1 (cn_knowledge k) in (map_sum id (\<lambda>_. []) r, k\<lparr>cn_knowledge := kn\<rparr>))"

definition seed_experience :: "string \<Rightarrow> exp_row" where
  "seed_experience version = [(''source'', PStr ''bootstrap''), (''target'', PStr ''start''), (''status'', PStr ''done''), (''version'', PStr version)]"

definition seed_world :: "pyfloat \<Rightarrow> (string \<times> pyval) list \<Rightarrow> 's os \<Rightarrow> 's os" where
  "seed_world now fs k = on_world (\<lambda>w. component_status now ''bootstrap'' ''seeded'' [] (fold (\<lambda>(key, v). set_fact now key v) fs w)) k"

definition seed_runtime :: "boot \<Rightarrow> 's os \<Rightarrow> bool result \<times> 's os" where
  "seed_runtime bt k =
     (let now = ce_now (bt_env bt); ok = ce_ok (bt_env bt); fs = seed_facts (bt_version bt) k in
      if kn_recall ''bootstrap.seeded'' PNone (cn_knowledge k) = PBool True then (Inr False, k)
      else then_do (each_do (seed_learn ok now) fs k) (\<lambda>_ k.
             let (r, x) = ex_record now (seed_experience (bt_version bt)) (cn_experience k)
             in then_do (r, k\<lparr>cn_experience := x\<rparr>) (\<lambda>_ k. (Inr True, seed_world now fs k))))"

section \<open>The daemon\<close>

text \<open>
  \<open>acquired\<close> is whether the lock was taken, \<open>beat\<close> the id of the heartbeat's job, \<open>serving\<close> the serve loop until it ends or raises.
  The heartbeat file, which nothing of the kernel reads, is left out.
\<close>

definition arm_heartbeat :: "pyfloat \<Rightarrow> string \<Rightarrow> 's os \<Rightarrow> 's os" where
  "arm_heartbeat now beat k = k\<lparr>os_sched := snd (sch_schedule now beat ''runtime.heartbeat'' (OtherTask 0) 0 (Some 2) 0 (os_sched k))\<rparr>"

definition server_start :: "boot \<Rightarrow> bool \<Rightarrow> string \<Rightarrow> 's os \<Rightarrow> bool result \<times> 's os" where
  "server_start bt acquired beat k =
     (if \<not> acquired then (Inr False, k)
      else then_do (kernel_start bt (k\<lparr>os_lock := Some True\<rparr>)) (\<lambda>_ k. (Inr True, arm_heartbeat (ce_now (bt_env bt)) beat k)))"

definition server_close :: "boot \<Rightarrow> 's os \<Rightarrow> 's os" where
  "server_close bt k = (kernel_stop bt k)\<lparr>os_lock := Some False\<rparr>"

definition run_daemon :: "boot \<Rightarrow> bool \<Rightarrow> string \<Rightarrow> ('s os \<Rightarrow> unit result \<times> 's os) \<Rightarrow> 's os \<Rightarrow> int result \<times> 's os" where
  "run_daemon bt acquired beat serving k =
     then_do (server_start bt acquired beat k) (\<lambda>started k.
       if \<not> started then (Inr 3, k)
       else then_do (seed_runtime bt k) (\<lambda>_ k. let (r, k) = serving k in (map_sum id (\<lambda>_. 0) r, server_close bt k)))"

definition daemon_command :: "string option \<Rightarrow> string \<Rightarrow> string \<Rightarrow> string list" where
  "daemon_command python executable install =
     [case explicit_path python of Some p \<Rightarrow> p | None \<Rightarrow> executable, ''-m'', ''buster.cli'', ''daemon'', ''--install-path'', install]"

definition daemon_env :: "string \<Rightarrow> string sdict \<Rightarrow> string sdict" where
  "daemon_env repo env =
     (let old = dgetd env ''PYTHONPATH'' [] in dput ''PYTHONPATH'' (repo @ (if old = [] then [] else '':'') @ old) env)"

section \<open>A deployed system\<close>

definition system_log_dir :: "string \<Rightarrow> string sdict \<Rightarrow> string" where
  "system_log_dir dflt env = dgetd env ''BUSTER_LOG_DIR'' dflt"

definition system_config_path :: "string sdict \<Rightarrow> string" where
  "system_config_path env = dgetd env ''BUSTER_CONFIG'' system_config"

definition on_deployed_system :: "(string \<Rightarrow> bool) \<Rightarrow> bool" where
  "on_deployed_system isfile \<longleftrightarrow> isfile system_config \<or> isfile ''/usr/share/buster/VERSION'' \<or> isfile ''/opt/buster/lib/buster/version.py''"

definition setdefault :: "string \<Rightarrow> string \<Rightarrow> string sdict \<Rightarrow> string sdict" where
  "setdefault k v d = (if dget d k = None then dput k v d else d)"

definition prepare_env :: "(string \<Rightarrow> bool) \<Rightarrow> string result \<Rightarrow> string \<Rightarrow> string sdict \<Rightarrow> unit result \<times> string sdict" where
  "prepare_env isfile resolved log_dir env =
     (if \<not> on_deployed_system isfile then (Inr (), env)
      else (case resolved of
              Inl e \<Rightarrow> (Inl e, env)
            | Inr p \<Rightarrow> (Inr (), setdefault ''BUSTER_CONFIG'' system_config (setdefault ''BUSTER_LOG_DIR'' log_dir (setdefault ''BUSTER_INSTALL'' p env)))))"

section \<open>What a migration leaves\<close>

definition copies :: "string \<Rightarrow> string \<Rightarrow> (string \<times> string \<times> string) list" where
  "copies source dest = memory_copies source dest @ state_copies source dest @ [config_copy source dest]"

definition src_at :: "py_env \<Rightarrow> string \<times> string \<times> string \<Rightarrow> string" where
  "src_at env m = at_path env (fst m)"

definition dst_at :: "py_env \<Rightarrow> string \<times> string \<times> string \<Rightarrow> string" where
  "dst_at env m = at_path env (fst (snd m))"

definition targets :: "py_env \<Rightarrow> (string \<times> string \<times> string) list \<Rightarrow> string list" where
  "targets env ms = map (dst_at env) ms"

text \<open>The targets are different files and none of them is a source.\<close>

definition apart :: "py_env \<Rightarrow> (string \<times> string \<times> string) list \<Rightarrow> bool" where
  "apart env ms \<longleftrightarrow> distinct (targets env ms) \<and> (\<forall>m\<in>set ms. src_at env m \<notin> set (targets env ms))"

text \<open>Every file that was there has been copied as it was, and no other file has changed.\<close>

definition moved :: "py_env \<Rightarrow> (string \<times> string \<times> string) list \<Rightarrow> layout \<Rightarrow> layout \<Rightarrow> bool" where
  "moved env ms l l' \<longleftrightarrow>
     (\<forall>m\<in>set ms. dget (ly_files l') (dst_at env m) =
        (if is_file env (fst m) l then dget (ly_files l) (src_at env m) else dget (ly_files l) (dst_at env m))) \<and>
     (\<forall>p. p \<notin> set (targets env ms) \<longrightarrow> dget (ly_files l') p = dget (ly_files l) p)"

definition present :: "py_env \<Rightarrow> (string \<times> string \<times> string) list \<Rightarrow> layout \<Rightarrow> string list" where
  "present env ms l = map (\<lambda>m. snd (snd m)) (filter (\<lambda>m. is_file env (fst m) l) ms)"

lemma dir_made_files [simp]: "ly_files (dir_made env p l) = ly_files l" "is_file env q (dir_made env p l) \<longleftrightarrow> is_file env q l"
  by (simp_all add: dir_made_def layout_dir_def is_file_def)

lemma moved_dirs [simp]: "moved env ms (dir_made env p l) l' \<longleftrightarrow> moved env ms l l'" "present env ms (dir_made env p l) = present env ms l"
  by (simp_all add: moved_def present_def)

lemma apart_append:
  "apart env (xs @ ys) \<Longrightarrow> apart env xs \<and> apart env ys \<and> set (targets env xs) \<inter> set (targets env ys) = {} \<and>
     (\<forall>m\<in>set ys. src_at env m \<notin> set (targets env xs))"
  by (auto simp: apart_def targets_def)

lemma moved_then:
  assumes "moved env xs l l1" and "moved env ys l1 l2" and "apart env (xs @ ys)"
  shows "moved env (xs @ ys) l l2" "present env ys l1 = present env ys l"
proof -
  note sep = apart_append [OF assms(3)]
  have source: "dget (ly_files l1) (src_at env m) = dget (ly_files l) (src_at env m)" if "m \<in> set ys" for m
    using assms(1) sep that unfolding moved_def by blast
  have there: "is_file env (fst m) l1 \<longleftrightarrow> is_file env (fst m) l" if "m \<in> set ys" for m
    using source [OF that] by (simp add: is_file_def src_at_def)
  show "present env ys l1 = present env ys l"
    unfolding present_def using there by (intro arg_cong [where f = "map _"] filter_cong) auto
  have target: "dst_at env m \<in> set (targets env zs)" if "m \<in> set zs" for m zs using that by (simp add: targets_def)
  have "dget (ly_files l2) (dst_at env m) =
      (if is_file env (fst m) l then dget (ly_files l) (src_at env m) else dget (ly_files l) (dst_at env m))" if m: "m \<in> set (xs @ ys)" for m
  proof (cases "m \<in> set ys")
    case True
    then have "dget (ly_files l1) (dst_at env m) = dget (ly_files l) (dst_at env m)"
      using assms(1) target [OF True] sep unfolding moved_def by blast
    moreover have "dget (ly_files l2) (dst_at env m) =
        (if is_file env (fst m) l1 then dget (ly_files l1) (src_at env m) else dget (ly_files l1) (dst_at env m))"
      using assms(2) True by (simp add: moved_def)
    ultimately show ?thesis using source [OF True] there [OF True] by simp
  next
    case False
    then have x: "m \<in> set xs" using m by simp
    then have "dget (ly_files l2) (dst_at env m) = dget (ly_files l1) (dst_at env m)"
      using assms(2) target [OF x] sep unfolding moved_def by blast
    then show ?thesis using assms(1) x by (simp add: moved_def)
  qed
  moreover have "dget (ly_files l2) p = dget (ly_files l) p" if "p \<notin> set (targets env (xs @ ys))" for p
    using assms(1,2) that by (simp add: moved_def targets_def)
  ultimately show "moved env (xs @ ys) l l2" unfolding moved_def by blast
qed

lemma copy_one:
  assumes "apart env [m]"
  shows "\<exists>l'. copy_present env m l = (Inr (present env [m] l), l') \<and> moved env [m] l l' \<and> ly_dirs l' = ly_dirs l"
proof -
  obtain s d n where m: "m = (s, d, n)" by (cases m)
  with assms have "at_path env s \<noteq> at_path env d" by (simp add: apart_def targets_def src_at_def dst_at_def)
  then show ?thesis
    by (auto simp: m copy_present_def copy2_def present_def moved_def targets_def is_file_def src_at_def dst_at_def split: option.split)
qed

lemma copies_run:
  assumes "apart env ms"
  shows "\<exists>l'. each_do (copy_present env) ms l = (Inr (present env ms l), l') \<and> moved env ms l l' \<and> ly_dirs l' = ly_dirs l"
  using assms
proof (induction ms arbitrary: l)
  case (Cons m ms)
  have ap: "apart env ([m] @ ms)" using Cons.prems by simp
  note sep = apart_append [OF ap]
  then have one: "apart env [m]" and rest: "apart env ms" by blast+
  obtain l1 where l1: "copy_present env m l = (Inr (present env [m] l), l1)" "moved env [m] l l1" "ly_dirs l1 = ly_dirs l"
    using copy_one [OF one] by blast
  obtain l2 where l2: "each_do (copy_present env) ms l1 = (Inr (present env ms l1), l2)" "moved env ms l1 l2" "ly_dirs l2 = ly_dirs l1"
    using Cons.IH [OF rest] by blast
  have "present env [m] l @ present env ms l = present env (m # ms) l" by (simp add: present_def)
  then show ?case using l1 l2 moved_then [OF l1(2) l2(2) ap] by simp
qed (simp add: moved_def present_def)

lemma config_run:
  assumes "apart env [config_copy source dest]"
  shows "\<exists>l'. copy_config env source dest l = (Inr (present env [config_copy source dest] l), l') \<and> moved env [config_copy source dest] l l'"
proof (cases "is_file env (fst (config_copy source dest)) l")
  case True
  then show ?thesis
    using copy_one [OF assms, of "dir_made env (path_join dest ''config'') l"] by (auto simp: copy_config_def)
next
  case False
  obtain s d n where m: "config_copy source dest = (s, d, n)" by (cases "config_copy source dest")
  with False show ?thesis by (simp add: copy_config_def present_def moved_def targets_def)
qed

lemma copy_all_run:
  assumes "apart env (copies source dest)"
  shows "\<exists>l'. copy_all env source dest l = (Inr (present env (copies source dest) l), l') \<and> moved env (copies source dest) l l'"
proof -
  let ?a = "memory_copies source dest" and ?b = "state_copies source dest" and ?c = "[config_copy source dest]"
  have abc: "apart env (?a @ (?b @ ?c))" using assms by (simp add: copies_def)
  note a = apart_append [OF abc]
  then have bc: "apart env (?b @ ?c)" by blast
  note b = apart_append [OF bc]
  obtain l1 where l1: "each_do (copy_present env) ?a (dir_made env (path_join dest ''memory'') l) = (Inr (present env ?a l), l1)" "moved env ?a l l1"
    using copies_run [of env ?a "dir_made env (path_join dest ''memory'') l"] a by auto
  obtain l2 where l2: "each_do (copy_present env) ?b (dir_made env (path_join dest ''state'') l1) = (Inr (present env ?b l1), l2)" "moved env ?b l1 l2"
    using copies_run [of env ?b "dir_made env (path_join dest ''state'') l1"] b by auto
  obtain l3 where l3: "copy_config env source dest l2 = (Inr (present env ?c l2), l3)" "moved env ?c l2 l3"
    using config_run b by blast
  note m = moved_then [OF l2(2) l3(2) bc]
  note n = moved_then [OF l1(2) m(1) abc]
  have "present env ?b l1 @ present env ?c l2 = present env (?b @ ?c) l" using m(2) n(2) by (simp add: present_def)
  then have "present env ?a l @ present env ?b l1 @ present env ?c l2 = present env (copies source dest) l"
    by (simp add: present_def copies_def)
  then show ?thesis using n(1) by (auto simp: copy_all_def l1 l2 l3 copies_def)
qed

definition migrated_to :: "string \<Rightarrow> string \<Rightarrow> string list \<Rightarrow> pyval \<Rightarrow> pyval sdict \<Rightarrow> bool" where
  "migrated_to source dest names identity r \<longleftrightarrow>
     r = [(''migrated'', PBool True), (''from'', PStr source), (''to'', PStr dest), (''copied'', PList (map PStr names)), (''skipped'', PList []), (''identity'', identity)]"

text \<open>
  C40. A migration into a fresh destination copies every persistent file the older install has, exactly as it was, reports exactly those,
  and changes no other file but the identity; a second migration finds the identity, copies nothing and changes no file.
\<close>

theorem migration_complete:
  assumes "apart env (copies source dest)" and "\<not> is_file env (identity_path dest) l"
    and "at_path env (identity_path dest) \<notin> set (targets env (copies source dest))"
    and "at_path env source \<in> set (ly_dirs (dir_made env dest l))"
  shows "\<exists>r l1 l'. migrate_into env sf source dest force now l = (Inr (PDict r), l') \<and>
     moved env (copies source dest) l l1 \<and>
     ly_files l' = dput (at_path env (identity_path dest)) (json_indent sf 0 (identity_value dest now)) (ly_files l1) \<and>
     migrated_to source dest (present env (copies source dest) l) (read_identity env (identity_path dest) l') r \<and>
     (\<exists>v. migrate_into env sf source dest False later l' = (Inr (PDict [(''migrated'', PBool False), (''reason'', PStr ''already migrated''), (''identity'', v)]),
        dir_made env dest l'))"
proof -
  obtain l1 where l1: "copy_all env source dest (dir_made env dest l) = (Inr (present env (copies source dest) l), l1)" "moved env (copies source dest) l l1"
    using copy_all_run [OF assms(1), of "dir_made env dest l"] by auto
  let ?l = "l1\<lparr>ly_files := dput (at_path env (identity_path dest)) (json_indent sf 0 (identity_value dest now)) (ly_files l1)\<rparr>"
  have "migrate_into env sf source dest force now l = (Inr (PDict [(''migrated'', PBool True), (''from'', PStr source), (''to'', PStr dest),
      (''copied'', PList (map PStr (present env (copies source dest) l))), (''skipped'', PList []),
      (''identity'', read_identity env (identity_path dest) ?l)]), ?l)"
    using assms(2,4) l1(1) by (simp add: migrate_into_def Let_def)
  moreover have "is_file env (identity_path dest) ?l" by (simp add: is_file_def)
  then obtain v where "migrate_into env sf source dest False later ?l = (Inr (PDict [(''migrated'', PBool False), (''reason'', PStr ''already migrated''), (''identity'', v)]),
        dir_made env dest ?l)"
    by (auto simp: migrate_into_def Let_def)
  ultimately show ?thesis using l1(2) 
    by (intro exI [of _ l1] exI [of _ ?l] exI) (simp add: migrated_to_def)
qed

definition old_layout :: layout where
  "old_layout = \<lparr>ly_dirs = [''/old''], ly_files = [(''/old/memory/memory.json'', ''kept''), (''/new/notes'', ''mine'')]\<rparr>"

theorem migration_complete_witness:
  "\<exists>r l'. migrate_into Config.demo_env (\<lambda>_. []) ''/old'' ''/new'' False 7 old_layout = (Inr (PDict r), l') \<and>
     dget (ly_files l') ''/new/memory/memory.json'' = Some ''kept'' \<and> dget (ly_files l') ''/new/notes'' = Some ''mine'' \<and>
     dget r ''copied'' = Some (PList [PStr ''memory/memory.json''])"
proof -
  let ?env = "Config.demo_env" and ?ms = "copies ''/old'' ''/new''"
  have apart: "apart ?env ?ms" by code_simp
  have marker: "\<not> is_file ?env (identity_path ''/new'') old_layout" "at_path ?env (identity_path ''/new'') \<notin> set (targets ?env ?ms)" by code_simp+
  have dir: "at_path ?env ''/old'' \<in> set (ly_dirs (dir_made ?env ''/new'' old_layout))" by code_simp
  obtain r l1 l' where m: "migrate_into ?env (\<lambda>_. []) ''/old'' ''/new'' False 7 old_layout = (Inr (PDict r), l')" "moved ?env ?ms old_layout l1"
    "ly_files l' = dput (at_path ?env (identity_path ''/new'')) (json_indent (\<lambda>_. []) 0 (identity_value ''/new'' 7)) (ly_files l1)"
    "migrated_to ''/old'' ''/new'' (present ?env ?ms old_layout) (read_identity ?env (identity_path ''/new'') l') r"
    using migration_complete [OF apart marker dir, of "\<lambda>_. []" False 7] by blast
  have memory: "hd ?ms \<in> set ?ms" "is_file ?env (fst (hd ?ms)) old_layout" "src_at ?env (hd ?ms) = ''/old/memory/memory.json''"
    "dst_at ?env (hd ?ms) = ''/new/memory/memory.json''" "present ?env ?ms old_layout = [''memory/memory.json'']"
    "''/new/notes'' \<notin> set (targets ?env ?ms)" "at_path ?env (identity_path ''/new'') = ''/new/identity.json''"
    by code_simp+
  have "dget (ly_files l1) ''/new/memory/memory.json'' = Some ''kept''"
    using m(2) memory(1,2,3,4) unfolding moved_def by (metis (no_types) map_of_Cons_code(2) layout.select_convs(2) old_layout_def)
  moreover have "dget (ly_files l1) ''/new/notes'' = Some ''mine''"
    using m(2) memory(6) by (simp add: moved_def old_layout_def)
  ultimately show ?thesis using m(1,3,4) memory(5,7) by (simp add: migrated_to_def)
qed

text \<open>
  Without arguments the source and the destination are the same install, so the migration fails at the first file it
  would keep.
\<close>

lemma default_migration_fails:
  assumes "resolve_install_path env sf None = Inr p" and "\<not> is_file env (identity_path p) l"
    and "is_file env (path_join (path_join p ''memory'') ''memory.json'') l"
  shows "fst (migrate_v02 env sf None None False now l) =
    Inl (same_file_error (path_join (path_join p ''memory'') ''memory.json'') (path_join (path_join p ''memory'') ''memory.json''))"
  using assms
  by (simp add: migrate_v02_def explicit_path_def migrate_into_def Let_def copy_all_def memory_copies_def memory_files_def copy_present_def copy2_def)
    (simp add: dir_made_def layout_dir_def)

section \<open>What the seeds leave\<close>

lemma seed_learn_frame:
  "cn_world (snd (seed_learn ok now f k)) = cn_world k" "cn_registry (snd (seed_learn ok now f k)) = cn_registry k"
  "os_phase (snd (seed_learn ok now f k)) = os_phase k" "os_lock (snd (seed_learn ok now f k)) = os_lock k"
  by (simp_all add: seed_learn_def case_prod_unfold Let_def)

text \<open>An entry that is held with more confidence than a seed is not replaced.\<close>

lemma learnt_value:
  assumes "\<And>e. dget es key = Some e \<Longrightarrow> kn_confidence e \<le> 1"
  shows "\<exists>e. dget (learn_entry now key v src 1 es) key = Some e \<and> kn_value e = v"
  using assms by (cases "dget es key") (auto simp: learn_entry_def Let_def)

lemma learn_other: "key' \<noteq> key \<Longrightarrow> dget (learn_entry now key v src c es) key' = dget es key'"
  by (auto simp: learn_entry_def Let_def split: option.split)

lemma seed_marker:
  assumes "fst (each_do (seed_learn ok now) [a, (key, v), b, c] k) = Inr u"
    and "\<And>e. dget (kn_entries (cn_knowledge k)) key = Some e \<Longrightarrow> kn_confidence e \<le> 1"
    and "fst a \<noteq> key" "fst b \<noteq> key" "fst c \<noteq> key"
  shows "kn_recall key d (cn_knowledge (snd (each_do (seed_learn ok now) [a, (key, v), b, c] k))) = v"
proof -
  have e: "kn_entries (cn_knowledge (snd (seed_learn ok now f k))) = learn_entry now (fst f) (snd f) ''bootstrap'' 1 (kn_entries (cn_knowledge k))" for f and k :: "'a os"
    by (simp add: seed_learn_def kn_learn_def kn_save_def case_prod_unfold Let_def)
  let ?k = "snd (each_do (seed_learn ok now) [a, (key, v), b, c] k)"
  have "?k = snd (seed_learn ok now c (snd (seed_learn ok now b (snd (seed_learn ok now (key, v) (snd (seed_learn ok now a k)))))))"
    using assms(1) by (auto simp: then_do_def case_prod_unfold split: sum.splits)
  then have "dget (kn_entries (cn_knowledge ?k)) key = dget (learn_entry now key v ''bootstrap'' 1 (learn_entry now (fst a) (snd a) ''bootstrap'' 1 (kn_entries (cn_knowledge k)))) key"
    using assms(4,5) by (simp add: e learn_other)
  moreover obtain x where "dget (learn_entry now key v ''bootstrap'' 1 (learn_entry now (fst a) (snd a) ''bootstrap'' 1 (kn_entries (cn_knowledge k)))) key = Some x"
    "kn_value x = v"
    using learnt_value [of "learn_entry now (fst a) (snd a) ''bootstrap'' 1 (kn_entries (cn_knowledge k))" key now v "''bootstrap''"]
      assms(2,3) by (auto simp: learn_other)
  ultimately show ?thesis by (simp add: kn_recall_def)
qed

text \<open>Seeding a second time changes nothing, and so it never refreshes what the first run learnt, the version included.\<close>

lemma seeded_once:
  assumes "fst (seed_runtime bt k) = Inr True"
    and "\<And>e. dget (kn_entries (cn_knowledge k)) ''bootstrap.seeded'' = Some e \<Longrightarrow> kn_confidence e \<le> 1"
  shows "seed_runtime bt' (snd (seed_runtime bt k)) = (Inr False, snd (seed_runtime bt k))"
proof -
  let ?l = "each_do (seed_learn (ce_ok (bt_env bt)) (ce_now (bt_env bt))) (seed_facts (bt_version bt) k) k"
  have fresh: "kn_recall ''bootstrap.seeded'' PNone (cn_knowledge k) \<noteq> PBool True"
    using assms(1) by (auto simp: seed_runtime_def Let_def)
  then obtain u where u: "fst ?l = Inr u"
    using assms(1) by (cases ?l; cases "fst ?l") (auto simp: seed_runtime_def Let_def)
  have "kn_recall ''bootstrap.seeded'' PNone (cn_knowledge (snd ?l)) = PBool True"
    unfolding seed_facts_def
    by (rule seed_marker) (use u assms(2) in \<open>simp_all add: seed_facts_def\<close>)
  moreover have "cn_knowledge (snd (seed_runtime bt k)) = cn_knowledge (snd ?l)"
    using fresh assms(1) u by (cases ?l) (auto simp: seed_runtime_def Let_def seed_world_def on_world_def then_do_def case_prod_unfold split: sum.splits)
  ultimately show ?thesis by (simp add: seed_runtime_def)
qed

text \<open>A start that finds the seeds leaves the world model of the new process without them.\<close>

lemma later_start_unseeded:
  "kn_recall ''bootstrap.seeded'' PNone (cn_knowledge k) = PBool True \<Longrightarrow> seed_runtime bt k = (Inr False, k)"
  by (simp add: seed_runtime_def)

section \<open>What the daemon leaves\<close>

lemma refused_daemon: "run_daemon bt False beat serving k = (Inr 3, k)"
  by (simp add: run_daemon_def server_start_def)

lemma closed_phase: "os_phase (server_close bt k) = KStopped" "os_lock (server_close bt k) = Some False"
  by (auto simp: server_close_def kernel_stop_def case_prod_unfold Let_def)

text \<open>Once it serves, a daemon stops its kernel and gives the lock back however the serving ends.\<close>

lemma served_daemon:
  assumes "server_start bt True beat k = (Inr True, k1)" and "seed_runtime bt k1 = (Inr b, k2)"
  shows "run_daemon bt True beat serving k = (map_sum id (\<lambda>_. 0) (fst (serving k2)), server_close bt (snd (serving k2)))"
    and "os_phase (snd (run_daemon bt True beat serving k)) = KStopped \<and> os_lock (snd (run_daemon bt True beat serving k)) = Some False"
  using assms by (simp_all add: run_daemon_def case_prod_unfold Let_def closed_phase)

text \<open>A failure before that, while starting or seeding, ends the process with the lock held and the kernel as it was.\<close>

lemma failed_seed_keeps_lock:
  assumes "server_start bt True beat k = (Inr True, k1)" and "fst (seed_runtime bt k1) = Inl e"
  shows "run_daemon bt True beat serving k = (Inl e, snd (seed_runtime bt k1))"
    and "os_lock (snd (run_daemon bt True beat serving k)) = os_lock k1"
proof -
  show r: "run_daemon bt True beat serving k = (Inl e, snd (seed_runtime bt k1))"
    using assms by (cases "seed_runtime bt k1") (simp add: run_daemon_def)
  have fold: "os_lock (snd (each_do (seed_learn ok now) fs k)) = os_lock k" for ok now fs and k :: "'a os"
    by (rule each_do_keeps [where P = "\<lambda>k'. os_lock k' = os_lock k"]) (simp_all add: seed_learn_frame)
  let ?now = "ce_now (bt_env bt)" and ?ok = "ce_ok (bt_env bt)" and ?fs = "seed_facts (bt_version bt) k1"
  define rest :: "unit list \<Rightarrow> 'a os \<Rightarrow> bool result \<times> 'a os" where
    "rest = (\<lambda>_ k. let (r, x) = ex_record ?now (seed_experience (bt_version bt)) (cn_experience k)
       in then_do (r, k\<lparr>cn_experience := x\<rparr>) (\<lambda>_ k. (Inr True, seed_world ?now ?fs k)))"
  have rest: "os_lock (snd (rest u k)) = os_lock k" for u k
    by (simp add: rest_def case_prod_unfold Let_def then_do_def seed_world_def on_world_def split: sum.split)
  have unseeded: "kn_recall ''bootstrap.seeded'' PNone (cn_knowledge k1) \<noteq> PBool True"
    using assms(2) later_start_unseeded [of k1 bt] by auto
  have "seed_runtime bt k1 = then_do (each_do (seed_learn ?ok ?now) ?fs k1) rest"
    using unseeded by (simp only: seed_runtime_def rest_def Let_def if_False)
  then have "os_lock (snd (seed_runtime bt k1)) = os_lock k1"
    by (simp only:) (rule then_do_keeps [where P = "\<lambda>k'. os_lock k' = os_lock k1"], simp_all only: fold rest)
  then show "os_lock (snd (run_daemon bt True beat serving k)) = os_lock k1" by (simp add: r)
qed

text \<open>The environment of a deployed system keeps every value the user set.\<close>

lemma setdefault_keeps: "dget d k = Some v \<Longrightarrow> dget (setdefault k' w d) k = Some v"
  by (auto simp: setdefault_def)

lemma prepared_env_keeps: "dget env k = Some v \<Longrightarrow> dget (snd (prepare_env isfile resolved log_dir env)) k = Some v"
  by (simp add: prepare_env_def setdefault_keeps split: sum.split)

end
