(* ===== verification/Spec2Isabelle.thy ===== *)
theory Spec2Isabelle
  imports Permissions Security Scheduler Event_Router World_Model Capabilities
    Memory Config Shell Runtime_Lock Runtime Resolver Exec Deb Targets Rootfs Os_Files Attention Goals Recollection Planner Plans Insight Cognition Brain Lifecycle Mind_Rpc Gui Files Host_Caps Launch Doctor Cli Release Legacy Sensors Tool_Caps Setup
begin

text \<open>
  Verification library of Buster OS, the \<open>buster\<close> package: an agent runtime with one kernel process, reached by a
  request directory, a web interface, an interactive shell and a typed bridge, and the tools that build its root
  filesystem. Sources are named relative to \<open>src/\<close>.

  THE PROGRAM. A \<open>Kernel\<close> (\<open>buster/kernel/core.py\<close>) owns an event router, a scheduler, a permission gate, a security
  context with elevation and delete protection, a capability registry, memory stores, a world model, an audit trail,
  agents and AI providers, and the intelligence layer (\<open>buster/intelligence\<close>): senses, rhythm, attention, goals,
  plans, memory coordination, reflection and the orchestrator that processes goals and ticks on the scheduler. One
  process holds the runtime lock and serves requests (\<open>buster/runtime.py\<close>); the clients send it operations. A call of
  an action goes through the registry, which asks the gate, invokes the capability and records events and audit. The
  build tools (\<open>buster/osbuild\<close>, \<open>build_rootfs.py\<close>) resolve packages, unpack archives, and pack and verify a root
  filesystem.

  HOW IT IS MODELLED. Every operation is a function of the source's branches that returns its result and the changed
  state; an exception is the left summand of a result (\<^const>\<open>Inl\<close>), its class and message in \<^typ>\<open>exc\<close>. Values are
  \<^typ>\<open>pyval\<close>, dictionaries are insertion-ordered association lists, text is a list of characters below 256, a float is
  the rational it denotes (no rounding, no infinities), integers are unbounded as in Python. Time, random identifiers,
  the contents of files that other processes write, which writes the host refuses, HTTP, decompression, hashes, regular
  expressions, host programs and AI providers are arguments. Concurrency is a step relation where the code has threads
  or processes (\<open>Scheduler\<close>, \<open>Event_Router\<close>, \<open>Runtime_Lock\<close>). State of the kernel grows by record extension:
  \<open>cognition\<close> (Cognition), \<open>brain\<close> (Brain), \<open>os\<close> (Lifecycle).

  THEORIES, in the order of their imports:
    \<^item> Prelude, Py_String, Json, Json_Parse: values, dictionaries, slices, text and POSIX paths, the writer and reader of
      JSON with their round trip. A reader's fuel is \<open>2 * length + 2\<close>: every step of it consumes a character.
    \<^item> Permissions, Security: the gate, its rules and evaluators; contexts, elevation, delete protection.
    \<^item> Scheduler, Event_Router, World_Model: the heap of jobs with workers as a step relation; the queue and its loop;
      world model, agent manager and audit trail.
    \<^item> Capabilities: capabilities, adapters, registry and the dispatch of a call (\<open>buster/capabilities\<close>).
    \<^item> Memory, Config, Shell: stores, experience, knowledge, reflection; install paths, configuration, bootstrap and
      workspaces; the shell's parser and session.
    \<^item> Runtime_Lock, Runtime: the lock file under interleaved processes; request directory, dispatch, client and facade.
    \<^item> Resolver, Exec, Deb, Targets, Rootfs, Os_Files: package index and resolution, the typed bridge, archives, build
      targets with ELF check and manifests, the root filesystem tree with overlay and tar, account and package databases.
    \<^item> Nervous, Attention, Goals, Plans, Recollection, Planner, Insight: the organs of the intelligence layer. The planner's
      loop takes its rounds from the agent's own bound.
    \<^item> Cognition, Brain, Lifecycle: processing a goal; the tick and the reactions to events; construction, start and stop
      of the kernel.
    \<^item> Mind_Rpc, Gui: the operations of the daemon on the intelligence layer; the web interface (\<open>buster/gui/server.py\<close>).
    \<^item> Files, Host_Caps: the file system capability over a directory tree; search, shell, git, kill and terminal. The walk
      of a search has the depth of the tree as its fuel.

  WHAT THE LEMMAS SHOW. Per component: the verdict or result of every operation by branch; invariants kept by every
  operation (bounds of queues and histories, key uniqueness, one active goal per title, well-formed trees, exclusive
  execution of a job, one live lock holder); safety of what may run (calls behind the gate, denials that stay final
  across grants, shell lines, messages and web requests, agents inside their role, closed vocabularies); round trips of
  what is written and read (JSON, stores, archives, databases, files, shell words); refinements (the overlay of a payload,
  the order of versions); errors that end in a defined answer. Theorems are numbered C1 to C40 as in the manifest; a
  lemma named in a finding exhibits a behaviour that the code does not intend.

  INTERFACES. \<open>deny_gate\<close> (Permissions): a gate whose denials are sticky, interpreted by the rule store. \<open>daemon_client\<close>
  (Gui): a client of a daemon that sends only known operations, interpreted on the runtime server.

  NOT MODELLED. Log output; the wording of host errors; sockets and HTTP headers; symbolic links and permission bits in
  the file system capability; the sensors, the Android integration and the remote provider, which only read the host or
  the network; argument parsing of the build scripts; the Kotlin application and the JavaScript client, which are other
  languages; the tests.
\<close>

end
